(* ===== verification/Prelude.thy ===== *)
theory Prelude
  imports Main "HOL-Library.Word"
begin

text \<open>
  What every component of the development shares.

  \<^item> Results: a Rust \<open>Result<T, E>\<close> is a value of \<open>'e + 'a\<close> (\<open>Inl\<close> the error); the
    \<open>?\<close> operator is \<open>rbind\<close>, an \<open>if .. { return Err(e) }\<close> guard is \<open>ensure\<close>,
    \<open>ok_or\<close> turns an \<open>Option\<close> into a result and \<open>for_each\<close> is a \<open>for\<close> loop whose
    body may leave early with an error.
  \<^item> Machine integers: \<open>u8\<close>, \<open>u32\<close> and \<open>u64\<close> are words; \<open>checked_add\<close>,
    \<open>saturating_add\<close> and \<open>saturating_sub\<close> are Rust's, the plain \<open>+\<close> of a word wraps.
    An \<open>i64\<close> is an \<open>int\<close> whose range is written where the code depends on it.
  \<^item> Strings: a Rust \<open>String\<close> is the list of its UTF-8 bytes (\<open>string\<close>), so
    \<open>length\<close> is \<open>len()\<close>; trimming, control characters, character boundaries and hex
    digits are defined on bytes as the standard library defines them on code points.
  \<^item> Lists: update of the first element that matches (\<open>iter_mut().find(..)\<close>).
\<close>

named_theorems result_simps \<open>unfolding of result combinators\<close>
named_theorems word_facts \<open>machine integers read as natural numbers\<close>

section \<open>Results\<close>

definition rbind :: "'e + 'a \<Rightarrow> ('a \<Rightarrow> 'e + 'b) \<Rightarrow> 'e + 'b" where
  "rbind m f = (case m of Inl e \<Rightarrow> Inl e | Inr x \<Rightarrow> f x)"

definition ensure :: "bool \<Rightarrow> 'e \<Rightarrow> 'e + unit" where
  "ensure b e = (if b then Inr () else Inl e)"

definition ok_or :: "'a option \<Rightarrow> 'e \<Rightarrow> 'e + 'a" where
  "ok_or x e = (case x of None \<Rightarrow> Inl e | Some v \<Rightarrow> Inr v)"

definition is_ok :: "'e + 'a \<Rightarrow> bool" where
  "is_ok r = (case r of Inl _ \<Rightarrow> False | Inr _ \<Rightarrow> True)"

fun for_each :: "('a \<Rightarrow> 'e + unit) \<Rightarrow> 'a list \<Rightarrow> 'e + unit" where
  "for_each f [] = Inr ()"
| "for_each f (x # xs) = rbind (f x) (\<lambda>_. for_each f xs)"

lemma rbind_simps [simp]:
  "rbind (Inl e) f = Inl e"
  "rbind (Inr x) f = f x"
  by (simp_all add: rbind_def)

lemma rbind_eq_Inr [simp]: "rbind m f = Inr y \<longleftrightarrow> (\<exists>x. m = Inr x \<and> f x = Inr y)"
  by (cases m) auto

lemma rbind_eq_Inl: "rbind m f = Inl e \<longleftrightarrow> m = Inl e \<or> (\<exists>x. m = Inr x \<and> f x = Inl e)"
  by (cases m) auto

lemma ensure_eq_Inr [simp]: "ensure b e = Inr u \<longleftrightarrow> b"
  by (simp add: ensure_def)

lemma ensure_eq_Inl [simp]: "ensure b e = Inl e' \<longleftrightarrow> \<not> b \<and> e' = e"
  by (auto simp: ensure_def)

lemma ensure_simps [simp]: "ensure True e = Inr ()" "ensure False e = Inl e"
  by (simp_all add: ensure_def)

lemma ok_or_eq_Inr [simp]: "ok_or x e = Inr v \<longleftrightarrow> x = Some v"
  by (auto simp: ok_or_def split: option.splits)

lemma ok_or_eq_Inl [simp]: "ok_or x e = Inl e' \<longleftrightarrow> x = None \<and> e' = e"
  by (auto simp: ok_or_def split: option.splits)

lemma ok_or_simps [simp]: "ok_or None e = Inl e" "ok_or (Some v) e = Inr v"
  by (simp_all add: ok_or_def)

lemma is_ok_simps [simp]: "is_ok (Inr x)" "\<not> is_ok (Inl e)"
  by (simp_all add: is_ok_def)

lemma is_ok_iff: "is_ok r \<longleftrightarrow> (\<exists>x. r = Inr x)"
  by (cases r) auto

lemma for_each_eq_Inr [simp]: "for_each f xs = Inr u \<longleftrightarrow> (\<forall>x\<in>set xs. f x = Inr ())"
  by (induction xs) auto

lemma unit_result_cases: "(r :: 'e + unit) = Inr () \<or> (\<exists>e. r = Inl e)"
  by (cases r) auto

lemmas result_defs = rbind_def ensure_def ok_or_def is_ok_def

section \<open>Machine integers\<close>

type_synonym u8 = "8 word"
type_synonym u32 = "32 word"
type_synonym u64 = "64 word"

definition checked_add :: "'a::len word \<Rightarrow> 'a word \<Rightarrow> 'a word option" where
  "checked_add a b = (if unat a + unat b < 2 ^ LENGTH('a) then Some (a + b) else None)"

definition saturating_add :: "'a::len word \<Rightarrow> 'a word \<Rightarrow> 'a word" where
  "saturating_add a b = (if unat a + unat b < 2 ^ LENGTH('a) then a + b else - 1)"

definition saturating_sub :: "'a::len word \<Rightarrow> 'a word \<Rightarrow> 'a word" where
  "saturating_sub a b = (if b \<le> a then a - b else 0)"

lemma unat_less_len: "unat (a :: 'a::len word) < 2 ^ LENGTH('a)"
  by (rule unsigned_less)

lemma unat_u64 [word_facts]: "unat (a :: u64) < 18446744073709551616"
  using unat_less_len[of a] by simp

lemma unat_u32 [word_facts]: "unat (a :: u32) < 4294967296"
  using unat_less_len[of a] by simp

lemma unat_add_exact:
  "unat a + unat b < 2 ^ LENGTH('a) \<Longrightarrow> unat (a + b :: 'a::len word) = unat a + unat b"
  by (simp add: unat_word_ariths)

lemma unat_ucast_mod: "unat (ucast w :: 'b::len word) = unat (w :: 'a::len word) mod 2 ^ LENGTH('b)"
  by (simp add: unsigned_ucast_eq take_bit_eq_mod)

lemma unat_eqI: "unat a = unat b \<Longrightarrow> a = (b :: 'a::len word)"
  by (metis unsigned_word_eqI)

lemma checked_add_Some_iff:
  "checked_add a b = Some c \<longleftrightarrow>
   unat (a :: 'a::len word) + unat b < 2 ^ LENGTH('a) \<and> unat c = unat a + unat b"
  by (auto simp: checked_add_def unat_add_exact intro: unat_eqI)

lemma checked_add_None_iff:
  "checked_add a b = None \<longleftrightarrow> 2 ^ LENGTH('a) \<le> unat (a :: 'a::len word) + unat b"
  by (auto simp: checked_add_def)

lemma unat_saturating_add [word_facts]:
  "unat (saturating_add a b :: 'a::len word) = min (unat a + unat b) (2 ^ LENGTH('a) - 1)"
  by (auto simp: saturating_add_def unat_add_exact unsigned_minus_1_eq_mask mask_eq_exp_minus_1)

lemma unat_saturating_sub [word_facts]: "unat (saturating_sub a b) = unat a - unat b"
  by (auto simp: saturating_sub_def unat_sub word_le_nat_alt)

lemma saturating_add_mono: "a \<le> saturating_add (a :: 'a::len word) b"
  using unat_less_len[of a] by (simp add: word_le_nat_alt unat_saturating_add le_diff_conv2 Suc_le_eq)

lemma checked_succ_gt: "checked_add a 1 = Some c \<Longrightarrow> unat (a :: 'a::len word) < unat c"
  by (auto simp: checked_add_Some_iff)

lemma word_checked_succ: "checked_add a 1 = Some c \<Longrightarrow> a < (c :: 'a::len word)"
  by (auto simp: word_less_nat_alt dest: checked_succ_gt)

definition i64_min :: int where "i64_min = - (2 ^ 63)"
definition i64_max :: int where "i64_max = 2 ^ 63 - 1"

definition in_i64 :: "int \<Rightarrow> bool" where
  "in_i64 x \<longleftrightarrow> i64_min \<le> x \<and> x \<le> i64_max"

definition saturating_sub_i64 :: "int \<Rightarrow> int \<Rightarrow> int" where
  "saturating_sub_i64 a b = max i64_min (min i64_max (a - b))"

section \<open>Strings as UTF-8 bytes\<close>

definition byte :: "char \<Rightarrow> nat" where
  "byte c = of_char c"

definition is_continuation :: "char \<Rightarrow> bool" where
  "is_continuation c \<longleftrightarrow> 128 \<le> byte c \<and> byte c < 192"

definition is_hexdigit :: "char \<Rightarrow> bool" where
  "is_hexdigit c \<longleftrightarrow> c \<in> set ''0123456789abcdefABCDEF''"

definition is_lowercase :: "char \<Rightarrow> bool" where
  "is_lowercase c \<longleftrightarrow> c \<in> set ''abcdefghijklmnopqrstuvwxyz''"

definition is_digit :: "char \<Rightarrow> bool" where
  "is_digit c \<longleftrightarrow> c \<in> set ''0123456789''"

definition is_alphanumeric :: "char \<Rightarrow> bool" where
  "is_alphanumeric c \<longleftrightarrow> is_digit c \<or> is_lowercase c \<or> c \<in> set ''ABCDEFGHIJKLMNOPQRSTUVWXYZ''"

text \<open>The UTF-8 encodings of the 25 code points with the property White\_Space.\<close>

definition whitespace :: "string list" where
  "whitespace =
    [[CHR 0x09], [CHR 0x0A], [CHR 0x0B], [CHR 0x0C], [CHR 0x0D], [CHR 0x20],
     [CHR 0xC2, CHR 0x85], [CHR 0xC2, CHR 0xA0], [CHR 0xE1, CHR 0x9A, CHR 0x80],
     [CHR 0xE2, CHR 0x80, CHR 0x80], [CHR 0xE2, CHR 0x80, CHR 0x81],
     [CHR 0xE2, CHR 0x80, CHR 0x82], [CHR 0xE2, CHR 0x80, CHR 0x83],
     [CHR 0xE2, CHR 0x80, CHR 0x84], [CHR 0xE2, CHR 0x80, CHR 0x85],
     [CHR 0xE2, CHR 0x80, CHR 0x86], [CHR 0xE2, CHR 0x80, CHR 0x87],
     [CHR 0xE2, CHR 0x80, CHR 0x88], [CHR 0xE2, CHR 0x80, CHR 0x89],
     [CHR 0xE2, CHR 0x80, CHR 0x8A], [CHR 0xE2, CHR 0x80, CHR 0xA8],
     [CHR 0xE2, CHR 0x80, CHR 0xA9], [CHR 0xE2, CHR 0x80, CHR 0xAF],
     [CHR 0xE2, CHR 0x81, CHR 0x9F], [CHR 0xE3, CHR 0x80, CHR 0x80]]"

fun starts_with :: "'a list \<Rightarrow> 'a list \<Rightarrow> bool" where
  "starts_with [] s = True"
| "starts_with (p # ps) [] = False"
| "starts_with (p # ps) (c # s) = (p = c \<and> starts_with ps s)"

definition ends_with :: "'a list \<Rightarrow> 'a list \<Rightarrow> bool" where
  "ends_with p s = starts_with (rev p) (rev s)"

fun contains_sub :: "'a list \<Rightarrow> 'a list \<Rightarrow> bool" where
  "contains_sub p [] = (p = [])"
| "contains_sub p (c # s) = (starts_with p (c # s) \<or> contains_sub p s)"

text \<open>One white-space code point at the head (\<open>ws_prefix\<close>), read forwards or backwards.\<close>

definition ws_prefix :: "string list \<Rightarrow> string \<Rightarrow> nat" where
  "ws_prefix ws s = (case find (\<lambda>w. starts_with w s) ws of None \<Rightarrow> 0 | Some w \<Rightarrow> length w)"

function trim_by :: "string list \<Rightarrow> string \<Rightarrow> string" where
  "trim_by ws s =
    (if ws_prefix ws s = 0 \<or> s = [] then s else trim_by ws (drop (ws_prefix ws s) s))"
  by pat_completeness auto
termination
  by (relation "measure (\<lambda>(ws, s). length s)") auto

declare trim_by.simps [simp del]

definition trim_start :: "string \<Rightarrow> string" where
  "trim_start s = trim_by whitespace s"

definition trim_end :: "string \<Rightarrow> string" where
  "trim_end s = rev (trim_by (map rev whitespace) (rev s))"

definition trim :: "string \<Rightarrow> string" where
  "trim s = trim_end (trim_start s)"

text \<open>\<open>char::is_control\<close> (category Cc), with exceptions among the one-byte controls.\<close>

fun has_control :: "char list \<Rightarrow> string \<Rightarrow> bool" where
  "has_control allowed [] = False"
| "has_control allowed (c # s) =
    ((byte c < 32 \<or> byte c = 127) \<and> c \<notin> set allowed
     \<or> byte c = 194 \<and> (case s of d # _ \<Rightarrow> 128 \<le> byte d \<and> byte d < 160 | [] \<Rightarrow> False)
     \<or> has_control allowed s)"

text \<open>\<open>is_char_boundary\<close> and the loop that walks down to one.\<close>

definition is_char_boundary :: "string \<Rightarrow> nat \<Rightarrow> bool" where
  "is_char_boundary s i \<longleftrightarrow>
     i = 0 \<or> i = length s \<or> (i < length s \<and> \<not> is_continuation (s ! i))"

fun boundary_below :: "string \<Rightarrow> nat \<Rightarrow> nat" where
  "boundary_below s 0 = 0"
| "boundary_below s (Suc n) =
    (if is_char_boundary s (Suc n) then Suc n else boundary_below s n)"

text \<open>\<open>chars().take(n).collect()\<close>: the bytes of the first \<open>n\<close> code points.\<close>

fun take_chars :: "nat \<Rightarrow> string \<Rightarrow> string" where
  "take_chars n [] = []"
| "take_chars n (c # s) =
    (if is_continuation c then c # take_chars n s
     else case n of 0 \<Rightarrow> [] | Suc m \<Rightarrow> c # take_chars m s)"

text \<open>Splitting at a separator, and path components on Unix.\<close>

fun split_on :: "char \<Rightarrow> string \<Rightarrow> string list" where
  "split_on d [] = [[]]"
| "split_on d (c # s) =
    (if c = d then [] # split_on d s
     else case split_on d s of [] \<Rightarrow> [[c]] | w # ws \<Rightarrow> (c # w) # ws)"

definition path_is_absolute :: "string \<Rightarrow> bool" where
  "path_is_absolute p = starts_with ''/'' p"

text \<open>
  Every component is \<open>Component::Normal\<close>: no root, no leading \<open>.\<close>, no \<open>..\<close>; empty
  segments and later \<open>.\<close> segments are skipped by \<open>Path::components\<close>.
\<close>

definition path_all_normal :: "string \<Rightarrow> bool" where
  "path_all_normal p \<longleftrightarrow>
     \<not> path_is_absolute p \<and> hd (split_on (CHR ''/'') p) \<noteq> ''.''
     \<and> ''..'' \<notin> set (split_on (CHR ''/'') p)"

fun show_nat :: "nat \<Rightarrow> string" where
  "show_nat n =
    (if n < 10 then [char_of (48 + n)] else show_nat (n div 10) @ [char_of (48 + n mod 10)])"

declare show_nat.simps [simp del]

subsection \<open>Facts about trimming\<close>

lemma starts_with_iff: "starts_with p s \<longleftrightarrow> (\<exists>t. s = p @ t)"
  by (induction p s rule: starts_with.induct) auto

lemma ends_with_iff: "ends_with p s \<longleftrightarrow> (\<exists>t. s = t @ p)"
proof -
  have "(\<exists>t. rev s = rev p @ t) \<longleftrightarrow> (\<exists>t. s = t @ p)"
    by (metis rev_append rev_rev_ident)
  then show ?thesis by (simp add: ends_with_def starts_with_iff)
qed

lemma ws_prefix_zero:
  "[] \<notin> set ws \<Longrightarrow> ws_prefix ws s = 0 \<longleftrightarrow> (\<forall>w\<in>set ws. \<not> starts_with w s)"
  by (auto simp: ws_prefix_def find_None_iff find_Some_iff split: option.splits dest: nth_mem)

lemma trim_by_stops: "ws_prefix ws (trim_by ws s) = 0 \<or> trim_by ws s = []"
proof (induction ws s rule: trim_by.induct)
  case (1 ws s)
  then show ?case
    by (cases "ws_prefix ws s = 0 \<or> s = []") (simp_all add: trim_by.simps[of ws s])
qed

lemma trim_by_suffix: "\<exists>p. s = p @ trim_by ws s"
proof (induction ws s rule: trim_by.induct)
  case (1 ws s)
  show ?case
  proof (cases "ws_prefix ws s = 0 \<or> s = []")
    case True
    then show ?thesis by (simp add: trim_by.simps[of ws s])
  next
    case False
    with 1 obtain p where "drop (ws_prefix ws s) s = p @ trim_by ws (drop (ws_prefix ws s) s)"
      by blast
    with False show ?thesis
      by (metis append_assoc append_take_drop_id trim_by.simps)
  qed
qed

lemma trim_by_fixed: "ws_prefix ws s = 0 \<or> s = [] \<Longrightarrow> trim_by ws s = s"
  by (simp add: trim_by.simps)

lemma whitespace_nonempty [simp]: "[] \<notin> set whitespace" "[] \<notin> rev ` set whitespace"
  by (auto simp: whitespace_def)

lemma trim_end_prefix: "\<exists>p. s = trim_end s @ p"
  using trim_by_suffix[of "rev s" "map rev whitespace"]
  by (auto simp: trim_end_def) (metis rev_append rev_rev_ident)

lemma trim_start_idem [simp]: "trim_start (trim_start s) = trim_start s"
  using trim_by_stops[of whitespace s] by (simp add: trim_start_def trim_by_fixed)

lemma trim_end_idem [simp]: "trim_end (trim_end s) = trim_end s"
  using trim_by_stops[of "map rev whitespace" "rev s"] by (simp add: trim_end_def trim_by_fixed)

lemma trim_start_trim [simp]: "trim_start (trim s) = trim s"
proof -
  obtain p where p: "trim_start s = trim s @ p"
    using trim_end_prefix[of "trim_start s"] by (auto simp: trim_def)
  have "ws_prefix whitespace (trim_start s) = 0 \<or> trim_start s = []"
    unfolding trim_start_def by (rule trim_by_stops)
  then have "ws_prefix whitespace (trim s) = 0 \<or> trim s = []"
  proof
    assume "ws_prefix whitespace (trim_start s) = 0"
    then have "\<forall>w\<in>set whitespace. \<not> starts_with w (trim s @ p)"
      using p by (simp add: ws_prefix_zero)
    then show ?thesis by (auto simp: ws_prefix_zero starts_with_iff)
  next
    assume "trim_start s = []"
    with p show ?thesis by simp
  qed
  then show ?thesis unfolding trim_start_def by (rule trim_by_fixed)
qed

lemma trim_idem [simp]: "trim (trim s) = trim s"
  by (metis trim_def trim_end_idem trim_start_trim)

text \<open>A text that begins and ends with a printable ASCII character is its own trim.\<close>

definition plain :: "char \<Rightarrow> bool" where
  "plain c \<longleftrightarrow> 33 \<le> byte c \<and> byte c < 127"

lemma ws_prefix_plain:
  assumes "plain c"
  shows "ws_prefix whitespace (c # s) = 0" and "ws_prefix (map rev whitespace) (c # s) = 0"
proof -
  have "\<not> starts_with w (c # s)" if "w \<in> set whitespace \<or> w \<in> rev ` set whitespace" for w
    using that assms by (auto simp: whitespace_def plain_def byte_def)
  then show "ws_prefix whitespace (c # s) = 0" "ws_prefix (map rev whitespace) (c # s) = 0"
    by (simp_all add: ws_prefix_zero)
qed

lemma trim_plain:
  assumes "s \<noteq> []" and "plain (hd s)" and "plain (last s)"
  shows "trim s = s"
proof -
  have "trim_start s = s"
    using assms ws_prefix_plain(1)[of "hd s" "tl s"] by (simp add: trim_start_def trim_by_fixed)
  moreover have "trim_end s = s"
  proof -
    obtain t where "rev s = last s # t" using assms(1) by (metis append_butlast_last_id rev_eq_Cons_iff rev_rev_ident)
    with assms(3) ws_prefix_plain(2) show ?thesis
      by (metis rev_rev_ident trim_by_fixed trim_end_def)
  qed
  ultimately show ?thesis by (simp add: trim_def)
qed

lemma length_trim: "length (trim s) \<le> length s"
proof -
  obtain p where "trim_start s = trim s @ p"
    using trim_end_prefix[of "trim_start s"] by (auto simp: trim_def)
  moreover obtain q where "s = q @ trim_start s"
    using trim_by_suffix[of s whitespace] by (auto simp: trim_start_def)
  ultimately have "length s = length q + (length (trim s) + length p)"
    by (metis length_append)
  then show ?thesis by simp
qed

lemma boundary_below_le: "boundary_below s n \<le> n"
  by (induction n) auto

lemma boundary_below_boundary: "is_char_boundary s (boundary_below s n)"
  by (induction n) (auto simp: is_char_boundary_def)

section \<open>Lists\<close>

text \<open>\<open>iter_mut().find(p)\<close> followed by an update of the element found.\<close>

fun update_first :: "('a \<Rightarrow> bool) \<Rightarrow> ('a \<Rightarrow> 'a) \<Rightarrow> 'a list \<Rightarrow> 'a list" where
  "update_first p f [] = []"
| "update_first p f (x # xs) = (if p x then f x # xs else x # update_first p f xs)"

lemma length_update_first [simp]: "length (update_first p f xs) = length xs"
  by (induction xs) auto

lemma update_first_absent: "find p xs = None \<Longrightarrow> update_first p f xs = xs"
  by (induction xs) (auto split: if_splits)

lemma find_update_first:
  "find p xs = Some x \<Longrightarrow> p (f x) \<Longrightarrow> find p (update_first p f xs) = Some (f x)"
  by (induction xs) (auto split: if_splits)

lemma set_update_first:
  "find p xs = Some x \<Longrightarrow> y \<in> set (update_first p f xs) \<Longrightarrow> y = f x \<or> y \<in> set xs"
  by (induction xs) (auto split: if_splits)

lemma map_update_first:
  "(\<And>x. p x \<Longrightarrow> g (f x) = g x) \<Longrightarrow> map g (update_first p f xs) = map g xs"
  by (induction xs) auto

lemma distinct_key_eq:
  "distinct (map f xs) \<Longrightarrow> x \<in> set xs \<Longrightarrow> y \<in> set xs \<Longrightarrow> f x = f y \<Longrightarrow> x = y"
  by (auto simp: distinct_map dest: inj_onD)

lemma singleton_list:
  assumes "distinct xs" and "set xs = {x}"
  shows "xs = [x]"
proof -
  have "length xs = 1" using assms distinct_card[of xs] by simp
  then obtain y where "xs = [y]" by (cases xs) auto
  with assms(2) show ?thesis by simp
qed

lemma find_Some_set: "find p xs = Some x \<Longrightarrow> x \<in> set xs \<and> p x"
  by (auto simp: find_Some_iff)

lemma find_None_set: "find p xs = None \<longleftrightarrow> (\<forall>x\<in>set xs. \<not> p x)"
  by (auto simp: find_None_iff)

text \<open>A \<open>HashSet\<close> filled in a loop with \<open>if !set.insert(key) { return Err }\<close>.\<close>

definition all_distinct :: "('a \<Rightarrow> 'k) \<Rightarrow> 'a list \<Rightarrow> bool" where
  "all_distinct key xs = distinct (map key xs)"

text \<open>Replaying a journal: a fold whose step may refuse an event.\<close>

fun replay :: "('s \<Rightarrow> 'e \<Rightarrow> 'err + 's) \<Rightarrow> 's \<Rightarrow> 'e list \<Rightarrow> 'err + 's" where
  "replay step s [] = Inr s"
| "replay step s (e # es) = rbind (step s e) (\<lambda>t. replay step t es)"

lemma replay_append:
  "replay step s (xs @ ys) = rbind (replay step s xs) (\<lambda>t. replay step t ys)"
  by (induction xs arbitrary: s) (auto simp: rbind_def split: sum.splits)

text \<open>
  The projection a live session shows: the events are folded in order, and one that is refused
  stops the refresh (the code prints a warning; the events stay in the journal).
\<close>

fun refresh :: "('s \<Rightarrow> 'e \<Rightarrow> 'err + 's) \<Rightarrow> 's \<Rightarrow> 'e list \<Rightarrow> 's" where
  "refresh step s [] = s"
| "refresh step s (e # es) = (case step s e of Inl _ \<Rightarrow> s | Inr t \<Rightarrow> refresh step t es)"

lemma refresh_append:
  "replay step s xs = Inr t \<Longrightarrow> refresh step s (xs @ ys) = refresh step t ys"
  by (induction xs arbitrary: s) auto

lemma refresh_replay: "replay step s xs = Inr t \<Longrightarrow> refresh step s xs = t"
  using refresh_append[of step s xs t "[]"] by simp

text \<open>
  A loop over a list that fills a set of keys as it goes: the body sees the keys of the elements
  before (\<open>BTreeSet::insert\<close> in a condition of the body).
\<close>

fun for_seen :: "('a \<Rightarrow> 'k) \<Rightarrow> ('k list \<Rightarrow> 'a \<Rightarrow> 'e + unit) \<Rightarrow> 'k list \<Rightarrow> 'a list \<Rightarrow> 'e + unit" where
  "for_seen key f seen [] = Inr ()"
| "for_seen key f seen (x # xs) = rbind (f seen x) (\<lambda>_. for_seen key f (key x # seen) xs)"

lemma for_seen_each:
  "for_seen key f seen xs = Inr () \<Longrightarrow> x \<in> set xs \<Longrightarrow> \<exists>seen'. f seen' x = Inr ()"
  by (induction xs arbitrary: seen) auto

lemma for_seen_distinct:
  assumes "\<And>seen x. f seen x = Inr () \<Longrightarrow> key x \<notin> set seen"
  shows "for_seen key f seen xs = Inr () \<Longrightarrow>
    distinct (map key xs) \<and> set (map key xs) \<inter> set seen = {}"
proof (induction xs arbitrary: seen)
  case (Cons x xs)
  then have "f seen x = Inr ()" "distinct (map key xs) \<and> set (map key xs) \<inter> set (key x # seen) = {}"
    using Cons.IH[of "key x # seen"] by auto
  moreover from this(1) have "key x \<notin> set seen" by (rule assms)
  ultimately show ?case by auto
qed simp

end
