(* ===== verification/Interfaces.thy ===== *)
theory Interfaces
  imports Prelude
begin

text \<open>
  The contracts one component relies on in another, as locales. Each is interpreted on the
  model's own definitions in the theory of the component that provides it.

  \<^item> \<open>cas_store\<close>: a store whose writers name the revision they read. A write that names
    another revision is refused, a write that succeeds moves the revision forward, as long as
    the store is in a \<open>good\<close> state, which writes keep. The
    clients' conclusion is that an update is never lost. The schedule rules, the durable
    goal and the durable task are stores of this kind.
  \<^item> \<open>journal_fold\<close>: a projection rebuilt by folding a journal whose step may refuse an
    event. What one step keeps, every replay keeps, and replaying a prefix first changes
    nothing.
  \<^item> \<open>codec\<close>: an encoding that a decoder reads back. Equal encodings come from equal values. The records of
    the session log, its provenance lists, the directory of a session and the file names of the generations are
    codecs.
  \<^item> \<open>framed_log\<close>: a log of framed records that can be cut anywhere. What a scan finds is what lies wholly before
    the cut, so nothing durable is lost and nothing is invented. The plain log and the compressed log are
    of this kind.
  \<^item> \<open>trigger_clock\<close>: a clock with the latest occurrence at or before an instant and the
    next one after it. What the scheduler's reservation needs from the time rules.
\<close>

text \<open>
  How a durable append to a session journal ends, for the services that write journals. A
  failed append reports an error text; it may have reached the file all the same.
\<close>

datatype append_outcome = AppendOk | AppendFailed string bool

locale cas_store =
  fixes good :: "'s \<Rightarrow> bool"
    and revision :: "'s \<Rightarrow> 'r::linorder option"
    and commit :: "'r \<Rightarrow> 'a \<Rightarrow> 's \<Rightarrow> 'e + 's"
  assumes good_kept: "good s \<Longrightarrow> commit r a s = Inr t \<Longrightarrow> good t"
    and stale_refused: "good s \<Longrightarrow> commit r a s = Inr t \<Longrightarrow> revision s = Some r"
    and revision_moves: "good s \<Longrightarrow> commit r a s = Inr t \<Longrightarrow> (\<forall>n. revision t = Some n \<longrightarrow> r < n)"
begin

lemma no_lost_update:
  assumes "good s" and "commit r a s = Inr t"
  shows "\<exists>e. commit r b t = Inl e"
proof (cases "commit r b t")
  case (Inr u)
  then have "revision t = Some r" using good_kept[OF assms] by (blast dest: stale_refused)
  with revision_moves[OF assms] show ?thesis by blast
qed simp

lemma one_winner:
  assumes "good s" and "commit r a s = Inr t" and "commit q b t = Inr u"
  shows "r < q"
  using revision_moves[OF assms(1,2)] stale_refused[OF good_kept[OF assms(1,2)] assms(3)] by simp

end

locale journal_fold =
  fixes step :: "'s \<Rightarrow> 'e \<Rightarrow> 'err + 's"
    and inv :: "'s \<Rightarrow> bool"
  assumes step_inv: "inv s \<Longrightarrow> step s e = Inr t \<Longrightarrow> inv t"
begin

lemma replay_inv: "inv s \<Longrightarrow> replay step s es = Inr t \<Longrightarrow> inv t"
  by (induction es arbitrary: s) (auto dest: step_inv)

lemma replay_prefix_inv:
  assumes "inv s" and "replay step s (xs @ ys) = Inr t"
  obtains u where "replay step s xs = Inr u" and "inv u" and "replay step u ys = Inr t"
  using assms replay_inv by (auto simp: replay_append)

end

locale trigger_clock =
  fixes latest :: "int \<Rightarrow> int option"
    and after :: "int \<Rightarrow> int option"
  assumes latest_not_future: "latest now = Some t \<Longrightarrow> t \<le> now"
    and after_future: "after now = Some t \<Longrightarrow> now < t"
begin

lemma occurrences_increase:
  assumes "latest now = Some t" and "after now = Some n"
    and "latest later = Some u" and "n \<le> u"
  shows "t < u \<and> now < later"
  using latest_not_future[OF assms(1)] latest_not_future[OF assms(3)] after_future[OF assms(2)]
    assms(4) by linarith

end

locale codec =
  fixes good :: "'a \<Rightarrow> bool"
    and enc :: "'a \<Rightarrow> 'b"
    and dec :: "'b \<Rightarrow> 'a option"
  assumes dec_enc: "good x \<Longrightarrow> dec (enc x) = Some x"
begin

lemma enc_inj: "good x \<Longrightarrow> good y \<Longrightarrow> enc x = enc y \<Longrightarrow> x = y"
  by (metis dec_enc option.inject)

lemma enc_distinct:
  assumes "\<forall>x\<in>set xs. good x" "distinct xs"
  shows "distinct (map enc xs)"
proof -
  have "inj_on enc (set xs)"
    by (rule inj_onI, rule enc_inj) (use assms(1) in blast)+
  with assms(2) show ?thesis by (simp only: distinct_map)
qed

end

text \<open>The records that lie wholly within the first bytes.\<close>

fun within_cut :: "('r \<Rightarrow> string) \<Rightarrow> nat \<Rightarrow> 'r list \<Rightarrow> 'r list" where
  "within_cut frame k [] = []"
| "within_cut frame k (r # rs) =
     (if length (frame r) \<le> k then r # within_cut frame (k - length (frame r)) rs else [])"

lemma within_cut_prefix: "\<exists>rest. rs = within_cut frame k rs @ rest"
  by (induction frame k rs rule: within_cut.induct) auto

lemma within_cut_durable:
  "length (concat (map frame xs)) \<le> k \<Longrightarrow>
    within_cut frame k (xs @ ys) = xs @ within_cut frame (k - length (concat (map frame xs))) ys"
  by (induction xs arbitrary: k) auto

lemma within_cut_short: "length (concat (map frame (within_cut frame k rs))) \<le> k"
  by (induction frame k rs rule: within_cut.induct) auto

locale framed_log =
  fixes frame :: "'r \<Rightarrow> string"
    and good :: "'r list \<Rightarrow> bool"
    and found :: "string \<Rightarrow> 'r list option"
  assumes found_within: "good rs \<Longrightarrow> found (take k (concat (map frame rs))) = Some fs \<Longrightarrow> fs = within_cut frame k rs"
begin

lemma none_invented:
  assumes "good rs" "found (take k (concat (map frame rs))) = Some fs"
  shows "\<exists>rest. rs = fs @ rest"
  using found_within[OF assms] within_cut_prefix by metis

lemma durable_kept:
  assumes "good (xs @ ys)" "found (take k (concat (map frame (xs @ ys)))) = Some fs" "length (concat (map frame xs)) \<le> k"
  shows "\<exists>more. fs = xs @ more"
  using found_within[OF assms(1,2)] within_cut_durable[OF assms(3)] by metis

end

end
