(* ===== verification/SchedTime.thy ===== *)
theory SchedTime
  imports Interfaces
begin

text \<open>
  Civil-time calculation of the scheduler (\<open>scheduler/time.rs\<close>) and the error type of
  \<open>scheduler/mod.rs\<close>. The calendar and the time zones are the crate \<open>jiff\<close>: its
  operations are the fields of \<open>tz_env\<close>, over abstract types of zones, dates, civil
  datetimes and timestamps. Milliseconds are \<open>i64\<close> values (\<open>int\<close>); the interval
  arithmetic of the code is done in \<open>i128\<close>, where it cannot overflow.
\<close>

record sched_error =
  err_code :: string
  err_detail :: string

definition sched_error_new :: "string \<Rightarrow> sched_error" where
  "sched_error_new c = \<lparr>err_code = c, err_detail = []\<rparr>"

datatype time_rule =
    At int
  | Interval int u64
  | Daily u8 u8 string
  | Weekly u8 u8 u8 string

text \<open>
  \<open>ts_valid\<close>: \<open>Timestamp::from_millisecond\<close> accepts the value; \<open>tz_get\<close>:
  \<open>TimeZone::get\<close>; \<open>tz_iana\<close>: \<open>iana_name().is_some()\<close>; \<open>local_date\<close>:
  \<open>to_zoned(tz).date()\<close>; \<open>date_add\<close>: \<open>checked_add\<close> of days; \<open>monday_one\<close>:
  \<open>weekday().to_monday_one_offset()\<close>; \<open>civil_at\<close>: \<open>date.at(h, m, 0, 0)\<close>;
  \<open>earlier\<close>: \<open>to_ambiguous_timestamp(civil).earlier()\<close>; \<open>civil_of\<close>:
  \<open>to_zoned(tz).datetime()\<close>; \<open>as_ms\<close>: \<open>as_millisecond()\<close>.
\<close>

record ('z, 'd, 'c, 't) tz_env =
  ts_valid :: "int \<Rightarrow> bool"
  tz_get :: "string \<Rightarrow> 'z option"
  tz_iana :: "'z \<Rightarrow> bool"
  local_date :: "'z \<Rightarrow> int \<Rightarrow> 'd"
  date_add :: "'d \<Rightarrow> int \<Rightarrow> 'd option"
  monday_one :: "'d \<Rightarrow> int"
  civil_at :: "'d \<Rightarrow> u8 \<Rightarrow> u8 \<Rightarrow> 'c"
  earlier :: "'z \<Rightarrow> 'c \<Rightarrow> 't option"
  civil_of :: "'z \<Rightarrow> 't \<Rightarrow> 'c"
  as_ms :: "'t \<Rightarrow> int"

definition time_invalid :: sched_error where
  "time_invalid = sched_error_new ''invalid_time''"

definition instant :: "('z, 'd, 'c, 't, 'x) tz_env_scheme \<Rightarrow> int \<Rightarrow> sched_error + unit" where
  "instant E ms = ensure (ts_valid E ms) time_invalid"

definition checked_ms :: "('z, 'd, 'c, 't, 'x) tz_env_scheme \<Rightarrow> int \<Rightarrow> sched_error + int" where
  "checked_ms E ms =
     rbind (ensure (in_i64 ms) time_invalid) (\<lambda>_.
     rbind (instant E ms) (\<lambda>_. Inr ms))"

definition zone :: "('z, 'd, 'c, 't, 'x) tz_env_scheme \<Rightarrow> u8 \<Rightarrow> u8 \<Rightarrow> string \<Rightarrow> sched_error + 'z" where
  "zone E hour minute name =
     rbind (ensure (\<not> (23 < hour \<or> 59 < minute \<or> 128 < length name)) time_invalid) (\<lambda>_.
     rbind (ok_or (tz_get E name) time_invalid) (\<lambda>z.
     rbind (ensure (\<not> (\<not> tz_iana E z \<and> name \<noteq> ''UTC'')) time_invalid) (\<lambda>_. Inr z)))"

fun time_validate :: "('z, 'd, 'c, 't, 'x) tz_env_scheme \<Rightarrow> time_rule \<Rightarrow> sched_error + unit" where
  "time_validate E (At at_ms) = instant E at_ms"
| "time_validate E (Interval anchor_ms every_ms) =
     rbind (instant E anchor_ms) (\<lambda>_.
     ensure (1000 \<le> every_ms \<and> every_ms \<le> 366 * 86400000) time_invalid)"
| "time_validate E (Daily hour minute timezone) =
     rbind (zone E hour minute timezone) (\<lambda>_. Inr ())"
| "time_validate E (Weekly weekday hour minute timezone) =
     rbind (ensure (1 \<le> weekday \<and> weekday \<le> 7) time_invalid) (\<lambda>_.
     rbind (zone E hour minute timezone) (\<lambda>_. Inr ()))"

text \<open>The loop of \<open>civil_candidate\<close> over the distances \<open>0..=15\<close>.\<close>

fun civil_scan ::
  "('z, 'd, 'c, 't, 'x) tz_env_scheme \<Rightarrow> 'z \<Rightarrow> u8 option \<Rightarrow> u8 \<Rightarrow> u8 \<Rightarrow> 'd \<Rightarrow> int \<Rightarrow> bool \<Rightarrow> int list
   \<Rightarrow> sched_error + int option" where
  "civil_scan E tz weekday hour minute start now forward [] = Inl time_invalid"
| "civil_scan E tz weekday hour minute start now forward (distance # rest) =
     rbind (ok_or (date_add E start (if forward then distance else - distance)) time_invalid)
     (\<lambda>date.
       if (case weekday of None \<Rightarrow> False | Some d \<Rightarrow> monday_one E date \<noteq> sint d)
       then civil_scan E tz weekday hour minute start now forward rest
       else rbind (ok_or (earlier E tz (civil_at E date hour minute)) time_invalid)
       (\<lambda>timestamp.
         if civil_of E tz timestamp \<noteq> civil_at E date hour minute
         then civil_scan E tz weekday hour minute start now forward rest
         else if forward \<and> now < as_ms E timestamp \<or> \<not> forward \<and> as_ms E timestamp \<le> now
         then Inr (Some (as_ms E timestamp))
         else civil_scan E tz weekday hour minute start now forward rest))"

definition civil_window :: "int list" where
  "civil_window = [0, 1, 2, 3, 4, 5, 6, 7, 8, 9, 10, 11, 12, 13, 14, 15]"

fun civil_fields :: "time_rule \<Rightarrow> sched_error + (u8 option \<times> u8 \<times> u8 \<times> string)" where
  "civil_fields (Daily hour minute timezone) = Inr (None, hour, minute, timezone)"
| "civil_fields (Weekly weekday hour minute timezone) = Inr (Some weekday, hour, minute, timezone)"
| "civil_fields _ = Inl time_invalid"

definition civil_candidate ::
  "('z, 'd, 'c, 't, 'x) tz_env_scheme \<Rightarrow> time_rule \<Rightarrow> int \<Rightarrow> bool \<Rightarrow> sched_error + int option" where
  "civil_candidate E r now forward =
     rbind (civil_fields r) (\<lambda>(weekday, hour, minute, name).
     rbind (zone E hour minute name) (\<lambda>tz.
     rbind (instant E now) (\<lambda>_.
     civil_scan E tz weekday hour minute (local_date E tz now) now forward civil_window)))"

definition time_after ::
  "('z, 'd, 'c, 't, 'x) tz_env_scheme \<Rightarrow> time_rule \<Rightarrow> int \<Rightarrow> sched_error + int option" where
  "time_after E r now =
     rbind (time_validate E r) (\<lambda>_.
     case r of
       At at_ms \<Rightarrow> Inr (if now < at_ms then Some at_ms else None)
     | Interval anchor_ms every_ms \<Rightarrow>
         let steps = (if now < anchor_ms then 0
                      else (now - anchor_ms) div uint every_ms + 1)
         in rbind (checked_ms E (anchor_ms + steps * uint every_ms)) (\<lambda>ms. Inr (Some ms))
     | _ \<Rightarrow> civil_candidate E r now True)"

definition time_latest ::
  "('z, 'd, 'c, 't, 'x) tz_env_scheme \<Rightarrow> time_rule \<Rightarrow> int \<Rightarrow> sched_error + int option" where
  "time_latest E r now =
     rbind (time_validate E r) (\<lambda>_.
     case r of
       At at_ms \<Rightarrow> Inr (if at_ms \<le> now then Some at_ms else None)
     | Interval anchor_ms every_ms \<Rightarrow>
         if now < anchor_ms then Inr None
         else let steps = (now - anchor_ms) div uint every_ms
              in rbind (checked_ms E (anchor_ms + steps * uint every_ms)) (\<lambda>ms. Inr (Some ms))
     | _ \<Rightarrow> civil_candidate E r now False)"

definition time_first ::
  "('z, 'd, 'c, 't, 'x) tz_env_scheme \<Rightarrow> time_rule \<Rightarrow> int \<Rightarrow> sched_error + int option" where
  "time_first E r now =
     rbind (time_validate E r) (\<lambda>_.
     case r of
       At at_ms \<Rightarrow> Inr (Some at_ms)
     | Interval anchor_ms every_ms \<Rightarrow>
         if now \<le> anchor_ms then Inr (Some anchor_ms)
         else time_after E r (saturating_sub_i64 now 1)
     | _ \<Rightarrow> time_after E r (saturating_sub_i64 now 1))"

section \<open>Facts about the calculation\<close>

lemma checked_ms_Inr [simp]:
  "checked_ms E x = Inr y \<longleftrightarrow> y = x \<and> in_i64 x \<and> ts_valid E x"
  by (auto simp: checked_ms_def instant_def)

lemma interval_valid_pos:
  assumes "time_validate E (Interval a e) = Inr ()"
  shows "0 < uint e"
proof -
  from assms have "1000 \<le> e" by (auto simp: instant_def)
  then have "uint (1000 :: u64) \<le> uint e" by (simp add: word_le_def)
  then show ?thesis by simp
qed

lemma interval_grid_gap:
  fixes now a e :: int
  assumes "0 < e" and "a \<le> now"
  shows "a + (now - a) div e * e \<le> now" and "now < a + ((now - a) div e + 1) * e"
proof -
  define q r where "q = (now - a) div e" and "r = (now - a) mod e"
  have "now - a = q * e + r" by (simp add: q_def r_def)
  moreover have "0 \<le> r" "r < e" using assms by (simp_all add: r_def)
  ultimately have "a + q * e \<le> now" "now < a + (q + 1) * e" by (simp_all add: distrib_right)
  then show "a + (now - a) div e * e \<le> now" "now < a + ((now - a) div e + 1) * e"
    by (simp_all add: q_def)
qed

text \<open>A candidate the scan returns: its side of \<open>now\<close>, its civil time and its weekday.\<close>

definition civil_hit ::
  "('z, 'd, 'c, 't, 'x) tz_env_scheme \<Rightarrow> 'z \<Rightarrow> u8 option \<Rightarrow> u8 \<Rightarrow> u8 \<Rightarrow> int \<Rightarrow> bool \<Rightarrow> int \<Rightarrow> bool" where
  "civil_hit E tz weekday hour minute now forward t \<longleftrightarrow>
     (\<exists>date ts. t = as_ms E ts \<and> civil_of E tz ts = civil_at E date hour minute
        \<and> (\<forall>d. weekday = Some d \<longrightarrow> monday_one E date = sint d))
     \<and> (if forward then now < t else t \<le> now)"

lemma civil_scan_result:
  "civil_scan E tz wd h m start now fwd ds = Inr r \<Longrightarrow>
   \<exists>t. r = Some t \<and> civil_hit E tz wd h m now fwd t"
proof (induction ds)
  case (Cons x ds)
  from Cons.prems obtain date where
    date: "date_add E start (if fwd then x else - x) = Some date" by auto
  show ?case
  proof (cases "civil_scan E tz wd h m start now fwd ds = Inr r")
    case True
    then show ?thesis by (rule Cons.IH)
  next
    case False
    with Cons.prems date obtain ts where
      "earlier E tz (civil_at E date h m) = Some ts"
      "civil_of E tz ts = civil_at E date h m" "r = Some (as_ms E ts)"
      "if fwd then now < as_ms E ts else as_ms E ts \<le> now"
      "\<forall>d. wd = Some d \<longrightarrow> monday_one E date = sint d"
      by (auto split: if_splits option.splits)
    then show ?thesis by (auto simp: civil_hit_def)
  qed
qed simp

lemma civil_candidate_result:
  assumes "civil_candidate E r now fwd = Inr c"
  shows "\<exists>t wd h m n tz. c = Some t \<and> civil_fields r = Inr (wd, h, m, n) \<and> zone E h m n = Inr tz
    \<and> civil_hit E tz wd h m now fwd t"
proof -
  from assms obtain wd h m n tz where
    fields: "civil_fields r = Inr (wd, h, m, n)" "zone E h m n = Inr tz"
    and scan: "civil_scan E tz wd h m (local_date E tz now) now fwd civil_window = Inr c"
    by (auto simp: civil_candidate_def split: prod.splits)
  from civil_scan_result[OF scan] fields show ?thesis by blast
qed

lemma time_after_future: "time_after E r now = Inr (Some t) \<Longrightarrow> now < t"
proof (cases r)
  case (Interval a e)
  assume *: "time_after E r now = Inr (Some t)"
  then have "0 < uint e" using Interval by (auto simp: time_after_def intro: interval_valid_pos)
  with * Interval show ?thesis
    using interval_grid_gap(2)[of "uint e" a now]
    by (auto simp: time_after_def split: if_splits)
qed (auto simp: time_after_def civil_hit_def split: if_splits dest!: civil_candidate_result)

lemma time_latest_past: "time_latest E r now = Inr (Some t) \<Longrightarrow> t \<le> now"
proof (cases r)
  case (Interval a e)
  assume *: "time_latest E r now = Inr (Some t)"
  then have "0 < uint e" using Interval by (auto simp: time_latest_def intro: interval_valid_pos)
  with * Interval show ?thesis
    using interval_grid_gap(1)[of "uint e" a now]
    by (auto simp: time_latest_def split: if_splits)
qed (auto simp: time_latest_def civil_hit_def split: if_splits dest!: civil_candidate_result)

text \<open>An answer that is an error is no occurrence.\<close>

definition occurrence :: "sched_error + int option \<Rightarrow> int option" where
  "occurrence r = (case r of Inl _ \<Rightarrow> None | Inr x \<Rightarrow> x)"

lemma occurrence_Some [simp]: "occurrence r = Some t \<longleftrightarrow> r = Inr (Some t)"
  by (cases r) (auto simp: occurrence_def)

interpretation clock: trigger_clock
  "\<lambda>now. occurrence (time_latest E r now)" "\<lambda>now. occurrence (time_after E r now)" for E r
  by unfold_locales (auto dest: time_latest_past time_after_future)

end
