(* ===== verification/Admission.thy ===== *)
theory Admission
  imports Prelude
begin

text \<open>
  The receipt of a message admission (\<open>message.rs\<close>): how far the submission of a client
  message got. Deliveries of the scheduler carry it, front ends poll it.
\<close>

datatype admission_state = Uploaded | AdmReserved | Committed | RolledBack

record admission_receipt =
  ar_client_message_id :: string
  ar_state :: admission_state
  ar_committed_message_id :: "string option"
  ar_attachment_ids :: "string list"
  ar_retryable :: bool
  ar_failure_phase :: "string option"

definition receipt_reserved :: "string \<Rightarrow> string list \<Rightarrow> admission_receipt" where
  "receipt_reserved i ids = \<lparr>ar_client_message_id = i, ar_state = AdmReserved,
     ar_committed_message_id = None, ar_attachment_ids = ids, ar_retryable = False, ar_failure_phase = None\<rparr>"

definition receipt_rolled_back :: "string \<Rightarrow> string list \<Rightarrow> string \<Rightarrow> admission_receipt" where
  "receipt_rolled_back i ids phase = \<lparr>ar_client_message_id = i, ar_state = RolledBack,
     ar_committed_message_id = None, ar_attachment_ids = ids, ar_retryable = True,
     ar_failure_phase = Some phase\<rparr>"

definition receipt_committed :: "string \<Rightarrow> string \<Rightarrow> string list \<Rightarrow> admission_receipt" where
  "receipt_committed i message ids = \<lparr>ar_client_message_id = i, ar_state = Committed,
     ar_committed_message_id = Some message, ar_attachment_ids = ids, ar_retryable = False,
     ar_failure_phase = None\<rparr>"

definition with_failure_phase :: "string \<Rightarrow> admission_receipt \<Rightarrow> admission_receipt" where
  "with_failure_phase phase r = r\<lparr>ar_failure_phase := Some phase\<rparr>"

end
