(* ===== verification/SchedState.thy ===== *)
theory SchedState
  imports SchedTime Admission
begin

text \<open>
  The durable data of the scheduler (\<open>scheduler/state.rs\<close>): rules with their trigger,
  budget and authorization, deliveries, the control document, and the validation that every
  document passes before it is used or written. \<open>sched_env\<close> extends the time-zone
  parameters by the other code outside the repository: SHA-256 over the JSON encoding
  (\<open>digest_of\<close>), UUID syntax (\<open>uuid_ok\<close>), the JSON codec of the document, and by two
  parts of the repository that are not modelled here: project trust and secret redaction.
\<close>

record work_scope =
  ws_project :: string
  ws_session :: string

datatype trigger = JobTrigger string | TimeTrigger time_rule

record work_budget =
  wb_max_runs :: u32
  wb_max_tokens :: u64
  wb_max_seconds :: u64
  wb_run_tokens :: u64
  wb_run_seconds :: u32
  wb_max_paid_web_calls :: u32
  wb_run_paid_web_calls :: u32

definition budget_validate :: "work_budget \<Rightarrow> sched_error + unit" where
  "budget_validate b =
     ensure (\<not> (wb_max_runs b = 0
       \<or> 10000 < wb_max_runs b
       \<or> wb_run_tokens b = 0
       \<or> wb_max_tokens b < wb_run_tokens b
       \<or> wb_run_seconds b = 0
       \<or> 86400 < wb_run_seconds b
       \<or> wb_max_seconds b < ucast (wb_run_seconds b)
       \<or> wb_max_paid_web_calls b < wb_run_paid_web_calls b
       \<or> 9007199254740991 < wb_max_tokens b
       \<or> 9007199254740991 < wb_max_seconds b))
     (sched_error_new ''invalid_budget'')"

record approved_model =
  am_profile :: "string option"
  am_fingerprint :: string
  am_protocol :: string
  am_model :: string
  am_endpoint :: string

datatype notification_policy = Attention | Completion | Off

record work_spec =
  sp_title :: "string option"
  sp_notification :: "notification_policy option"
  sp_instruction :: string
  sp_trigger :: trigger
  sp_budget :: work_budget
  sp_model :: approved_model

record consumption =
  co_runs :: u32
  co_tokens :: u64
  co_seconds :: u64
  co_paid_web_calls :: u32

definition consumption_default :: consumption where
  "consumption_default = \<lparr>co_runs = 0, co_tokens = 0, co_seconds = 0, co_paid_web_calls = 0\<rparr>"

datatype rule_phase = Draft | Enabled | Paused | Exhausted

record authorization =
  au_revision :: u64
  au_spec_digest :: string
  au_confirmed_at :: int

record review =
  rv_nonce :: string
  rv_digest :: string
  rv_revision :: u64

record rule =
  r_id :: string
  r_revision :: u64
  r_scope :: work_scope
  r_spec :: work_spec
  r_phase :: rule_phase
  r_authorization :: "authorization option"
  r_used :: consumption
  r_blocked :: "string option"
  r_next_at :: "int option"
  r_review :: "review option"

datatype delivery_phase = Reserved | Admitted | Completed | Failed | Interrupted | Cancelled

record delivery =
  d_id :: string
  d_rule_id :: string
  d_rule_revision :: u64
  d_scope :: work_scope
  d_scheduled_at :: int
  d_started_at :: int
  d_finished_at :: "int option"
  d_phase :: delivery_phase
  d_reservation :: consumption
  d_actual :: "consumption option"
  d_receipt :: "admission_receipt option"
  d_diagnostic :: "string option"

record unit_tag =
  ut_name :: string
  ut_version :: u64

record document =
  doc_unit :: unit_tag
  doc_revision :: u64
  doc_rules :: "rule list"
  doc_deliveries :: "delivery list"

text \<open>What the code digests: each constructor is one shape of tuple it passes to \<open>digest\<close>.\<close>

datatype digest_input =
    DgSpec string work_scope work_spec
  | DgDelivery string string int
  | DgReview string u64 string
  | DgDocument document
  | DgText string

record ('z, 'd, 'c, 't, 'f) sched_env = "('z, 'd, 'c, 't) tz_env" +
  digest_of :: "digest_input \<Rightarrow> string"
  uuid_ok :: "string \<Rightarrow> bool"
  encode_doc :: "document \<Rightarrow> 'f"
  text_len :: "'f \<Rightarrow> nat"
  decode_doc :: "'f \<Rightarrow> string + document"
  is_project_trusted :: "string \<Rightarrow> bool"
  redact_secrets :: "string \<Rightarrow> string"

section \<open>Rules\<close>

definition spec_digest :: "('z, 'd, 'c, 't, 'f, 'x) sched_env_scheme \<Rightarrow> rule \<Rightarrow> string" where
  "spec_digest E r = digest_of E (DgSpec (r_id r) (r_scope r) (r_spec r))"

definition authorization_valid :: "('z, 'd, 'c, 't, 'f, 'x) sched_env_scheme \<Rightarrow> rule \<Rightarrow> bool" where
  "authorization_valid E r =
     (case r_authorization r of None \<Rightarrow> False | Some a \<Rightarrow> au_spec_digest a = spec_digest E r)"

definition within :: "'a::len word option \<Rightarrow> 'a word \<Rightarrow> bool" where
  "within n limit = (case n of None \<Rightarrow> False | Some n \<Rightarrow> n \<le> limit)"

definition can_reserve :: "rule \<Rightarrow> bool" where
  "can_reserve r =
     (let b = sp_budget (r_spec r); u = r_used r in
       co_runs u < wb_max_runs b
       \<and> within (checked_add (co_tokens u) (wb_run_tokens b)) (wb_max_tokens b)
       \<and> within (checked_add (co_seconds u) (ucast (wb_run_seconds b))) (wb_max_seconds b)
       \<and> within (checked_add (co_paid_web_calls u) (wb_run_paid_web_calls b))
           (wb_max_paid_web_calls b))"

definition rule_validate ::
  "('z, 'd, 'c, 't, 'f, 'x) sched_env_scheme \<Rightarrow> rule \<Rightarrow> sched_error + unit" where
  "rule_validate E r =
     (let model = sp_model (r_spec r) in
     rbind (ensure (\<not> (\<not> uuid_ok E (r_id r)
       \<or> r_revision r = 0
       \<or> ws_project (r_scope r) = []
       \<or> \<not> path_is_absolute (ws_project (r_scope r))
       \<or> ws_session (r_scope r) = []
       \<or> 1024 < length (ws_session (r_scope r))
       \<or> (case sp_title (r_spec r) of None \<Rightarrow> False
           | Some title \<Rightarrow> 256 < length title \<or> has_control [] title)
       \<or> trim (sp_instruction (r_spec r)) = []
       \<or> 16384 < length (sp_instruction (r_spec r))
       \<or> length (am_fingerprint model) \<noteq> 64
       \<or> \<not> list_all is_hexdigit (am_fingerprint model)
       \<or> am_model model = []
       \<or> 2048 < length (am_endpoint model)
       \<or> (case am_profile model of None \<Rightarrow> False | Some p \<Rightarrow> 256 < length p)))
       (sched_error_new ''invalid_rule'')) (\<lambda>_.
     rbind (case sp_trigger (r_spec r) of
         JobTrigger job_id \<Rightarrow>
           ensure (\<not> (\<not> uuid_ok E job_id \<or> wb_max_runs (sp_budget (r_spec r)) \<noteq> 1))
             (sched_error_new ''invalid_rule'')
       | TimeTrigger rule \<Rightarrow> time_validate E rule) (\<lambda>_.
     rbind (budget_validate (sp_budget (r_spec r))) (\<lambda>_.
     rbind (ensure (case r_authorization r of None \<Rightarrow> True
         | Some a \<Rightarrow> \<not> (r_revision r < au_revision a \<or> au_revision a = 0
             \<or> au_spec_digest a \<noteq> spec_digest E r))
       (sched_error_new ''invalid_authorization'')) (\<lambda>_.
     ensure (\<not> (r_phase r = Enabled \<and> \<not> authorization_valid E r))
       (sched_error_new ''invalid_authorization''))))))"

section \<open>Deliveries\<close>

definition unsettled :: "delivery \<Rightarrow> bool" where
  "unsettled d \<longleftrightarrow> d_phase d = Reserved \<or> d_phase d = Admitted"

definition auto_message_id :: "string \<Rightarrow> string" where
  "auto_message_id i = ''auto-'' @ i"

definition delivery_validate ::
  "('z, 'd, 'c, 't, 'f, 'x) sched_env_scheme \<Rightarrow> delivery \<Rightarrow> sched_error + unit" where
  "delivery_validate E d =
     (let receipt_valid = (case d_receipt d of None \<Rightarrow> True
        | Some r \<Rightarrow> ar_state r = Committed \<and> ar_client_message_id r = auto_message_id (d_id d)) in
     ensure (\<not> (length (d_id d) \<noteq> 64
       \<or> \<not> list_all is_hexdigit (d_id d)
       \<or> \<not> uuid_ok E (d_rule_id d)
       \<or> d_rule_revision d = 0
       \<or> \<not> path_is_absolute (ws_project (d_scope d))
       \<or> ws_session (d_scope d) = []
       \<or> \<not> receipt_valid
       \<or> (d_phase d = Admitted \<or> d_phase d = Completed) \<and> d_receipt d = None
       \<or> unsettled d \<noteq> (d_finished_at d = None)
       \<or> co_runs (d_reservation d) \<noteq> 1
       \<or> co_tokens (d_reservation d) = 0
       \<or> co_seconds (d_reservation d) = 0))
     (sched_error_new ''invalid_store''))"

section \<open>The control document\<close>

definition document_default :: document where
  "document_default =
     \<lparr>doc_unit = \<lparr>ut_name = ''clat.scheduler'', ut_version = 1\<rparr>, doc_revision = 0,
      doc_rules = [], doc_deliveries = []\<rparr>"

definition unit_matches :: "unit_tag \<Rightarrow> string \<times> u64 \<Rightarrow> bool" where
  "unit_matches u expected \<longleftrightarrow> ut_name u = fst expected \<and> ut_version u = snd expected"

text \<open>A loop that validates each element and then inserts its key into a \<open>HashSet\<close>.\<close>

fun validate_unique ::
  "('a \<Rightarrow> 'e + unit) \<Rightarrow> ('a \<Rightarrow> 'k) \<Rightarrow> 'e \<Rightarrow> 'k list \<Rightarrow> 'a list \<Rightarrow> 'e + unit" where
  "validate_unique valid key dup ids [] = Inr ()"
| "validate_unique valid key dup ids (x # xs) =
     rbind (valid x) (\<lambda>_.
     rbind (ensure (key x \<notin> set ids) dup) (\<lambda>_.
     validate_unique valid key dup (key x # ids) xs))"

definition document_validate ::
  "('z, 'd, 'c, 't, 'f, 'x) sched_env_scheme \<Rightarrow> document \<Rightarrow> sched_error + unit" where
  "document_validate E doc =
     rbind (ensure (\<not> (\<not> unit_matches (doc_unit doc) (''clat.scheduler'', 1)
       \<or> 64 < length (doc_rules doc) \<or> 1024 < length (doc_deliveries doc)))
       (sched_error_new ''invalid_store'')) (\<lambda>_.
     rbind (validate_unique (rule_validate E) r_id (sched_error_new ''invalid_store'') []
       (doc_rules doc)) (\<lambda>_.
     validate_unique (delivery_validate E) d_id (sched_error_new ''invalid_store'') []
       (doc_deliveries doc)))"

section \<open>Facts\<close>

lemma validate_unique_Inr [simp]:
  "validate_unique valid key dup ids xs = Inr u \<longleftrightarrow>
   (\<forall>x\<in>set xs. valid x = Inr ()) \<and> distinct (map key xs) \<and> set ids \<inter> key ` set xs = {}"
  by (induction xs arbitrary: ids) auto

definition document_valid ::
  "('z, 'd, 'c, 't, 'f, 'x) sched_env_scheme \<Rightarrow> document \<Rightarrow> bool" where
  "document_valid E doc \<longleftrightarrow> document_validate E doc = Inr ()"

lemma document_valid_iff:
  "document_valid E doc \<longleftrightarrow>
   unit_matches (doc_unit doc) (''clat.scheduler'', 1)
   \<and> length (doc_rules doc) \<le> 64 \<and> length (doc_deliveries doc) \<le> 1024
   \<and> (\<forall>r\<in>set (doc_rules doc). rule_validate E r = Inr ()) \<and> distinct (map r_id (doc_rules doc))
   \<and> (\<forall>d\<in>set (doc_deliveries doc). delivery_validate E d = Inr ())
   \<and> distinct (map d_id (doc_deliveries doc))"
  by (auto simp: document_valid_def document_validate_def not_less)

lemma document_default_valid: "document_valid E document_default"
  by (simp add: document_valid_iff document_default_def unit_matches_def)

lemma rule_valid_authorized:
  "rule_validate E r = Inr () \<Longrightarrow> r_phase r = Enabled \<Longrightarrow> authorization_valid E r"
  by (auto simp: rule_validate_def Let_def)

lemma rule_valid_budget:
  "rule_validate E r = Inr () \<Longrightarrow> budget_validate (sp_budget (r_spec r)) = Inr ()"
  by (auto simp: rule_validate_def Let_def)

lemma within_checked_add:
  "within (checked_add a b) limit \<longleftrightarrow> unat (a :: 'a::len word) + unat b \<le> unat limit"
proof (cases "unat a + unat b < 2 ^ LENGTH('a)")
  case True
  then show ?thesis
    by (simp add: within_def checked_add_def word_le_nat_alt unat_add_exact)
next
  case False
  moreover have "unat limit < 2 ^ LENGTH('a)" by (rule unat_less_len)
  ultimately have "\<not> unat a + unat b \<le> unat limit" by linarith
  with False show ?thesis by (simp add: within_def checked_add_def)
qed

lemma unat_ucast_u32 [simp]: "unat (ucast (s :: u32) :: u64) = unat s"
  using unat_u32[of s] by (simp add: unsigned_ucast_eq take_bit_nat_eq_self)

lemma can_reserve_iff:
  "can_reserve r \<longleftrightarrow>
   (let b = sp_budget (r_spec r); u = r_used r in
     unat (co_runs u) < unat (wb_max_runs b)
     \<and> unat (co_tokens u) + unat (wb_run_tokens b) \<le> unat (wb_max_tokens b)
     \<and> unat (co_seconds u) + unat (wb_run_seconds b) \<le> unat (wb_max_seconds b)
     \<and> unat (co_paid_web_calls u) + unat (wb_run_paid_web_calls b)
         \<le> unat (wb_max_paid_web_calls b))"
  by (simp add: can_reserve_def Let_def within_checked_add word_less_nat_alt)

end
