(* ===== verification/SchedStore.thy ===== *)
theory SchedStore
  imports SchedState "HOL-Library.List_Lexorder" "HOL-Library.Char_ord" "HOL-Library.Option_ord"
begin

text \<open>
  The scheduler service (\<open>scheduler/store.rs\<close>, \<open>dispatch.rs\<close>, \<open>manual.rs\<close>): one
  atomic control document, a cache with the digest last seen and a sticky fault, and the
  operations on rules and deliveries. The closure an operation passes to
  \<open>transaction\<close> is a function on documents (\<open>.._op\<close>); the operation itself wraps it.
  The outcomes of the private file operations are inputs (\<open>sched_io\<close>): a failed save may
  or may not have published the new text. A poisoned mutex (a holder that panicked) is not
  modelled; fresh UUIDs and the clock are arguments.
\<close>

section \<open>Operations on the document\<close>

definition rule_at :: "string \<Rightarrow> string \<Rightarrow> rule \<Rightarrow> bool" where
  "rule_at project i r \<longleftrightarrow> r_id r = i \<and> ws_project (r_scope r) = project"

definition find_rule ::
  "document \<Rightarrow> string \<Rightarrow> string \<Rightarrow> u64 \<Rightarrow> sched_error + rule" where
  "find_rule doc project i revision =
     rbind (ok_or (find (rule_at project i) (doc_rules doc)) (sched_error_new ''not_found''))
     (\<lambda>rule.
     rbind (ensure (r_revision rule = revision) (sched_error_new ''stale_revision'')) (\<lambda>_.
     Inr rule))"

text \<open>Writing through the mutable reference that \<open>find\<close> returned.\<close>

definition set_rule :: "string \<Rightarrow> string \<Rightarrow> rule \<Rightarrow> document \<Rightarrow> document" where
  "set_rule project i r doc =
     doc\<lparr>doc_rules := update_first (rule_at project i) (\<lambda>_. r) (doc_rules doc)\<rparr>"

definition delivery_at :: "string \<Rightarrow> string \<Rightarrow> delivery \<Rightarrow> bool" where
  "delivery_at project i d \<longleftrightarrow> d_id d = i \<and> ws_project (d_scope d) = project"

definition delivery_mut :: "document \<Rightarrow> string \<Rightarrow> string \<Rightarrow> sched_error + delivery" where
  "delivery_mut doc project i =
     ok_or (find (delivery_at project i) (doc_deliveries doc)) (sched_error_new ''not_found'')"

definition set_delivery :: "string \<Rightarrow> string \<Rightarrow> delivery \<Rightarrow> document \<Rightarrow> document" where
  "set_delivery project i d doc =
     doc\<lparr>doc_deliveries := update_first (delivery_at project i) (\<lambda>_. d) (doc_deliveries doc)\<rparr>"

definition next_revision :: "u64 \<Rightarrow> sched_error + u64" where
  "next_revision revision = ok_or (checked_add revision 1) (sched_error_new ''invalid_store'')"

text \<open>
  \<open>min_by_key(finished_at)\<close> over the settled deliveries: the position of the first
  minimum (\<open>None\<close> is below every \<open>Some\<close>).
\<close>

fun oldest_settled ::
  "nat \<Rightarrow> (nat \<times> int option) option \<Rightarrow> delivery list \<Rightarrow> (nat \<times> int option) option" where
  "oldest_settled i best [] = best"
| "oldest_settled i best (d # ds) =
     oldest_settled (Suc i)
       (if unsettled d then best
        else case best of
            None \<Rightarrow> Some (i, d_finished_at d)
          | Some (j, k) \<Rightarrow> if d_finished_at d < k then Some (i, d_finished_at d) else best)
       ds"

definition trim_deliveries :: "document \<Rightarrow> sched_error + document" where
  "trim_deliveries doc =
     (if length (doc_deliveries doc) < 1024 then Inr doc
      else rbind (ok_or (oldest_settled 0 None (doc_deliveries doc)) (sched_error_new ''capacity''))
      (\<lambda>(oldest, _).
        Inr (doc\<lparr>doc_deliveries :=
          take oldest (doc_deliveries doc) @ drop (Suc oldest) (doc_deliveries doc)\<rparr>)))"

definition reconcile :: "consumption \<Rightarrow> consumption \<Rightarrow> rule \<Rightarrow> rule" where
  "reconcile reserved actual r =
     (let u = r_used r in
      r\<lparr>r_used := \<lparr>
        co_runs = saturating_add (saturating_sub (co_runs u) (co_runs reserved)) (co_runs actual),
        co_tokens =
          saturating_add (saturating_sub (co_tokens u) (co_tokens reserved)) (co_tokens actual),
        co_seconds =
          saturating_add (saturating_sub (co_seconds u) (co_seconds reserved)) (co_seconds actual),
        co_paid_web_calls =
          saturating_add (saturating_sub (co_paid_web_calls u) (co_paid_web_calls reserved))
            (co_paid_web_calls actual)\<rparr>\<rparr>)"

definition reservation_of :: "work_budget \<Rightarrow> consumption" where
  "reservation_of b =
     \<lparr>co_runs = 1, co_tokens = wb_run_tokens b, co_seconds = ucast (wb_run_seconds b),
      co_paid_web_calls = wb_run_paid_web_calls b\<rparr>"

text \<open>The four unchecked \<open>+=\<close> of \<open>reserve_delivery\<close>.\<close>

definition charge :: "consumption \<Rightarrow> rule \<Rightarrow> rule" where
  "charge c r =
     (let u = r_used r in
      r\<lparr>r_used := \<lparr>co_runs = co_runs u + 1, co_tokens = co_tokens u + co_tokens c,
        co_seconds = co_seconds u + co_seconds c,
        co_paid_web_calls = co_paid_web_calls u + co_paid_web_calls c\<rparr>\<rparr>)"

definition reserve_delivery ::
  "('z, 'd, 'c, 't, 'f, 'x) sched_env_scheme \<Rightarrow> rule \<Rightarrow> u64 \<Rightarrow> int \<Rightarrow> int \<Rightarrow> document
   \<Rightarrow> sched_error + (document \<times> (rule \<times> delivery))" where
  "reserve_delivery E rule0 revision scheduled_at now doc =
     (let delivery_id = digest_of E (DgDelivery (r_id rule0) (spec_digest E rule0) scheduled_at);
          reservation = reservation_of (sp_budget (r_spec rule0));
          rule = charge reservation rule0;
          project = ws_project (r_scope rule) in
     rbind (find_rule doc project (r_id rule) revision) (\<lambda>_.
     let doc1 = set_rule project (r_id rule) rule doc in
     rbind (ensure (\<not> list_ex (\<lambda>d. d_id d = delivery_id \<or> d_rule_id d = r_id rule \<and> unsettled d)
         (doc_deliveries doc1)) (sched_error_new ''already_delivered'')) (\<lambda>_.
     rbind (trim_deliveries doc1) (\<lambda>doc2.
     let delivery = \<lparr>d_id = delivery_id, d_rule_id = r_id rule, d_rule_revision = revision,
           d_scope = r_scope rule, d_scheduled_at = scheduled_at, d_started_at = now,
           d_finished_at = None, d_phase = Reserved, d_reservation = reservation,
           d_actual = None, d_receipt = None, d_diagnostic = None\<rparr> in
     Inr (doc2\<lparr>doc_deliveries := doc_deliveries doc2 @ [delivery]\<rparr>, (rule, delivery))))))"

section \<open>The closures of the operations\<close>

definition block_op ::
  "string \<Rightarrow> string \<Rightarrow> u64 \<Rightarrow> string option \<Rightarrow> document \<Rightarrow> sched_error + (document \<times> unit)" where
  "block_op project i revision reason doc =
     rbind (find_rule doc project i revision) (\<lambda>rule.
     Inr (set_rule project i (rule\<lparr>r_blocked := reason\<rparr>) doc, ()))"

definition create_op ::
  "('z, 'd, 'c, 't, 'f, 'x) sched_env_scheme \<Rightarrow> string \<Rightarrow> work_scope \<Rightarrow> work_spec \<Rightarrow> document
   \<Rightarrow> sched_error + (document \<times> rule)" where
  "create_op E fresh scope spec doc =
     rbind (ensure (\<not> 64 \<le> length (doc_rules doc)) (sched_error_new ''capacity'')) (\<lambda>_.
     let rule = \<lparr>r_id = fresh, r_revision = 1, r_scope = scope, r_spec = spec, r_phase = Draft,
           r_authorization = None, r_used = consumption_default, r_blocked = None,
           r_next_at = None, r_review = None\<rparr> in
     rbind (rule_validate E rule) (\<lambda>_.
     Inr (doc\<lparr>doc_rules := doc_rules doc @ [rule]\<rparr>, rule)))"

definition edit_op ::
  "('z, 'd, 'c, 't, 'f, 'x) sched_env_scheme \<Rightarrow> string \<Rightarrow> string \<Rightarrow> u64 \<Rightarrow> work_spec \<Rightarrow> document
   \<Rightarrow> sched_error + (document \<times> rule)" where
  "edit_op E project i revision spec doc =
     rbind (ensure (\<not> list_ex (\<lambda>d. d_rule_id d = i \<and> unsettled d) (doc_deliveries doc))
       (sched_error_new ''busy'')) (\<lambda>_.
     rbind (find_rule doc project i revision) (\<lambda>rule.
     rbind (next_revision (r_revision rule)) (\<lambda>rev.
     let rule' = rule\<lparr>r_spec := spec, r_revision := rev, r_authorization := None,
           r_review := None, r_phase := Draft, r_blocked := None, r_next_at := None\<rparr> in
     rbind (rule_validate E rule') (\<lambda>_.
     Inr (set_rule project i rule' doc, rule')))))"

definition review_op ::
  "('z, 'd, 'c, 't, 'f, 'x) sched_env_scheme \<Rightarrow> string \<Rightarrow> string \<Rightarrow> string \<Rightarrow> u64 \<Rightarrow> document
   \<Rightarrow> sched_error + (document \<times> (rule \<times> string \<times> string))" where
  "review_op E nonce project i revision doc =
     rbind (find_rule doc project i revision) (\<lambda>rule.
     rbind (ensure (r_phase rule \<noteq> Enabled) (sched_error_new ''already_enabled'')) (\<lambda>_.
     let confirmation = digest_of E (DgReview nonce (r_revision rule) (spec_digest E rule));
         rule' = rule\<lparr>r_review := Some \<lparr>rv_nonce = nonce, rv_digest = confirmation,
           rv_revision = r_revision rule\<rparr>\<rparr> in
     Inr (set_rule project i rule' doc, (rule', nonce, confirmation))))"

definition reviewed ::
  "('z, 'd, 'c, 't, 'f, 'x) sched_env_scheme \<Rightarrow> string \<Rightarrow> string \<Rightarrow> rule \<Rightarrow> bool" where
  "reviewed E nonce confirmation rule =
     (case r_review rule of None \<Rightarrow> False
      | Some r \<Rightarrow> rv_nonce r = nonce \<and> rv_digest r = confirmation
          \<and> rv_revision r = r_revision rule
          \<and> rv_digest r
              = digest_of E (DgReview (rv_nonce r) (r_revision rule) (spec_digest E rule)))"

text \<open>The first occurrence of a confirmed time rule.\<close>

definition first_due ::
  "('z, 'd, 'c, 't, 'f, 'x) sched_env_scheme \<Rightarrow> int \<Rightarrow> rule \<Rightarrow> sched_error + rule" where
  "first_due E confirmed_at rule =
     (case sp_trigger (r_spec rule) of
        TimeTrigger time \<Rightarrow> rbind (time_first E time confirmed_at)
          (\<lambda>t. Inr (rule\<lparr>r_next_at := t\<rparr>))
      | JobTrigger _ \<Rightarrow> Inr rule)"

definition confirm_op ::
  "('z, 'd, 'c, 't, 'f, 'x) sched_env_scheme \<Rightarrow> string \<Rightarrow> string \<Rightarrow> u64 \<Rightarrow> string \<Rightarrow> string \<Rightarrow> int
   \<Rightarrow> document \<Rightarrow> sched_error + (document \<times> rule)" where
  "confirm_op E project i revision nonce confirmation confirmed_at doc =
     rbind (find_rule doc project i revision) (\<lambda>rule.
     rbind (ensure (reviewed E nonce confirmation rule) (sched_error_new ''confirmation_required''))
     (\<lambda>_.
     rbind (ensure (can_reserve rule) (sched_error_new ''budget_exhausted'')) (\<lambda>_.
     rbind (next_revision (r_revision rule)) (\<lambda>rev.
     let rule1 = rule\<lparr>r_revision := rev,
           r_authorization := Some \<lparr>au_revision = rev, au_spec_digest = spec_digest E rule,
             au_confirmed_at = confirmed_at\<rparr>,
           r_review := None, r_phase := Enabled, r_blocked := None\<rparr> in
     rbind (first_due E confirmed_at rule1) (\<lambda>rule2.
     Inr (set_rule project i rule2 doc, rule2))))))"

definition pause_op ::
  "string \<Rightarrow> string \<Rightarrow> u64 \<Rightarrow> document \<Rightarrow> sched_error + (document \<times> rule)" where
  "pause_op project i revision doc =
     rbind (find_rule doc project i revision) (\<lambda>rule.
     rbind (next_revision (r_revision rule)) (\<lambda>rev.
     let rule' = rule\<lparr>r_revision := rev, r_phase := Paused, r_review := None\<rparr> in
     Inr (set_rule project i rule' doc, rule')))"

definition is_job :: "trigger \<Rightarrow> bool" where
  "is_job t = (case t of JobTrigger _ \<Rightarrow> True | TimeTrigger _ \<Rightarrow> False)"

definition resume_op ::
  "('z, 'd, 'c, 't, 'f, 'x) sched_env_scheme \<Rightarrow> string \<Rightarrow> string \<Rightarrow> u64 \<Rightarrow> document
   \<Rightarrow> sched_error + (document \<times> rule)" where
  "resume_op E project i revision doc =
     (let delivered = list_ex (\<lambda>d. d_rule_id d = i) (doc_deliveries doc) in
     rbind (find_rule doc project i revision) (\<lambda>rule.
     rbind (ensure (authorization_valid E rule) (sched_error_new ''confirmation_required'')) (\<lambda>_.
     rbind (ensure (can_reserve rule) (sched_error_new ''budget_exhausted'')) (\<lambda>_.
     rbind (ensure (\<not> (delivered \<and> (is_job (sp_trigger (r_spec rule)) \<or> r_next_at rule = None)))
       (sched_error_new ''already_delivered'')) (\<lambda>_.
     rbind (next_revision (r_revision rule)) (\<lambda>rev.
     let rule' = rule\<lparr>r_revision := rev, r_phase := Enabled, r_blocked := None\<rparr> in
     Inr (set_rule project i rule' doc, rule')))))))"

definition delete_op ::
  "string \<Rightarrow> string \<Rightarrow> u64 \<Rightarrow> document \<Rightarrow> sched_error + (document \<times> unit)" where
  "delete_op project i revision doc =
     rbind (find_rule doc project i revision) (\<lambda>_.
     Inr (doc\<lparr>doc_rules := filter (\<lambda>r. r_id r \<noteq> i) (doc_rules doc)\<rparr>, ()))"

text \<open>The due check of a time rule and the advance of \<open>next_at\<close>.\<close>

definition take_due ::
  "('z, 'd, 'c, 't, 'f, 'x) sched_env_scheme \<Rightarrow> int \<Rightarrow> int \<Rightarrow> rule \<Rightarrow> sched_error + rule" where
  "take_due E scheduled_at now rule =
     (case sp_trigger (r_spec rule) of
        TimeTrigger time \<Rightarrow>
          rbind (ensure (case r_next_at rule of None \<Rightarrow> False | Some next \<Rightarrow> \<not> now < next)
            (sched_error_new ''not_due'')) (\<lambda>_.
          rbind (time_latest E time now) (\<lambda>latest.
          rbind (ensure (\<not> (latest \<noteq> Some scheduled_at
              \<or> (case r_next_at rule of None \<Rightarrow> False | Some next \<Rightarrow> scheduled_at < next)))
            (sched_error_new ''not_due'')) (\<lambda>_.
          rbind (time_after E time now) (\<lambda>next. Inr (rule\<lparr>r_next_at := next\<rparr>)))))
      | JobTrigger _ \<Rightarrow> Inr rule)"

definition reserve_op ::
  "('z, 'd, 'c, 't, 'f, 'x) sched_env_scheme \<Rightarrow> string \<Rightarrow> string \<Rightarrow> u64 \<Rightarrow> int \<Rightarrow> int \<Rightarrow> document
   \<Rightarrow> sched_error + (document \<times> (rule \<times> delivery))" where
  "reserve_op E project i revision scheduled_at now doc =
     rbind (find_rule doc project i revision) (\<lambda>rule.
     rbind (ensure (\<not> (r_phase rule \<noteq> Enabled \<or> \<not> authorization_valid E rule))
       (sched_error_new ''confirmation_required'')) (\<lambda>_.
     rbind (ensure (can_reserve rule) (sched_error_new ''budget_exhausted'')) (\<lambda>_.
     rbind (take_due E scheduled_at now rule) (\<lambda>rule'.
     reserve_delivery E rule' revision scheduled_at now (set_rule project i rule' doc)))))"

definition admitted_op ::
  "string \<Rightarrow> string \<Rightarrow> admission_receipt \<Rightarrow> document \<Rightarrow> sched_error + (document \<times> unit)" where
  "admitted_op project i receipt doc =
     rbind (delivery_mut doc project i) (\<lambda>d.
     rbind (ensure (\<not> (\<not> unsettled d \<or> ar_state receipt \<noteq> Committed
         \<or> ar_client_message_id receipt \<noteq> auto_message_id (d_id d)))
       (sched_error_new ''invalid_receipt'')) (\<lambda>_.
     Inr (set_delivery project i (d\<lparr>d_receipt := Some receipt, d_phase := Admitted\<rparr>) doc, ())))"

definition settle_rule :: "consumption \<Rightarrow> consumption option \<Rightarrow> rule \<Rightarrow> rule" where
  "settle_rule reservation actual rule =
     (let rule1 = (case actual of None \<Rightarrow> rule | Some a \<Rightarrow> reconcile reservation a rule) in
      if \<not> can_reserve rule1 then rule1\<lparr>r_phase := Exhausted\<rparr> else rule1)"

definition settle_op ::
  "('z, 'd, 'c, 't, 'f, 'x) sched_env_scheme \<Rightarrow> string \<Rightarrow> string \<Rightarrow> delivery_phase
   \<Rightarrow> consumption option \<Rightarrow> string option \<Rightarrow> int \<Rightarrow> document
   \<Rightarrow> sched_error + (document \<times> delivery)" where
  "settle_op E project i phase actual diagnostic now doc =
     rbind (ensure (\<not> (phase = Reserved \<or> phase = Admitted)) (sched_error_new ''invalid_delivery''))
     (\<lambda>_.
     rbind (delivery_mut doc project i) (\<lambda>d.
     if \<not> unsettled d then Inr (doc, d)
     else
       let d' = d\<lparr>d_phase := phase, d_finished_at := Some now,
             d_diagnostic := map_option (\<lambda>s. take_chars 512 (redact_secrets E s)) diagnostic,
             d_actual := actual\<rparr>;
           doc1 = set_delivery project i d' doc in
       Inr (doc1\<lparr>doc_rules := update_first (\<lambda>r. r_id r = d_rule_id d')
              (settle_rule (d_reservation d') actual) (doc_rules doc1)\<rparr>, d')))"

section \<open>The lane: cache, fault and transactions\<close>

record 'f sched_state =
  disk :: "'f option"
  cache_seen :: "string option option"
  cache_fault :: "sched_error option"

datatype save_outcome = SaveOk | SaveFailed string bool

text \<open>
  \<open>SaveFailed e published\<close>: the error, and whether the text reached the file all the same
  (the rename is done before the directory is synced).
\<close>

record sched_io =
  io_read_error :: "string option"
  io_save :: save_outcome

definition with_detail ::
  "('z, 'd, 'c, 't, 'f, 'x) sched_env_scheme \<Rightarrow> string \<Rightarrow> string \<Rightarrow> sched_error" where
  "with_detail E c detail = \<lparr>err_code = c, err_detail = redact_secrets E detail\<rparr>"

definition sched_state_new :: "'f option \<Rightarrow> 'f sched_state" where
  "sched_state_new d = \<lparr>disk = d, cache_seen = None, cache_fault = None\<rparr>"

text \<open>The closure inside \<open>read\<close>: the document and the signature to remember.\<close>

definition read_checked ::
  "('z, 'd, 'c, 't, 'f, 'x) sched_env_scheme \<Rightarrow> sched_io \<Rightarrow> 'f sched_state
   \<Rightarrow> sched_error + (document \<times> string option)" where
  "read_checked E io s =
     rbind (case io_read_error io of Some e \<Rightarrow> Inl (with_detail E ''store_failed'' e)
       | None \<Rightarrow> Inr (disk s)) (\<lambda>raw.
     rbind (case raw of None \<Rightarrow> Inr document_default
       | Some text \<Rightarrow> (case decode_doc E text of
             Inl e \<Rightarrow> Inl (with_detail E ''invalid_store'' e) | Inr doc \<Rightarrow> Inr doc)) (\<lambda>doc.
     rbind (document_validate E doc) (\<lambda>_.
     let signature = map_option (\<lambda>_. digest_of E (DgDocument doc)) raw in
     rbind (ensure (case cache_seen s of None \<Rightarrow> True | Some seen \<Rightarrow> seen = signature)
       (sched_error_new ''external_change'')) (\<lambda>_.
     Inr (doc, signature)))))"

definition sched_read ::
  "('z, 'd, 'c, 't, 'f, 'x) sched_env_scheme \<Rightarrow> sched_io \<Rightarrow> 'f sched_state
   \<Rightarrow> 'f sched_state \<times> (sched_error + document)" where
  "sched_read E io s =
     (case cache_fault s of
        Some error \<Rightarrow> (s, Inl error)
      | None \<Rightarrow>
         (case read_checked E io s of
            Inl error \<Rightarrow> (s\<lparr>cache_fault := Some error\<rparr>, Inl error)
          | Inr (doc, signature) \<Rightarrow> (s\<lparr>cache_seen := Some signature\<rparr>, Inr doc)))"

definition transaction ::
  "('z, 'd, 'c, 't, 'f, 'x) sched_env_scheme \<Rightarrow> sched_io
   \<Rightarrow> (document \<Rightarrow> sched_error + (document \<times> 'a)) \<Rightarrow> 'f sched_state
   \<Rightarrow> 'f sched_state \<times> (sched_error + 'a)" where
  "transaction E io operation s =
     (case sched_read E io s of
        (s1, Inl e) \<Rightarrow> (s1, Inl e)
      | (s1, Inr doc) \<Rightarrow>
         (case rbind (operation doc) (\<lambda>(doc1, value).
               rbind (next_revision (doc_revision doc1)) (\<lambda>rev.
               let doc2 = doc1\<lparr>doc_revision := rev\<rparr> in
               rbind (document_validate E doc2) (\<lambda>_.
               rbind (ensure (\<not> 2 * 1024 * 1024 < text_len E (encode_doc E doc2))
                 (sched_error_new ''capacity'')) (\<lambda>_.
               Inr (doc2, value))))) of
            Inl e \<Rightarrow> (s1, Inl e)
          | Inr (doc2, value) \<Rightarrow>
             (case io_save io of
                SaveFailed e published \<Rightarrow>
                  let error = with_detail E ''store_failed'' e in
                  (s1\<lparr>cache_fault := Some error,
                      disk := (if published then Some (encode_doc E doc2) else disk s1)\<rparr>,
                   Inl error)
              | SaveOk \<Rightarrow>
                  (s1\<lparr>disk := Some (encode_doc E doc2),
                      cache_seen := Some (Some (digest_of E (DgDocument doc2)))\<rparr>,
                   Inr value))))"

section \<open>The service\<close>

definition sched_list ::
  "('z, 'd, 'c, 't, 'f, 'x) sched_env_scheme \<Rightarrow> sched_io \<Rightarrow> string \<Rightarrow> 'f sched_state
   \<Rightarrow> 'f sched_state \<times> (sched_error + rule list)" where
  "sched_list E io project s =
     (case sched_read E io s of
        (s1, r) \<Rightarrow> (s1, rbind r (\<lambda>doc.
          Inr (filter (\<lambda>r. ws_project (r_scope r) = project) (doc_rules doc)))))"

definition sched_deliveries ::
  "('z, 'd, 'c, 't, 'f, 'x) sched_env_scheme \<Rightarrow> sched_io \<Rightarrow> string \<Rightarrow> 'f sched_state
   \<Rightarrow> 'f sched_state \<times> (sched_error + delivery list)" where
  "sched_deliveries E io project s =
     (case sched_read E io s of
        (s1, r) \<Rightarrow> (s1, rbind r (\<lambda>doc.
          Inr (filter (\<lambda>d. ws_project (d_scope d) = project) (doc_deliveries doc)))))"

definition project_roots ::
  "('z, 'd, 'c, 't, 'f, 'x) sched_env_scheme \<Rightarrow> sched_io \<Rightarrow> 'f sched_state
   \<Rightarrow> 'f sched_state \<times> (sched_error + string list)" where
  "project_roots E io s =
     (case sched_read E io s of
        (s1, r) \<Rightarrow> (s1, rbind r (\<lambda>doc.
          Inr (sort (remdups
            (map (\<lambda>r. ws_project (r_scope r)) (filter (\<lambda>r. r_phase r = Enabled) (doc_rules doc))
             @ map (\<lambda>d. ws_project (d_scope d)) (filter unsettled (doc_deliveries doc))))))))"

definition sched_reload ::
  "('z, 'd, 'c, 't, 'f, 'x) sched_env_scheme \<Rightarrow> sched_io \<Rightarrow> 'f sched_state
   \<Rightarrow> 'f sched_state \<times> (sched_error + unit)" where
  "sched_reload E io s =
     (case sched_read E io (s\<lparr>cache_seen := None, cache_fault := None\<rparr>) of
        (s1, r) \<Rightarrow> (s1, rbind r (\<lambda>_. Inr ())))"

definition sched_block ::
  "('z, 'd, 'c, 't, 'f, 'x) sched_env_scheme \<Rightarrow> sched_io \<Rightarrow> sched_io \<Rightarrow> string \<Rightarrow> string
   \<Rightarrow> string option \<Rightarrow> 'f sched_state \<Rightarrow> 'f sched_state \<times> (sched_error + unit)" where
  "sched_block E io io' project i reason s =
     (case sched_list E io project s of
        (s1, r) \<Rightarrow>
          (case rbind r (\<lambda>rules.
                ok_or (find (\<lambda>r. r_id r = i) rules) (sched_error_new ''not_found'')) of
             Inl e \<Rightarrow> (s1, Inl e)
           | Inr current \<Rightarrow>
               if r_blocked current = reason then (s1, Inr ())
               else transaction E io' (block_op project i (r_revision current) reason) s1))"

definition sched_create ::
  "('z, 'd, 'c, 't, 'f, 'x) sched_env_scheme \<Rightarrow> sched_io \<Rightarrow> string \<Rightarrow> work_scope \<Rightarrow> work_spec
   \<Rightarrow> 'f sched_state \<Rightarrow> 'f sched_state \<times> (sched_error + rule)" where
  "sched_create E io fresh scope spec s =
     (if \<not> is_project_trusted E (ws_project scope) then (s, Inl (sched_error_new ''untrusted''))
      else transaction E io (create_op E fresh scope spec) s)"

definition sched_reserve ::
  "('z, 'd, 'c, 't, 'f, 'x) sched_env_scheme \<Rightarrow> sched_io \<Rightarrow> string \<Rightarrow> string \<Rightarrow> u64 \<Rightarrow> int \<Rightarrow> int
   \<Rightarrow> 'f sched_state \<Rightarrow> 'f sched_state \<times> (sched_error + (rule \<times> delivery))" where
  "sched_reserve E io project i revision scheduled_at now s =
     (if \<not> is_project_trusted E project then (s, Inl (sched_error_new ''untrusted''))
      else transaction E io (reserve_op E project i revision scheduled_at now) s)"

text \<open>The reserved delivery a restarted host picks up again (\<open>pending_claim\<close>).\<close>

definition claim_matches ::
  "('z, 'd, 'c, 't, 'f, 'x) sched_env_scheme \<Rightarrow> (rule \<Rightarrow> bool) \<Rightarrow> delivery \<Rightarrow> rule \<Rightarrow> bool" where
  "claim_matches E eligible d r \<longleftrightarrow>
     eligible r \<and> r_id r = d_rule_id d \<and> r_phase r = Enabled \<and> authorization_valid E r
     \<and> digest_of E (DgDelivery (r_id r) (spec_digest E r) (d_scheduled_at d)) = d_id d"

fun pending_scan ::
  "('z, 'd, 'c, 't, 'f, 'x) sched_env_scheme \<Rightarrow> (rule \<Rightarrow> bool) \<Rightarrow> rule list \<Rightarrow> delivery list
   \<Rightarrow> (rule \<times> delivery) option" where
  "pending_scan E eligible rules [] = None"
| "pending_scan E eligible rules (d # ds) =
     (if d_phase d \<noteq> Reserved then pending_scan E eligible rules ds
      else case find (claim_matches E eligible d) rules of
          Some rule \<Rightarrow> Some (rule, d)
        | None \<Rightarrow> pending_scan E eligible rules ds)"

definition pending_claim ::
  "('z, 'd, 'c, 't, 'f, 'x) sched_env_scheme \<Rightarrow> sched_io \<Rightarrow> sched_io \<Rightarrow> string \<Rightarrow> (rule \<Rightarrow> bool)
   \<Rightarrow> 'f sched_state \<Rightarrow> 'f sched_state \<times> (sched_error + (rule \<times> delivery) option)" where
  "pending_claim E io io' project eligible s =
     (case sched_list E io project s of
        (s1, Inl e) \<Rightarrow> (s1, Inl e)
      | (s1, Inr rules) \<Rightarrow>
         (case sched_deliveries E io' project s1 of
            (s2, r) \<Rightarrow> (s2, rbind r (\<lambda>ds. Inr (pending_scan E eligible rules ds)))))"

text \<open>Due occurrences, oldest first (\<open>dispatch.rs\<close>); \<open>sort_by_key\<close> is stable.\<close>

fun due_scan ::
  "('z, 'd, 'c, 't, 'f, 'x) sched_env_scheme \<Rightarrow> int \<Rightarrow> rule list \<Rightarrow> sched_error + (rule \<times> int) list"
where
  "due_scan E now [] = Inr []"
| "due_scan E now (rule # rules) =
     (if r_phase rule \<noteq> Enabled \<or> \<not> can_reserve rule then due_scan E now rules
      else case sp_trigger (r_spec rule) of
          JobTrigger _ \<Rightarrow> due_scan E now rules
        | TimeTrigger time \<Rightarrow>
            if (case r_next_at rule of None \<Rightarrow> False | Some next \<Rightarrow> next \<le> now)
            then rbind (time_latest E time now) (\<lambda>latest.
              case latest of
                None \<Rightarrow> due_scan E now rules
              | Some at \<Rightarrow> rbind (due_scan E now rules) (\<lambda>due. Inr ((rule, at) # due)))
            else due_scan E now rules)"

definition due_times ::
  "('z, 'd, 'c, 't, 'f, 'x) sched_env_scheme \<Rightarrow> sched_io \<Rightarrow> string \<Rightarrow> int \<Rightarrow> 'f sched_state
   \<Rightarrow> 'f sched_state \<times> (sched_error + (rule \<times> int) list)" where
  "due_times E io project now s =
     (case sched_list E io project s of
        (s1, r) \<Rightarrow> (s1, rbind r (\<lambda>rules.
          rbind (due_scan E now rules) (\<lambda>due. Inr (sort_key snd due)))))"

definition has_session_rules ::
  "('z, 'd, 'c, 't, 'f, 'x) sched_env_scheme \<Rightarrow> sched_io \<Rightarrow> string \<Rightarrow> string \<Rightarrow> 'f sched_state
   \<Rightarrow> 'f sched_state \<times> (sched_error + bool)" where
  "has_session_rules E io project session s =
     (case sched_list E io project s of
        (s1, r) \<Rightarrow> (s1, rbind r (\<lambda>rules.
          Inr (list_ex (\<lambda>r. ws_session (r_scope r) = session) rules))))"

definition has_unsettled ::
  "('z, 'd, 'c, 't, 'f, 'x) sched_env_scheme \<Rightarrow> sched_io \<Rightarrow> string \<Rightarrow> 'f sched_state
   \<Rightarrow> 'f sched_state \<times> (sched_error + bool)" where
  "has_unsettled E io project s =
     (case sched_deliveries E io project s of
        (s1, r) \<Rightarrow> (s1, rbind r (\<lambda>ds. Inr (list_ex unsettled ds))))"

text \<open>Explicit run-once requests (\<open>manual.rs\<close>).\<close>

definition hex_digit_value :: "char \<Rightarrow> nat" where
  "hex_digit_value c =
     (if byte c \<le> 57 then byte c - 48 else if byte c \<le> 70 then byte c - 55 else byte c - 87)"

definition hex_value :: "string \<Rightarrow> nat" where
  "hex_value s = foldl (\<lambda>n c. n * 16 + hex_digit_value c) 0 s"

definition occurrence_of ::
  "('z, 'd, 'c, 't, 'f, 'x) sched_env_scheme \<Rightarrow> string \<Rightarrow> int" where
  "occurrence_of E request = - 1 - int (hex_value (take 15 (digest_of E (DgText request))))"

definition run_now_op ::
  "('z, 'd, 'c, 't, 'f, 'x) sched_env_scheme \<Rightarrow> string \<Rightarrow> string \<Rightarrow> u64 \<Rightarrow> string \<Rightarrow> int \<Rightarrow> document
   \<Rightarrow> sched_error + (document \<times> delivery)" where
  "run_now_op E project i revision request now doc =
     rbind (find_rule doc project i revision) (\<lambda>rule.
     let occ = occurrence_of E request;
         delivery_id = digest_of E (DgDelivery (r_id rule) (spec_digest E rule) occ) in
     case find (\<lambda>d. d_id d = delivery_id) (doc_deliveries doc) of
       Some prior \<Rightarrow> Inr (doc, prior)
     | None \<Rightarrow>
        rbind (ensure (\<not> (r_phase rule \<noteq> Enabled \<or> \<not> authorization_valid E rule))
          (sched_error_new ''confirmation_required'')) (\<lambda>_.
        rbind (ensure (\<not> is_job (sp_trigger (r_spec rule))) (sched_error_new ''invalid_rule'')) (\<lambda>_.
        rbind (ensure (can_reserve rule) (sched_error_new ''budget_exhausted'')) (\<lambda>_.
        rbind (reserve_delivery E rule revision occ now doc) (\<lambda>(doc', claim).
        Inr (doc', snd claim))))))"

definition run_now ::
  "('z, 'd, 'c, 't, 'f, 'x) sched_env_scheme \<Rightarrow> sched_io \<Rightarrow> string \<Rightarrow> string \<Rightarrow> u64 \<Rightarrow> string \<Rightarrow> int
   \<Rightarrow> 'f sched_state \<Rightarrow> 'f sched_state \<times> (sched_error + delivery)" where
  "run_now E io project i revision request now s =
     (if \<not> uuid_ok E request then (s, Inl (sched_error_new ''invalid_request''))
      else if \<not> is_project_trusted E project then (s, Inl (sched_error_new ''untrusted''))
      else transaction E io (run_now_op E project i revision request now) s)"

end
