(* ===== verification/SchedSafety.thy ===== *)
theory SchedSafety
  imports SchedStore
begin

text \<open>
  Invariants of the scheduler's control document and their lift to every reachable state of
  the service. \<open>run_call\<close> is one call of the service with the outcome of its file
  operations; \<open>sched_reach\<close> the states a host reaches from an empty control directory.
\<close>

section \<open>The invariant of the document\<close>

definition consumption_le :: "consumption \<Rightarrow> consumption \<Rightarrow> bool" where
  "consumption_le a b \<longleftrightarrow>
     co_runs a \<le> co_runs b \<and> co_tokens a \<le> co_tokens b \<and> co_seconds a \<le> co_seconds b
     \<and> co_paid_web_calls a \<le> co_paid_web_calls b"

text \<open>At most one delivery of a rule is in flight.\<close>

definition one_in_flight :: "document \<Rightarrow> bool" where
  "one_in_flight doc \<longleftrightarrow> distinct (map d_rule_id (filter unsettled (doc_deliveries doc)))"

text \<open>What a delivery in flight has reserved is part of what its rule has used.\<close>

definition reservations_covered :: "document \<Rightarrow> bool" where
  "reservations_covered doc \<longleftrightarrow>
     (\<forall>d\<in>set (doc_deliveries doc). \<forall>r\<in>set (doc_rules doc).
        unsettled d \<and> r_id r = d_rule_id d \<longrightarrow> consumption_le (d_reservation d) (r_used r))"

definition ledger_ok :: "document \<Rightarrow> bool" where
  "ledger_ok doc \<longleftrightarrow> one_in_flight doc \<and> reservations_covered doc"

definition rules_distinct :: "document \<Rightarrow> bool" where
  "rules_distinct doc \<longleftrightarrow> distinct (map r_id (doc_rules doc))"

lemma ledger_default: "ledger_ok document_default"
  by (simp add: ledger_ok_def one_in_flight_def reservations_covered_def document_default_def)

lemma consumption_le_refl [simp]: "consumption_le c c"
  by (simp add: consumption_le_def)

subsection \<open>Rewriting one rule\<close>

lemma find_rule_Inr:
  "find_rule doc project i revision = Inr r \<longleftrightarrow>
   find (rule_at project i) (doc_rules doc) = Some r \<and> r_revision r = revision"
  by (auto simp: find_rule_def)

lemma set_rule_simps [simp]:
  "doc_deliveries (set_rule project i r doc) = doc_deliveries doc"
  "doc_revision (set_rule project i r doc) = doc_revision doc"
  "doc_unit (set_rule project i r doc) = doc_unit doc"
  "doc_rules (set_rule project i r doc)
     = update_first (rule_at project i) (\<lambda>_. r) (doc_rules doc)"
  by (simp_all add: set_rule_def)

lemma set_delivery_simps [simp]:
  "doc_rules (set_delivery project i d doc) = doc_rules doc"
  "doc_revision (set_delivery project i d doc) = doc_revision doc"
  "doc_deliveries (set_delivery project i d doc)
     = update_first (delivery_at project i) (\<lambda>_. d) (doc_deliveries doc)"
  by (simp_all add: set_delivery_def)

lemma ids_update_first:
  "find p xs = Some x \<Longrightarrow> key y = key x \<Longrightarrow> map key (update_first p (\<lambda>_. y) xs) = map key xs"
  by (induction xs) (auto split: if_splits)

lemma update_first_mem: "find p xs = Some x \<Longrightarrow> y \<in> set (update_first p (\<lambda>_. y) xs)"
  by (induction xs) (auto split: if_splits)

lemma ledger_set_rule:
  assumes "ledger_ok doc" and "find (rule_at project i) (doc_rules doc) = Some r"
    and "r_id r' = r_id r"
    and "\<And>d. d \<in> set (doc_deliveries doc) \<Longrightarrow> unsettled d \<Longrightarrow> d_rule_id d = r_id r \<Longrightarrow>
           consumption_le (d_reservation d) (r_used r) \<Longrightarrow>
           consumption_le (d_reservation d) (r_used r')"
  shows "ledger_ok (set_rule project i r' doc)"
proof -
  have "r \<in> set (doc_rules doc)" using find_Some_set[OF assms(2)] by simp
  then have "consumption_le (d_reservation d) (r_used x)"
    if "d \<in> set (doc_deliveries doc)" "unsettled d" "r_id x = d_rule_id d"
      "x \<in> set (update_first (rule_at project i) (\<lambda>_. r') (doc_rules doc))" for d x
    using set_update_first[OF assms(2) that(4)] assms(1,3,4) that(1-3)
    by (fastforce simp: ledger_ok_def reservations_covered_def)
  with assms(1) show ?thesis
    by (simp add: ledger_ok_def one_in_flight_def reservations_covered_def)
qed

lemma ledger_same_used:
  assumes "ledger_ok doc" and "find (rule_at project i) (doc_rules doc) = Some r"
    and "r_id r' = r_id r" and "r_used r' = r_used r"
  shows "ledger_ok (set_rule project i r' doc)"
  by (rule ledger_set_rule[OF assms(1-3)]) (simp add: assms(4))

subsection \<open>Rewriting one delivery\<close>

lemma in_flight_subset:
  "find p ds = Some d \<Longrightarrow> d_rule_id d' = d_rule_id d \<Longrightarrow> (unsettled d' \<longrightarrow> unsettled d) \<Longrightarrow>
   set (map d_rule_id (filter unsettled (update_first p (\<lambda>_. d') ds)))
     \<subseteq> set (map d_rule_id (filter unsettled ds))"
proof (induction ds)
  case (Cons x ds)
  show ?case
  proof (cases "p x")
    case True
    with Cons.prems show ?thesis by auto
  next
    case False
    with Cons.prems Cons.IH show ?thesis by auto
  qed
qed simp

lemma in_flight_update:
  "find p ds = Some d \<Longrightarrow> d_rule_id d' = d_rule_id d \<Longrightarrow> (unsettled d' \<longrightarrow> unsettled d) \<Longrightarrow>
   distinct (map d_rule_id (filter unsettled ds)) \<Longrightarrow>
   distinct (map d_rule_id (filter unsettled (update_first p (\<lambda>_. d') ds)))"
proof (induction ds)
  case (Cons x ds)
  show ?case
  proof (cases "p x")
    case True
    with Cons.prems show ?thesis by (auto split: if_splits)
  next
    case False
    with Cons.prems have f: "find p ds = Some d" by simp
    from False Cons.prems have "distinct (map d_rule_id (filter unsettled ds))"
      by (simp split: if_splits)
    with Cons.IH f Cons.prems(2,3)
    have "distinct (map d_rule_id (filter unsettled (update_first p (\<lambda>_. d') ds)))" by blast
    with False Cons.prems(4) in_flight_subset[OF f Cons.prems(2,3)] show ?thesis
      by (auto split: if_splits)
  qed
qed simp

lemma ledger_set_delivery:
  assumes "ledger_ok doc" and "find (delivery_at project i) (doc_deliveries doc) = Some d"
    and "d_rule_id d' = d_rule_id d" and "d_reservation d' = d_reservation d"
    and "unsettled d' \<longrightarrow> unsettled d"
  shows "ledger_ok (set_delivery project i d' doc)"
proof -
  have mem: "d \<in> set (doc_deliveries doc)" using find_Some_set[OF assms(2)] by simp
  have "consumption_le (d_reservation x) (r_used r)"
    if "x \<in> set (update_first (delivery_at project i) (\<lambda>_. d') (doc_deliveries doc))"
      "unsettled x" "r \<in> set (doc_rules doc)" "r_id r = d_rule_id x" for x r
    using set_update_first[OF assms(2) that(1)] assms(1,3-5) mem that(2-4)
    by (auto simp: ledger_ok_def reservations_covered_def)
  with in_flight_update[OF assms(2,3,5)] assms(1) show ?thesis
    by (simp add: ledger_ok_def one_in_flight_def reservations_covered_def)
qed

subsection \<open>Reservations\<close>

lemma ledger_sub_deliveries:
  assumes "ledger_ok doc"
  shows "ledger_ok (doc\<lparr>doc_deliveries := take n (doc_deliveries doc)
           @ drop (Suc n) (doc_deliveries doc)\<rparr>)"
proof -
  have "doc_deliveries doc = take n (doc_deliveries doc) @ take 1 (drop n (doc_deliveries doc))
      @ drop (Suc n) (doc_deliveries doc)"
    by (metis append_take_drop_id drop_drop plus_1_eq_Suc)
  then have "distinct (map d_rule_id (filter unsettled (take n (doc_deliveries doc)
      @ take 1 (drop n (doc_deliveries doc)) @ drop (Suc n) (doc_deliveries doc))))"
    using assms by (simp add: ledger_ok_def one_in_flight_def)
  then have "one_in_flight (doc\<lparr>doc_deliveries := take n (doc_deliveries doc)
           @ drop (Suc n) (doc_deliveries doc)\<rparr>)"
    by (auto simp: one_in_flight_def)
  with assms show ?thesis
    by (auto simp: ledger_ok_def reservations_covered_def dest: in_set_takeD in_set_dropD)
qed

lemma ledger_trim: "ledger_ok doc \<Longrightarrow> trim_deliveries doc = Inr doc' \<Longrightarrow> ledger_ok doc'"
  by (auto simp: trim_deliveries_def ledger_sub_deliveries split: if_splits)

lemma trim_keeps:
  "trim_deliveries doc = Inr doc' \<Longrightarrow>
   doc_rules doc' = doc_rules doc \<and> doc_revision doc' = doc_revision doc
   \<and> set (doc_deliveries doc') \<subseteq> set (doc_deliveries doc)"
  by (auto simp: trim_deliveries_def split: if_splits dest: in_set_takeD in_set_dropD)

text \<open>The additions that \<open>reserve_delivery\<close> leaves unchecked do not overflow.\<close>

lemma charge_exact:
  assumes "can_reserve r"
  shows "unat (co_runs (r_used (charge (reservation_of (sp_budget (r_spec r))) r)))
      = unat (co_runs (r_used r)) + 1"
    and "unat (co_tokens (r_used (charge (reservation_of (sp_budget (r_spec r))) r)))
      = unat (co_tokens (r_used r)) + unat (wb_run_tokens (sp_budget (r_spec r)))"
    and "unat (co_seconds (r_used (charge (reservation_of (sp_budget (r_spec r))) r)))
      = unat (co_seconds (r_used r)) + unat (wb_run_seconds (sp_budget (r_spec r)))"
    and "unat (co_paid_web_calls (r_used (charge (reservation_of (sp_budget (r_spec r))) r)))
      = unat (co_paid_web_calls (r_used r)) + unat (wb_run_paid_web_calls (sp_budget (r_spec r)))"
proof -
  let ?b = "sp_budget (r_spec r)"
  note c = assms[unfolded can_reserve_iff Let_def]
  have bounds: "unat (wb_max_runs ?b) < 2 ^ 32" "unat (wb_max_tokens ?b) < 2 ^ 64"
    "unat (wb_max_seconds ?b) < 2 ^ 64" "unat (wb_max_paid_web_calls ?b) < 2 ^ 32"
    using unat_less_len[of "wb_max_runs ?b"] unat_less_len[of "wb_max_tokens ?b"]
      unat_less_len[of "wb_max_seconds ?b"] unat_less_len[of "wb_max_paid_web_calls ?b"] by simp_all
  have "unat (co_runs (r_used r)) + unat (1 :: u32) < 2 ^ LENGTH(32)" using c bounds by simp
  from unat_add_exact[OF this]
  show "unat (co_runs (r_used (charge (reservation_of ?b) r))) = unat (co_runs (r_used r)) + 1"
    by (simp add: charge_def reservation_of_def Let_def)
  have "unat (co_tokens (r_used r)) + unat (wb_run_tokens ?b) < 2 ^ LENGTH(64)"
    using c bounds by simp
  from unat_add_exact[OF this]
  show "unat (co_tokens (r_used (charge (reservation_of ?b) r)))
      = unat (co_tokens (r_used r)) + unat (wb_run_tokens ?b)"
    by (simp add: charge_def reservation_of_def Let_def)
  have "unat (co_seconds (r_used r)) + unat (ucast (wb_run_seconds ?b) :: u64) < 2 ^ LENGTH(64)"
    using c bounds by simp
  from unat_add_exact[OF this]
  show "unat (co_seconds (r_used (charge (reservation_of ?b) r)))
      = unat (co_seconds (r_used r)) + unat (wb_run_seconds ?b)"
    by (simp add: charge_def reservation_of_def Let_def)
  have "unat (co_paid_web_calls (r_used r)) + unat (wb_run_paid_web_calls ?b) < 2 ^ LENGTH(32)"
    using c bounds by simp
  from unat_add_exact[OF this]
  show "unat (co_paid_web_calls (r_used (charge (reservation_of ?b) r)))
      = unat (co_paid_web_calls (r_used r)) + unat (wb_run_paid_web_calls ?b)"
    by (simp add: charge_def reservation_of_def Let_def)
qed

lemma charge_keeps [simp]:
  "r_id (charge c r) = r_id r" "r_scope (charge c r) = r_scope r" "r_spec (charge c r) = r_spec r"
  "r_phase (charge c r) = r_phase r" "r_revision (charge c r) = r_revision r"
  "r_authorization (charge c r) = r_authorization r" "r_next_at (charge c r) = r_next_at r"
  by (simp_all add: charge_def Let_def)

lemma reservation_simps [simp]:
  "unat (co_runs (reservation_of b)) = 1"
  "co_tokens (reservation_of b) = wb_run_tokens b"
  "unat (co_seconds (reservation_of b)) = unat (wb_run_seconds b)"
  "co_paid_web_calls (reservation_of b) = wb_run_paid_web_calls b"
  by (simp_all add: reservation_of_def)

lemma charge_covers:
  "can_reserve r \<Longrightarrow>
   consumption_le (reservation_of (sp_budget (r_spec r)))
     (r_used (charge (reservation_of (sp_budget (r_spec r))) r))"
  by (simp add: consumption_le_def word_le_nat_alt charge_exact)

text \<open>What a successful \<open>reserve_delivery\<close> did.\<close>

lemma reserve_delivery_result:
  assumes "reserve_delivery E rule0 revision at now doc = Inr (doc', (rule, d))"
  shows "rule = charge (reservation_of (sp_budget (r_spec rule0))) rule0"
    and "d_id d = digest_of E (DgDelivery (r_id rule0) (spec_digest E rule0) at)"
    and "d_rule_id d = r_id rule0" and "d_phase d = Reserved" and "d_finished_at d = None"
    and "d_reservation d = reservation_of (sp_budget (r_spec rule0))" and "d_scheduled_at d = at"
    and "d_scope d = r_scope rule0" and "d_rule_revision d = revision"
    and "\<forall>x\<in>set (doc_deliveries doc). d_id x \<noteq> d_id d"
    and "\<forall>x\<in>set (doc_deliveries doc). d_rule_id x = r_id rule0 \<longrightarrow> \<not> unsettled x"
    and "\<exists>doc2. trim_deliveries (set_rule (ws_project (r_scope rule0)) (r_id rule0) rule doc)
            = Inr doc2 \<and> doc' = doc2\<lparr>doc_deliveries := doc_deliveries doc2 @ [d]\<rparr>"
    and "\<exists>r. find (rule_at (ws_project (r_scope rule0)) (r_id rule0)) (doc_rules doc) = Some r
            \<and> r_revision r = revision"
  using assms
  by (auto simp: reserve_delivery_def Let_def find_rule_Inr list_ex_iff)

lemma ledger_reserve_delivery:
  assumes inv: "ledger_ok doc" and ids: "rules_distinct doc" and can: "can_reserve rule0"
    and res: "reserve_delivery E rule0 revision at now doc = Inr (doc', (rule, d))"
  shows "ledger_ok doc'"
proof -
  note facts = reserve_delivery_result[OF res]
  let ?p = "ws_project (r_scope rule0)"
  obtain r where r: "find (rule_at ?p (r_id rule0)) (doc_rules doc) = Some r"
    using facts(13) by blast
  have rid: "r_id r = r_id rule0" using find_Some_set[OF r] by (simp add: rule_at_def)
  let ?doc1 = "set_rule ?p (r_id rule0) rule doc"
  have inv1: "ledger_ok ?doc1"
    by (rule ledger_set_rule[OF inv r]) (use facts(1,11) rid in auto)
  obtain doc2 where doc2: "trim_deliveries ?doc1 = Inr doc2"
      and doc': "doc' = doc2\<lparr>doc_deliveries := doc_deliveries doc2 @ [d]\<rparr>"
    using facts(12) by blast
  have inv2: "ledger_ok doc2" by (rule ledger_trim[OF inv1 doc2])
  have none: "\<forall>x\<in>set (doc_deliveries doc2). unsettled x \<longrightarrow> d_rule_id x \<noteq> d_rule_id d"
    using trim_keeps[OF doc2] facts(3,11) by auto
  have new: "consumption_le (d_reservation d) (r_used x)"
    if "x \<in> set (doc_rules doc2)" "r_id x = d_rule_id d" for x
  proof -
    have x: "x \<in> set (update_first (rule_at ?p (r_id rule0)) (\<lambda>_. rule) (doc_rules doc))"
      using that(1) trim_keeps[OF doc2] by simp
    have "distinct (map r_id (update_first (rule_at ?p (r_id rule0)) (\<lambda>_. rule) (doc_rules doc)))"
      using ids rid facts(1) by (simp add: ids_update_first[OF r] rules_distinct_def)
    moreover have "rule \<in> set (update_first (rule_at ?p (r_id rule0)) (\<lambda>_. rule) (doc_rules doc))"
      by (rule update_first_mem[OF r])
    ultimately have "x = rule"
      using x that(2) facts(1,3) by (intro distinct_key_eq[where f = r_id]) simp_all
    then show ?thesis using charge_covers[OF can] facts(1,6) by simp
  qed
  show ?thesis
    using inv2 none new unfolding doc' ledger_ok_def one_in_flight_def reservations_covered_def
    by auto
qed

subsection \<open>Every operation keeps the ledger\<close>

lemma ledger_block: "ledger_ok doc \<Longrightarrow> block_op p i v reason doc = Inr (doc', x) \<Longrightarrow> ledger_ok doc'"
  by (auto simp: block_op_def find_rule_Inr intro!: ledger_same_used)

lemma ledger_edit: "ledger_ok doc \<Longrightarrow> edit_op E p i v spec doc = Inr (doc', x) \<Longrightarrow> ledger_ok doc'"
  by (auto simp: edit_op_def Let_def find_rule_Inr intro!: ledger_same_used)

lemma ledger_review:
  "ledger_ok doc \<Longrightarrow> review_op E nonce p i v doc = Inr (doc', x) \<Longrightarrow> ledger_ok doc'"
  by (auto simp: review_op_def Let_def find_rule_Inr intro!: ledger_same_used)

lemma first_due_changes: "first_due E t r = Inr r' \<Longrightarrow> \<exists>n. r' = r\<lparr>r_next_at := n\<rparr>"
  by (cases "sp_trigger (r_spec r)") (auto simp: first_due_def intro: exI[of _ "r_next_at r"])

lemma take_due_changes: "take_due E at now r = Inr r' \<Longrightarrow> \<exists>n. r' = r\<lparr>r_next_at := n\<rparr>"
  by (cases "sp_trigger (r_spec r)") (auto simp: take_due_def intro: exI[of _ "r_next_at r"])

lemma ledger_confirm:
  "ledger_ok doc \<Longrightarrow> confirm_op E p i v nonce c at doc = Inr (doc', x) \<Longrightarrow> ledger_ok doc'"
  by (auto simp: confirm_op_def Let_def find_rule_Inr dest!: first_due_changes
      intro!: ledger_same_used)

lemma ledger_pause: "ledger_ok doc \<Longrightarrow> pause_op p i v doc = Inr (doc', x) \<Longrightarrow> ledger_ok doc'"
  by (auto simp: pause_op_def Let_def find_rule_Inr intro!: ledger_same_used)

lemma ledger_resume: "ledger_ok doc \<Longrightarrow> resume_op E p i v doc = Inr (doc', x) \<Longrightarrow> ledger_ok doc'"
  by (auto simp: resume_op_def Let_def find_rule_Inr intro!: ledger_same_used)

lemma ledger_delete: "ledger_ok doc \<Longrightarrow> delete_op p i v doc = Inr (doc', x) \<Longrightarrow> ledger_ok doc'"
  by (auto simp: delete_op_def ledger_ok_def one_in_flight_def reservations_covered_def)

text \<open>A fresh identifier: no delivery in flight names it.\<close>

definition fresh_rule_id :: "string \<Rightarrow> document \<Rightarrow> bool" where
  "fresh_rule_id i doc \<longleftrightarrow> (\<forall>d\<in>set (doc_deliveries doc). d_rule_id d \<noteq> i)"

lemma ledger_create:
  "ledger_ok doc \<Longrightarrow> fresh_rule_id i doc \<Longrightarrow> create_op E i scope spec doc = Inr (doc', x) \<Longrightarrow>
   ledger_ok doc'"
  by (fastforce simp: create_op_def Let_def ledger_ok_def one_in_flight_def
      reservations_covered_def fresh_rule_id_def)

lemma rules_distinct_set_rule:
  "rules_distinct doc \<Longrightarrow> find (rule_at p i) (doc_rules doc) = Some r \<Longrightarrow> r_id r' = r_id r \<Longrightarrow>
   rules_distinct (set_rule p i r' doc)"
  by (simp add: rules_distinct_def ids_update_first)

lemma can_reserve_next_at [simp]:
  "can_reserve (r\<lparr>r_next_at := n\<rparr>) = can_reserve r"
  "can_reserve (r\<lparr>r_phase := ph\<rparr>) = can_reserve r"
  by (simp_all add: can_reserve_def)

lemma reconcile_phase [simp]: "r_phase (reconcile c a r) = r_phase r"
  by (simp add: reconcile_def Let_def)

lemma ledger_reserve:
  assumes "ledger_ok doc" "rules_distinct doc"
    and "reserve_op E p i v at now doc = Inr (doc', x)"
  shows "ledger_ok doc'"
proof -
  obtain rule d where x: "x = (rule, d)" by (cases x)
  from assms(3) obtain r r' where r: "find (rule_at p i) (doc_rules doc) = Some r"
    and can: "can_reserve r" and r': "take_due E at now r = Inr r'"
    and res: "reserve_delivery E r' v at now (set_rule p i r' doc) = Inr (doc', (rule, d))"
    unfolding x by (auto simp: reserve_op_def find_rule_Inr)
  from take_due_changes[OF r'] obtain n where n: "r' = r\<lparr>r_next_at := n\<rparr>" by blast
  have "ledger_ok (set_rule p i r' doc)"
    by (rule ledger_same_used[OF assms(1) r]) (simp_all add: n)
  moreover have "rules_distinct (set_rule p i r' doc)"
    by (rule rules_distinct_set_rule[OF assms(2) r]) (simp_all add: n)
  moreover have "can_reserve r'" using n can by simp
  ultimately show ?thesis using res by (rule ledger_reserve_delivery)
qed

lemma ledger_run_now:
  assumes "ledger_ok doc" "rules_distinct doc"
    and "run_now_op E p i v request now doc = Inr (doc', x)"
  shows "ledger_ok doc'"
  using assms
  by (auto simp: run_now_op_def Let_def split: option.splits intro: ledger_reserve_delivery)

lemma ledger_admitted:
  assumes "ledger_ok doc" and "admitted_op p i receipt doc = Inr (doc', x)"
  shows "ledger_ok doc'"
proof -
  from assms(2) obtain d where "find (delivery_at p i) (doc_deliveries doc) = Some d"
    "unsettled d" "doc' = set_delivery p i (d\<lparr>d_receipt := Some receipt, d_phase := Admitted\<rparr>) doc"
    by (auto simp: admitted_op_def delivery_mut_def)
  then show ?thesis by (auto intro: ledger_set_delivery[OF assms(1)])
qed

lemma settle_rule_keeps [simp]:
  "r_id (settle_rule c a r) = r_id r" "r_spec (settle_rule c a r) = r_spec r"
  "r_scope (settle_rule c a r) = r_scope r" "r_revision (settle_rule c a r) = r_revision r"
  "r_authorization (settle_rule c a r) = r_authorization r"
  by (auto simp: settle_rule_def reconcile_def Let_def split: option.splits)

lemma no_other_in_flight:
  assumes "distinct (map d_rule_id (filter unsettled ds))" and "find p ds = Some d"
    and "unsettled d" and "\<not> unsettled d'"
    and "x \<in> set (update_first p (\<lambda>_. d') ds)" and "unsettled x"
  shows "d_rule_id x \<noteq> d_rule_id d"
  using assms
proof (induction ds)
  case (Cons a ds)
  show ?case
  proof (cases "p a")
    case True
    with Cons.prems have "a = d" "x \<in> set ds" by auto
    with Cons.prems(1,3,6) show ?thesis by (auto intro: rev_image_eqI)
  next
    case False
    with Cons.prems(2) have f: "find p ds = Some d" by simp
    then have d: "d \<in> set ds" by (rule find_Some_set[THEN conjunct1])
    show ?thesis
    proof (cases "x = a")
      case True
      with Cons.prems(1,3,6) d show ?thesis by (auto intro: rev_image_eqI)
    next
      case other: False
      from False Cons.prems(1) have "distinct (map d_rule_id (filter unsettled ds))"
        by (simp split: if_splits)
      moreover from False other Cons.prems(5) have "x \<in> set (update_first p (\<lambda>_. d') ds)" by simp
      ultimately show ?thesis using Cons.IH f Cons.prems(3,4,6) by blast
    qed
  qed
qed simp

lemma ledger_settle:
  assumes "ledger_ok doc" and "settle_op E p i phase actual diag now doc = Inr (doc', x)"
  shows "ledger_ok doc'"
proof (cases "doc' = doc")
  case False
  with assms(2) obtain d where d: "find (delivery_at p i) (doc_deliveries doc) = Some d"
    and live: "unsettled d" and phase: "\<not> (phase = Reserved \<or> phase = Admitted)"
    by (auto simp: settle_op_def delivery_mut_def Let_def split: if_splits)
  define d' where "d' = d\<lparr>d_phase := phase, d_finished_at := Some now,
             d_diagnostic := map_option (\<lambda>s. take_chars 512 (redact_secrets E s)) diag,
             d_actual := actual\<rparr>"
  define doc1 where "doc1 = set_delivery p i d' doc"
  have doc': "doc' = doc1\<lparr>doc_rules := update_first (\<lambda>r. r_id r = d_rule_id d)
      (settle_rule (d_reservation d) actual) (doc_rules doc)\<rparr>"
    using assms(2) d live phase by (auto simp: settle_op_def delivery_mut_def Let_def d'_def doc1_def)
  have fin: "\<not> unsettled d'" using phase by (simp add: d'_def unsettled_def)
  have inv1: "ledger_ok doc1"
    unfolding doc1_def by (rule ledger_set_delivery[OF assms(1) d]) (simp_all add: d'_def live)
  have others: "d_rule_id y \<noteq> d_rule_id d" if "y \<in> set (doc_deliveries doc1)" "unsettled y" for y
    using no_other_in_flight[OF _ d live fin] that assms(1)
    by (simp add: doc1_def ledger_ok_def one_in_flight_def)
  have "consumption_le (d_reservation y) (r_used r)"
    if "y \<in> set (doc_deliveries doc1)" "unsettled y" "r_id r = d_rule_id y"
      "r \<in> set (update_first (\<lambda>r. r_id r = d_rule_id d) (settle_rule (d_reservation d) actual)
          (doc_rules doc))" for y r
  proof (cases "find (\<lambda>r. r_id r = d_rule_id d) (doc_rules doc)")
    case None
    with that inv1 show ?thesis
      by (auto simp: update_first_absent ledger_ok_def reservations_covered_def doc1_def)
  next
    case (Some r0)
    from set_update_first[OF this that(4)] find_Some_set[OF this] others[OF that(1,2)] that inv1
    show ?thesis by (auto simp: ledger_ok_def reservations_covered_def doc1_def)
  qed
  with inv1 show ?thesis
    unfolding doc' by (simp add: ledger_ok_def one_in_flight_def reservations_covered_def)
qed (use assms in simp)

section \<open>Rules as a compare-and-set store\<close>

text \<open>The writes of a user on one rule, all guarded by the revision the user saw.\<close>

datatype rule_write =
    WEdit work_spec
  | WConfirm string string int
  | WPause
  | WResume
  | WDelete

definition rule_revision :: "string \<Rightarrow> string \<Rightarrow> document \<Rightarrow> u64 option" where
  "rule_revision p i doc = map_option r_revision (find (rule_at p i) (doc_rules doc))"

fun rule_commit ::
  "('z, 'd, 'c, 't, 'f, 'x) sched_env_scheme \<Rightarrow> string \<Rightarrow> string \<Rightarrow> u64 \<Rightarrow> rule_write \<Rightarrow> document
   \<Rightarrow> sched_error + document" where
  "rule_commit E p i v (WEdit spec) doc =
     rbind (edit_op E p i v spec doc) (\<lambda>(doc', _). Inr doc')"
| "rule_commit E p i v (WConfirm nonce c at) doc =
     rbind (confirm_op E p i v nonce c at doc) (\<lambda>(doc', _). Inr doc')"
| "rule_commit E p i v WPause doc = rbind (pause_op p i v doc) (\<lambda>(doc', _). Inr doc')"
| "rule_commit E p i v WResume doc = rbind (resume_op E p i v doc) (\<lambda>(doc', _). Inr doc')"
| "rule_commit E p i v WDelete doc = rbind (delete_op p i v doc) (\<lambda>(doc', _). Inr doc')"

lemma revision_set_rule:
  assumes "find (rule_at p i) (doc_rules doc) = Some r" and "rule_at p i r'"
  shows "rule_revision p i (set_rule p i r' doc) = Some (r_revision r')"
  using find_update_first[OF assms(1), of "\<lambda>_. r'"] assms(2) by (simp add: rule_revision_def)

lemma rule_commit_cases:
  assumes "rule_commit E p i v w doc = Inr doc'"
  obtains r r' where "find (rule_at p i) (doc_rules doc) = Some r" and "r_revision r = v"
      and "doc' = set_rule p i r' doc" and "rule_at p i r'" and "v < r_revision r'"
  | r where "find (rule_at p i) (doc_rules doc) = Some r" and "r_revision r = v"
      and "doc' = doc\<lparr>doc_rules := filter (\<lambda>r. r_id r \<noteq> i) (doc_rules doc)\<rparr>"
proof -
  have at: "find (rule_at p i) (doc_rules doc) = Some r \<Longrightarrow> r_id r = i"
    "find (rule_at p i) (doc_rules doc) = Some r \<Longrightarrow> ws_project (r_scope r) = p" for r
    by (auto simp: rule_at_def dest!: find_Some_set)
  show thesis
  proof (cases "w = WDelete")
    case True
    with assms show ?thesis by (auto simp: delete_op_def find_rule_Inr intro!: that(2))
  next
    case False
    with assms show ?thesis
      by (cases w)
        (auto simp: edit_op_def confirm_op_def pause_op_def resume_op_def Let_def find_rule_Inr
          next_revision_def rule_at_def[symmetric] intro!: that(1) dest!: first_due_changes
          dest: word_checked_succ simp: at iffD2[OF rule_at_def])
  qed
qed

interpretation rule_cas: cas_store "\<lambda>_. True" "rule_revision p i" "rule_commit E p i" for E p i
proof (unfold_locales, goal_cases)
  case (2 doc v w doc')
  then show ?case by (auto simp: rule_revision_def elim: rule_commit_cases)
next
  case (3 doc v w doc')
  from 3(2) show ?case
  proof (cases rule: rule_commit_cases)
    case (1 r r')
    then show ?thesis by (simp add: revision_set_rule)
  next
    case (2 r)
    have "find (rule_at p i) (filter (\<lambda>r. r_id r \<noteq> i) (doc_rules doc)) = None"
      by (auto simp: find_None_set rule_at_def)
    with 2 show ?thesis by (simp add: rule_revision_def)
  qed
qed simp

end
