(* ===== verification/SchedReach.thy ===== *)
theory SchedReach
  imports SchedSafety
begin

text \<open>
  The service as a state machine: one call, with its arguments and the outcome of the file
  operations, is a step of the state (control file, cache, fault). The lifts of the document
  invariants to reachable states rest on one hypothesis about the JSON codec, that a document
  reads back as it was written (\<open>codec_roundtrip\<close>).
\<close>

datatype sched_call =
    CList string
  | CReload
  | CBlock sched_io string string "string option"
  | CCreate string work_scope work_spec
  | CEdit string string u64 work_spec
  | CReview string string string u64
  | CConfirm string string u64 string string int
  | CPause string string u64
  | CResume string string u64
  | CDelete string string u64
  | CReserve string string u64 int int
  | CRunNow string string u64 string int
  | CAdmitted string string admission_receipt
  | CSettle string string delivery_phase "consumption option" "string option" int

fun run_call ::
  "('z, 'd, 'c, 't, 'f, 'x) sched_env_scheme \<Rightarrow> sched_io \<Rightarrow> sched_call \<Rightarrow> 'f sched_state \<Rightarrow> 'f sched_state"
where
  "run_call E io (CList p) s = fst (sched_list E io p s)"
| "run_call E io CReload s = fst (sched_reload E io s)"
| "run_call E io (CBlock io' p i reason) s = fst (sched_block E io io' p i reason s)"
| "run_call E io (CCreate i scope spec) s = fst (sched_create E io i scope spec s)"
| "run_call E io (CEdit p i v spec) s = fst (transaction E io (edit_op E p i v spec) s)"
| "run_call E io (CReview n p i v) s = fst (transaction E io (review_op E n p i v) s)"
| "run_call E io (CConfirm p i v n c at) s = fst (transaction E io (confirm_op E p i v n c at) s)"
| "run_call E io (CPause p i v) s = fst (transaction E io (pause_op p i v) s)"
| "run_call E io (CResume p i v) s = fst (transaction E io (resume_op E p i v) s)"
| "run_call E io (CDelete p i v) s = fst (transaction E io (delete_op p i v) s)"
| "run_call E io (CReserve p i v at now) s = fst (sched_reserve E io p i v at now s)"
| "run_call E io (CRunNow p i v req now) s = fst (run_now E io p i v req now s)"
| "run_call E io (CAdmitted p i receipt) s = fst (transaction E io (admitted_op p i receipt) s)"
| "run_call E io (CSettle p i phase actual diag now) s =
     fst (transaction E io (settle_op E p i phase actual diag now) s)"

definition codec_roundtrip :: "('z, 'd, 'c, 't, 'f, 'x) sched_env_scheme \<Rightarrow> bool" where
  "codec_roundtrip E \<longleftrightarrow> (\<forall>doc. decode_doc E (encode_doc E doc) = Inr doc)"

text \<open>The document a control file holds; a missing file is the default document.\<close>

definition stored_doc ::
  "('z, 'd, 'c, 't, 'f, 'x) sched_env_scheme \<Rightarrow> 'f sched_state \<Rightarrow> string + document" where
  "stored_doc E s = (case disk s of None \<Rightarrow> Inr document_default | Some text \<Rightarrow> decode_doc E text)"

definition store_ok :: "('z, 'd, 'c, 't, 'f, 'x) sched_env_scheme \<Rightarrow> 'f sched_state \<Rightarrow> bool" where
  "store_ok E s \<longleftrightarrow>
     (\<exists>doc. stored_doc E s = Inr doc \<and> document_valid E doc \<and> ledger_ok doc)"

text \<open>
  A rule is created under an identifier no recorded delivery names: what the code expects of
  \<open>Uuid::new_v4\<close>.
\<close>

definition fresh_call ::
  "('z, 'd, 'c, 't, 'f, 'x) sched_env_scheme \<Rightarrow> sched_call \<Rightarrow> 'f sched_state \<Rightarrow> bool" where
  "fresh_call E c s =
     (case c of
        CCreate i _ _ \<Rightarrow> (case stored_doc E s of Inl _ \<Rightarrow> True | Inr doc \<Rightarrow> fresh_rule_id i doc)
      | _ \<Rightarrow> True)"

inductive sched_reach :: "('z, 'd, 'c, 't, 'f, 'x) sched_env_scheme \<Rightarrow> 'f sched_state \<Rightarrow> bool"
  for E where
  boot: "sched_reach E (sched_state_new None)"
| call: "sched_reach E s \<Longrightarrow> fresh_call E c s \<Longrightarrow> sched_reach E (run_call E io c s)"

inductive_cases sched_reach_cases: "sched_reach E s"

section \<open>What a read and a transaction do\<close>

lemma sched_read_disk: "sched_read E io s = (t, r) \<Longrightarrow> disk t = disk s"
  by (auto simp: sched_read_def split: option.splits sum.splits prod.splits)

lemma sched_read_Inr:
  assumes "sched_read E io s = (t, Inr doc)"
  shows "stored_doc E s = Inr doc" and "document_valid E doc" and "cache_fault s = None"
    and "cache_fault t = None"
    and "cache_seen t = Some (map_option (\<lambda>_. digest_of E (DgDocument doc)) (disk s))"
    and "case cache_seen s of None \<Rightarrow> True | Some sig \<Rightarrow>
           sig = map_option (\<lambda>_. digest_of E (DgDocument doc)) (disk s)"
  using assms
  by (auto simp: sched_read_def read_checked_def stored_doc_def document_valid_def Let_def
      split: option.splits sum.splits prod.splits)

lemma transaction_disk:
  assumes "transaction E io operation s = (t, r)"
  obtains "disk t = disk s"
  | doc doc1 v rev where "stored_doc E s = Inr doc" and "document_valid E doc"
      and "operation doc = Inr (doc1, v)" and "checked_add (doc_revision doc1) 1 = Some rev"
      and "document_valid E (doc1\<lparr>doc_revision := rev\<rparr>)"
      and "disk t = Some (encode_doc E (doc1\<lparr>doc_revision := rev\<rparr>))"
proof -
  obtain s1 r1 where rd: "sched_read E io s = (s1, r1)" by (cases "sched_read E io s")
  note disk1 = sched_read_disk[OF rd]
  show thesis
  proof (cases r1)
    case (Inl e)
    with assms rd disk1 that(1) show ?thesis by (simp add: transaction_def)
  next
    case (Inr doc)
    note facts = sched_read_Inr[OF rd[unfolded Inr]]
    show ?thesis
    proof (cases "disk t = disk s")
      case False
      with assms rd Inr disk1 obtain doc1 v rev where
        "operation doc = Inr (doc1, v)" "checked_add (doc_revision doc1) 1 = Some rev"
        "document_validate E (doc1\<lparr>doc_revision := rev\<rparr>) = Inr ()"
        "disk t = Some (encode_doc E (doc1\<lparr>doc_revision := rev\<rparr>))"
        by (auto simp: transaction_def next_revision_def Let_def
            split: sum.splits prod.splits save_outcome.splits if_splits)
      with facts that(2) show ?thesis by (simp add: document_valid_def)
    qed (rule that(1))
  qed
qed

lemma transaction_ok:
  assumes "sched_read E io s = (s1, Inr doc)" and "operation doc = Inr (doc1, v)"
    and "checked_add (doc_revision doc1) 1 = Some nv"
    and "document_validate E (doc1\<lparr>doc_revision := nv\<rparr>) = Inr ()"
    and "text_len E (encode_doc E (doc1\<lparr>doc_revision := nv\<rparr>)) \<le> 2 * 1024 * 1024"
    and "io_save io = SaveOk"
  shows "transaction E io operation s =
    (s1\<lparr>disk := Some (encode_doc E (doc1\<lparr>doc_revision := nv\<rparr>)),
       cache_seen := Some (Some (digest_of E (DgDocument (doc1\<lparr>doc_revision := nv\<rparr>))))\<rparr>, Inr v)"
  using assms by (simp add: transaction_def next_revision_def Let_def)

lemma ledger_ignores_revision [simp]: "ledger_ok (doc\<lparr>doc_revision := v\<rparr>) = ledger_ok doc"
  by (simp add: ledger_ok_def one_in_flight_def reservations_covered_def)

lemma transaction_store_ok:
  assumes codec: "codec_roundtrip E" and ok: "store_ok E s"
    and op: "\<And>doc doc' v. stored_doc E s = Inr doc \<Longrightarrow> rules_distinct doc \<Longrightarrow> ledger_ok doc \<Longrightarrow>
          operation doc = Inr (doc', v) \<Longrightarrow> ledger_ok doc'"
  shows "store_ok E (fst (transaction E io operation s))"
proof -
  obtain t r where t: "transaction E io operation s = (t, r)" by fastforce
  then show ?thesis
  proof (cases rule: transaction_disk)
    case 1
    with ok t show ?thesis by (simp add: store_ok_def stored_doc_def)
  next
    case (2 doc doc1 v rev)
    from ok 2(1) have "ledger_ok doc" by (simp add: store_ok_def)
    moreover from 2(2) have "rules_distinct doc"
      by (simp add: document_valid_iff rules_distinct_def)
    ultimately have "ledger_ok doc1" using op 2(1,3) by blast
    with 2(5,6) codec t show ?thesis
      by (auto simp: store_ok_def stored_doc_def codec_roundtrip_def)
  qed
qed

lemma read_only_store_ok: "disk t = disk s \<Longrightarrow> store_ok E s \<Longrightarrow> store_ok E t"
  by (simp add: store_ok_def stored_doc_def)

lemma sched_list_disk: "disk (fst (sched_list E io p s)) = disk s"
  by (auto simp: sched_list_def split: prod.splits dest: sched_read_disk)

lemma sched_reload_disk: "disk (fst (sched_reload E io s)) = disk s"
  by (auto simp: sched_reload_def split: prod.splits dest: sched_read_disk)

lemma run_call_store_ok:
  assumes "codec_roundtrip E" "store_ok E s" "fresh_call E c s"
  shows "store_ok E (run_call E io c s)"
proof (cases c)
  case (CList p)
  with assms show ?thesis by (auto intro: read_only_store_ok[OF sched_list_disk])
next
  case CReload
  with assms show ?thesis by (auto intro: read_only_store_ok[OF sched_reload_disk])
next
  case (CBlock io' p i reason)
  obtain s1 r where l: "sched_list E io p s = (s1, r)" by fastforce
  with assms(2) have ok1: "store_ok E s1"
    using read_only_store_ok[OF sched_list_disk[of E io p s]] by simp
  have "store_ok E (fst (transaction E io' (block_op p i v reason) s1))" for v
    by (rule transaction_store_ok[OF assms(1) ok1]) (rule ledger_block)
  with ok1 show ?thesis unfolding CBlock
    by (auto simp: sched_block_def l split: sum.splits)
next
  case (CCreate i scope spec)
  with assms show ?thesis
    by (auto simp: sched_create_def fresh_call_def
        intro!: transaction_store_ok elim: ledger_create split: sum.splits)
qed (use assms in \<open>auto simp: sched_reserve_def run_now_def intro!: transaction_store_ok
  elim: ledger_edit ledger_review ledger_confirm ledger_pause ledger_resume ledger_delete
    ledger_reserve ledger_run_now ledger_admitted ledger_settle\<close>)

lemma boot_store_ok: "store_ok E (sched_state_new None)"
  by (simp add: store_ok_def stored_doc_def sched_state_new_def document_default_valid
      ledger_default)

lemma reach_store_ok: "sched_reach E s \<Longrightarrow> codec_roundtrip E \<Longrightarrow> store_ok E s"
  by (induction rule: sched_reach.induct) (auto intro: boot_store_ok run_call_store_ok)

end
