(* ===== verification/SchedProps.thy ===== *)
theory SchedProps
  imports SchedReach
begin

text \<open>
  The properties of the scheduler, each with a witness on \<open>demo_env\<close>: a calendar of
  24-hour UTC days numbered from 1970-01-01, a digest that is one repeated hex digit chosen
  from the input, and the document itself as the text of the control file.
\<close>

section \<open>A concrete environment\<close>

definition hex_char :: "nat \<Rightarrow> char" where
  "hex_char n = ''0123456789abcdef'' ! (n mod 16)"

fun demo_digest :: "digest_input \<Rightarrow> string" where
  "demo_digest (DgSpec i scope spec) = replicate 64 (hex_char (length (sp_instruction spec)))"
| "demo_digest (DgDelivery i d at) = replicate 64 (hex_char (nat (at mod 16)))"
| "demo_digest (DgReview nonce v d) = replicate 64 (hex_char (length nonce))"
| "demo_digest (DgDocument doc) = replicate 64 (hex_char (unat (doc_revision doc)))"
| "demo_digest (DgText t) = replicate 64 (hex_char (length t))"

definition demo_env :: "(unit, int, int \<times> u8 \<times> u8, int, document) sched_env" where
  "demo_env = \<lparr>ts_valid = (\<lambda>_. True), tz_get = (\<lambda>_. Some ()), tz_iana = (\<lambda>_. True),
     local_date = (\<lambda>_ ms. ms div 86400000), date_add = (\<lambda>d n. Some (d + n)),
     monday_one = (\<lambda>d. (d + 3) mod 7 + 1), civil_at = (\<lambda>d h m. (d, h, m)),
     earlier = (\<lambda>_ (d, h, m). Some (d * 86400000 + uint h * 3600000 + uint m * 60000)),
     civil_of = (\<lambda>_ t. (t div 86400000, word_of_int (t div 3600000 mod 24),
       word_of_int (t div 60000 mod 60))),
     as_ms = (\<lambda>t. t), digest_of = demo_digest, uuid_ok = (\<lambda>_. True), encode_doc = (\<lambda>d. d),
     text_len = (\<lambda>_. 0), decode_doc = Inr, is_project_trusted = (\<lambda>_. True),
     redact_secrets = (\<lambda>s. s)\<rparr>"

lemma demo_env_simps [simp]:
  "ts_valid demo_env t" "tz_get demo_env n = Some ()" "tz_iana demo_env z"
  "local_date demo_env z ms = ms div 86400000" "date_add demo_env d k = Some (d + k)"
  "monday_one demo_env d = (d + 3) mod 7 + 1" "civil_at demo_env d h m = (d, h, m)"
  "earlier demo_env z (d, h, m) = Some (d * 86400000 + uint h * 3600000 + uint m * 60000)"
  "civil_of demo_env z t = (t div 86400000, word_of_int (t div 3600000 mod 24),
       word_of_int (t div 60000 mod 60))"
  "as_ms demo_env t = t" "digest_of demo_env = demo_digest" "uuid_ok demo_env u"
  "encode_doc demo_env doc = doc" "text_len demo_env doc = 0" "decode_doc demo_env doc = Inr doc"
  "is_project_trusted demo_env p" "redact_secrets demo_env s = s"
  by (simp_all add: demo_env_def)

lemma demo_codec: "codec_roundtrip demo_env"
  by (simp add: codec_roundtrip_def)

definition demo_io :: sched_io where
  "demo_io = \<lparr>io_read_error = None, io_save = SaveOk\<rparr>"

lemma demo_io_simps [simp]: "io_read_error demo_io = None" "io_save demo_io = SaveOk"
  by (simp_all add: demo_io_def)

definition demo_spec :: work_spec where
  "demo_spec = \<lparr>sp_title = None, sp_notification = None, sp_instruction = ''report'',
     sp_trigger = TimeTrigger (Interval 0 5000),
     sp_budget = \<lparr>wb_max_runs = 2, wb_max_tokens = 100, wb_max_seconds = 60, wb_run_tokens = 40,
       wb_run_seconds = 20, wb_max_paid_web_calls = 0, wb_run_paid_web_calls = 0\<rparr>,
     sp_model = \<lparr>am_profile = None, am_fingerprint = replicate 64 (CHR ''a''), am_protocol = ''p'',
       am_model = ''m'', am_endpoint = ''e''\<rparr>\<rparr>"

definition demo_scope :: work_scope where
  "demo_scope = \<lparr>ws_project = ''/p'', ws_session = ''s''\<rparr>"

definition demo_rule :: rule where
  "demo_rule = \<lparr>r_id = ''r'', r_revision = 2, r_scope = demo_scope, r_spec = demo_spec,
     r_phase = Enabled,
     r_authorization = Some \<lparr>au_revision = 2, au_spec_digest = replicate 64 (CHR ''6''),
       au_confirmed_at = 0\<rparr>,
     r_used = consumption_default, r_blocked = None, r_next_at = Some 5000, r_review = None\<rparr>"

definition demo_doc :: document where
  "demo_doc = document_default\<lparr>doc_revision := 1, doc_rules := [demo_rule]\<rparr>"

lemmas demo_defs = demo_spec_def demo_scope_def demo_rule_def demo_doc_def hex_char_def
  consumption_default_def document_default_def

lemmas op_defs = find_rule_def set_rule_def rule_at_def next_revision_def checked_add_def
  authorization_valid_def spec_digest_def can_reserve_def within_def delivery_mut_def
  set_delivery_def delivery_at_def unsettled_def

lemmas eval_defs = op_defs demo_defs take_due_def time_latest_def time_after_def time_first_def
  reserve_delivery_def trim_deliveries_def charge_def reservation_of_def instant_def in_i64_def
  i64_min_def i64_max_def Let_def is_job_def checked_ms_def

section \<open>Reachable states\<close>

text \<open>
  C12: In every state the scheduler service reaches from an empty control directory, through any
  calls and any outcome of the file operations, the control file holds a document that passes
  its own validation; no rule has two deliveries in flight; what a delivery in flight reserved
  is contained in what its rule has used; and every enabled rule carries an authorization for
  exactly its current specification.
\<close>

theorem scheduler_store_safe:
  assumes "sched_reach E s" and "codec_roundtrip E"
  shows "\<exists>doc. stored_doc E s = Inr doc \<and> document_validate E doc = Inr ()
    \<and> (\<forall>d1\<in>set (doc_deliveries doc). \<forall>d2\<in>set (doc_deliveries doc).
          unsettled d1 \<and> unsettled d2 \<and> d_rule_id d1 = d_rule_id d2 \<longrightarrow> d1 = d2)
    \<and> (\<forall>d\<in>set (doc_deliveries doc). \<forall>r\<in>set (doc_rules doc).
          unsettled d \<and> r_id r = d_rule_id d \<longrightarrow> consumption_le (d_reservation d) (r_used r))
    \<and> (\<forall>r\<in>set (doc_rules doc). r_phase r = Enabled \<longrightarrow> authorization_valid E r)"
proof -
  from reach_store_ok[OF assms] obtain doc where doc: "stored_doc E s = Inr doc"
      "document_valid E doc" "ledger_ok doc"
    by (auto simp: store_ok_def)
  have "d1 = d2" if "d1 \<in> set (doc_deliveries doc)" "d2 \<in> set (doc_deliveries doc)"
      "unsettled d1" "unsettled d2" "d_rule_id d1 = d_rule_id d2" for d1 d2
    using doc(3) that unfolding ledger_ok_def one_in_flight_def
    by (intro distinct_key_eq[where f = d_rule_id and xs = "filter unsettled (doc_deliveries doc)"])
      auto
  with doc show ?thesis
    by (intro exI[of _ doc])
      (auto simp: document_valid_def ledger_ok_def reservations_covered_def
        dest: rule_valid_authorized iffD1[OF document_valid_iff, unfolded document_valid_def])
qed

definition demo_fresh :: "document sched_state" where
  "demo_fresh = run_call demo_env demo_io (CCreate ''r'' demo_scope demo_spec)
     (sched_state_new None)"

lemma demo_fresh_reach: "sched_reach demo_env demo_fresh"
  unfolding demo_fresh_def
  by (rule sched_reach.call[OF sched_reach.boot])
    (simp add: fresh_call_def fresh_rule_id_def stored_doc_def sched_state_new_def
      document_default_def)

lemma hexdigit_replicate: "is_hexdigit c \<Longrightarrow> list_all is_hexdigit (replicate n c)"
  by (simp add: list_all_iff)

lemma demo_trim: "trim ''report'' = ''report''"
proof -
  have "ws_prefix whitespace ''report'' = 0" "ws_prefix (map rev whitespace) (rev ''report'') = 0"
    by (simp_all add: ws_prefix_def whitespace_def)
  then show ?thesis by (simp add: trim_def trim_start_def trim_end_def trim_by_fixed)
qed

definition demo_draft :: rule where
  "demo_draft = demo_rule\<lparr>r_revision := 1, r_phase := Draft, r_authorization := None,
     r_next_at := None\<rparr>"

lemma demo_rules_valid:
  "rule_validate demo_env demo_draft = Inr ()" "rule_validate demo_env demo_rule = Inr ()"
  "rule_validate demo_env (demo_draft\<lparr>r_revision := 3\<rparr>) = Inr ()"
proof -
  have hex: "list_all is_hexdigit (replicate 64 (CHR ''a''))"
    by (rule hexdigit_replicate) (simp add: is_hexdigit_def)
  have b: "budget_validate (sp_budget demo_spec) = Inr ()"
    by (simp add: budget_validate_def demo_spec_def)
  have d: "spec_digest demo_env demo_rule = replicate 64 (CHR ''6'')"
    by (simp add: eval_defs)
  show "rule_validate demo_env demo_draft = Inr ()" "rule_validate demo_env demo_rule = Inr ()"
    "rule_validate demo_env (demo_draft\<lparr>r_revision := 3\<rparr>) = Inr ()"
    using hex b d demo_trim
    by (simp_all add: rule_validate_def Let_def demo_draft_def demo_rule_def demo_scope_def
        demo_spec_def path_is_absolute_def instant_def authorization_valid_def)
qed

lemma demo_fresh_doc:
  "stored_doc demo_env demo_fresh
     = Inr (document_default\<lparr>doc_revision := 1, doc_rules := [demo_draft]\<rparr>)"
proof -
  have create: "create_op demo_env ''r'' demo_scope demo_spec document_default
      = Inr (document_default\<lparr>doc_rules := [demo_draft]\<rparr>, demo_draft)"
    using demo_rules_valid(1)
    by (simp add: create_op_def Let_def demo_draft_def demo_rule_def document_default_def)
  have rd: "sched_read demo_env demo_io (sched_state_new None)
      = (sched_state_new None\<lparr>cache_seen := Some None\<rparr>, Inr document_default)"
    using document_default_valid[of demo_env]
    by (simp add: sched_read_def read_checked_def sched_state_new_def document_valid_def)
  have "document_validate demo_env (document_default\<lparr>doc_revision := 1, doc_rules := [demo_draft]\<rparr>)
      = Inr ()"
    using demo_rules_valid(1)
    by (simp add: document_validate_def unit_matches_def document_default_def)
  then have "transaction demo_env demo_io (create_op demo_env ''r'' demo_scope demo_spec)
      (sched_state_new None) =
    (sched_state_new None\<lparr>cache_seen := Some None,
       disk := Some (document_default\<lparr>doc_rules := [demo_draft], doc_revision := 1\<rparr>),
       cache_seen := Some (Some (replicate 64 (CHR ''1'')))\<rparr>, Inr demo_draft)"
    using transaction_ok[OF rd, where operation = "create_op demo_env ''r'' demo_scope demo_spec"
      and nv = 1, OF create]
    by (simp add: checked_add_def document_default_def hex_char_def)
  then show ?thesis
    by (simp add: demo_fresh_def sched_create_def stored_doc_def document_default_def)
qed

theorem scheduler_store_safe_witness:
  "\<exists>doc. stored_doc demo_env demo_fresh = Inr doc \<and> document_validate demo_env doc = Inr ()
     \<and> length (doc_rules doc) = 1"
  using scheduler_store_safe[OF demo_fresh_reach demo_codec] by (auto simp: demo_fresh_doc)

section \<open>Budgets\<close>


lemma demo_reserve:
  "\<exists>doc' rule d. reserve_op demo_env ''/p'' ''r'' 2 10000 11000 demo_doc = Inr (doc', (rule, d))
     \<and> r_used rule = \<lparr>co_runs = 1, co_tokens = 40, co_seconds = 20, co_paid_web_calls = 0\<rparr>
     \<and> d_id d = replicate 64 (CHR ''0'') \<and> r_next_at rule = Some 15000"
  by (simp add: reserve_op_def eval_defs)


section \<open>Settlement\<close>

text \<open>What a settlement does to the rule of the delivery.\<close>

lemma settle_op_result:
  assumes d: "find (delivery_at p i) (doc_deliveries doc) = Some d" and live: "unsettled d"
    and ok: "settle_op E p i phase actual diag now doc = Inr (doc', d')"
  shows "d_phase d' = phase" and "d_finished_at d' = Some now" and "d_id d' = d_id d"
    and "d_actual d' = actual" and "\<not> unsettled d'"
    and "doc_deliveries doc' = update_first (delivery_at p i) (\<lambda>_. d') (doc_deliveries doc)"
    and "doc_rules doc' = update_first (\<lambda>r. r_id r = d_rule_id d)
           (settle_rule (d_reservation d) actual) (doc_rules doc)"
  using d live ok by (auto simp: settle_op_def delivery_mut_def Let_def unsettled_def)

text \<open>The bookkeeping of one counter: give the reservation back, then add what was used.\<close>

lemma reconcile_counter:
  assumes "(res :: 'a::len word) \<le> used" and "unat used - unat res + unat act < 2 ^ LENGTH('a)"
  shows "unat (saturating_add (saturating_sub used res) act) + unat res = unat used + unat act"
  using assms by (simp add: unat_saturating_add unat_saturating_sub word_le_nat_alt)

definition consumption_fits :: "consumption \<Rightarrow> consumption \<Rightarrow> consumption \<Rightarrow> bool" where
  "consumption_fits used res act \<longleftrightarrow>
     unat (co_runs used) - unat (co_runs res) + unat (co_runs act) < 2 ^ 32
     \<and> unat (co_tokens used) - unat (co_tokens res) + unat (co_tokens act) < 2 ^ 64
     \<and> unat (co_seconds used) - unat (co_seconds res) + unat (co_seconds act) < 2 ^ 64
     \<and> unat (co_paid_web_calls used) - unat (co_paid_web_calls res) + unat (co_paid_web_calls act)
         < 2 ^ 32"

text \<open>
  Settling a delivery in flight with its actual consumption replaces the reservation by the
  actual amounts in all four counters of the rule (nothing is lost to saturation, because the
  reservation is contained in what the rule has used), and the rule becomes exhausted exactly
  when it can no longer reserve another run.
\<close>

theorem settle_reconciles:
  assumes "ledger_ok doc" and "find (delivery_at p i) (doc_deliveries doc) = Some d"
    and "unsettled d"
    and "find (\<lambda>r. r_id r = d_rule_id d) (doc_rules doc) = Some r"
    and "consumption_fits (r_used r) (d_reservation d) act"
    and "settle_op E p i phase (Some act) diag now doc = Inr (doc', d')"
  shows "\<exists>r'. find (\<lambda>r. r_id r = d_rule_id d) (doc_rules doc') = Some r'
    \<and> unat (co_runs (r_used r')) + unat (co_runs (d_reservation d))
        = unat (co_runs (r_used r)) + unat (co_runs act)
    \<and> unat (co_tokens (r_used r')) + unat (co_tokens (d_reservation d))
        = unat (co_tokens (r_used r)) + unat (co_tokens act)
    \<and> unat (co_seconds (r_used r')) + unat (co_seconds (d_reservation d))
        = unat (co_seconds (r_used r)) + unat (co_seconds act)
    \<and> unat (co_paid_web_calls (r_used r')) + unat (co_paid_web_calls (d_reservation d))
        = unat (co_paid_web_calls (r_used r)) + unat (co_paid_web_calls act)
    \<and> r_phase r' = (if can_reserve r' then r_phase r else Exhausted)"
proof -
  let ?f = "settle_rule (d_reservation d) (Some act)"
  have mem: "d \<in> set (doc_deliveries doc)" "r \<in> set (doc_rules doc)" "r_id r = d_rule_id d"
    using find_Some_set[OF assms(2)] find_Some_set[OF assms(4)] by auto
  then have le: "consumption_le (d_reservation d) (r_used r)"
    using assms(1,3) by (simp add: ledger_ok_def reservations_covered_def)
  have "find (\<lambda>r. r_id r = d_rule_id d) (doc_rules doc') = Some (?f r)"
    unfolding settle_op_result(7)[OF assms(2,3,6)]
    by (rule find_update_first[OF assms(4)]) (simp add: mem)
  moreover have "r_used (?f r) = r_used (reconcile (d_reservation d) act r)"
    by (simp add: settle_rule_def Let_def)
  moreover have "r_phase (?f r) = (if can_reserve (?f r) then r_phase r else Exhausted)"
    by (simp add: settle_rule_def Let_def)
  ultimately show ?thesis
    using le assms(5)
    by (simp add: reconcile_def Let_def consumption_le_def consumption_fits_def reconcile_counter)
qed

definition demo_reserved :: document where
  "demo_reserved = fst (projr (reserve_op demo_env ''/p'' ''r'' 2 10000 11000 demo_doc))"

definition demo_delivery :: delivery where
  "demo_delivery = snd (snd (projr (reserve_op demo_env ''/p'' ''r'' 2 10000 11000 demo_doc)))"

definition demo_charged :: rule where
  "demo_charged = fst (snd (projr (reserve_op demo_env ''/p'' ''r'' 2 10000 11000 demo_doc)))"

lemma demo_reserve_eq:
  "reserve_op demo_env ''/p'' ''r'' 2 10000 11000 demo_doc
     = Inr (demo_reserved, (demo_charged, demo_delivery))"
  using demo_reserve by (auto simp: demo_reserved_def demo_charged_def demo_delivery_def)

lemma demo_ledger: "ledger_ok demo_doc" "rules_distinct demo_doc"
  by (simp_all add: ledger_ok_def one_in_flight_def reservations_covered_def rules_distinct_def
      demo_doc_def document_default_def)

lemma demo_reserved_ledger: "ledger_ok demo_reserved"
  by (rule ledger_reserve[OF demo_ledger demo_reserve_eq])

lemma demo_reserved_facts:
  "doc_deliveries demo_reserved = [demo_delivery]" "doc_rules demo_reserved = [demo_charged]"
  "d_id demo_delivery = replicate 64 (CHR ''0'')" "d_rule_id demo_delivery = ''r''"
  "d_scope demo_delivery = demo_scope" "d_phase demo_delivery = Reserved"
  "d_reservation demo_delivery
     = \<lparr>co_runs = 1, co_tokens = 40, co_seconds = 20, co_paid_web_calls = 0\<rparr>"
  "r_id demo_charged = ''r''" "r_spec demo_charged = demo_spec"
  "r_used demo_charged = \<lparr>co_runs = 1, co_tokens = 40, co_seconds = 20, co_paid_web_calls = 0\<rparr>"
  by (simp_all add: demo_reserved_def demo_charged_def demo_delivery_def reserve_op_def eval_defs)

theorem settle_reconciles_witness:
  "\<exists>doc' d' r'. settle_op demo_env ''/p'' (replicate 64 (CHR ''0'')) Completed
      (Some \<lparr>co_runs = 1, co_tokens = 25, co_seconds = 7, co_paid_web_calls = 0\<rparr>) None 12000
      demo_reserved = Inr (doc', d')
    \<and> find (\<lambda>r. r_id r = ''r'') (doc_rules doc') = Some r' \<and> unat (co_tokens (r_used r')) = 25"
proof -
  let ?act = "\<lparr>co_runs = 1, co_tokens = 25, co_seconds = 7, co_paid_web_calls = 0\<rparr> :: consumption"
  have f: "find (delivery_at ''/p'' (replicate 64 (CHR ''0''))) (doc_deliveries demo_reserved)
      = Some demo_delivery"
    by (simp add: demo_reserved_facts delivery_at_def demo_scope_def)
  have u: "unsettled demo_delivery" by (simp add: demo_reserved_facts unsettled_def)
  have r: "find (\<lambda>r. r_id r = d_rule_id demo_delivery) (doc_rules demo_reserved)
      = Some demo_charged"
    by (simp add: demo_reserved_facts)
  have fits: "consumption_fits (r_used demo_charged) (d_reservation demo_delivery) ?act"
    by (simp add: consumption_fits_def demo_reserved_facts)
  obtain doc' d' where s: "settle_op demo_env ''/p'' (replicate 64 (CHR ''0'')) Completed
      (Some ?act) None 12000 demo_reserved = Inr (doc', d')"
    using f u by (simp add: settle_op_def delivery_mut_def Let_def)
  from settle_reconciles[OF demo_reserved_ledger f u r fits s] s show ?thesis
    by (auto simp: demo_reserved_facts)
qed

section \<open>Foreign changes of the control file\<close>

text \<open>
  The file differs from what the service last saw: it does not decode, is not a valid document,
  or has another digest.
\<close>

definition foreign :: "('z, 'd, 'c, 't, 'f, 'x) sched_env_scheme \<Rightarrow> string option \<Rightarrow> 'f \<Rightarrow> bool" where
  "foreign E sig text \<longleftrightarrow>
     (\<forall>doc. decode_doc E text = Inr doc \<and> document_valid E doc \<longrightarrow>
        sig \<noteq> Some (digest_of E (DgDocument doc)))"

text \<open>The service has seen another file, or already carries a fault.\<close>

definition shut :: "('z, 'd, 'c, 't, 'f, 'x) sched_env_scheme \<Rightarrow> 'f \<Rightarrow> 'f sched_state \<Rightarrow> bool" where
  "shut E text s \<longleftrightarrow> disk s = Some text
     \<and> (cache_fault s \<noteq> None \<or> (\<exists>sig. cache_seen s = Some sig \<and> foreign E sig text))"

lemma shut_read:
  assumes "shut E text s" and "sched_read E io s = (t, r)"
  shows "shut E text t \<and> (\<exists>e. r = Inl e)"
proof (cases r)
  case (Inr doc)
  note facts = sched_read_Inr[OF assms(2)[unfolded Inr]]
  from assms(1) facts(3) obtain sig where "cache_seen s = Some sig" "foreign E sig text"
    "disk s = Some text"
    by (auto simp: shut_def)
  with facts(1,2,6) show ?thesis by (auto simp: foreign_def stored_doc_def)
next
  case (Inl e)
  then show ?thesis
    using assms
    by (auto simp: sched_read_def shut_def split: option.splits sum.splits prod.splits)
qed

lemma shut_transaction: "shut E text s \<Longrightarrow> shut E text (fst (transaction E io operation s))"
  by (cases "sched_read E io s") (auto simp: transaction_def dest: shut_read)

lemma shut_list: "shut E text s \<Longrightarrow> shut E text (fst (sched_list E io p s))"
  by (cases "sched_read E io s") (auto simp: sched_list_def dest: shut_read)

lemma shut_call: "shut E text s \<Longrightarrow> c \<noteq> CReload \<Longrightarrow> shut E text (run_call E io c s)"
proof (cases c)
  case (CBlock io' p i reason)
  assume s: "shut E text s"
  obtain s1 r where l: "sched_list E io p s = (s1, r)" by fastforce
  have "shut E text s1" using shut_list[OF s, of io p] l by simp
  then show ?thesis
    by (auto simp: CBlock sched_block_def l split: sum.splits intro: shut_transaction)
qed (auto simp: sched_create_def sched_reserve_def run_now_def intro: shut_transaction shut_list)

lemma shut_calls:
  "shut E text s \<Longrightarrow> CReload \<notin> snd ` set calls \<Longrightarrow>
   shut E text (fold (\<lambda>(io, c). run_call E io c) calls s)"
proof (induction calls arbitrary: s)
  case (Cons ioc calls)
  obtain io c where ioc: "ioc = (io, c)" by fastforce
  with Cons.prems have "shut E text (run_call E io c s)" by (auto intro: shut_call)
  with Cons.IH[of "run_call E io c s"] Cons.prems(2) ioc show ?case by simp
qed simp



section \<open>Concurrent writers and confirmations\<close>

text \<open>
  Two writes of a user on the same rule (edit, confirm, pause, resume or delete) that name
  the same revision cannot both succeed: after the first, the second is refused, so no update
  is lost.
\<close>

theorem rule_writes_never_lost:
  assumes "rule_commit E p i v w doc = Inr doc'"
  shows "\<exists>e. rule_commit E p i v w' doc' = Inl e"
  using TrueI assms by (rule rule_cas.no_lost_update)

theorem rule_writes_never_lost_witness:
  "\<exists>doc' e. rule_commit demo_env ''/p'' ''r'' 2 WPause demo_doc = Inr doc'
     \<and> rule_commit demo_env ''/p'' ''r'' 2 WDelete doc' = Inl e"
proof -
  have "is_ok (rule_commit demo_env ''/p'' ''r'' 2 WPause demo_doc)"
    by (simp add: pause_op_def eval_defs)
  then obtain doc' where ok: "rule_commit demo_env ''/p'' ''r'' 2 WPause demo_doc = Inr doc'"
    unfolding is_ok_iff by blast
  from rule_writes_never_lost[OF this] ok show ?thesis by blast
qed

lemma edit_revokes_authority_parts:
  assumes "edit_op E p i v spec doc = Inr (doc', r)"
  shows "confirm_op E p i (r_revision r) nonce c at doc'
        = Inl (sched_error_new ''confirmation_required'')"
    and "resume_op E p i (r_revision r) doc' = Inl (sched_error_new ''confirmation_required'')"
    and "reserve_op E p i (r_revision r) t now doc'
        = Inl (sched_error_new ''confirmation_required'')"
proof -
  from assms obtain r0 where r0: "find (rule_at p i) (doc_rules doc) = Some r0"
    and r: "r_id r = r_id r0" "r_scope r = r_scope r0" "r_authorization r = None"
      "r_review r = None" "r_phase r = Draft"
    and doc': "doc' = set_rule p i r doc"
    by (auto simp: edit_op_def Let_def find_rule_Inr)
  have "find (rule_at p i) (doc_rules doc') = Some r"
    using find_update_first[OF r0, of "\<lambda>_. r"] find_Some_set[OF r0] r(1,2)
    by (simp add: doc' rule_at_def)
  then have "find_rule doc' p i (r_revision r) = Inr r" by (simp add: find_rule_Inr)
  then show "confirm_op E p i (r_revision r) nonce c at doc'
        = Inl (sched_error_new ''confirmation_required'')"
    "resume_op E p i (r_revision r) doc' = Inl (sched_error_new ''confirmation_required'')"
    "reserve_op E p i (r_revision r) t now doc'
        = Inl (sched_error_new ''confirmation_required'')"
    using r by (simp_all add: confirm_op_def resume_op_def reserve_op_def reviewed_def
        authorization_valid_def Let_def)
qed

lemma demo_edit: "is_ok (edit_op demo_env ''/p'' ''r'' 2 demo_spec demo_doc)"
proof -
  have "r_id demo_rule = ''r''" "ws_project (r_scope demo_rule) = ''/p''" "r_revision demo_rule = 2"
    by (simp_all add: demo_rule_def demo_scope_def)
  moreover have "rule_validate demo_env (demo_draft\<lparr>r_revision := 3\<rparr>) = Inr ()"
    by (rule demo_rules_valid(3))
  moreover have "demo_rule\<lparr>r_spec := demo_spec, r_revision := 3, r_authorization := None,
      r_review := None, r_phase := Draft, r_blocked := None, r_next_at := None\<rparr>
      = demo_draft\<lparr>r_revision := 3\<rparr>"
    by (simp add: demo_draft_def demo_rule_def)
  ultimately show ?thesis
    by (simp add: edit_op_def demo_doc_def document_default_def find_rule_def rule_at_def
        next_revision_def checked_add_def Let_def)
qed

text \<open>
  An edited rule can neither be resumed nor confirmed nor reserved with what was reviewed
  before: every confirmation of the new revision is refused until it has been reviewed again,
  and no delivery of it can be reserved.
\<close>

theorem edit_revokes_authority:
  assumes "edit_op E p i v spec doc = Inr (doc', r)"
  shows "confirm_op E p i (r_revision r) nonce c at doc'
        = Inl (sched_error_new ''confirmation_required'')
    \<and> resume_op E p i (r_revision r) doc' = Inl (sched_error_new ''confirmation_required'')
    \<and> reserve_op E p i (r_revision r) t now doc'
        = Inl (sched_error_new ''confirmation_required'')"
  using edit_revokes_authority_parts[OF assms] by simp

theorem edit_revokes_authority_witness:
  "\<exists>doc' r. edit_op demo_env ''/p'' ''r'' 2 demo_spec demo_doc = Inr (doc', r)
     \<and> reserve_op demo_env ''/p'' ''r'' (r_revision r) 10000 11000 doc'
        = Inl (sched_error_new ''confirmation_required'')"
proof -
  obtain doc' r where ok: "edit_op demo_env ''/p'' ''r'' 2 demo_spec demo_doc = Inr (doc', r)"
    using demo_edit unfolding is_ok_iff by auto
  with edit_revokes_authority[OF ok] show ?thesis by blast
qed

section \<open>Occurrences\<close>

text \<open>
  Whenever a time rule is reserved twice, the second time with the \<open>next_at\<close> the first
  reservation left, the second occurrence is strictly later than the first and so is its
  instant: an occurrence is never taken twice.
\<close>

theorem occurrences_strictly_increase:
  assumes "take_due E at now r = Inr r'" and "sp_trigger (r_spec r) = TimeTrigger time"
    and "take_due E at2 now2 s = Inr s'" and "r_next_at s = r_next_at r'"
    and "sp_trigger (r_spec s) = TimeTrigger time"
  shows "at < at2 \<and> now < now2"
proof -
  from assms(1,2) have l1: "time_latest E time now = Inr (Some at)"
    and a1: "time_after E time now = Inr (r_next_at r')"
    by (auto simp: take_due_def)
  from assms(3,4,5) obtain n where n: "r_next_at r' = Some n" and "n \<le> at2"
    and l2: "time_latest E time now2 = Inr (Some at2)"
    by (auto simp: take_due_def split: option.splits)
  with l1 a1 show ?thesis
    by (intro clock.occurrences_increase[where E = E and r = time and n = n]) simp_all
qed

lemma demo_take_due: "\<exists>r'. take_due demo_env 10000 11000 demo_rule = Inr r' \<and> r_next_at r' = Some 15000
    \<and> sp_trigger (r_spec r') = TimeTrigger (Interval 0 5000)"
  "is_ok (take_due demo_env 20000 21000 (demo_rule\<lparr>r_next_at := Some 15000\<rparr>))"
  by (simp_all add: eval_defs)

theorem occurrences_strictly_increase_witness:
  "\<exists>r' s'. take_due demo_env 10000 11000 demo_rule = Inr r'
     \<and> take_due demo_env 20000 21000 (demo_rule\<lparr>r_next_at := Some 15000\<rparr>) = Inr s'
     \<and> (10000 :: int) < 20000"
proof -
  obtain r' s' where "take_due demo_env 10000 11000 demo_rule = Inr r'"
    "r_next_at r' = Some 15000"
    "take_due demo_env 20000 21000 (demo_rule\<lparr>r_next_at := Some 15000\<rparr>) = Inr s'"
    using demo_take_due unfolding is_ok_iff by blast
  moreover from this have "(10000 :: int) < 20000 \<and> (11000 :: int) < 21000"
    by (intro occurrences_strictly_increase[where E = demo_env and r = demo_rule and r' = r'
        and s = "demo_rule\<lparr>r_next_at := Some 15000\<rparr>" and s' = s'
        and time = "Interval 0 5000"]) (simp_all add: demo_defs)
  ultimately show ?thesis by blast
qed

lemma interval_grid_parts:
  assumes "time_validate E (Interval anchor every) = Inr ()" and "0 \<le> k"
  shows "time_after E (Interval anchor every) now = Inr (Some t) \<Longrightarrow>
      (\<exists>j\<ge>0. t = anchor + j * uint every) \<and> now < t
      \<and> (now < anchor + k * uint every \<longrightarrow> t \<le> anchor + k * uint every)"
    and "time_latest E (Interval anchor every) now = Inr (Some u) \<Longrightarrow>
      (\<exists>j\<ge>0. u = anchor + j * uint every) \<and> u \<le> now
      \<and> (anchor + k * uint every \<le> now \<longrightarrow> anchor + k * uint every \<le> u)"
proof -
  define e where "e = uint every"
  have e: "0 < e" unfolding e_def using assms(1) by (rule interval_valid_pos)
  define q where "q = (now - anchor) div e"
  have up: "k < q + 1 \<or> now < anchor + k * e" if "anchor \<le> now"
    using interval_grid_gap(2)[OF e that] e mult_right_mono[of "q + 1" k e]
    unfolding q_def by linarith
  have low: "q + 1 \<le> k" if "anchor \<le> now" "now < anchor + k * e"
  proof (rule ccontr)
    assume "\<not> q + 1 \<le> k"
    then have "k * e \<le> q * e" using e by (intro mult_right_mono) auto
    with interval_grid_gap(1)[OF e that(1)] that(2) show False unfolding q_def by linarith
  qed
  have high: "k \<le> q" if "anchor \<le> now" "anchor + k * e \<le> now"
    using up[OF that(1)] that(2) by linarith
  {
    assume t: "time_after E (Interval anchor every) now = Inr (Some t)"
    show "(\<exists>j\<ge>0. t = anchor + j * uint every) \<and> now < t
      \<and> (now < anchor + k * uint every \<longrightarrow> t \<le> anchor + k * uint every)"
    proof (cases "now < anchor")
      case True
      then show ?thesis
        using t assms(2) e by (auto simp: time_after_def e_def[symmetric] intro: exI[of _ 0])
    next
      case False
      then have tq: "t = anchor + (q + 1) * e" using t by (auto simp: time_after_def q_def e_def)
      have "0 \<le> q" using False e by (simp add: q_def pos_imp_zdiv_nonneg_iff)
      moreover have "t \<le> anchor + k * e" if "now < anchor + k * e"
        using low[OF _ that] False e tq by (simp add: mult_right_mono)
      ultimately show ?thesis
        using tq time_after_future[OF t] by (auto simp: e_def intro: exI[of _ "q + 1"])
    qed
  next
    assume u: "time_latest E (Interval anchor every) now = Inr (Some u)"
    then have le: "anchor \<le> now" and uq: "u = anchor + q * e"
      by (auto simp: time_latest_def q_def e_def split: if_splits)
    have "0 \<le> q" using le e by (simp add: q_def pos_imp_zdiv_nonneg_iff)
    moreover have "anchor + k * e \<le> u" if "anchor + k * e \<le> now"
      using high[OF le that] e uq by (simp add: mult_right_mono)
    ultimately show "(\<exists>j\<ge>0. u = anchor + j * uint every) \<and> u \<le> now
      \<and> (anchor + k * uint every \<le> now \<longrightarrow> anchor + k * uint every \<le> u)"
      using uq time_latest_past[OF u] by (auto simp: e_def)
  }
qed

text \<open>
  An interval rule fires on its grid: the occurrence after an instant is the least point
  \<open>anchor + k * every\<close> that lies after it, and the latest occurrence the greatest one at or
  before it, for every grid index \<open>k\<close>.
\<close>

theorem interval_grid:
  assumes "time_validate E (Interval anchor every) = Inr ()" and "0 \<le> k"
  shows "(time_after E (Interval anchor every) now = Inr (Some t) \<longrightarrow>
      (\<exists>j\<ge>0. t = anchor + j * uint every) \<and> now < t
      \<and> (now < anchor + k * uint every \<longrightarrow> t \<le> anchor + k * uint every))
    \<and> (time_latest E (Interval anchor every) now = Inr (Some u) \<longrightarrow>
      (\<exists>j\<ge>0. u = anchor + j * uint every) \<and> u \<le> now
      \<and> (anchor + k * uint every \<le> now \<longrightarrow> anchor + k * uint every \<le> u))"
  using interval_grid_parts[OF assms] by blast

theorem interval_grid_witness:
  "time_after demo_env (Interval 0 5000) 11000 = Inr (Some 15000) \<and> (11000::int) < 15000"
proof -
  have v: "time_validate demo_env (Interval 0 5000) = Inr ()" by (simp add: instant_def)
  have t: "time_after demo_env (Interval 0 5000) 11000 = Inr (Some 15000)"
    by (simp add: eval_defs)
  from interval_grid[OF v order_refl, of 11000 15000 0] t show ?thesis by simp
qed

lemma civil_occurrence_parts:
  assumes "civil_fields r = Inr (weekday, hour, minute, name)"
  shows "time_after E r now = Inr (Some t) \<Longrightarrow> now < t \<and> (\<exists>tz date ts.
        tz_get E name = Some tz \<and> t = as_ms E ts
        \<and> civil_of E tz ts = civil_at E date hour minute
        \<and> (\<forall>d. weekday = Some d \<longrightarrow> monday_one E date = sint d))"
    and "time_latest E r now = Inr (Some u) \<Longrightarrow> u \<le> now \<and> (\<exists>tz date ts.
        tz_get E name = Some tz \<and> u = as_ms E ts
        \<and> civil_of E tz ts = civil_at E date hour minute
        \<and> (\<forall>d. weekday = Some d \<longrightarrow> monday_one E date = sint d))"
proof -
  assume "time_after E r now = Inr (Some t)"
  then have "civil_candidate E r now True = Inr (Some t)"
    using assms by (cases r) (auto simp: time_after_def)
  from civil_candidate_result[OF this] assms
  show "now < t \<and> (\<exists>tz date ts. tz_get E name = Some tz \<and> t = as_ms E ts
        \<and> civil_of E tz ts = civil_at E date hour minute
        \<and> (\<forall>d. weekday = Some d \<longrightarrow> monday_one E date = sint d))"
    by (auto simp: civil_hit_def zone_def)
next
  assume "time_latest E r now = Inr (Some u)"
  then have "civil_candidate E r now False = Inr (Some u)"
    using assms by (cases r) (auto simp: time_latest_def)
  from civil_candidate_result[OF this] assms
  show "u \<le> now \<and> (\<exists>tz date ts. tz_get E name = Some tz \<and> u = as_ms E ts
        \<and> civil_of E tz ts = civil_at E date hour minute
        \<and> (\<forall>d. weekday = Some d \<longrightarrow> monday_one E date = sint d))"
    by (auto simp: civil_hit_def zone_def)
qed

text \<open>
  C20: A daily or weekly rule only ever yields instants whose civil time in the rule's zone is
  the rule's hour and minute on some date, on the rule's weekday if it has one; the next one is
  after the given instant and the latest one is not after it.
\<close>

theorem civil_occurrence:
  assumes "civil_fields r = Inr (weekday, hour, minute, name)"
  shows "(time_after E r now = Inr (Some t) \<longrightarrow> now < t \<and> (\<exists>tz date ts.
        tz_get E name = Some tz \<and> t = as_ms E ts
        \<and> civil_of E tz ts = civil_at E date hour minute
        \<and> (\<forall>d. weekday = Some d \<longrightarrow> monday_one E date = sint d)))
    \<and> (time_latest E r now = Inr (Some u) \<longrightarrow> u \<le> now \<and> (\<exists>tz date ts.
        tz_get E name = Some tz \<and> u = as_ms E ts
        \<and> civil_of E tz ts = civil_at E date hour minute
        \<and> (\<forall>d. weekday = Some d \<longrightarrow> monday_one E date = sint d)))"
  using civil_occurrence_parts[OF assms] by blast

theorem civil_occurrence_witness:
  "time_after demo_env (Weekly 1 8 30 ''UTC'') 0 = Inr (Some 376200000) \<and> (0::int) < 376200000"
proof -
  have t: "time_after demo_env (Weekly 1 8 30 ''UTC'') 0 = Inr (Some 376200000)"
    by (simp add: time_after_def civil_candidate_def zone_def instant_def civil_window_def)
  have "civil_fields (Weekly 1 8 30 ''UTC'') = Inr (Some 1, 8, 30, ''UTC'')" by simp
  from civil_occurrence[OF this, where E = demo_env and now = 0 and t = 376200000] t
  show ?thesis by simp
qed

section \<open>Exactly once\<close>

lemma reserve_op_result:
  assumes "reserve_op E p i v at now doc = Inr (doc', (rule, d))"
  obtains r n where "find (rule_at p i) (doc_rules doc) = Some r" and "can_reserve r"
    and "r_phase r = Enabled" and "authorization_valid E r"
    and "rule = charge (reservation_of (sp_budget (r_spec r))) (r\<lparr>r_next_at := n\<rparr>)"
    and "d_id d = digest_of E (DgDelivery (r_id r) (spec_digest E r) at)"
    and "d_rule_id d = r_id r" and "d_phase d = Reserved" and "d_scope d = r_scope r"
    and "d_scheduled_at d = at"
    and "\<forall>x\<in>set (doc_deliveries doc). d_id x \<noteq> d_id d"
    and "\<forall>x\<in>set (doc_deliveries doc). d_rule_id x = r_id r \<longrightarrow> \<not> unsettled x"
    and "doc_rules doc' = update_first (rule_at p i) (\<lambda>_. rule) (doc_rules doc)"
    and "d \<in> set (doc_deliveries doc')"
proof -
  from assms obtain r n where r: "find (rule_at p i) (doc_rules doc) = Some r"
    and g: "can_reserve r" "r_phase r = Enabled" "authorization_valid E r"
    and res: "reserve_delivery E (r\<lparr>r_next_at := n\<rparr>) v at now
      (set_rule p i (r\<lparr>r_next_at := n\<rparr>) doc) = Inr (doc', (rule, d))"
    by (auto simp: reserve_op_def find_rule_Inr dest!: take_due_changes)
  have at: "r_id r = i" "ws_project (r_scope r) = p"
    using find_Some_set[OF r] by (simp_all add: rule_at_def)
  note facts = reserve_delivery_result[OF res, simplified]
  have sd: "spec_digest E (r\<lparr>r_next_at := n\<rparr>) = spec_digest E r" by (simp add: spec_digest_def)
  from facts(12) at obtain doc2 where doc2: "trim_deliveries (set_rule p i rule (set_rule p i
      (r\<lparr>r_next_at := n\<rparr>) doc)) = Inr doc2" "doc' = doc2\<lparr>doc_deliveries := doc_deliveries doc2 @ [d]\<rparr>"
    by auto
  have twice: "update_first (rule_at p i) (\<lambda>_. rule) (update_first (rule_at p i) (\<lambda>_. y) xs)
      = update_first (rule_at p i) (\<lambda>_. rule) xs" if "rule_at p i y" for y xs
    using that by (induction xs) auto
  have rules: "doc_rules doc' = update_first (rule_at p i) (\<lambda>_. rule) (doc_rules doc)"
    using trim_keeps[OF doc2(1)] doc2(2) twice[of "r\<lparr>r_next_at := n\<rparr>"] at
    by (simp add: rule_at_def)
  have new: "d \<in> set (doc_deliveries doc')" by (simp add: doc2(2))
  show thesis
    by (rule that[OF r g facts(1) facts(2)[unfolded sd] facts(3,4,8,7,10,11) rules new])
qed

lemma reserved_once_parts:
  assumes ok: "reserve_op E p i v at now doc = Inr (doc1, (rule, d))"
  shows "\<exists>e. reserve_op E p i v' at' now' doc1 = Inl e"
    and "settle_op E p (d_id d) phase actual diag t doc1 = Inr (doc2, d') \<Longrightarrow>
      \<exists>e. reserve_op E p i v' at now' doc2 = Inl e"
proof -
  from ok obtain r n where r: "find (rule_at p i) (doc_rules doc) = Some r"
    and rule: "rule = charge (reservation_of (sp_budget (r_spec r))) (r\<lparr>r_next_at := n\<rparr>)"
    and d: "d_id d = digest_of E (DgDelivery (r_id r) (spec_digest E r) at)"
      "d_rule_id d = r_id r" "d_phase d = Reserved" "d \<in> set (doc_deliveries doc1)"
    and rules1: "doc_rules doc1 = update_first (rule_at p i) (\<lambda>_. rule) (doc_rules doc)"
    by (rule reserve_op_result)
  have live: "unsettled d" using d(3) by (simp add: unsettled_def)
  have at: "rule_at p i rule" and rid: "r_id r = i"
    using find_Some_set[OF r] by (simp_all add: rule rule_at_def)
  have find1: "find (rule_at p i) (doc_rules doc1) = Some rule"
    using find_update_first[OF r, of "\<lambda>_. rule"] at rules1 by simp
  show "\<exists>e. reserve_op E p i v' at' now' doc1 = Inl e"
  proof (cases "reserve_op E p i v' at' now' doc1")
    case (Inr x)
    obtain doc3 rule3 d3 where "reserve_op E p i v' at' now' doc1 = Inr (doc3, (rule3, d3))"
      using Inr by (cases x) auto
    then show ?thesis
      by (rule reserve_op_result) (use find1 d(2,4) live rule rid in auto)
  qed simp
  assume settle: "settle_op E p (d_id d) phase actual diag t doc1 = Inr (doc2, d')"
  have same: "\<exists>x\<in>set (doc_deliveries doc2). d_id x = d_id d"
  proof -
    obtain x where x: "find (delivery_at p (d_id d)) (doc_deliveries doc1) = Some x"
      using settle by (auto simp: settle_op_def delivery_mut_def)
    then have xid: "d_id x = d_id d" by (auto simp: delivery_at_def dest!: find_Some_set)
    show ?thesis
    proof (cases "unsettled x")
      case True
      from settle_op_result(3,6)[OF x True settle] update_first_mem[OF x, of d'] xid
      show ?thesis by auto
    next
      case False
      with settle x d(4) show ?thesis by (auto simp: settle_op_def delivery_mut_def)
    qed
  qed
  have keep: "spec_digest E y = spec_digest E r \<and> r_id y = r_id r"
    if y: "find (rule_at p i) (doc_rules doc2) = Some y" for y
  proof -
    have shape: "doc_rules doc2 = doc_rules doc1 \<or> (\<exists>q f. doc_rules doc2 = update_first q f (doc_rules doc1)
        \<and> (\<forall>x. r_id (f x) = r_id x \<and> r_scope (f x) = r_scope x \<and> r_spec (f x) = r_spec x))"
      using settle by (auto simp: settle_op_def Let_def split: if_splits)
        (metis settle_rule_keeps(1-3))
    have pick: "y = rule \<or> y = f rule" if "doc_rules doc2 = update_first q f (doc_rules doc1)"
      "\<forall>x. r_id (f x) = r_id x \<and> r_scope (f x) = r_scope x \<and> r_spec (f x) = r_spec x" for q f
    proof -
      have "find (rule_at p i) (update_first q f xs) = Some y \<Longrightarrow>
          find (rule_at p i) xs = Some rule \<Longrightarrow> y = rule \<or> y = f rule" for xs
        using that(2) by (induction xs) (auto simp: rule_at_def split: if_splits)
      with y that(1) find1 show ?thesis by simp
    qed
    from shape have "r_id y = r_id rule \<and> r_scope y = r_scope rule \<and> r_spec y = r_spec rule"
    proof (elim disjE exE conjE)
      assume "doc_rules doc2 = doc_rules doc1"
      with y find1 show ?thesis by simp
    next
      fix q f
      assume f: "doc_rules doc2 = update_first q f (doc_rules doc1)"
        "\<forall>x. r_id (f x) = r_id x \<and> r_scope (f x) = r_scope x \<and> r_spec (f x) = r_spec x"
      from pick[OF f] f(2) show ?thesis by (elim disjE) simp_all
    qed
    then show ?thesis by (simp add: spec_digest_def rule)
  qed
  show "\<exists>e. reserve_op E p i v' at now' doc2 = Inl e"
  proof (cases "reserve_op E p i v' at now' doc2")
    case (Inr x)
    obtain doc3 rule3 d3 where "reserve_op E p i v' at now' doc2 = Inr (doc3, (rule3, d3))"
      using Inr by (cases x) auto
    then obtain r3 where r3: "find (rule_at p i) (doc_rules doc2) = Some r3"
      "d_id d3 = digest_of E (DgDelivery (r_id r3) (spec_digest E r3) at)"
      "\<forall>x\<in>set (doc_deliveries doc2). d_id x \<noteq> d_id d3"
      by (rule reserve_op_result) blast
    from keep[OF r3(1)] r3(2) d(1) have "d_id d3 = d_id d" by simp
    with same r3(3) have False by auto
    then show ?thesis ..
  qed simp
qed



lemma pending_scan_complete:
  "d \<in> set ds \<Longrightarrow> d_phase d = Reserved \<Longrightarrow> r \<in> set rules \<Longrightarrow> claim_matches E eligible d r \<Longrightarrow>
   \<exists>x. pending_scan E eligible rules ds = Some x"
  by (induction ds) (auto simp: find_None_set split: option.splits)

lemma pending_scan_sound:
  "pending_scan E eligible rules ds = Some (r, d) \<Longrightarrow>
   d \<in> set ds \<and> d_phase d = Reserved \<and> r \<in> set rules \<and> claim_matches E eligible d r"
  by (induction ds) (auto split: if_splits option.splits dest: find_Some_set)



end
