(* ===== verification/Json.thy ===== *)
theory Json
  imports Prelude
begin

text \<open>
  JSON values as the crate \<open>serde_json\<close> presents them to the program (\<open>Value\<close>): an
  object is the list of its entries in insertion order (the repository builds the crate with
  \<open>preserve_order\<close>), with distinct keys; an integer is an \<open>int\<close>; any other number is its
  literal text, which the program never looks into. The readers are those of \<open>Value\<close>.
\<close>

datatype json =
    JNull
  | JBool bool
  | JInt int
  | JFloat string
  | JStr string
  | JArr "json list"
  | JObj "(string \<times> json) list"

fun as_str :: "json \<Rightarrow> string option" where
  "as_str (JStr s) = Some s"
| "as_str _ = None"

fun as_u64 :: "json \<Rightarrow> u64 option" where
  "as_u64 (JInt n) = (if 0 \<le> n \<and> n < 18446744073709551616 then Some (word_of_int n) else None)"
| "as_u64 _ = None"

fun as_i64 :: "json \<Rightarrow> int option" where
  "as_i64 (JInt n) = (if in_i64 n then Some n else None)"
| "as_i64 _ = None"

fun as_object :: "json \<Rightarrow> (string \<times> json) list option" where
  "as_object (JObj es) = Some es"
| "as_object _ = None"

fun as_array :: "json \<Rightarrow> json list option" where
  "as_array (JArr xs) = Some xs"
| "as_array _ = None"

fun json_get :: "json \<Rightarrow> string \<Rightarrow> json option" where
  "json_get (JObj es) k = map_of es k"
| "json_get _ k = None"

text \<open>The index operators: a missing key or position reads as \<open>Null\<close>.\<close>

definition json_index :: "json \<Rightarrow> string \<Rightarrow> json" where
  "json_index j k = (case json_get j k of None \<Rightarrow> JNull | Some v \<Rightarrow> v)"

fun json_at :: "json \<Rightarrow> nat \<Rightarrow> json" where
  "json_at (JArr xs) n = (if n < length xs then xs ! n else JNull)"
| "json_at _ n = JNull"

text \<open>
  Assignment through the index operator: replaces the entry or appends it. The program assigns
  into objects only.
\<close>

fun entry_set :: "string \<Rightarrow> json \<Rightarrow> (string \<times> json) list \<Rightarrow> (string \<times> json) list" where
  "entry_set k v [] = [(k, v)]"
| "entry_set k v ((k', w) # es) = (if k' = k then (k, v) # es else (k', w) # entry_set k v es)"

fun json_set :: "json \<Rightarrow> string \<Rightarrow> json \<Rightarrow> json" where
  "json_set (JObj es) k v = JObj (entry_set k v es)"
| "json_set j k v = j"

definition get_str :: "(string \<times> json) list \<Rightarrow> string \<Rightarrow> string option" where
  "get_str es k = Option.bind (map_of es k) as_str"

definition get_u64 :: "(string \<times> json) list \<Rightarrow> string \<Rightarrow> u64 option" where
  "get_u64 es k = Option.bind (map_of es k) as_u64"

text \<open>The object has exactly the given keys (a length test and a membership test).\<close>

definition exact_keys :: "(string \<times> json) list \<Rightarrow> string list \<Rightarrow> bool" where
  "exact_keys es ks \<longleftrightarrow> length es = length ks \<and> (\<forall>k\<in>set ks. map_of es k \<noteq> None)"

definition jnat :: "'a::len word \<Rightarrow> json" where
  "jnat w = JInt (uint w)"

lemma as_u64_jnat [simp]: "as_u64 (jnat (w :: u64)) = Some w"
  using uint_lt2p[of w] by (simp add: jnat_def)

lemma as_str_JStr [simp]: "as_str j = Some s \<longleftrightarrow> j = JStr s"
  by (cases j) auto

lemma as_object_Some [simp]: "as_object j = Some es \<longleftrightarrow> j = JObj es"
  by (cases j) auto

lemma json_index_JObj [simp]:
  "json_index (JObj es) k = (case map_of es k of None \<Rightarrow> JNull | Some v \<Rightarrow> v)"
  by (simp add: json_index_def)

lemma map_of_entry_set:
  "map_of (entry_set k v es) q = (if q = k then Some v else map_of es q)"
  by (induction es) auto

lemma json_index_set [simp]:
  "json_index (json_set (JObj es) k v) q = (if q = k then v else json_index (JObj es) q)"
  by (simp add: map_of_entry_set)

end
