(* ===== verification/GoalState.thy ===== *)
theory GoalState
  imports Json Interfaces
begin

text \<open>
  The durable goal of a session (\<open>goal.rs\<close>): its state, the normal forms of the texts it
  carries, the \<open>goal/change\<close> events a journal holds and the fold that rebuilds the current
  goal from them. Outside the repository, and parameters in \<open>goal_env\<close>: UUID syntax, the
  \<open>Deserialize\<close> code serde generates (\<open>dec_goal\<close>) and the file system. Errors are the
  texts of the code.
\<close>

datatype goal_phase = GActive | GPaused | GBlocked | GComplete

fun phase_str :: "goal_phase \<Rightarrow> string" where
  "phase_str GActive = ''active''"
| "phase_str GPaused = ''paused''"
| "phase_str GBlocked = ''blocked''"
| "phase_str GComplete = ''complete''"

datatype goal_acceptance =
    AccUser
  | AccFileExists string
  | AccFileContains string string

record goal_limits =
  gl_max_rounds :: u32
  gl_max_tokens :: u64
  gl_max_time_secs :: u64
  gl_max_failures :: u32

definition goal_limits_default :: goal_limits where
  "goal_limits_default = \<lparr>gl_max_rounds = 0, gl_max_tokens = 0, gl_max_time_secs = 0,
     gl_max_failures = 0\<rparr>"

record goal_block_reason =
  gb_code :: string
  gb_message :: string

record goal_state =
  g_id :: string
  g_objective :: string
  g_acceptance :: goal_acceptance
  g_phase :: goal_phase
  g_revision :: u64
  g_rounds_started :: u32
  g_failures :: u32
  g_tokens_used :: u64
  g_elapsed_ms :: u64
  g_limits :: goal_limits
  g_created_at :: int
  g_updated_at :: int
  g_blocked_reason :: "goal_block_reason option"
  g_last_result :: "string option"

text \<open>
  \<open>canonicalize\<close> and \<open>read_limited\<close> answer with the error text on the left;
  \<open>path_join\<close> and \<open>path_under\<close> are \<open>Path::join\<close> and the component-wise
  \<open>starts_with\<close>; \<open>utf8_error\<close> is the complaint of \<open>str::from_utf8\<close>, if any.
\<close>

record 'p goal_env =
  g_uuid_ok :: "string \<Rightarrow> bool"
  dec_goal :: "json \<Rightarrow> string + goal_state"
  project_root :: 'p
  canonicalize :: "'p \<Rightarrow> string + 'p"
  path_join :: "'p \<Rightarrow> string \<Rightarrow> 'p"
  path_under :: "'p \<Rightarrow> 'p \<Rightarrow> bool"
  path_is_file :: "'p \<Rightarrow> bool"
  read_limited :: "string \<Rightarrow> nat \<Rightarrow> string + string option"
  utf8_error :: "string \<Rightarrow> string option"

section \<open>Normal forms of the texts\<close>

definition max_result_bytes :: nat where "max_result_bytes = 16384"
definition max_objective_bytes :: nat where "max_objective_bytes = 16384"
definition max_acceptance_file_bytes :: nat where "max_acceptance_file_bytes = 4194304"

definition truncate_utf8 :: "string \<Rightarrow> nat \<Rightarrow> string" where
  "truncate_utf8 value max_bytes =
     (if length value \<le> max_bytes then value
      else take (boundary_below value max_bytes) value)"

definition normalize_result :: "string \<Rightarrow> string + string" where
  "normalize_result value =
     rbind (ensure (trim value \<noteq> []) ''goal result must be non-empty'') (\<lambda>_.
     Inr (truncate_utf8 (trim value) max_result_bytes))"

definition block_code_valid :: "string \<Rightarrow> bool" where
  "block_code_valid value \<longleftrightarrow>
     value \<noteq> [] \<and> length value \<le> 64
     \<and> list_all (\<lambda>(i, c). is_lowercase c \<or> is_digit c \<or> c = CHR ''-'' \<and> 0 < i)
         (enumerate 0 value)"

definition normalize_block_code :: "string \<Rightarrow> string + string" where
  "normalize_block_code value =
     rbind (ensure (\<not> (\<not> block_code_valid value \<or> ends_with ''-'' value
         \<or> contains_sub ''--'' value))
       ''goal block code must be lower-kebab-case'') (\<lambda>_. Inr value)"

definition valid_goal_id :: "'p goal_env \<Rightarrow> string \<Rightarrow> bool" where
  "valid_goal_id E value \<longleftrightarrow>
     starts_with ''goal-'' value \<and> length value \<le> 64 \<and> g_uuid_ok E (drop 5 value)"

definition validate_objective :: "string \<Rightarrow> string + unit" where
  "validate_objective value =
     ensure (\<not> (trim value = [] \<or> trim value \<noteq> value \<or> max_objective_bytes < length value
         \<or> has_control [CHR 0x0A, CHR 0x09] value))
       ''goal objective must be normalized non-empty UTF-8 up to 16 KiB''"

definition validate_relative_path :: "string \<Rightarrow> string + unit" where
  "validate_relative_path value =
     ensure (\<not> (value = [] \<or> 4096 < length value \<or> path_is_absolute value
         \<or> \<not> path_all_normal value))
       ''goal acceptance path must be a contained project-relative path''"

fun validate_acceptance :: "goal_acceptance \<Rightarrow> string + unit" where
  "validate_acceptance AccUser = Inr ()"
| "validate_acceptance (AccFileExists path) = validate_relative_path path"
| "validate_acceptance (AccFileContains path text) =
     rbind (validate_relative_path path) (\<lambda>_.
     ensure (\<not> (text = [] \<or> 4096 < length text \<or> has_control [CHR 0x09] text))
       ''file-contains acceptance text must be 1..=4096 bytes'')"

definition require_revision :: "goal_state \<Rightarrow> u64 \<Rightarrow> string + unit" where
  "require_revision state expected =
     ensure (g_revision state = expected)
       (''stale goal revision '' @ show_nat (unat expected) @ ''; current revision is ''
        @ show_nat (unat (g_revision state)))"

definition validate_state :: "'p goal_env \<Rightarrow> goal_state \<Rightarrow> string + unit" where
  "validate_state E state =
     rbind (ensure (\<not> (\<not> valid_goal_id E (g_id state) \<or> g_revision state = 0))
       ''goal id/revision is invalid'') (\<lambda>_.
     rbind (validate_objective (g_objective state)) (\<lambda>_.
     rbind (validate_acceptance (g_acceptance state)) (\<lambda>_.
     rbind (ensure ((g_phase state = GBlocked) = (g_blocked_reason state \<noteq> None))
       ''blockedReason must be present exactly for blocked goals'') (\<lambda>_.
     rbind (ensure (\<not> (g_created_at state < 0 \<or> g_updated_at state < g_created_at state))
       ''goal timestamps are invalid'') (\<lambda>_.
     rbind (case g_blocked_reason state of None \<Rightarrow> Inr ()
       | Some reason \<Rightarrow>
           rbind (normalize_block_code (gb_code reason)) (\<lambda>_.
           rbind (normalize_result (gb_message reason)) (\<lambda>m.
           ensure (m = gb_message reason) ''goal blocked reason is not canonical''))) (\<lambda>_.
     case g_last_result state of None \<Rightarrow> Inr ()
       | Some result \<Rightarrow>
           rbind (normalize_result result) (\<lambda>r.
           ensure (r = result) ''goal last result is not canonical'')))))))"

section \<open>Events\<close>

fun acceptance_json :: "goal_acceptance \<Rightarrow> json" where
  "acceptance_json AccUser = JObj [(''kind'', JStr ''user'')]"
| "acceptance_json (AccFileExists path) =
     JObj [(''kind'', JStr ''file-exists''), (''path'', JStr path)]"
| "acceptance_json (AccFileContains path text) =
     JObj [(''kind'', JStr ''file-contains''), (''path'', JStr path), (''text'', JStr text)]"

definition limits_json :: "goal_limits \<Rightarrow> json" where
  "limits_json l = JObj [(''maxRounds'', jnat (gl_max_rounds l)), (''maxTokens'', jnat (gl_max_tokens l)),
     (''maxTimeSecs'', jnat (gl_max_time_secs l)), (''maxFailures'', jnat (gl_max_failures l))]"

definition block_reason_json :: "goal_block_reason \<Rightarrow> json" where
  "block_reason_json b = JObj [(''code'', JStr (gb_code b)), (''message'', JStr (gb_message b))]"

text \<open>The derived \<open>Serialize\<close>: fields in order, an absent \<open>Option\<close> left out.\<close>

definition goal_json :: "goal_state \<Rightarrow> json" where
  "goal_json s = JObj (
     [(''id'', JStr (g_id s)), (''objective'', JStr (g_objective s)),
      (''acceptance'', acceptance_json (g_acceptance s)), (''phase'', JStr (phase_str (g_phase s))),
      (''revision'', jnat (g_revision s)), (''roundsStarted'', jnat (g_rounds_started s)),
      (''failures'', jnat (g_failures s)), (''tokensUsed'', jnat (g_tokens_used s)),
      (''elapsedMs'', jnat (g_elapsed_ms s)), (''limits'', limits_json (g_limits s)),
      (''createdAt'', JInt (g_created_at s)), (''updatedAt'', JInt (g_updated_at s))]
     @ (case g_blocked_reason s of None \<Rightarrow> [] | Some b \<Rightarrow> [(''blockedReason'', block_reason_json b)])
     @ (case g_last_result s of None \<Rightarrow> [] | Some r \<Rightarrow> [(''lastResult'', JStr r)]))"

definition snapshot_payload :: "string \<Rightarrow> goal_state \<Rightarrow> json" where
  "snapshot_payload operation state = JObj [(''kind'', JStr ''goal/change''), (''version'', JInt 1),
     (''operation'', JStr operation), (''goal'', goal_json state)]"

definition clear_payload :: "string \<Rightarrow> u64 \<Rightarrow> int \<Rightarrow> json" where
  "clear_payload i revision now = JObj [(''kind'', JStr ''goal/change''), (''version'', JInt 1),
     (''operation'', JStr ''clear''),
     (''cleared'', JObj [(''id'', JStr i), (''revision'', jnat revision)]),
     (''clearedAt'', JInt now)]"

definition decode_state :: "'p goal_env \<Rightarrow> json \<Rightarrow> string + goal_state" where
  "decode_state E value =
     rbind (case dec_goal E value of Inl e \<Rightarrow> Inl (''invalid goal projection: '' @ e)
       | Inr s \<Rightarrow> Inr s) (\<lambda>state.
     rbind (validate_state E state) (\<lambda>_. Inr state))"

definition snapshot_operations :: "string list" where
  "snapshot_operations =
     [''create'', ''pause'', ''resume'', ''complete'', ''block'', ''progress'']"

definition validate_clear :: "'p goal_env \<Rightarrow> (string \<times> json) list \<Rightarrow> string + unit" where
  "validate_clear E es =
     rbind (ensure (exact_keys es [''cleared'', ''clearedAt'', ''kind'', ''operation'', ''version''])
       ''goal clear must contain exactly the canonical fields'') (\<lambda>_.
     rbind (ok_or (Option.bind (map_of es ''cleared'') as_object)
       ''goal clear requires a tombstone'') (\<lambda>cleared.
     ensure (\<not> (length cleared \<noteq> 2 \<or> map_of cleared ''id'' = None \<or> map_of cleared ''revision'' = None
         \<or> (case get_str cleared ''id'' of None \<Rightarrow> True | Some i \<Rightarrow> \<not> valid_goal_id E i)
         \<or> (case get_u64 cleared ''revision'' of None \<Rightarrow> True | Some r \<Rightarrow> r = 0)
         \<or> (case Option.bind (map_of es ''clearedAt'') as_i64 of None \<Rightarrow> True | Some t \<Rightarrow> t < 0)))
       ''goal clear tombstone is malformed''))"

definition validate_change_payload :: "'p goal_env \<Rightarrow> json \<Rightarrow> string + unit" where
  "validate_change_payload E data =
     rbind (ok_or (as_object data) ''goal/change must be an object'') (\<lambda>es.
     rbind (ensure (\<not> (get_str es ''kind'' \<noteq> Some ''goal/change'' \<or> get_u64 es ''version'' \<noteq> Some 1))
       ''goal/change requires kind=goal/change and version=1'') (\<lambda>_.
     rbind (ok_or (get_str es ''operation'') ''goal/change operation missing'') (\<lambda>operation.
     if operation = ''clear'' then validate_clear E es
     else
       rbind (ensure (operation \<in> set snapshot_operations)
         ''goal/change operation is invalid'') (\<lambda>_.
       rbind (ensure (exact_keys es [''goal'', ''kind'', ''operation'', ''version''])
         ''goal snapshot change must contain exactly the canonical fields'') (\<lambda>_.
       rbind (ok_or (map_of es ''goal'') ''goal snapshot missing'') (\<lambda>state.
       rbind (decode_state E state) (\<lambda>_. Inr ())))))))"

section \<open>The fold\<close>

definition valid_phase_change :: "string \<Rightarrow> goal_phase \<Rightarrow> goal_phase \<Rightarrow> bool" where
  "valid_phase_change operation p n =
     (if operation = ''pause'' then p = GActive \<and> n = GPaused
      else if operation = ''resume'' then p \<in> {GActive, GPaused, GBlocked} \<and> n = GActive
      else if operation = ''complete'' then p \<noteq> GComplete \<and> n = GComplete
      else if operation = ''block'' then p = GActive \<and> n = GBlocked
      else if operation = ''progress'' then n = p \<or> p = GActive \<and> n \<in> {GPaused, GBlocked}
      else False)"

definition immutable_kept :: "goal_state \<Rightarrow> goal_state \<Rightarrow> bool" where
  "immutable_kept previous next \<longleftrightarrow>
     \<not> (g_objective next \<noteq> g_objective previous
       \<or> g_acceptance next \<noteq> g_acceptance previous
       \<or> g_limits next \<noteq> g_limits previous
       \<or> g_created_at next \<noteq> g_created_at previous
       \<or> g_updated_at next < g_updated_at previous
       \<or> g_rounds_started next \<noteq> g_rounds_started previous
       \<or> g_tokens_used next < g_tokens_used previous
       \<or> g_elapsed_ms next < g_elapsed_ms previous
       \<or> g_failures next < g_failures previous)"

definition validate_create :: "goal_state option \<Rightarrow> goal_state \<Rightarrow> string + unit" where
  "validate_create previous next =
     rbind (ensure (\<not> (g_revision next \<noteq> 1 \<or> g_phase next \<noteq> GActive \<or> g_rounds_started next \<noteq> 0))
       ''goal create requires an active revision-one goal with zero rounds'') (\<lambda>_.
     rbind (ensure (\<not> (case previous of None \<Rightarrow> False | Some s \<Rightarrow> g_phase s \<noteq> GComplete))
       ''goal create cannot replace a non-complete goal'') (\<lambda>_.
     ensure (\<not> (case previous of None \<Rightarrow> False | Some s \<Rightarrow> g_id s = g_id next))
       ''goal create after completion requires a fresh id''))"

definition validate_transition :: "goal_state option \<Rightarrow> goal_state \<Rightarrow> string \<Rightarrow> string + unit" where
  "validate_transition previous next operation =
     (if operation = ''create'' then validate_create previous next
      else
       rbind (ok_or previous ''goal mutation requires a current goal'') (\<lambda>p.
       rbind (ok_or (checked_add (g_revision p) 1) ''goal revision exhausted'') (\<lambda>next_revision.
       rbind (ensure (\<not> (g_id next \<noteq> g_id p \<or> g_revision next \<noteq> next_revision))
         ''goal mutation must advance the current ref by one revision'') (\<lambda>_.
       rbind (ensure (immutable_kept p next)
         ''goal mutation changed immutable fields or regressed durable state'') (\<lambda>_.
       rbind (ensure (\<not> (operation \<noteq> ''progress''
           \<and> (g_tokens_used next \<noteq> g_tokens_used p \<or> g_elapsed_ms next \<noteq> g_elapsed_ms p
              \<or> g_failures next \<noteq> g_failures p)))
         ''only goal progress may advance resource counters'') (\<lambda>_.
       ensure (valid_phase_change operation (g_phase p) (g_phase next))
         (''goal '' @ operation @ '' has an invalid phase transition'')))))))"

definition fold_clear :: "goal_state option \<Rightarrow> json \<Rightarrow> string + goal_state option" where
  "fold_clear current data =
     rbind (ok_or current ''goal clear requires a current goal'') (\<lambda>previous.
     rbind (ok_or (checked_add (g_revision previous) 1) ''goal revision exhausted'') (\<lambda>next_revision.
     let cleared = json_index data ''cleared'' in
     rbind (ensure (\<not> (as_str (json_index cleared ''id'') \<noteq> Some (g_id previous)
         \<or> as_u64 (json_index cleared ''revision'') \<noteq> Some next_revision))
       ''goal clear must advance the current ref by one revision'') (\<lambda>_. Inr None)))"

definition fold_round :: "goal_state option \<Rightarrow> json \<Rightarrow> string + goal_state option" where
  "fold_round current data =
     rbind (ok_or current ''goal round requires a current goal'') (\<lambda>state.
     let source = json_index data ''source'' in
     rbind (ok_or (as_u64 (json_index source ''round'')) ''goal round number missing'') (\<lambda>round.
     rbind (ensure (\<not> (g_phase state \<noteq> GActive
         \<or> as_str (json_index source ''goalId'') \<noteq> Some (g_id state)
         \<or> as_u64 (json_index source ''revision'') \<noteq> Some (g_revision state)
         \<or> round \<noteq> ucast (g_rounds_started state) + 1
         \<or> 4294967295 < round))
       ''goal round is not the next admitted round of the current goal'') (\<lambda>_.
     Inr (Some (state\<lparr>g_rounds_started := ucast round\<rparr>)))))"

definition fold_goal_event ::
  "'p goal_env \<Rightarrow> goal_state option \<Rightarrow> string \<times> json \<Rightarrow> string + goal_state option" where
  "fold_goal_event E current event =
     (case event of (event_type, data) \<Rightarrow>
       if event_type = ''goal/change'' then
         rbind (validate_change_payload E data) (\<lambda>_.
         let operation = (case as_str (json_index data ''operation'') of None \<Rightarrow> [] | Some x \<Rightarrow> x) in
         if operation = ''clear'' then fold_clear current data
         else
           rbind (decode_state E (json_index data ''goal'')) (\<lambda>next.
           rbind (validate_transition current next operation) (\<lambda>_. Inr (Some next))))
       else if event_type = ''user/message''
           \<and> as_str (json_index (json_index data ''source'') ''kind'') = Some ''goal''
         then fold_round current data
       else Inr current)"

end
