(* ===== verification/GoalService.thy ===== *)
theory GoalService
  imports GoalState
begin

text \<open>
  The goal service (\<open>GoalService\<close> of \<open>goal.rs\<close>). Its state is the process-local part
  (\<open>LiveState\<close>: a goal not yet in a session and the armed session) together with what it
  uses of \<open>SessionService\<close>: the active session and the journal events of that session, from
  which the goal projection is derived. One call runs at a time (the write lane); the clock,
  fresh UUIDs and the outcome of a durable append (\<open>append_outcome\<close>) are arguments.
\<close>

record goal_sys =
  gs_active :: "string option"
  gs_log :: "(string \<times> json) list"
  gs_pending :: "goal_state option"
  gs_armed :: "string option"

record goal_view =
  gv_state :: goal_state
  gv_armed :: bool

record goal_io =
  gio_now :: int
  gio_append :: append_outcome

definition pending_goal :: string where
  "pending_goal = ''__pending_goal__''"

section \<open>The session's side\<close>

definition goal_projection :: "'p goal_env \<Rightarrow> (string \<times> json) list \<Rightarrow> goal_state option" where
  "goal_projection E log = refresh (fold_goal_event E) None log"

definition goal_state_json :: "'p goal_env \<Rightarrow> goal_sys \<Rightarrow> json option" where
  "goal_state_json E s =
     (case gs_active s of None \<Rightarrow> None
      | Some _ \<Rightarrow> map_option goal_json (goal_projection E (gs_log s)))"

text \<open>The texts of \<open>SessionError\<close>: a refused payload is reported as a corrupt log.\<close>

definition session_corruption :: "string \<Rightarrow> string" where
  "session_corruption e = ''corrupt session log: '' @ e"

definition record_goal_change ::
  "'p goal_env \<Rightarrow> goal_io \<Rightarrow> json \<Rightarrow> (string \<times> json) list \<Rightarrow> goal_sys
   \<Rightarrow> goal_sys \<times> (string + unit)" where
  "record_goal_change E io data tail s =
     (case validate_change_payload E data of
        Inl e \<Rightarrow> (s, Inl (session_corruption e))
      | Inr _ \<Rightarrow>
         (case gs_active s of
            None \<Rightarrow> (s, Inl (session_corruption ''goal mutation requires an active session''))
          | Some _ \<Rightarrow>
              let events = (''goal/change'', data) # tail in
              (case gio_append io of
                 AppendOk \<Rightarrow> (s\<lparr>gs_log := gs_log s @ events\<rparr>, Inr ())
               | AppendFailed e written \<Rightarrow>
                   ((if written then s\<lparr>gs_log := gs_log s @ events\<rparr> else s),
                    Inl (session_corruption e)))))"

section \<open>Reading\<close>

definition is_armed :: "goal_sys \<Rightarrow> bool" where
  "is_armed s =
     (case gs_active s of
        Some session \<Rightarrow> gs_armed s = Some session
      | None \<Rightarrow> gs_armed s = Some pending_goal)"

definition goal_current :: "'p goal_env \<Rightarrow> goal_sys \<Rightarrow> string + goal_view option" where
  "goal_current E s =
     rbind (case gs_active s of
         Some _ \<Rightarrow> (case goal_state_json E s of None \<Rightarrow> Inr None
           | Some j \<Rightarrow> rbind (decode_state E j) (\<lambda>st. Inr (Some st)))
       | None \<Rightarrow> Inr (gs_pending s)) (\<lambda>state.
     Inr (map_option (\<lambda>st. \<lparr>gv_state = st, gv_armed = is_armed s\<rparr>) state))"

definition goal_historical :: "'p goal_env \<Rightarrow> goal_sys \<Rightarrow> string + goal_view option" where
  "goal_historical E s =
     (case goal_state_json E s of None \<Rightarrow> Inr None
      | Some j \<Rightarrow> rbind (decode_state E j) (\<lambda>st.
          Inr (Some \<lparr>gv_state = st, gv_armed = False\<rparr>)))"

definition current_goal :: "'p goal_env \<Rightarrow> goal_sys \<Rightarrow> string + goal_view" where
  "current_goal E s = rbind (goal_current E s) (\<lambda>v. ok_or v ''no current goal'')"

section \<open>Writing\<close>

definition set_armed :: "string \<Rightarrow> bool \<Rightarrow> goal_sys \<Rightarrow> goal_sys" where
  "set_armed session armed s = s\<lparr>gs_armed := (if armed then Some session else None)\<rparr>"

definition disarm :: "goal_sys \<Rightarrow> goal_sys" where
  "disarm s = s\<lparr>gs_armed := None\<rparr>"

definition session_boundary :: "goal_sys \<Rightarrow> goal_sys" where
  "session_boundary s = s\<lparr>gs_pending := None, gs_armed := None\<rparr>"

text \<open>
  What \<open>create_named\<close> and \<open>transition\<close> do with the new state: a snapshot in the journal
  of the active session, or the pending goal.
\<close>

definition publish ::
  "'p goal_env \<Rightarrow> goal_io \<Rightarrow> string \<Rightarrow> goal_state \<Rightarrow> (string \<times> json) list \<Rightarrow> bool \<Rightarrow> goal_sys
   \<Rightarrow> goal_sys \<times> (string + goal_view)" where
  "publish E io operation state tail armed s =
     (case gs_active s of
        Some session \<Rightarrow>
          (case record_goal_change E io (snapshot_payload operation state) tail s of
             (s1, Inl e) \<Rightarrow> (s1, Inl e)
           | (s1, Inr _) \<Rightarrow>
               (set_armed session armed s1, Inr \<lparr>gv_state = state, gv_armed = armed\<rparr>))
      | None \<Rightarrow>
          (s\<lparr>gs_pending := Some state, gs_armed := (if armed then Some pending_goal else None)\<rparr>,
           Inr \<lparr>gv_state = state, gv_armed = armed\<rparr>))"

definition new_goal ::
  "string \<Rightarrow> string \<Rightarrow> goal_acceptance \<Rightarrow> goal_limits \<Rightarrow> int \<Rightarrow> goal_state" where
  "new_goal i objective acceptance limits now =
     \<lparr>g_id = i, g_objective = trim objective, g_acceptance = acceptance, g_phase = GActive,
      g_revision = 1, g_rounds_started = 0, g_failures = 0, g_tokens_used = 0, g_elapsed_ms = 0,
      g_limits = limits, g_created_at = now, g_updated_at = now, g_blocked_reason = None,
      g_last_result = None\<rparr>"

definition create_named ::
  "'p goal_env \<Rightarrow> goal_io \<Rightarrow> string \<Rightarrow> goal_acceptance \<Rightarrow> goal_limits \<Rightarrow> bool \<Rightarrow> string
   \<Rightarrow> (string \<times> json) list \<Rightarrow> goal_sys \<Rightarrow> goal_sys \<times> (string + goal_view)" where
  "create_named E io objective acceptance limits arm i tail s =
     (case rbind (validate_objective objective) (\<lambda>_.
           rbind (validate_acceptance acceptance) (\<lambda>_.
           rbind (goal_current E s) (\<lambda>current.
           case current of
             None \<Rightarrow> Inr ()
           | Some v \<Rightarrow>
               ensure (g_phase (gv_state v) = GComplete)
                 (''goal `'' @ g_id (gv_state v) @ ''` already exists with phase ''
                  @ phase_str (g_phase (gv_state v)))))) of
        Inl e \<Rightarrow> (s, Inl e)
      | Inr _ \<Rightarrow>
          publish E io ''create'' (new_goal i objective acceptance limits (gio_now io)) tail arm s)"

text \<open>\<open>fresh\<close> is the text of the UUID the code generates.\<close>

definition goal_create ::
  "'p goal_env \<Rightarrow> goal_io \<Rightarrow> string \<Rightarrow> string \<Rightarrow> goal_acceptance \<Rightarrow> goal_limits \<Rightarrow> bool \<Rightarrow> goal_sys
   \<Rightarrow> goal_sys \<times> (string + goal_view)" where
  "goal_create E io fresh objective acceptance limits arm s =
     create_named E io objective acceptance limits arm (''goal-'' @ fresh) [] s"

definition create_for_plan ::
  "'p goal_env \<Rightarrow> goal_io \<Rightarrow> string \<Rightarrow> string \<Rightarrow> (string \<times> json) list \<Rightarrow> goal_sys
   \<Rightarrow> goal_sys \<times> (string + goal_view)" where
  "create_for_plan E io objective i tail s =
     (if \<not> valid_goal_id E i then (s, Inl ''invalid plan goal id'')
      else create_named E io objective AccUser goal_limits_default False i tail s)"

definition goal_transition ::
  "'p goal_env \<Rightarrow> goal_io \<Rightarrow> u64 \<Rightarrow> string \<Rightarrow> (goal_state \<Rightarrow> string + (goal_state \<times> bool)) \<Rightarrow> goal_sys
   \<Rightarrow> goal_sys \<times> (string + goal_view)" where
  "goal_transition E io expected operation mutate s =
     (case rbind (current_goal E s) (\<lambda>current.
           rbind (require_revision (gv_state current) expected) (\<lambda>_.
           rbind (mutate (gv_state current)) (\<lambda>(state, preserve_arm).
           rbind (ok_or (checked_add (g_revision state) 1) ''goal revision exhausted'') (\<lambda>revision.
           Inr (state\<lparr>g_revision := revision, g_updated_at := max (g_updated_at state) (gio_now io)\<rparr>,
                preserve_arm \<and> gv_armed current))))) of
        Inl e \<Rightarrow> (s, Inl e)
      | Inr (state, armed) \<Rightarrow> publish E io operation state [] armed s)"

definition pause_mutation :: "goal_state \<Rightarrow> string + (goal_state \<times> bool)" where
  "pause_mutation st =
     rbind (ensure (g_phase st = GActive) ''only an active goal can be paused'') (\<lambda>_.
     Inr (st\<lparr>g_phase := GPaused, g_blocked_reason := None\<rparr>, False))"

definition resume_mutation :: "goal_state \<Rightarrow> string + (goal_state \<times> bool)" where
  "resume_mutation st =
     rbind (ensure (g_phase st \<in> {GActive, GPaused, GBlocked}) ''a complete goal cannot be resumed'')
     (\<lambda>_. Inr (st\<lparr>g_phase := GActive, g_blocked_reason := None\<rparr>, False))"

definition progress_mutation :: "string \<Rightarrow> goal_state \<Rightarrow> string + (goal_state \<times> bool)" where
  "progress_mutation summary st =
     rbind (ensure (g_phase st = GActive) ''progress requires an active goal'') (\<lambda>_.
     rbind (normalize_result summary) (\<lambda>r.
     Inr (st\<lparr>g_last_result := Some r\<rparr>, True)))"

definition block_mutation :: "string \<Rightarrow> string \<Rightarrow> goal_state \<Rightarrow> string + (goal_state \<times> bool)" where
  "block_mutation code message st =
     rbind (ensure (g_phase st = GActive) ''only an active goal can be blocked'') (\<lambda>_.
     Inr (st\<lparr>g_phase := GBlocked,
             g_blocked_reason := Some \<lparr>gb_code = code, gb_message = message\<rparr>\<rparr>, False))"

definition failure_mutation :: "string \<Rightarrow> goal_state \<Rightarrow> string + (goal_state \<times> bool)" where
  "failure_mutation durable_error st =
     rbind (ensure (g_phase st = GActive) ''completion candidate requires an active goal'') (\<lambda>_.
     Inr (st\<lparr>g_failures := saturating_add (g_failures st) 1,
             g_last_result := Some (''acceptance failed: '' @ durable_error)\<rparr>, True))"

definition goal_pause :: "'p goal_env \<Rightarrow> goal_io \<Rightarrow> u64 \<Rightarrow> goal_sys \<Rightarrow> goal_sys \<times> (string + goal_view)"
where "goal_pause E io expected = goal_transition E io expected ''pause'' pause_mutation"

definition goal_resume :: "'p goal_env \<Rightarrow> goal_io \<Rightarrow> u64 \<Rightarrow> goal_sys \<Rightarrow> goal_sys \<times> (string + goal_view)"
where "goal_resume E io expected = goal_transition E io expected ''resume'' resume_mutation"

definition update_progress ::
  "'p goal_env \<Rightarrow> goal_io \<Rightarrow> u64 \<Rightarrow> string \<Rightarrow> goal_sys \<Rightarrow> goal_sys \<times> (string + goal_view)" where
  "update_progress E io expected summary =
     goal_transition E io expected ''progress'' (progress_mutation summary)"

definition goal_block ::
  "'p goal_env \<Rightarrow> goal_io \<Rightarrow> u64 \<Rightarrow> string \<Rightarrow> string \<Rightarrow> goal_sys \<Rightarrow> goal_sys \<times> (string + goal_view)"
where
  "goal_block E io expected code message s =
     (case rbind (normalize_block_code code) (\<lambda>c. rbind (normalize_result message) (\<lambda>m. Inr (c, m))) of
        Inl e \<Rightarrow> (s, Inl e)
      | Inr (c, m) \<Rightarrow> goal_transition E io expected ''block'' (block_mutation c m) s)"

definition goal_arm ::
  "'p goal_env \<Rightarrow> u64 \<Rightarrow> goal_sys \<Rightarrow> goal_sys \<times> (string + goal_view)" where
  "goal_arm E expected s =
     (case rbind (current_goal E s) (\<lambda>view.
           rbind (require_revision (gv_state view) expected) (\<lambda>_.
           rbind (ensure (g_phase (gv_state view) = GActive) ''only an active goal can be armed'')
           (\<lambda>_. Inr view))) of
        Inl e \<Rightarrow> (s, Inl e)
      | Inr view \<Rightarrow>
          ((case gs_active s of
              Some session \<Rightarrow> set_armed session True s
            | None \<Rightarrow> s\<lparr>gs_armed := Some pending_goal\<rparr>),
           Inr \<lparr>gv_state = gv_state view, gv_armed = True\<rparr>))"

section \<open>Acceptance\<close>

definition resolve_acceptance_file :: "'p goal_env \<Rightarrow> string \<Rightarrow> string + 'p" where
  "resolve_acceptance_file E value =
     rbind (ensure (\<not> path_is_absolute value) ''goal acceptance path must be project-relative'') (\<lambda>_.
     rbind (case canonicalize E (project_root E) of
         Inl e \<Rightarrow> Inl (''cannot resolve project root: '' @ e) | Inr p \<Rightarrow> Inr p) (\<lambda>root.
     rbind (case canonicalize E (path_join E root value) of
         Inl e \<Rightarrow> Inl (''acceptance file `'' @ value @ ''` does not exist: '' @ e)
       | Inr p \<Rightarrow> Inr p) (\<lambda>canonical.
     rbind (ensure (\<not> (\<not> path_under E root canonical \<or> \<not> path_is_file E canonical))
       ''goal acceptance path escapes the project or is not a file'') (\<lambda>_.
     Inr canonical))))"

fun verify_acceptance :: "'p goal_env \<Rightarrow> goal_acceptance \<Rightarrow> string + unit" where
  "verify_acceptance E AccUser = Inl ''goal completion requires explicit user confirmation''"
| "verify_acceptance E (AccFileExists path) =
     rbind (resolve_acceptance_file E path) (\<lambda>_. Inr ())"
| "verify_acceptance E (AccFileContains path text) =
     rbind (resolve_acceptance_file E path) (\<lambda>_.
     rbind (case read_limited E path (max_acceptance_file_bytes + 1) of
         Inl e \<Rightarrow> Inl (''acceptance file `'' @ path @ ''` is unreadable: '' @ e)
       | Inr c \<Rightarrow> Inr c) (\<lambda>read.
     rbind (ok_or read (''acceptance file `'' @ path @ ''` does not exist'')) (\<lambda>content.
     rbind (ensure (length content \<le> max_acceptance_file_bytes)
       ''acceptance file exceeds 4 MiB'') (\<lambda>_.
     rbind (case utf8_error E content of
         Some e \<Rightarrow> Inl (''acceptance file `'' @ path @ ''` is not UTF-8 text: '' @ e)
       | None \<Rightarrow> Inr ()) (\<lambda>_.
     ensure (contains_sub text content)
       (''acceptance text was not found in `'' @ path @ ''`''))))))"

definition complete_mutation ::
  "'p goal_env \<Rightarrow> string \<Rightarrow> bool \<Rightarrow> goal_state \<Rightarrow> string + (goal_state \<times> bool)" where
  "complete_mutation E summary human st =
     rbind (ensure (g_phase st \<noteq> GComplete) ''goal is already complete'') (\<lambda>_.
     rbind (if \<not> human then verify_acceptance E (g_acceptance st) else Inr ()) (\<lambda>_.
     Inr (st\<lparr>g_phase := GComplete, g_blocked_reason := None, g_last_result := Some summary\<rparr>, False)))"

definition goal_complete ::
  "'p goal_env \<Rightarrow> goal_io \<Rightarrow> u64 \<Rightarrow> string \<Rightarrow> bool \<Rightarrow> goal_sys \<Rightarrow> goal_sys \<times> (string + goal_view)" where
  "goal_complete E io expected summary human s =
     (case normalize_result summary of
        Inl e \<Rightarrow> (s, Inl e)
      | Inr r \<Rightarrow> goal_transition E io expected ''complete'' (complete_mutation E r human) s)"

definition complete_human ::
  "'p goal_env \<Rightarrow> goal_io \<Rightarrow> u64 \<Rightarrow> string \<Rightarrow> goal_sys \<Rightarrow> goal_sys \<times> (string + goal_view)" where
  "complete_human E io expected summary = goal_complete E io expected summary True"

definition complete_candidate ::
  "'p goal_env \<Rightarrow> goal_io \<Rightarrow> u64 \<Rightarrow> string \<Rightarrow> goal_sys \<Rightarrow> goal_sys \<times> (string + goal_view)" where
  "complete_candidate E io expected summary s =
     (case rbind (current_goal E s) (\<lambda>current.
           rbind (require_revision (gv_state current) expected) (\<lambda>_. Inr (gv_state current))) of
        Inl e \<Rightarrow> (s, Inl e)
      | Inr state \<Rightarrow>
          if g_acceptance state = AccUser
          then goal_block E io expected ''awaiting-user-acceptance'' summary s
          else
            (case verify_acceptance E (g_acceptance state) of
               Inl error \<Rightarrow>
                 (case goal_transition E io expected ''progress'' (failure_mutation error) s of
                    (s1, Inl e) \<Rightarrow> (s1, Inl e)
                  | (s1, Inr recorded) \<Rightarrow>
                      (s1, Inl (''goal acceptance failed and was recorded at revision ''
                        @ show_nat (unat (g_revision (gv_state recorded))) @ '': '' @ error)))
             | Inr _ \<Rightarrow> goal_complete E io expected summary False s))"

definition goal_clear ::
  "'p goal_env \<Rightarrow> goal_io \<Rightarrow> u64 \<Rightarrow> goal_sys \<Rightarrow> goal_sys \<times> (string + unit)" where
  "goal_clear E io expected s =
     (case rbind (current_goal E s) (\<lambda>view.
           rbind (require_revision (gv_state view) expected) (\<lambda>_.
           rbind (ok_or (checked_add (g_revision (gv_state view)) 1) ''goal revision exhausted'')
           (\<lambda>revision. Inr (g_id (gv_state view), revision)))) of
        Inl e \<Rightarrow> (s, Inl e)
      | Inr (i, revision) \<Rightarrow>
          (case gs_active s of
             Some _ \<Rightarrow>
               (case record_goal_change E io (clear_payload i revision (gio_now io)) [] s of
                  (s1, Inl e) \<Rightarrow> (s1, Inl e)
                | (s1, Inr _) \<Rightarrow> (disarm s1, Inr ()))
           | None \<Rightarrow> (disarm (s\<lparr>gs_pending := None\<rparr>), Inr ())))"

section \<open>Materialization of a pending goal\<close>

definition pending_birth_event :: "goal_sys \<Rightarrow> (string \<times> json) option" where
  "pending_birth_event s =
     (case gs_active s of
        Some _ \<Rightarrow> None
      | None \<Rightarrow> map_option (\<lambda>st. (''goal/change'', snapshot_payload ''create'' st)) (gs_pending s))"

definition materialized :: "string \<Rightarrow> goal_sys \<Rightarrow> goal_sys" where
  "materialized session s =
     s\<lparr>gs_pending := None,
       gs_armed := (if gs_armed s = Some pending_goal then Some session else None)\<rparr>"

section \<open>Rounds\<close>

definition newline :: string where "newline = [CHR 0x0A]"

definition round_open :: string where "round_open = ''<goal_round>'' @ newline"
definition objective_open :: string where "objective_open = newline @ ''<objective>''"
definition round_tail :: string where
  "round_tail = ''</objective>'' @ newline
     @ ''Continue the goal. Use update_goal with the exact revision to record progress, block with a concrete reason, or submit completion when the verifier is satisfied.''
     @ newline @ ''</goal_round>''"

definition render_round_prompt :: "goal_state \<Rightarrow> u32 \<Rightarrow> string" where
  "render_round_prompt state round =
     round_open @ ''<goal_id>'' @ g_id state @ ''</goal_id>'' @ newline
     @ ''<revision>'' @ show_nat (unat (g_revision state)) @ ''</revision>'' @ newline
     @ ''<round>'' @ show_nat (unat round) @ ''</round>'' @ objective_open
     @ g_objective state @ round_tail"

text \<open>\<open>payloads::user_message\<close>; \<open>i\<close> is the fresh UUID.\<close>

definition user_message :: "string \<Rightarrow> string \<Rightarrow> json" where
  "user_message i text = JObj [(''id'', JStr i), (''role'', JStr ''user''),
     (''content'', JArr [JObj [(''type'', JStr ''text''), (''text'', JStr text)]]),
     (''source'', JObj [(''kind'', JStr ''user'')])]"

record goal_round =
  gr_prompt :: string
  gr_display_text :: "string option"
  gr_message :: json

definition next_round :: "'p goal_env \<Rightarrow> string \<Rightarrow> goal_sys \<Rightarrow> string + goal_round" where
  "next_round E fresh s =
     rbind (current_goal E s) (\<lambda>view.
     rbind (ensure (gv_armed view) ''goal continuation is disarmed; use /goal run'') (\<lambda>_.
     rbind (ensure (g_phase (gv_state view) = GActive)
       ''goal is not eligible for another round'') (\<lambda>_.
     rbind (ok_or (checked_add (g_rounds_started (gv_state view)) 1)
       ''goal round counter overflow'') (\<lambda>round.
     let prompt = render_round_prompt (gv_state view) round in
     Inr \<lparr>gr_prompt = prompt,
          gr_display_text = (if round = 1 then Some (g_objective (gv_state view)) else None),
          gr_message = json_set (user_message fresh prompt) ''source''
            (JObj [(''kind'', JStr ''goal''), (''goalId'', JStr (g_id (gv_state view))),
                   (''revision'', jnat (g_revision (gv_state view))), (''round'', jnat round)])\<rparr>))))"

datatype goal_continuation = ContinueGoal | StopGoal

definition round_accounting ::
  "u64 \<Rightarrow> nat \<Rightarrow> bool \<Rightarrow> bool \<Rightarrow> string \<Rightarrow> goal_state \<Rightarrow> goal_state" where
  "round_accounting tokens_spent elapsed succeeded cancelled result st =
     (let st1 = st\<lparr>g_tokens_used := saturating_add (g_tokens_used st) tokens_spent,
            g_elapsed_ms := saturating_add (g_elapsed_ms st)
              (word_of_nat (min elapsed 18446744073709551615))\<rparr>;
          st2 = (if \<not> succeeded \<and> \<not> cancelled
                 then st1\<lparr>g_failures := saturating_add (g_failures st1) 1\<rparr> else st1)
      in if trim result \<noteq> []
         then st2\<lparr>g_last_result := Some (truncate_utf8 (trim result) max_result_bytes)\<rparr>
         else st2)"

definition finish_round ::
  "'p goal_env \<Rightarrow> goal_io \<Rightarrow> u64 \<Rightarrow> nat \<Rightarrow> bool \<Rightarrow> bool \<Rightarrow> string \<Rightarrow> goal_sys
   \<Rightarrow> goal_sys \<times> (string + goal_continuation)" where
  "finish_round E io tokens_spent elapsed succeeded cancelled result s =
     (case goal_current E s of
        Inl e \<Rightarrow> (s, Inl e)
      | Inr None \<Rightarrow> (disarm s, Inr StopGoal)
      | Inr (Some view) \<Rightarrow>
          let st = round_accounting tokens_spent elapsed succeeded cancelled result (gv_state view);
              keep_armed = (gv_armed view \<and> succeeded \<and> \<not> cancelled \<and> g_phase st = GActive) in
          (case checked_add (g_revision st) 1 of
             None \<Rightarrow> (s, Inl ''goal revision exhausted'')
           | Some revision \<Rightarrow>
               let st1 = st\<lparr>g_revision := revision,
                     g_updated_at := max (g_updated_at st) (gio_now io)\<rparr> in
               (case record_goal_change E io (snapshot_payload ''progress'' st1) [] s of
                  (s1, Inl e) \<Rightarrow> (s1, Inl e)
                | (s1, Inr _) \<Rightarrow>
                    ((case gs_active s1 of
                        Some session \<Rightarrow> set_armed session keep_armed s1
                      | None \<Rightarrow> disarm s1),
                     Inr (if keep_armed \<and> g_phase st1 = GActive then ContinueGoal else StopGoal)))))"

text \<open>What a transcript shows for a recorded round (\<open>goal/prompt.rs\<close>).\<close>

datatype round_display = RdInitial string | RdContinuation

fun split_once :: "'a list \<Rightarrow> 'a list \<Rightarrow> ('a list \<times> 'a list) option" where
  "split_once d [] = (if d = [] then Some ([], []) else None)"
| "split_once d (c # s) =
     (if starts_with d (c # s) then Some ([], drop (length d) (c # s))
      else map_option (\<lambda>(a, b). (c # a, b)) (split_once d s))"

definition strip_prefix :: "'a list \<Rightarrow> 'a list \<Rightarrow> 'a list option" where
  "strip_prefix p s = (if starts_with p s then Some (drop (length p) s) else None)"

definition strip_suffix :: "'a list \<Rightarrow> 'a list \<Rightarrow> 'a list option" where
  "strip_suffix p s = (if ends_with p s then Some (take (length s - length p) s) else None)"

definition goal_round_display :: "json \<Rightarrow> round_display option" where
  "goal_round_display data =
     (let source = json_index data ''source'' in
      Option.bind (as_str (json_index source ''kind'')) (\<lambda>kind.
      if kind \<noteq> ''goal'' then None
      else Option.bind (as_u64 (json_index source ''round'')) (\<lambda>round.
      if 1 < round then Some RdContinuation
      else Option.bind (as_str (json_index (json_at (json_index data ''content'') 0) ''text'')) (\<lambda>text.
           Option.bind (strip_prefix round_open text) (\<lambda>rest.
           Option.bind (split_once objective_open rest) (\<lambda>(_, body).
           map_option RdInitial (strip_suffix round_tail body)))))))"

end
