(* ===== verification/GoalSafety.thy ===== *)
theory GoalSafety
  imports GoalService
begin

text \<open>
  What holds of the goal's journal: the fold keeps the goal valid (an instance of
  \<open>journal_fold\<close>), every snapshot the service appends is accepted by the fold, and the
  service is a compare-and-set store (an instance of \<open>cas_store\<close>). Of the code serde
  generates only the round trip \<open>goal_codec\<close> is used.
\<close>

definition goal_codec :: "'p goal_env \<Rightarrow> bool" where
  "goal_codec E \<longleftrightarrow> (\<forall>s. dec_goal E (goal_json s) = Inr s)"

definition goal_valid :: "'p goal_env \<Rightarrow> goal_state option \<Rightarrow> bool" where
  "goal_valid E g \<longleftrightarrow> (\<forall>s. g = Some s \<longrightarrow> validate_state E s = Inr ())"

section \<open>The fold\<close>

lemma goal_valid_simps [simp]:
  "goal_valid E None" "goal_valid E (Some s) \<longleftrightarrow> validate_state E s = Inr ()"
  by (simp_all add: goal_valid_def)

lemma decode_state_valid: "decode_state E j = Inr s \<Longrightarrow> validate_state E s = Inr ()"
  by (auto simp: decode_state_def)

lemma decode_goal_json:
  "goal_codec E \<Longrightarrow> decode_state E (goal_json s) = rbind (validate_state E s) (\<lambda>_. Inr s)"
  by (simp add: decode_state_def goal_codec_def)

lemma validate_state_rounds [simp]:
  "validate_state E (s\<lparr>g_rounds_started := n\<rparr>) = validate_state E s"
  by (simp add: validate_state_def)

lemma fold_round_Inr:
  "fold_round cur data = Inr g \<longleftrightarrow>
   (\<exists>st round. cur = Some st \<and> g_phase st = GActive
      \<and> as_u64 (json_index (json_index data ''source'') ''round'') = Some round
      \<and> as_str (json_index (json_index data ''source'') ''goalId'') = Some (g_id st)
      \<and> as_u64 (json_index (json_index data ''source'') ''revision'') = Some (g_revision st)
      \<and> round = ucast (g_rounds_started st) + 1 \<and> round \<le> 4294967295
      \<and> g = Some (st\<lparr>g_rounds_started := ucast round\<rparr>))"
  by (auto simp: fold_round_def Let_def not_less)

lemma fold_clear_Inr:
  "fold_clear cur data = Inr g \<Longrightarrow> g = None \<and> cur \<noteq> None"
  by (auto simp: fold_clear_def Let_def)

text \<open>The three ways an event is accepted.\<close>

lemma fold_goal_cases:
  assumes "fold_goal_event E cur ev = Inr g"
  obtains (same) "g = cur"
  | (clear) p where "cur = Some p" and "g = None"
  | (round) st round where "cur = Some st" and "g_phase st = GActive"
      and "round = ucast (g_rounds_started st) + (1 :: u64)" and "round \<le> 4294967295"
      and "g = Some (st\<lparr>g_rounds_started := ucast round\<rparr>)"
  | (change) operation st where "g = Some st" and "validate_state E st = Inr ()"
      and "validate_transition cur st operation = Inr ()"
proof -
  obtain ty data where ev: "ev = (ty, data)" by (cases ev)
  consider "ty = ''goal/change''"
    | "ty = ''user/message'' \<and> as_str (json_index (json_index data ''source'') ''kind'') = Some ''goal''"
    | "ty \<noteq> ''goal/change''"
      "\<not> (ty = ''user/message'' \<and> as_str (json_index (json_index data ''source'') ''kind'') = Some ''goal'')"
    by blast
  then show thesis
  proof cases
    case 1
    with assms ev show ?thesis
      by (auto simp: fold_goal_event_def Let_def split: if_splits
          dest!: fold_clear_Inr intro: clear change decode_state_valid)
  next
    case 2
    then have "ty \<noteq> ''goal/change''" by simp
    with 2 assms ev have "fold_round cur data = Inr g" by (simp add: fold_goal_event_def)
    then obtain st r where "cur = Some st" "g_phase st = GActive"
      "r = ucast (g_rounds_started st) + (1 :: u64)" "r \<le> 4294967295"
      "g = Some (st\<lparr>g_rounds_started := ucast r\<rparr>)"
      unfolding fold_round_Inr by auto
    then show ?thesis by (rule round)
  next
    case 3
    with assms ev have "g = cur" by (auto simp: fold_goal_event_def split: if_splits)
    then show ?thesis by (rule same)
  qed
qed

interpretation goal_fold: journal_fold "fold_goal_event E" "goal_valid E" for E
proof
  fix g ev g'
  assume inv: "goal_valid E g" and step: "fold_goal_event E g ev = Inr g'"
  from step show "goal_valid E g'"
    by (cases rule: fold_goal_cases) (use inv in auto)
qed

lemma snapshot_fields [simp]:
  "json_index (snapshot_payload op st) ''operation'' = JStr op"
  "json_index (snapshot_payload op st) ''goal'' = goal_json st"
  by (simp_all add: snapshot_payload_def)

lemma validate_snapshot:
  assumes "goal_codec E" and "op \<in> set snapshot_operations"
  shows "validate_change_payload E (snapshot_payload op st) = validate_state E st"
proof -
  have "op \<noteq> ''clear''" using assms(2) by (auto simp: snapshot_operations_def)
  moreover have "exact_keys [(''kind'', JStr ''goal/change''), (''version'', JInt 1),
      (''operation'', JStr op), (''goal'', goal_json st)]
      [''goal'', ''kind'', ''operation'', ''version'']"
    by (simp add: exact_keys_def)
  ultimately show ?thesis
    using assms
    by (cases "validate_state E st")
      (auto simp: validate_change_payload_def snapshot_payload_def get_str_def get_u64_def
        decode_goal_json)
qed

lemma fold_snapshot:
  assumes "goal_codec E" and "op \<in> set snapshot_operations"
  shows "fold_goal_event E cur (''goal/change'', snapshot_payload op st) =
    rbind (validate_state E st) (\<lambda>_. rbind (validate_transition cur st op) (\<lambda>_. Inr (Some st)))"
proof -
  have "op \<noteq> ''clear''" using assms(2) by (auto simp: snapshot_operations_def)
  with assms show ?thesis
    by (cases "validate_state E st")
      (simp_all add: fold_goal_event_def validate_snapshot decode_goal_json)
qed

lemma fold_clear_payload:
  assumes "validate_change_payload E (clear_payload (g_id p) r now) = Inr ()"
    and "checked_add (g_revision p) 1 = Some r"
  shows "fold_goal_event E (Some p) (''goal/change'', clear_payload (g_id p) r now) = Inr None"
  using assms by (simp add: fold_goal_event_def fold_clear_def Let_def clear_payload_def)

section \<open>Mutations the fold accepts\<close>

definition mutation_accepted ::
  "'p goal_env \<Rightarrow> string \<Rightarrow> (goal_state \<Rightarrow> string + (goal_state \<times> bool)) \<Rightarrow> bool" where
  "mutation_accepted E op m \<longleftrightarrow> (\<forall>st st' keep. m st = Inr (st', keep) \<longrightarrow>
     g_revision st' = g_revision st
     \<and> (\<forall>r t. checked_add (g_revision st) 1 = Some r \<longrightarrow>
          validate_transition (Some st)
            (st'\<lparr>g_revision := r, g_updated_at := max (g_updated_at st') t\<rparr>) op = Inr ()))"

lemma mutation_acceptedD:
  assumes "mutation_accepted E op m" and "m st = Inr (st', keep)"
  shows "g_revision st' = g_revision st"
    and "checked_add (g_revision st) 1 = Some r \<Longrightarrow> validate_transition (Some st)
      (st'\<lparr>g_revision := r, g_updated_at := max (g_updated_at st') t\<rparr>) op = Inr ()"
  using assms unfolding mutation_accepted_def by blast+

lemma saturating_add_not_less [simp]: "\<not> saturating_add a b < (a :: 'a::len word)"
  using saturating_add_mono[of a b] by (simp add: not_less)

lemma mutations_accepted:
  "mutation_accepted E ''pause'' pause_mutation"
  "mutation_accepted E ''resume'' resume_mutation"
  "mutation_accepted E ''progress'' (progress_mutation summary)"
  "mutation_accepted E ''block'' (block_mutation code message)"
  "mutation_accepted E ''progress'' (failure_mutation err)"
  "mutation_accepted E ''complete'' (complete_mutation E summary human)"
  by (auto simp: mutation_accepted_def pause_mutation_def resume_mutation_def progress_mutation_def
      block_mutation_def failure_mutation_def complete_mutation_def validate_transition_def
      immutable_kept_def valid_phase_change_def)

lemma round_accounting_keeps [simp]:
  "g_revision (round_accounting tokens elapsed suc canc result st) = g_revision st"
  "g_phase (round_accounting tokens elapsed suc canc result st) = g_phase st"
  "g_updated_at (round_accounting tokens elapsed suc canc result st) = g_updated_at st"
  "g_id (round_accounting tokens elapsed suc canc result st) = g_id st"
  by (simp_all add: round_accounting_def Let_def)

lemma round_accepted:
  assumes "checked_add (g_revision st) 1 = Some r"
  shows "validate_transition (Some st) ((round_accounting tokens elapsed suc canc result st)
    \<lparr>g_revision := r, g_updated_at := max (g_updated_at st) t\<rparr>) ''progress'' = Inr ()"
  using assms
  by (auto simp: validate_transition_def immutable_kept_def valid_phase_change_def
      round_accounting_def Let_def)

section \<open>The service over its journal\<close>

abbreviation goal_replay ::
  "'p goal_env \<Rightarrow> (string \<times> json) list \<Rightarrow> string + goal_state option" where
  "goal_replay E log \<equiv> replay (fold_goal_event E) None log"

definition neutral_event :: "'p goal_env \<Rightarrow> string \<times> json \<Rightarrow> bool" where
  "neutral_event E ev \<longleftrightarrow> (\<forall>g. fold_goal_event E g ev = Inr g)"

definition pending_ok :: "'p goal_env \<Rightarrow> goal_state option \<Rightarrow> bool" where
  "pending_ok E g \<longleftrightarrow> (\<forall>p. g = Some p \<longrightarrow> g_revision p \<noteq> 0
     \<and> (g_revision p = 1 \<longrightarrow> validate_state E p = Inr () \<and> g_phase p = GActive
          \<and> g_rounds_started p = 0))"

text \<open>
  The state of the service is consistent: the journal of the active session replays, and a
  pending goal that was never changed is a valid first snapshot.
\<close>

definition goal_sys_ok :: "'p goal_env \<Rightarrow> goal_sys \<Rightarrow> bool" where
  "goal_sys_ok E s \<longleftrightarrow>
     (case gs_active s of
        Some _ \<Rightarrow> \<exists>g. goal_replay E (gs_log s) = Inr g
      | None \<Rightarrow> pending_ok E (gs_pending s))"

lemma replay_valid: "goal_replay E log = Inr g \<Longrightarrow> goal_valid E g"
  using goal_fold.replay_inv[of E None log g] by simp

lemma neutral_replay: "\<forall>e\<in>set es. neutral_event E e \<Longrightarrow> replay (fold_goal_event E) g es = Inr g"
  by (induction es) (auto simp: neutral_event_def)

lemma current_active:
  assumes "goal_codec E" and "gs_active s = Some sid" and "goal_replay E (gs_log s) = Inr g"
  shows "goal_current E s =
    Inr (map_option (\<lambda>st. \<lparr>gv_state = st, gv_armed = is_armed s\<rparr>) g)"
proof -
  have "goal_projection E (gs_log s) = g"
    using assms(3) by (simp add: goal_projection_def refresh_replay)
  then show ?thesis
    using replay_valid[OF assms(3)] assms(1,2)
    by (cases g) (simp_all add: goal_current_def goal_state_json_def decode_goal_json)
qed

lemma current_pending:
  "gs_active s = None \<Longrightarrow> goal_current E s =
    Inr (map_option (\<lambda>st. \<lparr>gv_state = st, gv_armed = is_armed s\<rparr>) (gs_pending s))"
  by (simp add: goal_current_def)

text \<open>Recording: nothing happens, or the events are in the journal.\<close>

lemma record_cases:
  assumes "record_goal_change E io data tail s = (s', r)" and "gs_active s = Some sid"
  obtains (refused) e where "s' = s" and "r = Inl e"
  | (written) "s' = s\<lparr>gs_log := gs_log s @ (''goal/change'', data) # tail\<rparr>"
      and "validate_change_payload E data = Inr ()"
proof (cases "validate_change_payload E data")
  case (Inr u)
  then show ?thesis
    using assms that by (cases "gio_append io") (auto simp: record_goal_change_def split: if_splits)
qed (use assms that in \<open>auto simp: record_goal_change_def\<close>)

text \<open>
  Publishing a state the fold accepts: it becomes the current goal and is the answer, or the
  call reports an error, with the state as it was or with the snapshot written.
\<close>

lemma publish_active:
  assumes E: "goal_codec E" and act: "gs_active s = Some sid"
    and log: "goal_replay E (gs_log s) = Inr g" and op: "op \<in> set snapshot_operations"
    and acc: "validate_transition g st op = Inr ()" and tail: "\<forall>e\<in>set tail. neutral_event E e"
    and run: "publish E io op st tail armed s = (s', r)"
  obtains (refused) e where "s' = s" and "r = Inl e"
  | (written) "gs_active s' = Some sid" and "goal_replay E (gs_log s') = Inr (Some st)"
      and "(\<exists>e. r = Inl e \<and> gs_armed s' = gs_armed s)
        \<or> r = Inr \<lparr>gv_state = st, gv_armed = armed\<rparr> \<and> is_armed s' = armed"
proof -
  obtain s1 r1 where rec: "record_goal_change E io (snapshot_payload op st) tail s = (s1, r1)"
    by (cases "record_goal_change E io (snapshot_payload op st) tail s")
  have run': "(s', r) = (case r1 of Inl e \<Rightarrow> (s1, Inl e)
      | Inr _ \<Rightarrow> (set_armed sid armed s1, Inr \<lparr>gv_state = st, gv_armed = armed\<rparr>))"
    using run act rec by (cases r1) (simp_all add: publish_def)
  from rec act show thesis
  proof (cases rule: record_cases)
    case (refused e)
    with run' show ?thesis by (auto intro: that(1))
  next
    case written
    have "goal_replay E (gs_log s @ (''goal/change'', snapshot_payload op st) # tail) = Inr (Some st)"
      using written(2) log acc tail
      by (simp add: replay_append fold_snapshot[OF E op] validate_snapshot[OF E op] neutral_replay)
    with written run' act show ?thesis
      by (intro that(2)) (auto simp: set_armed_def is_armed_def split: sum.splits)
  qed
qed

lemma publish_pending:
  assumes "gs_active s = None" and "publish E io op st tail armed s = (s', r)"
  shows "s' = s\<lparr>gs_pending := Some st, gs_armed := (if armed then Some pending_goal else None)\<rparr>"
    and "r = Inr \<lparr>gv_state = st, gv_armed = armed\<rparr>"
  using assms by (simp_all add: publish_def)

lemma publish_step:
  assumes E: "goal_codec E" and ok: "goal_sys_ok E s" and op: "op \<in> set snapshot_operations"
    and cur: "goal_current E s = Inr c"
    and acc: "validate_transition (map_option gv_state c) st op = Inr ()"
    and tail: "\<forall>e\<in>set tail. neutral_event E e"
    and pend: "gs_active s = None \<Longrightarrow> pending_ok E (Some st)"
    and run: "publish E io op st tail armed s = (s', r)"
  obtains (refused) e where "s' = s" and "r = Inl e"
  | (written) a where "goal_sys_ok E s'" and "gs_active s' = gs_active s"
      and "goal_current E s' = Inr (Some \<lparr>gv_state = st, gv_armed = a\<rparr>)"
      and "(\<exists>e. r = Inl e) \<or> r = Inr \<lparr>gv_state = st, gv_armed = a\<rparr>"
proof (cases "gs_active s")
  case None
  note p = publish_pending[OF None run]
  have arm: "is_armed s' = armed" using None by (simp add: p(1) is_armed_def)
  show thesis
    by (rule that(2)[of armed])
      (use pend None arm in \<open>simp_all add: p goal_sys_ok_def current_pending\<close>)
next
  case (Some sid)
  with ok obtain g where g: "goal_replay E (gs_log s) = Inr g" by (auto simp: goal_sys_ok_def)
  have cg: "map_option gv_state c = g"
    using current_active[OF E Some g] cur by (cases g) auto
  note acc' = acc[unfolded cg]
  from E Some g op acc' tail run show thesis
  proof (cases rule: publish_active)
    case (refused e)
    then show ?thesis by (rule that(1))
  next
    case written
    then show ?thesis
      using current_active[OF E written(1,2)] Some
      by (intro that(2)[of "is_armed s'"]) (auto simp: goal_sys_ok_def)
  qed
qed

end
