(* ===== verification/GoalReach.thy ===== *)
theory GoalReach
  imports GoalSafety
begin

text \<open>
  The calls of the goal service as one interface, what each does to a consistent state, and
  the states reachable by calls, admitted rounds, other session events, materialization of a
  pending goal and session switches.
\<close>

datatype goal_call =
    GcCreate goal_io string string goal_acceptance goal_limits bool
  | GcCreatePlan goal_io string string "(string \<times> json) list"
  | GcPause goal_io u64
  | GcResume goal_io u64
  | GcArm u64
  | GcProgress goal_io u64 string
  | GcBlock goal_io u64 string string
  | GcComplete goal_io u64 string
  | GcCandidate goal_io u64 string
  | GcClear goal_io u64
  | GcFinishRound goal_io u64 nat bool bool string
  | GcDisarm

definition as_view :: "goal_sys \<times> (string + goal_view) \<Rightarrow> goal_sys \<times> (string + goal_view option)" where
  "as_view x = (fst x, rbind (snd x) (\<lambda>v. Inr (Some v)))"

definition no_view :: "goal_sys \<times> (string + 'a) \<Rightarrow> goal_sys \<times> (string + goal_view option)" where
  "no_view x = (fst x, rbind (snd x) (\<lambda>_. Inr None))"

fun run_goal :: "'p goal_env \<Rightarrow> goal_call \<Rightarrow> goal_sys \<Rightarrow> goal_sys \<times> (string + goal_view option)" where
  "run_goal E (GcCreate io fresh objective acceptance limits arm) s =
     as_view (goal_create E io fresh objective acceptance limits arm s)"
| "run_goal E (GcCreatePlan io objective i tail) s = as_view (create_for_plan E io objective i tail s)"
| "run_goal E (GcPause io v) s = as_view (goal_pause E io v s)"
| "run_goal E (GcResume io v) s = as_view (goal_resume E io v s)"
| "run_goal E (GcArm v) s = as_view (goal_arm E v s)"
| "run_goal E (GcProgress io v summary) s = as_view (update_progress E io v summary s)"
| "run_goal E (GcBlock io v code message) s = as_view (goal_block E io v code message s)"
| "run_goal E (GcComplete io v summary) s = as_view (complete_human E io v summary s)"
| "run_goal E (GcCandidate io v summary) s = as_view (complete_candidate E io v summary s)"
| "run_goal E (GcClear io v) s = no_view (goal_clear E io v s)"
| "run_goal E (GcFinishRound io tokens elapsed suc canc result) s =
     no_view (finish_round E io tokens elapsed suc canc result s)"
| "run_goal E GcDisarm s = (disarm s, Inr None)"

text \<open>
  What the program guarantees about the arguments: generated identifiers are UUIDs not used by
  the current goal, the clock is not before 1970, and the events that share an atomic batch
  with a plan's goal are none of the goal's own.
\<close>

definition fresh_goal :: "'p goal_env \<Rightarrow> goal_io \<Rightarrow> string \<Rightarrow> goal_sys \<Rightarrow> bool" where
  "fresh_goal E io i s \<longleftrightarrow> valid_goal_id E i \<and> 0 \<le> gio_now io
     \<and> (\<forall>v. goal_current E s = Inr (Some v) \<longrightarrow> g_id (gv_state v) \<noteq> i)"

fun call_ok :: "'p goal_env \<Rightarrow> goal_call \<Rightarrow> goal_sys \<Rightarrow> bool" where
  "call_ok E (GcCreate io fresh _ _ _ _) s = fresh_goal E io (''goal-'' @ fresh) s"
| "call_ok E (GcCreatePlan io _ i tail) s =
     (fresh_goal E io i s \<and> (\<forall>e\<in>set tail. neutral_event E e))"
| "call_ok E _ s = True"

section \<open>One call\<close>

text \<open>The successor of a state under a mutation that \<open>goal_transition\<close> publishes.\<close>

definition mutated :: "goal_state \<Rightarrow> u64 \<Rightarrow> int \<Rightarrow> goal_state" where
  "mutated st revision now =
     st\<lparr>g_revision := revision, g_updated_at := max (g_updated_at st) now\<rparr>"

lemma succ_word_nonzero: "checked_add a 1 = Some r \<Longrightarrow> a \<noteq> 0 \<Longrightarrow> r \<noteq> 0 \<and> r \<noteq> (1 :: 'a::len word)"
proof -
  assume *: "checked_add a 1 = Some r" "a \<noteq> 0"
  then have "unat r = unat a + 1" "0 < unat a"
    by (auto simp: checked_add_Some_iff unat_gt_0)
  then show ?thesis by auto
qed

lemma current_valid_or_pending:
  assumes "goal_codec E" and "goal_sys_ok E s" and "goal_current E s = Inr (Some v)"
  shows "g_revision (gv_state v) \<noteq> 0" and "gv_armed v = is_armed s"
proof -
  show "g_revision (gv_state v) \<noteq> 0"
  proof (cases "gs_active s")
    case None
    with assms show ?thesis by (auto simp: current_pending goal_sys_ok_def pending_ok_def)
  next
    case (Some sid)
    with assms(2) obtain g where g: "goal_replay E (gs_log s) = Inr g"
      by (auto simp: goal_sys_ok_def)
    with assms(3) current_active[OF assms(1) Some g] have "g = Some (gv_state v)" by auto
    with replay_valid[OF g] show ?thesis by (auto simp: validate_state_def)
  qed
  show "gv_armed v = is_armed s"
    using assms(3) by (auto simp: goal_current_def)
qed

lemma transition_step:
  assumes E: "goal_codec E" and ok: "goal_sys_ok E s" and op: "op \<in> set snapshot_operations"
    and m: "mutation_accepted E op m" and run: "goal_transition E io expected op m s = (s', r)"
  obtains (refused) e where "s' = s" and "r = Inl e"
  | (written) v st keep rev a where "goal_current E s = Inr (Some v)"
      and "g_revision (gv_state v) = expected" and "m (gv_state v) = Inr (st, keep)"
      and "checked_add expected 1 = Some rev" and "g_revision st = expected"
      and "goal_sys_ok E s'" and "gs_active s' = gs_active s"
      and "goal_current E s' = Inr (Some \<lparr>gv_state = mutated st rev (gio_now io), gv_armed = a\<rparr>)"
      and "(\<exists>e. r = Inl e) \<or> r = Inr \<lparr>gv_state = mutated st rev (gio_now io), gv_armed = a\<rparr>"
proof -
  consider e where "s' = s" "r = Inl e"
    | v st keep rev where "goal_current E s = Inr (Some v)" "g_revision (gv_state v) = expected"
      "m (gv_state v) = Inr (st, keep)" "checked_add (g_revision st) 1 = Some rev"
      "publish E io op (mutated st rev (gio_now io)) [] (keep \<and> gv_armed v) s = (s', r)"
    using run
    by (auto simp: goal_transition_def current_goal_def require_revision_def mutated_def
        split: sum.splits prod.splits)
  then show thesis
  proof cases
    case (2 v st keep rev)
    have old: "g_revision st = expected"
      using mutation_acceptedD(1)[OF m 2(3)] 2(2) by simp
    have "checked_add (g_revision (gv_state v)) 1 = Some rev" using 2(2,4) old by simp
    then have acc: "validate_transition (Some (gv_state v)) (mutated st rev (gio_now io)) op = Inr ()"
      unfolding mutated_def by (rule mutation_acceptedD(2)[OF m 2(3)])
    have pend: "pending_ok E (Some (mutated st rev (gio_now io)))"
      using succ_word_nonzero[OF 2(4)] current_valid_or_pending(1)[OF E ok 2(1)] old 2(2)
      by (simp add: pending_ok_def mutated_def)
    have acc': "validate_transition (map_option gv_state (Some v)) (mutated st rev (gio_now io)) op
        = Inr ()" using acc by simp
    have tl: "\<forall>e\<in>set []. neutral_event E e" by simp
    from E ok op 2(1) acc' tl pend 2(5) show ?thesis
    proof (cases rule: publish_step)
      case (refused e)
      then show ?thesis by (rule that(1))
    next
      case (written a)
      with 2 old show ?thesis by (intro that(2)[of v st keep rev a]) auto
    qed
  qed (rule that(1))
qed

text \<open>Creation: the same, with nothing or a completed goal before.\<close>

lemma create_step:
  assumes E: "goal_codec E" and ok: "goal_sys_ok E s" and fresh: "fresh_goal E io i s"
    and tail: "\<forall>e\<in>set tail. neutral_event E e"
    and run: "create_named E io objective acceptance limits arm i tail s = (s', r)"
  obtains (refused) e where "s' = s" and "r = Inl e"
  | (written) a where "\<forall>v. goal_current E s = Inr (Some v) \<longrightarrow> g_phase (gv_state v) = GComplete"
      and "goal_sys_ok E s'" and "gs_active s' = gs_active s"
      and "goal_current E s' = Inr (Some \<lparr>gv_state =
            new_goal i objective acceptance limits (gio_now io), gv_armed = a\<rparr>)"
      and "(\<exists>e. r = Inl e) \<or> r = Inr \<lparr>gv_state =
            new_goal i objective acceptance limits (gio_now io), gv_armed = a\<rparr>"
proof -
  let ?g = "new_goal i objective acceptance limits (gio_now io)"
  consider e where "s' = s" "r = Inl e"
    | c where "validate_objective objective = Inr ()" "validate_acceptance acceptance = Inr ()"
      "goal_current E s = Inr c" "\<forall>v. c = Some v \<longrightarrow> g_phase (gv_state v) = GComplete"
      "publish E io ''create'' ?g tail arm s = (s', r)"
    using run by (auto simp: create_named_def split: sum.splits option.splits)
  then show thesis
  proof cases
    case (2 c)
    have "trim objective = objective" using 2(1) by (auto simp: validate_objective_def)
    then have "validate_state E ?g = Inr ()"
      using 2(1,2) fresh by (simp add: validate_state_def new_goal_def fresh_goal_def)
    then have pend: "pending_ok E (Some ?g)" by (simp add: pending_ok_def new_goal_def)
    have acc: "validate_transition (map_option gv_state c) ?g ''create'' = Inr ()"
      using 2(3,4) fresh
      by (cases c) (auto simp: validate_transition_def validate_create_def new_goal_def fresh_goal_def)
    have op: "''create'' \<in> set snapshot_operations" by (simp add: snapshot_operations_def)
    from E ok op 2(3) acc tail pend 2(5) show ?thesis
    proof (cases rule: publish_step)
      case (refused e)
      then show ?thesis by (rule that(1))
    next
      case (written a)
      with 2(3,4) show ?thesis by (intro that(2)[of a]) auto
    qed
  qed (rule that(1))
qed

lemma clear_step:
  assumes E: "goal_codec E" and ok: "goal_sys_ok E s"
    and run: "goal_clear E io expected s = (s', r)"
  obtains (refused) e where "s' = s" and "r = Inl e"
  | (written) v where "goal_current E s = Inr (Some v)" and "g_revision (gv_state v) = expected"
      and "goal_sys_ok E s'" and "gs_active s' = gs_active s" and "goal_current E s' = Inr None"
      and "is_armed s' \<longrightarrow> is_armed s"
proof -
  consider e where "s' = s" "r = Inl e"
    | v rev where "goal_current E s = Inr (Some v)" "g_revision (gv_state v) = expected"
      "checked_add (g_revision (gv_state v)) 1 = Some rev"
      "goal_clear E io expected s = (case gs_active s of
         Some _ \<Rightarrow>
           (case record_goal_change E io (clear_payload (g_id (gv_state v)) rev (gio_now io)) [] s of
              (s1, Inl e) \<Rightarrow> (s1, Inl e) | (s1, Inr _) \<Rightarrow> (disarm s1, Inr ()))
       | None \<Rightarrow> (disarm (s\<lparr>gs_pending := None\<rparr>), Inr ()))"
    using run
    by (auto simp: goal_clear_def current_goal_def require_revision_def split: sum.splits prod.splits)
  then show thesis
  proof cases
    case (2 v rev)
    show ?thesis
    proof (cases "gs_active s")
      case None
      then have s': "s' = disarm (s\<lparr>gs_pending := None\<rparr>)" using 2(4) run by simp
      then show ?thesis using None 2
        by (intro that(2)[of v])
          (simp_all add: disarm_def goal_sys_ok_def pending_ok_def current_pending is_armed_def)
    next
      case (Some sid)
      let ?data = "clear_payload (g_id (gv_state v)) rev (gio_now io)"
      obtain s1 r1 where rec: "record_goal_change E io ?data [] s = (s1, r1)"
        by (cases "record_goal_change E io ?data [] s")
      have s': "s' = (case r1 of Inl _ \<Rightarrow> s1 | Inr _ \<Rightarrow> disarm s1)"
        "r = (case r1 of Inl e \<Rightarrow> Inl e | Inr _ \<Rightarrow> Inr ())"
        using 2(4) run Some rec by (auto split: sum.splits)
      from ok Some obtain g where g: "goal_replay E (gs_log s) = Inr g"
        by (auto simp: goal_sys_ok_def)
      have gv: "g = Some (gv_state v)" using current_active[OF E Some g] 2(1) by (cases g) auto
      from rec Some show ?thesis
      proof (cases rule: record_cases)
        case (refused e)
        with s' show ?thesis by (auto intro: that(1))
      next
        case written
        have log: "goal_replay E (gs_log s') = Inr None"
          using fold_clear_payload[OF written(2) 2(3)] g gv s' written(1)
          by (auto simp: replay_append disarm_def split: sum.splits)
        have act: "gs_active s' = Some sid" and arm: "is_armed s' \<longrightarrow> is_armed s"
          using s' written(1) Some by (auto simp: disarm_def is_armed_def split: sum.splits)
        show ?thesis
          by (rule that(2)[OF 2(1,2)])
            (use current_active[OF E act log] act log Some arm in \<open>simp_all add: goal_sys_ok_def\<close>)
      qed
    qed
  qed (rule that(1))
qed

lemma finish_step:
  assumes E: "goal_codec E" and ok: "goal_sys_ok E s"
    and run: "finish_round E io tokens elapsed suc canc result s = (s', r)"
  obtains (same) "goal_sys_ok E s'" and "gs_active s' = gs_active s"
      and "map_option gv_state (case goal_current E s' of Inl _ \<Rightarrow> None | Inr c \<Rightarrow> c)
         = map_option gv_state (case goal_current E s of Inl _ \<Rightarrow> None | Inr c \<Rightarrow> c)"
      and "is_armed s' \<longrightarrow> is_armed s"
  | (written) v rev a where "goal_current E s = Inr (Some v)"
      and "checked_add (g_revision (gv_state v)) 1 = Some rev"
      and "goal_sys_ok E s'" and "gs_active s' = gs_active s"
      and "goal_current E s' = Inr (Some \<lparr>gv_state = mutated
            (round_accounting tokens elapsed suc canc result (gv_state v)) rev (gio_now io),
            gv_armed = a\<rparr>)"
      and "is_armed s' \<longrightarrow> is_armed s"
proof (cases "goal_current E s")
  case (Inl e)
  then have "s' = s" using run by (simp add: finish_round_def)
  with ok show ?thesis by (intro that(1)) simp_all
next
  case (Inr c)
  show ?thesis
  proof (cases c)
    case None
    then have s': "s' = disarm s" using run Inr by (simp add: finish_round_def)
    have "gs_active s = Some sid \<Longrightarrow> gs_log s' = gs_log s" for sid by (simp add: s' disarm_def)
    with ok Inr None show ?thesis
      by (intro that(1))
        (auto simp: s' disarm_def goal_sys_ok_def goal_current_def goal_state_json_def is_armed_def
          split: option.splits)
  next
    case (Some v)
    let ?st = "round_accounting tokens elapsed suc canc result (gv_state v)"
    show ?thesis
    proof (cases "checked_add (g_revision (gv_state v)) 1")
      case None
      then have "s' = s" using run Inr Some by (simp add: finish_round_def Let_def)
      with ok show ?thesis by (intro that(1)) simp_all
    next
      case rev: (Some rev)
      let ?next = "mutated ?st rev (gio_now io)"
      let ?keep = "gv_armed v \<and> suc \<and> \<not> canc \<and> g_phase ?st = GActive"
      obtain s1 r1 where rec: "record_goal_change E io (snapshot_payload ''progress'' ?next) [] s = (s1, r1)"
        by (cases "record_goal_change E io (snapshot_payload ''progress'' ?next) [] s")
      have s': "s' = (case r1 of Inl _ \<Rightarrow> s1 | Inr _ \<Rightarrow>
          (case gs_active s1 of Some session \<Rightarrow> set_armed session ?keep s1 | None \<Rightarrow> disarm s1))"
        using run Inr Some rev rec
        by (auto simp: finish_round_def Let_def mutated_def split: sum.splits option.splits)
      show ?thesis
      proof (cases "gs_active s")
        case None
        then have "s1 = s \<and> (\<exists>e. r1 = Inl e)"
          using rec by (auto simp: record_goal_change_def split: sum.splits)
        with s' ok show ?thesis by (intro that(1)) auto
      next
        case act: (Some sid)
        from ok act obtain g where g: "goal_replay E (gs_log s) = Inr g"
          by (auto simp: goal_sys_ok_def)
        have gv: "g = Some (gv_state v)"
          using current_active[OF E act g] Inr Some by (cases g) auto
        have armed: "gv_armed v = is_armed s"
          using current_valid_or_pending(2)[OF E ok] Inr Some by blast
        have op: "''progress'' \<in> set snapshot_operations" by (simp add: snapshot_operations_def)
        from rec act show ?thesis
        proof (cases rule: record_cases)
          case (refused e)
          with s' ok show ?thesis by (intro that(1)) auto
        next
          case written
          have acc: "validate_transition (Some (gv_state v)) ?next ''progress'' = Inr ()"
            using round_accepted[OF rev] by (simp add: mutated_def)
          have log1: "goal_replay E (gs_log s1) = Inr (Some ?next)"
            using written g gv acc
            by (simp add: replay_append fold_snapshot[OF E op] validate_snapshot[OF E op])
          have act1: "gs_active s1 = Some sid" using written act by simp
          have "gs_active s' = Some sid" "gs_log s' = gs_log s1"
            using s' act1 by (auto simp: set_armed_def split: sum.splits)
          moreover have "is_armed s' \<longrightarrow> is_armed s"
            using s' act1 written(1) armed act
            by (auto simp: set_armed_def is_armed_def split: sum.splits)
          ultimately show ?thesis
            using current_active[OF E, of s' sid "Some ?next"] log1 act
            by (intro that(2)[OF _ rev, of "is_armed s'"]) (simp_all add: Inr Some goal_sys_ok_def)
        qed
      qed
    qed
  qed
qed

section \<open>Every call keeps the service consistent and shows what it wrote\<close>

definition call_fine :: "'p goal_env \<Rightarrow> goal_sys \<Rightarrow> goal_sys \<times> (string + goal_view option) \<Rightarrow> bool" where
  "call_fine E s x \<longleftrightarrow> goal_sys_ok E (fst x) \<and> gs_active (fst x) = gs_active s
     \<and> (\<forall>v. snd x = Inr (Some v) \<longrightarrow> goal_current E (fst x) = Inr (Some v))"

lemma call_fine_error [simp]: "goal_sys_ok E s \<Longrightarrow> call_fine E s (as_view (s, Inl e))"
  by (simp add: call_fine_def as_view_def)

lemma transition_fine:
  assumes "goal_codec E" and ok: "goal_sys_ok E s" and "op \<in> set snapshot_operations"
    and "mutation_accepted E op m"
  shows "call_fine E s (as_view (goal_transition E io expected op m s))"
proof -
  obtain s' r where run: "goal_transition E io expected op m s = (s', r)"
    by (cases "goal_transition E io expected op m s")
  from assms run show ?thesis
  proof (cases rule: transition_step)
    case (refused e)
    with run ok show ?thesis by simp
  next
    case (written v st keep rev a)
    then show ?thesis unfolding run by (auto simp: call_fine_def as_view_def)
  qed
qed

lemmas mutations_fine = mutations_accepted[THEN transition_fine[rotated 3]]

lemma create_fine:
  assumes E: "goal_codec E" and ok: "goal_sys_ok E s" and fresh: "fresh_goal E io i s"
    and tail: "\<forall>e\<in>set tail. neutral_event E e"
  shows "call_fine E s (as_view (create_named E io objective acceptance limits arm i tail s))"
proof -
  obtain s' r where run: "create_named E io objective acceptance limits arm i tail s = (s', r)"
    by (cases "create_named E io objective acceptance limits arm i tail s")
  from assms run show ?thesis
  proof (cases rule: create_step)
    case (refused e)
    with run ok show ?thesis by simp
  next
    case (written a)
    then show ?thesis unfolding run by (auto simp: call_fine_def as_view_def)
  qed
qed

lemma operations_known:
  "''pause'' \<in> set snapshot_operations" "''resume'' \<in> set snapshot_operations"
  "''progress'' \<in> set snapshot_operations" "''block'' \<in> set snapshot_operations"
  "''complete'' \<in> set snapshot_operations"
  by (simp_all add: snapshot_operations_def)

lemma block_fine:
  assumes "goal_codec E" and "goal_sys_ok E s"
  shows "call_fine E s (as_view (goal_block E io v code message s))"
  using assms
  by (auto simp: goal_block_def operations_known mutations_accepted transition_fine
      split: sum.splits prod.splits)

lemma complete_fine:
  assumes "goal_codec E" and "goal_sys_ok E s"
  shows "call_fine E s (as_view (goal_complete E io v summary human s))"
  using assms
  by (auto simp: goal_complete_def operations_known mutations_accepted transition_fine
      split: sum.splits)

lemma candidate_fine:
  assumes "goal_codec E" and "goal_sys_ok E s"
  shows "call_fine E s (as_view (complete_candidate E io v summary s))"
proof -
  have "call_fine E s (as_view (case goal_transition E io v ''progress'' (failure_mutation err) s of
      (s1, Inl e) \<Rightarrow> (s1, Inl e) | (s1, Inr recorded) \<Rightarrow> (s1, Inl (f recorded))))" for err f
    using transition_fine[OF assms operations_known(3) mutations_accepted(5), of io v err]
    by (auto simp: call_fine_def as_view_def split: prod.splits sum.splits)
  then show ?thesis
    using assms
    by (auto simp: complete_candidate_def block_fine complete_fine split: sum.splits)
qed

lemma arm_fine:
  assumes "goal_codec E" and ok: "goal_sys_ok E s"
  shows "call_fine E s (as_view (goal_arm E v s))"
  using ok
  by (auto simp: goal_arm_def call_fine_def as_view_def current_goal_def goal_sys_ok_def
      set_armed_def goal_current_def goal_state_json_def is_armed_def split: sum.splits option.splits)

lemma call_step:
  assumes E: "goal_codec E" and ok: "goal_sys_ok E s" and call: "call_ok E c s"
  shows "call_fine E s (run_goal E c s)"
proof (cases c)
  case (GcClear io v)
  obtain s' r where run: "goal_clear E io v s = (s', r)" by (cases "goal_clear E io v s")
  from clear_step[OF E ok run] show ?thesis
    using ok GcClear run by (cases) (auto simp: call_fine_def no_view_def)
next
  case (GcFinishRound io tokens elapsed suc canc result)
  obtain s' r where run: "finish_round E io tokens elapsed suc canc result s = (s', r)"
    by (cases "finish_round E io tokens elapsed suc canc result s")
  from finish_step[OF E ok run] show ?thesis
    using GcFinishRound run by (cases) (auto simp: call_fine_def no_view_def)
next
  case GcDisarm
  with ok show ?thesis by (auto simp: call_fine_def disarm_def goal_sys_ok_def split: option.splits)
next
  case (GcCreate io fresh objective acceptance limits arm)
  with call E ok show ?thesis by (auto simp: goal_create_def intro!: create_fine)
next
  case (GcCreatePlan io objective i tail)
  with call E ok show ?thesis by (auto simp: create_for_plan_def intro!: create_fine)
qed (use E ok in \<open>simp_all add: goal_pause_def goal_resume_def update_progress_def complete_human_def
      operations_known mutations_accepted transition_fine block_fine complete_fine candidate_fine
      arm_fine\<close>)

section \<open>Reachable states\<close>

text \<open>
  \<open>round\<close>: the admission of a goal round puts the message of \<open>next_round\<close> into the journal
  (with attachments and other fields merged in). \<open>attach\<close>: the first run of a fresh session
  puts the birth events into its journal and tells the service; the pending goal is one that
  was not changed after its creation (what happens otherwise is \<open>changed_pending_goal_lost\<close>).
  \<open>switch\<close>: another session becomes active, or none.
\<close>

inductive goal_reach :: "'p goal_env \<Rightarrow> goal_sys \<Rightarrow> bool" for E where
  start: "goal_reach E \<lparr>gs_active = None, gs_log = [], gs_pending = None, gs_armed = None\<rparr>"
| call: "goal_reach E s \<Longrightarrow> call_ok E c s \<Longrightarrow> goal_reach E (fst (run_goal E c s))"
| round: "goal_reach E s \<Longrightarrow> gs_active s = Some sid \<Longrightarrow> next_round E fresh s = Inr r \<Longrightarrow>
    json_index m ''source'' = json_index (gr_message r) ''source'' \<Longrightarrow>
    goal_reach E (s\<lparr>gs_log := gs_log s @ [(''user/message'', m)]\<rparr>)"
| other: "goal_reach E s \<Longrightarrow> gs_active s = Some sid \<Longrightarrow> neutral_event E ev \<Longrightarrow>
    goal_reach E (s\<lparr>gs_log := gs_log s @ [ev]\<rparr>)"
| attach: "goal_reach E s \<Longrightarrow> gs_active s = None \<Longrightarrow> \<forall>e\<in>set before. neutral_event E e \<Longrightarrow>
    \<forall>p. gs_pending s = Some p \<longrightarrow> g_revision p = 1 \<Longrightarrow>
    goal_reach E (materialized sid (s\<lparr>gs_active := Some sid,
      gs_log := before @ (case pending_birth_event s of None \<Rightarrow> [] | Some e \<Rightarrow> [e])\<rparr>))"
| switch: "goal_reach E s \<Longrightarrow> goal_replay E log = Inr g \<Longrightarrow>
    goal_reach E (session_boundary (s\<lparr>gs_active := active, gs_log := log\<rparr>))"

lemma next_round_Inr:
  assumes "next_round E fresh s = Inr r"
  obtains v n where "goal_current E s = Inr (Some v)" and "gv_armed v"
    and "g_phase (gv_state v) = GActive"
    and "checked_add (g_rounds_started (gv_state v)) 1 = Some n"
    and "gr_prompt r = render_round_prompt (gv_state v) n"
    and "gr_display_text r = (if n = 1 then Some (g_objective (gv_state v)) else None)"
    and "gr_message r = json_set (user_message fresh (gr_prompt r)) ''source''
      (JObj [(''kind'', JStr ''goal''), (''goalId'', JStr (g_id (gv_state v))),
             (''revision'', jnat (g_revision (gv_state v))), (''round'', jnat n)])"
  using assms by (auto simp: next_round_def current_goal_def Let_def)

lemma user_message_source [simp]:
  "json_index (json_set (user_message i t) ''source'' j) ''source'' = j"
  "json_index (json_set (user_message i t) ''source'' j) ''content'' =
     JArr [JObj [(''type'', JStr ''text''), (''text'', JStr t)]]"
  by (simp_all add: user_message_def)

text \<open>A round is accepted by the fold and counted once.\<close>

lemma round_counter:
  assumes "checked_add n 1 = Some (k :: u32)"
  shows "as_u64 (jnat k) = Some (ucast n + 1)" and "(ucast n + 1 :: u64) \<le> 4294967295"
    and "ucast (ucast n + 1 :: u64) = k"
proof -
  have k: "unat k = unat n + 1" "unat n + 1 < 4294967296"
    using assms by (auto simp: checked_add_Some_iff)
  have un: "unat (ucast n :: u64) = unat n" using unat_u32[of n] by (simp add: unat_ucast_mod)
  have sum: "unat (ucast n + 1 :: u64) = unat n + 1"
    using unat_add_exact[of "ucast n :: u64" 1] un k by simp
  have "(ucast k :: u64) = ucast n + 1"
    by (rule unat_eqI) (use sum k in \<open>simp only: unat_ucast_mod, simp\<close>)
  then have "word_of_int (uint k) = (ucast n + 1 :: u64)" by simp
  moreover have "uint k < 18446744073709551616" using uint_lt2p[of k] by simp
  ultimately show "as_u64 (jnat k) = Some (ucast n + 1)" by (simp add: jnat_def)
  show "(ucast n + 1 :: u64) \<le> 4294967295" using sum k by (simp add: word_le_nat_alt)
  show "ucast (ucast n + 1 :: u64) = k"
    by (rule unat_eqI) (use sum k in \<open>simp add: unat_ucast_mod\<close>)
qed

definition round_source :: "goal_state \<Rightarrow> u32 \<Rightarrow> json" where
  "round_source st n = JObj [(''kind'', JStr ''goal''), (''goalId'', JStr (g_id st)),
     (''revision'', jnat (g_revision st)), (''round'', jnat n)]"

lemma round_folds:
  assumes "json_index m ''source'' = round_source st n" and "g_phase st = GActive"
    and "checked_add (g_rounds_started st) 1 = Some n"
  shows "fold_goal_event E (Some st) (''user/message'', m)
    = Inr (Some (st\<lparr>g_rounds_started := n\<rparr>))"
  using round_counter[OF assms(3)] assms(1,2)
  by (simp add: fold_goal_event_def round_source_def fold_round_def Let_def not_less)

lemma round_counted_once:
  assumes "json_index m ''source'' = round_source st n" and "g_phase st = GActive"
    and "checked_add (g_rounds_started st) 1 = Some n"
  shows "\<exists>e. fold_goal_event E (Some (st\<lparr>g_rounds_started := n\<rparr>)) (''user/message'', m) = Inl e"
proof -
  have "unat n = unat (g_rounds_started st) + 1" using assms(3) by (simp add: checked_add_Some_iff)
  then have "(ucast (g_rounds_started st) + 1 :: u64) \<noteq> ucast n + 1"
  proof -
    assume *: "unat n = unat (g_rounds_started st) + 1"
    have "unat (ucast (g_rounds_started st) :: u64) \<noteq> unat (ucast n :: u64)"
      using * unat_u32[of n] by (simp add: unat_ucast_mod)
    then show ?thesis by auto
  qed
  then show ?thesis
    using round_counter(1)[OF assms(3)] assms(1)
    by (simp add: fold_goal_event_def round_source_def fold_round_def Let_def)
qed

theorem goal_reach_ok:
  assumes E: "goal_codec E"
  shows "goal_reach E s \<Longrightarrow> goal_sys_ok E s"
proof (induction rule: goal_reach.induct)
  case start
  show ?case by (simp add: goal_sys_ok_def pending_ok_def)
next
  case (call s c)
  from call_step[OF E call.IH call.hyps(2)] show ?case by (simp add: call_fine_def)
next
  case (round s sid fresh r m)
  from round.IH round.hyps(2) obtain g where g: "goal_replay E (gs_log s) = Inr g"
    by (auto simp: goal_sys_ok_def)
  from round.hyps(3) obtain v n where v: "goal_current E s = Inr (Some v)"
    "g_phase (gv_state v) = GActive" "checked_add (g_rounds_started (gv_state v)) 1 = Some n"
    "json_index (gr_message r) ''source'' = round_source (gv_state v) n"
    by (rule next_round_Inr) (simp add: round_source_def)
  have "g = Some (gv_state v)" using current_active[OF E round.hyps(2) g] v(1) by (cases g) auto
  then have "goal_replay E (gs_log s @ [(''user/message'', m)]) =
      Inr (Some (gv_state v\<lparr>g_rounds_started := n\<rparr>))"
    using g round_folds[OF _ v(2,3), of m E] v(4) round.hyps(4) by (simp add: replay_append)
  with round.hyps(2) show ?case by (simp add: goal_sys_ok_def)
next
  case (other s sid ev)
  then show ?case by (auto simp: goal_sys_ok_def replay_append neutral_event_def)
next
  case (attach s before sid)
  have "\<exists>g. goal_replay E (before @ (case pending_birth_event s of None \<Rightarrow> [] | Some e \<Rightarrow> [e])) = Inr g"
  proof (cases "gs_pending s")
    case None
    with attach show ?thesis by (simp add: pending_birth_event_def neutral_replay)
  next
    case (Some p)
    with attach have p: "validate_state E p = Inr ()" "g_phase p = GActive"
      "g_rounds_started p = 0" "g_revision p = 1"
      by (auto simp: goal_sys_ok_def pending_ok_def)
    have "fold_goal_event E None (''goal/change'', snapshot_payload ''create'' p) = Inr (Some p)"
      using p by (simp add: fold_snapshot[OF E] snapshot_operations_def validate_transition_def
          validate_create_def)
    with Some attach show ?thesis
      by (simp add: pending_birth_event_def neutral_replay replay_append)
  qed
  then show ?case by (simp add: goal_sys_ok_def materialized_def)
next
  case (switch s log g active)
  then show ?case
    by (auto simp: goal_sys_ok_def session_boundary_def pending_ok_def split: option.splits)
qed

section \<open>The goal as a compare-and-set store\<close>

text \<open>The calls that name a revision, with their answers as results.\<close>

datatype goal_write =
    WgPause | WgResume | WgProgress string | WgBlock string string | WgComplete string
  | WgCandidate string | WgClear

fun write_call :: "goal_io \<Rightarrow> u64 \<Rightarrow> goal_write \<Rightarrow> goal_call" where
  "write_call io v WgPause = GcPause io v"
| "write_call io v WgResume = GcResume io v"
| "write_call io v (WgProgress r) = GcProgress io v r"
| "write_call io v (WgBlock c m) = GcBlock io v c m"
| "write_call io v (WgComplete r) = GcComplete io v r"
| "write_call io v (WgCandidate r) = GcCandidate io v r"
| "write_call io v WgClear = GcClear io v"

definition goal_commit ::
  "'p goal_env \<Rightarrow> u64 \<Rightarrow> goal_io \<times> goal_write \<Rightarrow> goal_sys \<Rightarrow> string + goal_sys" where
  "goal_commit E v w s =
     (case run_goal E (write_call (fst w) v (snd w)) s of
        (s', Inl e) \<Rightarrow> Inl e | (s', Inr _) \<Rightarrow> Inr s')"

definition goal_revision :: "'p goal_env \<Rightarrow> goal_sys \<Rightarrow> u64 option" where
  "goal_revision E s =
     (case goal_current E s of Inr (Some v) \<Rightarrow> Some (g_revision (gv_state v)) | _ \<Rightarrow> None)"

text \<open>A successful write: it named the current revision, and left another goal state or none.\<close>

definition write_moves :: "'p goal_env \<Rightarrow> u64 \<Rightarrow> goal_sys \<Rightarrow> goal_sys \<times> (string + 'a) \<Rightarrow> bool" where
  "write_moves E v s x \<longleftrightarrow> (\<forall>a. snd x = Inr a \<longrightarrow>
     goal_revision E s = Some v \<and> (\<forall>n. goal_revision E (fst x) = Some n \<longrightarrow> v < n))"

lemma transition_moves:
  assumes "goal_codec E" and ok: "goal_sys_ok E s" and "op \<in> set snapshot_operations"
    and "mutation_accepted E op m"
  shows "write_moves E v s (goal_transition E io v op m s)"
proof -
  obtain s' r where run: "goal_transition E io v op m s = (s', r)"
    by (cases "goal_transition E io v op m s")
  from assms run show ?thesis
  proof (cases rule: transition_step)
    case (refused e)
    then show ?thesis unfolding run by (simp add: write_moves_def)
  next
    case (written w st keep rev a)
    then show ?thesis unfolding run
      by (auto simp: write_moves_def goal_revision_def mutated_def dest: word_checked_succ)
  qed
qed

lemma commit_moves:
  assumes E: "goal_codec E" and ok: "goal_sys_ok E s"
  shows "write_moves E v s (run_goal E (write_call io v w) s)"
proof -
  have lift: "write_moves E v s x \<Longrightarrow> write_moves E v s (as_view x)" for x
    by (auto simp: write_moves_def as_view_def)
  note tm = transition_moves[OF E ok, OF operations_known(1) mutations_accepted(1)]
    transition_moves[OF E ok, OF operations_known(2) mutations_accepted(2)]
    transition_moves[OF E ok, OF operations_known(3) mutations_accepted(3)]
    transition_moves[OF E ok, OF operations_known(4) mutations_accepted(4)]
    transition_moves[OF E ok, OF operations_known(5) mutations_accepted(6)]
  have block: "write_moves E v s (goal_block E io v c m s)" for c m
    using tm(4) by (auto simp: goal_block_def write_moves_def split: sum.splits)
  have complete: "write_moves E v s (goal_complete E io v r h s)" for r h
    using tm(5) by (auto simp: goal_complete_def write_moves_def split: sum.splits)
  show ?thesis
  proof (cases w)
    case (WgCandidate r)
    have "write_moves E v s (complete_candidate E io v r s)"
      using block complete
      by (auto simp: complete_candidate_def write_moves_def split: sum.splits prod.splits)
    with WgCandidate lift show ?thesis by simp
  next
    case WgClear
    obtain s' r where run: "goal_clear E io v s = (s', r)" by (cases "goal_clear E io v s")
    from clear_step[OF E ok run] have "write_moves E v s (s', r)"
      by (cases) (auto simp: write_moves_def goal_revision_def)
    with WgClear run show ?thesis by (auto simp: no_view_def write_moves_def)
  qed (use tm block complete in \<open>simp_all add: lift goal_pause_def goal_resume_def
      update_progress_def complete_human_def\<close>)
qed

interpretation goal_cas: cas_store
  "\<lambda>s. goal_codec E \<and> goal_sys_ok E s" "goal_revision E" "goal_commit E" for E
proof (unfold_locales, goal_cases)
  case (1 s v w t)
  then show ?case
    using call_step[of E s "write_call (fst w) v (snd w)"]
    by (cases "snd w") (auto simp: goal_commit_def call_fine_def split: prod.splits sum.splits)
next
  case (2 s v w t)
  then show ?case
    using commit_moves[of E s v "fst w" "snd w"]
    by (auto simp: goal_commit_def write_moves_def split: prod.splits sum.splits)
next
  case (3 s v w t)
  then show ?case
    using commit_moves[of E s v "fst w" "snd w"]
    by (auto simp: goal_commit_def write_moves_def split: prod.splits sum.splits)
qed

end
