(* ===== verification/GoalProps.thy ===== *)
theory GoalProps
  imports GoalReach
begin

text \<open>
  The properties of the goal, each with a witness on a concrete environment: \<open>gdemo_env\<close> has
  a real decoder of the canonical snapshot, for which the round trip is proved.
\<close>

section \<open>A concrete environment\<close>

fun json_word :: "json \<Rightarrow> 'a::len word option" where
  "json_word (JInt n) = Some (word_of_int n)"
| "json_word _ = None"

fun json_int :: "json \<Rightarrow> int option" where
  "json_int (JInt n) = Some n"
| "json_int _ = None"

definition field :: "json \<Rightarrow> string \<Rightarrow> (json \<Rightarrow> 'a option) \<Rightarrow> 'a option" where
  "field j k read = Option.bind (json_get j k) read"

definition dec_phase :: "string \<Rightarrow> goal_phase option" where
  "dec_phase s = (if s = ''active'' then Some GActive else if s = ''paused'' then Some GPaused
     else if s = ''blocked'' then Some GBlocked else if s = ''complete'' then Some GComplete
     else None)"

definition dec_acceptance :: "json \<Rightarrow> goal_acceptance option" where
  "dec_acceptance j = Option.bind (field j ''kind'' as_str) (\<lambda>kind.
     if kind = ''user'' then Some AccUser
     else Option.bind (field j ''path'' as_str) (\<lambda>path.
       if kind = ''file-exists'' then Some (AccFileExists path)
       else map_option (AccFileContains path) (field j ''text'' as_str)))"

definition dec_limits :: "json \<Rightarrow> goal_limits option" where
  "dec_limits j =
     Option.bind (field j ''maxRounds'' json_word) (\<lambda>a.
     Option.bind (field j ''maxTokens'' json_word) (\<lambda>b.
     Option.bind (field j ''maxTimeSecs'' json_word) (\<lambda>c.
     Option.bind (field j ''maxFailures'' json_word) (\<lambda>d.
     Some \<lparr>gl_max_rounds = a, gl_max_tokens = b, gl_max_time_secs = c, gl_max_failures = d\<rparr>))))"

definition dec_reason :: "json \<Rightarrow> goal_block_reason option" where
  "dec_reason j =
     Option.bind (field j ''code'' as_str) (\<lambda>c.
     Option.bind (field j ''message'' as_str) (\<lambda>m. Some \<lparr>gb_code = c, gb_message = m\<rparr>))"

definition dec_state :: "json \<Rightarrow> goal_state option" where
  "dec_state j =
     Option.bind (field j ''id'' as_str) (\<lambda>i.
     Option.bind (field j ''objective'' as_str) (\<lambda>ob.
     Option.bind (field j ''acceptance'' dec_acceptance) (\<lambda>acc.
     Option.bind (Option.bind (field j ''phase'' as_str) dec_phase) (\<lambda>ph.
     Option.bind (field j ''revision'' json_word) (\<lambda>rv.
     Option.bind (field j ''roundsStarted'' json_word) (\<lambda>rs.
     Option.bind (field j ''failures'' json_word) (\<lambda>fs.
     Option.bind (field j ''tokensUsed'' json_word) (\<lambda>tu.
     Option.bind (field j ''elapsedMs'' json_word) (\<lambda>em.
     Option.bind (field j ''limits'' dec_limits) (\<lambda>ls.
     Option.bind (field j ''createdAt'' json_int) (\<lambda>ca.
     Option.bind (field j ''updatedAt'' json_int) (\<lambda>ua.
     Some \<lparr>g_id = i, g_objective = ob, g_acceptance = acc, g_phase = ph, g_revision = rv,
       g_rounds_started = rs, g_failures = fs, g_tokens_used = tu, g_elapsed_ms = em,
       g_limits = ls, g_created_at = ca, g_updated_at = ua,
       g_blocked_reason = field j ''blockedReason'' dec_reason,
       g_last_result = field j ''lastResult'' as_str\<rparr>))))))))))))"

definition gdemo_dec :: "json \<Rightarrow> string + goal_state" where
  "gdemo_dec j = ok_or (dec_state j) ''not a goal''"

text \<open>A project whose root is \<open>/p\<close> with one file, \<open>out.txt\<close>.\<close>

definition gdemo_env :: "string goal_env" where
  "gdemo_env = \<lparr>g_uuid_ok = (\<lambda>s. s = ''u1'' \<or> s = ''u2''), dec_goal = gdemo_dec,
     project_root = ''/p'', canonicalize = (\<lambda>p. Inr p), path_join = (\<lambda>p v. p @ ''/'' @ v),
     path_under = (\<lambda>root p. starts_with root p), path_is_file = (\<lambda>p. p = ''/p/out.txt''),
     read_limited = (\<lambda>p n. if p = ''out.txt'' then Inr (Some ''all done'') else Inr None),
     utf8_error = (\<lambda>s. None)\<rparr>"

lemma field_JObj [simp]: "field (JObj es) k read = Option.bind (map_of es k) read"
  by (simp add: field_def)

lemma json_word_jnat [simp]: "json_word (jnat w) = Some w"
  by (simp add: jnat_def)

lemma dec_phase_str [simp]: "dec_phase (phase_str p) = Some p"
  by (cases p) (simp_all add: dec_phase_def)

lemma dec_acceptance_json [simp]: "dec_acceptance (acceptance_json a) = Some a"
  by (cases a) (simp_all add: dec_acceptance_def)

lemma dec_limits_json [simp]: "dec_limits (limits_json l) = Some l"
  by (simp add: dec_limits_def limits_json_def)

lemma dec_reason_json [simp]: "dec_reason (block_reason_json r) = Some r"
  by (simp add: dec_reason_def block_reason_json_def)

lemma gdemo_codec: "goal_codec gdemo_env"
proof -
  have "dec_state (goal_json s) = Some s" for s
    by (cases "g_blocked_reason s"; cases "g_last_result s") (simp_all add: dec_state_def goal_json_def)
  then show ?thesis by (simp add: goal_codec_def gdemo_env_def gdemo_dec_def)
qed

definition gdemo_io :: goal_io where
  "gdemo_io = \<lparr>gio_now = 1000, gio_append = AppendOk\<rparr>"

definition gdemo_goal :: goal_state where
  "gdemo_goal = new_goal ''goal-u1'' ''ship it'' (AccFileContains ''out.txt'' ''done'')
     goal_limits_default 1000"

definition gdemo_sys :: goal_sys where
  "gdemo_sys = \<lparr>gs_active = Some ''s1'',
     gs_log = [(''goal/change'', snapshot_payload ''create'' gdemo_goal)],
     gs_pending = None, gs_armed = None\<rparr>"

definition gdemo_armed :: goal_sys where
  "gdemo_armed = gdemo_sys\<lparr>gs_armed := Some ''s1''\<rparr>"

lemmas trim_eval = trim_def trim_start_def trim_end_def trim_by.simps ws_prefix_def whitespace_def

lemma gdemo_goal_fields [simp]:
  "g_id gdemo_goal = ''goal-u1''" "g_phase gdemo_goal = GActive" "g_revision gdemo_goal = 1"
  "g_rounds_started gdemo_goal = 0" "g_objective gdemo_goal = ''ship it''"
  "g_acceptance gdemo_goal = AccFileContains ''out.txt'' ''done''"
  "g_created_at gdemo_goal = 1000" "g_updated_at gdemo_goal = 1000"
  "g_blocked_reason gdemo_goal = None" "g_last_result gdemo_goal = None"
  by (simp_all add: gdemo_goal_def new_goal_def trim_eval)

lemma gdemo_objective: "validate_objective ''ship it'' = Inr ()"
  by (simp add: validate_objective_def max_objective_bytes_def trim_eval byte_def)

lemma gdemo_acceptance: "validate_acceptance (AccFileContains ''out.txt'' ''done'') = Inr ()"
  by (simp add: validate_relative_path_def path_is_absolute_def path_all_normal_def byte_def)

lemma gdemo_uuid [simp]: "g_uuid_ok gdemo_env s \<longleftrightarrow> s = ''u1'' \<or> s = ''u2''"
  by (simp add: gdemo_env_def)

lemma gdemo_valid: "validate_state gdemo_env gdemo_goal = Inr ()"
  by (simp add: validate_state_def gdemo_objective gdemo_acceptance valid_goal_id_def
      del: validate_acceptance.simps)

lemma gdemo_replay: "goal_replay gdemo_env (gs_log gdemo_sys) = Inr (Some gdemo_goal)"
  by (simp add: gdemo_sys_def fold_snapshot[OF gdemo_codec] snapshot_operations_def gdemo_valid
      validate_transition_def validate_create_def)

lemma gdemo_reach: "goal_reach gdemo_env gdemo_sys"
proof -
  have "gdemo_sys = session_boundary (\<lparr>gs_active = None, gs_log = [], gs_pending = None,
      gs_armed = None\<rparr>\<lparr>gs_active := gs_active gdemo_sys, gs_log := gs_log gdemo_sys\<rparr>)"
    by (simp add: gdemo_sys_def session_boundary_def)
  then show ?thesis
    using goal_reach.switch[OF goal_reach.start gdemo_replay, of "gs_active gdemo_sys"] by metis
qed

lemma gdemo_active [simp]: "gs_active gdemo_sys = Some ''s1''" "gs_active gdemo_armed = Some ''s1''"
  by (simp_all add: gdemo_sys_def gdemo_armed_def)

lemma gdemo_armed_bits [simp]: "\<not> is_armed gdemo_sys" "is_armed gdemo_armed"
    "gs_log gdemo_armed = gs_log gdemo_sys"
  by (simp_all add: is_armed_def gdemo_armed_def gdemo_sys_def)

lemma gdemo_current:
  "goal_current gdemo_env gdemo_sys = Inr (Some \<lparr>gv_state = gdemo_goal, gv_armed = False\<rparr>)"
  "goal_current gdemo_env gdemo_armed = Inr (Some \<lparr>gv_state = gdemo_goal, gv_armed = True\<rparr>)"
  using current_active[OF gdemo_codec gdemo_active(1) gdemo_replay]
    current_active[OF gdemo_codec gdemo_active(2)] gdemo_replay
  by simp_all

lemma gdemo_arm:
  "run_goal gdemo_env (GcArm 1) gdemo_sys
    = (gdemo_armed, Inr (Some \<lparr>gv_state = gdemo_goal, gv_armed = True\<rparr>))"
  by (simp add: goal_arm_def as_view_def current_goal_def gdemo_current require_revision_def
      set_armed_def gdemo_armed_def)

lemma gdemo_armed_reach: "goal_reach gdemo_env gdemo_armed"
  using goal_reach.call[OF gdemo_reach, of "GcArm 1"] unfolding gdemo_arm by simp

section \<open>Properties\<close>



text \<open>
  A call shows what it wrote: the goal a successful call answers with, its activation
  included, is the one the next read returns, whether it lives in a journal or is pending.
\<close>

theorem goal_call_visible:
  assumes "goal_codec E" and "goal_reach E s" and "call_ok E c s"
    and "run_goal E c s = (s', Inr (Some v))"
  shows "goal_current E s' = Inr (Some v)"
  using call_step[OF assms(1) goal_reach_ok[OF assms(1,2)] assms(3)] assms(4)
  by (simp add: call_fine_def)

theorem goal_call_visible_witness:
  "goal_current gdemo_env gdemo_armed = Inr (Some \<lparr>gv_state = gdemo_goal, gv_armed = True\<rparr>)"
  by (rule goal_call_visible[OF gdemo_codec gdemo_reach _ gdemo_arm]) simp

text \<open>
  An update of the goal is never lost: of two writes made at the same revision only the
  first succeeds.
\<close>

lemma gdemo_pause_commit: "\<exists>t. goal_commit gdemo_env 1 (gdemo_io, WgPause) gdemo_sys = Inr t"
proof -
  have "validate_state gdemo_env (mutated (gdemo_goal\<lparr>g_phase := GPaused, g_blocked_reason := None\<rparr>) 2 1000)
      = Inr ()"
    by (simp add: validate_state_def gdemo_objective gdemo_acceptance valid_goal_id_def mutated_def
        del: validate_acceptance.simps)
  then show ?thesis
    by (simp add: goal_commit_def goal_pause_def as_view_def goal_transition_def current_goal_def
        gdemo_current require_revision_def pause_mutation_def checked_add_def publish_def
        record_goal_change_def validate_snapshot[OF gdemo_codec operations_known(1)] gdemo_io_def
        mutated_def)
qed

theorem goal_writes_never_lost:
  assumes "goal_codec E" and "goal_reach E s" and "goal_commit E v w s = Inr t"
  shows "\<exists>e. goal_commit E v w' t = Inl e"
  using assms(1) goal_reach_ok[OF assms(1,2)] assms(3) by (intro goal_cas.no_lost_update) auto

theorem goal_writes_never_lost_witness:
  "\<exists>t e. goal_commit gdemo_env 1 (gdemo_io, WgPause) gdemo_sys = Inr t
     \<and> goal_commit gdemo_env 1 (gdemo_io, WgComplete ''done'') t = Inl e"
  using gdemo_pause_commit goal_writes_never_lost[OF gdemo_codec gdemo_reach] by blast

text \<open>The phases a call other than a human completion can leave the goal in.\<close>

definition completes_only_if ::
  "'p goal_env \<Rightarrow> bool \<Rightarrow> goal_sys \<Rightarrow> goal_sys \<Rightarrow> bool" where
  "completes_only_if E allowed s s' \<longleftrightarrow> (\<forall>v v'. goal_current E s = Inr (Some v) \<longrightarrow>
     goal_current E s' = Inr (Some v') \<longrightarrow> g_phase (gv_state v) \<noteq> GComplete \<longrightarrow>
     g_phase (gv_state v') = GComplete \<longrightarrow>
     allowed \<and> verify_acceptance E (g_acceptance (gv_state v)) = Inr ())"

lemma completes_refl [simp]: "completes_only_if E b s s"
  by (auto simp: completes_only_if_def)

lemma completes_current_eq:
  "map_option gv_state (case goal_current E s' of Inl _ \<Rightarrow> None | Inr c \<Rightarrow> c)
     = map_option gv_state (case goal_current E s of Inl _ \<Rightarrow> None | Inr c \<Rightarrow> c) \<Longrightarrow>
   completes_only_if E b s s'"
  by (auto simp: completes_only_if_def)

lemma completes_armed: "completes_only_if E b s (s\<lparr>gs_armed := x\<rparr>)"
  by (auto simp: completes_only_if_def goal_current_def goal_state_json_def split: option.splits)

lemma transition_completes:
  assumes "goal_codec E" and "goal_sys_ok E s" and "op \<in> set snapshot_operations"
    and "mutation_accepted E op m"
    and phase: "\<And>st st' keep. m st = Inr (st', keep) \<Longrightarrow> g_phase st \<noteq> GComplete \<Longrightarrow>
      g_phase st' = GComplete \<Longrightarrow> b \<and> verify_acceptance E (g_acceptance st) = Inr ()"
  shows "completes_only_if E b s (fst (goal_transition E io v op m s))"
proof -
  obtain s' r where run: "goal_transition E io v op m s = (s', r)"
    by (cases "goal_transition E io v op m s")
  from assms(1-4) run show ?thesis
  proof (cases rule: transition_step)
    case (refused e)
    then show ?thesis by (simp add: run)
  next
    case (written w st keep rev a)
    then show ?thesis using phase[OF written(3)]
      by (simp add: run completes_only_if_def mutated_def)
  qed
qed

lemma create_completes:
  assumes "goal_codec E" and "goal_sys_ok E s" and "fresh_goal E io i s"
    and "\<forall>e\<in>set tail. neutral_event E e"
  shows "completes_only_if E b s
    (fst (create_named E io objective acceptance limits arm i tail s))"
proof -
  obtain s' r where run: "create_named E io objective acceptance limits arm i tail s = (s', r)"
    by (cases "create_named E io objective acceptance limits arm i tail s")
  from assms run show ?thesis
  proof (cases rule: create_step)
    case (refused e)
    then show ?thesis by (simp add: run)
  next
    case (written a)
    then show ?thesis by (simp add: run completes_only_if_def new_goal_def)
  qed
qed

lemma block_completes:
  assumes "goal_codec E" and "goal_sys_ok E s"
  shows "completes_only_if E b s (fst (goal_block E io v code message s))"
  using assms
  by (auto simp: goal_block_def block_mutation_def operations_known mutations_accepted
      intro!: transition_completes split: sum.splits prod.splits)

lemma verified_completes:
  assumes "goal_codec E" and "goal_sys_ok E s"
  shows "completes_only_if E True s (fst (goal_complete E io v summary False s))"
  using assms
  by (auto simp: goal_complete_def operations_known mutations_accepted complete_mutation_def
      intro!: transition_completes split: sum.splits)

lemma candidate_completes:
  assumes "goal_codec E" and "goal_sys_ok E s"
  shows "completes_only_if E True s (fst (complete_candidate E io v summary s))"
proof -
  have "completes_only_if E True s (fst (case goal_transition E io v ''progress'' (failure_mutation err) s of
      (s1, Inl e) \<Rightarrow> (s1, Inl e) | (s1, Inr recorded) \<Rightarrow> (s1, Inl (f recorded))))" for err f
  proof -
    have "completes_only_if E True s (fst (goal_transition E io v ''progress'' (failure_mutation err) s))"
      by (rule transition_completes[OF assms operations_known(3) mutations_accepted(5)])
        (auto simp: failure_mutation_def)
    then show ?thesis by (auto split: prod.splits sum.splits)
  qed
  then show ?thesis
    using block_completes[OF assms] verified_completes[OF assms]
    by (auto simp: complete_candidate_def split: sum.splits)
qed

text \<open>
  C8: Completion needs authority: when any call but the human completion takes a goal that is
  not complete to complete, the goal's verifier accepted at that moment (for a file condition
  the file was found inside the project and, if asked, holds the text), and the call was a
  completion candidate. In particular a goal whose acceptance is the user is never completed
  by the model.
\<close>

theorem goal_completion_authorised:
  assumes "goal_codec E" and "goal_reach E s" and "call_ok E c s"
    and "\<nexists>io v r. c = GcComplete io v r" and "run_goal E c s = (s', r)"
    and "goal_current E s = Inr (Some v)" and "g_phase (gv_state v) \<noteq> GComplete"
    and "goal_current E s' = Inr (Some v')" and "g_phase (gv_state v') = GComplete"
  shows "(\<exists>io n r. c = GcCandidate io n r)
    \<and> verify_acceptance E (g_acceptance (gv_state v)) = Inr () \<and> g_acceptance (gv_state v) \<noteq> AccUser"
proof -
  note ok = goal_reach_ok[OF assms(1,2)]
  note rest = operations_known mutations_accepted pause_mutation_def resume_mutation_def
    progress_mutation_def
  have "completes_only_if E (\<exists>io n r. c = GcCandidate io n r) s (fst (run_goal E c s))"
  proof (cases c)
    case (GcCreate io fresh objective acceptance limits arm)
    with assms(1,3) ok show ?thesis
      by (simp add: goal_create_def as_view_def create_completes)
  next
    case (GcCreatePlan io objective i tail)
    with assms(1,3) ok show ?thesis
      by (simp add: create_for_plan_def as_view_def create_completes)
  next
    case (GcArm n)
    then have "fst (run_goal E c s) = s \<or> (\<exists>x. fst (run_goal E c s) = s\<lparr>gs_armed := x\<rparr>)"
      by (auto simp: as_view_def goal_arm_def set_armed_def split: sum.splits option.splits)
    then show ?thesis by (auto simp: completes_armed simp del: run_goal.simps)
  next
    case (GcClear io n)
    obtain s1 r1 where run: "goal_clear E io n s = (s1, r1)" by (cases "goal_clear E io n s")
    from clear_step[OF assms(1) ok run] show ?thesis
      using GcClear run by cases (auto simp: no_view_def completes_only_if_def)
  next
    case (GcFinishRound io tokens elapsed suc canc result)
    obtain s1 r1 where run: "finish_round E io tokens elapsed suc canc result s = (s1, r1)"
      by (cases "finish_round E io tokens elapsed suc canc result s")
    from finish_step[OF assms(1) ok run] show ?thesis
      using GcFinishRound run
      by cases (auto simp: no_view_def completes_only_if_def mutated_def
          intro: completes_current_eq[unfolded completes_only_if_def, rule_format])
  next
    case GcDisarm
    then show ?thesis by (simp add: disarm_def completes_armed)
  qed (use assms(1,4) ok in \<open>auto simp: as_view_def goal_pause_def goal_resume_def
      update_progress_def rest block_completes candidate_completes intro!: transition_completes\<close>)
  with assms(5-9) show ?thesis
    unfolding completes_only_if_def by (cases "g_acceptance (gv_state v)") auto
qed

lemma gdemo_verified: "verify_acceptance gdemo_env (AccFileContains ''out.txt'' ''done'') = Inr ()"
  by (simp add: resolve_acceptance_file_def gdemo_env_def path_is_absolute_def
      max_acceptance_file_bytes_def)

lemma gdemo_done: "normalize_result ''done'' = Inr ''done''"
  by (simp add: normalize_result_def truncate_utf8_def max_result_bytes_def trim_eval)

lemma gdemo_candidate:
  "\<exists>s' v. run_goal gdemo_env (GcCandidate gdemo_io 1 ''done'') gdemo_sys = (s', Inr (Some v))
     \<and> g_phase (gv_state v) = GComplete"
proof -
  have "validate_state gdemo_env (mutated (gdemo_goal\<lparr>g_phase := GComplete, g_blocked_reason := None,
      g_last_result := Some ''done''\<rparr>) 2 1000) = Inr ()"
    by (simp add: validate_state_def gdemo_objective gdemo_acceptance valid_goal_id_def mutated_def
        gdemo_done del: validate_acceptance.simps)
  then show ?thesis
    by (simp add: complete_candidate_def goal_complete_def as_view_def goal_transition_def
        current_goal_def gdemo_current require_revision_def complete_mutation_def checked_add_def
        publish_def record_goal_change_def validate_snapshot[OF gdemo_codec operations_known(5)]
        gdemo_io_def mutated_def gdemo_done gdemo_verified del: verify_acceptance.simps)
qed

theorem goal_completion_authorised_witness:
  "verify_acceptance gdemo_env (g_acceptance gdemo_goal) = Inr ()"
proof -
  obtain s' v where run: "run_goal gdemo_env (GcCandidate gdemo_io 1 ''done'') gdemo_sys
      = (s', Inr (Some v))" and c: "g_phase (gv_state v) = GComplete"
    using gdemo_candidate by blast
  have "goal_current gdemo_env s' = Inr (Some v)"
    using call_step[OF gdemo_codec goal_reach_ok[OF gdemo_codec gdemo_reach],
        of "GcCandidate gdemo_io 1 ''done''"] unfolding run by (simp add: call_fine_def)
  from goal_completion_authorised[OF gdemo_codec gdemo_reach _ _ run gdemo_current(1) _ this c]
  show ?thesis by simp
qed

lemma record_keeps:
  "record_goal_change E io data tail s = (s', r) \<Longrightarrow>
   gs_active s' = gs_active s \<and> gs_armed s' = gs_armed s"
  by (auto simp: record_goal_change_def Let_def split: sum.splits option.splits append_outcome.splits if_splits)

lemma publish_arms:
  "is_armed (fst (publish E io op st tail armed s)) \<Longrightarrow> armed \<or> is_armed s"
  by (auto simp: publish_def is_armed_def set_armed_def split: option.splits prod.splits sum.splits
      if_splits dest!: record_keeps)

lemma current_armed: "goal_current E s = Inr (Some v) \<Longrightarrow> gv_armed v = is_armed s"
  by (auto simp: goal_current_def)

lemma transition_arms:
  "is_armed (fst (goal_transition E io v op m s)) \<Longrightarrow> is_armed s"
  by (auto simp: goal_transition_def current_goal_def current_armed split: sum.splits prod.splits
      dest!: publish_arms)

lemma create_arms:
  "is_armed (fst (create_named E io ob acc l arm i tail s)) \<Longrightarrow> arm \<or> is_armed s"
  by (auto simp: create_named_def split: sum.splits dest!: publish_arms)

lemma block_arms: "is_armed (fst (goal_block E io v code m s)) \<Longrightarrow> is_armed s"
  by (auto simp: goal_block_def split: sum.splits prod.splits dest!: transition_arms)

lemma complete_arms: "is_armed (fst (goal_complete E io v r h s)) \<Longrightarrow> is_armed s"
  by (auto simp: goal_complete_def split: sum.splits dest!: transition_arms)

lemma candidate_arms: "is_armed (fst (complete_candidate E io v r s)) \<Longrightarrow> is_armed s"
proof -
  have "is_armed (fst (case goal_transition E io v op m s of
      (s1, Inl e) \<Rightarrow> (s1, Inl e) | (s1, Inr recorded) \<Rightarrow> (s1, Inl (f recorded)))) \<Longrightarrow> is_armed s"
    for op m f
    using transition_arms[of E io v op m s] by (auto split: prod.splits sum.splits)
  then show "is_armed (fst (complete_candidate E io v r s)) \<Longrightarrow> is_armed s"
    by (auto simp: complete_candidate_def dest: block_arms complete_arms split: sum.splits if_splits)
qed

lemma clear_arms: "is_armed (fst (goal_clear E io v s)) \<Longrightarrow> is_armed s"
  by (auto simp: goal_clear_def disarm_def is_armed_def split: sum.splits option.splits prod.splits
      dest!: record_keeps)

lemma finish_arms: "is_armed (fst (finish_round E io tokens elapsed suc canc result s)) \<Longrightarrow> is_armed s"
  by (auto simp: finish_round_def Let_def disarm_def set_armed_def is_armed_def
      split: sum.splits option.splits prod.splits if_splits
      dest!: record_keeps current_armed)

text \<open>
  Continuation is never armed by accident: a call after which the goal is armed, and was
  not before, is \<open>arm\<close> or a creation that asks for it. Resuming, progress, a finished round
  and every other call at most keep an activation.
\<close>

theorem goal_arming_explicit:
  assumes "run_goal E c s = (s', r)" and "is_armed s'" and "\<not> is_armed s"
  shows "(\<exists>v. c = GcArm v) \<or> (\<exists>io fresh ob acc l. c = GcCreate io fresh ob acc l True)"
proof -
  from assms(1,2) have *: "is_armed (fst (run_goal E c s))" by simp
  show ?thesis
  proof (cases c)
    case (GcCreate io fresh ob acc l arm)
    with * assms(3) create_arms[of E io ob acc l arm] show ?thesis
      by (auto simp: as_view_def goal_create_def)
  next
    case (GcCreatePlan io ob i tail)
    with * assms(3) show ?thesis
      by (auto simp: as_view_def create_for_plan_def split: if_splits dest: create_arms)
  qed (use * assms(3) in \<open>auto simp: as_view_def no_view_def goal_pause_def goal_resume_def
      update_progress_def complete_human_def disarm_def is_armed_def[of "_\<lparr>gs_armed := None\<rparr>"]
      split: option.splits
      dest: transition_arms block_arms complete_arms candidate_arms clear_arms finish_arms\<close>)
qed

theorem goal_arming_explicit_witness:
  "is_armed (fst (run_goal gdemo_env (GcArm 1) gdemo_sys)) \<and> \<not> is_armed gdemo_sys
     \<and> ((\<exists>v. GcArm 1 = GcArm v) \<or> (\<exists>io fresh ob acc l. GcArm 1 = GcCreate io fresh ob acc l True))"
  using goal_arming_explicit[OF gdemo_arm gdemo_armed_bits(2,1)]
  unfolding gdemo_arm by simp

definition same_goal_later :: "goal_state \<Rightarrow> goal_state \<Rightarrow> bool" where
  "same_goal_later p n \<longleftrightarrow> g_id n = g_id p \<and> g_objective n = g_objective p
     \<and> g_acceptance n = g_acceptance p \<and> g_limits n = g_limits p
     \<and> g_created_at n = g_created_at p \<and> g_updated_at p \<le> g_updated_at n
     \<and> g_revision p \<le> g_revision n \<and> g_rounds_started p \<le> g_rounds_started n
     \<and> g_tokens_used p \<le> g_tokens_used n \<and> g_elapsed_ms p \<le> g_elapsed_ms n
     \<and> g_failures p \<le> g_failures n
     \<and> (g_phase p = GComplete \<longrightarrow> g_phase n = GComplete)"

lemma round_increases:
  assumes "r = ucast (n :: u32) + (1 :: u64)" and "r \<le> 4294967295"
  shows "n \<le> ucast r"
proof -
  have n: "unat (ucast n :: u64) = unat n" using unat_u32[of n] by (simp add: unat_ucast_mod)
  then have "unat r = unat n + 1"
    using unat_add_exact[of "ucast n :: u64" 1] unat_u32[of n] assms(1) by simp
  moreover have "unat r \<le> 4294967295" using assms(2) by (simp add: word_le_nat_alt)
  ultimately show ?thesis by (simp add: word_le_nat_alt unat_ucast_mod)
qed

lemma transition_later:
  assumes "validate_transition (Some p) n op = Inr ()" and "op \<noteq> ''create''"
  shows "same_goal_later p n"
  using assms
  by (auto simp: validate_transition_def same_goal_later_def immutable_kept_def not_less
      valid_phase_change_def dest: word_checked_succ split: if_splits)

text \<open>
  What one journal event can do to the goal: it leaves it, clears it, replaces a completed
  goal by a fresh active one at revision one, or keeps its identity, objective, acceptance,
  limits and creation time while revision, rounds, tokens, time and failures never decrease and
  a completed goal stays completed.
\<close>

theorem goal_event_effect:
  assumes "fold_goal_event E (Some p) ev = Inr (Some n)"
  shows "same_goal_later p n
    \<or> g_phase p = GComplete \<and> g_id n \<noteq> g_id p \<and> g_phase n = GActive \<and> g_revision n = 1
       \<and> g_rounds_started n = 0"
  using assms
proof (cases rule: fold_goal_cases)
  case same
  then show ?thesis by (simp add: same_goal_later_def)
next
  case (round st r)
  then show ?thesis by (simp add: same_goal_later_def round_increases)
next
  case (change op st)
  show ?thesis
  proof (cases "op = ''create''")
    case True
    with change show ?thesis by (auto simp: validate_transition_def validate_create_def)
  next
    case False
    with change show ?thesis by (auto dest: transition_later)
  qed
qed simp

theorem goal_event_effect_witness:
  "same_goal_later gdemo_goal (gdemo_goal\<lparr>g_rounds_started := 1\<rparr>)"
proof -
  have "fold_goal_event gdemo_env (Some gdemo_goal)
      (''user/message'', JObj [(''source'', round_source gdemo_goal 1)])
    = Inr (Some (gdemo_goal\<lparr>g_rounds_started := 1\<rparr>))"
    by (rule round_folds) (simp_all add: checked_add_def)
  from goal_event_effect[OF this] show ?thesis by simp
qed

text \<open>
  A goal round is counted exactly once: the message a reserved round puts into the journal
  is accepted and raises the round counter by one, and the same message a second time is
  refused.
\<close>

theorem goal_round_counted_once:
  assumes "goal_codec E" and "goal_reach E s" and "gs_active s = Some sid"
    and "next_round E fresh s = Inr r"
    and "json_index m ''source'' = json_index (gr_message r) ''source''"
  shows "\<exists>st n. goal_replay E (gs_log s) = Inr (Some st)
    \<and> unat n = unat (g_rounds_started st) + 1
    \<and> goal_replay E (gs_log s @ [(''user/message'', m)]) = Inr (Some (st\<lparr>g_rounds_started := n\<rparr>))
    \<and> (\<exists>e. goal_replay E (gs_log s @ [(''user/message'', m), (''user/message'', m)]) = Inl e)"
proof -
  from goal_reach_ok[OF assms(1,2)] assms(3) obtain g where g: "goal_replay E (gs_log s) = Inr g"
    by (auto simp: goal_sys_ok_def)
  from assms(4) obtain v n where v: "goal_current E s = Inr (Some v)"
    "g_phase (gv_state v) = GActive" "checked_add (g_rounds_started (gv_state v)) 1 = Some n"
    "json_index (gr_message r) ''source'' = round_source (gv_state v) n"
    by (rule next_round_Inr) (simp add: round_source_def)
  have gv: "g = Some (gv_state v)" using current_active[OF assms(1,3) g] v(1) by (cases g) auto
  have src: "json_index m ''source'' = round_source (gv_state v) n" using v(4) assms(5) by simp
  from round_folds[OF src v(2,3), of E] round_counted_once[OF src v(2,3), of E] g gv v(3)
  show ?thesis
    by (intro exI[of _ "gv_state v"] exI[of _ n]) (auto simp: replay_append checked_add_Some_iff)
qed

lemma gdemo_round: "\<exists>r. next_round gdemo_env ''m1'' gdemo_armed = Inr r"
  by (simp add: next_round_def current_goal_def gdemo_current checked_add_def Let_def)

theorem goal_round_counted_once_witness:
  "\<exists>r e. next_round gdemo_env ''m1'' gdemo_armed = Inr r
     \<and> goal_replay gdemo_env (gs_log gdemo_armed @
          [(''user/message'', gr_message r), (''user/message'', gr_message r)]) = Inl e"
  using gdemo_round
    goal_round_counted_once[OF gdemo_codec gdemo_armed_reach gdemo_active(2) _ refl, of "''m1''"]
  by blast

section \<open>Texts\<close>

lemma split_once_skip:
  assumes "d \<noteq> []" and "hd d \<notin> set a"
  shows "split_once d (a @ t) = map_option (\<lambda>(x, y). (a @ x, y)) (split_once d t)"
  using assms(2)
proof (induction a)
  case Nil
  then show ?case by (cases "split_once d t") auto
next
  case (Cons x xs)
  then have "\<not> starts_with d ((x # xs) @ t)" using assms(1) by (cases d) auto
  with Cons show ?case by (cases "split_once d t") (auto split: prod.splits)
qed

lemma split_once_here: "d \<noteq> [] \<Longrightarrow> split_once d (d @ b) = Some ([], b)"
  by (cases d) (auto simp: starts_with_iff)

lemma show_nat_no_newline: "CHR 0x0A \<notin> set (show_nat n)"
proof (induction n rule: show_nat.induct)
  case (1 n)
  have "CHR 0x0A \<noteq> char_of (48 + k)" if "k < 10" for k :: nat
  proof
    assume "CHR 0x0A = char_of (48 + k)"
    from this[symmetric] have "of_char (char_of (48 + k) :: char) = (10 :: nat)" by simp
    with that show False by simp
  qed
  with 1 show ?case by (simp add: show_nat.simps[of n])
qed

lemma prompt_splits:
  assumes "CHR 0x0A \<notin> set (g_id st)"
  shows "\<exists>a. split_once objective_open (drop (length round_open) (render_round_prompt st n))
    = Some (a, g_objective st @ round_tail)"
proof -
  let ?A = "''<goal_id>'' @ g_id st @ ''</goal_id>''"
  let ?B = "''<revision>'' @ show_nat (unat (g_revision st)) @ ''</revision>''"
  let ?C = "''<round>'' @ show_nat (unat n) @ ''</round>''"
  let ?rest = "g_objective st @ round_tail"
  have d: "objective_open \<noteq> []" "hd objective_open = CHR 0x0A"
    by (simp_all add: objective_open_def newline_def)
  have clean: "hd objective_open \<notin> set ?A" "hd objective_open \<notin> set ?B" "hd objective_open \<notin> set ?C"
    using assms d show_nat_no_newline by simp_all
  note skip = split_once_skip[OF d(1)]
  have C: "split_once objective_open (?C @ objective_open @ ?rest) = Some (?C, ?rest)"
    using skip[OF clean(3)] split_once_here[OF d(1), of ?rest] by simp
  have line: "split_once objective_open (newline @ CHR ''<'' # CHR ''r'' # t)
      = map_option (\<lambda>(x, y). (newline @ x, y)) (split_once objective_open (CHR ''<'' # CHR ''r'' # t))" for t
    by (simp add: objective_open_def newline_def split: option.splits)
  have B: "\<exists>a. split_once objective_open (?B @ newline @ ?C @ objective_open @ ?rest) = Some (a, ?rest)"
    using skip[OF clean(2)] line C by auto
  have "\<exists>a. split_once objective_open (?A @ newline @ ?B @ newline @ ?C @ objective_open @ ?rest)
      = Some (a, ?rest)"
    using skip[OF clean(1)] line B by auto
  moreover have "drop (length round_open) (render_round_prompt st n)
      = ?A @ newline @ ?B @ newline @ ?C @ objective_open @ ?rest"
    by (simp add: render_round_prompt_def)
  ultimately show ?thesis by simp
qed

lemma strip_prefix_append: "strip_prefix p (p @ s) = Some s"
  by (auto simp: strip_prefix_def starts_with_iff)

lemma strip_suffix_append: "strip_suffix p (s @ p) = Some s"
  by (auto simp: strip_suffix_def ends_with_iff)

text \<open>
  A transcript shows what was asked: the display of a recorded first round is the goal's
  objective, unwrapped from the prompt exactly, and every later round is shown as a
  continuation.
\<close>

theorem goal_round_display_roundtrip:
  assumes "next_round E fresh s = Inr r"
    and "\<forall>v. goal_current E s = Inr (Some v) \<longrightarrow> CHR 0x0A \<notin> set (g_id (gv_state v))"
  shows "goal_round_display (gr_message r) = Some (case gr_display_text r of
      Some objective \<Rightarrow> RdInitial objective | None \<Rightarrow> RdContinuation)"
proof -
  from assms(1) obtain v n where v: "goal_current E s = Inr (Some v)"
    "checked_add (g_rounds_started (gv_state v)) 1 = Some n"
    "gr_prompt r = render_round_prompt (gv_state v) n"
    "gr_display_text r = (if n = 1 then Some (g_objective (gv_state v)) else None)"
    "gr_message r = json_set (user_message fresh (gr_prompt r)) ''source'' (JObj [(''kind'', JStr ''goal''),
       (''goalId'', JStr (g_id (gv_state v))), (''revision'', jnat (g_revision (gv_state v))),
       (''round'', jnat n)])"
    by (rule next_round_Inr) blast
  obtain a where a: "split_once objective_open (drop (length round_open) (gr_prompt r))
      = Some (a, g_objective (gv_state v) @ round_tail)"
    using prompt_splits[of "gv_state v" n] assms(2) v(1,3) by auto
  have pre: "strip_prefix round_open (gr_prompt r) = Some (drop (length round_open) (gr_prompt r))"
    by (simp add: strip_prefix_def v(3) render_round_prompt_def starts_with_iff)
  have n: "unat n = unat (g_rounds_started (gv_state v)) + 1"
    using v(2) by (simp add: checked_add_Some_iff)
  let ?k = "ucast (g_rounds_started (gv_state v)) + 1 :: u64"
  have k: "unat ?k = unat n"
    using n unat_u32[of n] unat_u32[of "g_rounds_started (gv_state v)"]
      unat_add_exact[of "ucast (g_rounds_started (gv_state v)) :: u64" 1]
    by (simp add: unat_ucast_mod)
  have first: "1 < ?k \<longleftrightarrow> n \<noteq> 1"
  proof -
    have "1 < ?k \<longleftrightarrow> 1 < unat n" using k by (simp only: word_less_nat_alt unat_1)
    also have "\<dots> \<longleftrightarrow> unat n \<noteq> 1" using n by simp
    also have "\<dots> \<longleftrightarrow> n \<noteq> 1" using unat_eqI[of n 1] by auto
    finally show ?thesis .
  qed
  show ?thesis
  proof (cases "n = 1")
    case True
    with first round_counter(1)[OF v(2)] a pre v(4,5) show ?thesis
      by (simp add: goal_round_display_def Let_def strip_suffix_append)
  next
    case False
    with first round_counter(1)[OF v(2)] v(4,5) show ?thesis
      by (simp add: goal_round_display_def Let_def)
  qed
qed

theorem goal_round_display_roundtrip_witness:
  "\<exists>r. next_round gdemo_env ''m1'' gdemo_armed = Inr r
     \<and> goal_round_display (gr_message r) = Some (RdInitial ''ship it'')"
proof -
  obtain r where r: "next_round gdemo_env ''m1'' gdemo_armed = Inr r" using gdemo_round by blast
  then have "gr_display_text r = Some ''ship it''"
    by (auto simp: next_round_def current_goal_def gdemo_current checked_add_def Let_def)
  with goal_round_display_roundtrip[OF r] r gdemo_current(2) show ?thesis by auto
qed

lemma boundary_below_greatest:
  "k \<le> n \<Longrightarrow> is_char_boundary s k \<Longrightarrow> k \<le> boundary_below s n"
  by (induction n) (auto simp: le_Suc_eq)

text \<open>
  Truncation to a byte limit keeps a prefix that ends at a character boundary, is within
  the limit, and is the longest such prefix.
\<close>

theorem truncate_utf8_longest:
  "length (truncate_utf8 v n) \<le> n \<and> (\<exists>rest. v = truncate_utf8 v n @ rest)
   \<and> is_char_boundary v (length (truncate_utf8 v n))
   \<and> (\<forall>k\<le>length v. k \<le> n \<longrightarrow> is_char_boundary v k \<longrightarrow> k \<le> length (truncate_utf8 v n))"
proof (cases "length v \<le> n")
  case True
  then show ?thesis by (simp add: truncate_utf8_def is_char_boundary_def)
next
  case False
  let ?b = "boundary_below v n"
  have b: "?b \<le> n" by (rule boundary_below_le)
  then have len: "length (take ?b v) = ?b" using False by simp
  moreover have "v = take ?b v @ drop ?b v" by simp
  ultimately show ?thesis
    using False b boundary_below_boundary[of v n] boundary_below_greatest[of _ n v]
    by (auto simp: truncate_utf8_def simp del: append_take_drop_id)
qed

theorem truncate_utf8_longest_witness:
  "truncate_utf8 [CHR ''a'', CHR 0xC3, CHR 0xA9] 2 = ''a''
   \<and> length (truncate_utf8 [CHR ''a'', CHR 0xC3, CHR 0xA9] 2) \<le> 2"
  using truncate_utf8_longest[of "[CHR ''a'', CHR 0xC3, CHR 0xA9]" 2]
  by (simp add: truncate_utf8_def is_char_boundary_def is_continuation_def byte_def
      numeral_2_eq_2)

section \<open>Two defects\<close>

text \<open>
  A text of 16385 bytes whose byte 16384 is a space: trimming leaves it, cutting at 16384 bytes
  makes the space the last byte, and the result is not in normal form.
\<close>

definition long_result :: string where
  "long_result = replicate 16383 (CHR ''a'') @ '' b''"

lemma boundary_below_here:
  "0 < n \<Longrightarrow> is_char_boundary s n \<Longrightarrow> boundary_below s n = n"
  by (cases n) simp_all

lemma ws_prefix_letter: "ws_prefix whitespace (CHR ''a'' # s) = 0"
    "ws_prefix (map rev whitespace) (CHR ''a'' # s) = 0"
    "ws_prefix (map rev whitespace) (CHR ''b'' # s) = 0"
    "ws_prefix (map rev whitespace) (CHR '' '' # s) = 1"
  by (simp_all add: ws_prefix_def whitespace_def)

lemma replicate_a: "replicate 16383 (CHR ''a'') = CHR ''a'' # replicate 16382 (CHR ''a'')"
proof -
  have "(16383 :: nat) = Suc 16382" by simp
  then show ?thesis by (metis replicate_Suc)
qed

lemma trim_long: "trim long_result = long_result"
proof -
  have "trim_start long_result = long_result"
    unfolding trim_start_def by (rule trim_by_fixed) (simp add: long_result_def replicate_a ws_prefix_letter)
  moreover have "trim_end long_result = long_result"
    unfolding trim_end_def by (simp add: long_result_def trim_by_fixed ws_prefix_letter)
  ultimately show ?thesis by (simp add: trim_def)
qed

lemma normalize_long:
  "normalize_result long_result = Inr (replicate 16383 (CHR ''a'') @ '' '')"
proof -
  have "is_char_boundary long_result 16384"
    by (simp add: is_char_boundary_def long_result_def nth_append is_continuation_def byte_def)
  then have "boundary_below long_result 16384 = 16384" by (simp add: boundary_below_here)
  then have "truncate_utf8 long_result max_result_bytes = replicate 16383 (CHR ''a'') @ '' ''"
    by (simp add: truncate_utf8_def max_result_bytes_def long_result_def)
  moreover have "long_result \<noteq> []" by (simp add: long_result_def)
  ultimately show ?thesis by (simp add: normalize_result_def trim_long)
qed

lemma normalize_cut:
  "normalize_result (replicate 16383 (CHR ''a'') @ '' '') = Inr (replicate 16383 (CHR ''a''))"
proof -
  let ?as = "replicate 16383 (CHR ''a'')"
  have "trim_start (?as @ '' '') = ?as @ '' ''"
    unfolding trim_start_def by (rule trim_by_fixed) (simp add: replicate_a ws_prefix_letter)
  moreover have "trim_by (map rev whitespace) (CHR '' '' # ?as) = ?as"
    by (subst trim_by.simps)
      (simp add: ws_prefix_letter, rule trim_by_fixed, simp add: replicate_a ws_prefix_letter)
  ultimately have "trim (?as @ '' '') = ?as" by (simp add: trim_def trim_end_def)
  moreover have "?as \<noteq> []" by simp
  ultimately show ?thesis
    by (simp add: normalize_result_def truncate_utf8_def max_result_bytes_def)
qed

lemma cut_not_canonical:
  assumes "g_last_result st = Some (replicate 16383 (CHR ''a'') @ '' '')"
  shows "\<exists>e. validate_state E st = Inl e"
proof -
  have "replicate 16383 (CHR ''a'') \<noteq> replicate 16383 (CHR ''a'') @ '' ''"
    by (rule notI, drule arg_cong[where f = length]) simp
  then have "validate_state E st \<noteq> Inr ()"
    using assms by (auto simp: validate_state_def normalize_cut)
  then show ?thesis using unit_result_cases[of "validate_state E st"] by simp
qed

lemma record_refused:
  assumes "goal_codec E" and "op \<in> set snapshot_operations"
    and "\<exists>e. validate_state E st = Inl e"
  shows "\<exists>e. record_goal_change E io (snapshot_payload op st) tail s = (s, Inl e)"
  using assms by (auto simp: record_goal_change_def validate_snapshot)

text \<open>
  A defect: the normal form of a result text is not stable, so a long result is refused.
  For every reachable state with an active goal in a session, a progress report, and the
  accounting of a finished round, whose text is cut right after a white-space byte fails
  and leaves no trace in the journal.
\<close>

theorem goal_long_result_refused:
  assumes "goal_codec E" and "gs_active s = Some sid"
    and "goal_current E s = Inr (Some v)" and "g_phase (gv_state v) = GActive"
  shows "(\<exists>e. update_progress E io (g_revision (gv_state v)) long_result s = (s, Inl e))
    \<and> (\<exists>e. finish_round E io tokens elapsed suc canc long_result s = (s, Inl e))"
proof -
  note op = operations_known(3)
  let ?cut = "replicate 16383 (CHR ''a'') @ '' ''"
  have refused: "\<exists>e. record_goal_change E io (snapshot_payload ''progress'' st) [] s = (s, Inl e)"
    if "g_last_result st = Some ?cut" for st
    using record_refused[OF assms(1) op cut_not_canonical[OF that]] by blast
  have "\<exists>e. update_progress E io (g_revision (gv_state v)) long_result s = (s, Inl e)"
  proof (cases "checked_add (g_revision (gv_state v)) 1")
    case None
    then show ?thesis
      by (simp add: update_progress_def goal_transition_def current_goal_def assms(3,4)
          require_revision_def progress_mutation_def normalize_long)
  next
    case (Some rev)
    obtain e where "record_goal_change E io (snapshot_payload ''progress''
        (gv_state v\<lparr>g_last_result := Some ?cut, g_revision := rev,
          g_updated_at := max (g_updated_at (gv_state v)) (gio_now io)\<rparr>)) [] s = (s, Inl e)"
      using refused[of "gv_state v\<lparr>g_last_result := Some ?cut, g_revision := rev,
          g_updated_at := max (g_updated_at (gv_state v)) (gio_now io)\<rparr>"] by auto
    then show ?thesis
      using Some by (simp add: update_progress_def goal_transition_def current_goal_def assms(2-4)
          require_revision_def progress_mutation_def normalize_long publish_def)
  qed
  moreover have "\<exists>e. finish_round E io tokens elapsed suc canc long_result s = (s, Inl e)"
  proof (cases "checked_add (g_revision (gv_state v)) 1")
    case None
    then show ?thesis by (simp add: finish_round_def assms(3) Let_def)
  next
    case (Some rev)
    have cut: "truncate_utf8 (trim long_result) max_result_bytes = ?cut" "trim long_result \<noteq> []"
      using normalize_long by (auto simp: normalize_result_def)
    let ?st = "round_accounting tokens elapsed suc canc long_result (gv_state v)"
    have last: "g_last_result (?st\<lparr>g_revision := rev,
        g_updated_at := max (g_updated_at (gv_state v)) (gio_now io)\<rparr>) = Some ?cut"
      by (simp add: round_accounting_def Let_def cut)
    from refused[OF last] Some show ?thesis
      by (auto simp: finish_round_def assms(3) Let_def)
  qed
  ultimately show ?thesis ..
qed

theorem goal_long_result_refused_witness:
  "\<exists>e. update_progress gdemo_env gdemo_io 1 long_result gdemo_sys = (gdemo_sys, Inl e)"
  using goal_long_result_refused[OF gdemo_codec gdemo_active(1) gdemo_current(1)] by simp

lemma commit_pending_revision:
  assumes "goal_codec E" and "goal_sys_ok E s" and "gs_active s = None"
    and "goal_commit E v w s = Inr t" and "gs_pending t = Some p"
  shows "g_revision p \<noteq> 1 \<and> gs_active t = None"
proof -
  obtain a where run: "run_goal E (write_call (fst w) v (snd w)) s = (t, Inr a)"
    using assms(4) by (auto simp: goal_commit_def split: prod.splits sum.splits)
  have "call_ok E (write_call (fst w) v (snd w)) s" by (cases "snd w") simp_all
  from call_step[OF assms(1,2) this] run assms(3) have act: "gs_active t = None"
    by (simp add: call_fine_def)
  from commit_moves[OF assms(1,2), of v "fst w" "snd w"] run
  have moves: "goal_revision E s = Some v" "\<forall>n. goal_revision E t = Some n \<longrightarrow> v < n"
    by (auto simp: write_moves_def)
  have "goal_revision E t = Some (g_revision p)"
    using act assms(5) by (simp add: goal_revision_def current_pending)
  with moves(2) have "v < g_revision p" by blast
  moreover have "v \<noteq> 0"
    using moves(1) current_valid_or_pending(1)[OF assms(1,2)]
    by (auto simp: goal_revision_def split: sum.splits option.splits)
  ultimately have "unat v < unat (g_revision p)" "0 < unat v"
    by (simp_all add: word_less_nat_alt unat_gt_0)
  with act show ?thesis by auto
qed

text \<open>
  A defect: a pending goal that was changed before the first run cannot be born. After
  any successful write to it (pause, resume, progress, ..) the event that a fresh session gets
  for it is one its own fold refuses, whatever neutral events come before it, so the goal of
  the materialized session is gone and its journal does not replay.
\<close>

theorem changed_pending_goal_lost:
  assumes "goal_codec E" and "goal_reach E s" and "gs_active s = None"
    and "goal_commit E v w s = Inr t" and "gs_pending t = Some p"
    and "\<forall>e\<in>set before. neutral_event E e"
  shows "\<exists>ev e. pending_birth_event t = Some ev \<and> goal_replay E (before @ [ev]) = Inl e
    \<and> goal_projection E (before @ [ev]) = None"
proof -
  from commit_pending_revision[OF assms(1) goal_reach_ok[OF assms(1,2)] assms(3-5)]
  have rev: "g_revision p \<noteq> 1" and act: "gs_active t = None" by auto
  let ?ev = "(''goal/change'', snapshot_payload ''create'' p)"
  have "validate_transition None p ''create'' \<noteq> Inr ()"
    using rev by (auto simp: validate_transition_def validate_create_def)
  then obtain e where e: "fold_goal_event E None ?ev = Inl e"
    using fold_snapshot[OF assms(1), of "''create''" None p]
      unit_result_cases[of "validate_transition None p ''create''"]
      unit_result_cases[of "validate_state E p"]
    by (auto simp: snapshot_operations_def)
  have "pending_birth_event t = Some ?ev" using act assms(5) by (simp add: pending_birth_event_def)
  moreover have "goal_replay E (before @ [?ev]) = Inl e"
    using e neutral_replay[OF assms(6)] by (simp add: replay_append)
  moreover have "goal_projection E (before @ [?ev]) = None"
    using e refresh_append[OF neutral_replay[OF assms(6)], of None "[?ev]"]
    by (simp add: goal_projection_def)
  ultimately show ?thesis by blast
qed

definition gdemo_pending :: goal_sys where
  "gdemo_pending = \<lparr>gs_active = None, gs_log = [], gs_pending = Some gdemo_goal, gs_armed = None\<rparr>"

lemma gdemo_pending_reach: "goal_reach gdemo_env gdemo_pending"
proof -
  have "run_goal gdemo_env (GcCreate gdemo_io ''u1'' ''ship it'' (AccFileContains ''out.txt'' ''done'')
      goal_limits_default False) \<lparr>gs_active = None, gs_log = [], gs_pending = None, gs_armed = None\<rparr>
    = (gdemo_pending, Inr (Some \<lparr>gv_state = gdemo_goal, gv_armed = False\<rparr>))"
    by (simp add: goal_create_def create_named_def as_view_def gdemo_objective gdemo_acceptance
        current_pending publish_def gdemo_pending_def gdemo_goal_def gdemo_io_def
        del: validate_acceptance.simps)
  with goal_reach.call[OF goal_reach.start, of gdemo_env "GcCreate gdemo_io ''u1'' ''ship it''
      (AccFileContains ''out.txt'' ''done'') goal_limits_default False"]
  show ?thesis
    by (simp add: fresh_goal_def valid_goal_id_def gdemo_io_def current_pending
        del: run_goal.simps)
qed

theorem changed_pending_goal_lost_witness:
  "\<exists>t ev e. goal_commit gdemo_env 1 (gdemo_io, WgPause) gdemo_pending = Inr t
     \<and> pending_birth_event t = Some ev \<and> goal_replay gdemo_env [ev] = Inl e"
proof -
  obtain t p where t: "goal_commit gdemo_env 1 (gdemo_io, WgPause) gdemo_pending = Inr t"
    and p: "gs_pending t = Some p"
    by (simp add: goal_commit_def goal_pause_def as_view_def goal_transition_def current_goal_def
        current_pending gdemo_pending_def require_revision_def pause_mutation_def checked_add_def
        publish_def)
  have none: "gs_active gdemo_pending = None" by (simp add: gdemo_pending_def)
  from changed_pending_goal_lost[OF gdemo_codec gdemo_pending_reach none t p, of "[]"] t
  show ?thesis by auto
qed

end
