(* ===== verification/TaskModel.thy ===== *)
theory TaskModel
  imports Json Interfaces
begin

text \<open>
  The data of a durable task (\<open>task/state.rs\<close>, \<open>task/acceptance/model.rs\<close>) and the
  checks every snapshot passes: the bounds of the texts, progress, runs and operations, the
  acceptance contract, verification reports, attestations, grants and the provenance of a
  completion. Phases, outcomes and statuses are strings, as in the code. Errors are the texts
  of the code. Parameters (\<open>task_env\<close>): SHA-256 in hex, and the encodings serde derives.
  Equality of JSON values inside a snapshot compares objects with their entries in order.
\<close>

section \<open>Data\<close>

record task_budget =
  tb_max_tokens :: u64
  tb_max_runs :: u32
  tb_max_seconds :: u32
  tb_run_tokens :: u64
  tb_run_seconds :: u32

record artifact =
  ar_path :: string
  ar_summary :: string
  ar_digest :: string
  ar_evidence :: "string list"

record job_reference =
  jr_provider :: string
  jr_scope :: string
  jr_id :: string
  jr_result_ref :: string
  jr_last_observation :: string

record progress =
  pg_summary :: string
  pg_steps :: "string list"
  pg_questions :: "string list"
  pg_next :: string
  pg_artifacts :: "artifact list"
  pg_jobs :: "job_reference list"
  pg_required_tools :: "string list"

definition progress_default :: progress where
  "progress_default = \<lparr>pg_summary = [], pg_steps = [], pg_questions = [], pg_next = [],
     pg_artifacts = [], pg_jobs = [], pg_required_tools = []\<rparr>"

record clause =
  cl_id :: string
  cl_required :: bool
  cl_checker :: string
  cl_checker_version :: u32
  cl_source :: string
  cl_files :: "string list"
  cl_parameters :: json

record acceptance_contract =
  ac_version :: u64
  ac_allow_model_completion :: bool
  ac_clauses :: "clause list"

record attestation =
  at_clause :: string
  at_contract_version :: u64
  at_note :: string

record file_identity =
  fi_path :: string
  fi_sha256 :: string

record clause_result =
  cr_clause :: string
  cr_checker :: string
  cr_checker_version :: u32
  cr_status :: string
  cr_source :: string
  cr_reason :: string
  cr_files :: "file_identity list"
  cr_operation :: "string option"
  cr_evidence_digest :: "string option"

record verification_report =
  vr_id :: string
  vr_task_id :: string
  vr_project_anchor :: string
  vr_session :: string
  vr_contract_version :: u64
  vr_contract_digest :: string
  vr_attestation_digest :: string
  vr_status :: string
  vr_results :: "clause_result list"
  vr_limitations :: string

record completion =
  cp_kind :: string
  cp_authority :: string
  cp_report :: "string option"
  cp_note :: string

record completion_candidate =
  cc_report :: string
  cc_run :: string
  cc_state :: string

record verification_grant =
  vg_id :: string
  vg_clause :: string
  vg_contract_version :: u64
  vg_consumed_by :: "string option"

record acceptance_state =
  as_contract :: "acceptance_contract option"
  as_attestations :: "attestation list"
  as_reports :: "verification_report list"
  as_candidate :: "completion_candidate option"
  as_completion :: "completion option"
  as_grants :: "verification_grant list"

definition acceptance_default :: acceptance_state where
  "acceptance_default = \<lparr>as_contract = None, as_attestations = [], as_reports = [],
     as_candidate = None, as_completion = None, as_grants = []\<rparr>"

record command_fact =
  cf_contract_version :: u64
  cf_clauses :: "string list"
  cf_invocation_digest :: string
  cf_before :: "file_identity list"
  cf_after :: "file_identity list"
  cf_receipt :: "json option"
  cf_receipt_digest :: "string option"
  cf_lifecycle :: json

record operation =
  op_id :: string
  op_run :: string
  op_tool :: string
  op_arguments_digest :: string
  op_call_id :: "string option"
  op_outcome :: string
  op_result_digest :: "string option"
  op_result_kind :: "string option"
  op_resolution :: "string option"
  op_execution_identity :: "string option"
  op_command_fact :: "command_fact option"

record task_run =
  tr_id :: string
  tr_turn :: "u64 option"
  tr_tokens :: u64
  tr_elapsed_ms :: u64
  tr_settled :: bool

record task_state =
  t_id :: string
  t_project :: string
  t_project_anchor :: string
  t_session :: string
  t_revision :: u64
  t_objective :: string
  t_acceptance :: "string list"
  t_phase :: string
  t_budget :: task_budget
  t_progress :: progress
  t_runs :: "task_run list"
  t_operations :: "operation list"
  t_acceptance_state :: "acceptance_state option"

record task_env =
  sha256 :: "string \<Rightarrow> string"
  enc_value :: "json \<Rightarrow> string"
  enc_contract :: "acceptance_contract \<Rightarrow> string"
  enc_attestations :: "attestation list \<Rightarrow> string"
  enc_task :: "task_state \<Rightarrow> string"
  task_json :: "task_state \<Rightarrow> json"
  dec_task :: "json \<Rightarrow> string + task_state"

section \<open>Texts\<close>

definition check_text :: "string \<Rightarrow> nat \<Rightarrow> string + unit" where
  "check_text s maximum =
     ensure (\<not> (maximum < length s \<or> CHR 0x00 \<in> set s)) ''task text exceeds bound or contains NUL''"

definition bounded :: "string \<Rightarrow> nat \<Rightarrow> string + unit" where
  "bounded s maximum =
     rbind (check_text s maximum) (\<lambda>_. ensure (trim s \<noteq> []) ''task text must not be empty'')"

definition check_strings :: "string list \<Rightarrow> nat \<Rightarrow> nat \<Rightarrow> string + unit" where
  "check_strings s count maximum =
     rbind (ensure (length s \<le> count) ''task list exceeds bound'') (\<lambda>_.
     for_each (\<lambda>item. bounded item maximum) s)"

definition check_relative :: "string \<Rightarrow> string + unit" where
  "check_relative path =
     rbind (bounded path 1024) (\<lambda>_.
     ensure (path_all_normal path) ''task reference must be a project-relative path'')"

definition valid_digest :: "string \<Rightarrow> bool" where
  "valid_digest s \<longleftrightarrow> length s = 64 \<and> list_all is_hexdigit s"

section \<open>Progress, runs and operations\<close>

definition artifact_check :: "string list \<Rightarrow> artifact \<Rightarrow> string + unit" where
  "artifact_check seen a =
     rbind (ensure (ar_path a \<notin> set seen) ''duplicate artifact path'') (\<lambda>_.
     rbind (check_relative (ar_path a)) (\<lambda>_.
     rbind (check_text (ar_summary a) 1024) (\<lambda>_.
     rbind (ensure (valid_digest (ar_digest a)) ''invalid artifact SHA256'') (\<lambda>_.
     check_strings (ar_evidence a) 16 160))))"

definition job_key :: "job_reference \<Rightarrow> string \<times> string \<times> string" where
  "job_key j = (jr_provider j, jr_scope j, jr_id j)"

definition job_check :: "(string \<times> string \<times> string) list \<Rightarrow> job_reference \<Rightarrow> string + unit" where
  "job_check seen j =
     rbind (ensure (job_key j \<notin> set seen) ''duplicate external job identity'') (\<lambda>_.
     rbind (bounded (jr_provider j) 80) (\<lambda>_.
     rbind (bounded (jr_scope j) 256) (\<lambda>_.
     rbind (bounded (jr_id j) 256) (\<lambda>_.
     rbind (check_text (jr_result_ref j) 1024) (\<lambda>_.
     check_text (jr_last_observation j) 1024)))))"

definition validate_progress :: "progress \<Rightarrow> string + unit" where
  "validate_progress p =
     rbind (check_text (pg_summary p) 8192) (\<lambda>_.
     rbind (check_text (pg_next p) 4096) (\<lambda>_.
     rbind (check_strings (pg_required_tools p) 32 128) (\<lambda>_.
     rbind (check_strings (pg_steps p) 64 1024) (\<lambda>_.
     rbind (check_strings (pg_questions p) 32 1024) (\<lambda>_.
     rbind (ensure (\<not> (64 < length (pg_artifacts p) \<or> 32 < length (pg_jobs p)))
       ''too many task references'') (\<lambda>_.
     rbind (for_seen ar_path artifact_check [] (pg_artifacts p)) (\<lambda>_.
     for_seen job_key job_check [] (pg_jobs p))))))))"

fun validate_runs :: "u64 \<Rightarrow> string list \<Rightarrow> task_run list \<Rightarrow> string + unit" where
  "validate_runs last_turn ids [] = Inr ()"
| "validate_runs last_turn ids (r # rs) =
     rbind (bounded (tr_id r) 80) (\<lambda>_.
     rbind (ensure (\<not> ((case tr_turn r of None \<Rightarrow> False | Some t \<Rightarrow> t \<le> last_turn)
         \<or> tr_id r \<in> set ids)) ''invalid task run identity'') (\<lambda>_.
     validate_runs (case tr_turn r of None \<Rightarrow> last_turn | Some t \<Rightarrow> t) (tr_id r # ids) rs))"

definition file_row_check :: "string \<Rightarrow> file_identity \<Rightarrow> string + unit" where
  "file_row_check err row =
     rbind (check_relative (fi_path row)) (\<lambda>_. ensure (length (fi_sha256 row) = 64) err)"

definition validate_command :: "task_env \<Rightarrow> command_fact \<Rightarrow> string + unit" where
  "validate_command E f =
     rbind (ensure (\<not> (cf_contract_version f = 0 \<or> cf_clauses f = [] \<or> 16 < length (cf_clauses f)
         \<or> length (cf_invocation_digest f) \<noteq> 64 \<or> 64 < length (cf_before f)
         \<or> 64 < length (cf_after f))) ''invalid command provenance'') (\<lambda>_.
     rbind (for_each (file_row_check ''invalid command input digest'') (cf_before f @ cf_after f)) (\<lambda>_.
     rbind (ensure (length (enc_value E (cf_lifecycle f)) \<le> 8192)
       ''command lifecycle exceeds bound'') (\<lambda>_.
     case cf_receipt f of
       Some receipt \<Rightarrow>
         let bytes = enc_value E receipt in
         ensure (\<not> (8192 < length bytes \<or> cf_receipt_digest f \<noteq> Some (sha256 E bytes)))
           ''invalid receipt digest/bound''
     | None \<Rightarrow> ensure (cf_receipt_digest f = None) ''digest without receipt'')))"

definition opt_digest_ok :: "string option \<Rightarrow> bool" where
  "opt_digest_ok d = (case d of None \<Rightarrow> True | Some x \<Rightarrow> valid_digest x)"

definition operation_check :: "task_env \<Rightarrow> task_run list \<Rightarrow> string list \<Rightarrow> operation \<Rightarrow> string + unit" where
  "operation_check E runs seen op =
     rbind (bounded (op_id op) 80) (\<lambda>_.
     rbind (bounded (op_tool op) 128) (\<lambda>_.
     rbind (case op_command_fact op of None \<Rightarrow> Inr () | Some f \<Rightarrow> validate_command E f) (\<lambda>_.
     rbind (case op_call_id op of None \<Rightarrow> Inr () | Some i \<Rightarrow> bounded i 1024) (\<lambda>_.
     rbind (ensure (\<not> (\<not> list_ex (\<lambda>r. tr_id r = op_run op \<and> tr_turn r \<noteq> None) runs
         \<or> op_id op \<in> set seen
         \<or> \<not> valid_digest (op_arguments_digest op)
         \<or> \<not> opt_digest_ok (op_execution_identity op)
         \<or> op_outcome op \<notin> {''unknown'', ''confirmed'', ''not_executed''}
         \<or> \<not> opt_digest_ok (op_result_digest op)
         \<or> (case op_result_kind op of None \<Rightarrow> False | Some k \<Rightarrow> k \<notin> {''ok'', ''error''})))
       ''invalid task operation'') (\<lambda>_.
     case op_resolution op of None \<Rightarrow> Inr () | Some note \<Rightarrow> bounded note 2048)))))"

definition validate_execution :: "task_env \<Rightarrow> task_state \<Rightarrow> string + unit" where
  "validate_execution E s =
     rbind (validate_runs 0 [] (t_runs s)) (\<lambda>_.
     for_seen op_id (operation_check E (t_runs s)) [] (t_operations s))"

section \<open>Acceptance\<close>

definition statuses :: "string list" where
  "statuses = [''passed'', ''failed'', ''inconclusive'']"

text \<open>
  The walk over a parameter value with an explicit stack; the head of the list is the top. Each
  round counts a node, so the walk ends after at most 4097 rounds.
\<close>

fun json_children :: "json \<Rightarrow> json list" where
  "json_children (JArr xs) = xs"
| "json_children (JObj es) = map snd es"
| "json_children _ = []"

function parameter_walk :: "(json \<times> nat) list \<Rightarrow> nat \<Rightarrow> string + unit" where
  "parameter_walk [] count = Inr ()"
| "parameter_walk ((v, depth) # stack) count =
     (if 32 < depth \<or> 4096 < count + 1
      then Inl ''contract JSON exceeds depth/node bounds''
      else parameter_walk (rev (map (\<lambda>x. (x, depth + 1)) (json_children v)) @ stack) (count + 1))"
  by pat_completeness auto
termination by (relation "measure (\<lambda>(stack, count). 4097 - count)") auto

definition validate_parameters :: "json \<Rightarrow> string + unit" where
  "validate_parameters value = parameter_walk [(value, 0)] 0"

definition clause_check :: "task_env \<Rightarrow> string list \<Rightarrow> clause \<Rightarrow> string + unit" where
  "clause_check E seen p =
     rbind (bounded (cl_id p) 64) (\<lambda>_.
     rbind (bounded (cl_checker p) 80) (\<lambda>_.
     rbind (ensure (\<not> (\<not> list_all (\<lambda>b. is_alphanumeric b \<or> b \<in> set ''-_.'') (cl_id p)
         \<or> cl_id p \<in> set seen
         \<or> cl_checker_version p = 0
         \<or> cl_source p \<notin> {''project_files'', ''command_operation'', ''human''}
         \<or> 8 < length (cl_files p)))
       ''invalid acceptance clause identity/source'') (\<lambda>_.
     rbind (for_seen (\<lambda>f. f) (\<lambda>paths f.
         rbind (check_relative f) (\<lambda>_. ensure (f \<notin> set paths) ''duplicate clause file''))
       [] (cl_files p)) (\<lambda>_.
     ensure (length (enc_value E (cl_parameters p)) \<le> 8192) ''rule parameters exceed 8 KiB''))))"

definition legacy_clause :: "acceptance_contract \<Rightarrow> nat \<times> string \<Rightarrow> string + unit" where
  "legacy_clause c row =
     ensure (list_ex (\<lambda>p. cl_id p = ''legacy-'' @ show_nat (fst row + 1) \<and> cl_required p
         \<and> cl_checker p = ''human'' \<and> cl_checker_version p = 1 \<and> cl_source p = ''human''
         \<and> cl_parameters p = JObj [(''text'', JStr (snd row))]) (ac_clauses c))
       ''legacy text acceptance must remain a required human clause''"

definition validate_contract :: "task_env \<Rightarrow> acceptance_contract \<Rightarrow> string list \<Rightarrow> string + unit" where
  "validate_contract E c legacy =
     rbind (for_each (\<lambda>p. validate_parameters (cl_parameters p)) (ac_clauses c)) (\<lambda>_.
     rbind (ensure (\<not> (ac_version c = 0 \<or> ac_clauses c = [] \<or> 16 < length (ac_clauses c)
         \<or> \<not> list_ex cl_required (ac_clauses c) \<or> 32768 < length (enc_contract E c)))
       ''bounded nonempty contract with required clauses needed'') (\<lambda>_.
     rbind (for_seen cl_id (clause_check E) [] (ac_clauses c)) (\<lambda>_.
     for_each (legacy_clause c) (enumerate 0 legacy))))"

definition completion_kind :: "acceptance_contract \<Rightarrow> string" where
  "completion_kind c =
     (let human = list_ex (\<lambda>p. cl_required p \<and> cl_checker p = ''human'') (ac_clauses c);
          machine = list_ex (\<lambda>p. cl_required p \<and> cl_checker p \<noteq> ''human'') (ac_clauses c)
      in if human \<and> machine then ''mixed_verified''
         else if human \<and> \<not> machine then ''human_attested'' else ''verified'')"

definition result_check :: "task_state \<Rightarrow> string list \<Rightarrow> clause_result \<Rightarrow> string + unit" where
  "result_check s seen x =
     rbind (bounded (cr_clause x) 64) (\<lambda>_.
     rbind (bounded (cr_checker x) 80) (\<lambda>_.
     rbind (bounded (cr_reason x) 2048) (\<lambda>_.
     rbind (ensure (\<not> (cr_clause x \<in> set seen \<or> 8 < length (cr_files x)
         \<or> cr_status x \<notin> set statuses)) ''invalid per-clause result'') (\<lambda>_.
     rbind (for_each (file_row_check ''invalid file digest'') (cr_files x)) (\<lambda>_.
     case cr_operation x of
       None \<Rightarrow> Inr ()
     | Some op \<Rightarrow>
         rbind (ensure (list_ex (\<lambda>o'. op_id o' = op \<and> op_outcome o' = ''confirmed''
             \<and> op_command_fact o' \<noteq> None) (t_operations s)) ''unknown result producer'') (\<lambda>_.
         ensure (list_ex (\<lambda>o'. op_id o' = op \<and> op_result_digest o' = cr_evidence_digest x)
             (t_operations s)) ''verification result digest does not bind producer''))))))"

definition validate_report :: "task_state \<Rightarrow> verification_report \<Rightarrow> string + unit" where
  "validate_report s r =
     rbind (bounded (vr_id r) 80) (\<lambda>_.
     rbind (check_text (vr_limitations r) 2048) (\<lambda>_.
     rbind (ensure (\<not> (vr_task_id r \<noteq> t_id s \<or> vr_project_anchor r \<noteq> t_project_anchor s
         \<or> vr_session r \<noteq> t_session s \<or> vr_contract_version r = 0
         \<or> length (vr_contract_digest r) \<noteq> 64 \<or> length (vr_attestation_digest r) \<noteq> 64
         \<or> vr_results r = [] \<or> 16 < length (vr_results r) \<or> vr_status r \<notin> set statuses))
       ''invalid verification provenance'') (\<lambda>_.
     for_seen cr_clause (result_check s) [] (vr_results r))))"

definition aggregate :: "acceptance_contract \<Rightarrow> clause_result list \<Rightarrow> string" where
  "aggregate c results =
     (let required = filter (\<lambda>r. list_ex (\<lambda>p. cl_id p = cr_clause r \<and> cl_required p)
            (ac_clauses c)) results
      in if list_ex (\<lambda>r. cr_status r = ''failed'') required then ''failed''
         else if list_ex (\<lambda>r. cr_status r \<noteq> ''passed'') required then ''inconclusive''
         else ''passed'')"

definition binding_check :: "verification_report \<Rightarrow> clause \<Rightarrow> string + unit" where
  "binding_check r p =
     rbind (ok_or (find (\<lambda>x. cr_clause x = cl_id p) (vr_results r)) ''clause result omitted'') (\<lambda>x.
     rbind (ensure (\<not> (cr_checker x \<noteq> cl_checker p \<or> cr_checker_version x \<noteq> cl_checker_version p
         \<or> cr_source x \<noteq> cl_source p)) ''checker/source binding differs'') (\<lambda>_.
     rbind (ensure (\<not> (cr_status x = ''passed'' \<and> cl_source p = ''project_files''
         \<and> set (cl_files p) \<noteq> set (map fi_path (cr_files x))))
       ''passing result omitted declared input identities'') (\<lambda>_.
     ensure (\<not> (cr_status x = ''passed'' \<and> cl_source p = ''command_operation''
         \<and> cr_operation x = None)) ''passing command result needs runtime producer'')))"

definition validate_binding ::
  "task_env \<Rightarrow> acceptance_contract \<Rightarrow> attestation list \<Rightarrow> verification_report \<Rightarrow> string + unit" where
  "validate_binding E c h r =
     rbind (ensure (\<not> (vr_contract_version r \<noteq> ac_version c
         \<or> vr_contract_digest r \<noteq> sha256 E (enc_contract E c)
         \<or> vr_attestation_digest r \<noteq> sha256 E (enc_attestations E h)
         \<or> length (vr_results r) \<noteq> length (ac_clauses c)))
       ''verification report is not bound to the current confirmed contract'') (\<lambda>_.
     rbind (ensure (vr_status r = aggregate c (vr_results r))
       ''aggregate status differs from required clause results'') (\<lambda>_.
     for_each (binding_check r) (ac_clauses c)))"

definition validate_pass ::
  "task_env \<Rightarrow> acceptance_contract \<Rightarrow> attestation list \<Rightarrow> verification_report \<Rightarrow> string + unit" where
  "validate_pass E c h r =
     rbind (validate_binding E c h r) (\<lambda>_.
     ensure (\<not> (vr_status r \<noteq> ''passed''
         \<or> list_ex (\<lambda>p. list_ex (\<lambda>x. cr_clause x = cl_id p \<and> cr_status x \<noteq> ''passed'') (vr_results r))
             (filter cl_required (ac_clauses c))))
       ''required clause not passed under confirmed contract'')"

definition last_run :: "task_state \<Rightarrow> task_run option" where
  "last_run s = (case t_runs s of [] \<Rightarrow> None | _ \<Rightarrow> Some (last (t_runs s)))"

definition has_unknown :: "task_state \<Rightarrow> bool" where
  "has_unknown s = list_ex (\<lambda>op. op_outcome op = ''unknown'') (t_operations s)"

definition model_completion_ok :: "task_state \<Rightarrow> acceptance_state \<Rightarrow> completion \<Rightarrow> bool" where
  "model_completion_ok s a done' =
     ((case as_contract a of None \<Rightarrow> False | Some c \<Rightarrow> ac_allow_model_completion c)
      \<and> (case as_candidate a of None \<Rightarrow> False | Some p \<Rightarrow>
           cc_state p = ''accepted'' \<and> cp_report done' = Some (cc_report p)
           \<and> (case last_run s of None \<Rightarrow> False | Some r \<Rightarrow> tr_id r = cc_run p \<and> tr_settled r)))"

definition validate_completion ::
  "task_env \<Rightarrow> task_state \<Rightarrow> acceptance_state \<Rightarrow> completion \<Rightarrow> string + unit" where
  "validate_completion E s a done' =
     rbind (ensure (t_phase s = ''complete'') ''completion outside terminal state'') (\<lambda>_.
     rbind (bounded (cp_note done') 2048) (\<lambda>_.
     rbind (ensure (cp_authority done' \<in> {''explicit_user'', ''user_authorized_model_candidate''})
       ''invalid completion authority'') (\<lambda>_.
     rbind (ensure (\<not> (cp_authority done' = ''user_authorized_model_candidate''
         \<and> \<not> model_completion_ok s a done'))
       ''model completion lacks user authority/settled candidate'') (\<lambda>_.
     if cp_kind done' = ''human_declaration'' \<and> as_contract a = None \<and> cp_report done' = None
        \<and> cp_authority done' = ''explicit_user'' then Inr ()
     else if cp_kind done' = ''human_override'' \<and> as_contract a \<noteq> None \<and> cp_report done' = None
        \<and> cp_authority done' = ''explicit_user'' then Inr ()
     else if cp_kind done' \<in> {''verified'', ''mixed_verified'', ''human_attested''} then
       rbind (ensure (\<not> (has_unknown s
           \<or> (case last_run s of None \<Rightarrow> False | Some r \<Rightarrow> \<not> tr_settled r)))
         ''unresolved execution or budget blocks verified completion'') (\<lambda>_.
       rbind (ok_or (as_contract a) ''verified completion needs contract'') (\<lambda>c.
       rbind (ok_or (find (\<lambda>r. Some (vr_id r) = cp_report done') (as_reports a))
         ''completion report missing'') (\<lambda>r.
       rbind (validate_pass E c (as_attestations a) r) (\<lambda>_.
       ensure (cp_kind done' = completion_kind c)
         ''human/machine completion source mismatch''))))
     else Inl ''invalid completion provenance''))))"

definition candidate_check :: "task_state \<Rightarrow> acceptance_state \<Rightarrow> completion_candidate \<Rightarrow> string + unit" where
  "candidate_check s a p =
     rbind (ensure (\<not> (cc_state p = ''accepted''
         \<and> (t_phase s \<noteq> ''complete''
            \<or> \<not> (case as_completion a of None \<Rightarrow> False | Some d \<Rightarrow> cp_report d = Some (cc_report p)))))
       ''accepted candidate requires matching completed fact'') (\<lambda>_.
     ensure (\<not> (cc_state p \<notin> {''pending'', ''rejected'', ''accepted''}
         \<or> \<not> list_ex (\<lambda>r. tr_id r = cc_run p) (t_runs s)
         \<or> \<not> list_ex (\<lambda>r. vr_id r = cc_report p) (as_reports a)))
       ''invalid completion candidate'')"

definition grant_check ::
  "task_state \<Rightarrow> acceptance_state \<Rightarrow> string list \<Rightarrow> verification_grant \<Rightarrow> string + unit" where
  "grant_check s a seen g =
     rbind (bounded (vg_id g) 80) (\<lambda>_.
     rbind (ensure (\<not> (vg_id g \<in> set seen
         \<or> \<not> (case as_contract a of None \<Rightarrow> False | Some c \<Rightarrow>
                ac_version c = vg_contract_version g
                \<and> list_ex (\<lambda>p. cl_id p = vg_clause g \<and> cl_checker p = ''command'') (ac_clauses c))))
       ''invalid verification grant'') (\<lambda>_.
     case vg_consumed_by g of None \<Rightarrow> Inr ()
     | Some op \<Rightarrow> ensure (list_ex (\<lambda>o'. op_id o' = op) (t_operations s)) ''grant consumer missing''))"

definition validate_auxiliary :: "task_state \<Rightarrow> acceptance_state \<Rightarrow> string + unit" where
  "validate_auxiliary s a =
     rbind (case as_candidate a of None \<Rightarrow> Inr () | Some p \<Rightarrow> candidate_check s a p) (\<lambda>_.
     for_seen vg_id (grant_check s a) [] (as_grants a))"

definition attestation_check :: "acceptance_state \<Rightarrow> attestation \<Rightarrow> string + unit" where
  "attestation_check a h =
     rbind (bounded (at_note h) 2048) (\<lambda>_.
     rbind (ok_or (as_contract a) ''attestation needs a contract'') (\<lambda>c.
     ensure (\<not> (at_contract_version h \<noteq> ac_version c
         \<or> \<not> list_ex (\<lambda>p. cl_id p = at_clause h \<and> cl_checker p = ''human'') (ac_clauses c)))
       ''invalid human attestation''))"

definition validate_snapshot :: "task_env \<Rightarrow> task_state \<Rightarrow> string + unit" where
  "validate_snapshot E s =
     (case t_acceptance_state s of
        None \<Rightarrow> Inr ()
      | Some a \<Rightarrow>
          rbind (case as_contract a of None \<Rightarrow> Inr ()
            | Some c \<Rightarrow> validate_contract E c (t_acceptance s)) (\<lambda>_.
          rbind (ensure (\<not> (8 < length (as_reports a) \<or> 16 < length (as_attestations a)
              \<or> 32 < length (as_grants a))) ''acceptance history capacity exceeded'') (\<lambda>_.
          rbind (for_seen vr_id (\<lambda>seen r.
              rbind (validate_report s r) (\<lambda>_.
              ensure (vr_id r \<notin> set seen) ''duplicate verification report''))
            [] (as_reports a)) (\<lambda>_.
          rbind (for_each (attestation_check a) (as_attestations a)) (\<lambda>_.
          rbind (ensure (distinct (map at_clause (as_attestations a)))
            ''duplicate attestation'') (\<lambda>_.
          rbind (case as_completion a of None \<Rightarrow> Inr ()
            | Some done' \<Rightarrow> validate_completion E s a done') (\<lambda>_.
          rbind (ensure (\<not> (t_phase s = ''complete'' \<and> as_completion a = None))
            ''completion requires provenance'') (\<lambda>_.
          validate_auxiliary s a))))))))"

section \<open>The whole snapshot\<close>

definition budget_ok :: "task_budget \<Rightarrow> bool" where
  "budget_ok b \<longleftrightarrow> \<not> (tb_max_tokens b = 0 \<or> tb_max_runs b = 0 \<or> 32 < tb_max_runs b
     \<or> tb_max_seconds b = 0 \<or> 86400 < tb_max_seconds b \<or> tb_run_tokens b = 0
     \<or> tb_max_tokens b < tb_run_tokens b \<or> tb_run_seconds b = 0
     \<or> tb_max_seconds b < tb_run_seconds b)"

definition task_validate :: "task_env \<Rightarrow> task_state \<Rightarrow> string + unit" where
  "task_validate E s =
     rbind (bounded (t_id s) 80) (\<lambda>_.
     rbind (bounded (t_project s) 4096) (\<lambda>_.
     rbind (ensure (valid_digest (t_project_anchor s)) ''invalid project directory witness'') (\<lambda>_.
     rbind (bounded (t_session s) 256) (\<lambda>_.
     rbind (bounded (t_objective s) 8192) (\<lambda>_.
     rbind (check_strings (t_acceptance s) 32 2048) (\<lambda>_.
     rbind (ensure (\<not> (t_revision s = 0
         \<or> t_phase s \<notin> {''paused'', ''running'', ''complete'', ''cancelled''}))
       ''invalid task revision/phase'') (\<lambda>_.
     rbind (ensure (budget_ok (t_budget s))
       ''task requires explicit positive tokens/runs (<=32)/seconds (<=86400)'') (\<lambda>_.
     rbind (validate_progress (t_progress s)) (\<lambda>_.
     rbind (ensure (\<not> (32 < length (t_runs s) \<or> 128 < length (t_operations s)))
       ''task capacity exceeded'') (\<lambda>_.
     rbind (validate_execution E s) (\<lambda>_.
     rbind (validate_snapshot E s) (\<lambda>_.
     ensure (length (enc_task E s) \<le> 131072) ''task snapshot exceeds 128 KiB''))))))))))))"

definition terminal :: "task_state \<Rightarrow> bool" where
  "terminal s \<longleftrightarrow> t_phase s \<in> {''complete'', ''cancelled''}"

definition saturating_sum :: "u64 list \<Rightarrow> u64" where
  "saturating_sum xs = foldl saturating_add 0 xs"

definition remaining :: "task_state \<Rightarrow> u64 \<times> u32 \<times> u64" where
  "remaining s =
     (saturating_sub (tb_max_tokens (t_budget s)) (saturating_sum (map tr_tokens (t_runs s))),
      saturating_sub (tb_max_runs (t_budget s)) (word_of_nat (length (t_runs s))),
      saturating_sub (ucast (tb_max_seconds (t_budget s)) * 1000)
        (saturating_sum (map tr_elapsed_ms (t_runs s))))"

end
