(* ===== verification/TaskFold.thy ===== *)
theory TaskFold
  imports TaskModel
begin

text \<open>
  The fold of the task journal (\<open>fold_change\<close> of \<open>task/state.rs\<close>): a task is born
  paused, a terminal task is replaced by a fresh one, and any other event must be one step of
  one family: an admission or birth of a run, a new operation or its result, a settlement, a
  progress or phase change, or one acceptance change (\<open>task/acceptance/transition.rs\<close>).
\<close>

section \<open>Acceptance changes\<close>

definition immutable_command :: "operation \<Rightarrow> operation \<Rightarrow> bool" where
  "immutable_command a b =
     (case (op_command_fact a, op_command_fact b) of
        (None, None) \<Rightarrow> True
      | (Some f, Some g) \<Rightarrow>
          cf_contract_version f = cf_contract_version g \<and> cf_clauses f = cf_clauses g
          \<and> cf_invocation_digest f = cf_invocation_digest g \<and> cf_before f = cf_before g
      | _ \<Rightarrow> False)"

definition next_contract_version :: "acceptance_state \<Rightarrow> u64 option" where
  "next_contract_version a =
     (case as_contract a of None \<Rightarrow> Some 1 | Some c \<Rightarrow> checked_add (ac_version c) 1)"

definition contract_change ::
  "task_state \<Rightarrow> task_state \<Rightarrow> acceptance_state \<Rightarrow> acceptance_state \<Rightarrow> string + unit" where
  "contract_change old new a b =
     rbind (ok_or (next_contract_version a) ''contract version exhausted'') (\<lambda>expected.
     ensure (\<not> (t_phase new \<noteq> t_phase old \<or> t_operations old \<noteq> t_operations new
         \<or> (case as_contract b of None \<Rightarrow> True | Some c \<Rightarrow> ac_version c \<noteq> expected)
         \<or> as_attestations b \<noteq> [] \<or> as_candidate b \<noteq> None \<or> as_completion b \<noteq> None
         \<or> as_grants b \<noteq> [] \<or> as_reports a \<noteq> as_reports b))
       ''invalid user contract replacement'')"

text \<open>The verdict a completion leaves on the candidate.\<close>

definition judged :: "string option \<Rightarrow> completion_candidate \<Rightarrow> completion_candidate" where
  "judged report p = p\<lparr>cc_state :=
     (if report = Some (cc_report p) then ''accepted'' else ''rejected'')\<rparr>"

definition completion_change ::
  "task_state \<Rightarrow> task_state \<Rightarrow> acceptance_state \<Rightarrow> acceptance_state \<Rightarrow> string + unit" where
  "completion_change old new a b =
     rbind (ok_or (as_completion b) ''cannot erase completion provenance'') (\<lambda>d.
     rbind (ensure (\<not> (t_phase new \<noteq> ''complete'' \<or> t_operations old \<noteq> t_operations new
         \<or> as_completion a \<noteq> None)) ''invalid completion transition'') (\<lambda>_.
     rbind (ensure (\<not> (case cp_report d of None \<Rightarrow> False
         | Some i \<Rightarrow> \<not> list_ex (\<lambda>r. vr_id r = i) (as_reports a)))
       ''completion requires previously durable report'') (\<lambda>_.
     ensure (b = a\<lparr>as_completion := as_completion b,
                   as_candidate := map_option (judged (cp_report d)) (as_candidate a)\<rparr>)
       ''completion combines unrelated acceptance changes'')))"

definition candidate_change ::
  "task_env \<Rightarrow> task_state \<Rightarrow> acceptance_state \<Rightarrow> acceptance_state \<Rightarrow> string + unit" where
  "candidate_change E s a b =
     rbind (ok_or (as_candidate b) ''cannot erase candidate without contract change'') (\<lambda>p.
     if cc_state p = ''rejected''
        \<and> (case as_candidate a of None \<Rightarrow> False | Some old \<Rightarrow>
             cc_state old = ''pending'' \<and> cc_run old = cc_run p \<and> cc_report old = cc_report p)
     then Inr ()
     else
       rbind (ensure (\<not> (cc_state p \<noteq> ''pending''
           \<or> \<not> (case last_run s of None \<Rightarrow> False | Some r \<Rightarrow> tr_id r = cc_run p \<and> \<not> tr_settled r)
           \<or> has_unknown s)) ''candidate requires current admitted execution'') (\<lambda>_.
       rbind (ok_or (as_contract b) ''candidate needs contract'') (\<lambda>c.
       rbind (ok_or (find (\<lambda>r. vr_id r = cc_report p) (as_reports a))
         ''candidate needs durable report'') (\<lambda>r.
       validate_pass E c (as_attestations a) r))))"

text \<open>The pairs of the two histories that differ.\<close>

definition changed :: "'a list \<Rightarrow> 'a list \<Rightarrow> ('a \<times> 'a) list" where
  "changed xs ys = filter (\<lambda>(x, y). x \<noteq> y) (zip xs ys)"

definition grants_appended :: "task_state \<Rightarrow> task_state \<Rightarrow> acceptance_state \<Rightarrow> acceptance_state \<Rightarrow> bool"
where
  "grants_appended old new a b \<longleftrightarrow>
     t_operations old = t_operations new
     \<and> length (as_grants b) = length (as_grants a) + 1
     \<and> as_grants a = take (length (as_grants a)) (as_grants b)
     \<and> vg_consumed_by (last (as_grants b)) = None"

definition grant_change ::
  "task_state \<Rightarrow> task_state \<Rightarrow> acceptance_state \<Rightarrow> acceptance_state \<Rightarrow> string + unit" where
  "grant_change old new a b =
     rbind (ensure (b = a\<lparr>as_grants := as_grants b\<rparr>)
       ''grant combines unrelated acceptance changes'') (\<lambda>_.
     if grants_appended old new a b
     then ensure (\<not> has_unknown old) ''unknown operations block recheck authority''
     else
       rbind (ensure (\<not> (length (as_grants b) \<noteq> length (as_grants a)
           \<or> length (t_operations new) \<noteq> length (t_operations old) + 1
           \<or> t_operations old \<noteq> take (length (t_operations old)) (t_operations new)))
         ''grant must be consumed with one new operation intent'') (\<lambda>_.
       case changed (as_grants a) (as_grants b) of
         [(x, y)] \<Rightarrow>
           let op = last (t_operations new) in
           ensure (\<not> (vg_consumed_by x \<noteq> None \<or> x\<lparr>vg_consumed_by := Some (op_id op)\<rparr> \<noteq> y
               \<or> \<not> (case op_command_fact op of None \<Rightarrow> False | Some f \<Rightarrow>
                      cf_contract_version f = vg_contract_version x
                      \<and> vg_clause x \<in> set (cf_clauses f))))
             ''grant consumer differs from confirmed verification scope''
       | _ \<Rightarrow> Inl ''consume exactly one grant''))"

definition history_change ::
  "task_env \<Rightarrow> task_state \<Rightarrow> acceptance_state \<Rightarrow> acceptance_state \<Rightarrow> string + unit" where
  "history_change E new a b =
     rbind (if as_reports a \<noteq> as_reports b then
         rbind (ensure (length (as_reports b) = length (as_reports a) + 1)
           ''save exactly one report'') (\<lambda>_.
         rbind (ok_or (as_contract b) ''report needs contract'') (\<lambda>c.
         rbind (validate_binding E c (as_attestations b) (last (as_reports b))) (\<lambda>_.
         Inr (a\<lparr>as_reports := as_reports b\<rparr>))))
       else if as_attestations a \<noteq> as_attestations b then
         rbind (ensure (\<not> (length (as_attestations b) \<noteq> length (as_attestations a) + 1
             \<or> as_attestations a \<noteq> take (length (as_attestations a)) (as_attestations b)))
           ''append exactly one human attestation'') (\<lambda>_.
         Inr (a\<lparr>as_attestations := as_attestations b\<rparr>))
       else if as_candidate a \<noteq> as_candidate b then
         rbind (candidate_change E new a b) (\<lambda>_.
         Inr (a\<lparr>as_candidate := as_candidate b\<rparr>))
       else Inr a) (\<lambda>expected.
     ensure (expected = b) ''acceptance combines unrelated changes'')"

definition validate_change :: "task_env \<Rightarrow> task_state \<Rightarrow> task_state \<Rightarrow> string + unit" where
  "validate_change E old new =
     (if t_acceptance_state old = t_acceptance_state new then
        ensure (\<not> (t_phase new = ''complete'' \<and> t_phase old \<noteq> ''complete''
            \<and> t_acceptance_state new \<noteq> None)) ''completion must commit provenance''
      else
        rbind (ensure (\<not> (t_progress old \<noteq> t_progress new \<or> t_runs old \<noteq> t_runs new))
          ''acceptance transition combines unrelated changes'') (\<lambda>_.
        let a = (case t_acceptance_state old of None \<Rightarrow> acceptance_default | Some a \<Rightarrow> a) in
        rbind (ok_or (t_acceptance_state new) ''cannot erase acceptance state'') (\<lambda>b.
        rbind (ensure (\<not> (length (as_reports b) < length (as_reports a)
            \<or> as_reports a \<noteq> take (length (as_reports a)) (as_reports b)))
          ''verification history is immutable'') (\<lambda>_.
        if as_contract a \<noteq> as_contract b then contract_change old new a b
        else if as_completion a \<noteq> as_completion b then completion_change old new a b
        else
          rbind (ensure (t_phase old = t_phase new) ''acceptance cannot change task phase'') (\<lambda>_.
          if as_grants a \<noteq> as_grants b then grant_change old new a b
          else
            rbind (ensure (t_operations old = t_operations new)
              ''acceptance cannot rewrite execution'') (\<lambda>_.
            history_change E new a b)))))) "

section \<open>Task changes\<close>

definition is_run_admission :: "task_run \<Rightarrow> task_run \<Rightarrow> bool" where
  "is_run_admission old new \<longleftrightarrow>
     tr_turn old = None \<and> tr_turn new \<noteq> None \<and> \<not> tr_settled old
     \<and> old\<lparr>tr_turn := tr_turn new\<rparr> = new"

definition valid_run_admission :: "task_state \<Rightarrow> task_state \<Rightarrow> bool" where
  "valid_run_admission old new \<longleftrightarrow>
     t_phase old = ''running'' \<and> t_phase new = t_phase old
     \<and> length (t_runs old) = length (t_runs new)
     \<and> t_runs old \<noteq> [] \<and> t_runs new \<noteq> []
     \<and> butlast (t_runs old) = butlast (t_runs new)
     \<and> is_run_admission (last (t_runs old)) (last (t_runs new))"

definition validate_run_birth :: "task_state \<Rightarrow> task_state \<Rightarrow> string + unit" where
  "validate_run_birth old new =
     rbind (ok_or (last_run new) ''missing task run'') (\<lambda>run.
     let (tokens, runs, ms) = remaining old in
     ensure (\<not> (t_phase new \<noteq> ''running'' \<or> runs = 0 \<or> tr_settled run \<or> tr_tokens run = 0
         \<or> tr_elapsed_ms run = 0
         \<or> min tokens (tb_run_tokens (t_budget old)) < tr_tokens run
         \<or> min ms (ucast (tb_run_seconds (t_budget old)) * 1000) < tr_elapsed_ms run
         \<or> t_runs old \<noteq> take (length (t_runs old)) (t_runs new)
         \<or> tr_turn run \<noteq> None))
       ''invalid task budget reservation/run transition'')"

definition validate_operation_change :: "task_state \<Rightarrow> task_state \<Rightarrow> string + unit" where
  "validate_operation_change old new =
     (let fail = Inl ''invalid task intent/result transition'' in
      if length (t_operations new) = length (t_operations old) + 1
         \<and> t_operations old = take (length (t_operations old)) (t_operations new) then
        let op = last (t_operations new) in
        if (case last_run new of None \<Rightarrow> False | Some r \<Rightarrow> \<not> tr_settled r \<and> tr_id r = op_run op)
           \<and> op_outcome op = ''unknown'' \<and> op_result_digest op = None \<and> op_result_kind op = None
           \<and> op_resolution op = None
        then Inr () else fail
      else if length (t_operations new) = length (t_operations old) then
        (case changed (t_operations old) (t_operations new) of
           [(a, b)] \<Rightarrow>
             if op_outcome a = ''unknown''
                \<and> (op_resolution b \<noteq> None \<or> op_result_digest b \<noteq> None \<and> op_result_kind b \<noteq> None)
             then Inr () else fail
         | _ \<Rightarrow> fail)
      else fail)"

definition valid_settlement :: "task_state \<Rightarrow> task_state \<Rightarrow> bool" where
  "valid_settlement old new \<longleftrightarrow>
     (case changed (t_runs old) (t_runs new) of
        [(a, b)] \<Rightarrow> \<not> tr_settled a \<and> tr_settled b
          \<and> (case last_run new of None \<Rightarrow> False | Some r \<Rightarrow> tr_id r = tr_id b)
      | _ \<Rightarrow> False)"

definition transition_family :: "task_state \<Rightarrow> task_state \<Rightarrow> string + unit" where
  "transition_family old new =
     (let same_ops = (t_operations old = t_operations new);
          same_runs = (t_runs old = t_runs new);
          same_progress = (t_progress old = t_progress new) in
      if same_ops \<and> same_progress \<and> valid_run_admission old new then Inr ()
      else if same_ops \<and> same_runs
          \<and> (t_phase old = t_phase new \<or> same_progress \<and> t_phase new \<noteq> ''running'') then
        ensure (\<not> (t_phase new = ''complete'' \<and> has_unknown new))
          ''cannot complete a task with unknown operations''
      else if same_ops \<and> same_progress \<and> length (t_runs new) = length (t_runs old) + 1 then
        validate_run_birth old new
      else if same_runs \<and> same_progress \<and> t_phase old = t_phase new then
        validate_operation_change old new
      else
        ensure (same_ops \<and> same_progress \<and> t_phase new = ''paused'' \<and> t_phase old = ''running''
            \<and> length (t_runs old) = length (t_runs new) \<and> valid_settlement old new)
          ''task transition combines unrelated state changes'')"

definition operation_kept :: "operation \<Rightarrow> operation \<Rightarrow> bool" where
  "operation_kept a b \<longleftrightarrow>
     \<not> (op_id a \<noteq> op_id b \<or> op_run a \<noteq> op_run b \<or> op_tool a \<noteq> op_tool b
       \<or> op_arguments_digest a \<noteq> op_arguments_digest b \<or> op_call_id a \<noteq> op_call_id b
       \<or> op_execution_identity a \<noteq> op_execution_identity b \<or> \<not> immutable_command a b
       \<or> (op_outcome a \<noteq> ''unknown'' \<and> a \<noteq> b))"

definition run_kept :: "task_run \<Rightarrow> task_run \<Rightarrow> bool" where
  "run_kept a b \<longleftrightarrow>
     \<not> (tr_id a \<noteq> tr_id b \<or> (tr_turn a \<noteq> tr_turn b \<and> \<not> is_run_admission a b)
       \<or> (tr_settled a \<and> a \<noteq> b)
       \<or> (\<not> tr_settled a \<and> \<not> tr_settled b \<and> a \<noteq> b \<and> \<not> is_run_admission a b))"

definition task_transition :: "task_env \<Rightarrow> task_state \<Rightarrow> task_state \<Rightarrow> string + unit" where
  "task_transition E old new =
     rbind (ensure (\<not> (terminal old
         \<or> checked_add (t_revision old) 1 \<noteq> Some (t_revision new)
         \<or> t_project_anchor old \<noteq> t_project_anchor new
         \<or> t_project old \<noteq> t_project new
         \<or> t_session old \<noteq> t_session new
         \<or> t_objective old \<noteq> t_objective new
         \<or> t_acceptance old \<noteq> t_acceptance new
         \<or> t_budget old \<noteq> t_budget new
         \<or> length (t_runs new) < length (t_runs old)
         \<or> length (t_operations new) < length (t_operations old)))
       ''task CAS/immutable identity/terminal violation'') (\<lambda>_.
     rbind (ensure (list_all (\<lambda>(a, b). operation_kept a b) (zip (t_operations old) (t_operations new)))
       ''task operation fact changed'') (\<lambda>_.
     rbind (ensure (list_all (\<lambda>(a, b). run_kept a b) (zip (t_runs old) (t_runs new)))
       ''task run fact changed'') (\<lambda>_.
     rbind (validate_change E old new) (\<lambda>_.
     transition_family old new))))"

definition valid_birth :: "task_state \<Rightarrow> bool" where
  "valid_birth s \<longleftrightarrow>
     t_revision s = 1 \<and> t_phase s = ''paused'' \<and> t_runs s = [] \<and> t_operations s = []
     \<and> t_acceptance_state s = None"

definition decode_change :: "task_env \<Rightarrow> json \<Rightarrow> string + task_state" where
  "decode_change E data =
     rbind (ensure (length (enc_value E data) \<le> 131072) ''task event too large'') (\<lambda>_.
     rbind (dec_task E data) (\<lambda>s.
     rbind (task_validate E s) (\<lambda>_. Inr s)))"

definition replaceable :: "task_state \<Rightarrow> task_state \<Rightarrow> bool" where
  "replaceable old new \<longleftrightarrow>
     t_id old \<noteq> t_id new \<and> terminal old \<and> valid_birth new
     \<and> t_project_anchor old = t_project_anchor new \<and> t_project old = t_project new
     \<and> t_session old = t_session new"

definition fold_change :: "task_env \<Rightarrow> task_state option \<Rightarrow> json \<Rightarrow> string + task_state option" where
  "fold_change E current data =
     rbind (decode_change E data) (\<lambda>new.
     rbind (case current of
         None \<Rightarrow> ensure (valid_birth new) ''invalid task birth or replacement''
       | Some old \<Rightarrow>
           if replaceable old new then Inr ()
           else if t_id old = t_id new then task_transition E old new
           else Inl ''invalid task birth or replacement'') (\<lambda>_.
     Inr (Some new)))"

definition task_fold_event ::
  "task_env \<Rightarrow> task_state option \<Rightarrow> string \<times> json \<Rightarrow> string + task_state option" where
  "task_fold_event E current ev =
     (if fst ev = ''clat/task'' then fold_change E current (snd ev) else Inr current)"

end
