(* ===== verification/TaskService.thy ===== *)
theory TaskService
  imports TaskFold
begin

text \<open>
  The task service (\<open>task/service.rs\<close>, \<open>task/execution.rs\<close>, \<open>task/check.rs\<close>, the
  services of \<open>task/acceptance\<close>, \<open>session/use_cases/task.rs\<close>). Its state is the active
  session with its journal, the run the process owns (\<open>LiveRun\<close>) and the sticky failure of
  the tool middleware. One call runs at a time (the write lane). Per call arguments
  (\<open>task_io\<close>): the answer of the directory check, the outcome of the append, a fresh UUID,
  and what reading a file of the project gives. Acceptance checkers other than the command
  checker, the rule codec and process identities are parameters.
\<close>

section \<open>State and environment\<close>

record live_run =
  lr_task :: string
  lr_session :: string
  lr_run :: string
  lr_tokens :: u64
  lr_duration :: u64

record task_sys =
  ts_session :: "(string \<times> string) option"
  ts_read_only :: bool
  ts_log :: "(string \<times> json) list"
  ts_live :: "live_run option"
  ts_failure :: "string option"

record task_io =
  tio_root :: "string option"
  tio_append :: append_outcome
  tio_fresh :: string
  tio_read :: "string \<Rightarrow> nat \<Rightarrow> string + string option"

datatype job_observation = JobRunning | JobComplete string | JobFailed | JobExpired | JobUnavailable

record task_resume =
  rs_task_id :: string
  rs_revision :: u64
  rs_check_digest :: string
  rs_accept_changes :: bool

record recovery_check =
  rc_task :: task_state
  rc_artifacts :: "json list"
  rc_jobs :: "job_observation list"
  rc_missing_tools :: "string list"
  rc_permission :: string
  rc_read_only_session :: bool
  rc_unknown_operations :: "string list"
  rc_remaining_tokens :: u64
  rc_remaining_runs :: u32
  rc_remaining_ms :: u64
  rc_unknown_consumption :: bool
  rc_context_digest :: string
  rc_digest :: string

record task_service_env = task_env +
  root_text :: string
  root_identity :: string
  enc_check :: "recovery_check \<Rightarrow> string"

section \<open>Session side\<close>

text \<open>\<open>ts_session\<close> is the id of the active session and the project it belongs to.\<close>

definition task_projection :: "('x) task_env_scheme \<Rightarrow> (string \<times> json) list \<Rightarrow> task_state option" where
  "task_projection E log = refresh (task_fold_event (task_env.truncate E)) None log"

abbreviation base :: "('x) task_env_scheme \<Rightarrow> task_env" where
  "base E \<equiv> task_env.truncate E"

definition session_task :: "('x) task_env_scheme \<Rightarrow> task_sys \<Rightarrow> string + task_state option" where
  "session_task E s =
     (case ts_session s of
        None \<Rightarrow> Inr None
      | Some _ \<Rightarrow>
          (case task_projection E (ts_log s) of
             None \<Rightarrow> Inr None
           | Some st \<Rightarrow> rbind (decode_change (base E) (task_json E st)) (\<lambda>x. Inr (Some x))))"

definition commit_task_batch ::
  "('x) task_env_scheme \<Rightarrow> task_io \<Rightarrow> task_state option \<Rightarrow> task_state \<Rightarrow> (string \<times> json) list \<Rightarrow> task_sys
   \<Rightarrow> task_sys \<times> (string + unit)" where
  "commit_task_batch E io previous new tail s =
     (case rbind (ok_or (ts_session s) ''task requires an active session'') (\<lambda>(session, project).
           rbind (ensure (\<not> ts_read_only s) ''session is read-only'') (\<lambda>_.
           rbind (ensure (\<not> (session \<noteq> t_session new \<or> project \<noteq> t_project new))
             ''task project/session ownership mismatch'') (\<lambda>_.
           rbind (session_task E s) (\<lambda>current.
           rbind (ensure (current = previous) ''task changed; inspect again'') (\<lambda>_.
           if previous \<noteq> Some new
           then rbind (fold_change (base E) current (task_json E new)) (\<lambda>_.
                Inr [(''clat/task'', task_json E new)])
           else Inr []))))) of
        Inl e \<Rightarrow> (s, Inl e)
      | Inr events \<Rightarrow>
          (case tio_append io of
             AppendOk \<Rightarrow> (s\<lparr>ts_log := ts_log s @ events @ tail\<rparr>, Inr ())
           | AppendFailed e written \<Rightarrow>
               ((if written then s\<lparr>ts_log := ts_log s @ events @ tail\<rparr> else s), Inl e)))"

section \<open>Reading\<close>

definition validate_owner :: "task_service_env \<Rightarrow> task_sys \<Rightarrow> task_state \<Rightarrow> string + unit" where
  "validate_owner E s st =
     ensure (\<not> (t_project_anchor st \<noteq> root_identity E \<or> t_project st \<noteq> root_text E
         \<or> map_option fst (ts_session s) \<noteq> Some (t_session st)))
       ''task project/session ownership mismatch''"

definition root_check :: "task_io \<Rightarrow> string + unit" where
  "root_check io = (case tio_root io of Some e \<Rightarrow> Inl e | None \<Rightarrow> Inr ())"

definition task_current ::
  "task_service_env \<Rightarrow> task_io \<Rightarrow> task_sys \<Rightarrow> string + task_state option" where
  "task_current E io s =
     rbind (session_task E s) (\<lambda>state.
     case state of
       None \<Rightarrow> Inr None
     | Some st \<Rightarrow> rbind (root_check io) (\<lambda>_. rbind (validate_owner E s st) (\<lambda>_. Inr (Some st))))"

definition task_now ::
  "task_service_env \<Rightarrow> task_io \<Rightarrow> string \<Rightarrow> task_sys \<Rightarrow> string + task_state" where
  "task_now E io msg s = rbind (task_current E io s) (\<lambda>c. ok_or c msg)"

definition start_allowed :: "task_state option \<Rightarrow> string + unit" where
  "start_allowed state =
     ensure (\<not> (case state of None \<Rightarrow> False | Some s \<Rightarrow> has_unknown s))
       ''task has unresolved operations; use /task check and /task resolve before continuing, or open a separate session''"

definition ensure_start_allowed :: "task_service_env \<Rightarrow> task_io \<Rightarrow> task_sys \<Rightarrow> string + unit" where
  "ensure_start_allowed E io s =
     (if ts_live s \<noteq> None then Inr () else rbind (task_current E io s) start_allowed)"

definition require_binding :: "string \<Rightarrow> task_sys \<Rightarrow> string + string" where
  "require_binding i s =
     rbind (ok_or (ts_live s) ''no active task run'') (\<lambda>live.
     rbind (ensure (\<not> (lr_task live \<noteq> i \<or> map_option fst (ts_session s) \<noteq> Some (lr_session live)))
       ''task binding does not own this session'') (\<lambda>_. Inr (lr_run live)))"

definition require_idle :: "string \<Rightarrow> task_sys \<Rightarrow> string + unit" where
  "require_idle msg s = ensure (ts_live s = None) msg"

section \<open>Writing\<close>

definition task_draft ::
  "task_service_env \<Rightarrow> task_io \<Rightarrow> string \<Rightarrow> string list \<Rightarrow> task_budget \<Rightarrow> task_state" where
  "task_draft E io objective acceptance budget =
     \<lparr>t_id = ''task-'' @ tio_fresh io, t_project = root_text E, t_project_anchor = root_identity E,
      t_session = ''pending'', t_revision = 1, t_objective = objective, t_acceptance = acceptance,
      t_phase = ''paused'', t_budget = budget, t_progress = progress_default, t_runs = [],
      t_operations = [], t_acceptance_state = None\<rparr>"

definition task_create ::
  "task_service_env \<Rightarrow> task_io \<Rightarrow> string \<Rightarrow> string list \<Rightarrow> task_budget \<Rightarrow> task_sys
   \<Rightarrow> task_sys \<times> (string + task_state)" where
  "task_create E io objective acceptance budget s =
     (case rbind (root_check io) (\<lambda>_.
           rbind (task_current E io s) (\<lambda>old.
           rbind (ensure (\<not> (case old of None \<Rightarrow> False | Some t \<Rightarrow> \<not> terminal t))
             ''unfinished task already exists'') (\<lambda>_.
           rbind (ok_or (ts_session s) ''task requires a selected session'') (\<lambda>(session, _).
           Inr (old, (task_draft E io objective acceptance budget)\<lparr>t_session := session\<rparr>))))) of
        Inl e \<Rightarrow> (s, Inl e)
      | Inr (old, st) \<Rightarrow>
          (case commit_task_batch E io old st [] s of (s1, r) \<Rightarrow> (s1, rbind r (\<lambda>_. Inr st))))"

definition validate_new ::
  "task_service_env \<Rightarrow> task_io \<Rightarrow> string \<Rightarrow> string list \<Rightarrow> task_budget \<Rightarrow> string + unit" where
  "validate_new E io objective acceptance budget =
     rbind (root_check io) (\<lambda>_. task_validate (base E) (task_draft E io objective acceptance budget))"

definition task_update ::
  "task_service_env \<Rightarrow> task_io \<Rightarrow> string \<Rightarrow> u64 \<Rightarrow> (task_state \<Rightarrow> string + task_state) \<Rightarrow> task_sys
   \<Rightarrow> task_sys \<times> (string + task_state)" where
  "task_update E io i revision change s =
     (case rbind (task_now E io ''no current task'' s) (\<lambda>old.
           rbind (ensure (\<not> (t_id old \<noteq> i \<or> t_revision old \<noteq> revision))
             ''stale task identity/revision; inspect again'') (\<lambda>_.
           rbind (change old) (\<lambda>new.
           rbind (ok_or (checked_add (t_revision new) 1) ''task revision overflow'') (\<lambda>r.
           Inr (old, new\<lparr>t_revision := r\<rparr>))))) of
        Inl e \<Rightarrow> (s, Inl e)
      | Inr (old, new) \<Rightarrow>
          (case commit_task_batch E io (Some old) new [] s of
             (s1, r) \<Rightarrow> (s1, rbind r (\<lambda>_. Inr new))))"

text \<open>A call that may fail before it updates.\<close>

definition guarded :: "string + 'b \<Rightarrow> ('b \<Rightarrow> task_sys \<Rightarrow> task_sys \<times> (string + 'a)) \<Rightarrow> task_sys
   \<Rightarrow> task_sys \<times> (string + 'a)" where
  "guarded g f s = (case g of Inl e \<Rightarrow> (s, Inl e) | Inr x \<Rightarrow> f x s)"

text \<open>\<open>read_artifact_budget\<close>: the content, and the bytes left of the budget.\<close>

definition read_artifact ::
  "(string \<Rightarrow> nat \<Rightarrow> string + string option) \<Rightarrow> string \<Rightarrow> nat \<Rightarrow> (string + string option) \<times> nat" where
  "read_artifact read path budget =
     (case check_relative path of
        Inl e \<Rightarrow> (Inl e, budget)
      | Inr _ \<Rightarrow>
          let allowance = min budget 8388609 in
          if allowance = 0 then (Inl ''task check byte budget exhausted'', budget)
          else (case read path (allowance - 1) of
              Inl _ \<Rightarrow> (Inl ''artifact inaccessible or exceeds bound'', budget - allowance)
            | Inr result \<Rightarrow>
                (Inr result, budget - allowance
                   + (allowance - (case result of None \<Rightarrow> 0 | Some b \<Rightarrow> length b)))))"

fun verify_artifacts ::
  "('x) task_env_scheme \<Rightarrow> (string \<Rightarrow> nat \<Rightarrow> string + string option) \<Rightarrow> nat \<Rightarrow> artifact list
   \<Rightarrow> string + unit" where
  "verify_artifacts E read budget [] = Inr ()"
| "verify_artifacts E read budget (a # artifacts) =
     (case read_artifact read (ar_path a) budget of
        (Inl e, _) \<Rightarrow> Inl e
      | (Inr None, _) \<Rightarrow> Inl ''task artifact missing''
      | (Inr (Some bytes), rest) \<Rightarrow>
          rbind (ensure (ar_digest a = sha256 E bytes) ''artifact digest changed before checkpoint'')
          (\<lambda>_. verify_artifacts E read rest artifacts))"

definition check_bytes :: nat where "check_bytes = 33554432"

definition evidence_ok :: "task_state \<Rightarrow> string \<Rightarrow> bool" where
  "evidence_ok s evidence =
     list_ex (\<lambda>op. op_id op = evidence \<and> op_outcome op = ''confirmed'') (t_operations s)"

definition save_change :: "progress \<Rightarrow> task_state \<Rightarrow> string + task_state" where
  "save_change progress s =
     rbind (for_each (\<lambda>a. for_each (\<lambda>e. ensure (evidence_ok s e)
         ''evidence must reference a committed confirmed task operation'') (ar_evidence a))
       (pg_artifacts progress)) (\<lambda>_.
     let kept = foldl (\<lambda>acc x. if list_ex (\<lambda>a. ar_path a = ar_path x) acc then acc else acc @ [x])
           (pg_artifacts progress) (pg_artifacts (t_progress s));
         jobs = foldl (\<lambda>acc x. if list_ex (\<lambda>j. job_key j = job_key x) acc then acc else acc @ [x])
           (pg_jobs progress) (pg_jobs (t_progress s))
     in Inr (s\<lparr>t_progress := progress\<lparr>pg_artifacts := kept, pg_jobs := jobs\<rparr>\<rparr>))"

definition task_save ::
  "task_service_env \<Rightarrow> task_io \<Rightarrow> string \<Rightarrow> u64 \<Rightarrow> progress \<Rightarrow> bool \<Rightarrow> task_sys
   \<Rightarrow> task_sys \<times> (string + task_state)" where
  "task_save E io i revision progress model s =
     guarded (rbind (validate_progress progress) (\<lambda>_.
         rbind (if model then rbind (require_binding i s) (\<lambda>_. Inr ()) else Inr ()) (\<lambda>_.
         verify_artifacts E (tio_read io) check_bytes (pg_artifacts progress))))
       (\<lambda>_. task_update E io i revision (save_change progress)) s"

definition human_change :: "string option \<Rightarrow> task_state \<Rightarrow> string + task_state" where
  "human_change note s =
     rbind (ensure (\<not> has_unknown s) ''resolve unknown operations before human completion'') (\<lambda>_.
     let a = (case t_acceptance_state s of None \<Rightarrow> acceptance_default | Some a \<Rightarrow> a);
         kind = (if as_contract a \<noteq> None then ''human_override'' else ''human_declaration'') in
     rbind (if as_contract a \<noteq> None
         then ok_or note ''structured acceptance requires verified completion or explicit human override with a note''
         else Inr (case note of None \<Rightarrow> ''User declaration; not machine verified'' | Some n \<Rightarrow> n)) (\<lambda>note.
     rbind (bounded note 2048) (\<lambda>_.
     Inr (s\<lparr>t_acceptance_state := Some (a\<lparr>
              as_candidate := map_option (\<lambda>p. p\<lparr>cc_state := ''rejected''\<rparr>) (as_candidate a),
              as_completion := Some \<lparr>cp_kind = kind, cp_authority = ''explicit_user'',
                cp_report = None, cp_note = note\<rparr>\<rparr>),
            t_phase := ''complete''\<rparr>))))"

definition finish_human ::
  "task_service_env \<Rightarrow> task_io \<Rightarrow> string \<Rightarrow> u64 \<Rightarrow> string option \<Rightarrow> task_sys
   \<Rightarrow> task_sys \<times> (string + task_state)" where
  "finish_human E io i revision note s =
     guarded (require_idle ''task must be idle'' s)
       (\<lambda>_. task_update E io i revision (human_change note)) s"

definition finish_change :: "string \<Rightarrow> task_state \<Rightarrow> string + task_state" where
  "finish_change phase s =
     rbind (ensure (phase \<in> {''paused'', ''complete'', ''cancelled''}) ''invalid task phase'') (\<lambda>_.
     rbind (ensure (\<not> (phase = ''complete'' \<and> has_unknown s))
       ''resolve unknown operations before completing'') (\<lambda>_.
     Inr (s\<lparr>t_phase := phase\<rparr>)))"

definition task_finish ::
  "task_service_env \<Rightarrow> task_io \<Rightarrow> string \<Rightarrow> u64 \<Rightarrow> string \<Rightarrow> task_sys \<Rightarrow> task_sys \<times> (string + task_state)"
where
  "task_finish E io i revision phase s =
     (if phase = ''complete'' then finish_human E io i revision None s
      else guarded (require_idle ''pause/cancel the active run first'' s)
        (\<lambda>_. task_update E io i revision (finish_change phase)) s)"

definition resolve_change :: "string \<Rightarrow> string \<Rightarrow> string \<Rightarrow> task_state \<Rightarrow> string + task_state" where
  "resolve_change operation outcome note s =
     rbind (ensure (outcome \<in> {''confirmed'', ''not_executed''})
       ''resolution must be confirmed or not_executed'') (\<lambda>_.
     rbind (ok_or (find (\<lambda>op. op_id op = operation) (t_operations s)) ''unknown operation identity'') (\<lambda>op.
     rbind (ensure (op_outcome op = ''unknown'') ''operation is already resolved'') (\<lambda>_.
     Inr (s\<lparr>t_operations := update_first (\<lambda>op. op_id op = operation)
       (\<lambda>op. op\<lparr>op_outcome := outcome, op_resolution := Some note\<rparr>) (t_operations s)\<rparr>))))"

definition task_resolve ::
  "task_service_env \<Rightarrow> task_io \<Rightarrow> string \<Rightarrow> u64 \<Rightarrow> string \<Rightarrow> string \<Rightarrow> string \<Rightarrow> task_sys
   \<Rightarrow> task_sys \<times> (string + task_state)" where
  "task_resolve E io i revision operation outcome note s =
     guarded (rbind (bounded note 2048) (\<lambda>_. require_idle ''cannot resolve an active task run'' s))
       (\<lambda>_. task_update E io i revision (resolve_change operation outcome note)) s"

end
