(* ===== verification/Tool.thy ===== *)
theory Tool
  imports Json
begin

text \<open>
  The tool abstraction of \<open>tool.rs\<close>: effects, definitions, calls and errors of tools, the
  access policy that a run freezes over the registry, and the slot of \<open>tool/access.rs\<close> it
  is published in.
\<close>

section \<open>Effects, calls and errors\<close>

datatype tool_effect =
    EffPure | EffRead | EffWrite | EffExecute | EffNetwork | EffExternalRead | EffDestructive
  | EffSessionWrite

record tool_definition =
  td_name :: string
  td_description :: string
  td_input_schema :: json
  td_effect :: tool_effect
  td_strict :: bool

record model_call =
  mc_id :: string
  mc_name :: string
  mc_arguments :: json

text \<open>
  The parts of a message (\<open>model.rs\<close>) and the result of a tool, whose typed content blocks
  are kept as JSON: nothing here looks into them.
\<close>

datatype content_part =
    PartText string
  | PartImage string string

record tool_result =
  rt_call_id :: string
  rt_tool_name :: string
  rt_output :: json
  rt_is_error :: bool
  rt_blocks :: "json list"
  rt_image_parts :: "content_part list"

record tool_error =
  te_message :: string
  te_recovery :: "json option"
  te_fatal :: bool

definition tool_error_new :: "string \<Rightarrow> tool_error" where
  "tool_error_new m = \<lparr>te_message = m, te_recovery = None, te_fatal = False\<rparr>"

definition tool_error_fatal :: "string \<Rightarrow> tool_error" where
  "tool_error_fatal m = \<lparr>te_message = m, te_recovery = None, te_fatal = True\<rparr>"

definition with_recovery :: "tool_error \<Rightarrow> json \<Rightarrow> tool_error" where
  "with_recovery e recovery = e\<lparr>te_recovery := Some recovery\<rparr>"

fun effect_display :: "tool_effect \<Rightarrow> string" where
  "effect_display EffPure = ''pure''"
| "effect_display EffRead = ''read-only''"
| "effect_display EffWrite = ''writes files''"
| "effect_display EffExecute = ''runs commands''"
| "effect_display EffNetwork = ''network access''"
| "effect_display EffExternalRead = ''external read access''"
| "effect_display EffDestructive = ''destructive external action''"
| "effect_display EffSessionWrite = ''updates this session'' @ [CHR 0x27] @ ''s local state''"

section \<open>The access policy of a run\<close>

record access_policy =
  ap_plan_mode :: bool
  ap_subagents_enabled :: bool
  ap_readonly_child :: bool
  ap_view_image_enabled :: bool
  ap_task_progress_enabled :: bool
  ap_workflow_requests :: bool

definition access_all :: access_policy where
  "access_all = \<lparr>ap_plan_mode = False, ap_subagents_enabled = False, ap_readonly_child = False,
     ap_view_image_enabled = False, ap_task_progress_enabled = False, ap_workflow_requests = True\<rparr>"

definition access_plan_mode :: access_policy where
  "access_plan_mode = \<lparr>ap_plan_mode = True, ap_subagents_enabled = False, ap_readonly_child = False,
     ap_view_image_enabled = False, ap_task_progress_enabled = False, ap_workflow_requests = False\<rparr>"

definition access_readonly_child :: access_policy where
  "access_readonly_child = \<lparr>ap_plan_mode = False, ap_subagents_enabled = False, ap_readonly_child = True,
     ap_view_image_enabled = False, ap_task_progress_enabled = False, ap_workflow_requests = False\<rparr>"

definition workflow_tools :: "string list" where
  "workflow_tools = [''request_plan_mode'', ''propose_goal'']"

definition child_tools :: "string list" where
  "child_tools = [''list_files'', ''read_file'', ''search'']"

definition is_task_tool :: "string \<Rightarrow> bool" where
  "is_task_tool name \<longleftrightarrow> name \<in> {''read_task'', ''update_task'', ''check_task_acceptance'',
     ''verify_task_acceptance'', ''propose_task_completion''}"

definition access_allows :: "access_policy \<Rightarrow> tool_definition \<Rightarrow> bool" where
  "access_allows a d =
     (if td_name d \<in> set workflow_tools \<and> \<not> ap_workflow_requests a then False
      else if is_task_tool (td_name d) \<and> \<not> ap_task_progress_enabled a then False
      else if td_name d = ''view_image'' \<and> \<not> ap_view_image_enabled a then False
      else if ap_readonly_child a then td_effect d = EffRead \<and> td_name d \<in> set child_tools
      else if td_name d = ''delegate_readonly'' \<and> \<not> ap_subagents_enabled a then False
      else if \<not> ap_plan_mode a then True
      else td_effect d \<in> {EffPure, EffRead}
         \<or> td_effect d = EffSessionWrite \<and> td_name d = ''exit_plan_mode'')"

definition denial_reason :: "access_policy \<Rightarrow> tool_definition \<Rightarrow> string" where
  "denial_reason a d =
     (if td_name d \<in> set workflow_tools \<and> \<not> ap_workflow_requests a then
        ''new workflow requests require an ordinary foreground session outside Plan Mode''
      else if ap_readonly_child a then ''tool unavailable to a read-only subagent''
      else if is_task_tool (td_name d) \<and> \<not> ap_task_progress_enabled a then
        ''task progress tools require an explicitly continued task Run''
      else if td_name d = ''view_image'' \<and> \<not> ap_view_image_enabled a then
        ''view_image is unavailable because the active model has no verified image capability''
      else ''tool unavailable in plan mode'')"

definition validate_call :: "access_policy \<Rightarrow> tool_definition \<Rightarrow> json \<Rightarrow> string + unit" where
  "validate_call a d arguments =
     (if \<not> ap_readonly_child a then Inr ()
      else
        rbind (ensure (\<not> (case Option.bind (json_get arguments ''path'') as_str of
            None \<Rightarrow> False | Some path \<Rightarrow> path_is_absolute path))
          ''read-only subagent paths must be project-relative'') (\<lambda>_.
        ensure (td_name d \<in> set child_tools) ''tool unavailable to a read-only subagent''))"

text \<open>
  \<open>pointer_mut("/properties/path/description")\<close>: the value at the path is replaced when it
  exists.
\<close>

fun entry_update :: "string \<Rightarrow> (json \<Rightarrow> json) \<Rightarrow> (string \<times> json) list \<Rightarrow> (string \<times> json) list" where
  "entry_update k f [] = []"
| "entry_update k f ((k', v) # es) = (if k = k' then (k', f v) # es else (k', v) # entry_update k f es)"

fun pointer_set :: "string list \<Rightarrow> json \<Rightarrow> json \<Rightarrow> json" where
  "pointer_set [] v j = v"
| "pointer_set (k # ks) v (JObj es) = JObj (entry_update k (pointer_set ks v) es)"
| "pointer_set (k # ks) v j = j"

definition model_definition :: "access_policy \<Rightarrow> tool_definition \<Rightarrow> tool_definition" where
  "model_definition a d =
     (if ap_readonly_child a then
        d\<lparr>td_description := td_description d
            @ '' In a delegated child, every path must be project-relative and remain inside the project root.'',
          td_input_schema := pointer_set [''properties'', ''path'', ''description'']
            (JStr ''Project-relative path contained by the delegated project root'') (td_input_schema d)\<rparr>
      else d)"

section \<open>The published policy\<close>

text \<open>The slot holds the policy of the run and counts its changes (an atomic \<open>u64\<close>).\<close>

record access_slot =
  sl_current :: access_policy
  sl_revision :: u64

definition slot_install :: "access_policy \<Rightarrow> access_slot \<Rightarrow> access_slot" where
  "slot_install a s = \<lparr>sl_current = a, sl_revision = sl_revision s + 1\<rparr>"

definition slot_clear :: "access_slot \<Rightarrow> access_slot" where
  "slot_clear = slot_install access_all"

end
