(* ===== verification/TaskExec.thy ===== *)
theory TaskExec
  imports TaskService Tool "HOL-Library.List_Lexorder" "HOL-Library.Char_ord"
begin

text \<open>
  Execution of a task (\<open>task/execution.rs\<close>, \<open>task/check.rs\<close>): recovery checks, the runs
  and their budget, and the tool middleware that writes an intent before a tool runs and its
  outcome after; with the command facts of \<open>task/acceptance/command.rs\<close> and
  \<open>plugins/process/acceptance/command.rs\<close>. Time enters as the measured milliseconds of a
  run, cancellation as what the three polls of the middleware see.
\<close>

record command_rule =
  ru_argv :: "string list"
  ru_cwd :: string
  ru_format :: string
  ru_minimum_executed :: u64

text \<open>
  \<open>parse_rule\<close> is the derived codec of a rule, \<open>invocation_digest\<close> the process identity
  (\<open>process::invocation_digest\<close>), \<open>enc_signature\<close> the encoding of a pair of a value and
  a text, \<open>join_path\<close> is \<open>Path::join\<close>.
\<close>

record task_tool_env = task_service_env +
  parse_rule :: "json \<Rightarrow> string + command_rule"
  invocation_digest :: "string list \<Rightarrow> string \<Rightarrow> string"
  enc_signature :: "json \<Rightarrow> string \<Rightarrow> string"
  join_path :: "string \<Rightarrow> string \<Rightarrow> string"

abbreviation svc :: "task_tool_env \<Rightarrow> task_service_env" where
  "svc E \<equiv> task_service_env.truncate E"

section \<open>Recovery checks\<close>

fun artifact_status ::
  "task_service_env \<Rightarrow> (string \<Rightarrow> nat \<Rightarrow> string + string option) \<Rightarrow> task_state \<Rightarrow> nat \<Rightarrow> artifact list
   \<Rightarrow> json list" where
  "artifact_status E read s budget [] = []"
| "artifact_status E read s budget (a # artifacts) =
     (let (result, rest) = read_artifact read (ar_path a) budget;
          (status, observed) =
            (case result of
               Inr (Some bytes) \<Rightarrow>
                 (if sha256 E bytes = ar_digest a then ''unchanged'' else ''changed'',
                  JStr (sha256 E bytes))
             | Inr None \<Rightarrow> (''missing'', JNull)
             | Inl _ \<Rightarrow> (''restricted'', JNull)) in
      JObj [(''path'', JStr (ar_path a)), (''status'', JStr status), (''observed_digest'', observed),
            (''evidence_readable'', JBool (list_all (evidence_ok s) (ar_evidence a)))]
      # artifact_status E read s rest artifacts)"

text \<open>
  \<open>query\<close> answers for a job as the loop sees it: \<open>JobUnavailable\<close> without a query, after
  the deadline or a cancellation.
\<close>

definition job_status :: "(job_reference \<Rightarrow> job_observation) \<Rightarrow> job_reference \<Rightarrow> job_observation" where
  "job_status query j =
     (case query j of
        JobComplete result_ref \<Rightarrow>
          if 1024 < length result_ref then JobUnavailable else JobComplete result_ref
      | ob \<Rightarrow> ob)"

definition task_check ::
  "task_service_env \<Rightarrow> task_io \<Rightarrow> (job_reference \<Rightarrow> job_observation) \<Rightarrow> string \<Rightarrow> string list
   \<Rightarrow> task_sys \<Rightarrow> string + recovery_check" where
  "task_check E io query permission available s =
     rbind (task_now E io ''no current task'' s) (\<lambda>st.
     let (tokens, runs, ms) = remaining st;
         check = \<lparr>rc_task = st,
           rc_artifacts = artifact_status E (tio_read io) st check_bytes (pg_artifacts (t_progress st)),
           rc_jobs = map (job_status query) (pg_jobs (t_progress st)),
           rc_missing_tools = filter (\<lambda>t. t \<notin> set available) (pg_required_tools (t_progress st)),
           rc_permission = permission, rc_read_only_session = ts_read_only s,
           rc_unknown_operations =
             map op_id (filter (\<lambda>op. op_outcome op = ''unknown'') (t_operations st)),
           rc_remaining_tokens = tokens, rc_remaining_runs = runs, rc_remaining_ms = ms,
           rc_unknown_consumption = list_ex (\<lambda>r. \<not> tr_settled r) (t_runs st),
           rc_context_digest = [], rc_digest = []\<rparr> in
     Inr (check\<lparr>rc_digest := sha256 E (enc_check E check)\<rparr>))"

definition with_context :: "task_service_env \<Rightarrow> string \<Rightarrow> recovery_check \<Rightarrow> recovery_check" where
  "with_context E context_digest c =
     (let c1 = c\<lparr>rc_context_digest := context_digest, rc_digest := []\<rparr>
      in c1\<lparr>rc_digest := sha256 E (enc_check E c1)\<rparr>)"

definition observations_changed :: "recovery_check \<Rightarrow> bool" where
  "observations_changed c \<longleftrightarrow>
     list_ex (\<lambda>a. json_index a ''status'' \<noteq> JStr ''unchanged''
         \<or> json_index a ''evidence_readable'' \<noteq> JBool True) (rc_artifacts c)
     \<or> list_ex (\<lambda>j. case j of JobComplete _ \<Rightarrow> False | _ \<Rightarrow> True) (rc_jobs c)"

definition verify_check :: "task_resume \<Rightarrow> recovery_check \<Rightarrow> string + unit" where
  "verify_check request c =
     rbind (ensure (\<not> (80 < length (rs_task_id request) \<or> length (rs_check_digest request) \<noteq> 64
         \<or> rs_revision request = 0)) ''invalid recovery identity/check digest'') (\<lambda>_.
     rbind (ensure (\<not> (t_id (rc_task c) \<noteq> rs_task_id request
         \<or> t_revision (rc_task c) \<noteq> rs_revision request
         \<or> rc_digest c \<noteq> rs_check_digest request))
       ''recovery observations changed; run /task check and explicitly continue again'') (\<lambda>_.
     rbind (ensure (\<not> (terminal (rc_task c) \<or> rc_read_only_session c
         \<or> rc_unknown_operations c \<noteq> [] \<or> rc_missing_tools c \<noteq> []
         \<or> 128 \<le> length (t_operations (rc_task c))
         \<or> rc_remaining_tokens c = 0 \<or> rc_remaining_runs c = 0 \<or> rc_remaining_ms c = 0))
       ''task recovery blocked: terminal/read-only/unknown operation/missing tool/exhausted budget'') (\<lambda>_.
     ensure (\<not> (observations_changed c \<and> \<not> rs_accept_changes request))
       ''recovery needs explicit --accept-changes acknowledgement'')))"

section \<open>Runs\<close>

definition begin_change :: "string \<Rightarrow> u64 \<Rightarrow> u64 \<Rightarrow> task_state \<Rightarrow> string + task_state" where
  "begin_change run tokens duration s =
     Inr (s\<lparr>t_phase := ''running'', t_runs := t_runs s @ [\<lparr>tr_id = run, tr_turn = None,
       tr_tokens = tokens, tr_elapsed_ms = duration, tr_settled = False\<rparr>]\<rparr>)"

definition run_tokens :: "u64 option \<Rightarrow> recovery_check \<Rightarrow> u64" where
  "run_tokens cap c =
     min (min (case cap of None \<Rightarrow> rc_remaining_tokens c | Some n \<Rightarrow> n) (rc_remaining_tokens c))
       (tb_run_tokens (t_budget (rc_task c)))"

definition run_duration :: "recovery_check \<Rightarrow> u64" where
  "run_duration c = min (rc_remaining_ms c) (ucast (tb_run_seconds (t_budget (rc_task c))) * 1000)"

definition task_begin ::
  "task_service_env \<Rightarrow> task_io \<Rightarrow> task_resume \<Rightarrow> recovery_check \<Rightarrow> u64 option \<Rightarrow> task_sys
   \<Rightarrow> task_sys \<times> (string + unit)" where
  "task_begin E io request c cap s =
     guarded (rbind (verify_check request c) (\<lambda>_. require_idle ''task is already running'' s))
     (\<lambda>_ s.
       let run = ''run-'' @ tio_fresh io in
       case task_update E io (rs_task_id request) (rs_revision request)
              (begin_change run (run_tokens cap c) (run_duration c)) s of
         (s1, Inl e) \<Rightarrow> (s1, Inl e)
       | (s1, Inr _) \<Rightarrow>
           (s1\<lparr>ts_failure := None,
               ts_live := Some \<lparr>lr_task = rs_task_id request, lr_session = t_session (rc_task c),
                 lr_run = run, lr_tokens = run_tokens cap c, lr_duration = run_duration c\<rparr>\<rparr>,
            Inr ())) s"

definition admit_change :: "string \<Rightarrow> u64 \<Rightarrow> task_state \<Rightarrow> string + task_state" where
  "admit_change run turn s =
     rbind (ok_or (last_run s) ''task run missing'') (\<lambda>r.
     rbind (ensure (\<not> (tr_id r \<noteq> run \<or> tr_turn r \<noteq> None))
       ''task admission identity already bound or changed'') (\<lambda>_.
     Inr (s\<lparr>t_runs := butlast (t_runs s) @ [r\<lparr>tr_turn := Some turn\<rparr>]\<rparr>)))"

definition task_admit ::
  "task_service_env \<Rightarrow> task_io \<Rightarrow> u64 \<Rightarrow> task_sys \<Rightarrow> task_sys \<times> (string + unit)" where
  "task_admit E io turn s =
     (case ts_live s of
        None \<Rightarrow> (s, Inr ())
      | Some live \<Rightarrow>
          guarded (rbind (require_binding (lr_task live) s) (\<lambda>run.
              rbind (task_now E io ''task disappeared before admission'' s) (\<lambda>st. Inr (run, st))))
          (\<lambda>(run, st) s.
            case task_update E io (t_id st) (t_revision st) (admit_change run turn) s of
              (s1, r) \<Rightarrow> (s1, rbind r (\<lambda>_. Inr ()))) s)"

definition settle_change :: "string \<Rightarrow> u64 \<Rightarrow> u64 \<Rightarrow> task_state \<Rightarrow> string + task_state" where
  "settle_change run tokens elapsed s =
     rbind (ok_or (find (\<lambda>r. tr_id r = run) (t_runs s)) ''task run missing'') (\<lambda>_.
     Inr (s\<lparr>t_runs := update_first (\<lambda>r. tr_id r = run)
              (\<lambda>r. r\<lparr>tr_tokens := tokens, tr_elapsed_ms := elapsed, tr_settled := True\<rparr>) (t_runs s),
            t_phase := ''paused''\<rparr>))"

definition task_settle ::
  "task_service_env \<Rightarrow> task_io \<Rightarrow> u64 \<Rightarrow> u64 \<Rightarrow> task_sys \<Rightarrow> task_sys \<times> (string + unit)" where
  "task_settle E io tokens elapsed s =
     (case ts_live s of
        None \<Rightarrow> (s, Inr ())
      | Some live \<Rightarrow>
          let s0 = s\<lparr>ts_live := None\<rparr> in
          guarded (rbind (task_now E io ''task disappeared during settlement'' s0) (\<lambda>st.
              rbind (ensure (\<not> (t_id st \<noteq> lr_task live \<or> t_session st \<noteq> lr_session live))
                ''task settlement ownership mismatch'') (\<lambda>_. Inr st)))
          (\<lambda>st s0.
            case task_update E io (t_id st) (t_revision st)
                   (settle_change (lr_run live) tokens elapsed) s0 of
              (s1, r) \<Rightarrow> (s1, rbind r (\<lambda>_. Inr ()))) s0)"

section \<open>Command facts\<close>

definition declared_cwd :: "task_tool_env \<Rightarrow> string \<Rightarrow> string \<Rightarrow> string" where
  "declared_cwd E root cwd = (if cwd = ''.'' then root else join_path E root cwd)"

record command_plan =
  pl_contract_version :: u64
  pl_clauses :: "string list"
  pl_invocation_digest :: string
  pl_files :: "string list"

definition plan_matches :: "task_tool_env \<Rightarrow> json \<Rightarrow> string \<Rightarrow> clause \<Rightarrow> bool" where
  "plan_matches E args identity c \<longleftrightarrow>
     \<not> (cl_checker c \<noteq> ''command'' \<or> cl_checker_version c \<noteq> 1 \<or> cl_source c \<noteq> ''command_operation'')
     \<and> (case parse_rule E (cl_parameters c) of Inl _ \<Rightarrow> False
        | Inr r \<Rightarrow>
            json_index args ''argv'' = JArr (map JStr (ru_argv r))
            \<and> invocation_digest E (ru_argv r) (declared_cwd E (root_text E) (ru_cwd r)) = identity
            \<and> json_index (json_index args ''verification'') ''format'' = JStr (ru_format r)
            \<and> (case as_u64 (json_index (json_index args ''verification'') ''minimum_executed'') of
                 None \<Rightarrow> False | Some n \<Rightarrow> ru_minimum_executed r \<le> n))"

definition string_set :: "string list \<Rightarrow> string list" where
  "string_set xs = sort (remdups xs)"

definition plan_for ::
  "task_tool_env \<Rightarrow> acceptance_contract \<Rightarrow> string \<Rightarrow> json \<Rightarrow> string \<Rightarrow> command_plan option" where
  "plan_for E contract name args identity =
     (if name \<notin> {''run_command'', ''exec_command''} \<or> json_get args ''argv'' = None
         \<or> json_get args ''cmd'' \<noteq> None \<or> json_get args ''command'' \<noteq> None
         \<or> json_index args ''tty'' = JBool True then None
      else
        let matching = filter (plan_matches E args identity) (ac_clauses contract) in
        if matching = [] then None
        else Some \<lparr>pl_contract_version = ac_version contract, pl_clauses = map cl_id matching,
          pl_invocation_digest = identity, pl_files = string_set (concat (map cl_files matching))\<rparr>)"

definition command_signature :: "task_tool_env \<Rightarrow> string list \<Rightarrow> string \<Rightarrow> string" where
  "command_signature E argv cwd = sha256 E (enc_signature E (JArr (map JStr argv)) cwd)"

text \<open>The loop over the clauses: the first known rule with the recorded signature decides.\<close>

fun prior_rule ::
  "task_tool_env \<Rightarrow> task_state \<Rightarrow> command_fact \<Rightarrow> string \<Rightarrow> clause list \<Rightarrow> bool" where
  "prior_rule E s cfact identity [] = True"
| "prior_rule E s cfact identity (c # cs) =
     (if cl_id c \<notin> set (cf_clauses cfact) then prior_rule E s cfact identity cs
      else case parse_rule E (cl_parameters c) of
          Inl _ \<Rightarrow> prior_rule E s cfact identity cs
        | Inr rule \<Rightarrow>
            if command_signature E (ru_argv rule) (ru_cwd rule) = cf_invocation_digest cfact
            then invocation_digest E (ru_argv rule) (declared_cwd E (t_project s) (ru_cwd rule)) = identity
            else prior_rule E s cfact identity cs)"

definition state_contract :: "task_state \<Rightarrow> acceptance_contract option" where
  "state_contract s = Option.bind (t_acceptance_state s) as_contract"

definition prior_command_matches :: "task_tool_env \<Rightarrow> operation \<Rightarrow> task_state \<Rightarrow> string \<Rightarrow> bool" where
  "prior_command_matches E op s identity =
     (case op_execution_identity op of
        Some saved \<Rightarrow> saved = identity
      | None \<Rightarrow>
          (case op_command_fact op of
             None \<Rightarrow> False
           | Some cfact \<Rightarrow>
               if cf_invocation_digest cfact = identity then True
               else case state_contract s of
                   None \<Rightarrow> True
                 | Some c \<Rightarrow>
                     if ac_version c \<noteq> cf_contract_version cfact then True
                     else prior_rule E s cfact identity (ac_clauses c)))"

definition lifecycle_keys :: "string list" where
  "lifecycle_keys = [''session_id'', ''execution'', ''exit_scope'', ''exit_code'', ''signal'',
     ''timed_out'', ''cancelled'', ''terminated'', ''running'', ''sandbox'', ''cwd'']"

definition command_observation :: "task_tool_env \<Rightarrow> json \<Rightarrow> command_fact \<Rightarrow> command_fact" where
  "command_observation E result cfact =
     (let lifecycle = JObj (concat (map (\<lambda>k. case json_get result k of None \<Rightarrow> []
            | Some v \<Rightarrow> [(k, v)]) lifecycle_keys));
          fact1 = cfact\<lparr>cf_lifecycle := lifecycle\<rparr> in
      case json_get result ''verification_receipt'' of
        None \<Rightarrow> fact1
      | Some receipt \<Rightarrow>
          let bytes = enc_value E receipt in
          if length bytes \<le> 8192
          then fact1\<lparr>cf_receipt_digest := Some (sha256 E bytes), cf_receipt := Some receipt\<rparr>
          else fact1)"

fun command_files ::
  "task_tool_env \<Rightarrow> (string \<Rightarrow> nat \<Rightarrow> string + string option) \<Rightarrow> nat \<Rightarrow> string list
   \<Rightarrow> file_identity list" where
  "command_files E read budget [] = []"
| "command_files E read budget (path # paths) =
     (case read_artifact read path budget of
        (Inr (Some bytes), rest) \<Rightarrow>
          \<lparr>fi_path = path, fi_sha256 = sha256 E bytes\<rparr> # command_files E read rest paths
      | (_, rest) \<Rightarrow> command_files E read rest paths)"

definition command_intent ::
  "task_tool_env \<Rightarrow> task_io \<Rightarrow> task_state \<Rightarrow> string \<Rightarrow> json \<Rightarrow> string option \<Rightarrow> command_fact option" where
  "command_intent E io s name args identity =
     Option.bind (state_contract s) (\<lambda>c.
     Option.bind identity (\<lambda>i.
     Option.bind (plan_for E c name args i) (\<lambda>plan.
     Some \<lparr>cf_contract_version = pl_contract_version plan, cf_clauses = pl_clauses plan,
       cf_invocation_digest = pl_invocation_digest plan,
       cf_before = command_files E (tio_read io) check_bytes (pl_files plan),
       cf_after = [], cf_receipt = None, cf_receipt_digest = None, cf_lifecycle = JObj []\<rparr>)))"

definition grant_usable :: "command_fact \<Rightarrow> verification_grant \<Rightarrow> bool" where
  "grant_usable f g \<longleftrightarrow> vg_consumed_by g = None \<and> vg_contract_version g = cf_contract_version f
     \<and> vg_clause g \<in> set (cf_clauses f)"

definition verification_grant_index :: "task_state \<Rightarrow> command_fact option \<Rightarrow> nat option" where
  "verification_grant_index s cfact =
     Option.bind cfact (\<lambda>f.
     Option.bind (t_acceptance_state s) (\<lambda>a.
     map_option fst (find (\<lambda>(i, g). grant_usable f g) (enumerate 0 (as_grants a)))))"

definition record_command_outcome ::
  "task_tool_env \<Rightarrow> task_io \<Rightarrow> task_state \<Rightarrow> json \<Rightarrow> command_fact \<Rightarrow> command_fact" where
  "record_command_outcome E io s result cfact =
     (let paths = (case state_contract s of None \<Rightarrow> []
        | Some c \<Rightarrow> string_set (concat (map cl_files
            (filter (\<lambda>p. cl_id p \<in> set (cf_clauses cfact)) (ac_clauses c)))))
      in command_observation E result
           (cfact\<lparr>cf_after := command_files E (tio_read io) check_bytes paths\<rparr>))"

section \<open>The tool middleware\<close>

record tool_call =
  tc_name :: string
  tc_effect :: tool_effect
  tc_arguments :: json
  tc_call_id :: "string option"
  tc_identity :: "string option"

definition is_discovery :: "string \<Rightarrow> bool" where
  "is_discovery name \<longleftrightarrow> name \<in> {''query_capabilities'', ''describe_capability''}"

text \<open>An operation of an earlier run that did the same thing and is confirmed.\<close>

definition already_done :: "task_tool_env \<Rightarrow> tool_call \<Rightarrow> string \<Rightarrow> task_state \<Rightarrow> bool" where
  "already_done E tool run s =
     list_ex (\<lambda>op. op_run op \<noteq> run \<and> op_outcome op = ''confirmed''
       \<and> (op_tool op = tc_name tool
            \<and> op_arguments_digest op = sha256 E (enc_value E (tc_arguments tool))
          \<or> (case tc_identity tool of None \<Rightarrow> False | Some i \<Rightarrow> prior_command_matches E op s i)))
       (t_operations s)"

definition intent_change ::
  "operation \<Rightarrow> nat option \<Rightarrow> task_state \<Rightarrow> string + task_state" where
  "intent_change op grant s =
     rbind (ensure (length (t_operations s) < 128)
       ''task operation capacity reached; checkpoint and finish this task'') (\<lambda>_.
     let s1 = s\<lparr>t_operations := t_operations s @ [op]\<rparr> in
     case grant of
       None \<Rightarrow> Inr s1
     | Some index \<Rightarrow>
         rbind (ok_or (t_acceptance_state s1) ''verification grant disappeared'') (\<lambda>a.
         Inr (s1\<lparr>t_acceptance_state := Some (a\<lparr>as_grants := (as_grants a)[index :=
           (as_grants a ! index)\<lparr>vg_consumed_by := Some (op_id op)\<rparr>]\<rparr>)\<rparr>)))"

text \<open>The operation an intent records, and the checks before it is recorded.\<close>

definition intent_operation ::
  "task_tool_env \<Rightarrow> task_io \<Rightarrow> string \<Rightarrow> tool_call \<Rightarrow> task_state \<Rightarrow> operation" where
  "intent_operation E io run tool st =
     \<lparr>op_id = ''op-'' @ tio_fresh io, op_run = run, op_tool = tc_name tool,
      op_arguments_digest = sha256 E (enc_value E (tc_arguments tool)),
      op_call_id = tc_call_id tool, op_outcome = ''unknown'', op_result_digest = None,
      op_result_kind = None, op_resolution = None, op_execution_identity = tc_identity tool,
      op_command_fact = command_intent E io st (tc_name tool) (tc_arguments tool) (tc_identity tool)\<rparr>"

definition intent_guard ::
  "task_tool_env \<Rightarrow> task_io \<Rightarrow> live_run \<Rightarrow> tool_call \<Rightarrow> task_sys
   \<Rightarrow> string + (task_state \<times> nat option \<times> operation)" where
  "intent_guard E io live tool s =
     rbind (require_binding (lr_task live) s) (\<lambda>run.
     rbind (task_now (svc E) io ''task disappeared'' s) (\<lambda>st.
     rbind (ensure (list_ex (\<lambda>r. tr_id r = run \<and> tr_turn r \<noteq> None) (t_runs st))
       ''task run has not committed session admission'') (\<lambda>_.
     let op = intent_operation E io run tool st;
         grant = verification_grant_index st (op_command_fact op) in
     rbind (ensure (\<not> (grant = None \<and> tc_effect tool \<notin> {EffPure, EffRead}
         \<and> already_done E tool run st))
       ''a prior task run already confirmed this operation; inspect its result instead of replaying it'') (\<lambda>_.
     Inr (st, grant, op)))))"

definition task_intent ::
  "task_tool_env \<Rightarrow> task_io \<Rightarrow> tool_call \<Rightarrow> task_sys \<Rightarrow> task_sys \<times> (string + string option)" where
  "task_intent E io tool s =
     (case ts_live s of
        None \<Rightarrow> (s, Inr None)
      | Some live \<Rightarrow>
          guarded (intent_guard E io live tool s)
          (\<lambda>(st, grant, op) s.
            case task_update (svc E) io (t_id st) (t_revision st) (intent_change op grant) s of
              (s1, r) \<Rightarrow> (s1, rbind r (\<lambda>_. Inr (Some (op_id op))))) s)"

definition outcome_change ::
  "task_tool_env \<Rightarrow> string \<Rightarrow> command_fact option \<Rightarrow> string \<Rightarrow> tool_error + json \<Rightarrow> task_state
   \<Rightarrow> string + task_state" where
  "outcome_change E i cfact outcome result s =
     rbind (ok_or (find (\<lambda>op. op_id op = i) (t_operations s)) ''task operation missing'') (\<lambda>_.
     Inr (s\<lparr>t_operations := update_first (\<lambda>op. op_id op = i) (\<lambda>op. op\<lparr>op_command_fact := cfact,
       op_outcome := outcome,
       op_result_kind := Some (if is_ok result then ''ok'' else ''error''),
       op_result_digest := Some (sha256 E (case result of Inr v \<Rightarrow> enc_value E v
         | Inl _ \<Rightarrow> ''tool returned error; side effects not disproven''))\<rparr>) (t_operations s)\<rparr>))"

definition task_outcome ::
  "task_tool_env \<Rightarrow> task_io \<Rightarrow> string \<Rightarrow> tool_error + json \<Rightarrow> string \<Rightarrow> task_sys
   \<Rightarrow> task_sys \<times> (string + unit)" where
  "task_outcome E io i result outcome s =
     guarded (rbind (task_now (svc E) io ''task disappeared'' s) (\<lambda>st.
         rbind (require_binding (t_id st) s) (\<lambda>_.
         let cfact = Option.bind (find (\<lambda>op. op_id op = i) (t_operations st)) op_command_fact in
         Inr (st, case (cfact, result) of
             (Some f, Inr v) \<Rightarrow> Some (record_command_outcome E io st v f) | _ \<Rightarrow> cfact))))
     (\<lambda>(st, cfact) s.
       case task_update (svc E) io (t_id st) (t_revision st)
              (outcome_change E i cfact outcome result) s of
         (s1, r) \<Rightarrow> (s1, rbind r (\<lambda>_. Inr ()))) s"

definition check_failure :: "task_sys \<Rightarrow> tool_error + unit" where
  "check_failure s =
     (case (ts_live s, ts_failure s) of
        (Some _, Some e) \<Rightarrow> Inl (tool_error_fatal e) | _ \<Rightarrow> Inr ())"

definition poison :: "string \<Rightarrow> task_sys \<Rightarrow> task_sys \<times> tool_error" where
  "poison e s = (s\<lparr>ts_failure := Some e\<rparr>, tool_error_fatal e)"

definition bypasses :: "tool_call \<Rightarrow> bool" where
  "bypasses tool \<longleftrightarrow>
     is_discovery (tc_name tool) \<or> tc_effect tool = EffSessionWrite
     \<or> tc_name tool \<in> {''check_task_acceptance'', ''read_task''}"

text \<open>What the middleware does with the answer of the chain.\<close>

definition record_result ::
  "task_tool_env \<Rightarrow> task_io \<Rightarrow> bool \<Rightarrow> string option \<Rightarrow> task_sys \<times> (tool_error + json)
   \<Rightarrow> task_sys \<times> (tool_error + json)" where
  "record_result E io' c3 i x =
     (case x of (s2, result) \<Rightarrow>
        (case check_failure s2 of
           Inl e \<Rightarrow> (s2, Inl e)
         | Inr _ \<Rightarrow>
             (case i of
                None \<Rightarrow> (s2, result)
              | Some op \<Rightarrow>
                  (case task_outcome E io' op result (if c3 then ''unknown'' else ''confirmed'') s2 of
                     (s3, Inl e) \<Rightarrow> (case poison e s3 of (s4, err) \<Rightarrow> (s4, Inl err))
                   | (s3, Inr _) \<Rightarrow> (s3, result)))))"

text \<open>
  \<open>ToolMiddleware::execute\<close>: \<open>c1\<close>, \<open>c2\<close> and \<open>c3\<close> are what the three polls of the
  cancellation see, \<open>next\<close> the rest of the chain, which may change the state. The answer says
  whether the chain was called.
\<close>

definition task_execute ::
  "task_tool_env \<Rightarrow> task_io \<Rightarrow> task_io \<Rightarrow> tool_call \<Rightarrow> bool \<Rightarrow> bool \<Rightarrow> bool
   \<Rightarrow> (task_sys \<Rightarrow> task_sys \<times> (tool_error + json)) \<Rightarrow> task_sys
   \<Rightarrow> task_sys \<times> bool \<times> (tool_error + json)" where
  "task_execute E io io' tool c1 c2 c3 chain s =
     (case check_failure s of
        Inl e \<Rightarrow> (s, False, Inl e)
      | Inr _ \<Rightarrow>
          if bypasses tool then (case chain s of (s1, r) \<Rightarrow> (s1, True, r))
          else if c1 then (s, False, Inl (tool_error_new ''cancelled before task invocation''))
          else
            (case task_intent E io tool s of
               (s1, Inl e) \<Rightarrow> (case poison e s1 of (s2, err) \<Rightarrow> (s2, False, Inl err))
             | (s1, Inr i) \<Rightarrow>
                 if c2 then
                   (case i of
                      None \<Rightarrow> (s1, False, Inl (tool_error_new ''cancelled before actual task invocation''))
                    | Some op \<Rightarrow>
                        (case task_outcome E io' op
                                (Inl (tool_error_new ''cancelled before actual invocation''))
                                ''not_executed'' s1 of
                           (s2, Inl e) \<Rightarrow> (case poison e s2 of (s3, err) \<Rightarrow> (s3, False, Inl err))
                         | (s2, Inr _) \<Rightarrow>
                             (s2, False, Inl (tool_error_new ''cancelled before actual task invocation''))))
                 else (case record_result E io' c3 i (chain s1) of (s2, r) \<Rightarrow> (s2, True, r))))"

end
