(* ===== verification/TaskAccept.thy ===== *)
theory TaskAccept
  imports TaskExec
begin

text \<open>
  The acceptance of a task (\<open>task/acceptance\<close>): the user's contract and attestations, the
  bounded snapshot of the declared files, the evaluation of the clauses with the command
  checker (\<open>plugins/process/acceptance/command.rs\<close>), reports, completion candidates and
  the ways a task is completed. Cancellation and the deadline of a check are what its polls
  see: one poll before each file (\<open>sp_late1\<close>, \<open>sp_late2\<close>), one per access during the
  evaluation (\<open>sp_late_eval\<close>), one at the end.
\<close>

section \<open>Files of a check\<close>

record observed_file =
  ob_bytes :: "string option"
  ob_sha256 :: "string option"
  ob_status :: string

type_synonym check_files = "(string \<times> observed_file) list"

record check_polls =
  sp_read1 :: "string \<Rightarrow> nat \<Rightarrow> string + string option"
  sp_read2 :: "string \<Rightarrow> nat \<Rightarrow> string + string option"
  sp_late1 :: "string \<Rightarrow> bool"
  sp_late2 :: "string \<Rightarrow> bool"
  sp_late_eval :: bool
  sp_late_end :: bool

fun observe_files ::
  "('x) task_env_scheme \<Rightarrow> check_polls \<Rightarrow> bool \<Rightarrow> nat \<Rightarrow> string list \<Rightarrow> check_files \<times> nat" where
  "observe_files E polls too_many budget [] = ([], budget)"
| "observe_files E polls too_many budget (path # paths) =
     (let (ob, rest) =
        (if too_many then
           (\<lparr>ob_bytes = None, ob_sha256 = None, ob_status = ''file_count_exceeds_limit''\<rparr>, budget)
         else if sp_late1 polls path then
           (\<lparr>ob_bytes = None, ob_sha256 = None, ob_status = ''cancelled_or_deadline''\<rparr>, budget)
         else (case read_artifact (sp_read1 polls) path budget of
             (Inr (Some bytes), rest) \<Rightarrow> (\<lparr>ob_bytes = Some bytes,
               ob_sha256 = Some (sha256 E bytes), ob_status = ''observed''\<rparr>, rest)
           | (Inr None, rest) \<Rightarrow>
               (\<lparr>ob_bytes = None, ob_sha256 = None, ob_status = ''missing''\<rparr>, rest)
           | (Inl _, rest) \<Rightarrow> (\<lparr>ob_bytes = None, ob_sha256 = None,
               ob_status = ''restricted_or_exceeds_limit''\<rparr>, rest)));
        (files, left) = observe_files E polls too_many rest paths
      in ((path, ob) # files, left))"

definition contract_paths :: "acceptance_contract \<Rightarrow> string list" where
  "contract_paths c = string_set (concat (map cl_files (ac_clauses c)))"

definition acceptance_snapshot ::
  "('x) task_env_scheme \<Rightarrow> check_polls \<Rightarrow> acceptance_contract \<Rightarrow> check_files \<times> nat" where
  "acceptance_snapshot E polls c =
     observe_files E polls (64 < length (contract_paths c)) check_bytes (contract_paths c)"

fun stable_files ::
  "('x) task_env_scheme \<Rightarrow> check_polls \<Rightarrow> nat \<Rightarrow> check_files \<Rightarrow> bool" where
  "stable_files E polls budget [] = True"
| "stable_files E polls budget ((path, f) # files) =
     (if sp_late2 polls path then False
      else (case read_artifact (sp_read2 polls) path budget of
          (Inr (Some b), rest) \<Rightarrow>
            ob_sha256 f = Some (sha256 E b) \<and> stable_files E polls rest files
        | (Inr None, rest) \<Rightarrow> ob_status f = ''missing'' \<and> stable_files E polls rest files
        | (Inl _, rest) \<Rightarrow>
            ob_status f = ''restricted_or_exceeds_limit'' \<and> stable_files E polls rest files))"

definition stable_snapshot ::
  "('x) task_env_scheme \<Rightarrow> check_polls \<Rightarrow> check_files \<times> nat \<Rightarrow> bool" where
  "stable_snapshot E polls snapshot =
     (if list_ex (\<lambda>(_, f). ob_status f = ''file_count_exceeds_limit'') (fst snapshot)
         \<or> sp_late_end polls then False
      else stable_files E polls (snd snapshot) (fst snapshot))"

definition snapshot_bytes :: "check_polls \<Rightarrow> check_files \<Rightarrow> string \<Rightarrow> string + string" where
  "snapshot_bytes polls files path =
     rbind (ensure (\<not> sp_late_eval polls) ''check cancelled or deadline exceeded'') (\<lambda>_.
     ok_or (Option.bind (map_of files path) ob_bytes)
       ''declared file is missing, restricted, changed or exceeds limits'')"

definition file_hash :: "check_files \<Rightarrow> string \<Rightarrow> string option" where
  "file_hash files path = Option.bind (map_of files path) ob_sha256"

section \<open>The command checker\<close>

record checker_outcome =
  co_status :: string
  co_reason :: string
  co_operation :: "string option"
  co_evidence_digest :: "string option"

definition outcome_new :: "string \<Rightarrow> string \<Rightarrow> checker_outcome" where
  "outcome_new status reason = \<lparr>co_status = status, co_reason = reason, co_operation = None,
     co_evidence_digest = None\<rparr>"

definition command_validate :: "task_tool_env \<Rightarrow> clause \<Rightarrow> string + unit" where
  "command_validate E c =
     rbind (parse_rule E (cl_parameters c)) (\<lambda>r.
     rbind (ensure (\<not> (cl_source c \<noteq> ''command_operation'' \<or> cl_files c = [] \<or> ru_argv r = []
         \<or> 64 < length (ru_argv r)
         \<or> list_ex (\<lambda>a. 1024 < length a \<or> CHR 0x00 \<in> set a) (ru_argv r)
         \<or> ru_minimum_executed r = 0 \<or> 1000000 < ru_minimum_executed r
         \<or> ru_format r \<notin> {''rust-test-summary'', ''playwright-summary'', ''playwright-json''}))
       ''command needs explicit argv, nonempty input scope, supported receipt and nonzero execution minimum'') (\<lambda>_.
     if ru_cwd r \<noteq> ''.'' then check_relative (ru_cwd r) else Inr ()))"

definition count_of :: "json \<Rightarrow> u64" where
  "count_of j = (case as_u64 j of None \<Rightarrow> 0 | Some n \<Rightarrow> n)"

definition at_least :: "u64 \<Rightarrow> json \<Rightarrow> bool" where
  "at_least n j = (case as_u64 j of None \<Rightarrow> False | Some k \<Rightarrow> n \<le> k)"

definition receipt_verdict :: "command_fact \<Rightarrow> json \<Rightarrow> command_rule \<Rightarrow> string + string" where
  "receipt_verdict f receipt r =
     (let life = json_index (cf_lifecycle f); rec = json_index receipt in
      rbind (for_each (\<lambda>key. ensure (\<not> (life key = JBool True \<or> rec key = JBool True))
          ''command interrupted, running, cancelled or timed out'')
        [''cancelled'', ''timed_out'', ''terminated'', ''running'']) (\<lambda>_.
      rbind (ensure (\<not> (life ''execution'' \<noteq> JStr ''argv'' \<or> life ''exit_scope'' \<noteq> JStr ''direct_child''
          \<or> rec ''format'' \<noteq> JStr (ru_format r) \<or> rec ''session_id'' \<noteq> life ''session_id''))
        ''receipt identity/format/EOF does not match actual command'') (\<lambda>_.
      rbind (ensure (rec ''exit_code'' = life ''exit_code'')
        ''receipt and actual process exit mismatch'') (\<lambda>_.
      if life ''exit_code'' \<noteq> JInt 0 \<or> rec ''status'' = JStr ''failed'' \<or> 0 < count_of (rec ''failed'')
      then Inr ''failed''
      else
        rbind (ensure (\<not> (rec ''scan_complete'' \<noteq> JBool True
            \<or> 0 < count_of (rec ''expected_failures'')
            \<or> rec ''status'' \<noteq> JStr ''passed''
            \<or> 0 < count_of (rec ''flaky'')
            \<or> \<not> at_least (ru_minimum_executed r) (rec ''executed'')
            \<or> \<not> at_least (ru_minimum_executed r) (rec ''minimum_executed'')))
          ''receipt has no stable nonempty passing observation'') (\<lambda>_. Inr ''passed'')))))"

definition input_unchanged :: "command_fact \<Rightarrow> check_files \<Rightarrow> string \<Rightarrow> string + unit" where
  "input_unchanged f files path =
     rbind (ok_or (file_hash files path) ''input unavailable'') (\<lambda>hash.
     ensure (list_ex (\<lambda>x. fi_path x = path \<and> fi_sha256 x = hash) (cf_before f)
         \<and> list_ex (\<lambda>x. fi_path x = path \<and> fi_sha256 x = hash) (cf_after f))
       ''declared input changed before/during/after command'')"

definition command_check ::
  "task_tool_env \<Rightarrow> clause \<Rightarrow> task_state \<Rightarrow> check_files \<Rightarrow> operation \<Rightarrow> string + string" where
  "command_check E c s files op =
     rbind (parse_rule E (cl_parameters c)) (\<lambda>r.
     rbind (ok_or (op_command_fact op) ''operation has no runtime command provenance'') (\<lambda>f.
     rbind (ok_or (state_contract s) ''no contract'') (\<lambda>contract.
     let expected_cwd = declared_cwd E (t_project s) (ru_cwd r) in
     rbind (ensure (\<not> (op_outcome op \<noteq> ''confirmed'' \<or> op_result_kind op \<noteq> Some ''ok''
         \<or> op_tool op \<notin> {''run_command'', ''exec_command''}
         \<or> cf_contract_version f \<noteq> ac_version contract
         \<or> cl_id c \<notin> set (cf_clauses f)
         \<or> (cf_invocation_digest f \<noteq> command_signature E (ru_argv r) (ru_cwd r)
            \<and> cf_invocation_digest f \<noteq> invocation_digest E (ru_argv r) expected_cwd)))
       ''command producer, contract, execution or invocation mismatch'') (\<lambda>_.
     rbind (ok_or (cf_receipt f) ''no complete bounded receipt'') (\<lambda>receipt.
     rbind (ensure (\<not> ((case json_get (cf_lifecycle f) ''cwd'' of None \<Rightarrow> False
           | Some cwd \<Rightarrow> as_str cwd \<noteq> Some expected_cwd)
         \<or> json_index receipt ''invocation_sha256'' \<noteq> JStr (invocation_digest E (ru_argv r) expected_cwd)
         \<or> \<not> at_least 1 (json_index receipt ''session_id'')
         \<or> \<not> at_least 1 (json_index receipt ''owner_generation'')))
       ''actual command/cwd/process identity does not match declared scope'') (\<lambda>_.
     rbind (for_each (input_unchanged f files) (cl_files c)) (\<lambda>_.
     receipt_verdict f receipt r)))))))"

definition command_evaluate ::
  "task_tool_env \<Rightarrow> clause \<Rightarrow> task_state \<Rightarrow> check_files \<Rightarrow> string option \<Rightarrow> checker_outcome" where
  "command_evaluate E c s files operation =
     (case Option.bind operation (\<lambda>i. find (\<lambda>op. op_id op = i) (t_operations s)) of
        None \<Rightarrow> outcome_new ''inconclusive'' ''explicit current-task runtime operation identity required''
      | Some op \<Rightarrow>
          let result = (case command_check E c s files op of
              Inr status \<Rightarrow> outcome_new status
                ''runtime-linked declared command/output observation; coverage and build freshness are not authenticated''
            | Inl e \<Rightarrow> outcome_new ''inconclusive'' e) in
          if op_outcome op = ''confirmed'' \<and> op_command_fact op \<noteq> None
          then result\<lparr>co_operation := Some (op_id op), co_evidence_digest := op_result_digest op\<rparr>
          else result)"

section \<open>Reports\<close>

text \<open>
  A checker is its \<open>validate\<close> and its \<open>evaluate\<close>; an evaluation that panics is \<open>None\<close>.
\<close>

record acceptance_checker =
  ck_validate :: "clause \<Rightarrow> string + unit"
  ck_evaluate :: "clause \<Rightarrow> task_state \<Rightarrow> check_files \<Rightarrow> string option \<Rightarrow> checker_outcome option"

type_synonym checker_map = "string \<times> u32 \<Rightarrow> acceptance_checker option"

definition command_checker :: "task_tool_env \<Rightarrow> acceptance_checker" where
  "command_checker E = \<lparr>ck_validate = command_validate E,
     ck_evaluate = (\<lambda>c s files op. Some (command_evaluate E c s files op))\<rparr>"

definition install_checker ::
  "(string \<times> u32) \<times> acceptance_checker \<Rightarrow> checker_map \<Rightarrow> string + checker_map" where
  "install_checker entry checkers =
     rbind (ensure (\<not> (fst (fst entry) = ''human'' \<or> checkers (fst entry) \<noteq> None))
       ''duplicate/reserved checker'') (\<lambda>_. Inr (checkers(fst entry \<mapsto> snd entry)))"

fun install_checkers ::
  "((string \<times> u32) \<times> acceptance_checker) list \<Rightarrow> checker_map \<Rightarrow> string + checker_map" where
  "install_checkers [] checkers = Inr checkers"
| "install_checkers (e # es) checkers =
     rbind (install_checker e checkers) (install_checkers es)"

definition evaluate_clause ::
  "checker_map \<Rightarrow> check_polls \<Rightarrow> clause \<Rightarrow> task_state \<Rightarrow> check_files \<Rightarrow> string option
   \<Rightarrow> checker_outcome" where
  "evaluate_clause checkers polls p s files operation =
     (if cl_checker p = ''human'' \<and> cl_checker_version p = 1 \<and> cl_source p = ''human'' then
        (if (case t_acceptance_state s of None \<Rightarrow> False
             | Some a \<Rightarrow> list_ex (\<lambda>h. at_clause h = cl_id p) (as_attestations a))
         then outcome_new ''passed'' ''human attestation; not a machine check''
         else outcome_new ''inconclusive'' ''explicit user attestation required'')
      else (case checkers (cl_checker p, cl_checker_version p) of
          None \<Rightarrow> outcome_new ''inconclusive'' ''checker unavailable or unsupported version''
        | Some checker \<Rightarrow>
            (case ck_validate checker p of
               Inl e \<Rightarrow> outcome_new ''inconclusive'' e
             | Inr _ \<Rightarrow>
                 if list_ex (\<lambda>path. \<not> is_ok (snapshot_bytes polls files path)) (cl_files p)
                 then outcome_new ''inconclusive''
                   ''declared source missing, restricted, over limit, cancelled or deadline exceeded''
                 else (case ck_evaluate checker p s files operation of
                     Some result \<Rightarrow>
                       if length (co_reason result) \<le> 2048 \<and> co_status result \<in> set statuses
                       then result
                       else outcome_new ''inconclusive'' ''checker failed or exceeded result limits''
                   | None \<Rightarrow>
                       outcome_new ''inconclusive'' ''checker failed or exceeded result limits''))))"

definition clause_outcome ::
  "checker_map \<Rightarrow> check_polls \<Rightarrow> task_state \<Rightarrow> check_files \<Rightarrow> (string \<times> string) list \<Rightarrow> clause
   \<Rightarrow> clause_result" where
  "clause_outcome checkers polls s files evidence p =
     (let ob = evaluate_clause checkers polls p s files (map_of evidence (cl_id p)) in
      \<lparr>cr_clause = cl_id p, cr_checker = cl_checker p, cr_checker_version = cl_checker_version p,
       cr_status = co_status ob, cr_source = cl_source p, cr_reason = co_reason ob,
       cr_files = concat (map (\<lambda>path. case file_hash files path of None \<Rightarrow> []
         | Some h \<Rightarrow> [\<lparr>fi_path = path, fi_sha256 = h\<rparr>]) (cl_files p)),
       cr_operation = co_operation ob, cr_evidence_digest = co_evidence_digest ob\<rparr>)"

definition unstable_result :: "clause_result \<Rightarrow> clause_result" where
  "unstable_result r = r\<lparr>cr_status := ''inconclusive'',
     cr_reason := ''declared files changed during read or check exceeded cancellation/deadline bounds''\<rparr>"

definition report_limitations :: string where
  "report_limitations = ''Only user-declared clauses, bounded observed bytes and runtime-linked operations. Output signatures do not authenticate coverage, source completeness, observer correctness or future file stability; human confirmations retain their own provenance.''"

definition evidence_valid :: "acceptance_contract \<Rightarrow> (string \<times> string) list \<Rightarrow> bool" where
  "evidence_valid c evidence \<longleftrightarrow>
     \<not> (16 < length evidence
       \<or> list_ex (\<lambda>(i, op). 64 < length i \<or> 80 < length op
           \<or> \<not> list_ex (\<lambda>p. cl_id p = i) (ac_clauses c)) evidence)"

definition compute_report ::
  "task_tool_env \<Rightarrow> checker_map \<Rightarrow> check_polls \<Rightarrow> string \<Rightarrow> task_state \<Rightarrow> (string \<times> string) list
   \<Rightarrow> string + verification_report" where
  "compute_report E checkers polls fresh s evidence =
     rbind (ok_or (t_acceptance_state s) ''no structured acceptance contract'') (\<lambda>a.
     rbind (ok_or (as_contract a) ''no structured acceptance contract'') (\<lambda>c.
     rbind (ensure (evidence_valid c evidence) ''invalid acceptance evidence references'') (\<lambda>_.
     let snapshot = acceptance_snapshot E polls c;
         raw = map (clause_outcome checkers polls s (fst snapshot) evidence) (ac_clauses c);
         results = (if stable_snapshot E polls snapshot then raw else map unstable_result raw) in
     Inr \<lparr>vr_id = ''check-'' @ fresh, vr_task_id = t_id s, vr_project_anchor = t_project_anchor s,
          vr_session = t_session s, vr_contract_version = ac_version c,
          vr_contract_digest = sha256 E (enc_contract E c),
          vr_attestation_digest = sha256 E (enc_attestations E (as_attestations a)),
          vr_status = aggregate c results, vr_results = results,
          vr_limitations = report_limitations\<rparr>)))"

definition check_acceptance ::
  "task_tool_env \<Rightarrow> checker_map \<Rightarrow> check_polls \<Rightarrow> task_io \<Rightarrow> (string \<times> string) list \<Rightarrow> task_sys
   \<Rightarrow> string + verification_report" where
  "check_acceptance E checkers polls io evidence s =
     rbind (task_now (svc E) io ''no current task'' s) (\<lambda>st.
     compute_report E checkers polls (tio_fresh io) st evidence)"

definition report_still_current ::
  "task_tool_env \<Rightarrow> checker_map \<Rightarrow> check_polls \<Rightarrow> task_state \<Rightarrow> verification_report \<Rightarrow> string + unit"
where
  "report_still_current E checkers polls s r =
     rbind (ok_or (t_acceptance_state s) ''no contract'') (\<lambda>a.
     rbind (ok_or (as_contract a) ''no contract'') (\<lambda>c.
     rbind (validate_binding (base E) c (as_attestations a) r) (\<lambda>_.
     let evidence = concat (map (\<lambda>x. case cr_operation x of None \<Rightarrow> []
           | Some op \<Rightarrow> [(cr_clause x, op)]) (vr_results r)) in
     rbind (compute_report E checkers polls [] s evidence) (\<lambda>now.
     ensure (\<not> (vr_status now \<noteq> vr_status r \<or> vr_results now \<noteq> vr_results r
         \<or> vr_contract_digest now \<noteq> vr_contract_digest r
         \<or> vr_attestation_digest now \<noteq> vr_attestation_digest r))
       ''verification evidence is stale; inspect and explicitly verify again''))))"

definition report_still_applicable ::
  "task_tool_env \<Rightarrow> checker_map \<Rightarrow> check_polls \<Rightarrow> task_state \<Rightarrow> verification_report \<Rightarrow> string + unit"
where
  "report_still_applicable E checkers polls s r =
     rbind (ok_or (t_acceptance_state s) ''no contract'') (\<lambda>a.
     rbind (ok_or (as_contract a) ''no contract'') (\<lambda>c.
     rbind (validate_pass (base E) c (as_attestations a) r) (\<lambda>_.
     report_still_current E checkers polls s r)))"

section \<open>The user's contract\<close>

definition contract_update :: "acceptance_contract \<Rightarrow> task_state \<Rightarrow> string + task_state" where
  "contract_update c s =
     (let a = (case t_acceptance_state s of None \<Rightarrow> acceptance_default | Some a \<Rightarrow> a) in
      Inr (s\<lparr>t_acceptance_state := Some (a\<lparr>as_contract := Some c, as_attestations := [],
        as_candidate := None, as_grants := []\<rparr>)\<rparr>))"

definition state_acceptance :: "task_state \<Rightarrow> acceptance_state" where
  "state_acceptance s =
     (case t_acceptance_state s of None \<Rightarrow> acceptance_default | Some a \<Rightarrow> a)"

definition set_acceptance ::
  "task_tool_env \<Rightarrow> checker_map \<Rightarrow> task_io \<Rightarrow> string \<Rightarrow> u64 \<Rightarrow> acceptance_contract \<Rightarrow> task_sys
   \<Rightarrow> task_sys \<times> (string + task_state)" where
  "set_acceptance E checkers io i revision c s =
     guarded (rbind (require_idle ''task must be idle'' s) (\<lambda>_.
         rbind (task_now (svc E) io ''no current task'' s) (\<lambda>st.
         rbind (validate_contract (base E) c (t_acceptance st)) (\<lambda>_.
         rbind (ok_or (next_contract_version (state_acceptance st)) ''contract version exhausted'') (\<lambda>expected.
         rbind (ensure (ac_version c = expected) ''contract version must advance exactly once'') (\<lambda>_.
         for_each (\<lambda>p. case checkers (cl_checker p, cl_checker_version p) of
             None \<Rightarrow> Inr () | Some ck \<Rightarrow> ck_validate ck p) (ac_clauses c)))))))
       (\<lambda>_. task_update (svc E) io i revision (contract_update c)) s"

definition attest_change :: "string \<Rightarrow> string \<Rightarrow> task_state \<Rightarrow> string + task_state" where
  "attest_change clause note s =
     rbind (ok_or (t_acceptance_state s) ''no acceptance contract'') (\<lambda>a.
     rbind (ok_or (as_contract a) ''no acceptance contract'') (\<lambda>c.
     rbind (ensure (\<not> list_ex (\<lambda>h. at_clause h = clause) (as_attestations a))
       ''human clause already confirmed'') (\<lambda>_.
     Inr (s\<lparr>t_acceptance_state := Some (a\<lparr>as_attestations := as_attestations a @
       [\<lparr>at_clause = clause, at_contract_version = ac_version c, at_note = note\<rparr>]\<rparr>)\<rparr>))))"

definition task_attest ::
  "task_service_env \<Rightarrow> task_io \<Rightarrow> string \<Rightarrow> u64 \<Rightarrow> string \<Rightarrow> string \<Rightarrow> task_sys
   \<Rightarrow> task_sys \<times> (string + task_state)" where
  "task_attest E io i revision clause note s =
     guarded (rbind (bounded note 2048) (\<lambda>_. require_idle ''task must be idle'' s))
       (\<lambda>_. task_update E io i revision (attest_change clause note)) s"

definition recheck_change :: "string \<Rightarrow> string \<Rightarrow> task_state \<Rightarrow> string + task_state" where
  "recheck_change fresh clause s =
     rbind (ensure (\<not> has_unknown s)
       ''resolve unknown operations before authorizing a fresh verification'') (\<lambda>_.
     rbind (ok_or (t_acceptance_state s) ''no structured contract'') (\<lambda>a.
     rbind (ok_or (as_contract a) ''no structured contract'') (\<lambda>c.
     rbind (ensure (list_ex (\<lambda>p. cl_id p = clause \<and> cl_checker p = ''command''
         \<and> cl_checker_version p = 1) (ac_clauses c)) ''recheck requires a declared command clause'') (\<lambda>_.
     rbind (ensure (length (as_grants a) < 32) ''verification grant capacity exceeded'') (\<lambda>_.
     Inr (s\<lparr>t_acceptance_state := Some (a\<lparr>as_grants := as_grants a @
       [\<lparr>vg_id = ''recheck-'' @ fresh, vg_clause = clause, vg_contract_version = ac_version c,
         vg_consumed_by = None\<rparr>]\<rparr>)\<rparr>))))))"

definition authorize_recheck ::
  "task_service_env \<Rightarrow> task_io \<Rightarrow> string \<Rightarrow> u64 \<Rightarrow> string \<Rightarrow> task_sys \<Rightarrow> task_sys \<times> (string + task_state)"
where
  "authorize_recheck E io i revision clause s =
     guarded (require_idle ''task must be idle'' s)
       (\<lambda>_. task_update E io i revision (recheck_change (tio_fresh io) clause)) s"

section \<open>Verification and completion\<close>

definition report_change :: "verification_report \<Rightarrow> task_state \<Rightarrow> string + task_state" where
  "report_change report s =
     rbind (ok_or (t_acceptance_state s) ''no contract'') (\<lambda>a.
     rbind (ensure (length (as_reports a) < 8) ''verification report capacity reached'') (\<lambda>_.
     Inr (s\<lparr>t_acceptance_state := Some (a\<lparr>as_reports := as_reports a @ [report]\<rparr>)\<rparr>)))"

text \<open>\<open>cancelled\<close>: the poll between the computation and the save.\<close>

definition save_verification ::
  "task_tool_env \<Rightarrow> checker_map \<Rightarrow> check_polls \<Rightarrow> task_io \<Rightarrow> string \<Rightarrow> u64 \<Rightarrow> (string \<times> string) list
   \<Rightarrow> bool \<Rightarrow> bool \<Rightarrow> task_sys \<Rightarrow> task_sys \<times> (string + task_state)" where
  "save_verification E checkers polls io i revision evidence model cancelled s =
     guarded (rbind (if model then rbind (require_binding i s) (\<lambda>_. Inr ())
           else require_idle ''task must be idle'' s) (\<lambda>_.
         rbind (task_now (svc E) io ''no current task'' s) (\<lambda>st.
         rbind (ensure (\<not> (t_id st \<noteq> i \<or> t_revision st \<noteq> revision)) ''stale task identity/revision'') (\<lambda>_.
         rbind (compute_report E checkers polls (tio_fresh io) st evidence) (\<lambda>report.
         rbind (ensure (\<not> cancelled) ''verification save cancelled'') (\<lambda>_. Inr report))))))
       (\<lambda>report. task_update (svc E) io i revision (report_change report)) s"

definition find_report :: "task_state \<Rightarrow> string \<Rightarrow> verification_report option" where
  "find_report s i = Option.bind (t_acceptance_state s) (\<lambda>a. find (\<lambda>r. vr_id r = i) (as_reports a))"

definition propose_change :: "string \<Rightarrow> string \<Rightarrow> task_state \<Rightarrow> string + task_state" where
  "propose_change report run s =
     rbind (ok_or (t_acceptance_state s) ''no acceptance contract'') (\<lambda>a.
     Inr (s\<lparr>t_acceptance_state := Some (a\<lparr>as_candidate :=
       Some \<lparr>cc_report = report, cc_run = run, cc_state = ''pending''\<rparr>\<rparr>)\<rparr>))"

definition propose_completion ::
  "task_tool_env \<Rightarrow> checker_map \<Rightarrow> check_polls \<Rightarrow> task_io \<Rightarrow> string \<Rightarrow> u64 \<Rightarrow> string \<Rightarrow> task_sys
   \<Rightarrow> task_sys \<times> (string + task_state)" where
  "propose_completion E checkers polls io i revision report s =
     guarded (rbind (require_binding i s) (\<lambda>run.
         rbind (task_now (svc E) io ''no current task'' s) (\<lambda>st.
         rbind (ok_or (find_report st report) ''durable verification report required'') (\<lambda>r.
         rbind (report_still_applicable E checkers polls st r) (\<lambda>_.
         rbind (ensure (\<not> has_unknown st) ''unknown operations block completion candidate'') (\<lambda>_.
         Inr run))))))
       (\<lambda>run. task_update (svc E) io i revision (propose_change report run)) s"

definition verified_state :: "string \<Rightarrow> string \<Rightarrow> bool \<Rightarrow> task_state \<Rightarrow> string + task_state" where
  "verified_state report authority cancelled s =
     rbind (ensure (\<not> cancelled) ''completion cancelled'') (\<lambda>_.
     rbind (ensure (\<not> (has_unknown s
         \<or> (case last_run s of None \<Rightarrow> False | Some r \<Rightarrow> \<not> tr_settled r)))
       ''unresolved operations or unsettled last run block completion'') (\<lambda>_.
     rbind (ok_or (t_acceptance_state s) ''no contract'') (\<lambda>a.
     rbind (ok_or (as_contract a) ''no contract'') (\<lambda>c.
     Inr (s\<lparr>t_acceptance_state := Some (a\<lparr>
            as_candidate := map_option (judged (Some report)) (as_candidate a),
            as_completion := Some \<lparr>cp_kind = completion_kind c, cp_authority = authority,
              cp_report = Some report,
              cp_note = ''Confirmed declared acceptance and current evidence after successful execution settlement''\<rparr>\<rparr>),
          t_phase := ''complete''\<rparr>)))))"

definition finish_verified ::
  "task_tool_env \<Rightarrow> checker_map \<Rightarrow> check_polls \<Rightarrow> task_io \<Rightarrow> string \<Rightarrow> u64 \<Rightarrow> string \<Rightarrow> task_sys
   \<Rightarrow> task_sys \<times> (string + task_state)" where
  "finish_verified E checkers polls io i revision report s =
     guarded (rbind (require_idle ''task must be idle'' s) (\<lambda>_.
         rbind (task_now (svc E) io ''no current task'' s) (\<lambda>st.
         rbind (ok_or (find_report st report) ''durable report required'') (\<lambda>r.
         report_still_applicable E checkers polls st r))))
       (\<lambda>_. task_update (svc E) io i revision (verified_state report ''explicit_user'' False)) s"

definition candidate_state ::
  "task_tool_env \<Rightarrow> checker_map \<Rightarrow> check_polls \<Rightarrow> string \<Rightarrow> bool \<Rightarrow> bool \<Rightarrow> bool \<Rightarrow> task_state
   \<Rightarrow> string + task_state" where
  "candidate_state E checkers polls run successful cancelled cancelled2 s =
     (case t_acceptance_state s of
        None \<Rightarrow> Inr s
      | Some a \<Rightarrow>
          (case as_candidate a of
             None \<Rightarrow> Inr s
           | Some p \<Rightarrow>
               if cc_run p \<noteq> run \<or> cc_state p \<noteq> ''pending'' \<or> terminal s
                  \<or> \<not> (case last_run s of None \<Rightarrow> False | Some r \<Rightarrow> tr_id r = cc_run p \<and> tr_settled r)
               then Inr s
               else if \<not> successful \<or> cancelled then
                 Inr (s\<lparr>t_acceptance_state := Some (a\<lparr>as_candidate :=
                   Some (p\<lparr>cc_state := ''rejected''\<rparr>)\<rparr>)\<rparr>)
               else if \<not> (case as_contract a of None \<Rightarrow> False | Some c \<Rightarrow> ac_allow_model_completion c)
               then Inr s
               else
                 rbind (ok_or (find (\<lambda>r. vr_id r = cc_report p) (as_reports a))
                   ''completion report lost'') (\<lambda>r.
                 rbind (report_still_applicable E checkers polls s r) (\<lambda>_.
                 verified_state (cc_report p) ''user_authorized_model_candidate'' cancelled2 s))))"

definition finalize_candidate ::
  "task_tool_env \<Rightarrow> checker_map \<Rightarrow> check_polls \<Rightarrow> task_io \<Rightarrow> string \<Rightarrow> bool \<Rightarrow> bool \<Rightarrow> bool
   \<Rightarrow> (string \<times> json) list \<Rightarrow> task_sys \<Rightarrow> task_sys \<times> (string + unit)" where
  "finalize_candidate E checkers polls io run successful cancelled cancelled2 closing s =
     guarded (rbind (require_idle ''task must be idle'' s) (\<lambda>_.
         rbind (task_now (svc E) io ''task disappeared before final close'' s) (\<lambda>st.
         rbind (candidate_state E checkers polls run successful cancelled cancelled2 st) (\<lambda>new.
         rbind (if new \<noteq> st
             then rbind (ok_or (checked_add (t_revision st) 1) ''task revision exhausted'')
               (\<lambda>r. Inr (new\<lparr>t_revision := r\<rparr>))
             else Inr new) (\<lambda>new'. Inr (st, new, new'))))))
       (\<lambda>(st, new, new') s.
         if new = st \<and> closing = [] then (s, Inr ())
         else commit_task_batch E io (Some st) new' closing s) s"

end
