(* ===== verification/TaskSafety.thy ===== *)
theory TaskSafety
  imports TaskAccept
begin

text \<open>
  What holds of the task's journal: the fold keeps the task valid and accountable (an instance
  of \<open>journal_fold\<close>), and one event changes the task only in the ways \<open>task_later\<close> lists.
  Of the code serde generates only the round trip \<open>task_codec\<close> is used.
\<close>

definition task_codec :: "('x) task_env_scheme \<Rightarrow> bool" where
  "task_codec E \<longleftrightarrow> (\<forall>s. dec_task E (task_json E s) = Inr s \<and> enc_value E (task_json E s) = enc_task E s)"

section \<open>The fold\<close>

lemma decode_change_valid: "decode_change E j = Inr s \<Longrightarrow> task_validate E s = Inr ()"
  by (auto simp: decode_change_def)

lemma task_validate_size: "task_validate E s = Inr () \<Longrightarrow> length (enc_task E s) \<le> 131072"
  unfolding task_validate_def by (simp only: rbind_eq_Inr ensure_eq_Inr) blast

lemma decode_task_json:
  assumes "task_codec E" and "task_validate (base E) s = Inr ()"
  shows "decode_change (base E) (task_json E s) = Inr s"
  using assms task_validate_size[OF assms(2)]
  by (auto simp: decode_change_def task_codec_def task_env.truncate_def)

text \<open>The two ways a task event is accepted.\<close>

lemma fold_change_cases:
  assumes "fold_change E current data = Inr g"
  obtains (birth) s where "g = Some s" and "task_validate E s = Inr ()" and "valid_birth s"
      and "\<And>old. current = Some old \<Longrightarrow> terminal old \<and> t_id old \<noteq> t_id s"
  | (step) old s where "current = Some old" and "g = Some s" and "task_validate E s = Inr ()"
      and "t_id old = t_id s" and "task_transition E old s = Inr ()"
proof -
  from assms obtain s where s: "decode_change E data = Inr s" and g: "g = Some s"
    and c: "(case current of None \<Rightarrow> ensure (valid_birth s) ''invalid task birth or replacement''
       | Some old \<Rightarrow> if replaceable old s then Inr ()
           else if t_id old = t_id s then task_transition E old s
           else Inl ''invalid task birth or replacement'') = Inr ()"
    by (auto simp: fold_change_def)
  note v = decode_change_valid[OF s]
  show thesis
  proof (cases current)
    case None
    with c v g show ?thesis by (auto intro: that(1))
  next
    case (Some old)
    show ?thesis
    proof (cases "replaceable old s")
      case True
      with Some v g show ?thesis by (auto simp: replaceable_def intro: that(1))
    next
      case False
      with Some c have "t_id old = t_id s" "task_transition E old s = Inr ()"
        by (auto split: if_splits)
      with Some v g show ?thesis by (auto intro: that(2))
    qed
  qed
qed

lemma task_fold_cases:
  assumes "task_fold_event E current ev = Inr g"
  obtains (other) "fst ev \<noteq> ''clat/task''" and "g = current"
  | (birth) s where "g = Some s" and "task_validate E s = Inr ()" and "valid_birth s"
      and "\<And>old. current = Some old \<Longrightarrow> terminal old \<and> t_id old \<noteq> t_id s"
  | (step) old s where "current = Some old" and "g = Some s" and "task_validate E s = Inr ()"
      and "t_id old = t_id s" and "task_transition E old s = Inr ()"
proof (cases "fst ev = ''clat/task''")
  case True
  with assms have "fold_change E current (snd ev) = Inr g" by (simp add: task_fold_event_def)
  then show ?thesis
  proof (cases rule: fold_change_cases)
    case (birth s)
    then show ?thesis by (rule that(2))
  next
    case (step old s)
    then show ?thesis by (rule that(3))
  qed
qed (use assms in \<open>auto simp: task_fold_event_def intro: that\<close>)

section \<open>One transition\<close>

lemma task_transition_parts:
  assumes "task_transition E old new = Inr ()"
  shows "\<not> terminal old" and "checked_add (t_revision old) 1 = Some (t_revision new)"
    and "t_project_anchor old = t_project_anchor new" and "t_project old = t_project new"
    and "t_session old = t_session new" and "t_objective old = t_objective new"
    and "t_acceptance old = t_acceptance new" and "t_budget old = t_budget new"
    and "length (t_runs old) \<le> length (t_runs new)"
    and "length (t_operations old) \<le> length (t_operations new)"
    and "list_all (\<lambda>(a, b). operation_kept a b) (zip (t_operations old) (t_operations new))"
    and "list_all (\<lambda>(a, b). run_kept a b) (zip (t_runs old) (t_runs new))"
    and "validate_change E old new = Inr ()" and "transition_family old new = Inr ()"
  using assms unfolding task_transition_def by (simp_all only: rbind_eq_Inr ensure_eq_Inr) auto

text \<open>The five families, with what each says.\<close>

lemma transition_family_cases:
  assumes "transition_family old new = Inr ()"
  obtains (admission) "t_operations old = t_operations new" and "valid_run_admission old new"
  | (state) "t_operations old = t_operations new" and "t_runs old = t_runs new"
      and "t_phase old = t_phase new \<or> t_phase new \<noteq> ''running''"
      and "t_phase new = ''complete'' \<Longrightarrow> \<not> has_unknown new"
  | (birth) "t_operations old = t_operations new" and "t_progress old = t_progress new"
      and "length (t_runs new) = length (t_runs old) + 1" and "validate_run_birth old new = Inr ()"
  | (operation) "t_runs old = t_runs new" and "t_progress old = t_progress new"
      and "t_phase old = t_phase new" and "validate_operation_change old new = Inr ()"
      and "t_operations old \<noteq> t_operations new"
  | (settlement) "t_operations old = t_operations new" and "t_phase new = ''paused''"
      and "length (t_runs old) = length (t_runs new)" and "valid_settlement old new"
proof -
  define same_ops where "same_ops \<longleftrightarrow> t_operations old = t_operations new"
  define same_runs where "same_runs \<longleftrightarrow> t_runs old = t_runs new"
  define same_progress where "same_progress \<longleftrightarrow> t_progress old = t_progress new"
  note family = assms[unfolded transition_family_def Let_def, folded same_ops_def same_runs_def
      same_progress_def]
  show thesis
  proof (cases "same_ops \<and> same_progress \<and> valid_run_admission old new")
    case True
    then show ?thesis by (intro that(1)) (simp_all add: same_ops_def)
  next
    case False
    note family1 = family[unfolded if_not_P[OF False]]
    show ?thesis
    proof (cases "same_ops \<and> same_runs
        \<and> (t_phase old = t_phase new \<or> same_progress \<and> t_phase new \<noteq> ''running'')")
      case True
      with family1[unfolded if_P[OF True]] show ?thesis
        by (intro that(2)) (auto simp: same_ops_def same_runs_def)
    next
      case False
      note family2 = family1[unfolded if_not_P[OF False]] and no_state = False
      show ?thesis
      proof (cases "same_ops \<and> same_progress \<and> length (t_runs new) = length (t_runs old) + 1")
        case True
        with family2[unfolded if_P[OF True]] show ?thesis
          by (intro that(3)) (simp_all add: same_ops_def same_progress_def)
      next
        case False
        note family3 = family2[unfolded if_not_P[OF False]]
        show ?thesis
        proof (cases "same_runs \<and> same_progress \<and> t_phase old = t_phase new")
          case True
          have "validate_operation_change old new = Inr ()"
            using family3[unfolded if_P[OF True]] .
          moreover have "t_operations old \<noteq> t_operations new"
            using True no_state by (auto simp: same_ops_def)
          ultimately show ?thesis
            using True by (intro that(4)) (simp_all add: same_runs_def same_progress_def)
        next
          case False
          with family3[unfolded if_not_P[OF False]] show ?thesis
            by (intro that(5)) (simp_all add: same_ops_def)
        qed
      qed
    qed
  qed
qed

section \<open>What every replay keeps\<close>

text \<open>
  A running task has an unsettled last run, a completed one no unknown operation, and there are
  never more runs than the budget allows.
\<close>

definition accountable :: "task_state \<Rightarrow> bool" where
  "accountable s \<longleftrightarrow>
     (t_phase s = ''running'' \<longrightarrow> t_runs s \<noteq> [] \<and> \<not> tr_settled (last (t_runs s)))
     \<and> (t_phase s = ''complete'' \<longrightarrow> \<not> has_unknown s)
     \<and> length (t_runs s) \<le> unat (tb_max_runs (t_budget s))"

definition task_inv :: "task_env \<Rightarrow> task_state option \<Rightarrow> bool" where
  "task_inv E g \<longleftrightarrow> (\<forall>s. g = Some s \<longrightarrow> task_validate E s = Inr () \<and> accountable s)"

lemma task_inv_simps [simp]:
  "task_inv E None" "task_inv E (Some s) \<longleftrightarrow> task_validate E s = Inr () \<and> accountable s"
  by (simp_all add: task_inv_def)

lemma task_validate_parts:
  assumes "task_validate E s = Inr ()"
  shows "t_phase s \<in> {''paused'', ''running'', ''complete'', ''cancelled''}"
    and "t_revision s \<noteq> 0" and "budget_ok (t_budget s)"
    and "length (t_runs s) \<le> 32" and "length (t_operations s) \<le> 128"
    and "validate_execution E s = Inr ()" and "validate_snapshot E s = Inr ()"
  using assms unfolding task_validate_def by (simp_all only: rbind_eq_Inr ensure_eq_Inr) auto

lemma last_run_Some [simp]: "last_run s = Some r \<longleftrightarrow> t_runs s \<noteq> [] \<and> r = last (t_runs s)"
  by (auto simp: last_run_def split: list.splits)

lemma last_run_None [simp]: "last_run s = None \<longleftrightarrow> t_runs s = []"
  by (auto simp: last_run_def split: list.splits)

lemma run_birth_parts:
  assumes "validate_run_birth old new = Inr ()"
  obtains run where "t_runs new \<noteq> []" and "run = last (t_runs new)" and "t_phase new = ''running''"
    and "fst (snd (remaining old)) \<noteq> 0" and "\<not> tr_settled run" and "tr_turn run = None"
    and "tr_tokens run \<noteq> 0" and "tr_elapsed_ms run \<noteq> 0"
    and "tr_tokens run \<le> min (fst (remaining old)) (tb_run_tokens (t_budget old))"
    and "tr_elapsed_ms run \<le> min (snd (snd (remaining old)))
      (ucast (tb_run_seconds (t_budget old)) * 1000)"
    and "t_runs old = take (length (t_runs old)) (t_runs new)"
  using assms that by (cases "remaining old") (auto simp: validate_run_birth_def not_less)

lemma runs_left:
  assumes "length (t_runs s) \<le> 32" and "fst (snd (remaining s)) \<noteq> 0"
  shows "length (t_runs s) + 1 \<le> unat (tb_max_runs (t_budget s))"
proof -
  have "unat (word_of_nat (length (t_runs s)) :: u32) = length (t_runs s)"
    using assms(1) by (simp add: unsigned_of_nat take_bit_nat_eq_self)
  then have "unat (fst (snd (remaining s))) = unat (tb_max_runs (t_budget s)) - length (t_runs s)"
    by (simp add: remaining_def unat_saturating_sub)
  moreover have "unat (fst (snd (remaining s))) \<noteq> 0" using assms(2) by (simp add: unat_gt_0)
  ultimately show ?thesis by linarith
qed

lemma transition_accountable:
  assumes old: "task_validate E old = Inr ()" "accountable old"
    and tr: "task_transition E old new = Inr ()"
  shows "accountable new"
proof -
  note parts = task_transition_parts[OF tr]
  have b: "t_budget new = t_budget old" using parts(8) by simp
  have live: "t_phase old \<noteq> ''complete''" using parts(1) by (simp add: terminal_def)
  from parts(14) show ?thesis
  proof (cases rule: transition_family_cases)
    case admission
    then have "t_phase new = ''running''" "length (t_runs old) = length (t_runs new)" "t_runs new \<noteq> []"
      "\<not> tr_settled (last (t_runs new))"
      by (auto simp: valid_run_admission_def is_run_admission_def dest!: arg_cong[of _ _ tr_settled])
    with old(2) b show ?thesis by (simp add: accountable_def)
  next
    case state
    with old(2) b show ?thesis by (auto simp: accountable_def)
  next
    case birth
    from birth(4) obtain run where "t_runs new \<noteq> []" "run = last (t_runs new)"
      "t_phase new = ''running''" "fst (snd (remaining old)) \<noteq> 0" "\<not> tr_settled run"
      by (rule run_birth_parts)
    with runs_left[OF task_validate_parts(4)[OF old(1)]] birth(3) b show ?thesis
      by (simp add: accountable_def)
  next
    case operation
    with old(2) b live show ?thesis by (auto simp: accountable_def)
  next
    case settlement
    with old(2) b show ?thesis by (simp add: accountable_def)
  qed
qed

lemma birth_accountable: "valid_birth s \<Longrightarrow> accountable s"
  by (simp add: valid_birth_def accountable_def)

interpretation task_fold: journal_fold "task_fold_event E" "task_inv E" for E
proof
  fix g ev g'
  assume inv: "task_inv E g" and step: "task_fold_event E g ev = Inr g'"
  from step show "task_inv E g'"
  proof (cases rule: task_fold_cases)
    case other
    with inv show ?thesis by simp
  next
    case (birth s)
    then show ?thesis by (simp add: birth_accountable)
  next
    case (step old s)
    with inv transition_accountable[of E old s] show ?thesis by simp
  qed
qed

section \<open>What one task keeps over its life\<close>

text \<open>A list that only grows, with entries that only change as \<open>R\<close> allows.\<close>

definition grows :: "('a \<Rightarrow> 'a \<Rightarrow> bool) \<Rightarrow> 'a list \<Rightarrow> 'a list \<Rightarrow> bool" where
  "grows R xs ys \<longleftrightarrow> length xs \<le> length ys \<and> (\<forall>i<length xs. R (xs ! i) (ys ! i))"

lemma grows_refl: "(\<And>x. R x x) \<Longrightarrow> grows R xs xs"
  by (simp add: grows_def)

lemma grows_trans:
  assumes "\<And>x y z. R x y \<Longrightarrow> R y z \<Longrightarrow> R x z" and "grows R xs ys" and "grows R ys zs"
  shows "grows R xs zs"
  using assms by (simp add: grows_def) (meson less_le_trans order_trans)

lemma grows_zip:
  assumes "length xs \<le> length ys" and "list_all (\<lambda>(a, b). Q a b) (zip xs ys)"
    and "\<And>a b. Q a b \<Longrightarrow> R a b"
  shows "grows R xs ys"
  unfolding grows_def
proof (intro conjI allI impI)
  fix i assume i: "i < length xs"
  with assms(1) have "(xs ! i, ys ! i) \<in> set (zip xs ys)" by (auto simp: set_zip)
  with assms(2,3) show "R (xs ! i) (ys ! i)" by (auto simp: list_all_iff)
qed (rule assms(1))

lemma grows_prefix:
  assumes "xs = take (length xs) ys" and "\<And>x. R x x"
  shows "grows R xs ys"
  unfolding grows_def
proof (intro conjI allI impI)
  show "length xs \<le> length ys" using arg_cong[OF assms(1), of length] by simp
  fix i assume "i < length xs"
  then have "xs ! i = ys ! i" by (subst assms(1)) simp
  then show "R (xs ! i) (ys ! i)" by (simp add: assms(2))
qed

definition run_follows :: "task_run \<Rightarrow> task_run \<Rightarrow> bool" where
  "run_follows a b \<longleftrightarrow> tr_id a = tr_id b \<and> (tr_turn a \<noteq> None \<longrightarrow> tr_turn b = tr_turn a)
     \<and> (tr_settled a \<longrightarrow> b = a)
     \<and> (\<not> tr_settled b \<longrightarrow> tr_tokens b = tr_tokens a \<and> tr_elapsed_ms b = tr_elapsed_ms a)"

definition grant_follows :: "verification_grant \<Rightarrow> verification_grant \<Rightarrow> bool" where
  "grant_follows g h \<longleftrightarrow> vg_id g = vg_id h \<and> vg_clause g = vg_clause h
     \<and> vg_contract_version g = vg_contract_version h \<and> (vg_consumed_by g \<noteq> None \<longrightarrow> h = g)"

definition reports_of :: "task_state \<Rightarrow> verification_report list" where
  "reports_of s = as_reports (state_acceptance s)"

definition grants_of :: "task_state \<Rightarrow> verification_grant list" where
  "grants_of s = as_grants (state_acceptance s)"

definition version_of :: "task_state \<Rightarrow> nat" where
  "version_of s = (case as_contract (state_acceptance s) of None \<Rightarrow> 0 | Some c \<Rightarrow> unat (ac_version c))"

text \<open>
  The task a state has become: the same identity and terms, a later revision, operations and
  runs that only gain facts, reports and unchanged contracts that stay, and recheck grants that
  are consumed at most once. A terminal task stays as it is.
\<close>

definition task_later :: "task_state \<Rightarrow> task_state \<Rightarrow> bool" where
  "task_later s s' \<longleftrightarrow>
     t_id s = t_id s' \<and> t_project s = t_project s' \<and> t_project_anchor s = t_project_anchor s'
     \<and> t_session s = t_session s' \<and> t_objective s = t_objective s'
     \<and> t_acceptance s = t_acceptance s' \<and> t_budget s = t_budget s'
     \<and> (s' = s \<or> \<not> terminal s \<and> t_revision s < t_revision s')
     \<and> grows operation_kept (t_operations s) (t_operations s')
     \<and> grows run_follows (t_runs s) (t_runs s')
     \<and> grows (=) (reports_of s) (reports_of s')
     \<and> version_of s \<le> version_of s'
     \<and> (version_of s = version_of s' \<longrightarrow>
          as_contract (state_acceptance s) = as_contract (state_acceptance s')
          \<and> grows grant_follows (grants_of s) (grants_of s'))"

lemma operation_kept_refl: "operation_kept a a"
  by (simp add: operation_kept_def immutable_command_def split: option.splits)

lemma operation_kept_trans:
  assumes "operation_kept a b" and "operation_kept b c"
  shows "operation_kept a c"
proof -
  have "immutable_command a c"
    using assms by (auto simp: operation_kept_def immutable_command_def split: option.splits)
  with assms show ?thesis by (auto simp: operation_kept_def)
qed

lemma run_follows_trans: "run_follows a b \<Longrightarrow> run_follows b c \<Longrightarrow> run_follows a c"
  by (auto simp: run_follows_def)

lemma grant_follows_trans: "grant_follows a b \<Longrightarrow> grant_follows b c \<Longrightarrow> grant_follows a c"
  by (auto simp: grant_follows_def)

lemma task_later_refl: "task_later s s"
  by (simp add: task_later_def grows_refl operation_kept_refl run_follows_def grant_follows_def)

lemma task_later_trans:
  assumes 1: "task_later s t" and 2: "task_later t u"
  shows "task_later s u"
proof -
  have ops: "grows operation_kept (t_operations s) (t_operations u)"
    using 1 2 operation_kept_trans unfolding task_later_def by (blast intro: grows_trans)
  have runs: "grows run_follows (t_runs s) (t_runs u)"
    using 1 2 run_follows_trans unfolding task_later_def by (blast intro: grows_trans)
  have reports: "grows (=) (reports_of s) (reports_of u)"
    using 1 2 grows_trans[of "(=)" "reports_of s" "reports_of t"] unfolding task_later_def by blast
  have rev: "u = s \<or> \<not> terminal s \<and> t_revision s < t_revision u"
    using 1 2 unfolding task_later_def by (elim conjE) (metis order_less_trans)
  have ver: "version_of s \<le> version_of t" "version_of t \<le> version_of u"
    using 1 2 by (simp_all add: task_later_def)
  have grants: "as_contract (state_acceptance s) = as_contract (state_acceptance u)
      \<and> grows grant_follows (grants_of s) (grants_of u)" if "version_of s = version_of u"
  proof -
    from that ver have "version_of s = version_of t" "version_of t = version_of u" by simp_all
    with 1 2 have "as_contract (state_acceptance s) = as_contract (state_acceptance t)
        \<and> grows grant_follows (grants_of s) (grants_of t)"
      "as_contract (state_acceptance t) = as_contract (state_acceptance u)
        \<and> grows grant_follows (grants_of t) (grants_of u)"
      by (simp_all add: task_later_def)
    then show ?thesis using grows_trans[OF grant_follows_trans] by auto
  qed
  have ids: "t_id s = t_id u \<and> t_project s = t_project u \<and> t_project_anchor s = t_project_anchor u
      \<and> t_session s = t_session u \<and> t_objective s = t_objective u
      \<and> t_acceptance s = t_acceptance u \<and> t_budget s = t_budget u"
    using 1 2 unfolding task_later_def by (elim conjE) (intro conjI; simp only:)
  from ids rev ops runs reports le_trans[OF ver] grants show ?thesis
    unfolding task_later_def by (intro conjI impI) simp_all
qed

text \<open>The acceptance changes one event may make.\<close>

lemma acceptance_cases:
  assumes "validate_change E old new = Inr ()"
  obtains (same) "t_acceptance_state old = t_acceptance_state new"
  | (contract) b where "t_acceptance_state new = Some b"
      and "contract_change old new (state_acceptance old) b = Inr ()"
  | (completion) b where "t_acceptance_state new = Some b"
      and "completion_change old new (state_acceptance old) b = Inr ()"
  | (grant) b where "t_acceptance_state new = Some b" and "t_phase old = t_phase new"
      and "grant_change old new (state_acceptance old) b = Inr ()"
  | (history) b where "t_acceptance_state new = Some b" and "t_phase old = t_phase new"
      and "as_contract b = as_contract (state_acceptance old)"
      and "as_completion b = as_completion (state_acceptance old)"
      and "as_grants b = as_grants (state_acceptance old)"
      and "as_reports (state_acceptance old)
        = take (length (as_reports (state_acceptance old))) (as_reports b)"
      and "history_change E new (state_acceptance old) b = Inr ()"
proof (cases "t_acceptance_state old = t_acceptance_state new")
  case False
  define a where "a = state_acceptance old"
  note h = assms[unfolded validate_change_def if_not_P[OF False] Let_def,
      folded state_acceptance_def, folded a_def]
  obtain b where b: "t_acceptance_state new = Some b"
    and mono: "\<not> (length (as_reports b) < length (as_reports a)
      \<or> as_reports a \<noteq> take (length (as_reports a)) (as_reports b))"
    and rest: "(if as_contract a \<noteq> as_contract b then contract_change old new a b
        else if as_completion a \<noteq> as_completion b then completion_change old new a b
        else rbind (ensure (t_phase old = t_phase new) ''acceptance cannot change task phase'') (\<lambda>_.
          if as_grants a \<noteq> as_grants b then grant_change old new a b
          else rbind (ensure (t_operations old = t_operations new)
              ''acceptance cannot rewrite execution'') (\<lambda>_.
            history_change E new a b))) = Inr ()"
    using h by (simp only: rbind_eq_Inr ensure_eq_Inr ok_or_eq_Inr) (elim exE conjE, rule that)
  from mono have reports: "as_reports a = take (length (as_reports a)) (as_reports b)" by simp
  consider "contract_change old new a b = Inr ()" | "completion_change old new a b = Inr ()"
    | "t_phase old = t_phase new" "grant_change old new a b = Inr ()"
    | "t_phase old = t_phase new" "as_contract b = as_contract a" "as_completion b = as_completion a"
      "as_grants b = as_grants a" "history_change E new a b = Inr ()"
    using rest by (auto split: if_splits)
  then show ?thesis
    using b reports unfolding a_def by cases (blast intro: that)+
qed (rule that(1))

lemma contract_version_moves:
  assumes "contract_change old new a b = Inr ()" and "t_acceptance_state new = Some b"
    and "a = state_acceptance old"
  shows "version_of old < version_of new"
proof -
  from assms(1) obtain v c where v: "next_contract_version a = Some v"
    and c: "as_contract b = Some c" "ac_version c = v"
    unfolding contract_change_def
    by (simp only: rbind_eq_Inr ensure_eq_Inr ok_or_eq_Inr) (auto split: option.splits)
  have new: "version_of new = unat v"
    using assms(2) c by (simp add: version_of_def state_acceptance_def)
  show ?thesis
  proof (cases "as_contract a")
    case None
    with v assms(3) new show ?thesis
      by (simp add: next_contract_version_def version_of_def)
  next
    case (Some d)
    with v have "checked_add (ac_version d) 1 = Some v" by (simp add: next_contract_version_def)
    from checked_succ_gt[OF this] Some assms(3) new show ?thesis by (simp add: version_of_def)
  qed
qed

lemma contract_keeps_reports:
  "contract_change old new a b = Inr () \<Longrightarrow> as_reports b = as_reports a"
  unfolding contract_change_def by (simp only: rbind_eq_Inr ensure_eq_Inr) auto

lemma completion_change_keeps:
  assumes "completion_change old new a b = Inr ()"
  shows "as_reports b = as_reports a \<and> as_contract b = as_contract a \<and> as_grants b = as_grants a
    \<and> as_attestations b = as_attestations a \<and> as_completion b \<noteq> None"
proof -
  from assms obtain d where d: "as_completion b = Some d"
    and b: "b = a\<lparr>as_completion := as_completion b,
      as_candidate := map_option (judged (cp_report d)) (as_candidate a)\<rparr>"
    unfolding completion_change_def
    by (simp only: rbind_eq_Inr ensure_eq_Inr ok_or_eq_Inr) (elim exE conjE, rule that)
  from arg_cong[OF b, of as_reports] arg_cong[OF b, of as_contract] arg_cong[OF b, of as_grants]
    arg_cong[OF b, of as_attestations] d
  show ?thesis by simp
qed

text \<open>One grant is appended unused, or one unused grant is consumed by a new operation.\<close>

lemma grant_change_cases:
  assumes "grant_change old new a b = Inr ()"
  obtains (appended) "b = a\<lparr>as_grants := as_grants b\<rparr>" and "grants_appended old new a b"
      and "\<not> has_unknown old"
  | (consumed) x y op where "b = a\<lparr>as_grants := as_grants b\<rparr>"
      and "length (as_grants b) = length (as_grants a)"
      and "changed (as_grants a) (as_grants b) = [(x, y)]" and "vg_consumed_by x = None"
      and "y = x\<lparr>vg_consumed_by := Some (op_id op)\<rparr>"
      and "t_operations new = t_operations old @ [op]"
proof -
  from assms have frame: "b = a\<lparr>as_grants := as_grants b\<rparr>"
    and rest: "(if grants_appended old new a b
     then ensure (\<not> has_unknown old) ''unknown operations block recheck authority''
     else
       rbind (ensure (\<not> (length (as_grants b) \<noteq> length (as_grants a)
           \<or> length (t_operations new) \<noteq> length (t_operations old) + 1
           \<or> t_operations old \<noteq> take (length (t_operations old)) (t_operations new)))
         ''grant must be consumed with one new operation intent'') (\<lambda>_.
       case changed (as_grants a) (as_grants b) of
         [(x, y)] \<Rightarrow>
           let op = last (t_operations new) in
           ensure (\<not> (vg_consumed_by x \<noteq> None \<or> x\<lparr>vg_consumed_by := Some (op_id op)\<rparr> \<noteq> y
               \<or> \<not> (case op_command_fact op of None \<Rightarrow> False | Some f \<Rightarrow>
                      cf_contract_version f = vg_contract_version x
                      \<and> vg_clause x \<in> set (cf_clauses f))))
             ''grant consumer differs from confirmed verification scope''
       | _ \<Rightarrow> Inl ''consume exactly one grant'')) = Inr ()"
    unfolding grant_change_def by (simp_all only: rbind_eq_Inr ensure_eq_Inr) blast+
  show thesis
  proof (cases "grants_appended old new a b")
    case True
    with frame rest show ?thesis by (intro that(1)) simp_all
  next
    case False
    with rest have len: "length (as_grants b) = length (as_grants a)"
      and ops: "length (t_operations new) = length (t_operations old) + 1"
        "t_operations old = take (length (t_operations old)) (t_operations new)"
      by auto
    from False rest obtain x y where xy: "changed (as_grants a) (as_grants b) = [(x, y)]"
      "vg_consumed_by x = None" "y = x\<lparr>vg_consumed_by := Some (op_id (last (t_operations new)))\<rparr>"
      by (auto simp: Let_def split: list.splits prod.splits)
    have "t_operations new = t_operations old @ [last (t_operations new)]"
      using ops by (metis Suc_eq_plus1 append_butlast_last_id butlast_conv_take diff_Suc_1
          length_0_conv nat.distinct(1))
    with frame len xy show ?thesis by (rule that(2))
  qed
qed

lemma report_history_kept:
  assumes "validate_change E old new = Inr ()"
  shows "grows (=) (reports_of old) (reports_of new)"
  using assms
proof (cases rule: acceptance_cases)
  case same
  then show ?thesis by (simp add: reports_of_def state_acceptance_def grows_refl)
next
  case (contract b)
  from contract_keeps_reports[OF contract(2)] contract(1) show ?thesis
    by (simp add: reports_of_def state_acceptance_def grows_refl)
next
  case (completion b)
  from completion_change_keeps[OF completion(2)] completion(1) show ?thesis
    by (simp add: reports_of_def state_acceptance_def grows_refl)
next
  case (grant b)
  from grant(3) have "b = (state_acceptance old)\<lparr>as_grants := as_grants b\<rparr>"
    by (cases rule: grant_change_cases) simp_all
  from arg_cong[OF this, of as_reports] grant(1) show ?thesis
    by (simp add: reports_of_def state_acceptance_def grows_refl)
next
  case (history b)
  then show ?thesis by (simp add: reports_of_def state_acceptance_def grows_prefix)
qed

lemma grants_appended_grow: "grants_appended old new a b \<Longrightarrow> grows grant_follows (as_grants a) (as_grants b)"
  by (auto simp: grants_appended_def grant_follows_def intro: grows_prefix)

lemma grant_consumed_grow:
  assumes "length ys = length xs" and "changed xs ys = [(x, y)]" and "grant_follows x y"
  shows "grows grant_follows xs ys"
  unfolding grows_def
proof (intro conjI allI impI)
  fix i assume i: "i < length xs"
  have "xs ! i = ys ! i \<or> (xs ! i, ys ! i) \<in> set (changed xs ys)"
    using i assms(1) by (auto simp: changed_def set_zip)
  with assms(2,3) show "grant_follows (xs ! i) (ys ! i)" by (auto simp: grant_follows_def)
qed (use assms(1) in simp)

lemma grant_change_grows:
  assumes "grant_change old new a b = Inr ()"
  shows "as_contract b = as_contract a \<and> grows grant_follows (as_grants a) (as_grants b)"
  using assms
proof (cases rule: grant_change_cases)
  case appended
  have "as_contract b = as_contract a" using arg_cong[OF appended(1), of as_contract] by simp
  with grants_appended_grow[OF appended(2)] show ?thesis by simp
next
  case (consumed x y op)
  then have "grant_follows x y" by (simp add: grant_follows_def)
  with consumed(2,3) have "grows grant_follows (as_grants a) (as_grants b)"
    by (rule grant_consumed_grow)
  moreover have "as_contract b = as_contract a"
    using arg_cong[OF consumed(1), of as_contract] by simp
  ultimately show ?thesis by simp
qed

lemma contract_kept:
  assumes "validate_change E old new = Inr ()"
  shows "version_of old \<le> version_of new \<and> (version_of old = version_of new \<longrightarrow>
    as_contract (state_acceptance old) = as_contract (state_acceptance new)
    \<and> grows grant_follows (grants_of old) (grants_of new))"
proof -
  have keep: ?thesis if "as_contract (state_acceptance new) = as_contract (state_acceptance old)"
    "grows grant_follows (grants_of old) (grants_of new)"
    using that by (simp add: version_of_def)
  note eqs = grants_of_def state_acceptance_def grows_refl grant_follows_def
  from assms show ?thesis
  proof (cases rule: acceptance_cases)
    case same
    then show ?thesis by (intro keep) (simp_all add: eqs)
  next
    case (contract b)
    with contract_version_moves[OF contract(2,1) refl] show ?thesis by simp
  next
    case (completion b)
    with completion_change_keeps[OF completion(2)] show ?thesis
      by (intro keep) (simp_all add: eqs)
  next
    case (grant b)
    have "state_acceptance new = b" using grant(1) by (simp add: state_acceptance_def)
    with grant_change_grows[OF grant(3)] show ?thesis
      by (intro keep) (simp_all add: grants_of_def)
  next
    case (history b)
    then show ?thesis by (intro keep) (simp_all add: eqs)
  qed
qed

lemma run_kept_follows: "run_kept a b \<Longrightarrow> run_follows a b"
proof -
  assume k: "run_kept a b"
  have adm: "tr_turn a = None \<and> tr_tokens b = tr_tokens a \<and> tr_elapsed_ms b = tr_elapsed_ms a"
    if "is_run_admission a b"
  proof -
    from that have "b = a\<lparr>tr_turn := tr_turn b\<rparr>" "tr_turn a = None"
      by (simp_all add: is_run_admission_def)
    from arg_cong[OF this(1), of tr_tokens] arg_cong[OF this(1), of tr_elapsed_ms] this(2)
    show ?thesis by simp
  qed
  have "tr_turn b = tr_turn a" if "tr_turn a \<noteq> None"
    using k that adm by (auto simp: run_kept_def)
  moreover have "tr_tokens b = tr_tokens a \<and> tr_elapsed_ms b = tr_elapsed_ms a" if "\<not> tr_settled b"
    using k that adm by (cases "a = b") (auto simp: run_kept_def)
  ultimately show ?thesis using k by (auto simp: run_follows_def run_kept_def)
qed

lemma task_transition_later:
  assumes "t_id old = t_id new" and tr: "task_transition E old new = Inr ()"
  shows "task_later old new"
proof -
  note p = task_transition_parts[OF tr]
  have rev: "t_revision old < t_revision new"
    using checked_succ_gt[OF p(2)] by (simp add: word_less_nat_alt)
  have ops: "grows operation_kept (t_operations old) (t_operations new)"
    by (rule grows_zip[OF p(10,11)])
  have runs: "grows run_follows (t_runs old) (t_runs new)"
    by (rule grows_zip[OF p(9,12) run_kept_follows])
  show ?thesis
    unfolding task_later_def
    using assms(1) p(1,3-8) rev ops runs report_history_kept[OF p(13)] contract_kept[OF p(13)]
    by (intro conjI) simp_all
qed

text \<open>Over any extension of the journal, up to the point where the task is replaced.\<close>

lemma journal_later:
  assumes "replay (task_fold_event E) (Some s) es = Inr g"
  shows "\<exists>xs ys u. es = xs @ ys \<and> replay (task_fold_event E) (Some s) xs = Inr (Some u)
    \<and> task_later s u \<and> (ys = [] \<and> g = Some u \<or> terminal u)"
  using assms
proof (induction es arbitrary: s)
  case Nil
  then have "g = Some s" by simp
  then show ?case using task_later_refl by (intro exI[of _ "[]"]) auto
next
  case (Cons e es)
  then obtain g1 where e: "task_fold_event E (Some s) e = Inr g1"
    and rest: "replay (task_fold_event E) g1 es = Inr g" by auto
  have on: ?case if g1: "g1 = Some t" and l: "task_later s t" for t
  proof -
    from Cons.IH[OF rest[unfolded g1]] obtain xs ys u where "es = xs @ ys"
      "replay (task_fold_event E) (Some t) xs = Inr (Some u)" "task_later t u"
      "ys = [] \<and> g = Some u \<or> terminal u" by auto
    with e g1 l show ?thesis
      by (intro exI[of _ "e # xs"] exI[of _ ys] exI[of _ u]) (auto intro: task_later_trans)
  qed
  from e show ?case
  proof (cases rule: task_fold_cases)
    case other
    then show ?thesis using on task_later_refl by auto
  next
    case (birth t)
    then have "terminal s" by auto
    then show ?thesis using task_later_refl
      by (intro exI[of _ "[]"] exI[of _ "e # es"] exI[of _ s]) auto
  next
    case (step old t)
    then show ?thesis using on task_transition_later[of s t E] by auto
  qed
qed

end
