(* ===== verification/TaskReach.thy ===== *)
theory TaskReach
  imports TaskSafety
begin

text \<open>
  The task service over its journal: what one commit and one update do to a consistent state,
  all calls of the service as one interface, the states they reach, and the service as a
  compare-and-set store (an instance of \<open>cas_store\<close>).
\<close>

abbreviation task_replay :: "('x) task_env_scheme \<Rightarrow> (string \<times> json) list \<Rightarrow> string + task_state option" where
  "task_replay E log \<equiv> replay (task_fold_event (base E)) None log"

definition task_neutral :: "(string \<times> json) list \<Rightarrow> bool" where
  "task_neutral es \<longleftrightarrow> (\<forall>e\<in>set es. fst e \<noteq> ''clat/task'')"

lemma base_svc [simp]: "base (svc E) = base E"
  by (simp add: task_env.truncate_def task_service_env.truncate_def)

lemma base_fields [simp]:
  "task_json (base E) = task_json E" "dec_task (base E) = dec_task E"
  "enc_value (base E) = enc_value E" "enc_task (base E) = enc_task E" "sha256 (base E) = sha256 E"
  "enc_contract (base E) = enc_contract E" "enc_attestations (base E) = enc_attestations E"
  by (simp_all add: task_env.truncate_def)

lemma codec_base [simp]: "task_codec (base E) \<longleftrightarrow> task_codec E"
  by (simp add: task_codec_def)

lemma svc_fields [simp]:
  "task_json (svc E) = task_json E" "dec_task (svc E) = dec_task E"
  "enc_value (svc E) = enc_value E" "enc_task (svc E) = enc_task E" "sha256 (svc E) = sha256 E"
  by (simp_all add: task_service_env.truncate_def)

lemma codec_svc [simp]: "task_codec (svc E) \<longleftrightarrow> task_codec E"
  by (simp add: task_codec_def)

lemma task_replay_inv: "task_replay E log = Inr g \<Longrightarrow> task_inv (base E) g"
  using task_fold.replay_inv[of "base E" None log g] by simp

lemma neutral_task_replay: "task_neutral es \<Longrightarrow> replay (task_fold_event E) g es = Inr g"
  by (induction es) (auto simp: task_neutral_def task_fold_event_def)

lemma session_task_replay:
  assumes "task_codec E" and "ts_session s = Some x" and "task_replay E (ts_log s) = Inr g"
  shows "session_task E s = Inr g"
proof -
  have p: "task_projection E (ts_log s) = g"
    using assms(3) by (simp add: task_projection_def refresh_replay)
  show ?thesis
    using task_replay_inv[OF assms(3)] assms(1,2) p
    by (cases g) (simp_all add: session_task_def decode_task_json)
qed

lemma task_codecD: "task_codec E \<Longrightarrow> dec_task E (task_json E s) = Inr s"
  by (simp add: task_codec_def)

lemma fold_task_json:
  assumes "task_codec E" and "fold_change (base E) g (task_json E s) = Inr g'"
  shows "g' = Some s"
  using assms by (auto simp: fold_change_def decode_change_def task_codecD)

section \<open>One commit\<close>

lemma commit_cases:
  assumes E: "task_codec E" and log: "task_replay E (ts_log s) = Inr g" and tail: "task_neutral tail"
    and run: "commit_task_batch E io previous new tail s = (s', r)"
  obtains (refused) e where "s' = s" and "r = Inl e"
  | (written) es where "g = previous" and "s' = s\<lparr>ts_log := ts_log s @ es\<rparr>"
      and "task_replay E (ts_log s @ es) = Inr (Some new)" and "\<not> ts_read_only s"
      and "ts_session s = Some (t_session new, t_project new)"
      and "previous \<noteq> Some new \<Longrightarrow> fold_change (base E) g (task_json E new) = Inr (Some new)"
      and "tio_append io = AppendOk \<and> r = Inr () \<or> (\<exists>e. r = Inl e)"
proof -
  let ?check = "rbind (ok_or (ts_session s) ''task requires an active session'') (\<lambda>(session, project).
      rbind (ensure (\<not> ts_read_only s) ''session is read-only'') (\<lambda>_.
      rbind (ensure (\<not> (session \<noteq> t_session new \<or> project \<noteq> t_project new))
        ''task project/session ownership mismatch'') (\<lambda>_.
      rbind (session_task E s) (\<lambda>current.
      rbind (ensure (current = previous) ''task changed; inspect again'') (\<lambda>_.
      if previous \<noteq> Some new
      then rbind (fold_change (base E) current (task_json E new)) (\<lambda>_.
           Inr [(''clat/task'', task_json E new)])
      else Inr [])))))"
  show thesis
  proof (cases ?check)
    case (Inl e)
    with run have "s' = s" "r = Inl e" by (simp_all add: commit_task_batch_def)
    then show ?thesis by (rule that(1))
  next
    case (Inr events)
    then have ses: "ts_session s = Some (t_session new, t_project new)" and ro: "\<not> ts_read_only s"
      by auto
    from session_task_replay[OF E ses log] Inr ses have g: "g = previous"
      by (auto split: if_splits)
    from session_task_replay[OF E ses log] Inr ses g
    have events: "if previous \<noteq> Some new
        then events = [(''clat/task'', task_json E new)]
          \<and> (\<exists>h. fold_change (base E) g (task_json E new) = Inr h)
        else events = []" by auto
    have fold: "fold_change (base E) g (task_json E new) = Inr (Some new)" if "previous \<noteq> Some new"
      using that events fold_task_json[OF E] by auto
    have ev: "task_replay E (ts_log s @ events) = Inr (Some new)"
      using events fold log g by (auto simp: replay_append task_fold_event_def split: if_splits)
    have all: "task_replay E (ts_log s @ events @ tail) = Inr (Some new)"
      using ev neutral_task_replay[OF tail, of "base E" "Some new"]
      by (simp only: append_assoc [symmetric] replay_append[of _ _ _ tail] rbind_simps)
    from run Inr have res: "(s', r) = (case tio_append io of
        AppendOk \<Rightarrow> (s\<lparr>ts_log := ts_log s @ events @ tail\<rparr>, Inr ())
      | AppendFailed e w \<Rightarrow> ((if w then s\<lparr>ts_log := ts_log s @ events @ tail\<rparr> else s), Inl e))"
      by (simp add: commit_task_batch_def)
    show ?thesis
    proof (cases "tio_append io")
      case AppendOk
      with res show ?thesis
        by (intro that(2)[OF g _ all ro ses fold]) simp_all
    next
      case (AppendFailed e w)
      with res show ?thesis
        by (cases w) (auto intro: that(1) that(2)[OF g _ all ro ses fold])
    qed
  qed
qed

section \<open>One update\<close>

definition keeps_identity :: "(task_state \<Rightarrow> string + task_state) \<Rightarrow> bool" where
  "keeps_identity change \<longleftrightarrow>
     (\<forall>s s'. change s = Inr s' \<longrightarrow> t_id s' = t_id s \<and> t_revision s' = t_revision s)"

lemma task_now_replay:
  assumes E: "task_codec E" and log: "task_replay E (ts_log s) = Inr g"
    and now: "task_now E io msg s = Inr st"
  shows "g = Some st \<and> (\<exists>project. ts_session s = Some (t_session st, project))"
proof -
  from now obtain x where ses: "ts_session s = Some x" "task_current E io s = Inr (Some st)"
    by (cases "ts_session s") (auto simp: task_now_def task_current_def session_task_def)
  from ses(2) have st: "session_task E s = Inr (Some st)" "validate_owner E s st = Inr ()"
    by (auto simp: task_current_def split: option.splits)
  with session_task_replay[OF E ses(1) log] ses(1) show ?thesis
    by (cases x) (auto simp: validate_owner_def)
qed

lemma update_cases:
  assumes E: "task_codec E" and log: "task_replay E (ts_log s) = Inr g"
    and keeps: "keeps_identity change" and run: "task_update E io i revision change s = (s', r)"
  obtains (refused) e where "s' = s" and "r = Inl e"
  | (written) es old changed rev new where "g = Some old" and "t_id old = i"
      and "t_revision old = revision" and "change old = Inr changed"
      and "checked_add revision 1 = Some rev" and "new = changed\<lparr>t_revision := rev\<rparr>"
      and "t_id new = i" and "task_transition (base E) old new = Inr ()"
      and "task_validate (base E) new = Inr ()"
      and "s' = s\<lparr>ts_log := ts_log s @ es\<rparr>" and "task_replay E (ts_log s') = Inr (Some new)"
      and "ts_session s = Some (t_session new, t_project new)" and "\<not> ts_read_only s"
      and "tio_append io = AppendOk \<and> r = Inr new \<or> (\<exists>e. r = Inl e)"
proof -
  let ?check = "rbind (task_now E io ''no current task'' s) (\<lambda>old.
      rbind (ensure (\<not> (t_id old \<noteq> i \<or> t_revision old \<noteq> revision))
        ''stale task identity/revision; inspect again'') (\<lambda>_.
      rbind (change old) (\<lambda>new.
      rbind (ok_or (checked_add (t_revision new) 1) ''task revision overflow'') (\<lambda>r.
      Inr (old, new\<lparr>t_revision := r\<rparr>)))))"
  show thesis
  proof (cases ?check)
    case (Inl e)
    with run have "s' = s" "r = Inl e" by (simp_all add: task_update_def)
    then show ?thesis by (rule that(1))
  next
    case (Inr p)
    then obtain old changed rev where now: "task_now E io ''no current task'' s = Inr old"
      and old: "t_id old = i" "t_revision old = revision" and ch: "change old = Inr changed"
      and rev: "checked_add (t_revision changed) 1 = Some rev"
      and p: "p = (old, changed\<lparr>t_revision := rev\<rparr>)" by auto
    define new where "new = changed\<lparr>t_revision := rev\<rparr>"
    have id: "t_id changed = i" "t_revision changed = revision"
      using keeps ch old by (auto simp: keeps_identity_def)
    have new: "t_id new = i" "t_revision new = rev" using id by (simp_all add: new_def)
    have "revision \<noteq> rev" using checked_succ_gt[OF rev] id by auto
    then have neq: "Some old \<noteq> Some new" using new old by auto
    obtain r1 where c: "commit_task_batch E io (Some old) new [] s = (s', r1)"
      and r: "r = rbind r1 (\<lambda>_. Inr new)"
      using run Inr p by (auto simp: task_update_def new_def split: prod.splits)
    have nt: "task_neutral []" by (simp add: task_neutral_def)
    from E log nt c show ?thesis
    proof (cases rule: commit_cases)
      case (refused e)
      with r show ?thesis by (auto intro: that(1))
    next
      case (written es)
      from written(6)[OF neq] written(1)
      have "fold_change (base E) (Some old) (task_json E new) = Inr (Some new)" by simp
      then have "task_transition (base E) old new = Inr () \<and> task_validate (base E) new = Inr ()"
        using new(1) old(1) by (cases rule: fold_change_cases) auto
      with written r rev id new old ch show ?thesis
        by (intro that(2)[of old changed rev new es]) (auto simp: new_def)
    qed
  qed
qed

section \<open>The changes the operations make\<close>

lemma keeps_identity_changes [simp]:
  "keeps_identity (save_change p)" "keeps_identity (human_change reason)"
  "keeps_identity (finish_change phase)" "keeps_identity (resolve_change op oc note)"
  "keeps_identity (begin_change run tokens duration)" "keeps_identity (admit_change run turn)"
  "keeps_identity (settle_change run tokens elapsed)" "keeps_identity (intent_change x grant)"
  "keeps_identity (outcome_change E j cfact oc result)" "keeps_identity (contract_update c)"
  "keeps_identity (attest_change clause note)" "keeps_identity (recheck_change fresh clause)"
  "keeps_identity (report_change report)" "keeps_identity (propose_change rep run)"
  "keeps_identity (verified_state rep authority cancelled)"
  by (auto simp: keeps_identity_def save_change_def human_change_def finish_change_def
      resolve_change_def begin_change_def admit_change_def settle_change_def intent_change_def
      outcome_change_def contract_update_def attest_change_def recheck_change_def report_change_def
      propose_change_def verified_state_def Let_def split: option.splits if_splits)

lemma candidate_state_keeps [simp]: "keeps_identity (candidate_state E ck polls run suc c1 c2)"
proof -
  have v: "verified_state rep authority cancelled s = Inr s' \<Longrightarrow>
      t_id s' = t_id s \<and> t_revision s' = t_revision s" for rep authority cancelled s s'
    using keeps_identity_changes(15) unfolding keeps_identity_def by blast
  show ?thesis
    unfolding keeps_identity_def candidate_state_def
    by (auto split: option.splits if_splits dest!: v)
qed

lemma guarded_cases:
  assumes "guarded g f s = (s', r)"
  obtains (stopped) e where "s' = s" and "r = Inl e"
  | (called) x where "g = Inr x" and "f x s = (s', r)"
  using assms by (cases g) (auto simp: guarded_def)

section \<open>The calls of the service\<close>

text \<open>The writes that name the task and the revision they read.\<close>

datatype task_write =
    TwSave progress bool
  | TwFinish string
  | TwFinishHuman "string option"
  | TwResolve string string string
  | TwSetAcceptance acceptance_contract
  | TwAttest string string
  | TwRecheck string
  | TwVerify check_polls "(string \<times> string) list" bool bool
  | TwPropose check_polls string
  | TwFinishVerified check_polls string

fun run_write ::
  "task_tool_env \<Rightarrow> checker_map \<Rightarrow> task_io \<Rightarrow> string \<Rightarrow> u64 \<Rightarrow> task_write \<Rightarrow> task_sys
   \<Rightarrow> task_sys \<times> (string + task_state)" where
  "run_write E ck io i n (TwSave p model) s = task_save (svc E) io i n p model s"
| "run_write E ck io i n (TwFinish phase) s = task_finish (svc E) io i n phase s"
| "run_write E ck io i n (TwFinishHuman note) s = finish_human (svc E) io i n note s"
| "run_write E ck io i n (TwResolve op outcome note) s =
     task_resolve (svc E) io i n op outcome note s"
| "run_write E ck io i n (TwSetAcceptance c) s = set_acceptance E ck io i n c s"
| "run_write E ck io i n (TwAttest clause note) s = task_attest (svc E) io i n clause note s"
| "run_write E ck io i n (TwRecheck clause) s = authorize_recheck (svc E) io i n clause s"
| "run_write E ck io i n (TwVerify polls evidence model cancelled) s =
     save_verification E ck polls io i n evidence model cancelled s"
| "run_write E ck io i n (TwPropose polls report) s = propose_completion E ck polls io i n report s"
| "run_write E ck io i n (TwFinishVerified polls report) s =
     finish_verified E ck polls io i n report s"

datatype task_call =
    TkCreate task_io string "string list" task_budget
  | TkWrite task_io string u64 task_write
  | TkBegin task_io task_resume recovery_check "u64 option"
  | TkAdmit task_io u64
  | TkSettle task_io u64 u64
  | TkIntent task_io tool_call
  | TkOutcome task_io string "tool_error + json" string
  | TkFinalize check_polls task_io string bool bool bool "(string \<times> json) list"

fun run_task :: "task_tool_env \<Rightarrow> checker_map \<Rightarrow> task_call \<Rightarrow> task_sys \<Rightarrow> task_sys" where
  "run_task E ck (TkCreate io objective acceptance budget) s =
     fst (task_create (svc E) io objective acceptance budget s)"
| "run_task E ck (TkWrite io i n w) s = fst (run_write E ck io i n w s)"
| "run_task E ck (TkBegin io request c cap) s = fst (task_begin (svc E) io request c cap s)"
| "run_task E ck (TkAdmit io turn) s = fst (task_admit (svc E) io turn s)"
| "run_task E ck (TkSettle io tokens elapsed) s = fst (task_settle (svc E) io tokens elapsed s)"
| "run_task E ck (TkIntent io tool) s = fst (task_intent E io tool s)"
| "run_task E ck (TkOutcome io i result outcome) s = fst (task_outcome E io i result outcome s)"
| "run_task E ck (TkFinalize polls io run suc c1 c2 closing) s =
     fst (finalize_candidate E ck polls io run suc c1 c2 closing s)"

fun task_call_ok :: "task_call \<Rightarrow> bool" where
  "task_call_ok (TkFinalize polls io run suc c1 c2 closing) = task_neutral closing"
| "task_call_ok _ = True"

lemma write_is_update:
  assumes "run_write E ck io i n w s = (s', r)"
  obtains (refused) e where "s' = s" and "r = Inl e"
  | (update) change where "keeps_identity change" and "task_update (svc E) io i n change s = (s', r)"
proof (cases "\<exists>polls evidence model cancelled. w = TwVerify polls evidence model cancelled")
  case True
  then obtain polls evidence model cancelled where w: "w = TwVerify polls evidence model cancelled"
    by auto
  from assms show ?thesis
    unfolding w run_write.simps save_verification_def
    by (rule guarded_cases) (rule that(1), assumption+, rule that(2)[rotated], assumption, simp)
next
  case False
  with assms show ?thesis
    by (cases w) (auto simp: task_save_def task_finish_def finish_human_def task_resolve_def
        set_acceptance_def task_attest_def authorize_recheck_def
        propose_completion_def finish_verified_def split: if_splits
        elim!: guarded_cases intro: that(1), (rule that(2)[rotated], assumption, simp)+)
qed

section \<open>Consistent and reachable states\<close>

definition task_sys_ok :: "('x) task_env_scheme \<Rightarrow> task_sys \<Rightarrow> bool" where
  "task_sys_ok E s \<longleftrightarrow> (\<exists>g. task_replay E (ts_log s) = Inr g)"

lemma sys_ok_frame [simp]:
  "task_sys_ok E (s\<lparr>ts_live := x\<rparr>) = task_sys_ok E s"
  "task_sys_ok E (s\<lparr>ts_failure := y\<rparr>) = task_sys_ok E s"
  by (simp_all add: task_sys_ok_def)

lemma sys_ok_svc [simp]: "task_sys_ok (svc E) s = task_sys_ok E s"
  by (simp add: task_sys_ok_def)

lemma commit_ok:
  assumes "task_codec E" and "task_sys_ok E s" and "task_neutral tail"
    and "commit_task_batch E io previous new tail s = (s', r)"
  shows "task_sys_ok E s'"
proof -
  from assms(2) obtain g where log: "task_replay E (ts_log s) = Inr g" by (auto simp: task_sys_ok_def)
  from assms(1) log assms(3,4) show ?thesis
    by (cases rule: commit_cases) (use assms(2) in \<open>auto simp: task_sys_ok_def\<close>)
qed

lemma update_ok:
  assumes "task_codec E" and "task_sys_ok E s" and "task_update E io i n change s = (s', r)"
  shows "task_sys_ok E s'"
proof -
  have nt: "task_neutral []" by (simp add: task_neutral_def)
  show ?thesis
    using assms(2,3) commit_ok[OF assms(1,2) nt]
    by (auto simp: task_update_def split: sum.splits prod.splits)
qed

lemma write_ok:
  assumes "task_codec E" and "task_sys_ok E s"
  shows "task_sys_ok E (fst (run_write E ck io i n w s))"
proof -
  obtain s' r where run: "run_write E ck io i n w s = (s', r)" by (cases "run_write E ck io i n w s")
  then show ?thesis
  proof (cases rule: write_is_update)
    case (update change)
    with assms update_ok[of "svc E" s] run show ?thesis by simp
  qed (use assms run in simp)
qed

lemma create_ok:
  "task_codec E \<Longrightarrow> task_sys_ok E s \<Longrightarrow> task_sys_ok E (fst (task_create E io obj acc b s))"
  using commit_ok[of E s "[]"]
  by (auto simp: task_create_def task_neutral_def split: sum.splits prod.splits)

lemma guarded_ok:
  assumes "task_sys_ok E s" and "\<And>x. g = Inr x \<Longrightarrow> task_sys_ok E (fst (f x s))"
  shows "task_sys_ok E (fst (guarded g f s))"
  using assms by (auto simp: guarded_def split: sum.splits)

lemma begin_ok:
  assumes "task_codec E" and "task_sys_ok E s"
  shows "task_sys_ok E (fst (task_begin E io request c cap s))"
  unfolding task_begin_def
  using assms update_ok[OF assms]
  by (intro guarded_ok) (auto simp: Let_def split: sum.splits prod.splits)

lemma admit_ok:
  assumes "task_codec E" and "task_sys_ok E s"
  shows "task_sys_ok E (fst (task_admit E io turn s))"
  unfolding task_admit_def
  using assms update_ok[OF assms]
  by (auto intro!: guarded_ok split: option.splits sum.splits prod.splits)

lemma settle_ok:
  assumes "task_codec E" and "task_sys_ok E s"
  shows "task_sys_ok E (fst (task_settle E io tokens elapsed s))"
proof -
  have "task_sys_ok E (s\<lparr>ts_live := None\<rparr>)" using assms by simp
  then show ?thesis
    unfolding task_settle_def Let_def
    using assms update_ok[OF assms(1), of "s\<lparr>ts_live := None\<rparr>"]
    by (auto intro!: guarded_ok split: option.splits sum.splits prod.splits)
qed

lemma intent_ok:
  assumes "task_codec E" and "task_sys_ok E s"
  shows "task_sys_ok E (fst (task_intent E io tool s))"
  unfolding task_intent_def
  using assms update_ok[of "svc E" s]
  by (auto intro!: guarded_ok split: option.splits sum.splits prod.splits)

lemma outcome_ok:
  assumes "task_codec E" and "task_sys_ok E s"
  shows "task_sys_ok E (fst (task_outcome E io i result outcome s))"
  unfolding task_outcome_def
  using assms update_ok[of "svc E" s]
  by (auto intro!: guarded_ok split: option.splits sum.splits prod.splits)

lemma finalize_ok:
  assumes "task_codec E" and "task_sys_ok E s" and "task_neutral closing"
  shows "task_sys_ok E (fst (finalize_candidate E ck polls io run suc c1 c2 closing s))"
  unfolding finalize_candidate_def
  using assms commit_ok[OF assms prod.collapse[symmetric]]
  by (auto intro!: guarded_ok split: prod.splits)

inductive task_reach :: "task_tool_env \<Rightarrow> checker_map \<Rightarrow> task_sys \<Rightarrow> bool" for E ck where
  start: "task_reach E ck \<lparr>ts_session = None, ts_read_only = False, ts_log = [], ts_live = None,
    ts_failure = None\<rparr>"
| switch: "task_reach E ck s \<Longrightarrow> task_replay E log = Inr g \<Longrightarrow>
    task_reach E ck (s\<lparr>ts_session := x, ts_read_only := b, ts_log := log\<rparr>)"
| event: "task_reach E ck s \<Longrightarrow> task_neutral es \<Longrightarrow> task_reach E ck (s\<lparr>ts_log := ts_log s @ es\<rparr>)"
| call: "task_reach E ck s \<Longrightarrow> task_call_ok c \<Longrightarrow> task_reach E ck (run_task E ck c s)"
| fault: "task_reach E ck s \<Longrightarrow> task_reach E ck (fst (poison e s))"

lemma task_reach_ok:
  assumes "task_codec E" and "task_reach E ck s"
  shows "task_sys_ok E s"
  using assms(2)
proof induction
  case (event s es)
  then show ?case
    using neutral_task_replay[of es "base E"] by (auto simp: task_sys_ok_def replay_append)
next
  case (call s c)
  then show ?case
    using assms(1) write_ok create_ok[of "svc E"] begin_ok[of "svc E"] admit_ok[of "svc E"]
      settle_ok[of "svc E"] intent_ok outcome_ok finalize_ok
    by (cases c) simp_all
qed (simp_all add: task_sys_ok_def poison_def)

section \<open>Compare and set\<close>

definition task_commit ::
  "task_tool_env \<Rightarrow> checker_map \<Rightarrow> u64 \<Rightarrow> task_io \<times> string \<times> task_write \<Rightarrow> task_sys \<Rightarrow> string + task_sys"
where
  "task_commit E ck n w s =
     (case w of (io, i, w') \<Rightarrow>
        (case run_write E ck io i n w' s of (s', Inl e) \<Rightarrow> Inl e | (s', Inr _) \<Rightarrow> Inr s'))"

definition task_revision :: "('x) task_env_scheme \<Rightarrow> task_sys \<Rightarrow> u64 option" where
  "task_revision E s = map_option t_revision (task_projection E (ts_log s))"

lemma task_commit_Inr:
  assumes E: "task_codec E" and ok: "task_sys_ok E s" and run: "task_commit E ck n w s = Inr s'"
  shows "task_sys_ok E s' \<and> task_revision E s = Some n
    \<and> (\<forall>m. task_revision E s' = Some m \<longrightarrow> n < m)"
proof -
  obtain io i w' where w: "w = (io, i, w')" by (cases w) auto
  from run w obtain st where res: "run_write E ck io i n w' s = (s', Inr st)"
    by (auto simp: task_commit_def split: sum.splits prod.splits)
  then obtain change where ch: "keeps_identity change"
    and up: "task_update (svc E) io i n change s = (s', Inr st)"
    by (cases rule: write_is_update) auto
  from ok obtain g where log: "task_replay (svc E) (ts_log s) = Inr g" by (auto simp: task_sys_ok_def)
  have E': "task_codec (svc E)" using E by simp
  from E' log ch up show ?thesis
  proof (cases rule: update_cases)
    case (written es old changed new_rev new)
    have "t_revision new = new_rev" using written(6) by simp
    with written log checked_succ_gt[OF written(5)] show ?thesis
      by (auto simp: task_sys_ok_def task_revision_def task_projection_def refresh_replay
          word_less_nat_alt)
  qed simp
qed

interpretation task_cas: cas_store
  "\<lambda>s. task_codec E \<and> task_sys_ok E s" "task_revision E" "task_commit E ck" for E ck
  by unfold_locales (use task_commit_Inr in blast)+

end
