(* ===== verification/TaskDemo.thy ===== *)
theory TaskDemo
  imports TaskReach
begin

text \<open>
  A concrete environment for the witnesses of the task properties: an encoding of every record
  of the task as JSON with its inverse, put together from encodings of pairs, lists and options,
  and a fixed digest.
\<close>

section \<open>Encodings\<close>

type_synonym 'a codec = "('a \<Rightarrow> json) \<times> (json \<Rightarrow> 'a option)"

definition codec_ok :: "'a codec \<Rightarrow> bool" where
  "codec_ok c \<longleftrightarrow> (\<forall>x. snd c (fst c x) = Some x)"

fun dec_word :: "json \<Rightarrow> 'a::len word option" where
  "dec_word (JInt n) = Some (word_of_int n)"
| "dec_word _ = None"

fun dec_bool :: "json \<Rightarrow> bool option" where
  "dec_bool (JBool b) = Some b"
| "dec_bool _ = None"

fun dec_opt :: "(json \<Rightarrow> 'a option) \<Rightarrow> json \<Rightarrow> 'a option option" where
  "dec_opt d (JArr []) = Some None"
| "dec_opt d (JArr (v # _)) = map_option Some (d v)"
| "dec_opt d _ = None"

fun dec_list :: "(json \<Rightarrow> 'a option) \<Rightarrow> json \<Rightarrow> 'a list option" where
  "dec_list d (JArr vs) = those (map d vs)"
| "dec_list d _ = None"

fun dec_pair :: "(json \<Rightarrow> 'a option) \<Rightarrow> (json \<Rightarrow> 'b option) \<Rightarrow> json \<Rightarrow> ('a \<times> 'b) option" where
  "dec_pair d e (JArr [a, b]) = Option.bind (d a) (\<lambda>x. map_option (Pair x) (e b))"
| "dec_pair d e _ = None"

definition c_str :: "string codec" where "c_str = (JStr, as_str)"
definition c_word :: "'a::len word codec" where "c_word = (jnat, dec_word)"
definition c_bool :: "bool codec" where "c_bool = (JBool, dec_bool)"
definition c_json :: "json codec" where "c_json = (\<lambda>j. j, Some)"

definition c_opt :: "'a codec \<Rightarrow> 'a option codec" where
  "c_opt c = (\<lambda>x. case x of None \<Rightarrow> JArr [] | Some v \<Rightarrow> JArr [fst c v], dec_opt (snd c))"

definition c_list :: "'a codec \<Rightarrow> 'a list codec" where
  "c_list c = (\<lambda>xs. JArr (map (fst c) xs), dec_list (snd c))"

definition c_pair :: "'a codec \<Rightarrow> 'b codec \<Rightarrow> ('a \<times> 'b) codec" where
  "c_pair c d = (\<lambda>(x, y). JArr [fst c x, fst d y], dec_pair (snd c) (snd d))"

definition c_iso :: "('a \<Rightarrow> 'b) \<Rightarrow> ('b \<Rightarrow> 'a) \<Rightarrow> 'b codec \<Rightarrow> 'a codec" where
  "c_iso f g c = (\<lambda>x. fst c (f x), \<lambda>j. map_option g (snd c j))"

named_theorems codec_intros \<open>encodings that round trip\<close>

lemma c_basic [codec_intros]: "codec_ok c_str" "codec_ok c_word" "codec_ok c_bool" "codec_ok c_json"
  by (simp_all add: codec_ok_def c_str_def c_word_def c_bool_def c_json_def jnat_def)

lemma c_opt_ok [codec_intros]: "codec_ok c \<Longrightarrow> codec_ok (c_opt c)"
  by (auto simp: codec_ok_def c_opt_def split: option.splits)

lemma c_list_ok [codec_intros]: "codec_ok c \<Longrightarrow> codec_ok (c_list c)"
proof -
  assume c: "codec_ok c"
  have "those (map (snd c) (map (fst c) xs)) = Some xs" for xs
    using c by (induction xs) (simp_all add: codec_ok_def)
  then show ?thesis by (simp add: codec_ok_def c_list_def)
qed

lemma c_pair_ok [codec_intros]: "codec_ok c \<Longrightarrow> codec_ok d \<Longrightarrow> codec_ok (c_pair c d)"
  by (simp add: codec_ok_def c_pair_def split: prod.splits)

lemma c_iso_ok: "codec_ok c \<Longrightarrow> (\<And>x. g (f x) = x) \<Longrightarrow> codec_ok (c_iso f g c)"
  by (simp add: codec_ok_def c_iso_def)

section \<open>The records of a task\<close>

definition c_budget :: "task_budget codec" where
  "c_budget = c_iso
     (\<lambda>b. (tb_max_tokens b, tb_max_runs b, tb_max_seconds b, tb_run_tokens b, tb_run_seconds b))
     (\<lambda>(a, b, c, d, e). \<lparr>tb_max_tokens = a, tb_max_runs = b, tb_max_seconds = c, tb_run_tokens = d,
       tb_run_seconds = e\<rparr>)
     (c_pair c_word (c_pair c_word (c_pair c_word (c_pair c_word c_word))))"

definition c_artifact :: "artifact codec" where
  "c_artifact = c_iso (\<lambda>a. (ar_path a, ar_summary a, ar_digest a, ar_evidence a))
     (\<lambda>(a, b, c, d). \<lparr>ar_path = a, ar_summary = b, ar_digest = c, ar_evidence = d\<rparr>)
     (c_pair c_str (c_pair c_str (c_pair c_str (c_list c_str))))"

definition c_job :: "job_reference codec" where
  "c_job = c_iso (\<lambda>j. (jr_provider j, jr_scope j, jr_id j, jr_result_ref j, jr_last_observation j))
     (\<lambda>(a, b, c, d, e). \<lparr>jr_provider = a, jr_scope = b, jr_id = c, jr_result_ref = d,
       jr_last_observation = e\<rparr>)
     (c_pair c_str (c_pair c_str (c_pair c_str (c_pair c_str c_str))))"

definition c_progress :: "progress codec" where
  "c_progress = c_iso
     (\<lambda>p. (pg_summary p, pg_steps p, pg_questions p, pg_next p, pg_artifacts p, pg_jobs p,
       pg_required_tools p))
     (\<lambda>(a, b, c, d, e, f, g). \<lparr>pg_summary = a, pg_steps = b, pg_questions = c, pg_next = d,
       pg_artifacts = e, pg_jobs = f, pg_required_tools = g\<rparr>)
     (c_pair c_str (c_pair (c_list c_str) (c_pair (c_list c_str) (c_pair c_str
       (c_pair (c_list c_artifact) (c_pair (c_list c_job) (c_list c_str)))))))"

definition c_clause :: "clause codec" where
  "c_clause = c_iso
     (\<lambda>c. (cl_id c, cl_required c, cl_checker c, cl_checker_version c, cl_source c, cl_files c,
       cl_parameters c))
     (\<lambda>(a, b, c, d, e, f, g). \<lparr>cl_id = a, cl_required = b, cl_checker = c, cl_checker_version = d,
       cl_source = e, cl_files = f, cl_parameters = g\<rparr>)
     (c_pair c_str (c_pair c_bool (c_pair c_str (c_pair c_word (c_pair c_str
       (c_pair (c_list c_str) c_json))))))"

definition c_contract :: "acceptance_contract codec" where
  "c_contract = c_iso (\<lambda>c. (ac_version c, ac_allow_model_completion c, ac_clauses c))
     (\<lambda>(a, b, c). \<lparr>ac_version = a, ac_allow_model_completion = b, ac_clauses = c\<rparr>)
     (c_pair c_word (c_pair c_bool (c_list c_clause)))"

definition c_attestation :: "attestation codec" where
  "c_attestation = c_iso (\<lambda>a. (at_clause a, at_contract_version a, at_note a))
     (\<lambda>(a, b, c). \<lparr>at_clause = a, at_contract_version = b, at_note = c\<rparr>)
     (c_pair c_str (c_pair c_word c_str))"

definition c_file :: "file_identity codec" where
  "c_file = c_iso (\<lambda>f. (fi_path f, fi_sha256 f)) (\<lambda>(a, b). \<lparr>fi_path = a, fi_sha256 = b\<rparr>)
     (c_pair c_str c_str)"

definition c_result :: "clause_result codec" where
  "c_result = c_iso
     (\<lambda>r. (cr_clause r, cr_checker r, cr_checker_version r, cr_status r, cr_source r, cr_reason r,
       cr_files r, cr_operation r, cr_evidence_digest r))
     (\<lambda>(a, b, c, d, e, f, g, h, i). \<lparr>cr_clause = a, cr_checker = b, cr_checker_version = c,
       cr_status = d, cr_source = e, cr_reason = f, cr_files = g, cr_operation = h,
       cr_evidence_digest = i\<rparr>)
     (c_pair c_str (c_pair c_str (c_pair c_word (c_pair c_str (c_pair c_str (c_pair c_str
       (c_pair (c_list c_file) (c_pair (c_opt c_str) (c_opt c_str)))))))))"

definition c_report :: "verification_report codec" where
  "c_report = c_iso
     (\<lambda>r. (vr_id r, vr_task_id r, vr_project_anchor r, vr_session r, vr_contract_version r,
       vr_contract_digest r, vr_attestation_digest r, vr_status r, vr_results r, vr_limitations r))
     (\<lambda>(a, b, c, d, e, f, g, h, i, j). \<lparr>vr_id = a, vr_task_id = b, vr_project_anchor = c,
       vr_session = d, vr_contract_version = e, vr_contract_digest = f, vr_attestation_digest = g,
       vr_status = h, vr_results = i, vr_limitations = j\<rparr>)
     (c_pair c_str (c_pair c_str (c_pair c_str (c_pair c_str (c_pair c_word (c_pair c_str
       (c_pair c_str (c_pair c_str (c_pair (c_list c_result) c_str)))))))))"

definition c_completion :: "completion codec" where
  "c_completion = c_iso (\<lambda>c. (cp_kind c, cp_authority c, cp_report c, cp_note c))
     (\<lambda>(a, b, c, d). \<lparr>cp_kind = a, cp_authority = b, cp_report = c, cp_note = d\<rparr>)
     (c_pair c_str (c_pair c_str (c_pair (c_opt c_str) c_str)))"

definition c_candidate :: "completion_candidate codec" where
  "c_candidate = c_iso (\<lambda>c. (cc_report c, cc_run c, cc_state c))
     (\<lambda>(a, b, c). \<lparr>cc_report = a, cc_run = b, cc_state = c\<rparr>) (c_pair c_str (c_pair c_str c_str))"

definition c_grant :: "verification_grant codec" where
  "c_grant = c_iso (\<lambda>g. (vg_id g, vg_clause g, vg_contract_version g, vg_consumed_by g))
     (\<lambda>(a, b, c, d). \<lparr>vg_id = a, vg_clause = b, vg_contract_version = c, vg_consumed_by = d\<rparr>)
     (c_pair c_str (c_pair c_str (c_pair c_word (c_opt c_str))))"

definition c_acceptance :: "acceptance_state codec" where
  "c_acceptance = c_iso
     (\<lambda>a. (as_contract a, as_attestations a, as_reports a, as_candidate a, as_completion a,
       as_grants a))
     (\<lambda>(a, b, c, d, e, f). \<lparr>as_contract = a, as_attestations = b, as_reports = c,
       as_candidate = d, as_completion = e, as_grants = f\<rparr>)
     (c_pair (c_opt c_contract) (c_pair (c_list c_attestation) (c_pair (c_list c_report)
       (c_pair (c_opt c_candidate) (c_pair (c_opt c_completion) (c_list c_grant))))))"

definition c_fact :: "command_fact codec" where
  "c_fact = c_iso
     (\<lambda>f. (cf_contract_version f, cf_clauses f, cf_invocation_digest f, cf_before f, cf_after f,
       cf_receipt f, cf_receipt_digest f, cf_lifecycle f))
     (\<lambda>(a, b, c, d, e, f, g, h). \<lparr>cf_contract_version = a, cf_clauses = b,
       cf_invocation_digest = c, cf_before = d, cf_after = e, cf_receipt = f,
       cf_receipt_digest = g, cf_lifecycle = h\<rparr>)
     (c_pair c_word (c_pair (c_list c_str) (c_pair c_str (c_pair (c_list c_file)
       (c_pair (c_list c_file) (c_pair (c_opt c_json) (c_pair (c_opt c_str) c_json)))))))"

definition c_operation :: "operation codec" where
  "c_operation = c_iso
     (\<lambda>x. (op_id x, op_run x, op_tool x, op_arguments_digest x, op_call_id x, op_outcome x,
       op_result_digest x, op_result_kind x, op_resolution x, op_execution_identity x,
       op_command_fact x))
     (\<lambda>(a, b, c, d, e, f, g, h, i, j, k). \<lparr>op_id = a, op_run = b, op_tool = c,
       op_arguments_digest = d, op_call_id = e, op_outcome = f, op_result_digest = g,
       op_result_kind = h, op_resolution = i, op_execution_identity = j, op_command_fact = k\<rparr>)
     (c_pair c_str (c_pair c_str (c_pair c_str (c_pair c_str (c_pair (c_opt c_str) (c_pair c_str
       (c_pair (c_opt c_str) (c_pair (c_opt c_str) (c_pair (c_opt c_str) (c_pair (c_opt c_str)
         (c_opt c_fact)))))))))))"

definition c_run :: "task_run codec" where
  "c_run = c_iso (\<lambda>r. (tr_id r, tr_turn r, tr_tokens r, tr_elapsed_ms r, tr_settled r))
     (\<lambda>(a, b, c, d, e). \<lparr>tr_id = a, tr_turn = b, tr_tokens = c, tr_elapsed_ms = d, tr_settled = e\<rparr>)
     (c_pair c_str (c_pair (c_opt c_word) (c_pair c_word (c_pair c_word c_bool))))"

definition c_task :: "task_state codec" where
  "c_task = c_iso
     (\<lambda>s. (t_id s, t_project s, t_project_anchor s, t_session s, t_revision s, t_objective s,
       t_acceptance s, t_phase s, t_budget s, t_progress s, t_runs s, t_operations s,
       t_acceptance_state s))
     (\<lambda>(a, b, c, d, e, f, g, h, i, j, k, l, m). \<lparr>t_id = a, t_project = b, t_project_anchor = c,
       t_session = d, t_revision = e, t_objective = f, t_acceptance = g, t_phase = h,
       t_budget = i, t_progress = j, t_runs = k, t_operations = l, t_acceptance_state = m\<rparr>)
     (c_pair c_str (c_pair c_str (c_pair c_str (c_pair c_str (c_pair c_word (c_pair c_str
       (c_pair (c_list c_str) (c_pair c_str (c_pair c_budget (c_pair c_progress
         (c_pair (c_list c_run) (c_pair (c_list c_operation) (c_opt c_acceptance)))))))))))))"

lemma c_records [codec_intros]:
  "codec_ok c_budget" "codec_ok c_artifact" "codec_ok c_job" "codec_ok c_attestation"
  "codec_ok c_file" "codec_ok c_completion" "codec_ok c_candidate" "codec_ok c_grant"
  "codec_ok c_clause" "codec_ok c_run"
  unfolding c_budget_def c_artifact_def c_job_def c_attestation_def c_file_def c_completion_def
    c_candidate_def c_grant_def c_clause_def c_run_def
  by (rule c_iso_ok, intro codec_intros, simp)+

lemma c_records2 [codec_intros]:
  "codec_ok c_progress" "codec_ok c_contract" "codec_ok c_result" "codec_ok c_fact"
  unfolding c_progress_def c_contract_def c_result_def c_fact_def
  by (rule c_iso_ok, intro codec_intros, simp)+

lemma c_records3 [codec_intros]: "codec_ok c_report" "codec_ok c_operation"
  unfolding c_report_def c_operation_def by (rule c_iso_ok, intro codec_intros, simp)+

lemma c_records4 [codec_intros]: "codec_ok c_acceptance"
  unfolding c_acceptance_def by (rule c_iso_ok, intro codec_intros, simp)

lemma c_task_ok: "codec_ok c_task"
  unfolding c_task_def by (rule c_iso_ok, intro codec_intros, simp)

section \<open>The environment\<close>

definition td_digest :: string where "td_digest = replicate 64 (CHR ''0'')"

definition td_rule :: command_rule where
  "td_rule = \<lparr>ru_argv = [''cargo'', ''test''], ru_cwd = ''.'', ru_format = ''rust-test-summary'',
     ru_minimum_executed = 2\<rparr>"

definition td_env :: task_tool_env where
  "td_env = \<lparr>sha256 = (\<lambda>_. td_digest), enc_value = (\<lambda>_. ''{}''), enc_contract = (\<lambda>_. ''{}''),
     enc_attestations = (\<lambda>_. ''[]''), enc_task = (\<lambda>_. ''{}''), task_json = fst c_task,
     dec_task = (\<lambda>j. case snd c_task j of None \<Rightarrow> Inl ''invalid task'' | Some s \<Rightarrow> Inr s),
     root_text = ''/p'', root_identity = td_digest, enc_check = (\<lambda>_. ''{}''),
     parse_rule = (\<lambda>_. Inr td_rule), invocation_digest = (\<lambda>_ _. td_digest),
     enc_signature = (\<lambda>_ _. ''[]''), join_path = (\<lambda>a b. a @ ''/'' @ b)\<rparr>"

lemma td_env_simps [simp]:
  "sha256 td_env x = td_digest" "enc_value td_env j = ''{}''" "enc_contract td_env c = ''{}''"
  "enc_attestations td_env h = ''[]''" "enc_task td_env s = ''{}''" "root_text td_env = ''/p''"
  "root_identity td_env = td_digest" "parse_rule td_env j = Inr td_rule"
  "invocation_digest td_env argv cwd = td_digest"
  by (simp_all add: td_env_def)

lemma svc_root [simp]: "root_text (svc E) = root_text E" "root_identity (svc E) = root_identity E"
  by (simp_all add: task_service_env.truncate_def)

lemma td_codec: "task_codec td_env"
  using c_task_ok by (simp add: task_codec_def codec_ok_def td_env_def)

lemma td_digest_facts [simp]: "length td_digest = 64" "valid_digest td_digest"
proof -
  show "length td_digest = 64" by (simp add: td_digest_def)
  have "is_hexdigit (CHR ''0'')" by (simp add: is_hexdigit_def byte_def)
  then show "valid_digest td_digest" by (simp add: valid_digest_def td_digest_def list_all_iff)
qed

lemma bounded_plain:
  assumes "s \<noteq> []" and "plain (hd s)" and "plain (last s)" and "length s \<le> n" and "CHR 0x00 \<notin> set s"
  shows "bounded s n = Inr ()"
  using assms by (simp add: bounded_def check_text_def trim_plain)

section \<open>A life of a task\<close>

text \<open>
  The task is born, gets a contract with one human clause, is attested, runs once with one
  tool call, saves a report, proposes completion, is settled and completed; or, after the
  settlement, a second run begins.
\<close>

definition td_budget :: task_budget where
  "td_budget = \<lparr>tb_max_tokens = 100, tb_max_runs = 3, tb_max_seconds = 60, tb_run_tokens = 50,
     tb_run_seconds = 20\<rparr>"

definition td_clause :: clause where
  "td_clause = \<lparr>cl_id = ''h'', cl_required = True, cl_checker = ''human'', cl_checker_version = 1,
     cl_source = ''human'', cl_files = [], cl_parameters = JNull\<rparr>"

definition td_contract :: acceptance_contract where
  "td_contract = \<lparr>ac_version = 1, ac_allow_model_completion = True, ac_clauses = [td_clause]\<rparr>"

definition td_attestation :: attestation where
  "td_attestation = \<lparr>at_clause = ''h'', at_contract_version = 1, at_note = ''seen''\<rparr>"

definition td_result :: clause_result where
  "td_result = \<lparr>cr_clause = ''h'', cr_checker = ''human'', cr_checker_version = 1,
     cr_status = ''passed'', cr_source = ''human'', cr_reason = ''human attestation; not a machine check'',
     cr_files = [], cr_operation = None, cr_evidence_digest = None\<rparr>"

definition td_report :: verification_report where
  "td_report = \<lparr>vr_id = ''check-v'', vr_task_id = ''task-t'', vr_project_anchor = td_digest,
     vr_session = ''s'', vr_contract_version = 1, vr_contract_digest = td_digest,
     vr_attestation_digest = td_digest, vr_status = ''passed'', vr_results = [td_result],
     vr_limitations = report_limitations\<rparr>"

definition td_run :: "string \<Rightarrow> u64 option \<Rightarrow> u64 \<Rightarrow> u64 \<Rightarrow> bool \<Rightarrow> task_run" where
  "td_run i turn tokens ms settled = \<lparr>tr_id = i, tr_turn = turn, tr_tokens = tokens,
     tr_elapsed_ms = ms, tr_settled = settled\<rparr>"

definition td_intent :: operation where
  "td_intent = \<lparr>op_id = ''op-o'', op_run = ''run-r'', op_tool = ''write'',
     op_arguments_digest = td_digest, op_call_id = None, op_outcome = ''unknown'',
     op_result_digest = None, op_result_kind = None, op_resolution = None,
     op_execution_identity = None, op_command_fact = None\<rparr>"

definition td_outcome :: operation where
  "td_outcome = td_intent\<lparr>op_outcome := ''confirmed'', op_result_digest := Some td_digest,
     op_result_kind := Some ''ok''\<rparr>"

definition td_acceptance :: acceptance_state where
  "td_acceptance = acceptance_default\<lparr>as_contract := Some td_contract\<rparr>"

definition td_candidate :: "string \<Rightarrow> completion_candidate" where
  "td_candidate st = \<lparr>cc_report = ''check-v'', cc_run = ''run-r'', cc_state = st\<rparr>"

definition td_completion :: completion where
  "td_completion = \<lparr>cp_kind = ''human_attested'', cp_authority = ''user_authorized_model_candidate'',
     cp_report = Some ''check-v'',
     cp_note = ''Confirmed declared acceptance and current evidence after successful execution settlement''\<rparr>"

definition td_a2 :: acceptance_state where "td_a2 = td_acceptance\<lparr>as_attestations := [td_attestation]\<rparr>"
definition td_a7 :: acceptance_state where "td_a7 = td_a2\<lparr>as_reports := [td_report]\<rparr>"
definition td_a8 :: acceptance_state where
  "td_a8 = td_a7\<lparr>as_candidate := Some (td_candidate ''pending'')\<rparr>"
definition td_a10 :: acceptance_state where
  "td_a10 = td_a7\<lparr>as_candidate := Some (td_candidate ''accepted''), as_completion := Some td_completion\<rparr>"

text \<open>The states differ in revision, phase, runs, operations and acceptance only.\<close>

definition td_state ::
  "u64 \<Rightarrow> string \<Rightarrow> task_run list \<Rightarrow> operation list \<Rightarrow> acceptance_state option \<Rightarrow> task_state" where
  "td_state n phase runs ops acceptance =
     \<lparr>t_id = ''task-t'', t_project = ''/p'', t_project_anchor = td_digest, t_session = ''s'',
      t_revision = n, t_objective = ''do'', t_acceptance = [], t_phase = phase,
      t_budget = td_budget, t_progress = progress_default, t_runs = runs, t_operations = ops,
      t_acceptance_state = acceptance\<rparr>"

lemma td_state_simps [simp]:
  "t_id (td_state n ph rs ops a) = ''task-t''" "t_project (td_state n ph rs ops a) = ''/p''"
  "t_project_anchor (td_state n ph rs ops a) = td_digest" "t_session (td_state n ph rs ops a) = ''s''"
  "t_revision (td_state n ph rs ops a) = n" "t_objective (td_state n ph rs ops a) = ''do''"
  "t_acceptance (td_state n ph rs ops a) = []" "t_phase (td_state n ph rs ops a) = ph"
  "t_budget (td_state n ph rs ops a) = td_budget" "t_progress (td_state n ph rs ops a) = progress_default"
  "t_runs (td_state n ph rs ops a) = rs" "t_operations (td_state n ph rs ops a) = ops"
  "t_acceptance_state (td_state n ph rs ops a) = a"
  "(td_state n ph rs ops a)\<lparr>t_revision := n'\<rparr> = td_state n' ph rs ops a"
  "(td_state n ph rs ops a)\<lparr>t_phase := ph'\<rparr> = td_state n ph' rs ops a"
  "(td_state n ph rs ops a)\<lparr>t_runs := rs'\<rparr> = td_state n ph rs' ops a"
  "(td_state n ph rs ops a)\<lparr>t_operations := ops'\<rparr> = td_state n ph rs ops' a"
  "(td_state n ph rs ops a)\<lparr>t_acceptance_state := a'\<rparr> = td_state n ph rs ops a'"
  by (simp_all add: td_state_def)

lemma td_state_eq [simp]:
  "td_state n ph rs ops a = td_state n' ph' rs' ops' a'
   \<longleftrightarrow> n = n' \<and> ph = ph' \<and> rs = rs' \<and> ops = ops' \<and> a = a'"
  by (auto simp: td_state_def)

definition td0 :: task_state where "td0 = td_state 1 ''paused'' [] [] None"
definition td1 :: task_state where "td1 = td_state 2 ''paused'' [] [] (Some td_acceptance)"
definition td2 :: task_state where "td2 = td_state 3 ''paused'' [] [] (Some td_a2)"
definition td3 :: task_state where
  "td3 = td_state 4 ''running'' [td_run ''run-r'' None 50 20000 False] [] (Some td_a2)"
definition td4 :: task_state where
  "td4 = td_state 5 ''running'' [td_run ''run-r'' (Some 1) 50 20000 False] [] (Some td_a2)"
definition td5 :: task_state where
  "td5 = td_state 6 ''running'' [td_run ''run-r'' (Some 1) 50 20000 False] [td_intent] (Some td_a2)"
definition td6 :: task_state where
  "td6 = td_state 7 ''running'' [td_run ''run-r'' (Some 1) 50 20000 False] [td_outcome] (Some td_a2)"
definition td7 :: task_state where
  "td7 = td_state 8 ''running'' [td_run ''run-r'' (Some 1) 50 20000 False] [td_outcome] (Some td_a7)"
definition td8 :: task_state where
  "td8 = td_state 9 ''running'' [td_run ''run-r'' (Some 1) 50 20000 False] [td_outcome] (Some td_a8)"
definition td9 :: task_state where
  "td9 = td_state 10 ''paused'' [td_run ''run-r'' (Some 1) 30 900 True] [td_outcome] (Some td_a8)"
definition td10 :: task_state where
  "td10 = td_state 11 ''complete'' [td_run ''run-r'' (Some 1) 30 900 True] [td_outcome] (Some td_a10)"
definition td11 :: task_state where
  "td11 = td_state 11 ''running'' [td_run ''run-r'' (Some 1) 30 900 True,
     td_run ''run-q'' None 50 20000 False] [td_outcome] (Some td_a8)"
definition td12 :: task_state where
  "td12 = td_state 12 ''running'' [td_run ''run-r'' (Some 1) 30 900 True,
     td_run ''run-q'' (Some 2) 50 20000 False] [td_outcome] (Some td_a8)"

lemmas td_states = td0_def td1_def td2_def td3_def td4_def td5_def td6_def td7_def td8_def td9_def
  td10_def td11_def td12_def

lemma td_run_simps [simp]:
  "tr_id (td_run i turn tokens ms b) = i" "tr_turn (td_run i turn tokens ms b) = turn"
  "tr_tokens (td_run i turn tokens ms b) = tokens" "tr_elapsed_ms (td_run i turn tokens ms b) = ms"
  "tr_settled (td_run i turn tokens ms b) = b"
  "(td_run i turn tokens ms b)\<lparr>tr_turn := turn'\<rparr> = td_run i turn' tokens ms b"
  "td_run i turn tokens ms b = td_run i' turn' tokens' ms' b'
   \<longleftrightarrow> i = i' \<and> turn = turn' \<and> tokens = tokens' \<and> ms = ms' \<and> b = b'"
  by (auto simp: td_run_def)

lemma td_op_simps [simp]:
  "op_id td_intent = ''op-o''" "op_run td_intent = ''run-r''" "op_tool td_intent = ''write''"
  "op_arguments_digest td_intent = td_digest" "op_call_id td_intent = None"
  "op_outcome td_intent = ''unknown''" "op_result_digest td_intent = None"
  "op_result_kind td_intent = None" "op_resolution td_intent = None"
  "op_execution_identity td_intent = None" "op_command_fact td_intent = None"
  "op_id td_outcome = ''op-o''" "op_run td_outcome = ''run-r''" "op_tool td_outcome = ''write''"
  "op_arguments_digest td_outcome = td_digest" "op_call_id td_outcome = None"
  "op_outcome td_outcome = ''confirmed''" "op_result_digest td_outcome = Some td_digest"
  "op_result_kind td_outcome = Some ''ok''" "op_resolution td_outcome = None"
  "op_execution_identity td_outcome = None" "op_command_fact td_outcome = None"
  "td_intent \<noteq> td_outcome"
  by (auto simp: td_intent_def td_outcome_def)

lemma td_acceptance_simps [simp]:
  "as_contract td_acceptance = Some td_contract" "as_attestations td_acceptance = []"
  "as_reports td_acceptance = []" "as_candidate td_acceptance = None"
  "as_completion td_acceptance = None" "as_grants td_acceptance = []"
  "as_contract td_a2 = Some td_contract" "as_attestations td_a2 = [td_attestation]"
  "as_reports td_a2 = []" "as_candidate td_a2 = None" "as_completion td_a2 = None" "as_grants td_a2 = []"
  "as_contract td_a7 = Some td_contract" "as_attestations td_a7 = [td_attestation]"
  "as_reports td_a7 = [td_report]" "as_candidate td_a7 = None" "as_completion td_a7 = None"
  "as_grants td_a7 = []"
  "as_contract td_a8 = Some td_contract" "as_attestations td_a8 = [td_attestation]"
  "as_reports td_a8 = [td_report]" "as_candidate td_a8 = Some (td_candidate ''pending'')"
  "as_completion td_a8 = None" "as_grants td_a8 = []"
  "as_contract td_a10 = Some td_contract" "as_attestations td_a10 = [td_attestation]"
  "as_reports td_a10 = [td_report]" "as_candidate td_a10 = Some (td_candidate ''accepted'')"
  "as_completion td_a10 = Some td_completion" "as_grants td_a10 = []"
  by (simp_all add: td_acceptance_def td_a2_def td_a7_def td_a8_def td_a10_def acceptance_default_def)

lemma td_record_simps [simp]:
  "ac_version td_contract = 1" "ac_allow_model_completion td_contract" "ac_clauses td_contract = [td_clause]"
  "cl_id td_clause = ''h''" "cl_required td_clause" "cl_checker td_clause = ''human''"
  "cl_checker_version td_clause = 1" "cl_source td_clause = ''human''" "cl_files td_clause = []"
  "cl_parameters td_clause = JNull"
  "at_clause td_attestation = ''h''" "at_contract_version td_attestation = 1"
  "at_note td_attestation = ''seen''"
  "cr_clause td_result = ''h''" "cr_checker td_result = ''human''" "cr_checker_version td_result = 1"
  "cr_status td_result = ''passed''" "cr_source td_result = ''human''" "cr_files td_result = []"
  "cr_reason td_result = ''human attestation; not a machine check''" "cr_operation td_result = None"
  "vr_id td_report = ''check-v''" "vr_task_id td_report = ''task-t''"
  "vr_project_anchor td_report = td_digest" "vr_session td_report = ''s''"
  "vr_contract_version td_report = 1" "vr_contract_digest td_report = td_digest"
  "vr_attestation_digest td_report = td_digest" "vr_status td_report = ''passed''"
  "vr_results td_report = [td_result]" "vr_limitations td_report = report_limitations"
  "cc_report (td_candidate st) = ''check-v''" "cc_run (td_candidate st) = ''run-r''"
  "cc_state (td_candidate st) = st"
  "cp_kind td_completion = ''human_attested''" "cp_report td_completion = Some ''check-v''"
  "cp_authority td_completion = ''user_authorized_model_candidate''"
  "cp_note td_completion = ''Confirmed declared acceptance and current evidence after successful execution settlement''"
  by (simp_all add: td_contract_def td_clause_def td_attestation_def td_result_def td_report_def
      td_candidate_def td_completion_def)

lemma td_texts [simp]:
  "bounded ''task-t'' 80 = Inr ()" "bounded ''/p'' 4096 = Inr ()" "bounded ''s'' 256 = Inr ()"
  "bounded ''do'' 8192 = Inr ()" "bounded ''run-r'' 80 = Inr ()" "bounded ''run-q'' 80 = Inr ()"
  "bounded ''op-o'' 80 = Inr ()" "bounded ''write'' 128 = Inr ()" "bounded ''h'' 64 = Inr ()"
  "bounded ''human'' 80 = Inr ()" "bounded ''seen'' 2048 = Inr ()" "bounded ''check-v'' 80 = Inr ()"
  "bounded ''human attestation; not a machine check'' 2048 = Inr ()"
  "bounded ''Confirmed declared acceptance and current evidence after successful execution settlement'' 2048
    = Inr ()"
  by (rule bounded_plain; simp add: plain_def byte_def)+

lemma td_limitations [simp]: "check_text report_limitations 2048 = Inr ()"
  by (simp add: check_text_def report_limitations_def)

lemma td_base [simp]:
  "sha256 (base td_env) x = td_digest" "enc_value (base td_env) j = ''{}''"
  "enc_contract (base td_env) c = ''{}''" "enc_attestations (base td_env) h = ''[]''"
  "enc_task (base td_env) s = ''{}''"
  by simp_all

lemma td_contract_valid: "validate_contract (base td_env) td_contract [] = Inr ()"
proof -
  have "is_alphanumeric CHR ''h''" by (simp add: is_alphanumeric_def is_lowercase_def byte_def)
  then have "clause_check (base td_env) [] td_clause = Inr ()"
    by (simp add: clause_check_def list_all_iff)
  then show ?thesis
    by (simp add: validate_contract_def validate_parameters_def enumerate_eq_zip)
qed

lemma td_report_valid:
  "validate_report (td_state n ph rs ops a) td_report = Inr ()"
  "validate_pass (base td_env) td_contract [td_attestation] td_report = Inr ()"
proof -
  have "result_check (td_state n ph rs ops a) [] td_result = Inr ()"
    by (simp add: result_check_def statuses_def)
  then show "validate_report (td_state n ph rs ops a) td_report = Inr ()"
    by (simp add: validate_report_def statuses_def)
  have "binding_check td_report td_clause = Inr ()" by (simp add: binding_check_def)
  then show "validate_pass (base td_env) td_contract [td_attestation] td_report = Inr ()"
    by (simp add: validate_pass_def validate_binding_def aggregate_def Let_def)
qed

lemma td_snapshots:
  "validate_snapshot (base td_env) (td_state n ph rs ops None) = Inr ()"
  "ph \<noteq> ''complete'' \<Longrightarrow> a \<in> {td_acceptance, td_a2, td_a7} \<Longrightarrow>
    validate_snapshot (base td_env) (td_state n ph rs ops (Some a)) = Inr ()"
  "ph \<noteq> ''complete'' \<Longrightarrow> list_ex (\<lambda>r. tr_id r = ''run-r'') rs \<Longrightarrow>
    validate_snapshot (base td_env) (td_state n ph rs ops (Some td_a8)) = Inr ()"
proof -
  have att: "as_contract a = Some td_contract \<Longrightarrow> attestation_check a td_attestation = Inr ()" for a
    by (simp add: attestation_check_def)
  show "validate_snapshot (base td_env) (td_state n ph rs ops None) = Inr ()"
    by (simp add: validate_snapshot_def)
  show "ph \<noteq> ''complete'' \<Longrightarrow> a \<in> {td_acceptance, td_a2, td_a7} \<Longrightarrow>
    validate_snapshot (base td_env) (td_state n ph rs ops (Some a)) = Inr ()"
    by (auto simp: validate_snapshot_def td_contract_valid att td_report_valid validate_auxiliary_def)
  show "ph \<noteq> ''complete'' \<Longrightarrow> list_ex (\<lambda>r. tr_id r = ''run-r'') rs \<Longrightarrow>
    validate_snapshot (base td_env) (td_state n ph rs ops (Some td_a8)) = Inr ()"
    by (simp add: validate_snapshot_def td_contract_valid att td_report_valid validate_auxiliary_def
        candidate_check_def)
qed

lemma td_snapshot10: "validate_snapshot (base td_env) td10 = Inr ()"
proof -
  have att: "attestation_check td_a10 td_attestation = Inr ()"
    by (simp add: attestation_check_def)
  have "model_completion_ok td10 td_a10 td_completion"
    by (simp add: model_completion_ok_def td10_def last_run_def)
  then have "validate_completion (base td_env) td10 td_a10 td_completion = Inr ()"
    by (simp add: validate_completion_def td10_def has_unknown_def last_run_def td_report_valid
        completion_kind_def)
  moreover have "candidate_check td10 td_a10 (td_candidate ''accepted'') = Inr ()"
    by (simp add: candidate_check_def td10_def)
  ultimately show ?thesis
    by (simp add: validate_snapshot_def td10_def td_contract_valid att td_report_valid
        validate_auxiliary_def)
qed

lemma td_validate:
  assumes "n \<noteq> 0" and "ph \<in> {''paused'', ''running'', ''complete'', ''cancelled''}"
    and "length rs \<le> 32" and "length ops \<le> 128" and "validate_runs 0 [] rs = Inr ()"
    and "for_seen op_id (operation_check (base td_env) rs) [] ops = Inr ()"
    and "validate_snapshot (base td_env) (td_state n ph rs ops a) = Inr ()"
  shows "task_validate (base td_env) (td_state n ph rs ops a) = Inr ()"
proof -
  have "budget_ok td_budget" by (simp add: budget_ok_def td_budget_def)
  moreover have "validate_progress progress_default = Inr ()"
    by (simp add: validate_progress_def progress_default_def check_text_def check_strings_def)
  ultimately show ?thesis
    using assms by (simp add: task_validate_def check_strings_def validate_execution_def)
qed

lemma td_operations [simp]:
  "list_ex (\<lambda>r. tr_id r = ''run-r'' \<and> tr_turn r \<noteq> None) rs \<Longrightarrow>
    operation_check (base td_env) rs [] td_intent = Inr ()"
  "list_ex (\<lambda>r. tr_id r = ''run-r'' \<and> tr_turn r \<noteq> None) rs \<Longrightarrow>
    operation_check (base td_env) rs [] td_outcome = Inr ()"
  by (simp_all add: operation_check_def opt_digest_ok_def)

definition td_all :: "task_state set" where
  "td_all = {td0, td1, td2, td3, td4, td5, td6, td7, td8, td9, td10, td11, td12}"

lemma td_valid:
  "\<forall>s\<in>td_all. task_validate (base td_env) s = Inr ()"
proof -
  have "task_validate (base td_env) td10 = Inr ()"
    using td_snapshot10 unfolding td10_def by (intro td_validate) simp_all
  moreover have "\<forall>s\<in>{td0, td1, td2, td3, td4, td5, td6, td7, td8, td9, td11, td12}.
      task_validate (base td_env) s = Inr ()"
    unfolding td_states
    by (auto intro!: td_validate td_snapshots simp: word_le_nat_alt)
  ultimately show ?thesis by (simp add: td_all_def)
qed

lemma td_fold:
  assumes "task_validate (base td_env) s = Inr ()"
  shows "cur = None \<and> valid_birth s
      \<or> (\<exists>old. cur = Some old \<and> t_id old = t_id s \<and> task_transition (base td_env) old s = Inr ())
    \<Longrightarrow> task_fold_event (base td_env) cur (''clat/task'', task_json td_env s) = Inr (Some s)"
  using decode_task_json[OF td_codec assms]
  by (auto simp: task_fold_event_def fold_change_def replaceable_def)

text \<open>A transition that keeps the operations and runs, one that adds, and so on, split in its checks.\<close>

lemma td_transition:
  assumes "\<not> (ph \<in> {''complete'', ''cancelled''})" and "checked_add n 1 = Some n'"
    and "length rs \<le> length rs'" and "length ops \<le> length ops'"
    and "list_all (\<lambda>(a, b). operation_kept a b) (zip ops ops')"
    and "list_all (\<lambda>(a, b). run_kept a b) (zip rs rs')"
    and "validate_change (base td_env) (td_state n ph rs ops a) (td_state n' ph' rs' ops' a') = Inr ()"
    and "transition_family (td_state n ph rs ops a) (td_state n' ph' rs' ops' a') = Inr ()"
  shows "task_transition (base td_env) (td_state n ph rs ops a) (td_state n' ph' rs' ops' a') = Inr ()"
  using assms by (simp add: task_transition_def terminal_def)

lemma td_not_admission [simp]: "\<not> valid_run_admission (td_state n ph rs ops a) (td_state n' ph' rs ops' a')"
  by (auto simp: valid_run_admission_def is_run_admission_def)

lemma td_family_same:
  "(ph = ph' \<or> ph' \<noteq> ''running'') \<Longrightarrow> \<not> (ph' = ''complete'' \<and> list_ex (\<lambda>x. op_outcome x = ''unknown'') ops)
   \<Longrightarrow> transition_family (td_state n ph rs ops a) (td_state n' ph' rs ops a') = Inr ()"
  by (simp add: transition_family_def Let_def has_unknown_def)

lemma td_change_same [simp]:
  "ph' \<noteq> ''complete'' \<Longrightarrow>
    validate_change E (td_state n ph rs ops a) (td_state n' ph' rs' ops' a) = Inr ()"
  by (simp add: validate_change_def)

lemma td_kept [simp]:
  "operation_kept x x" "operation_kept td_intent td_outcome" "run_kept r r"
  "run_kept (td_run i None tokens ms False) (td_run i (Some turn) tokens ms False)"
  "run_kept (td_run i x' tokens ms False) (td_run i x' tokens' ms' True)"
  by (simp_all add: operation_kept_refl operation_kept_def immutable_command_def run_kept_def
      is_run_admission_def)

lemma td_steps1:
  "task_transition (base td_env) td0 td1 = Inr ()" "task_transition (base td_env) td1 td2 = Inr ()"
  "task_transition (base td_env) td6 td7 = Inr ()" "task_transition (base td_env) td7 td8 = Inr ()"
proof -
  have c0: "validate_change (base td_env) td0 td1 = Inr ()"
    by (simp add: td_states validate_change_def acceptance_default_def contract_change_def
        next_contract_version_def)
  have c1: "validate_change (base td_env) td1 td2 = Inr ()"
    by (simp add: td_states validate_change_def history_change_def td_a2_def)
  have c6: "validate_change (base td_env) td6 td7 = Inr ()"
    using td_report_valid(2)
    by (simp add: td_states validate_change_def history_change_def validate_pass_def td_a7_def)
  have c7: "validate_change (base td_env) td7 td8 = Inr ()"
    using td_report_valid(2)
    by (simp add: td_states validate_change_def history_change_def candidate_change_def
        last_run_def has_unknown_def td_a8_def)
  show "task_transition (base td_env) td0 td1 = Inr ()" "task_transition (base td_env) td1 td2 = Inr ()"
    "task_transition (base td_env) td6 td7 = Inr ()" "task_transition (base td_env) td7 td8 = Inr ()"
    using c0 c1 c6 c7 unfolding td_states
    by (auto intro!: td_transition td_family_same simp: checked_add_def)
qed

lemma td_remaining:
  "remaining td2 = (100, 3, 60000)" "remaining td9 = (70, 2, 59100)"
  by (simp_all add: remaining_def td_states td_budget_def saturating_sum_def saturating_sub_def
      saturating_add_def word_le_nat_alt)

lemma td_steps2:
  "task_transition (base td_env) td2 td3 = Inr ()" "task_transition (base td_env) td3 td4 = Inr ()"
  "task_transition (base td_env) td9 td11 = Inr ()" "task_transition (base td_env) td11 td12 = Inr ()"
proof -
  have "transition_family td2 td3 = Inr ()" "transition_family td9 td11 = Inr ()"
    using td_remaining
    by (simp_all add: transition_family_def Let_def validate_run_birth_def last_run_def)
      (simp_all add: td_states td_budget_def valid_run_admission_def word_le_nat_alt min_def)
  moreover have "transition_family td3 td4 = Inr ()" "transition_family td11 td12 = Inr ()"
    by (simp_all add: td_states transition_family_def Let_def valid_run_admission_def
        is_run_admission_def)
  ultimately show "task_transition (base td_env) td2 td3 = Inr ()"
    "task_transition (base td_env) td3 td4 = Inr ()"
    "task_transition (base td_env) td9 td11 = Inr ()" "task_transition (base td_env) td11 td12 = Inr ()"
    unfolding td_states by (auto intro!: td_transition simp: checked_add_def)
qed

lemma td_steps3:
  "task_transition (base td_env) td4 td5 = Inr ()" "task_transition (base td_env) td5 td6 = Inr ()"
  "task_transition (base td_env) td8 td9 = Inr ()"
proof -
  have "transition_family td4 td5 = Inr ()" "transition_family td5 td6 = Inr ()"
    "transition_family td8 td9 = Inr ()"
    by (simp_all add: td_states transition_family_def Let_def validate_operation_change_def
        last_run_def changed_def valid_settlement_def valid_run_admission_def is_run_admission_def)
  then show "task_transition (base td_env) td4 td5 = Inr ()"
    "task_transition (base td_env) td5 td6 = Inr ()" "task_transition (base td_env) td8 td9 = Inr ()"
    unfolding td_states by (auto intro!: td_transition simp: checked_add_def)
qed

lemma td_step10: "task_transition (base td_env) td9 td10 = Inr ()"
proof -
  have "td_a10 = td_a8\<lparr>as_completion := as_completion td_a10,
      as_candidate := map_option (judged (Some ''check-v'')) (as_candidate td_a8)\<rparr>"
    by (simp add: judged_def td_a10_def td_a8_def td_candidate_def)
  moreover have "td_a8 \<noteq> td_a10" by (auto dest: arg_cong[of _ _ as_completion])
  ultimately have "validate_change (base td_env) td9 td10 = Inr ()"
    by (simp add: td_states validate_change_def completion_change_def)
  then show ?thesis
    unfolding td_states by (auto intro!: td_transition td_family_same simp: checked_add_def)
qed

text \<open>The journal of the whole life, and the one in which a second run begins.\<close>

definition td_log :: "task_state list \<Rightarrow> (string \<times> json) list" where
  "td_log ss = map (\<lambda>s. (''clat/task'', task_json td_env s)) ss"

abbreviation td_life :: "task_state list" where
  "td_life \<equiv> [td0, td1, td2, td3, td4, td5, td6, td7, td8, td9]"

lemma td_fold_step:
  assumes "old \<in> td_all" and "s \<in> td_all" and "task_transition (base td_env) old s = Inr ()"
  shows "task_fold_event (base td_env) (Some old) (''clat/task'', task_json td_env s) = Inr (Some s)"
proof -
  have "t_id old = t_id s" using assms(1,2) by (auto simp: td_all_def td_states)
  with assms td_valid show ?thesis by (intro td_fold) auto
qed

lemma td_folds [simp]:
  "task_fold_event (base td_env) None (''clat/task'', task_json td_env td0) = Inr (Some td0)"
  "task_fold_event (base td_env) (Some td0) (''clat/task'', task_json td_env td1) = Inr (Some td1)"
  "task_fold_event (base td_env) (Some td1) (''clat/task'', task_json td_env td2) = Inr (Some td2)"
  "task_fold_event (base td_env) (Some td2) (''clat/task'', task_json td_env td3) = Inr (Some td3)"
  "task_fold_event (base td_env) (Some td3) (''clat/task'', task_json td_env td4) = Inr (Some td4)"
  "task_fold_event (base td_env) (Some td4) (''clat/task'', task_json td_env td5) = Inr (Some td5)"
  "task_fold_event (base td_env) (Some td5) (''clat/task'', task_json td_env td6) = Inr (Some td6)"
  "task_fold_event (base td_env) (Some td6) (''clat/task'', task_json td_env td7) = Inr (Some td7)"
  "task_fold_event (base td_env) (Some td7) (''clat/task'', task_json td_env td8) = Inr (Some td8)"
  "task_fold_event (base td_env) (Some td8) (''clat/task'', task_json td_env td9) = Inr (Some td9)"
  "task_fold_event (base td_env) (Some td9) (''clat/task'', task_json td_env td10) = Inr (Some td10)"
  "task_fold_event (base td_env) (Some td9) (''clat/task'', task_json td_env td11) = Inr (Some td11)"
  "task_fold_event (base td_env) (Some td11) (''clat/task'', task_json td_env td12) = Inr (Some td12)"
  subgoal using td_valid by (intro td_fold) (simp_all add: td_all_def, simp add: valid_birth_def td0_def)
  by (rule td_fold_step; simp add: td_all_def td_steps1 td_steps2 td_steps3 td_step10)+

lemma td_replay [simp]:
  "task_replay td_env (td_log [td0]) = Inr (Some td0)"
  "task_replay td_env (td_log [td0, td1, td2, td3, td4]) = Inr (Some td4)"
  "task_replay td_env (td_log [td0, td1, td2, td3, td4, td5]) = Inr (Some td5)"
  "task_replay td_env (td_log td_life) = Inr (Some td9)"
  "task_replay td_env (td_log (td_life @ [td10])) = Inr (Some td10)"
  "task_replay td_env (td_log (td_life @ [td11, td12])) = Inr (Some td12)"
  by (simp_all add: td_log_def)

definition td_live :: "string \<Rightarrow> live_run" where
  "td_live run = \<lparr>lr_task = ''task-t'', lr_session = ''s'', lr_run = run, lr_tokens = 50,
     lr_duration = 20000\<rparr>"

definition td_sys :: "task_state list \<Rightarrow> live_run option \<Rightarrow> task_sys" where
  "td_sys ss live = \<lparr>ts_session = Some (''s'', ''/p''), ts_read_only = False, ts_log = td_log ss,
     ts_live = live, ts_failure = None\<rparr>"

definition td_io :: "string \<Rightarrow> task_io" where
  "td_io fresh = \<lparr>tio_root = None, tio_append = AppendOk, tio_fresh = fresh,
     tio_read = (\<lambda>_ _. Inr None)\<rparr>"

end
