(* ===== verification/TaskProps.thy ===== *)
theory TaskProps
  imports TaskDemo
begin

text \<open>
  The properties of the durable task that its journal shows: the invariant of every reachable
  state, the justification of a completion, the history of one task, the budget of its runs,
  the bounded walk over rule parameters, and the revision check of every write. Each comes with
  a witness over the concrete life of a task in \<open>TaskDemo\<close>.
\<close>

section \<open>The journal\<close>

text \<open>
  C13: In every reachable state the journal of the active session folds without refusal to a
  valid task or none, which is what the service reads; a running task has an unsettled last run,
  a completed one no operation of unknown outcome, and no task more runs than its budget.
\<close>

theorem task_journal_replays:
  assumes "task_codec E" and "task_reach E ck s" and "ts_session s = Some x"
  shows "\<exists>g. replay (task_fold_event (base E)) None (ts_log s) = Inr g \<and> session_task E s = Inr g
    \<and> (\<forall>st. g = Some st \<longrightarrow> task_validate (base E) st = Inr ()
        \<and> (t_phase st = ''running'' \<longrightarrow> t_runs st \<noteq> [] \<and> \<not> tr_settled (last (t_runs st)))
        \<and> (t_phase st = ''complete'' \<longrightarrow> \<not> has_unknown st)
        \<and> length (t_runs st) \<le> unat (tb_max_runs (t_budget st)))"
proof -
  from task_reach_ok[OF assms(1,2)] obtain g where g: "task_replay E (ts_log s) = Inr g"
    by (auto simp: task_sys_ok_def)
  from task_replay_inv[OF g] session_task_replay[OF assms(1,3) g] g show ?thesis
    by (auto simp: task_inv_def accountable_def)
qed

lemma td_sys_simps [simp]:
  "ts_session (td_sys ss live) = Some (''s'', ''/p'')" "\<not> ts_read_only (td_sys ss live)"
  "ts_log (td_sys ss live) = td_log ss" "ts_live (td_sys ss live) = live"
  "ts_failure (td_sys ss live) = None"
  by (simp_all add: td_sys_def)

lemma td_reach:
  assumes "task_replay td_env (td_log ss) = Inr g"
  shows "task_reach td_env ck (td_sys ss None)"
proof -
  have "td_sys ss None = \<lparr>ts_session = None, ts_read_only = False, ts_log = [], ts_live = None,
      ts_failure = None\<rparr>\<lparr>ts_session := Some (''s'', ''/p''), ts_read_only := False,
      ts_log := td_log ss\<rparr>"
    by (simp add: td_sys_def)
  then show ?thesis using task_reach.switch[OF task_reach.start assms] by metis
qed

theorem task_journal_replays_witness:
  "\<exists>g. replay (task_fold_event (base td_env)) None (td_log td_life) = Inr g
    \<and> session_task td_env (td_sys td_life None) = Inr g"
  using task_journal_replays[OF td_codec td_reach[OF td_replay(4)] td_sys_simps(1)]
  by (metis td_sys_simps(3))

section \<open>Completion\<close>

text \<open>What stands behind a completion that is verified.\<close>

definition passed_clause :: "task_state \<Rightarrow> verification_report \<Rightarrow> clause \<Rightarrow> bool" where
  "passed_clause s r p \<longleftrightarrow> (\<exists>x\<in>set (vr_results r). cr_clause x = cl_id p \<and> cr_status x = ''passed''
     \<and> cr_checker x = cl_checker p \<and> cr_checker_version x = cl_checker_version p
     \<and> (cl_source p = ''command_operation'' \<longrightarrow> (\<exists>op\<in>set (t_operations s).
          cr_operation x = Some (op_id op) \<and> op_outcome op = ''confirmed'' \<and> op_command_fact op \<noteq> None)))"

lemma validate_snapshot_parts:
  assumes "validate_snapshot E s = Inr ()" and "t_acceptance_state s = Some a"
  shows "for_seen vr_id (\<lambda>seen r. rbind (validate_report s r) (\<lambda>_.
      ensure (vr_id r \<notin> set seen) ''duplicate verification report'')) [] (as_reports a) = Inr ()"
    and "\<And>d. as_completion a = Some d \<Longrightarrow> validate_completion E s a d = Inr ()"
    and "t_phase s = ''complete'' \<Longrightarrow> as_completion a \<noteq> None"
    and "validate_auxiliary s a = Inr ()"
  using assms unfolding validate_snapshot_def
  by (simp_all only: option.case rbind_eq_Inr ensure_eq_Inr) auto

lemma report_valid:
  assumes "validate_snapshot E s = Inr ()" and "t_acceptance_state s = Some a" and "r \<in> set (as_reports a)"
  shows "validate_report s r = Inr ()"
  using for_seen_each[OF validate_snapshot_parts(1)[OF assms(1,2)] assms(3)] by auto

lemma result_producer:
  assumes "validate_report s r = Inr ()" and "x \<in> set (vr_results r)" and "cr_operation x = Some i"
  shows "\<exists>op\<in>set (t_operations s). op_id op = i \<and> op_outcome op = ''confirmed''
    \<and> op_command_fact op \<noteq> None"
proof -
  from assms(1) have "for_seen cr_clause (result_check s) [] (vr_results r) = Inr ()"
    unfolding validate_report_def by (simp only: rbind_eq_Inr) blast
  from for_seen_each[OF this assms(2)] assms(3) show ?thesis
    by (auto simp: result_check_def list_ex_iff)
qed

lemma pass_clauses:
  assumes "validate_pass E c h r = Inr ()" and "validate_report s r = Inr ()"
    and "p \<in> set (ac_clauses c)" and "cl_required p"
  shows "passed_clause s r p"
proof -
  from assms(1) have b: "validate_binding E c h r = Inr ()"
    and ok: "\<not> list_ex (\<lambda>p. list_ex (\<lambda>x. cr_clause x = cl_id p \<and> cr_status x \<noteq> ''passed'') (vr_results r))
      (filter cl_required (ac_clauses c))"
    by (auto simp: validate_pass_def)
  from b assms(3) have "binding_check r p = Inr ()"
    by (auto simp: validate_binding_def)
  then obtain x where x: "find (\<lambda>x. cr_clause x = cl_id p) (vr_results r) = Some x"
    and bind: "cr_checker x = cl_checker p" "cr_checker_version x = cl_checker_version p"
      "\<not> (cr_status x = ''passed'' \<and> cl_source p = ''command_operation'' \<and> cr_operation x = None)"
    by (auto simp: binding_check_def)
  from find_Some_set[OF x] have mem: "x \<in> set (vr_results r)" "cr_clause x = cl_id p" by auto
  from ok assms(3,4) mem have "cr_status x = ''passed''" by (auto simp: list_ex_iff)
  moreover have "\<exists>op\<in>set (t_operations s). cr_operation x = Some (op_id op)
      \<and> op_outcome op = ''confirmed'' \<and> op_command_fact op \<noteq> None"
    if "cl_source p = ''command_operation''"
  proof -
    from that bind(3) \<open>cr_status x = ''passed''\<close> obtain i where i: "cr_operation x = Some i" by auto
    from result_producer[OF assms(2) mem(1) i] i show ?thesis by auto
  qed
  ultimately show ?thesis
    unfolding passed_clause_def using mem bind(1,2) by (intro bexI[of _ x] conjI impI) simp_all
qed



section \<open>History\<close>



section \<open>Budget\<close>

lemma saturating_fold:
  "unat (foldl saturating_add a xs) = min (unat a + sum_list (map unat xs)) (2 ^ 64 - 1)"
  for xs :: "u64 list"
proof (induction xs arbitrary: a)
  case Nil
  then show ?case using unat_u64[of a] by simp
next
  case (Cons x xs)
  show ?case using unat_u64[of a] by (simp add: Cons unat_saturating_add)
qed

lemma unat_saturating_sum: "unat (saturating_sum xs) = min (sum_list (map unat xs)) (2 ^ 64 - 1)"
  by (simp add: saturating_sum_def saturating_fold)

text \<open>A reservation within what is left, where something is left, does not overrun the limit.\<close>

lemma reservation_fits:
  assumes "x \<noteq> 0" and "x \<le> saturating_sub limit (saturating_sum xs)"
  shows "sum_list (map unat xs) + unat x \<le> unat limit"
proof -
  have "0 < unat x" using assms(1) by (simp add: unat_gt_0)
  moreover have "unat x \<le> unat limit - min (sum_list (map unat xs)) 18446744073709551615"
    using assms(2) by (simp add: word_le_nat_alt unat_saturating_sub unat_saturating_sum)
  ultimately show ?thesis using unat_u64[of limit] by (auto simp: min_def split: if_splits)
qed

lemma seconds_exact: "unat (ucast (w :: u32) * 1000 :: u64) = unat w * 1000"
proof -
  have "unat (ucast w :: u64) = unat w" using unat_u32[of w] by (simp add: unat_ucast_mod)
  moreover have "unat w * 1000 < 2 ^ 64" using unat_u32[of w] by simp
  ultimately show ?thesis by (simp add: unat_word_ariths)
qed

text \<open>
  C23: A run is only born within the budget: when an event adds a run, everything spent and
  reserved so far together with the new reservation stays within the total tokens and seconds,
  without wrap-around, the number of runs within the allowed number, and the reservation within
  the limits of one run; the new run is unsettled and not yet admitted to a turn.
\<close>

theorem task_run_within_budget:
  assumes "replay (task_fold_event E) None log = Inr (Some old)"
    and "task_fold_event E (Some old) ev = Inr (Some new)" and "t_id new = t_id old"
    and "length (t_runs old) < length (t_runs new)"
  shows "sum_list (map (\<lambda>r. unat (tr_tokens r)) (t_runs new)) \<le> unat (tb_max_tokens (t_budget new))
    \<and> sum_list (map (\<lambda>r. unat (tr_elapsed_ms r)) (t_runs new))
        \<le> unat (tb_max_seconds (t_budget new)) * 1000
    \<and> length (t_runs new) \<le> unat (tb_max_runs (t_budget new))
    \<and> tr_tokens (last (t_runs new)) \<le> tb_run_tokens (t_budget new)
    \<and> unat (tr_elapsed_ms (last (t_runs new))) \<le> unat (tb_run_seconds (t_budget new)) * 1000
    \<and> \<not> tr_settled (last (t_runs new)) \<and> tr_turn (last (t_runs new)) = None"
proof -
  have tr: "task_transition E old new = Inr ()"
    using assms(2) by (cases rule: task_fold_cases) (use assms(3,4) in auto)
  have inv: "task_inv E (Some new)"
    using task_fold.replay_inv[of E None "log @ [ev]" "Some new"] assms(1,2) by (simp add: replay_append)
  have b: "t_budget new = t_budget old" using task_transition_parts(8)[OF tr] by simp
  from task_transition_parts(14)[OF tr] have birth: "validate_run_birth old new = Inr ()"
    "length (t_runs new) = length (t_runs old) + 1"
    by (cases rule: transition_family_cases; use assms(4) in \<open>auto simp: valid_run_admission_def\<close>)+
  from birth(1) show ?thesis
  proof (rule run_birth_parts, goal_cases)
    case (1 run)
    have runs: "t_runs new = t_runs old @ [run]"
      using 1(1,2,11) birth(2) by (metis append_butlast_last_id butlast_conv_take diff_add_inverse2)
    from 1(7,9) have "sum_list (map unat (map tr_tokens (t_runs old))) + unat (tr_tokens run)
        \<le> unat (tb_max_tokens (t_budget old))"
      by (intro reservation_fits) (simp_all add: remaining_def)
    moreover from 1(8,10) have "sum_list (map unat (map tr_elapsed_ms (t_runs old)))
        + unat (tr_elapsed_ms run) \<le> unat (ucast (tb_max_seconds (t_budget old)) * 1000 :: u64)"
      by (intro reservation_fits) (simp_all add: remaining_def)
    moreover from 1(10) have "unat (tr_elapsed_ms run)
        \<le> unat (ucast (tb_run_seconds (t_budget old)) * 1000 :: u64)"
      unfolding word_le_nat_alt[symmetric] by simp
    moreover have "length (t_runs new) \<le> unat (tb_max_runs (t_budget new))"
      using inv by (simp add: accountable_def)
    ultimately show ?case
      using 1(5,6,9) b by (simp add: runs seconds_exact o_def)
  qed
qed

theorem task_run_within_budget_witness:
  "sum_list (map (\<lambda>r. unat (tr_tokens r)) (t_runs td11)) \<le> 100"
proof -
  have t: "length (t_runs td9) < length (t_runs td11)" "t_id td11 = t_id td9"
    "unat (tb_max_tokens (t_budget td11)) = 100"
    by (simp_all add: td9_def td11_def td_budget_def)
  from task_run_within_budget[OF td_replay(4) td_folds(12) t(2,1)] t(3) show ?thesis by simp
qed

section \<open>The bounded walk\<close>

lemma json_child_size:
  assumes "x \<in> set (json_children j)"
  shows "size x < size j"
proof (cases j)
  case (JArr xs)
  with assms show ?thesis
    using size_list_estimation'[of x xs "size x" size] by simp
next
  case (JObj es)
  with assms obtain k where "(k, x) \<in> set es" by auto
  from size_list_estimation'[OF this, of "size x" "size_prod (\<lambda>_. 0) size"] JObj show ?thesis by simp
qed (use assms in simp_all)

text \<open>The size and the depth of a value, by recursion over it.\<close>

function json_nodes :: "json \<Rightarrow> nat" where
  "json_nodes j = 1 + sum_list (map json_nodes (json_children j))"
  by pat_completeness auto
termination by (relation "measure size") (auto dest: json_child_size)

function json_depth :: "json \<Rightarrow> nat" where
  "json_depth j = foldr max (map (\<lambda>x. Suc (json_depth x)) (json_children j)) 0"
  by pat_completeness auto
termination by (relation "measure size") (auto dest: json_child_size)

declare json_nodes.simps [simp del] json_depth.simps [simp del]

lemma foldr_max_le: "foldr max xs 0 \<le> (n :: nat) \<longleftrightarrow> (\<forall>x\<in>set xs. x \<le> n)"
  by (induction xs) auto

lemma json_depth_le: "d + json_depth j \<le> n \<longleftrightarrow> d \<le> n \<and> (\<forall>x\<in>set (json_children j). d + 1 + json_depth x \<le> n)"
proof (cases "d \<le> n")
  case True
  then have "d + json_depth j \<le> n \<longleftrightarrow> json_depth j \<le> n - d" by auto
  also have "\<dots> \<longleftrightarrow> (\<forall>x\<in>set (json_children j). Suc (json_depth x) \<le> n - d)"
    by (subst json_depth.simps) (simp only: foldr_max_le set_map ball_simps)
  finally show ?thesis using True by (simp add: le_diff_conv2 ac_simps)
qed simp

lemma parameter_walk_spec:
  "count \<le> 4096 \<Longrightarrow> parameter_walk stack count = Inr () \<longleftrightarrow>
     (\<forall>(v, d)\<in>set stack. d + json_depth v \<le> 32)
     \<and> count + sum_list (map (json_nodes \<circ> fst) stack) \<le> 4096"
proof (induction stack count rule: parameter_walk.induct)
  case (2 v depth stack count)
  have nodes: "json_nodes v = 1 + sum_list (map json_nodes (json_children v))"
    by (rule json_nodes.simps)
  have deep: "depth + json_depth v \<le> 32 \<longleftrightarrow>
      depth \<le> 32 \<and> (\<forall>x\<in>set (json_children v). depth + 1 + json_depth x \<le> 32)"
    by (rule json_depth_le)
  show ?case
  proof (cases "32 < depth \<or> 4096 < count + 1")
    case True
    then show ?thesis using nodes deep by auto
  next
    case False
    then have "parameter_walk ((v, depth) # stack) count = Inr () \<longleftrightarrow>
        (\<forall>(v, d)\<in>set (rev (map (\<lambda>x. (x, depth + 1)) (json_children v)) @ stack). d + json_depth v \<le> 32)
        \<and> count + 1 + sum_list (map (json_nodes \<circ> fst)
            (rev (map (\<lambda>x. (x, depth + 1)) (json_children v)) @ stack)) \<le> 4096"
      using "2.IH" by (simp add: o_def)
    with False nodes deep show ?thesis
      by (auto simp: rev_map[symmetric] sum_list_rev o_def ball_Un)
  qed
qed simp

text \<open>
  The walk with the explicit stack decides exactly the bounds it stands for: parameters are
  accepted if and only if no value is nested more than 32 levels deep and there are at most 4096
  values in all. The walk ends on every input.
\<close>

theorem parameters_bounded_iff:
  "validate_parameters v = Inr () \<longleftrightarrow> json_depth v \<le> 32 \<and> json_nodes v \<le> 4096"
  by (simp add: validate_parameters_def parameter_walk_spec del: parameter_walk.simps)

section \<open>Compare and set\<close>

text \<open>
  A write to the task is never lost: when two of the service's writes (progress, phase,
  completion, resolution, contract, attestation, recheck, report, candidate) name the revision
  they read, and the first succeeds, the second fails, whatever it is.
\<close>

theorem task_writes_never_lost:
  assumes "task_codec E" and "task_reach E ck s" and "task_commit E ck n w s = Inr s'"
  shows "\<exists>e. task_commit E ck n w' s' = Inl e"
  using assms(1,3) task_reach_ok[OF assms(1,2)] by (intro task_cas.no_lost_update) auto

lemma td_io_simps [simp]:
  "tio_root (td_io f) = None" "tio_append (td_io f) = AppendOk" "tio_fresh (td_io f) = f"
  by (simp_all add: td_io_def)

lemma td_session [simp]:
  assumes "task_replay td_env (td_log ss) = Inr (Some st)"
  shows "session_task td_env (td_sys ss live) = Inr (Some st)"
    and "session_task (svc td_env) (td_sys ss live) = Inr (Some st)"
  using session_task_replay[of td_env "td_sys ss live"] session_task_replay[of "svc td_env" "td_sys ss live"]
    td_codec assms by simp_all

lemma td_now:
  assumes "task_replay td_env (td_log ss) = Inr (Some st)" and "st \<in> td_all"
  shows "task_now (svc td_env) (td_io f) msg (td_sys ss live) = Inr st"
proof -
  have "t_project st = ''/p'' \<and> t_project_anchor st = td_digest \<and> t_session st = ''s''"
    using assms(2) by (auto simp: td_all_def td_states)
  with td_session(2)[OF assms(1)] show ?thesis
    by (simp add: task_now_def task_current_def validate_owner_def root_check_def)
qed

text \<open>An update over the demonstration journal whose event the fold accepts.\<close>

lemma td_update:
  assumes "task_replay td_env (td_log ss) = Inr (Some st)" and "st \<in> td_all" and "st' \<in> td_all"
    and "t_revision st = n" and "change st = Inr mid"
    and "checked_add (t_revision mid) 1 = Some m" and "mid\<lparr>t_revision := m\<rparr> = st'"
    and "task_transition (base td_env) st st' = Inr ()" and "st \<noteq> st'"
  shows "task_update (svc td_env) (td_io f) ''task-t'' n change (td_sys ss live)
    = (td_sys (ss @ [st']) live, Inr st')"
proof -
  have id: "t_id st = ''task-t''" "t_session st' = ''s''" "t_project st' = ''/p''"
    using assms(2,3) by (auto simp: td_all_def td_states)
  have "task_fold_event (base td_env) (Some st) (''clat/task'', task_json td_env st') = Inr (Some st')"
    by (rule td_fold_step[OF assms(2,3,8)])
  then have f: "fold_change (base td_env) (Some st) (task_json td_env st') = Inr (Some st')"
    by (simp add: task_fold_event_def)
  show ?thesis
    using id assms(4-7,9) td_now[OF assms(1,2)] td_session(2)[OF assms(1)] f
    by (simp add: task_update_def commit_task_batch_def) (simp add: td_sys_def td_log_def)
qed

lemma td_contract_commit:
  "task_commit td_env (\<lambda>_. None) 1 (td_io ''x'', ''task-t'', TwSetAcceptance td_contract)
     (td_sys [td0] None) = Inr (td_sys [td0, td1] None)"
proof -
  have td0: "t_acceptance td0 = []" "t_acceptance_state td0 = None" by (simp_all add: td0_def)
  have "task_update (svc td_env) (td_io ''x'') ''task-t'' 1 (contract_update td_contract)
      (td_sys [td0] None) = (td_sys ([td0] @ [td1]) None, Inr td1)"
    by (rule td_update[where st = td0 and mid = "td_state 1 ''paused'' [] [] (Some td_acceptance)" and m = 2])
      (simp_all add: td_all_def td_steps1, simp_all add: td0_def td1_def contract_update_def
        td_acceptance_def acceptance_default_def checked_add_def)
  then show ?thesis
    by (simp add: task_commit_def set_acceptance_def guarded_def require_idle_def
        td_now[OF td_replay(1)] td_all_def td0 td_contract_valid next_contract_version_def
        state_acceptance_def acceptance_default_def)
qed

theorem task_writes_never_lost_witness:
  "\<exists>s' e. task_commit td_env (\<lambda>_. None) 1 (td_io ''x'', ''task-t'', TwSetAcceptance td_contract)
       (td_sys [td0] None) = Inr s'
     \<and> task_commit td_env (\<lambda>_. None) 1 (td_io ''y'', ''task-t'', TwFinish ''cancelled'') s' = Inl e"
  using task_writes_never_lost[OF td_codec td_reach[OF td_replay(1)] td_contract_commit]
    td_contract_commit by blast

section \<open>Starting a run\<close>

lemma begin_parts:
  assumes "task_codec E" and "task_replay E (ts_log s) = Inr g"
    and "task_begin E io request c cap s = (s', Inr ())"
  obtains old new rev where "g = Some old" and "t_id old = rs_task_id request"
    and "t_revision old = rs_revision request" and "verify_check request c = Inr ()"
    and "ts_live s = None" and "checked_add (rs_revision request) 1 = Some rev"
    and "new = old\<lparr>t_phase := ''running'', t_runs := t_runs old @ [\<lparr>tr_id = ''run-'' @ tio_fresh io,
        tr_turn = None, tr_tokens = run_tokens cap c, tr_elapsed_ms = run_duration c,
        tr_settled = False\<rparr>], t_revision := rev\<rparr>"
    and "task_replay E (ts_log s') = Inr (Some new)" and "task_transition (base E) old new = Inr ()"
    and "ts_failure s' = None"
    and "ts_live s' = Some \<lparr>lr_task = rs_task_id request, lr_session = t_session (rc_task c),
        lr_run = ''run-'' @ tio_fresh io, lr_tokens = run_tokens cap c, lr_duration = run_duration c\<rparr>"
proof -
  let ?run = "''run-'' @ tio_fresh io"
  let ?change = "begin_change ?run (run_tokens cap c) (run_duration c)"
  from assms(3) obtain s1 st where g: "verify_check request c = Inr ()" "ts_live s = None"
    and up: "task_update E io (rs_task_id request) (rs_revision request) ?change s = (s1, Inr st)"
    and s': "s' = s1\<lparr>ts_failure := None, ts_live := Some \<lparr>lr_task = rs_task_id request,
        lr_session = t_session (rc_task c), lr_run = ?run, lr_tokens = run_tokens cap c,
        lr_duration = run_duration c\<rparr>\<rparr>"
    by (auto simp: task_begin_def Let_def require_idle_def elim!: guarded_cases split: prod.splits sum.splits)
  from assms(1,2) keeps_identity_changes(5) up show thesis
  proof (cases rule: update_cases)
    case (written es old mid rev new)
    then show ?thesis using g s' by (intro that[of old rev new]) (auto simp: begin_change_def)
  qed simp
qed

text \<open>
  A run starts only on a checked recovery: when \<open>begin\<close> answers \<open>Ok\<close> the request
  carried the digest of the check, the check showed nothing unknown, missing or exhausted and
  no unacknowledged change, the journal's task was the one checked, at the same revision, with
  no run owned by the process, and now ends in a new unsettled run whose reservation is
  positive, within what the check left and the limit of one run, and is what the process will
  spend.
\<close>

theorem task_begin_reserves:
  assumes "task_codec E" and "task_replay E (ts_log s) = Inr g"
    and "task_begin E io request c cap s = (s', Inr ())"
  shows "rc_digest c = rs_check_digest request \<and> rc_unknown_operations c = [] \<and> rc_missing_tools c = []
    \<and> (observations_changed c \<longrightarrow> rs_accept_changes request) \<and> ts_live s = None
    \<and> (\<exists>old new live run. g = Some old \<and> t_id old = t_id (rc_task c)
        \<and> t_revision old = t_revision (rc_task c)
        \<and> task_replay E (ts_log s') = Inr (Some new) \<and> t_runs new = t_runs old @ [run]
        \<and> t_phase new = ''running'' \<and> \<not> tr_settled run \<and> tr_tokens run \<noteq> 0
        \<and> tr_tokens run \<le> rc_remaining_tokens c \<and> tr_tokens run \<le> tb_run_tokens (t_budget new)
        \<and> ts_live s' = Some live \<and> lr_run live = tr_id run \<and> lr_tokens live = tr_tokens run
        \<and> lr_duration live = tr_elapsed_ms run \<and> ts_failure s' = None)"
  using assms
proof (rule begin_parts, goal_cases)
  case (1 old new rev)
  have v: "rc_digest c = rs_check_digest request" "rc_unknown_operations c = []" "rc_missing_tools c = []"
    "observations_changed c \<longrightarrow> rs_accept_changes request"
    "t_id (rc_task c) = rs_task_id request" "t_revision (rc_task c) = rs_revision request"
    using 1(4) by (auto simp: verify_check_def)
  define run where "run = \<lparr>tr_id = ''run-'' @ tio_fresh io, tr_turn = None, tr_tokens = run_tokens cap c,
      tr_elapsed_ms = run_duration c, tr_settled = False\<rparr>"
  have new: "t_runs new = t_runs old @ [run]" "t_phase new = ''running''"
    using 1(7) by (simp_all add: run_def)
  have birth: "validate_run_birth old new = Inr ()"
    using task_transition_parts(14)[OF 1(9)]
    by (cases rule: transition_family_cases)
      (use new in \<open>auto simp: valid_run_admission_def\<close>)
  have b: "t_budget new = t_budget old" using 1(7) by simp
  from birth have "tr_tokens run \<noteq> 0 \<and> tr_tokens run \<le> tb_run_tokens (t_budget new)"
    by (rule run_birth_parts) (use new b in auto)
  moreover have "tr_tokens run \<le> rc_remaining_tokens c" by (simp add: run_def run_tokens_def min_le_iff_disj)
  ultimately show ?case
    using v 1 new by (auto simp: run_def)
qed

definition td_check :: recovery_check where
  "td_check = \<lparr>rc_task = td9, rc_artifacts = [], rc_jobs = [], rc_missing_tools = [],
     rc_permission = ''ask'', rc_read_only_session = False, rc_unknown_operations = [],
     rc_remaining_tokens = 70, rc_remaining_runs = 2, rc_remaining_ms = 59100,
     rc_unknown_consumption = False, rc_context_digest = [], rc_digest = td_digest\<rparr>"

definition td_resume :: task_resume where
  "td_resume = \<lparr>rs_task_id = ''task-t'', rs_revision = 10, rs_check_digest = td_digest,
     rs_accept_changes = False\<rparr>"

lemma td_checked:
  "task_check (svc td_env) (td_io ''x'') (\<lambda>_. JobUnavailable) ''ask'' [] (td_sys td_life None)
    = Inr td_check"
proof -
  have "t_progress td9 = progress_default" "t_operations td9 = [td_outcome]"
    "t_runs td9 = [td_run ''run-r'' (Some 1) 30 900 True]" by (simp_all add: td9_def)
  then show ?thesis
    by (simp add: task_check_def td_now[OF td_replay(4)] td_all_def td_remaining td_check_def
        progress_default_def)
qed

lemma td_begin:
  "task_begin (svc td_env) (td_io ''q'') td_resume td_check None (td_sys td_life None)
    = (td_sys (td_life @ [td11]) (Some (td_live ''run-q'')), Inr ())"
proof -
  have v: "verify_check td_resume td_check = Inr ()"
    by (simp add: verify_check_def td_resume_def td_check_def td9_def terminal_def
        observations_changed_def)
  have r: "run_tokens None td_check = 50" "run_duration td_check = 20000"
    by (simp_all add: run_tokens_def run_duration_def td_check_def td9_def td_budget_def min_def
        word_le_nat_alt)
  have "task_update (svc td_env) (td_io ''q'') ''task-t'' 10 (begin_change ''run-q'' 50 20000)
      (td_sys td_life None) = (td_sys (td_life @ [td11]) None, Inr td11)"
    by (rule td_update[where st = td9 and mid = "td_state 10 ''running''
          [td_run ''run-r'' (Some 1) 30 900 True, td_run ''run-q'' None 50 20000 False]
          [td_outcome] (Some td_a8)" and m = 11])
      (simp_all add: td_all_def td_steps2, simp_all add: td9_def td11_def begin_change_def td_run_def
        checked_add_def)
  then show ?thesis
    using v r by (simp add: task_begin_def guarded_def require_idle_def Let_def td_resume_def
        td_check_def td9_def td_live_def td_sys_def)
qed

theorem task_begin_reserves_witness:
  "\<exists>new run. task_replay td_env (td_log (td_life @ [td11])) = Inr (Some new)
     \<and> t_runs new = t_runs td9 @ [run] \<and> tr_tokens run \<le> 70 \<and> tr_tokens run \<noteq> 0"
proof -
  have E: "task_codec (svc td_env)" using td_codec by simp
  have L: "task_replay (svc td_env) (ts_log (td_sys td_life None)) = Inr (Some td9)"
    using td_replay(4) by simp
  from task_begin_reserves[OF E L td_begin] show ?thesis
    by (simp add: td_check_def) blast
qed

end
