(* ===== verification/TaskToolProps.thy ===== *)
theory TaskToolProps
  imports TaskProps
begin

text \<open>
  The properties of the tool middleware of a task and of its acceptance checks: a tool runs only
  behind a durable intent, a decided operation of an earlier run is not replayed, a result that
  cannot be recorded stops the run, and a check passes, or a model completes a task, only on
  current evidence.
\<close>

section \<open>Intents\<close>

lemma intent_cases:
  assumes E: "task_codec E" and log: "task_replay E (ts_log s) = Inr g" and live: "ts_live s = Some live"
    and run: "task_intent E io tool s = (s', Inr i)"
  obtains old new op where "g = Some old" and "i = Some (op_id op)" and "op_id op = ''op-'' @ tio_fresh io"
    and "op_run op = lr_run live" and "op_tool op = tc_name tool" and "op_outcome op = ''unknown''"
    and "op_arguments_digest op = sha256 E (enc_value E (tc_arguments tool))"
    and "t_operations new = t_operations old @ [op]"
    and "list_ex (\<lambda>r. tr_id r = lr_run live \<and> tr_turn r \<noteq> None) (t_runs new)"
    and "task_replay E (ts_log s') = Inr (Some new)"
    and "ts_live s' = ts_live s" and "ts_failure s' = ts_failure s"
proof -
  obtain st grant op u where guard: "intent_guard E io live tool s = Inr (st, grant, op)"
    and up: "task_update (svc E) io (t_id st) (t_revision st) (intent_change op grant) s = (s', Inr u)"
    and i: "i = Some (op_id op)"
    using run live by (auto simp: task_intent_def elim!: guarded_cases split: prod.splits)
  from guard have now: "task_now (svc E) io ''task disappeared'' s = Inr st"
    and adm: "list_ex (\<lambda>r. tr_id r = lr_run live \<and> tr_turn r \<noteq> None) (t_runs st)"
    and op: "op = intent_operation E io (lr_run live) tool st"
    using live by (auto simp: intent_guard_def Let_def require_binding_def)
  have E': "task_codec (svc E)" using E by simp
  have log': "task_replay (svc E) (ts_log s) = Inr g" using log by simp
  from task_now_replay[OF E' log' now] have g: "g = Some st" by simp
  from E' log' keeps_identity_changes(8) up show thesis
  proof (cases rule: update_cases)
    case (written es old mid n new)
    have old: "old = st" using written(1) g by simp
    have "t_operations mid = t_operations old @ [op]" "t_runs mid = t_runs old"
      using written(4) by (auto simp: intent_change_def Let_def split: option.splits)
    with written(6) have "t_operations new = t_operations old @ [op]" "t_runs new = t_runs old" by simp_all
    with written adm i g old show ?thesis by (intro that[of old op new]) (auto simp: op intent_operation_def)
  qed simp
qed

lemma intent_no_live: "ts_live s = None \<Longrightarrow> task_intent E io tool s = (s, Inr None)"
  by (simp add: task_intent_def)

text \<open>The calls of the middleware that reach the tool.\<close>

lemma execute_called:
  assumes "task_execute E io io' tool c1 c2 c3 chain s = (s', True, r)" and "\<not> bypasses tool"
  obtains s1 i where "check_failure s = Inr ()" and "\<not> c1" and "task_intent E io tool s = (s1, Inr i)"
    and "\<not> c2"
    and "\<And>chain'. task_execute E io io' tool c1 c2 c3 chain' s
      = (case record_result E io' c3 i (chain' s1) of (s2, r) \<Rightarrow> (s2, True, r))"
    and "record_result E io' c3 i (chain s1) = (s', r)"
proof -
  have ok: "check_failure s = Inr ()" "\<not> c1"
    using assms by (auto simp: task_execute_def split: sum.splits if_splits)
  obtain s1 q where q: "task_intent E io tool s = (s1, q)" by (cases "task_intent E io tool s")
  have "\<exists>i. q = Inr i \<and> \<not> c2"
    using assms ok q
    by (cases q) (auto simp: task_execute_def poison_def split: if_splits option.splits sum.splits prod.splits)
  then obtain i where i: "q = Inr i" "\<not> c2" by auto
  have ex: "task_execute E io io' tool c1 c2 c3 chain' s
      = (case record_result E io' c3 i (chain' s1) of (s2, r) \<Rightarrow> (s2, True, r))" for chain'
    using q i ok assms(2) by (simp add: task_execute_def)
  with assms(1) have "record_result E io' c3 i (chain s1) = (s', r)" by (auto split: prod.splits)
  with ok q i ex show thesis by (intro that) simp_all
qed


definition td_tool :: tool_call where
  "td_tool = \<lparr>tc_name = ''write'', tc_effect = EffWrite, tc_arguments = JObj [], tc_call_id = None,
     tc_identity = None\<rparr>"

abbreviation td_admitted :: "task_state list" where
  "td_admitted \<equiv> [td0, td1, td2, td3, td4]"

lemma td_binding [simp]:
  "require_binding ''task-t'' (td_sys ss (Some (td_live run))) = Inr run"
  "lr_task (td_live run) = ''task-t''" "lr_run (td_live run) = run"
  by (simp_all add: require_binding_def td_live_def)

lemma td_fields [simp]:
  "t_id td4 = ''task-t''" "t_revision td4 = 5" "t_operations td4 = []"
  "t_runs td4 = [td_run ''run-r'' (Some 1) 50 20000 False]" "t_acceptance_state td4 = Some td_a2"
  "t_id td5 = ''task-t''" "t_revision td5 = 6" "t_operations td5 = [td_intent]"
  "t_runs td5 = [td_run ''run-r'' (Some 1) 50 20000 False]" "t_acceptance_state td5 = Some td_a2"
  "t_operations td12 = [td_outcome]"
  by (simp_all add: td4_def td5_def td12_def)

lemma td_bypass [simp]: "\<not> bypasses td_tool"
  by (simp add: bypasses_def td_tool_def is_discovery_def)

lemma td_intent_step:
  "task_intent td_env (td_io ''o'') td_tool (td_sys td_admitted (Some (td_live ''run-r'')))
    = (td_sys (td_admitted @ [td5]) (Some (td_live ''run-r'')), Inr (Some ''op-o''))"
proof -
  have op: "intent_operation td_env (td_io ''o'') ''run-r'' td_tool td4 = td_intent"
    by (simp add: intent_operation_def td_tool_def td_intent_def command_intent_def)
  have "already_done td_env td_tool ''run-r'' td4 \<longleftrightarrow> False"
    by (simp add: already_done_def)
  then have "intent_guard td_env (td_io ''o'') (td_live ''run-r'') td_tool
      (td_sys td_admitted (Some (td_live ''run-r''))) = Inr (td4, None, td_intent)"
    using op by (simp add: intent_guard_def td_now[OF td_replay(2)] td_all_def Let_def
        verification_grant_index_def)
  moreover have "task_update (svc td_env) (td_io ''o'') ''task-t'' 5 (intent_change td_intent None)
      (td_sys td_admitted (Some (td_live ''run-r'')))
      = (td_sys (td_admitted @ [td5]) (Some (td_live ''run-r'')), Inr td5)"
    by (rule td_update[OF td_replay(2), where mid = "td_state 5 ''running''
        [td_run ''run-r'' (Some 1) 50 20000 False] [td_intent] (Some td_a2)" and m = 6])
      (simp_all add: td_all_def td_steps3, simp_all add: td4_def td5_def intent_change_def checked_add_def)
  ultimately show ?thesis
    by (simp add: task_intent_def guarded_def)
qed

lemma td_outcome_step:
  "task_outcome td_env (td_io ''z'') ''op-o'' (Inr JNull) ''confirmed''
      (td_sys (td_admitted @ [td5]) (Some (td_live ''run-r'')))
    = (td_sys (td_admitted @ [td5, td6]) (Some (td_live ''run-r'')), Inr ())"
proof -
  have "task_update (svc td_env) (td_io ''z'') ''task-t'' 6 (outcome_change td_env ''op-o'' None ''confirmed'' (Inr JNull))
      (td_sys (td_admitted @ [td5]) (Some (td_live ''run-r'')))
      = (td_sys ((td_admitted @ [td5]) @ [td6]) (Some (td_live ''run-r'')), Inr td6)"
    by (rule td_update[where st = td5 and mid = "td_state 6 ''running''
        [td_run ''run-r'' (Some 1) 50 20000 False] [td_outcome] (Some td_a2)" and m = 7])
      (simp_all add: td_all_def td_steps3, simp_all add: td5_def td6_def outcome_change_def
        checked_add_def td_outcome_def td_intent_def)
  then show ?thesis
    by (simp add: task_outcome_def guarded_def td_now[OF td_replay(3), simplified] td_all_def Let_def)
qed

lemma td_execute:
  "task_execute td_env (td_io ''o'') (td_io ''z'') td_tool False False False (\<lambda>s. (s, Inr JNull))
      (td_sys td_admitted (Some (td_live ''run-r'')))
    = (td_sys (td_admitted @ [td5, td6]) (Some (td_live ''run-r'')), True, Inr JNull)"
  using td_intent_step td_outcome_step
  by (simp add: task_execute_def check_failure_def record_result_def)




section \<open>Results\<close>

lemma outcome_recorded:
  assumes E: "task_codec E" and log: "task_replay E (ts_log s) = Inr g"
    and run: "task_outcome E io i result outcome s = (s', Inr ())"
  obtains new op where "task_replay E (ts_log s') = Inr (Some new)" and "op \<in> set (t_operations new)"
    and "op_id op = i" and "op_outcome op = outcome" and "op_result_digest op \<noteq> None"
proof -
  obtain st cfact u where now: "task_now (svc E) io ''task disappeared'' s = Inr st"
    and up: "task_update (svc E) io (t_id st) (t_revision st) (outcome_change E i cfact outcome result) s
      = (s', Inr u)"
    using run by (auto simp: task_outcome_def Let_def elim!: guarded_cases split: prod.splits)
  have E': "task_codec (svc E)" and log': "task_replay (svc E) (ts_log s) = Inr g"
    using E log by simp_all
  from E' log' keeps_identity_changes(9) up show thesis
  proof (cases rule: update_cases)
    case (written es old mid n new)
    obtain x where x: "find (\<lambda>op. op_id op = i) (t_operations old) = Some x"
      and mid: "t_operations mid = update_first (\<lambda>op. op_id op = i) (\<lambda>op. op\<lparr>op_command_fact := cfact,
        op_outcome := outcome, op_result_kind := Some (if is_ok result then ''ok'' else ''error''),
        op_result_digest := Some (sha256 E (case result of Inr v \<Rightarrow> enc_value E v
          | Inl _ \<Rightarrow> ''tool returned error; side effects not disproven''))\<rparr>) (t_operations old)"
      using written(4) by (auto simp: outcome_change_def)
    let ?f = "\<lambda>op. op\<lparr>op_command_fact := cfact, op_outcome := outcome,
        op_result_kind := Some (if is_ok result then ''ok'' else ''error''),
        op_result_digest := Some (sha256 E (case result of Inr v \<Rightarrow> enc_value E v
          | Inl _ \<Rightarrow> ''tool returned error; side effects not disproven''))\<rparr>"
    have "find (\<lambda>op. op_id op = i) (t_operations mid) = Some (?f x)"
      unfolding mid using find_Some_set[OF x] by (intro find_update_first[OF x]) simp
    from find_Some_set[OF this] written(6) have "?f x \<in> set (t_operations new)" "op_id (?f x) = i"
      by simp_all
    with written(11) show ?thesis by (intro that[of new "?f x"]) simp_all
  qed simp
qed

lemma stopped_run:
  assumes "check_failure s = Inl e"
  shows "task_execute E io io' tool c1 c2 c3 chain s = (s, False, Inl e)"
  using assms by (simp add: task_execute_def)

text \<open>
  No result of a tool is lost silently: when the middleware has called the chain and the
  process still owns its run, either the journal holds the operation of the call with the digest
  of its result and the outcome (unknown exactly when the call was cancelled meanwhile), or
  every later call of any tool is refused before it runs, until another run begins. The chain
  may do anything that leaves the journal consistent.
\<close>

theorem tool_result_recorded_or_stopped:
  assumes "task_codec E" and "task_replay E (ts_log s) = Inr g" and "ts_live s = Some live"
    and "\<not> bypasses tool" and "\<And>t. task_sys_ok E t \<Longrightarrow> task_sys_ok E (fst (chain t))"
    and "task_execute E io io' tool c1 c2 c3 chain s = (s', True, r)" and "ts_live s' \<noteq> None"
  shows "(\<exists>new op. task_replay E (ts_log s') = Inr (Some new) \<and> op \<in> set (t_operations new)
        \<and> op_id op = ''op-'' @ tio_fresh io \<and> op_result_digest op \<noteq> None
        \<and> op_outcome op = (if c3 then ''unknown'' else ''confirmed''))
    \<or> (\<forall>io io' tool c1 c2 c3 chain. \<exists>e. task_execute E io io' tool c1 c2 c3 chain s' = (s', False, Inl e))"
proof -
  from assms(6,4) obtain s1 i where intent: "task_intent E io tool s = (s1, Inr i)"
    and rec: "record_result E io' c3 i (chain s1) = (s', r)"
    by (rule execute_called) blast
  from assms(1-3) intent obtain new and op :: operation where i: "i = Some (op_id op)" "op_id op = ''op-'' @ tio_fresh io"
    and s1: "task_replay E (ts_log s1) = Inr (Some new)"
    by (rule intent_cases) (rule that)
  obtain s2 result where c: "chain s1 = (s2, result)" by (cases "chain s1")
  have "task_sys_ok E s1" using s1 by (auto simp: task_sys_ok_def)
  from assms(5)[OF this] c obtain g2 where s2: "task_replay E (ts_log s2) = Inr g2"
    by (auto simp: task_sys_ok_def)
  show ?thesis
  proof (cases "check_failure s2")
    case (Inl e)
    then have "check_failure s' = Inl e" using rec c by (simp add: record_result_def)
    then show ?thesis using stopped_run by blast
  next
    case (Inr u)
    obtain s3 q where o: "task_outcome E io' (op_id op) result (if c3 then ''unknown'' else ''confirmed'') s2
        = (s3, q)" by (cases "task_outcome E io' (op_id op) result (if c3 then ''unknown'' else ''confirmed'') s2")
    show ?thesis
    proof (cases q)
      case (Inl e)
      with rec c Inr o i have "s' = s3\<lparr>ts_failure := Some e\<rparr>"
        by (auto simp: record_result_def poison_def)
      with assms(7) have "check_failure s' = Inl (tool_error_fatal e)"
        by (auto simp: check_failure_def)
      then show ?thesis using stopped_run by blast
    next
      case (Inr v)
      with rec c \<open>check_failure s2 = Inr u\<close> o i have "s' = s3" by (auto simp: record_result_def)
      have "task_outcome E io' (op_id op) result (if c3 then ''unknown'' else ''confirmed'') s2
          = (s3, Inr ())" using o Inr by simp
      from assms(1) s2 this obtain new' and op' :: operation
        where "task_replay E (ts_log s3) = Inr (Some new')" "op' \<in> set (t_operations new')"
          "op_id op' = op_id op" "op_outcome op' = (if c3 then ''unknown'' else ''confirmed'')"
          "op_result_digest op' \<noteq> None"
        by (rule outcome_recorded) (rule that)
      with \<open>s' = s3\<close> i(2) show ?thesis by (intro disjI1 exI[of _ new'] exI[of _ op']) simp
    qed
  qed
qed

theorem tool_result_recorded_or_stopped_witness:
  "(\<exists>new op. task_replay td_env (ts_log (td_sys (td_admitted @ [td5, td6]) (Some (td_live ''run-r''))))
        = Inr (Some new)
      \<and> op \<in> set (t_operations new) \<and> op_id op = ''op-'' @ tio_fresh (td_io ''o'')
      \<and> op_result_digest op \<noteq> None \<and> op_outcome op = (if False then ''unknown'' else ''confirmed''))
   \<or> (\<forall>io io' tool c1 c2 c3 chain. \<exists>e. task_execute td_env io io' tool c1 c2 c3 chain
        (td_sys (td_admitted @ [td5, td6]) (Some (td_live ''run-r''))) =
        (td_sys (td_admitted @ [td5, td6]) (Some (td_live ''run-r'')), False, Inl e))"
proof (rule tool_result_recorded_or_stopped[OF td_codec _ td_sys_simps(4) td_bypass _ td_execute])
  show "task_replay td_env (ts_log (td_sys td_admitted (Some (td_live ''run-r'')))) = Inr (Some td4)"
    using td_replay(2) by simp
qed simp_all

end
