(* ===== verification/TaskAcceptProps.thy ===== *)
theory TaskAcceptProps
  imports TaskToolProps
begin

text \<open>
  The properties of the acceptance checks of a task and of its completion by the model: what a
  passing report rests on, what the command checker establishes before it answers
  \<open>passed\<close>, and when the terminal of a run completes a task.
\<close>

section \<open>Passing reports\<close>

text \<open>What a snapshot holds for a path comes from the first read, and a stable one from both.\<close>

definition seen_first :: "('x) task_env_scheme \<Rightarrow> check_polls \<Rightarrow> string \<Rightarrow> observed_file \<Rightarrow> bool" where
  "seen_first E polls path ob \<longleftrightarrow> (\<forall>b. ob_bytes ob = Some b \<longrightarrow>
     ob_status ob = ''observed'' \<and> ob_sha256 ob = Some (sha256 E b) \<and> (\<exists>n. sp_read1 polls path n = Inr (Some b)))"

lemma read_artifact_Some:
  "read_artifact read path budget = (Inr (Some b), rest) \<Longrightarrow> \<exists>n. read path n = Inr (Some b)"
  by (auto simp: read_artifact_def Let_def split: sum.splits if_splits)

lemma observe_one:
  assumes "observe_files E polls many budget (p # paths) = (files, rest)"
  obtains ob r files' where "files = (p, ob) # files'"
    and "observe_files E polls many r paths = (files', rest)" and "seen_first E polls p ob"
proof -
  obtain x n where x: "read_artifact (sp_read1 polls) p budget = (x, n)"
    by (cases "read_artifact (sp_read1 polls) p budget")
  obtain ob r where "(if many then
           (\<lparr>ob_bytes = None, ob_sha256 = None, ob_status = ''file_count_exceeds_limit''\<rparr>, budget)
         else if sp_late1 polls p then
           (\<lparr>ob_bytes = None, ob_sha256 = None, ob_status = ''cancelled_or_deadline''\<rparr>, budget)
         else (case read_artifact (sp_read1 polls) p budget of
             (Inr (Some bytes), rest) \<Rightarrow> (\<lparr>ob_bytes = Some bytes,
               ob_sha256 = Some (sha256 E bytes), ob_status = ''observed''\<rparr>, rest)
           | (Inr None, rest) \<Rightarrow>
               (\<lparr>ob_bytes = None, ob_sha256 = None, ob_status = ''missing''\<rparr>, rest)
           | (Inl _, rest) \<Rightarrow> (\<lparr>ob_bytes = None, ob_sha256 = None,
               ob_status = ''restricted_or_exceeds_limit''\<rparr>, rest))) = (ob, r)" (is "?step = _")
    by (cases ?step)
  moreover from this have "seen_first E polls p ob"
    using x read_artifact_Some[of "sp_read1 polls" p budget]
    by (cases x) (auto simp: seen_first_def split: if_splits option.splits)
  moreover obtain files' left where "observe_files E polls many r paths = (files', left)"
    by (cases "observe_files E polls many r paths")
  ultimately show thesis using assms by (intro that[of ob files' r]) (simp_all only: observe_files.simps Let_def prod.case prod.inject)
qed

lemma observed_files:
  "observe_files E polls many budget paths = (files, rest) \<Longrightarrow> map_of files path = Some ob \<Longrightarrow>
     seen_first E polls path ob"
proof (induction paths arbitrary: budget files rest)
  case (Cons p paths)
  from Cons.prems(1) show ?case
    by (rule observe_one) (use Cons.IH Cons.prems(2) in \<open>auto split: if_splits\<close>)
qed simp

lemma stable_files_read:
  assumes "stable_files E polls budget files" and "map_of files path = Some ob"
    and "ob_bytes ob = Some b" and "ob_status ob = ''observed''"
  shows "\<exists>m b'. sp_read2 polls path m = Inr (Some b') \<and> ob_sha256 ob = Some (sha256 E b')"
  using assms(1,2)
proof (induction files arbitrary: budget)
  case (Cons f files)
  obtain p q where f: "f = (p, q)" by (cases f)
  obtain x n where x: "read_artifact (sp_read2 polls) p budget = (x, n)"
    by (cases "read_artifact (sp_read2 polls) p budget")
  from Cons.prems(1) f x have rest: "stable_files E polls n files"
    by (cases x) (auto split: if_splits option.splits)
  show ?case
  proof (cases "p = path")
    case True
    with Cons.prems(2) f have q: "q = ob" by simp
    from Cons.prems(1) f x assms(4) q have "\<exists>b'. x = Inr (Some b') \<and> ob_sha256 ob = Some (sha256 E b')"
      by (cases x) (auto split: if_splits option.splits)
    then obtain b' where b': "x = Inr (Some b')" "ob_sha256 ob = Some (sha256 E b')" by blast
    with x read_artifact_Some[of "sp_read2 polls" p budget b' n] show ?thesis
      unfolding True by blast
  qed (use Cons.IH[OF rest] Cons.prems(2) f in auto)
qed simp

text \<open>A file whose bytes a check could read, in a snapshot that stayed stable.\<close>

lemma snapshot_file:
  assumes "stable_snapshot E polls (acceptance_snapshot E polls c)"
    and "is_ok (snapshot_bytes polls (fst (acceptance_snapshot E polls c)) path)"
  shows "\<exists>n m b b'. sp_read1 polls path n = Inr (Some b) \<and> sp_read2 polls path m = Inr (Some b')
    \<and> sha256 E b' = sha256 E b"
proof -
  obtain files rest where s: "acceptance_snapshot E polls c = (files, rest)"
    by (cases "acceptance_snapshot E polls c")
  obtain ob b where ob: "map_of files path = Some ob" "ob_bytes ob = Some b"
    using assms(2) by (auto simp: s is_ok_iff snapshot_bytes_def bind_eq_Some_conv)
  from observed_files[OF s[unfolded acceptance_snapshot_def] ob(1)] ob(2)
  have st: "ob_status ob = ''observed''" "ob_sha256 ob = Some (sha256 E b)"
    "\<exists>n. sp_read1 polls path n = Inr (Some b)" by (simp_all add: seen_first_def)
  from assms(1) have "stable_files E polls rest files" by (simp add: s stable_snapshot_def split: if_splits)
  from stable_files_read[OF this ob st(1)] st(2,3) show ?thesis by force
qed

definition attested :: "task_state \<Rightarrow> string \<Rightarrow> bool" where
  "attested s i \<longleftrightarrow> (case t_acceptance_state s of None \<Rightarrow> False
     | Some a \<Rightarrow> list_ex (\<lambda>h. at_clause h = i) (as_attestations a))"

lemma evaluate_passed:
  assumes "co_status (evaluate_clause checkers polls p s files op) = ''passed''"
  shows "cl_checker p = ''human'' \<and> cl_checker_version p = 1 \<and> cl_source p = ''human'' \<and> attested s (cl_id p)
    \<or> (\<exists>ck out. checkers (cl_checker p, cl_checker_version p) = Some ck \<and> ck_validate ck p = Inr ()
        \<and> (\<forall>path\<in>set (cl_files p). is_ok (snapshot_bytes polls files path))
        \<and> ck_evaluate ck p s files op = Some out \<and> co_status out = ''passed'')"
proof (cases "cl_checker p = ''human'' \<and> cl_checker_version p = 1 \<and> cl_source p = ''human''")
  case True
  with assms show ?thesis by (auto simp: evaluate_clause_def attested_def outcome_new_def split: if_splits)
next
  case machine: False
  from assms machine obtain ck where ck: "checkers (cl_checker p, cl_checker_version p) = Some ck"
    by (cases "checkers (cl_checker p, cl_checker_version p)")
      (auto simp: evaluate_clause_def outcome_new_def)
  from assms machine ck have v: "ck_validate ck p = Inr ()"
    by (cases "ck_validate ck p") (auto simp: evaluate_clause_def outcome_new_def)
  from assms machine ck v have f: "\<forall>path\<in>set (cl_files p). is_ok (snapshot_bytes polls files path)"
    by (auto simp: evaluate_clause_def outcome_new_def list_ex_iff split: if_splits)
  have "list_ex (\<lambda>path. \<not> is_ok (snapshot_bytes polls files path)) (cl_files p) = False"
    using f by (auto simp: list_ex_iff)
  with assms machine ck v have *: "co_status (case ck_evaluate ck p s files op of
      Some result \<Rightarrow> if length (co_reason result) \<le> 2048 \<and> co_status result \<in> set statuses then result
        else outcome_new ''inconclusive'' ''checker failed or exceeded result limits''
    | None \<Rightarrow> outcome_new ''inconclusive'' ''checker failed or exceeded result limits'') = ''passed''"
    by (simp only: evaluate_clause_def if_False option.case sum.case)
  then obtain out where out: "ck_evaluate ck p s files op = Some out"
    by (cases "ck_evaluate ck p s files op") (simp_all add: outcome_new_def)
  with * have "co_status out = ''passed''"
    by (cases "length (co_reason out) \<le> 2048 \<and> co_status out \<in> set statuses") (simp_all add: outcome_new_def)
  note out = out this
  with ck v f out show ?thesis by blast
qed

lemma aggregate_passed:
  assumes "aggregate c results = ''passed''" and "r \<in> set results" and "p \<in> set (ac_clauses c)"
    and "cl_required p" and "cr_clause r = cl_id p"
  shows "cr_status r = ''passed''"
  using assms by (auto simp: aggregate_def Let_def list_ex_iff split: if_splits)

text \<open>
  A report that passed rests on evidence for every required clause of the contract: a human
  clause was attested by the user; for any other, a checker of that name and version is
  installed, accepts the clause and answered \<open>passed\<close>, every file the clause declares could be
  read, and a second read after the evaluation gave contents of the same digest.
\<close>

theorem report_passes_on_evidence:
  assumes "compute_report E checkers polls fresh s evidence = Inr r" and "vr_status r = ''passed''"
    and "t_acceptance_state s = Some a" and "as_contract a = Some c"
    and "p \<in> set (ac_clauses c)" and "cl_required p"
  shows "cl_checker p = ''human'' \<and> cl_source p = ''human''
      \<and> (\<exists>h\<in>set (as_attestations a). at_clause h = cl_id p)
    \<or> (\<exists>ck out files. checkers (cl_checker p, cl_checker_version p) = Some ck \<and> ck_validate ck p = Inr ()
        \<and> files = fst (acceptance_snapshot E polls c)
        \<and> ck_evaluate ck p s files (map_of evidence (cl_id p)) = Some out \<and> co_status out = ''passed''
        \<and> (\<forall>path\<in>set (cl_files p). \<exists>n m b b'. sp_read1 polls path n = Inr (Some b)
             \<and> sp_read2 polls path m = Inr (Some b') \<and> sha256 E b' = sha256 E b))"
proof -
  let ?snap = "acceptance_snapshot E polls c"
  let ?raw = "map (clause_outcome checkers polls s (fst ?snap) evidence) (ac_clauses c)"
  have agg: "aggregate c (if stable_snapshot E polls ?snap then ?raw else map unstable_result ?raw) = ''passed''"
    using assms(1-4) by (auto simp: compute_report_def Let_def)
  define x where "x = clause_outcome checkers polls s (fst ?snap) evidence p"
  have x: "x \<in> set ?raw" "cr_clause x = cl_id p"
    using assms(5) by (auto simp: x_def clause_outcome_def Let_def)
  have stable: "stable_snapshot E polls ?snap"
  proof (rule ccontr)
    assume "\<not> ?thesis"
    moreover from x(1) have "unstable_result x \<in> set (map unstable_result ?raw)"
      unfolding set_map by (rule imageI)
    ultimately have "cr_status (unstable_result x) = ''passed''"
      using aggregate_passed[OF agg _ assms(5,6), of "unstable_result x"] x(2)
      by (simp add: unstable_result_def)
    then show False by (simp add: unstable_result_def)
  qed
  with aggregate_passed[OF agg _ assms(5,6), of x] x(1,2) have "cr_status x = ''passed''" by simp
  then have "co_status (evaluate_clause checkers polls p s (fst ?snap) (map_of evidence (cl_id p))) = ''passed''"
    by (simp add: x_def clause_outcome_def Let_def)
  from evaluate_passed[OF this] snapshot_file[OF stable] assms(3) show ?thesis
    by (auto simp: attested_def list_ex_iff)
qed

definition td_seen :: "string \<Rightarrow> check_polls" where
  "td_seen body = \<lparr>sp_read1 = (\<lambda>_ _. Inr (Some body)), sp_read2 = (\<lambda>_ _. Inr (Some body)),
     sp_late1 = (\<lambda>_. False), sp_late2 = (\<lambda>_. False), sp_late_eval = False, sp_late_end = False\<rparr>"

definition td_machine_clause :: clause where
  "td_machine_clause = \<lparr>cl_id = ''m'', cl_required = True, cl_checker = ''k'', cl_checker_version = 1,
     cl_source = ''project_files'', cl_files = [''a''], cl_parameters = JNull\<rparr>"

definition td_machine_contract :: acceptance_contract where
  "td_machine_contract = \<lparr>ac_version = 1, ac_allow_model_completion = True,
     ac_clauses = [td_machine_clause]\<rparr>"

definition td_machine_state :: acceptance_state where
  "td_machine_state = acceptance_default\<lparr>as_contract := Some td_machine_contract\<rparr>"

definition td_checkers :: checker_map where
  "td_checkers = [(''k'', 1) \<mapsto> \<lparr>ck_validate = (\<lambda>_. Inr ()),
     ck_evaluate = (\<lambda>_ _ _ _. Some (outcome_new ''passed'' ''seen''))\<rparr>]"

lemma td_relative [simp]: "check_relative ''a'' = Inr ()"
  by (simp add: check_relative_def bounded_plain plain_def byte_def path_all_normal_def path_is_absolute_def)

lemma td_machine_snapshot:
  "acceptance_snapshot td_env (td_seen ''x'') td_machine_contract
    = ([(''a'', \<lparr>ob_bytes = Some ''x'', ob_sha256 = Some td_digest, ob_status = ''observed''\<rparr>)], check_bytes - 1)"
  by (simp add: acceptance_snapshot_def contract_paths_def td_machine_contract_def td_machine_clause_def
      string_set_def td_seen_def read_artifact_def check_bytes_def)


theorem report_passes_on_evidence_witness:
  "\<exists>ck out. td_checkers (''k'', 1) = Some ck
    \<and> ck_evaluate ck td_machine_clause (td_state 2 ''paused'' [] [] (Some td_machine_state))
        [(''a'', \<lparr>ob_bytes = Some ''x'', ob_sha256 = Some td_digest, ob_status = ''observed''\<rparr>)] None = Some out
    \<and> co_status out = ''passed''"
proof -
  let ?s = "td_state 2 ''paused'' [] [] (Some td_machine_state)"
  have c: "as_contract td_machine_state = Some td_machine_contract" "td_machine_clause \<in> set (ac_clauses td_machine_contract)"
    "cl_required td_machine_clause" "cl_checker td_machine_clause = ''k''" "cl_checker_version td_machine_clause = 1"
    by (simp_all add: td_machine_state_def td_machine_contract_def td_machine_clause_def)
  have stable: "stable_snapshot td_env (td_seen ''x'') (acceptance_snapshot td_env (td_seen ''x'') td_machine_contract)"
    unfolding td_machine_snapshot
    by (simp add: stable_snapshot_def td_seen_def read_artifact_def check_bytes_def)
  have "clause_outcome td_checkers (td_seen ''x'') ?s (fst (acceptance_snapshot td_env (td_seen ''x'') td_machine_contract)) [] td_machine_clause
      = \<lparr>cr_clause = ''m'', cr_checker = ''k'', cr_checker_version = 1, cr_status = ''passed'',
         cr_source = ''project_files'', cr_reason = ''seen'', cr_files = [\<lparr>fi_path = ''a'', fi_sha256 = td_digest\<rparr>],
         cr_operation = None, cr_evidence_digest = None\<rparr>"
    unfolding td_machine_snapshot
    by (simp add: clause_outcome_def evaluate_clause_def td_machine_clause_def td_checkers_def snapshot_bytes_def
        td_seen_def outcome_new_def statuses_def file_hash_def)
  with stable have "\<exists>r. compute_report td_env td_checkers (td_seen ''x'') ''f'' ?s [] = Inr r \<and> vr_status r = ''passed''"
    by (simp add: compute_report_def Let_def c(1) td_machine_contract_def evidence_valid_def aggregate_def)
  then obtain r where "compute_report td_env td_checkers (td_seen ''x'') ''f'' ?s [] = Inr r" "vr_status r = ''passed''"
    by blast
  from report_passes_on_evidence[OF this _ c(1-3)] show ?thesis
    by (simp add: c(4,5) td_machine_snapshot) blast
qed

section \<open>Commands\<close>

lemma observed_file_iff:
  "list_ex (\<lambda>x. fi_path x = path \<and> fi_sha256 x = h) xs \<longleftrightarrow> \<lparr>fi_path = path, fi_sha256 = h\<rparr> \<in> set xs"
  by (induction xs) (auto intro: file_identity.equality)

text \<open>
  C25: The command checker answers \<open>passed\<close> only for an operation of the task that a tool run
  recorded: its outcome is confirmed and its result \<open>ok\<close>, the runtime's fact names the current
  contract version, the clause and the declared invocation, the process exited with 0, its
  receipt says that at least the declared number of checks executed and none failed, and every
  declared input has now the contents it had before and after the command.
\<close>

theorem command_pass_observed:
  assumes "co_status (command_evaluate E c s files operation) = ''passed''"
    and "parse_rule E (cl_parameters c) = Inr r"
  shows "\<exists>op f receipt contract n. operation = Some (op_id op) \<and> op \<in> set (t_operations s)
    \<and> op_outcome op = ''confirmed'' \<and> op_result_kind op = Some ''ok''
    \<and> op_command_fact op = Some f \<and> state_contract s = Some contract
    \<and> cf_contract_version f = ac_version contract \<and> cl_id c \<in> set (cf_clauses f)
    \<and> cf_invocation_digest f \<in> {command_signature E (ru_argv r) (ru_cwd r),
         invocation_digest E (ru_argv r) (declared_cwd E (t_project s) (ru_cwd r))}
    \<and> cf_receipt f = Some receipt \<and> json_index (cf_lifecycle f) ''exit_code'' = JInt 0
    \<and> json_index receipt ''exit_code'' = JInt 0 \<and> json_index receipt ''status'' = JStr ''passed''
    \<and> as_u64 (json_index receipt ''executed'') = Some n \<and> ru_minimum_executed r \<le> n
    \<and> count_of (json_index receipt ''failed'') = 0
    \<and> (\<forall>path\<in>set (cl_files c). \<exists>h. file_hash files path = Some h
         \<and> \<lparr>fi_path = path, fi_sha256 = h\<rparr> \<in> set (cf_before f) \<inter> set (cf_after f))"
proof -
  from assms(1) obtain i op where op: "operation = Some i" "find (\<lambda>op. op_id op = i) (t_operations s) = Some op"
    by (cases "Option.bind operation (\<lambda>i. find (\<lambda>op. op_id op = i) (t_operations s))")
      (auto simp: command_evaluate_def outcome_new_def bind_eq_Some_conv)
  from find_Some_set[OF op(2)] have mem: "op \<in> set (t_operations s)" "op_id op = i" by simp_all
  have "command_check E c s files op = Inr ''passed''"
    using assms(1) op
    by (cases "command_check E c s files op")
      (auto simp: command_evaluate_def outcome_new_def Let_def split: if_splits)
  note ck = this[unfolded command_check_def Let_def rbind_eq_Inr ensure_eq_Inr ok_or_eq_Inr for_each_eq_Inr]
  from ck assms(2) obtain f contract receipt where f: "op_command_fact op = Some f"
    "state_contract s = Some contract" "cf_receipt f = Some receipt"
    and g: "op_outcome op = ''confirmed''" "op_result_kind op = Some ''ok''"
      "cf_contract_version f = ac_version contract" "cl_id c \<in> set (cf_clauses f)"
      "cf_invocation_digest f \<in> {command_signature E (ru_argv r) (ru_cwd r),
         invocation_digest E (ru_argv r) (declared_cwd E (t_project s) (ru_cwd r))}"
    and files: "\<forall>path\<in>set (cl_files c). input_unchanged f files path = Inr ()"
    and verdict: "receipt_verdict f receipt r = Inr ''passed''"
    by auto
  from verdict have v: "json_index receipt ''exit_code'' = json_index (cf_lifecycle f) ''exit_code''"
    "json_index (cf_lifecycle f) ''exit_code'' = JInt 0" "count_of (json_index receipt ''failed'') = 0"
    "json_index receipt ''status'' = JStr ''passed''"
    "at_least (ru_minimum_executed r) (json_index receipt ''executed'')"
    unfolding receipt_verdict_def Let_def rbind_eq_Inr ensure_eq_Inr
    by (auto split: if_splits simp: word_gt_0)
  from v(5) obtain n where n: "as_u64 (json_index receipt ''executed'') = Some n" "ru_minimum_executed r \<le> n"
    by (auto simp: at_least_def split: option.splits)
  have "\<exists>h. file_hash files path = Some h \<and> \<lparr>fi_path = path, fi_sha256 = h\<rparr> \<in> set (cf_before f) \<inter> set (cf_after f)"
    if "path \<in> set (cl_files c)" for path
  proof -
    from files that have "input_unchanged f files path = Inr ()" by blast
    then show ?thesis by (auto simp: input_unchanged_def observed_file_iff)
  qed
  with op mem f g v n show ?thesis by auto
qed


definition td_receipt :: json where
  "td_receipt = JObj [(''format'', JStr ''rust-test-summary''), (''session_id'', JInt 7),
     (''owner_generation'', JInt 1), (''invocation_sha256'', JStr td_digest), (''exit_code'', JInt 0),
     (''status'', JStr ''passed''), (''scan_complete'', JBool True), (''executed'', JInt 3),
     (''minimum_executed'', JInt 3), (''failed'', JInt 0)]"

definition td_fact :: command_fact where
  "td_fact = \<lparr>cf_contract_version = 1, cf_clauses = [''m''], cf_invocation_digest = td_digest,
     cf_before = [\<lparr>fi_path = ''a'', fi_sha256 = td_digest\<rparr>],
     cf_after = [\<lparr>fi_path = ''a'', fi_sha256 = td_digest\<rparr>], cf_receipt = Some td_receipt,
     cf_receipt_digest = Some td_digest,
     cf_lifecycle = JObj [(''execution'', JStr ''argv''), (''exit_scope'', JStr ''direct_child''),
       (''session_id'', JInt 7), (''exit_code'', JInt 0)]\<rparr>"

definition td_command :: operation where
  "td_command = td_outcome\<lparr>op_tool := ''run_command'', op_command_fact := Some td_fact\<rparr>"

definition td_observed :: check_files where
  "td_observed = [(''a'', \<lparr>ob_bytes = Some ''x'', ob_sha256 = Some td_digest, ob_status = ''observed''\<rparr>)]"

lemma td_command_passes:
  "co_status (command_evaluate td_env td_machine_clause
     (td_state 2 ''paused'' [] [td_command] (Some td_machine_state)) td_observed (Some ''op-o'')) = ''passed''"
proof -
  let ?s = "td_state 2 ''paused'' [] [td_command] (Some td_machine_state)"
  have op: "op_id td_command = ''op-o''" "op_outcome td_command = ''confirmed''"
    "op_result_kind td_command = Some ''ok''" "op_tool td_command = ''run_command''"
    "op_command_fact td_command = Some td_fact" "op_result_digest td_command = Some td_digest"
    by (simp_all add: td_command_def td_outcome_def td_intent_def)
  have contract: "state_contract ?s = Some td_machine_contract"
    by (simp add: state_contract_def td_machine_state_def)
  have input: "input_unchanged td_fact td_observed ''a'' = Inr ()"
    by (simp add: input_unchanged_def file_hash_def td_observed_def td_fact_def)
  have "receipt_verdict td_fact td_receipt td_rule = Inr ''passed''"
    by (simp add: receipt_verdict_def Let_def td_fact_def td_receipt_def td_rule_def json_index_def
        count_of_def at_least_def)
  moreover have "json_get (cf_lifecycle td_fact) ''cwd'' = None"
    "json_index td_receipt ''invocation_sha256'' = JStr td_digest"
    "at_least 1 (json_index td_receipt ''session_id'')" "at_least 1 (json_index td_receipt ''owner_generation'')"
    by (simp_all add: td_fact_def td_receipt_def json_index_def at_least_def)
  moreover have "cf_receipt td_fact = Some td_receipt" "cf_contract_version td_fact = 1"
    "cf_clauses td_fact = [''m'']" "cf_invocation_digest td_fact = td_digest" by (simp_all add: td_fact_def)
  moreover have "ac_version td_machine_contract = 1" by (simp add: td_machine_contract_def)
  ultimately have "command_check td_env td_machine_clause ?s td_observed td_command = Inr ''passed''"
    using op contract input by (simp add: command_check_def Let_def td_machine_clause_def)
  then show ?thesis using op by (simp add: command_evaluate_def Let_def outcome_new_def)
qed

theorem command_pass_observed_witness:
  "\<exists>f receipt n. op_command_fact td_command = Some f \<and> cf_receipt f = Some receipt
    \<and> as_u64 (json_index receipt ''executed'') = Some n \<and> 2 \<le> n"
proof -
  have op: "op_id td_command = ''op-o''" by (simp add: td_command_def td_outcome_def td_intent_def)
  have rule: "parse_rule td_env (cl_parameters td_machine_clause) = Inr td_rule" by simp
  from command_pass_observed[OF td_command_passes rule] show ?thesis
    by (auto simp: td_rule_def op)
qed

section \<open>Completion by the model\<close>

lemma candidate_task_completes:
  assumes "candidate_state E ck polls run suc c1 c2 s = Inr new" and "t_phase new = ''complete''"
    and "t_phase s \<noteq> ''complete''"
  obtains a p c r where "t_acceptance_state s = Some a" and "as_candidate a = Some p" and "cc_run p = run"
    and "cc_state p = ''pending''" and "suc" and "\<not> c1" and "\<not> c2"
    and "as_contract a = Some c" and "ac_allow_model_completion c"
    and "find (\<lambda>r. vr_id r = cc_report p) (as_reports a) = Some r"
    and "report_still_applicable E ck polls s r = Inr ()" and "\<not> has_unknown s"
    and "\<exists>l. last_run s = Some l \<and> tr_id l = run \<and> tr_settled l"
    and "\<exists>a'. t_acceptance_state new = Some a' \<and> as_completion a' \<noteq> None
      \<and> map_option cp_report (as_completion a') = Some (Some (cc_report p))"
proof -
  from assms obtain a p where a: "t_acceptance_state s = Some a" "as_candidate a = Some p"
    by (auto simp: candidate_state_def split: option.splits)
  define skip where "skip \<longleftrightarrow> cc_run p \<noteq> run \<or> cc_state p \<noteq> ''pending'' \<or> terminal s
      \<or> \<not> (case last_run s of None \<Rightarrow> False | Some r \<Rightarrow> tr_id r = cc_run p \<and> tr_settled r)"
  from assms(1) a have st: "(if skip then Inr s else if \<not> suc \<or> c1 then
        Inr (s\<lparr>t_acceptance_state := Some (a\<lparr>as_candidate := Some (p\<lparr>cc_state := ''rejected''\<rparr>)\<rparr>)\<rparr>)
      else if \<not> (case as_contract a of None \<Rightarrow> False | Some c \<Rightarrow> ac_allow_model_completion c) then Inr s
      else rbind (ok_or (find (\<lambda>r. vr_id r = cc_report p) (as_reports a)) ''completion report lost'') (\<lambda>r.
        rbind (report_still_applicable E ck polls s r) (\<lambda>_.
        verified_state (cc_report p) ''user_authorized_model_candidate'' c2 s))) = Inr new"
    unfolding candidate_state_def skip_def by simp
  from st assms(2,3) have g: "\<not> skip" "suc" "\<not> c1"
    by (auto split: if_splits)
  with st assms(2,3) have m: "case as_contract a of None \<Rightarrow> False | Some c \<Rightarrow> ac_allow_model_completion c"
    by (auto split: if_splits)
  then obtain c where c: "as_contract a = Some c" "ac_allow_model_completion c" by (auto split: option.splits)
  from st g m obtain r where r: "find (\<lambda>r. vr_id r = cc_report p) (as_reports a) = Some r"
    "report_still_applicable E ck polls s r = Inr ()"
    and v: "verified_state (cc_report p) ''user_authorized_model_candidate'' c2 s = Inr new"
    by auto
  from v a have "\<not> c2" "\<not> has_unknown s"
    "\<exists>a'. t_acceptance_state new = Some a' \<and> as_completion a' \<noteq> None
      \<and> map_option cp_report (as_completion a') = Some (Some (cc_report p))"
    by (auto simp: verified_state_def)
  moreover from g(1) have "cc_run p = run" "cc_state p = ''pending''"
    "\<exists>l. last_run s = Some l \<and> tr_id l = run \<and> tr_settled l"
    by (auto simp: skip_def split: option.splits)
  ultimately show thesis using a c g r by (intro that) simp_all
qed

lemma finalize_parts:
  assumes "finalize_candidate E ck polls io run suc c1 c2 closing s = (s', Inr ())"
  obtains st mid mid' where "task_now (svc E) io ''task disappeared before final close'' s = Inr st"
    and "candidate_state E ck polls run suc c1 c2 st = Inr mid" and "t_phase mid' = t_phase mid"
    and "(if mid = st \<and> closing = [] then (s, Inr ())
        else commit_task_batch E io (Some st) mid' closing s) = (s', Inr ())"
  using assms unfolding finalize_candidate_def
proof (cases rule: guarded_cases)
  case (called x)
  obtain st mid mid' where x: "x = (st, mid, mid')" by (cases x)
  from called(1) x have "task_now (svc E) io ''task disappeared before final close'' s = Inr st"
    "candidate_state E ck polls run suc c1 c2 st = Inr mid" "t_phase mid' = t_phase mid"
    by (auto split: if_splits)
  with called(2) x show ?thesis by (intro that) simp_all
qed simp

text \<open>
  C26: The terminal of a run completes the task only as the user allowed: when the finalisation
  moves the journal's task to \<open>complete\<close>, the run was successful and no poll saw a
  cancellation, it is the settled last run and its pending candidate, the contract permits
  completion by the model, nothing is of unknown outcome, and the report the candidate names
  was computed again with the same status, the same results and the same digests.
\<close>

theorem model_completion_reverified:
  assumes "task_codec E" and "task_replay E (ts_log s) = Inr (Some old)" and "t_phase old \<noteq> ''complete''"
    and "task_neutral closing"
    and "finalize_candidate E ck polls io run suc c1 c2 closing s = (s', Inr ())"
    and "task_replay E (ts_log s') = Inr (Some new)" and "t_phase new = ''complete''"
  shows "suc \<and> \<not> c1 \<and> \<not> c2 \<and> \<not> has_unknown old
    \<and> (\<exists>l. last_run old = Some l \<and> tr_id l = run \<and> tr_settled l)
    \<and> (\<exists>a p c r now. t_acceptance_state old = Some a \<and> as_candidate a = Some p \<and> cc_run p = run
        \<and> cc_state p = ''pending'' \<and> as_contract a = Some c \<and> ac_allow_model_completion c
        \<and> r \<in> set (as_reports a) \<and> vr_id r = cc_report p \<and> vr_status r = ''passed''
        \<and> compute_report E ck polls [] old (concat (map (\<lambda>x. case cr_operation x of None \<Rightarrow> []
            | Some op \<Rightarrow> [(cr_clause x, op)]) (vr_results r))) = Inr now
        \<and> vr_status now = ''passed'' \<and> vr_results now = vr_results r)"
proof -
  from assms(5) obtain st mid mid' where now: "task_now (svc E) io ''task disappeared before final close'' s = Inr st"
    and cand: "candidate_state E ck polls run suc c1 c2 st = Inr mid"
    and mid': "t_phase mid' = t_phase mid"
    and fin: "(if mid = st \<and> closing = [] then (s, Inr ())
        else commit_task_batch E io (Some st) mid' closing s) = (s', Inr ())"
    by (rule finalize_parts)
  have log: "task_replay (svc E) (ts_log s) = Inr (Some old)" using assms(2) by simp
  from task_now_replay[OF _ log now] assms(1) have st: "st = old" by simp
  have mid: "t_phase mid = ''complete''"
  proof (cases "mid = st \<and> closing = []")
    case True
    with fin assms(6) log have "new = old" by simp
    with assms(3,7) show ?thesis by simp
  next
    case False
    then have fin: "commit_task_batch E io (Some st) mid' closing s = (s', Inr ())"
      using fin by (simp only: if_False)
    from assms(1,2,4) fin show ?thesis
      by (cases rule: commit_cases) (use assms(6,7) mid' in simp_all)
  qed
  from cand[unfolded st] mid assms(3) show ?thesis
  proof (rule candidate_task_completes, goal_cases)
    case (1 a p c r)
    then have r: "r \<in> set (as_reports a)" "vr_id r = cc_report p" by (auto dest: find_Some_set)
    from 1(11) 1(1) 1(8) have pass: "validate_pass (base E) c (as_attestations a) r = Inr ()"
      and cur: "report_still_current E ck polls old r = Inr ()"
      by (auto simp: report_still_applicable_def)
    from pass have "vr_status r = ''passed''" by (simp add: validate_pass_def)
    with cur 1 r show ?case
      by (auto simp: report_still_current_def Let_def)
  qed
qed


lemma td_reverified:
  "report_still_applicable td_env (\<lambda>_. None) (td_seen ''x'') td9 td_report = Inr ()"
proof -
  have a: "t_acceptance_state td9 = Some td_a8" "t_id td9 = ''task-t''" "t_project_anchor td9 = td_digest"
    "t_session td9 = ''s''" by (simp_all add: td9_def)
  have "clause_outcome (\<lambda>_. None) (td_seen ''x'') td9 [] [] td_clause = td_result"
    by (simp add: clause_outcome_def evaluate_clause_def a outcome_new_def td_result_def)
  moreover have "acceptance_snapshot td_env (td_seen ''x'') td_contract = ([], check_bytes)"
    by (simp add: acceptance_snapshot_def contract_paths_def string_set_def)
  moreover have "stable_snapshot td_env (td_seen ''x'') ([], check_bytes)"
    by (simp add: stable_snapshot_def td_seen_def)
  ultimately have "compute_report td_env (\<lambda>_. None) (td_seen ''x'') [] td9 [] = Inr (td_report\<lparr>vr_id := ''check-''\<rparr>)"
    by (simp add: compute_report_def Let_def a evidence_valid_def aggregate_def
        td_report_def)
  then show ?thesis
    using td_report_valid(2)
    by (simp add: report_still_applicable_def report_still_current_def a Let_def validate_pass_def)
qed

lemma td_finalize:
  "finalize_candidate td_env (\<lambda>_. None) (td_seen ''x'') (td_io ''z'') ''run-r'' True False False []
     (td_sys td_life None) = (td_sys (td_life @ [td10]) None, Inr ())"
proof -
  have f: "terminal td9 = False" "t_acceptance_state td9 = Some td_a8" "t_revision td9 = 10"
    "last_run td9 = Some (td_run ''run-r'' (Some 1) 30 900 True)" "has_unknown td9 = False"
    by (simp_all add: td9_def terminal_def last_run_def has_unknown_def)
  have acc: "td_a8\<lparr>as_candidate := map_option (judged (Some ''check-v'')) (Some (td_candidate ''pending'')),
      as_completion := Some td_completion\<rparr> = td_a10"
    by (simp add: judged_def td_a10_def td_a8_def td_candidate_def)
  have kind: "completion_kind td_contract = ''human_attested''"
    by (simp add: completion_kind_def)
  have "verified_state ''check-v'' ''user_authorized_model_candidate'' False td9
      = Inr (td_state 10 ''complete'' [td_run ''run-r'' (Some 1) 30 900 True] [td_outcome] (Some td_a10))"
    using acc by (simp add: verified_state_def f kind td_completion_def) (simp add: td9_def)
  then have cand: "candidate_state td_env (\<lambda>_. None) (td_seen ''x'') ''run-r'' True False False td9
      = Inr (td_state 10 ''complete'' [td_run ''run-r'' (Some 1) 30 900 True] [td_outcome] (Some td_a10))"
    by (simp add: candidate_state_def f td_reverified)
  have fold: "fold_change (base td_env) (Some td9) (task_json td_env td10) = Inr (Some td10)"
    using td_folds(11) by (simp add: task_fold_event_def)
  have "t_session td10 = ''s''" "t_project td10 = ''/p''" "td9 \<noteq> td10" by (simp_all add: td9_def td10_def)
  with fold td_session(1)[OF td_replay(4)]
  have "commit_task_batch td_env (td_io ''z'') (Some td9) td10 [] (td_sys td_life None)
      = (td_sys (td_life @ [td10]) None, Inr ())"
    by (simp add: commit_task_batch_def) (simp add: td_sys_def td_log_def)
  then show ?thesis
    using cand
    by (simp add: finalize_candidate_def guarded_def require_idle_def td_now[OF td_replay(4)] td_all_def
        f checked_add_def td10_def) (simp add: td9_def)
qed

theorem model_completion_reverified_witness:
  "\<exists>r now. r \<in> set (as_reports td_a8) \<and> vr_status r = ''passed''
    \<and> compute_report td_env (\<lambda>_. None) (td_seen ''x'') [] td9 [] = Inr now \<and> vr_results now = vr_results r"
proof -
  have old: "task_replay td_env (ts_log (td_sys td_life None)) = Inr (Some td9)" using td_replay(4) by simp
  have new: "task_replay td_env (ts_log (td_sys (td_life @ [td10]) None)) = Inr (Some td10)"
    using td_replay(5) by simp
  have ph: "t_phase td9 \<noteq> ''complete''" "t_phase td10 = ''complete''" "t_acceptance_state td9 = Some td_a8"
    by (simp_all add: td9_def td10_def)
  have "task_neutral []" by (simp add: task_neutral_def)
  from model_completion_reverified[OF td_codec old ph(1) this td_finalize new ph(2)] ph(3)
  show ?thesis by auto
qed

end
