(* ===== verification/Permission.thy ===== *)
theory Permission
  imports Tool
begin

text \<open>
  The permission model of \<open>permission.rs\<close> and the policy that \<open>plugins/permission.rs\<close>
  gives a run: the access policy in front of an interactive policy in front of the mode table
  or the safe defaults. The approver, the mode cell and the access slot belong to the world
  outside (\<open>'w\<close>); the approver may change it.
\<close>

section \<open>Decisions and modes\<close>

datatype permission_decision =
    Allow
  | Ask string
  | Deny string
  | Unavailable string

record permission_request =
  pq_tool :: string
  pq_effect :: tool_effect
  pq_reason :: string
  pq_arguments :: json
  pq_call_id :: string

definition from_host_approval :: "string \<Rightarrow> string \<Rightarrow> string \<Rightarrow> permission_request" where
  "from_host_approval tool reason call_id = \<lparr>pq_tool = tool, pq_effect = EffWrite, pq_reason = reason,
     pq_arguments = JNull, pq_call_id = call_id\<rparr>"

datatype permission_mode = ReadOnly | ProjectWrite | FullAccess

fun mode_width :: "permission_mode \<Rightarrow> nat" where
  "mode_width ReadOnly = 0"
| "mode_width ProjectWrite = 1"
| "mode_width FullAccess = 2"

instantiation permission_mode :: linorder
begin

definition less_eq_permission_mode :: "permission_mode \<Rightarrow> permission_mode \<Rightarrow> bool" where
  "less_eq_permission_mode a b \<longleftrightarrow> mode_width a \<le> mode_width b"

definition less_permission_mode :: "permission_mode \<Rightarrow> permission_mode \<Rightarrow> bool" where
  "less_permission_mode a b \<longleftrightarrow> mode_width a < mode_width b"

instance
proof
  fix a b :: permission_mode
  show "a \<le> b \<Longrightarrow> b \<le> a \<Longrightarrow> a = b"
    by (cases a; cases b) (simp_all add: less_eq_permission_mode_def)
qed (auto simp: less_eq_permission_mode_def less_permission_mode_def)

end

fun journal_value :: "permission_mode \<Rightarrow> string" where
  "journal_value ReadOnly = ''read-only''"
| "journal_value ProjectWrite = ''workspace-write''"
| "journal_value FullAccess = ''danger-full-access''"

definition from_journal_value :: "string \<Rightarrow> permission_mode option" where
  "from_journal_value value =
     (let v = trim value in
      if v = ''read-only'' then Some ReadOnly
      else if v = ''workspace-write'' then Some ProjectWrite
      else if v = ''danger-full-access'' then Some FullAccess
      else None)"

fun mode_allows :: "permission_mode \<Rightarrow> tool_effect \<Rightarrow> bool" where
  "mode_allows FullAccess effect = True"
| "mode_allows ProjectWrite effect =
     (effect \<in> {EffPure, EffRead, EffSessionWrite, EffWrite, EffNetwork, EffExternalRead})"
| "mode_allows ReadOnly effect = (effect \<in> {EffPure, EffRead, EffSessionWrite})"

definition em_dash :: string where
  "em_dash = [CHR 0xE2, CHR 0x80, CHR 0x94]"

definition mode_reason :: "permission_mode \<Rightarrow> tool_definition \<Rightarrow> string" where
  "mode_reason mode d =
     ''tool `'' @ td_name d @ ''` '' @
     (if mode = ReadOnly \<and> td_effect d = EffWrite then
        ''writes files '' @ em_dash @ '' file edits are gated under Read Only mode''
      else if mode = ReadOnly then
        ''('' @ effect_display (td_effect d) @ '') is gated under Read Only mode''
      else
        ''('' @ effect_display (td_effect d) @ '') is gated under Project Write mode '' @ em_dash
          @ '' unprepared commands and destructive tools still need approval'')"

text \<open>The branch of \<open>mode_reason\<close> for \<open>FullAccess\<close> is unreachable: that mode allows everything.\<close>

definition mode_decision :: "permission_mode \<Rightarrow> tool_definition \<Rightarrow> permission_decision" where
  "mode_decision mode d =
     (if mode_allows mode (td_effect d) then Allow else Ask (mode_reason mode d))"

definition escalation_targets :: "permission_mode \<Rightarrow> tool_effect \<Rightarrow> permission_mode list" where
  "escalation_targets mode effect =
     (if mode_allows mode effect then []
      else (if mode = ReadOnly \<and> mode_allows ProjectWrite effect then [ProjectWrite] else [])
        @ [FullAccess])"

datatype write_scope = ScopeProjectRoot | ScopeWorkspaceRoots | ScopeUnrestricted

fun mode_write_scope :: "permission_mode \<Rightarrow> write_scope" where
  "mode_write_scope FullAccess = ScopeUnrestricted"
| "mode_write_scope ReadOnly = ScopeProjectRoot"
| "mode_write_scope ProjectWrite = ScopeWorkspaceRoots"

text \<open>Where the scope of a write tool comes from; \<open>SourceShared\<close> reads the mode cell.\<close>

datatype scope_source = SourceProjectRoot | SourceWorkspaceRoots | SourceShared

fun scope_resolve :: "scope_source \<Rightarrow> permission_mode \<Rightarrow> write_scope" where
  "scope_resolve SourceProjectRoot mode = ScopeProjectRoot"
| "scope_resolve SourceWorkspaceRoots mode = ScopeWorkspaceRoots"
| "scope_resolve SourceShared mode = mode_write_scope mode"

section \<open>Policies\<close>

record 't prepared_tool =
  pt_tool :: 't
  pt_workspace_enforced :: bool
  pt_status :: string

definition safe_by_default :: "tool_definition \<Rightarrow> permission_decision" where
  "safe_by_default d =
     (case td_effect d of
        EffPure \<Rightarrow> Allow | EffRead \<Rightarrow> Allow | EffSessionWrite \<Rightarrow> Allow
      | _ \<Rightarrow> Ask (''tool `'' @ td_name d @ ''` can cause side effects''))"

definition mode_policy :: "permission_mode \<Rightarrow> tool_definition \<Rightarrow> 't prepared_tool option \<Rightarrow> permission_decision" where
  "mode_policy mode d prepared =
     (case prepared of
        Some p \<Rightarrow>
          if mode = ProjectWrite \<and> td_effect d = EffExecute then
            (if pt_workspace_enforced p then Allow else Ask (''Execute needs approval: '' @ pt_status p))
          else mode_decision mode d
      | None \<Rightarrow> mode_decision mode d)"

datatype mode_source = ModeClassic | ModeShared

record 'w permission_env =
  pe_source :: mode_source
  pe_mode :: "'w \<Rightarrow> permission_mode"
  pe_access :: "'w \<Rightarrow> access_policy"
  pe_approve :: "permission_request \<Rightarrow> 'w \<Rightarrow> permission_decision \<times> 'w"

definition base_decision ::
  "'w permission_env \<Rightarrow> tool_definition \<Rightarrow> 't prepared_tool option \<Rightarrow> 'w \<Rightarrow> permission_decision" where
  "base_decision P d prepared w =
     (case pe_source P of
        ModeClassic \<Rightarrow> safe_by_default d
      | ModeShared \<Rightarrow> mode_policy (pe_mode P w) d prepared)"

definition approval_request :: "tool_definition \<Rightarrow> model_call \<Rightarrow> string \<Rightarrow> permission_request" where
  "approval_request d call reason = \<lparr>pq_tool = td_name d, pq_effect = td_effect d, pq_reason = reason,
     pq_arguments = mc_arguments call, pq_call_id = mc_id call\<rparr>"

definition interactive_resolve ::
  "'w permission_env \<Rightarrow> permission_decision \<Rightarrow> tool_definition \<Rightarrow> model_call \<Rightarrow> 'w
   \<Rightarrow> permission_decision \<times> 'w" where
  "interactive_resolve P decision d call w =
     (case decision of
        Ask reason \<Rightarrow>
          (case pe_approve P (approval_request d call reason) w of
             (Ask _, w') \<Rightarrow> (Deny ''approver returned an unresolved decision'', w')
           | (answer, w') \<Rightarrow> (answer, w'))
      | _ \<Rightarrow> (decision, w))"

definition permission_check ::
  "'w permission_env \<Rightarrow> tool_definition \<Rightarrow> model_call \<Rightarrow> 't prepared_tool option \<Rightarrow> 'w
   \<Rightarrow> permission_decision \<times> 'w" where
  "permission_check P d call prepared w =
     (if \<not> access_allows (pe_access P w) d then (Deny (denial_reason (pe_access P w) d), w)
      else interactive_resolve P (base_decision P d prepared w) d call w)"

section \<open>Facts\<close>

lemma mode_allows_mono: "a \<le> b \<Longrightarrow> mode_allows a e \<Longrightarrow> mode_allows b e"
  by (cases a; cases b) (auto simp: less_eq_permission_mode_def)

lemma full_access_allows: "mode_decision FullAccess d = Allow"
  by (simp add: mode_decision_def)

lemma mode_decision_Allow [simp]: "mode_decision m d = Allow \<longleftrightarrow> mode_allows m (td_effect d)"
  by (simp add: mode_decision_def)

lemma safe_is_read_only: "safe_by_default d = Allow \<longleftrightarrow> mode_allows ReadOnly (td_effect d)"
  by (cases "td_effect d") (simp_all add: safe_by_default_def)

text \<open>The offered modes are the wider ones that would let the effect pass, in order of width.\<close>

lemma escalation_targets_eq:
  "escalation_targets m e = filter (\<lambda>m'. m < m' \<and> \<not> mode_allows m e \<and> mode_allows m' e)
     [ReadOnly, ProjectWrite, FullAccess]"
  by (cases m) (auto simp: escalation_targets_def less_permission_mode_def)

lemma journal_value_trim [simp]: "trim (journal_value m) = journal_value m"
  by (cases m) (simp_all add: trim_plain plain_def byte_def)

lemma journal_mode_roundtrip: "from_journal_value (journal_value m) = Some m"
  by (cases m) (simp_all add: from_journal_value_def Let_def
      journal_value_trim[of ReadOnly, simplified] journal_value_trim[of ProjectWrite, simplified]
      journal_value_trim[of FullAccess, simplified])

definition auto_allowed :: "'w permission_env \<Rightarrow> tool_definition \<Rightarrow> 't prepared_tool option \<Rightarrow> 'w \<Rightarrow> bool" where
  "auto_allowed P d prepared w \<longleftrightarrow>
     (case pe_source P of
        ModeClassic \<Rightarrow> mode_allows ReadOnly (td_effect d)
      | ModeShared \<Rightarrow> mode_allows (pe_mode P w) (td_effect d)
          \<or> pe_mode P w = ProjectWrite \<and> td_effect d = EffExecute
             \<and> (\<exists>p. prepared = Some p \<and> pt_workspace_enforced p))"

lemma base_decision_Allow: "base_decision P d prepared w = Allow \<longleftrightarrow> auto_allowed P d prepared w"
  by (auto simp: base_decision_def auto_allowed_def mode_policy_def safe_is_read_only
      split: mode_source.splits option.splits)

lemma interactive_never_asks: "fst (interactive_resolve P decision d call w) \<noteq> Ask reason"
  by (auto simp: interactive_resolve_def split: permission_decision.splits prod.splits)

lemma base_decision_not_deny: "base_decision P d prepared w \<noteq> Deny r" "base_decision P d prepared w \<noteq> Unavailable r"
  by (auto simp: base_decision_def mode_policy_def safe_by_default_def mode_decision_def
      split: mode_source.splits option.splits tool_effect.splits)

lemma permission_check_Allow:
  assumes "permission_check P d call prepared w = (Allow, w')"
  shows "access_allows (pe_access P w) d
    \<and> (auto_allowed P d prepared w \<and> w' = w
       \<or> (\<exists>reason. base_decision P d prepared w = Ask reason
            \<and> pe_approve P (approval_request d call reason) w = (Allow, w')))"
proof -
  from assms have access: "access_allows (pe_access P w) d"
    and r: "interactive_resolve P (base_decision P d prepared w) d call w = (Allow, w')"
    by (auto simp: permission_check_def split: if_splits)
  show ?thesis
  proof (cases "base_decision P d prepared w")
    case Allow
    with access r base_decision_Allow[of P d prepared w] show ?thesis by (simp add: interactive_resolve_def)
  next
    case (Ask reason)
    with access r show ?thesis
      by (auto simp: interactive_resolve_def split: permission_decision.splits prod.splits)
  qed (use base_decision_not_deny[of P d prepared w] in auto)
qed

end
