(* ===== verification/ToolRegistry.thy ===== *)
theory ToolRegistry
  imports Permission Interfaces "HOL-Library.List_Lexorder" "HOL-Library.Char_ord" "HOL-Library.Product_Lexorder"
begin

text \<open>
  The registry of tools and the execution pipeline of \<open>tool.rs\<close>. A tool is what its trait
  answers (\<open>tool_object\<close>), over the world \<open>'w\<close> its invocation may change. The locks are the
  exclusive access every operation has; a poisoned lock is a flag of the state.
\<close>

section \<open>Tools as objects\<close>

record 'w tool_exec =
  ex_invoke :: "json \<Rightarrow> 'w \<Rightarrow> (tool_error + json) \<times> 'w"
  ex_error_output :: "tool_error \<Rightarrow> json"
  ex_ends_run :: "json \<Rightarrow> bool"
  ex_result_blocks :: "json \<Rightarrow> json list"

text \<open>
  \<open>tl_prepare\<close> is \<open>prepare_execution\<close>: the tool that takes the place of the registered one
  for this call, with its enforcement. The cancel token of an invocation is part of the world.
\<close>

record 'w tool_object =
  tl_definition :: tool_definition
  tl_public :: "tool_error + tool_definition"
  tl_prepare :: "json \<Rightarrow> 'w tool_exec prepared_tool option"
  tl_exec :: "'w tool_exec"

definition prepare_tool :: "'w tool_object \<Rightarrow> json \<Rightarrow> 'w tool_exec \<times> 'w tool_exec prepared_tool option" where
  "prepare_tool tool arguments =
     (case tl_prepare tool arguments of
        None \<Rightarrow> (tl_exec tool, None)
      | Some p \<Rightarrow> (pt_tool p, Some p))"

section \<open>The registry\<close>

datatype registry_error =
    DuplicateTool string string string
  | RegistryFrozen
  | RegistryPoisoned
  | UnsafeSchema

record 't tool_entry =
  en_definition :: tool_definition
  en_registration :: string
  en_owner :: string
  en_tool :: 't

record 't tool_registry =
  rg_by_name :: "string \<Rightarrow> 't tool_entry option"
  rg_order :: "string list"
  rg_frozen :: bool
  rg_revision :: u64
  rg_poisoned :: bool

definition registry_new :: "'t tool_registry" where
  "registry_new = \<lparr>rg_by_name = (\<lambda>_. None), rg_order = [], rg_frozen = False, rg_revision = 0,
     rg_poisoned = False\<rparr>"

record tool_lease =
  le_name :: string
  le_registration :: string
  le_owner :: string

text \<open>\<open>contract\<close> is \<open>public_contract\<close> of the tool, \<open>fresh\<close> the UUID of the registration.\<close>

definition registry_register ::
  "('t \<Rightarrow> tool_error + tool_definition) \<Rightarrow> string \<Rightarrow> string \<Rightarrow> 't \<Rightarrow> 't tool_registry
   \<Rightarrow> 't tool_registry \<times> (registry_error + tool_lease)" where
  "registry_register contract fresh owner tool s =
     (case contract tool of
        Inl _ \<Rightarrow> (s, Inl UnsafeSchema)
      | Inr d \<Rightarrow>
          if rg_poisoned s then (s, Inl RegistryPoisoned)
          else if rg_frozen s then (s, Inl RegistryFrozen)
          else (case rg_by_name s (td_name d) of
              Some e \<Rightarrow> (s, Inl (DuplicateTool (td_name d) (en_owner e) owner))
            | None \<Rightarrow>
                (s\<lparr>rg_revision := rg_revision s + 1, rg_order := rg_order s @ [td_name d],
                   rg_by_name := (rg_by_name s)(td_name d \<mapsto> \<lparr>en_definition = d,
                     en_registration = fresh, en_owner = owner, en_tool = tool\<rparr>)\<rparr>,
                 Inr \<lparr>le_name = td_name d, le_registration = fresh, le_owner = owner\<rparr>)))"

text \<open>Revoking consumes the lease; \<open>alive\<close>: the registry still exists (\<open>Weak::upgrade\<close>).\<close>

definition registry_revoke ::
  "bool \<Rightarrow> tool_lease \<Rightarrow> 't tool_registry \<Rightarrow> 't tool_registry \<times> (registry_error + unit)" where
  "registry_revoke alive l s =
     (if \<not> alive then (s, Inr ())
      else if rg_poisoned s then (s, Inl RegistryPoisoned)
      else if (case rg_by_name s (le_name l) of None \<Rightarrow> False
          | Some e \<Rightarrow> en_owner e = le_owner l \<and> en_registration e = le_registration l)
      then (s\<lparr>rg_revision := rg_revision s + 1, rg_by_name := (rg_by_name s)(le_name l := None),
              rg_order := filter (\<lambda>n. n \<noteq> le_name l) (rg_order s)\<rparr>, Inr ())
      else (s, Inr ()))"

definition registry_freeze :: "'t tool_registry \<Rightarrow> 't tool_registry \<times> (registry_error + unit)" where
  "registry_freeze s =
     (if rg_poisoned s then (s, Inl RegistryPoisoned) else (s\<lparr>rg_frozen := True\<rparr>, Inr ()))"

definition registry_reopen :: "'t tool_registry \<Rightarrow> 't tool_registry \<times> (registry_error + unit)" where
  "registry_reopen s =
     (if rg_poisoned s then (s, Inl RegistryPoisoned) else (s\<lparr>rg_frozen := False\<rparr>, Inr ()))"

definition registry_definitions :: "'t tool_registry \<Rightarrow> tool_definition list" where
  "registry_definitions s =
     (if rg_poisoned s then []
      else map en_definition (List.map_filter (rg_by_name s) (rg_order s)))"

definition registry_get :: "string \<Rightarrow> 't tool_registry \<Rightarrow> 't option" where
  "registry_get name s = (if rg_poisoned s then None else map_option en_tool (rg_by_name s name))"

definition registry_contributions :: "string \<Rightarrow> 't tool_registry \<Rightarrow> string + string list" where
  "registry_contributions owner s =
     rbind (ensure (\<not> rg_poisoned s) ''tool registry poisoned'') (\<lambda>_.
     Inr (filter (\<lambda>n. case rg_by_name s n of None \<Rightarrow> False | Some e \<Rightarrow> en_owner e = owner) (rg_order s)))"

text \<open>The replacement of tools by their session instances; the contract must be the same.\<close>

definition replace_tool ::
  "('t \<Rightarrow> tool_error + tool_definition) \<Rightarrow> 't \<Rightarrow> 't tool_registry \<Rightarrow> string + 't tool_registry" where
  "replace_tool contract tool s =
     rbind (case contract tool of Inl _ \<Rightarrow> Inl ''unsafe target tool contract'' | Inr d \<Rightarrow> Inr d) (\<lambda>d.
     rbind (ok_or (rg_by_name s (td_name d)) ''target tool is not registered'') (\<lambda>e.
     rbind (ensure (d = en_definition e) ''target tool contract changed'') (\<lambda>_.
     Inr (s\<lparr>rg_by_name := (rg_by_name s)(td_name d \<mapsto> e\<lparr>en_tool := tool\<rparr>)\<rparr>))))"

fun replace_tools ::
  "('t \<Rightarrow> tool_error + tool_definition) \<Rightarrow> 't list \<Rightarrow> 't tool_registry \<Rightarrow> string + 't tool_registry" where
  "replace_tools contract [] s = Inr s"
| "replace_tools contract (t # ts) s = rbind (replace_tool contract t s) (replace_tools contract ts)"

definition registry_for_session ::
  "('t \<Rightarrow> tool_error + tool_definition) \<Rightarrow> 't list \<Rightarrow> 't tool_registry \<Rightarrow> string + 't tool_registry" where
  "registry_for_session contract tools s =
     rbind (ensure (\<not> rg_poisoned s) ''tool registry poisoned'') (\<lambda>_.
     rbind (replace_tools contract tools s) (\<lambda>s1.
     Inr (s1\<lparr>rg_revision := rg_revision s1 + 1\<rparr>)))"

definition contextual :: "string \<Rightarrow> bool" where
  "contextual name \<longleftrightarrow> is_task_tool name
     \<or> name \<in> {''view_image'', ''delegate_readonly'', ''request_plan_mode'', ''exit_plan_mode'', ''propose_goal''}"

text \<open>The names of a registry are distinct, so the unstable sort has one result.\<close>

definition sort_model_definitions :: "tool_definition list \<Rightarrow> tool_definition list" where
  "sort_model_definitions = sort_key (\<lambda>d. (contextual (td_name d), td_name d))"

definition definitions_for :: "access_policy \<Rightarrow> 't tool_registry \<Rightarrow> tool_definition list" where
  "definitions_for a s = sort_model_definitions
     (map (model_definition a) (filter (access_allows a) (registry_definitions s)))"

section \<open>The pipeline\<close>

type_synonym 'w tool_next = "model_call \<Rightarrow> 'w \<Rightarrow> (tool_error + json) \<times> 'w"
type_synonym 'w middleware = "'w tool_next \<Rightarrow> 'w tool_next"
type_synonym 'w observer = "model_call \<Rightarrow> tool_error + json \<Rightarrow> 'w \<Rightarrow> 'w"
type_synonym 'w transformer = "tool_result \<Rightarrow> 'w \<Rightarrow> tool_result \<times> 'w"

record 'w tool_pipeline =
  pl_middleware :: "(u64 \<times> string \<times> 'w middleware) list"
  pl_observers :: "(u64 \<times> string \<times> 'w observer) list"
  pl_transformers :: "(u64 \<times> string \<times> 'w transformer) list"
  pl_next :: u64
  pl_frozen :: bool
  pl_poisoned :: bool

datatype 'w contribution = CMiddleware "'w middleware" | CObserver "'w observer" | CTransformer "'w transformer"
datatype contribution_kind = KMiddleware | KObserver | KTransformer

record pipeline_lease =
  pll_id :: u64
  pll_kind :: contribution_kind

fun kind_of_contribution :: "'w contribution \<Rightarrow> contribution_kind" where
  "kind_of_contribution (CMiddleware m) = KMiddleware"
| "kind_of_contribution (CObserver m) = KObserver"
| "kind_of_contribution (CTransformer m) = KTransformer"

fun pipeline_add :: "string \<Rightarrow> 'w contribution \<Rightarrow> 'w tool_pipeline \<Rightarrow> 'w tool_pipeline" where
  "pipeline_add owner (CMiddleware m) p = p\<lparr>pl_middleware := pl_middleware p @ [(pl_next p, owner, m)]\<rparr>"
| "pipeline_add owner (CObserver m) p = p\<lparr>pl_observers := pl_observers p @ [(pl_next p, owner, m)]\<rparr>"
| "pipeline_add owner (CTransformer m) p = p\<lparr>pl_transformers := pl_transformers p @ [(pl_next p, owner, m)]\<rparr>"

definition pipeline_register ::
  "string \<Rightarrow> 'w contribution \<Rightarrow> 'w tool_pipeline \<Rightarrow> 'w tool_pipeline \<times> (registry_error + pipeline_lease)" where
  "pipeline_register owner c p =
     (if pl_poisoned p then (p, Inl RegistryPoisoned)
      else if pl_frozen p then (p, Inl RegistryFrozen)
      else ((pipeline_add owner c p)\<lparr>pl_next := pl_next p + 1\<rparr>,
            Inr \<lparr>pll_id = pl_next p, pll_kind = kind_of_contribution c\<rparr>))"

definition pipeline_revoke ::
  "bool \<Rightarrow> pipeline_lease \<Rightarrow> 'w tool_pipeline \<Rightarrow> 'w tool_pipeline \<times> (registry_error + unit)" where
  "pipeline_revoke alive l p =
     (if \<not> alive then (p, Inr ())
      else if pl_poisoned p then (p, Inl RegistryPoisoned)
      else (case pll_kind l of
          KMiddleware \<Rightarrow> p\<lparr>pl_middleware := filter (\<lambda>x. fst x \<noteq> pll_id l) (pl_middleware p)\<rparr>
        | KObserver \<Rightarrow> p\<lparr>pl_observers := filter (\<lambda>x. fst x \<noteq> pll_id l) (pl_observers p)\<rparr>
        | KTransformer \<Rightarrow> p\<lparr>pl_transformers := filter (\<lambda>x. fst x \<noteq> pll_id l) (pl_transformers p)\<rparr>,
        Inr ()))"

definition pipeline_freeze :: "'w tool_pipeline \<Rightarrow> 'w tool_pipeline \<times> (registry_error + unit)" where
  "pipeline_freeze p =
     (if pl_poisoned p then (p, Inl RegistryPoisoned) else (p\<lparr>pl_frozen := True\<rparr>, Inr ()))"

definition replace_owner :: "string \<Rightarrow> 'x option \<Rightarrow> (u64 \<times> string \<times> 'x) list \<Rightarrow> string + (u64 \<times> string \<times> 'x) list" where
  "replace_owner owner replacement entries =
     rbind (ensure (length (filter (\<lambda>(_, i, _). i = owner) entries)
          = (case replacement of None \<Rightarrow> 0 | Some _ \<Rightarrow> 1))
       (''session pipeline owner '' @ owner @ '' does not match mounted capability'')) (\<lambda>_.
     Inr (map (\<lambda>(n, i, v). (n, i, if i = owner then (case replacement of None \<Rightarrow> v | Some r \<Rightarrow> r) else v)) entries))"

definition pipeline_for_session ::
  "'w middleware option \<Rightarrow> 'w observer option \<Rightarrow> 'w transformer option \<Rightarrow> 'w tool_pipeline
   \<Rightarrow> string + 'w tool_pipeline" where
  "pipeline_for_session task instructions img p =
     rbind (ensure (\<not> pl_poisoned p) ''tool pipeline poisoned'') (\<lambda>_.
     rbind (replace_owner ''builtin.task'' task (pl_middleware p)) (\<lambda>ms.
     rbind (replace_owner ''builtin.project_instructions'' instructions (pl_observers p)) (\<lambda>os.
     rbind (replace_owner ''builtin.view_image'' img (pl_transformers p)) (\<lambda>ts.
     Inr (p\<lparr>pl_middleware := ms, pl_observers := os, pl_transformers := ts\<rparr>)))))"

text \<open>\<open>MiddlewareCursor\<close>: the middleware at the index around the rest, the terminal last.\<close>

function cursor_execute :: "'w middleware list \<Rightarrow> nat \<Rightarrow> 'w tool_next \<Rightarrow> 'w tool_next" where
  "cursor_execute ms i terminal invocation w =
     (if i < length ms then (ms ! i) (cursor_execute ms (i + 1) terminal) invocation w else terminal invocation w)"
  by pat_completeness auto
termination
  by (relation "measure (\<lambda>(ms, i, _). length ms - i)") auto

declare cursor_execute.simps [simp del]

fun observe_all :: "'w observer list \<Rightarrow> model_call \<Rightarrow> tool_error + json \<Rightarrow> 'w \<Rightarrow> 'w" where
  "observe_all [] invocation r w = w"
| "observe_all (ob # obs) invocation r w = observe_all obs invocation r (ob invocation r w)"

definition pipeline_execute :: "'w tool_pipeline \<Rightarrow> 'w tool_next \<Rightarrow> 'w tool_next" where
  "pipeline_execute p terminal invocation w =
     (if pl_poisoned p then (Inl (tool_error_new ''tool pipeline lock poisoned''), w)
      else (case cursor_execute (map (snd \<circ> snd) (pl_middleware p)) 0 terminal invocation w of
          (r, w1) \<Rightarrow> (r, observe_all (map (snd \<circ> snd) (pl_observers p)) invocation r w1)))"

fun transform_all :: "'w transformer list \<Rightarrow> tool_result \<Rightarrow> 'w \<Rightarrow> tool_result \<times> 'w" where
  "transform_all [] r w = (r, w)"
| "transform_all (t # ts) r w = (case t r w of (r1, w1) \<Rightarrow> transform_all ts r1 w1)"

definition pipeline_transform :: "'w tool_pipeline \<Rightarrow> tool_result \<Rightarrow> 'w \<Rightarrow> tool_result \<times> 'w" where
  "pipeline_transform p r w =
     (if pl_poisoned p then (r, w) else transform_all (map (snd \<circ> snd) (pl_transformers p)) r w)"

section \<open>Facts\<close>

text \<open>The order of the names and the map agree, and an entry is found under its own name.\<close>

definition registry_ok :: "'t tool_registry \<Rightarrow> bool" where
  "registry_ok s \<longleftrightarrow> distinct (rg_order s) \<and> set (rg_order s) = dom (rg_by_name s)
     \<and> (\<forall>n e. rg_by_name s n = Some e \<longrightarrow> td_name (en_definition e) = n)"

lemma registry_new_ok [simp]: "registry_ok registry_new"
  by (simp add: registry_ok_def registry_new_def)

lemma register_ok: "registry_ok s \<Longrightarrow> registry_ok (fst (registry_register contract fresh owner tool s))"
  by (auto simp: registry_register_def registry_ok_def split: sum.splits option.splits)

lemma revoke_ok: "registry_ok s \<Longrightarrow> registry_ok (fst (registry_revoke alive l s))"
  by (auto simp: registry_revoke_def registry_ok_def split: option.splits)

text \<open>The session instances keep every contract and every owner.\<close>

definition same_contracts :: "'t tool_registry \<Rightarrow> 't tool_registry \<Rightarrow> bool" where
  "same_contracts s s' \<longleftrightarrow> rg_order s' = rg_order s
     \<and> (\<forall>n. map_option (\<lambda>e. (en_definition e, en_owner e)) (rg_by_name s' n)
          = map_option (\<lambda>e. (en_definition e, en_owner e)) (rg_by_name s n))"

lemma same_contracts_dom: "same_contracts s s' \<Longrightarrow> dom (rg_by_name s') = dom (rg_by_name s)"
proof -
  assume "same_contracts s s'"
  then have "map_option (\<lambda>e. (en_definition e, en_owner e)) (rg_by_name s' n) = None
      \<longleftrightarrow> map_option (\<lambda>e. (en_definition e, en_owner e)) (rg_by_name s n) = None" for n
    by (simp only: same_contracts_def)
  then show ?thesis by (auto simp: dom_def)
qed

lemma same_contracts_ok:
  assumes "same_contracts s s'" and "registry_ok s"
  shows "registry_ok s'"
proof -
  have "td_name (en_definition e) = n" if "rg_by_name s' n = Some e" for n e
  proof -
    from assms(1) have "map_option (\<lambda>e. (en_definition e, en_owner e)) (rg_by_name s' n)
        = map_option (\<lambda>e. (en_definition e, en_owner e)) (rg_by_name s n)"
      by (simp add: same_contracts_def)
    with that obtain e' where "rg_by_name s n = Some e'" "en_definition e' = en_definition e"
      by (cases "rg_by_name s n") auto
    with assms(2) show ?thesis unfolding registry_ok_def by metis
  qed
  with assms same_contracts_dom[OF assms(1)] show ?thesis
    by (simp add: registry_ok_def same_contracts_def)
qed

lemma replace_tool_same: "replace_tool contract t s = Inr s' \<Longrightarrow> same_contracts s s'"
  by (auto simp: replace_tool_def same_contracts_def)

lemma replace_tools_same: "replace_tools contract ts s = Inr s' \<Longrightarrow> same_contracts s s'"
proof (induction ts arbitrary: s)
  case (Cons t ts)
  then obtain s1 where "replace_tool contract t s = Inr s1" "replace_tools contract ts s1 = Inr s'" by auto
  with Cons.IH[of s1] replace_tool_same[of contract t s s1] show ?case by (simp add: same_contracts_def)
qed (simp add: same_contracts_def)

lemma cursor_is_foldr: "cursor_execute ms i terminal = foldr (\<lambda>m next. m next) (drop i ms) terminal"
proof (induction "length ms - i" arbitrary: i)
  case 0
  then show ?case by (intro ext) (simp add: cursor_execute.simps)
next
  case (Suc n)
  then have i: "i < length ms" by simp
  have "cursor_execute ms (i + 1) terminal = foldr (\<lambda>m next. m next) (drop (i + 1) ms) terminal"
    using Suc by auto
  with i show ?case
    by (intro ext) (simp add: cursor_execute.simps[of ms i] Cons_nth_drop_Suc [symmetric])
qed

end
