(* ===== verification/ModelContract.thy ===== *)
theory ModelContract
  imports Tool
begin

text \<open>
  The provider-neutral model contract (\<open>model.rs\<close> and \<open>model/\<close>): items, responses, usage,
  errors, the conservative estimates, the context budget, the projection budget of images and
  the spend ledger of a run. Token counts are \<open>u64\<close> words; \<open>usize\<close> is 64 bits wide.
  Parameters: the JSON of an item or a schema (\<open>None\<close> where serialising fails), the estimate
  of an image and the size of a regular file.
\<close>

section \<open>Items and responses\<close>

datatype model_item =
    IUser "content_part list"
  | IAssistant "content_part list" "string option"
  | IToolCall model_call
  | IToolResult tool_result
  | IProviderState string json

definition user_text :: "string \<Rightarrow> model_item" where
  "user_text text = IUser [PartText text]"

definition assistant_text :: "string \<Rightarrow> model_item" where
  "assistant_text text = IAssistant [PartText text] None"

definition assistant_with_reasoning :: "string \<Rightarrow> string option \<Rightarrow> model_item" where
  "assistant_with_reasoning text reasoning = IAssistant [PartText text] reasoning"

record token_usage =
  us_input :: u64
  us_output :: u64
  us_cached :: "u64 option"
  us_reasoning :: "u64 option"

definition usage_default :: token_usage where
  "usage_default = \<lparr>us_input = 0, us_output = 0, us_cached = None, us_reasoning = None\<rparr>"

definition add_optional :: "u64 option \<Rightarrow> u64 option \<Rightarrow> u64 option" where
  "add_optional a b =
     (if a = None \<and> b = None then None
      else Some (saturating_add (case a of None \<Rightarrow> 0 | Some x \<Rightarrow> x) (case b of None \<Rightarrow> 0 | Some x \<Rightarrow> x)))"

definition usage_add :: "token_usage \<Rightarrow> token_usage \<Rightarrow> token_usage" where
  "usage_add a b = \<lparr>us_input = saturating_add (us_input a) (us_input b),
     us_output = saturating_add (us_output a) (us_output b),
     us_cached = add_optional (us_cached a) (us_cached b),
     us_reasoning = add_optional (us_reasoning a) (us_reasoning b)\<rparr>"

datatype finish_reason =
    FinCompleted | FinToolCalls | FinMaxTokens | FinRefusal | FinCancelled | FinIncomplete
  | FinError | FinUnknown string

record model_response =
  rp_text :: string
  rp_tool_calls :: "model_call list"
  rp_finish_reason :: finish_reason
  rp_usage :: "token_usage option"
  rp_response_id :: "string option"
  rp_provider_state :: "(string \<times> json) list"
  rp_reasoning :: "string option"

datatype model_error_kind =
    ContextCapacity | ImageCapacity | Transport | RateLimited | ServerFailure | ClientFailure
  | Authentication | DecodeFailure | RequestFailure | RequestCancelled | OtherFailure

record model_error =
  me_message :: string
  me_kind :: model_error_kind
  me_retry_after_ms :: "u64 option"

definition model_error_with_kind :: "model_error_kind \<Rightarrow> string \<Rightarrow> model_error" where
  "model_error_with_kind k m = \<lparr>me_message = m, me_kind = k, me_retry_after_ms = None\<rparr>"

record retry_failure =
  rf_message :: string
  rf_code :: string
  rf_status :: "nat option"
  rf_retry_after_ms :: "u64 option"

datatype model_event =
    MeResponseStarted "string option"
  | MeTextDelta string
  | MeRefusalDelta string
  | MeToolCallStarted string "string option"
  | MeToolArgumentsDelta string string
  | MeToolCallCompleted model_call
  | MeReasoningDelta string
  | MeReasoningSummaryDelta string
  | MeUsage token_usage
  | MeResponseCompleted finish_reason
  | MeRetryScheduled nat nat u64 retry_failure
  | MeRetryStarted nat
  | MeProviderEvent string

record image_budget =
  ib_max_context_tokens :: "u32 option"
  ib_max_images :: u64
  ib_max_bytes :: u64

text \<open>The sampling parameters are handed on unread; the temperature is its literal.\<close>

record model_options =
  mo_output_limit :: "u32 option"
  mo_temperature :: "string option"
  mo_parallel_tool_calls :: "bool option"
  mo_provider_options :: json
  mo_image_projection :: "image_budget option"
  mo_request_tail :: "string option"

section \<open>Estimates\<close>

record model_env =
  enc_item :: "model_item \<Rightarrow> string option"
  enc_schema :: "json \<Rightarrow> string option"
  image_tokens :: "string \<Rightarrow> u64"
  file_size :: "string \<Rightarrow> u64 option"

text \<open>Four ASCII characters to a token, every other code point one, eight per string.\<close>

definition ascii_chars :: "string \<Rightarrow> nat" where
  "ascii_chars text = length (filter (\<lambda>c. byte c < 128) text)"

definition char_count :: "string \<Rightarrow> nat" where
  "char_count text = length (filter (\<lambda>c. \<not> is_continuation c) text)"

definition estimate_tokens_conservative :: "string \<Rightarrow> u64" where
  "estimate_tokens_conservative text =
     of_nat (ascii_chars text div 4 + (char_count text - ascii_chars text) + 8)"

fun is_image :: "content_part \<Rightarrow> bool" where
  "is_image (PartImage path media) = True"
| "is_image (PartText text) = False"

fun item_image_parts :: "model_item \<Rightarrow> content_part list" where
  "item_image_parts (IUser parts) = filter is_image parts"
| "item_image_parts (IAssistant parts reasoning) = filter is_image parts"
| "item_image_parts (IToolResult r) = filter is_image (rt_image_parts r)"
| "item_image_parts (IToolCall c) = []"
| "item_image_parts (IProviderState p d) = []"

definition count_images :: "model_item list \<Rightarrow> nat" where
  "count_images items = length (concat (map item_image_parts items))"

fun part_tokens :: "('x) model_env_scheme \<Rightarrow> content_part \<Rightarrow> u64" where
  "part_tokens E (PartText text) = estimate_tokens_conservative text"
| "part_tokens E (PartImage path media) = image_tokens E path"

definition parts_tokens :: "('x) model_env_scheme \<Rightarrow> content_part list \<Rightarrow> u64 \<Rightarrow> u64" where
  "parts_tokens E parts tokens = fold (\<lambda>p t. t + part_tokens E p) parts tokens"

definition encoded_tokens :: "string option \<Rightarrow> u64 \<Rightarrow> u64" where
  "encoded_tokens text fallback =
     (case text of None \<Rightarrow> fallback | Some t \<Rightarrow> estimate_tokens_conservative t)"

fun estimate_item_tokens :: "('x) model_env_scheme \<Rightarrow> model_item \<Rightarrow> u64" where
  "estimate_item_tokens E (IUser parts) = parts_tokens E parts 16"
| "estimate_item_tokens E (IAssistant parts reasoning) = parts_tokens E parts 16"
| "estimate_item_tokens E (IToolResult r) =
     parts_tokens E (rt_image_parts r) (16 + encoded_tokens (enc_item E (IToolResult r)) 64)"
| "estimate_item_tokens E (IToolCall c) = 16 + encoded_tokens (enc_item E (IToolCall c)) 64"
| "estimate_item_tokens E (IProviderState p d) = 16 + encoded_tokens (enc_item E (IProviderState p d)) 64"

definition definition_tokens :: "('x) model_env_scheme \<Rightarrow> tool_definition \<Rightarrow> u64" where
  "definition_tokens E d = estimate_tokens_conservative (td_name d)
     + estimate_tokens_conservative (td_description d)
     + encoded_tokens (enc_schema E (td_input_schema d)) 256"

definition estimate_request_tokens ::
  "('x) model_env_scheme \<Rightarrow> string option \<Rightarrow> model_item list \<Rightarrow> tool_definition list \<Rightarrow> u64" where
  "estimate_request_tokens E instructions items tools =
     fold (\<lambda>d t. t + definition_tokens E d) tools
       (fold (\<lambda>i t. saturating_add t (estimate_item_tokens E i)) items
         (case instructions of None \<Rightarrow> 0 | Some text \<Rightarrow> estimate_tokens_conservative text))"

definition request_tail_tokens :: "model_options \<Rightarrow> u64" where
  "request_tail_tokens mo =
     (case mo_request_tail mo of None \<Rightarrow> 0 | Some text \<Rightarrow> 16 + estimate_tokens_conservative text)"

definition modality_preflight :: "model_item list \<Rightarrow> bool \<Rightarrow> string \<Rightarrow> string + unit" where
  "modality_preflight items accepts_images model_id =
     ensure (\<not> (0 < count_images items \<and> \<not> accepts_images))
       (''this model ('' @ model_id @ '') does not accept image input but the request still carries ''
        @ show_nat (count_images items) @ '' image part(s) (images already in this session''
        @ [CHR 0x27] @ ''s history included); switch back to a vision model (e.g. GLM 5.3 Flash) or start a fresh session with /new'')"

section \<open>Budgets\<close>

record context_budget =
  cb_threshold :: u64
  cb_capacity :: u64
  cb_retain :: u64
  cb_output :: u64
  cb_headroom :: u64

definition output_or_default :: "u32 option \<Rightarrow> u64" where
  "output_or_default l = (case l of None \<Rightarrow> 4096 | Some n \<Rightarrow> ucast n)"

definition resolve_budget :: "u32 option \<Rightarrow> u32 option \<Rightarrow> string + context_budget option" where
  "resolve_budget max_context output_limit =
     (case max_context of
        None \<Rightarrow> Inr None
      | Some w \<Rightarrow>
          let window = ucast w :: u64; out = output_or_default output_limit in
          if window < out then Inl ''invalid context capacity: output reserve exceeds window''
          else
            let messages = window - out;
                headroom = max 512 (min 65536 (messages div 10));
                threshold = min (window * 4 div 5) (saturating_sub messages headroom);
                retain = messages * 16 div 100 in
            if threshold = 0 \<or> threshold \<le> retain then
              Inl ''invalid context capacity: reduce output reserve or increase model window''
            else Inr (Some \<lparr>cb_threshold = threshold, cb_capacity = messages, cb_retain = retain,
              cb_output = out, cb_headroom = headroom\<rparr>))"

definition image_totals :: "('x) model_env_scheme \<Rightarrow> model_item list \<Rightarrow> u64 \<times> u64 \<times> u64" where
  "image_totals E items =
     fold (\<lambda>p (images, bytes, tokens). case p of
         PartText text \<Rightarrow> (images, bytes, tokens)
       | PartImage path media \<Rightarrow>
           (saturating_add images 1,
            saturating_add bytes (case file_size E path of None \<Rightarrow> - 1 | Some n \<Rightarrow> n),
            saturating_add tokens (image_tokens E path)))
       (concat (map item_image_parts items)) (0, 0, 0)"

definition projection_over_budget ::
  "('x) model_env_scheme \<Rightarrow> model_item list \<Rightarrow> string option \<Rightarrow> tool_definition list \<Rightarrow> model_options
   \<Rightarrow> image_budget \<Rightarrow> bool" where
  "projection_over_budget E items instructions tools mo b =
     (let (images, bytes, _) = image_totals E items in
      if ib_max_images b < images \<or> ib_max_bytes b < bytes then True
      else (case ib_max_context_tokens b of
          None \<Rightarrow> False
        | Some limit \<Rightarrow>
            (case resolve_budget (Some limit) (mo_output_limit mo) of
               Inl _ \<Rightarrow> True
             | Inr _ \<Rightarrow>
                 saturating_sub (ucast limit) (output_or_default (mo_output_limit mo))
                 < saturating_add (estimate_request_tokens E instructions items tools)
                     (request_tail_tokens mo))))"

fun last_user :: "model_item list \<Rightarrow> nat option" where
  "last_user [] = None"
| "last_user (i # is) =
     (case last_user is of
        Some n \<Rightarrow> Some (Suc n)
      | None \<Rightarrow> (case i of IUser _ \<Rightarrow> Some 0 | _ \<Rightarrow> None))"

text \<open>
  The preview keeps every item; only the report of the offloaded images that goes with it is
  left out. What is still over the budget is refused.
\<close>

definition project_items ::
  "('x) model_env_scheme \<Rightarrow> model_item list \<Rightarrow> string option \<Rightarrow> tool_definition list \<Rightarrow> model_options
   \<Rightarrow> string + model_item list" where
  "project_items E items instructions tools mo =
     (case mo_image_projection mo of
        None \<Rightarrow> Inr items
      | Some b \<Rightarrow>
          if projection_over_budget E items instructions tools mo b then
            let protected = drop (case last_user items of None \<Rightarrow> 0 | Some n \<Rightarrow> n) items;
                (images, bytes, _) = image_totals E protected in
            Inl (''the current request remains above the frozen visual/context budget (current turn: ''
              @ show_nat (unat images) @ '' images, '' @ show_nat (unat bytes)
              @ '' bytes); remove images, reduce the prompt, or choose a model with a larger context window'')
          else Inr items)"

section \<open>The spend ledger\<close>

record spend_ledger =
  sl_used :: u64
  sl_pending :: u64
  sl_cap :: "u64 option"

definition ledger_new :: "u64 option \<Rightarrow> spend_ledger" where
  "ledger_new cap = \<lparr>sl_used = 0, sl_pending = 0, sl_cap = cap\<rparr>"

definition ledger_charge :: "u64 \<Rightarrow> spend_ledger \<Rightarrow> spend_ledger" where
  "ledger_charge tokens l = l\<lparr>sl_used := saturating_add (sl_used l) tokens\<rparr>"

definition ledger_reserve :: "u64 \<Rightarrow> spend_ledger \<Rightarrow> spend_ledger" where
  "ledger_reserve tokens l = l\<lparr>sl_pending := tokens\<rparr>"

definition ledger_reconcile :: "u64 \<Rightarrow> spend_ledger \<Rightarrow> spend_ledger" where
  "ledger_reconcile actual l = ledger_charge actual (l\<lparr>sl_pending := 0\<rparr>)"

definition ledger_commit_pending :: "spend_ledger \<Rightarrow> spend_ledger" where
  "ledger_commit_pending l =
     (if 0 < sl_pending l then ledger_charge (sl_pending l) (l\<lparr>sl_pending := 0\<rparr>)
      else l\<lparr>sl_pending := 0\<rparr>)"

definition ledger_commit_retry :: "spend_ledger \<Rightarrow> spend_ledger" where
  "ledger_commit_retry l = (if 0 < sl_pending l then ledger_charge (sl_pending l) l else l)"

definition ledger_used :: "spend_ledger \<Rightarrow> u64" where
  "ledger_used l = saturating_add (sl_used l) (sl_pending l)"

definition ledger_exceeds_cap :: "spend_ledger \<Rightarrow> bool" where
  "ledger_exceeds_cap l = (case sl_cap l of None \<Rightarrow> False | Some cap \<Rightarrow> cap \<le> ledger_used l)"

section \<open>Facts\<close>

lemma ledger_commit_pending_used: "ledger_used (ledger_commit_pending l) = ledger_used l"
proof -
  have "saturating_add a 0 = (a :: u64)" for a
    by (rule unat_eqI) (use unat_u64[of a] in \<open>simp add: unat_saturating_add\<close>)
  then show ?thesis
    by (auto simp: ledger_commit_pending_def ledger_charge_def ledger_used_def word_gt_0)
qed

lemma count_images_simps [simp]:
  "count_images [] = 0" "count_images (i # is) = length (item_image_parts i) + count_images is"
  "count_images (xs @ ys) = count_images xs + count_images ys"
  by (simp_all add: count_images_def)

lemma count_images_assistant [simp]: "item_image_parts (assistant_text t) = []"
  by (simp add: assistant_text_def)

lemma project_items_same: "project_items E items instructions tools mo = Inr items' \<Longrightarrow> items' = items"
  by (auto simp: project_items_def Let_def split: option.splits if_splits prod.splits)

text \<open>A resolved budget partitions the window: the parts never exceed it.\<close>

lemma resolved_budget_fits:
  assumes "resolve_budget (Some w) out = Inr (Some b)"
  shows "unat (cb_capacity b) + unat (cb_output b) = unat w"
    and "cb_threshold b \<le> cb_capacity b" and "cb_retain b < cb_threshold b" and "0 < cb_threshold b"
proof -
  let ?w = "ucast w :: u64"
  from assms have le: "output_or_default out \<le> ?w" and cap: "cb_capacity b = ?w - output_or_default out"
    and o: "cb_output b = output_or_default out"
    and t: "cb_threshold b = min (?w * 4 div 5) (saturating_sub (cb_capacity b) (cb_headroom b))"
    and r: "cb_retain b < cb_threshold b" and z: "cb_threshold b \<noteq> 0"
    by (auto simp: resolve_budget_def Let_def not_less not_le split: if_splits)
  have w: "unat ?w = unat w" using unat_u32[of w] by (simp add: unat_ucast_mod)
  from le have "unat (?w - output_or_default out) = unat ?w - unat (output_or_default out)"
    by (rule unat_sub)
  with le w show "unat (cb_capacity b) + unat (cb_output b) = unat w"
    by (simp add: cap o word_le_nat_alt)
  have "saturating_sub (cb_capacity b) (cb_headroom b) \<le> cb_capacity b"
    by (simp add: word_le_nat_alt unat_saturating_sub)
  with t show "cb_threshold b \<le> cb_capacity b" by (simp add: min_le_iff_disj)
  show "cb_retain b < cb_threshold b" "0 < cb_threshold b" using r z by (simp_all add: word_gt_0)
qed

end
