(* ===== verification/Message.thy ===== *)
theory Message
  imports ModelContract
begin

text \<open>
  The message vocabulary of \<open>message.rs\<close>: content blocks, pending messages, the canonical
  bytes that the identity of a submission hashes and the projection into model parts. SHA-256 in hex is a parameter; paths are their lossy text, \<open>usize\<close> is
  64 bits wide.
\<close>

section \<open>Content\<close>

record attachment_descriptor =
  ad_attachment_id :: string
  ad_media_type :: string
  ad_width :: u64
  ad_height :: u64
  ad_bytes :: u64
  ad_display_name :: "string option"
  ad_original_width :: "u64 option"
  ad_original_height :: "u64 option"

datatype content_block =
    BlockText string
  | BlockImage attachment_descriptor

type_synonym message_content = "content_block list"

fun block_text :: "content_block \<Rightarrow> string" where
  "block_text (BlockText t) = t"
| "block_text (BlockImage a) = []"

definition plain_text :: "message_content \<Rightarrow> string" where
  "plain_text blocks = concat (map block_text blocks)"

fun block_image :: "content_block \<Rightarrow> attachment_descriptor option" where
  "block_image (BlockText t) = None"
| "block_image (BlockImage a) = Some a"

definition image_descriptors :: "message_content \<Rightarrow> attachment_descriptor list" where
  "image_descriptors blocks = List.map_filter block_image blocks"

definition attachment_ids :: "message_content \<Rightarrow> string list" where
  "attachment_ids blocks = map ad_attachment_id (image_descriptors blocks)"

definition text_only :: "message_content \<Rightarrow> bool" where
  "text_only blocks \<longleftrightarrow> blocks \<noteq> [] \<and> list_all (\<lambda>b. block_image b = None) blocks"

section \<open>The identity of a submission\<close>

fun le_bytes :: "nat \<Rightarrow> nat \<Rightarrow> string" where
  "le_bytes 0 n = []"
| "le_bytes (Suc k) n = char_of (n mod 256) # le_bytes k (n div 256)"

definition segment :: "char \<times> string \<Rightarrow> string" where
  "segment p = fst p # le_bytes 8 (length (snd p)) @ snd p"

fun block_segment :: "content_block \<Rightarrow> char \<times> string" where
  "block_segment (BlockText t) = (CHR 0x74, t)"
| "block_segment (BlockImage a) = (CHR 0x69, ad_attachment_id a)"

definition message_payload :: "message_content \<Rightarrow> string list \<Rightarrow> string" where
  "message_payload blocks staged = ''clat-mm1a-v1''
     @ concat (map (segment \<circ> block_segment) blocks)
     @ concat (map (\<lambda>r. segment (CHR 0x73, r)) staged)"

record journal_image =
  ji_descriptor :: attachment_descriptor
  ji_path :: string

record pending_message =
  pm_client_id :: "string option"
  pm_content :: message_content
  pm_staged :: "string list"
  pm_images :: "journal_image list"
  pm_submission_digest :: "string option"

definition pending_text :: "string \<Rightarrow> pending_message" where
  "pending_text text = \<lparr>pm_client_id = None, pm_content = [BlockText text], pm_staged = [],
     pm_images = [], pm_submission_digest = None\<rparr>"

definition request_digest :: "(string \<Rightarrow> string) \<Rightarrow> pending_message \<Rightarrow> string" where
  "request_digest sha m =
     (case pm_submission_digest m of
        Some d \<Rightarrow> d
      | None \<Rightarrow> sha (message_payload (pm_content m) (pm_staged m)))"

definition freeze_request_digest :: "(string \<Rightarrow> string) \<Rightarrow> pending_message \<Rightarrow> pending_message" where
  "freeze_request_digest sha m =
     (if pm_submission_digest m = None
      then m\<lparr>pm_submission_digest := Some (sha (message_payload (pm_content m) (pm_staged m)))\<rparr> else m)"

definition resolve_staged :: "(string \<Rightarrow> string) \<Rightarrow> string list \<Rightarrow> pending_message \<Rightarrow> pending_message" where
  "resolve_staged sha paths m = (freeze_request_digest sha m)\<lparr>pm_staged := paths\<rparr>"

section \<open>Projection and receipts\<close>

fun block_part :: "journal_image list \<Rightarrow> content_block \<Rightarrow> string + content_part" where
  "block_part images (BlockText t) = Inr (PartText t)"
| "block_part images (BlockImage a) =
     rbind (ok_or (find (\<lambda>i. ad_attachment_id (ji_descriptor i) = ad_attachment_id a) images)
       (''image attachment '' @ ad_attachment_id a @ '' has no admitted provider source'')) (\<lambda>i.
     Inr (PartImage (ji_path i) (ad_media_type (ji_descriptor i))))"

fun blocks_parts :: "journal_image list \<Rightarrow> message_content \<Rightarrow> string + content_part list" where
  "blocks_parts images [] = Inr []"
| "blocks_parts images (b # bs) =
     rbind (block_part images b) (\<lambda>p. rbind (blocks_parts images bs) (\<lambda>ps. Inr (p # ps)))"

definition model_parts :: "pending_message \<Rightarrow> string + content_part list" where
  "model_parts m = blocks_parts (pm_images m) (pm_content m)"

section \<open>Facts\<close>

lemma length_le_bytes [simp]: "length (le_bytes k n) = k"
  by (induction k arbitrary: n) simp_all

lemma le_bytes_inject:
  "le_bytes k n = le_bytes k m \<Longrightarrow> n < 256 ^ k \<Longrightarrow> m < 256 ^ k \<Longrightarrow> n = m"
proof (induction k arbitrary: n m)
  case (Suc k)
  from Suc.prems(1) have "char_of (n mod 256) = (char_of (m mod 256) :: char)" by simp
  then have low: "n mod 256 = m mod 256"
    by (metis mod_mod_trivial of_char_of)
  have "n div 256 = m div 256"
    using Suc.prems by (intro Suc.IH) (simp_all add: less_mult_imp_div_less mult.commute)
  with low show ?case by (metis mult_div_mod_eq)
qed simp

lemma segment_inject:
  assumes "segment (t, s) @ r = segment (t', s') @ r'" and "length s < 2 ^ 64" and "length s' < 2 ^ 64"
  shows "t = t' \<and> s = s' \<and> r = r'"
proof -
  from assms(1) have t: "t = t'" and "le_bytes 8 (length s) @ s @ r = le_bytes 8 (length s') @ s' @ r'"
    by (simp_all add: segment_def)
  then have "le_bytes 8 (length s) = le_bytes 8 (length s')" and rest: "s @ r = s' @ r'"
    by (simp_all add: append_eq_append_conv)
  from le_bytes_inject[OF this(1)] assms(2,3) have "length s = length s'" by simp
  with rest t show ?thesis by simp
qed

lemma segments_inject:
  assumes "concat (map segment ps) = concat (map segment qs)"
    and "\<forall>p\<in>set ps \<union> set qs. length (snd p) < 2 ^ 64"
  shows "ps = qs"
  using assms
proof (induction ps arbitrary: qs)
  case Nil
  then show ?case by (cases qs) (auto simp: segment_def)
next
  case (Cons p ps)
  from Cons.prems(1) obtain q qs' where qs: "qs = q # qs'" by (cases qs) (auto simp: segment_def)
  obtain t s t' s' where pq: "p = (t, s)" "q = (t', s')" by (cases p, cases q)
  from segment_inject[of t s "concat (map segment ps)" t' s' "concat (map segment qs')"] Cons.prems
  have "t = t' \<and> s = s' \<and> concat (map segment ps) = concat (map segment qs')"
    by (simp add: qs pq)
  with Cons.IH[of qs'] Cons.prems(2) show ?case by (simp add: qs pq)
qed

lemma block_segment_tag: "fst (block_segment b) \<noteq> CHR 0x73"
  by (cases b) simp_all

lemma tagged_split:
  assumes "map block_segment bs @ map (Pair CHR 0x73) ss = map block_segment bs' @ map (Pair CHR 0x73) ss'"
  shows "map block_segment bs = map block_segment bs' \<and> ss = ss'"
proof -
  have tags: "takeWhile (\<lambda>p. fst p \<noteq> CHR 0x73) (map block_segment bs @ map (Pair CHR 0x73) ss)
      = map block_segment bs" for bs ss
  proof (induction bs)
    case Nil
    show ?case by (cases ss) simp_all
  qed (simp add: block_segment_tag)
  from assms tags[of bs ss] tags[of bs' ss'] have "map block_segment bs = map block_segment bs'" by simp
  with assms show ?thesis by (simp add: inj_map_eq_map inj_on_def)
qed

text \<open>
  The bytes that the identity of a submission hashes determine it: two messages with
  segments of less than 2^64 bytes have the same payload exactly when they have the same blocks
  in the same order, texts verbatim and images by attachment id, and the same staged files.
\<close>

theorem message_identity:
  assumes "\<forall>p\<in>set (map block_segment bs) \<union> set (map block_segment bs'). length (snd p) < 2 ^ 64"
    and "\<forall>s\<in>set ss \<union> set ss'. length s < 2 ^ 64"
  shows "message_payload bs ss = message_payload bs' ss'
    \<longleftrightarrow> map block_segment bs = map block_segment bs' \<and> ss = ss'"
proof
  have payload: "message_payload bs ss = ''clat-mm1a-v1'' @ concat (map segment (map block_segment bs @ map (Pair CHR 0x73) ss))"
    for bs ss by (simp add: message_payload_def comp_def)
  assume "message_payload bs ss = message_payload bs' ss'"
  then have "concat (map segment (map block_segment bs @ map (Pair CHR 0x73) ss))
      = concat (map segment (map block_segment bs' @ map (Pair CHR 0x73) ss'))"
    unfolding payload by simp
  then have "map block_segment bs @ map (Pair CHR 0x73) ss = map block_segment bs' @ map (Pair CHR 0x73) ss'"
    by (rule segments_inject) (use assms in auto)
  then show "map block_segment bs = map block_segment bs' \<and> ss = ss'" by (rule tagged_split)
next
  have "map (segment \<circ> block_segment) xs = map segment (map block_segment xs)" for xs by simp
  moreover assume "map block_segment bs = map block_segment bs' \<and> ss = ss'"
  ultimately show "message_payload bs ss = message_payload bs' ss'" unfolding message_payload_def by metis
qed

theorem message_identity_witness:
  "message_payload [BlockText ''ab''] [] \<noteq> message_payload [BlockText ''a'', BlockText ''b''] []"
  using message_identity[of "[BlockText ''ab'']" "[BlockText ''a'', BlockText ''b'']" "[]" "[]"] by simp

end
