(* ===== verification/InputQueue.thy ===== *)
theory InputQueue
  imports Message Interfaces
begin

text \<open>
  The process-local queue of pending inputs (\<open>input/mod.rs\<close>, \<open>input/actions.rs\<close>): inputs
  are claimed reversibly for a run, committed by the durable admission, interrupted, edited
  and recalled. Every operation holds the one lock; a poisoned lock is not modelled. The
  \<open>transfer\<close> callbacks enter as their results, SHA-256 as a parameter.
\<close>

section \<open>State\<close>

record input_draft =
  dr_scope :: "string option"
  dr_uploads :: "string list"
  dr_references :: "json list"

datatype input_phase = Queued | Claiming | Interrupting

record input_entry =
  ie_id :: string
  ie_version :: u64
  ie_phase :: input_phase
  ie_text :: string
  ie_images :: "attachment_descriptor list"
  ie_draft :: input_draft
  ie_message :: pending_message

record input_state =
  in_entries :: "input_entry list"
  in_paused :: bool
  in_handoff :: "string option"
  in_initial :: "string option"
  in_terminal :: bool
  in_resume :: bool
  in_receipts :: "(string \<times> string \<times> json) list"
  in_references :: "(string \<times> json list) list"

definition input_new :: input_state where
  "input_new = \<lparr>in_entries = [], in_paused = False, in_handoff = None, in_initial = None,
     in_terminal = False, in_resume = False, in_receipts = [], in_references = []\<rparr>"

datatype input_settlement = SettledCompleted | SettledCancelled | SettledFailed

abbreviation entry_named :: "string \<Rightarrow> input_entry \<Rightarrow> bool" where
  "entry_named i \<equiv> (\<lambda>e. ie_id e = i)"

fun position :: "('a \<Rightarrow> bool) \<Rightarrow> 'a list \<Rightarrow> nat option" where
  "position p [] = None"
| "position p (x # xs) = (if p x then Some 0 else map_option Suc (position p xs))"

definition remove_at :: "nat \<Rightarrow> 'a list \<Rightarrow> 'a list" where
  "remove_at n xs = take n xs @ drop (Suc n) xs"

section \<open>Reading and queueing\<close>

definition input_ready :: "input_state \<Rightarrow> bool" where
  "input_ready s \<longleftrightarrow> \<not> in_paused s \<and> in_initial s = None \<and> in_handoff s = None
     \<and> (case in_entries s of [] \<Rightarrow> False | e # _ \<Rightarrow> ie_phase e = Queued)"

definition input_existing :: "string \<Rightarrow> input_state \<Rightarrow> pending_message option" where
  "input_existing i s = map_option ie_message (find (entry_named i) (in_entries s))"

definition input_enqueue ::
  "(string \<Rightarrow> string) \<Rightarrow> string \<Rightarrow> pending_message \<Rightarrow> input_draft \<Rightarrow> input_state
   \<Rightarrow> input_state \<times> (string + unit)" where
  "input_enqueue sha i m draft s =
     (case find (entry_named i) (in_entries s) of
        Some e \<Rightarrow>
          (s, if request_digest sha (ie_message e) = request_digest sha m \<and> ie_draft e = draft
              then Inr () else Inl ''input id already has different content'')
      | None \<Rightarrow>
          if pm_client_id m \<noteq> Some i then (s, Inl ''input id does not match its message'')
          else if i = [] \<or> 200 < length i \<or> 64 \<le> length (in_entries s) then
            (s, Inl ''pending input limit reached'')
          else
            (s\<lparr>in_resume := in_resume s \<or> in_terminal s \<or> in_paused s,
               in_entries := in_entries s @ [\<lparr>ie_id = i, ie_version = 1, ie_phase = Queued,
                 ie_text = plain_text (pm_content m), ie_images = image_descriptors (pm_content m),
                 ie_draft = draft, ie_message = m\<rparr>],
               in_paused := False\<rparr>, Inr ()))"

section \<open>Claims\<close>

definition claim_index :: "bool \<Rightarrow> input_state \<Rightarrow> nat option" where
  "claim_index ordinary s =
     (case (case in_handoff s of Some i \<Rightarrow> Some i | None \<Rightarrow> in_initial s) of
        Some i \<Rightarrow> if ordinary then position (entry_named i) (in_entries s) else None
      | None \<Rightarrow> Some 0)"

definition input_claim :: "bool \<Rightarrow> input_state \<Rightarrow> input_state \<times> pending_message option" where
  "input_claim ordinary s =
     (if in_paused s then (s, None)
      else (case claim_index ordinary s of
          None \<Rightarrow> (s, None)
        | Some n \<Rightarrow>
            if length (in_entries s) \<le> n then (s, None)
            else let e = in_entries s ! n in
              if ie_phase e \<notin> {Queued, Interrupting} then (s, None)
              else (s\<lparr>in_entries := (in_entries s)[n := e\<lparr>ie_phase := Claiming\<rparr>]\<rparr>,
                    Some (ie_message e))))"

definition accepts_initial :: "(string \<Rightarrow> string) \<Rightarrow> pending_message \<Rightarrow> input_state \<Rightarrow> bool" where
  "accepts_initial sha m s =
     (case Option.bind (pm_client_id m) (\<lambda>i. find (entry_named i) (in_entries s)) of
        None \<Rightarrow> True
      | Some e \<Rightarrow> ie_phase e = Claiming
          \<and> request_digest sha (ie_message e) = request_digest sha m)"

definition clear_if :: "string \<Rightarrow> string option \<Rightarrow> string option" where
  "clear_if i x = (if x = Some i then None else x)"

definition input_committed ::
  "(string \<Rightarrow> string) \<Rightarrow> string \<Rightarrow> string \<Rightarrow> input_state \<Rightarrow> input_state \<times> input_draft option" where
  "input_committed sha i digest s =
     (case position (\<lambda>e. ie_id e = i \<and> ie_phase e = Claiming
          \<and> request_digest sha (ie_message e) = digest) (in_entries s) of
        None \<Rightarrow> (s, None)
      | Some n \<Rightarrow>
          let e = in_entries s ! n in
          (s\<lparr>in_entries := remove_at n (in_entries s),
             in_references := in_references s
               @ (if dr_references (ie_draft e) = [] then [] else [(i, dr_references (ie_draft e))]),
             in_handoff := clear_if i (in_handoff s), in_initial := clear_if i (in_initial s)\<rparr>,
           Some (ie_draft e)))"

definition input_settled :: "input_settlement \<Rightarrow> input_state \<Rightarrow> input_state" where
  "input_settled outcome s =
     (let failed_handoff = (outcome = SettledFailed \<and> in_handoff s \<noteq> None);
          handoff = (if outcome = SettledFailed then None else in_handoff s);
          paused = in_paused s \<or> failed_handoff in
      s\<lparr>in_handoff := handoff,
        in_entries := map (\<lambda>e. if ie_phase e = Claiming \<or> failed_handoff \<and> ie_phase e = Interrupting
          then e\<lparr>ie_phase := Queued\<rparr> else e) (in_entries s),
        in_paused := paused \<or> outcome \<noteq> SettledCompleted \<and> handoff = None \<and> \<not> in_resume s\<rparr>)"

definition input_pause :: "input_state \<Rightarrow> input_state" where
  "input_pause s = s\<lparr>in_paused := True, in_resume := False, in_handoff := None, in_initial := None,
     in_entries := map (\<lambda>e. if ie_phase e = Interrupting then e\<lparr>ie_phase := Queued\<rparr> else e) (in_entries s)\<rparr>"

definition input_begin_run :: "input_state \<Rightarrow> input_state" where
  "input_begin_run s = s\<lparr>in_terminal := False, in_resume := False\<rparr>"

definition prefer_initial :: "string \<Rightarrow> input_state \<Rightarrow> input_state" where
  "prefer_initial i s =
     (if in_initial s = None \<and> in_handoff s = None then s\<lparr>in_initial := Some i\<rparr> else s)"

definition input_agent_started :: "input_state \<Rightarrow> input_state" where
  "input_agent_started s = s\<lparr>in_terminal := False\<rparr>"

definition input_terminal :: "input_state \<Rightarrow> input_state" where
  "input_terminal s = s\<lparr>in_terminal := True\<rparr>"

section \<open>Actions on one input\<close>

definition entry_check :: "u64 \<Rightarrow> input_entry \<Rightarrow> string + unit" where
  "entry_check version e =
     rbind (ensure (ie_version e = version) ''input changed; refresh before editing'') (\<lambda>_.
     ensure (ie_phase e = Queued) ''input is being received'')"

definition find_checked :: "string \<Rightarrow> u64 \<Rightarrow> input_state \<Rightarrow> string + nat" where
  "find_checked i version s =
     rbind (ok_or (position (entry_named i) (in_entries s)) ''input already received'') (\<lambda>n.
     rbind (entry_check version (in_entries s ! n)) (\<lambda>_. Inr n))"

definition input_replace ::
  "string \<Rightarrow> u64 \<Rightarrow> pending_message \<Rightarrow> input_draft \<Rightarrow> string + unit \<Rightarrow> input_state
   \<Rightarrow> input_state \<times> (string + unit)" where
  "input_replace i version m draft transfer s =
     (case rbind (find_checked i version s) (\<lambda>n. rbind transfer (\<lambda>_. Inr n)) of
        Inl e \<Rightarrow> (s, Inl e)
      | Inr n \<Rightarrow>
          (s\<lparr>in_entries := (in_entries s)[n := (in_entries s ! n)\<lparr>ie_version := ie_version (in_entries s ! n) + 1,
             ie_text := plain_text (pm_content m), ie_images := image_descriptors (pm_content m),
             ie_draft := draft, ie_message := m\<rparr>]\<rparr>, Inr ()))"

definition remove_checked :: "nat \<Rightarrow> string \<Rightarrow> input_state \<Rightarrow> input_state" where
  "remove_checked n i s = s\<lparr>in_initial := clear_if i (in_initial s),
     in_handoff := clear_if i (in_handoff s), in_entries := remove_at n (in_entries s)\<rparr>"

definition input_recall ::
  "string \<Rightarrow> u64 \<Rightarrow> (input_entry \<Rightarrow> string + unit) \<Rightarrow> input_state \<Rightarrow> input_state \<times> (string + input_entry)" where
  "input_recall i version transfer s =
     (case rbind (find_checked i version s) (\<lambda>n. rbind (transfer (in_entries s ! n)) (\<lambda>_. Inr n)) of
        Inl e \<Rightarrow> (s, Inl e)
      | Inr n \<Rightarrow> (remove_checked n i s, Inr (in_entries s ! n)))"

definition input_remove :: "string \<Rightarrow> u64 \<Rightarrow> input_state \<Rightarrow> input_state \<times> (string + input_entry)" where
  "input_remove i version s = input_recall i version (\<lambda>_. Inr ()) s"

definition input_entry_at :: "string \<Rightarrow> u64 \<Rightarrow> input_state \<Rightarrow> string + input_entry" where
  "input_entry_at i version s = rbind (find_checked i version s) (\<lambda>n. Inr (in_entries s ! n))"

definition input_interrupt :: "string \<Rightarrow> u64 \<Rightarrow> input_state \<Rightarrow> input_state \<times> (string + unit)" where
  "input_interrupt i version s =
     (if in_handoff s \<noteq> None then (s, Inl ''an input interruption is already in progress'')
      else (case find_checked i version s of
          Inl e \<Rightarrow> (s, Inl e)
        | Inr n \<Rightarrow>
            (s\<lparr>in_entries := (in_entries s)[n := (in_entries s ! n)\<lparr>ie_phase := Interrupting\<rparr>],
               in_handoff := Some i, in_paused := False\<rparr>, Inr ())))"

definition references_done :: "string \<Rightarrow> input_state \<Rightarrow> input_state" where
  "references_done i s = s\<lparr>in_references := filter (\<lambda>x. fst x \<noteq> i) (in_references s)\<rparr>"

definition input_receipt :: "string \<Rightarrow> string \<Rightarrow> input_state \<Rightarrow> string + json option" where
  "input_receipt operation digest s =
     (case find (\<lambda>x. fst x = operation) (in_receipts s) of
        None \<Rightarrow> Inr None
      | Some (_, old, result) \<Rightarrow>
          if old = digest then Inr (Some result)
          else Inl ''input operation id has different arguments'')"

definition input_remember :: "string \<Rightarrow> string \<Rightarrow> json \<Rightarrow> input_state \<Rightarrow> input_state" where
  "input_remember operation digest result s =
     (let all = in_receipts s @ [(operation, digest, result)] in
      s\<lparr>in_receipts := drop (length all - 128) all\<rparr>)"

section \<open>The queue as a system\<close>

text \<open>The calls of the front ends, of the run and of the recorder, with what left the queue.\<close>

datatype input_call =
    IcEnqueue string pending_message input_draft
  | IcClaim bool
  | IcCommitted string string
  | IcSettled input_settlement
  | IcPause
  | IcBeginRun
  | IcPreferInitial string
  | IcAgentStarted
  | IcTerminal
  | IcReplace string u64 pending_message input_draft "string + unit"
  | IcRecall string u64 "string + unit"
  | IcInterrupt string u64
  | IcReferencesDone string
  | IcRemember string string json

fun run_input :: "(string \<Rightarrow> string) \<Rightarrow> input_call \<Rightarrow> input_state \<Rightarrow> input_state" where
  "run_input sha (IcEnqueue i m d) s = fst (input_enqueue sha i m d s)"
| "run_input sha (IcClaim ordinary) s = fst (input_claim ordinary s)"
| "run_input sha (IcCommitted i d) s = fst (input_committed sha i d s)"
| "run_input sha (IcSettled outcome) s = input_settled outcome s"
| "run_input sha IcPause s = input_pause s"
| "run_input sha IcBeginRun s = input_begin_run s"
| "run_input sha (IcPreferInitial i) s = prefer_initial i s"
| "run_input sha IcAgentStarted s = input_agent_started s"
| "run_input sha IcTerminal s = input_terminal s"
| "run_input sha (IcReplace i v m d t) s = fst (input_replace i v m d t s)"
| "run_input sha (IcRecall i v t) s = fst (input_recall i v (\<lambda>_. t) s)"
| "run_input sha (IcInterrupt i v) s = fst (input_interrupt i v s)"
| "run_input sha (IcReferencesDone i) s = references_done i s"
| "run_input sha (IcRemember op d r) s = input_remember op d r s"

end
