(* ===== verification/Run.thy ===== *)
theory Run
  imports ToolRegistry InputQueue
begin

text \<open>
  The agent loop (\<open>run/\<close>): one run drives model, tools, model until the task completes, fails
  or is cancelled, and every step goes through the event sink.

  The state the threads share is \<open>run_sys\<close>: the emitted events, the steering queue
  (\<open>run/steering.rs\<close>), the pending inputs, the spend ledger, the cancel flag and the world
  \<open>'w\<close>. What other threads do to it between two accesses of the run is \<open>re_outside\<close>, what the
  sink does on an event \<open>re_sink\<close>; both are lists of atomic operations (\<open>outside\<close>). The
  model, the context manager, the dynamic instructions, the tools and the approver are
  functions of the world; the events of one model request reach the sink after it returned.
  Loops take fuel: \<open>None\<close> is a run that is still going, and its state is that of a prefix.
\<close>

section \<open>Events, outputs and the shared state\<close>

datatype run_event =
    EvRunStarted string message_content "string option"
  | EvModelRequested nat string string
  | EvModelStream nat model_event
  | EvModelResponded nat bool nat finish_reason "json option"
  | EvToolRequested model_call
  | EvPermissionChecked string permission_decision
  | EvPermissionDenied string string
  | EvToolStarted string string
  | EvToolFinished tool_result
  | EvSteeringApplied message_content "string option" "string option"
  | EvRunCompleted string nat token_usage
  | EvRunCancelled nat token_usage
  | EvRunFailed string

record run_output =
  ro_text :: string
  ro_turns :: nat
  ro_items :: "model_item list"
  ro_usage :: token_usage
  ro_cancelled :: bool

record run_error =
  rr_message :: string
  rr_turns :: nat
  rr_usage :: token_usage
  rr_items :: "model_item list"

record 'w run_sys =
  rn_events :: "run_event list"
  rn_queue :: "pending_message list"
  rn_sealed :: bool
  rn_inputs :: input_state
  rn_ledger :: "spend_ledger option"
  rn_cancelled :: bool
  rn_world :: 'w

datatype outside =
    OutPush pending_message
  | OutRecall
  | OutInput input_call
  | OutCancel
  | OutReconcile u64
  | OutCommitPending
  | OutCommitRetry
  | OutCharge u64

record request_inputs =
  ri_instructions :: "string option"
  ri_definitions :: "tool_definition list"
  ri_items :: "model_item list"

record 'w context_manager =
  cm_maintain :: "model_item list \<Rightarrow> token_usage \<Rightarrow> string option \<Rightarrow> tool_definition list \<Rightarrow> 'w
    \<Rightarrow> (string + unit) \<times> model_item list \<times> token_usage \<times> 'w"
  cm_observe :: "request_inputs \<Rightarrow> token_usage \<Rightarrow> u64 \<Rightarrow> 'w \<Rightarrow> 'w"
  cm_failed_attempt :: "model_error_kind \<Rightarrow> 'w \<Rightarrow> (string + unit) \<times> 'w"
  cm_recover :: "model_error_kind \<Rightarrow> model_item list \<Rightarrow> token_usage \<Rightarrow> request_inputs \<Rightarrow> 'w
    \<Rightarrow> (string + bool) \<times> model_item list \<times> token_usage \<times> 'w"

record 'w run_env = model_env +
  re_sha :: "string \<Rightarrow> string"
  re_debug :: "string \<Rightarrow> string"
  re_root :: string
  re_provider :: string
  re_model_id :: string
  re_accepts_images :: bool
  re_instructions :: "string option"
  re_dynamic :: "('w \<Rightarrow> (string + string option) \<times> 'w) option"
  re_options :: model_options
  re_definitions :: "tool_definition list option"
  re_registry :: "'w \<Rightarrow> 'w tool_object tool_registry"
  re_pipeline :: "'w tool_pipeline option"
  re_access :: access_policy
  re_permissions :: "'w permission_env"
  re_manager :: "'w context_manager option"
  re_stream :: "request_inputs \<Rightarrow> 'w \<Rightarrow> model_event list \<times> (model_error + model_response) \<times> 'w"
  re_sink :: "run_event \<Rightarrow> 'w \<Rightarrow> outside list \<times> 'w"
  re_outside :: "'w \<Rightarrow> outside list \<times> 'w"

section \<open>The steering queue\<close>

definition try_push :: "pending_message \<Rightarrow> 'w run_sys \<Rightarrow> 'w run_sys \<times> bool" where
  "try_push m s = (if rn_sealed s then (s, False) else (s\<lparr>rn_queue := rn_queue s @ [m]\<rparr>, True))"

definition steering_pop :: "'w run_sys \<Rightarrow> 'w run_sys \<times> pending_message option" where
  "steering_pop s =
     (case rn_queue s of [] \<Rightarrow> (s, None) | m # ms \<Rightarrow> (s\<lparr>rn_queue := ms\<rparr>, Some m))"

definition recall_last :: "'w run_sys \<Rightarrow> 'w run_sys \<times> pending_message option" where
  "recall_last s =
     (if rn_queue s = [] then (s, None)
      else (s\<lparr>rn_queue := butlast (rn_queue s)\<rparr>, Some (last (rn_queue s))))"

definition seal_if_empty :: "'w run_sys \<Rightarrow> 'w run_sys \<times> bool" where
  "seal_if_empty s =
     (if input_ready (rn_inputs s) then (s, False)
      else if rn_sealed s \<or> rn_queue s = []
      then (s\<lparr>rn_sealed := True, rn_inputs := input_terminal (rn_inputs s)\<rparr>, True)
      else (s, False))"

definition seal :: "'w run_sys \<Rightarrow> 'w run_sys" where
  "seal s = s\<lparr>rn_inputs := input_terminal (rn_inputs s), rn_sealed := True\<rparr>"

section \<open>Other threads and the sink\<close>

fun act :: "(string \<Rightarrow> string) \<Rightarrow> outside \<Rightarrow> 'w run_sys \<Rightarrow> 'w run_sys" where
  "act sha (OutPush m) s = fst (try_push m s)"
| "act sha OutRecall s = fst (recall_last s)"
| "act sha (OutInput c) s = s\<lparr>rn_inputs := run_input sha c (rn_inputs s)\<rparr>"
| "act sha OutCancel s = s\<lparr>rn_cancelled := True\<rparr>"
| "act sha (OutReconcile n) s = s\<lparr>rn_ledger := map_option (ledger_reconcile n) (rn_ledger s)\<rparr>"
| "act sha OutCommitPending s = s\<lparr>rn_ledger := map_option ledger_commit_pending (rn_ledger s)\<rparr>"
| "act sha OutCommitRetry s = s\<lparr>rn_ledger := map_option ledger_commit_retry (rn_ledger s)\<rparr>"
| "act sha (OutCharge n) s = s\<lparr>rn_ledger := map_option (ledger_charge n) (rn_ledger s)\<rparr>"

definition yield_to :: "'w run_env \<Rightarrow> 'w run_sys \<Rightarrow> 'w run_sys" where
  "yield_to E s = (case re_outside E (rn_world s) of
     (acts, w) \<Rightarrow> fold (act (re_sha E)) acts (s\<lparr>rn_world := w\<rparr>))"

definition emit :: "'w run_env \<Rightarrow> run_event \<Rightarrow> 'w run_sys \<Rightarrow> 'w run_sys" where
  "emit E ev s = (case re_sink E ev (rn_world s) of
     (acts, w) \<Rightarrow> fold (act (re_sha E)) acts (s\<lparr>rn_events := rn_events s @ [ev], rn_world := w\<rparr>))"

text \<open>A poll of the cancel token.\<close>

definition poll_cancel :: "'w run_env \<Rightarrow> 'w run_sys \<Rightarrow> 'w run_sys \<times> bool" where
  "poll_cancel E s = (let s1 = yield_to E s in (s1, rn_cancelled s1))"

section \<open>The state of a run and its ends\<close>

record step_state =
  st_items :: "model_item list"
  st_usage :: token_usage
  st_turn :: nat

definition push_item :: "model_item \<Rightarrow> step_state \<Rightarrow> step_state" where
  "push_item i st = st\<lparr>st_items := st_items st @ [i]\<rparr>"

definition run_fail :: "'w run_env \<Rightarrow> string \<Rightarrow> step_state \<Rightarrow> 'w run_sys \<Rightarrow> 'w run_sys \<times> run_error" where
  "run_fail E message st s =
     (emit E (EvRunFailed message) (seal s),
      \<lparr>rr_message = message, rr_turns = st_turn st, rr_usage = st_usage st, rr_items = st_items st\<rparr>)"

definition run_cancel :: "'w run_env \<Rightarrow> string \<Rightarrow> step_state \<Rightarrow> 'w run_sys \<Rightarrow> 'w run_sys \<times> run_output" where
  "run_cancel E text st s =
     (emit E (EvRunCancelled (st_turn st) (st_usage st)) (seal s),
      \<lparr>ro_text = text, ro_turns = st_turn st, ro_items = st_items st, ro_usage = st_usage st,
       ro_cancelled = True\<rparr>)"

definition run_complete :: "'w run_env \<Rightarrow> string \<Rightarrow> step_state \<Rightarrow> 'w run_sys \<Rightarrow> 'w run_sys \<times> run_output" where
  "run_complete E text st s =
     (emit E (EvRunCompleted text (st_turn st) (st_usage st)) s,
      \<lparr>ro_text = text, ro_turns = st_turn st, ro_items = st_items st, ro_usage = st_usage st,
       ro_cancelled = False\<rparr>)"

text \<open>
  What a step of the run answers: it goes on with a value, it ends the run, or its fuel is out.
\<close>

datatype 'a step_result =
    Going 'a
  | Ended "run_error + run_output"
  | Unfinished

type_synonym ('w, 'a) step = "'w run_sys \<Rightarrow> 'w run_sys \<times> 'a step_result"

definition and_then ::
  "'w run_sys \<times> 'a step_result \<Rightarrow> ('a \<Rightarrow> ('w, 'b) step) \<Rightarrow> 'w run_sys \<times> 'b step_result" where
  "and_then m f =
     (case m of
        (s, Going x) \<Rightarrow> f x s
      | (s, Ended r) \<Rightarrow> (s, Ended r)
      | (s, Unfinished) \<Rightarrow> (s, Unfinished))"

definition fails :: "'w run_env \<Rightarrow> string \<Rightarrow> step_state \<Rightarrow> ('w, 'a) step" where
  "fails E message st s = (case run_fail E message st s of (s1, e) \<Rightarrow> (s1, Ended (Inl e)))"

definition cancels :: "'w run_env \<Rightarrow> string \<Rightarrow> step_state \<Rightarrow> ('w, 'a) step" where
  "cancels E text st s = (case run_cancel E text st s of (s1, e) \<Rightarrow> (s1, Ended (Inr e)))"

definition completes :: "'w run_env \<Rightarrow> string \<Rightarrow> step_state \<Rightarrow> ('w, 'a) step" where
  "completes E text st s = (case run_complete E text st s of (s1, e) \<Rightarrow> (s1, Ended (Inr e)))"

section \<open>Requests\<close>

definition apply_pending :: "'w run_env \<Rightarrow> pending_message \<Rightarrow> step_state \<Rightarrow> ('w, step_state) step" where
  "apply_pending E m st s =
     (case model_parts m of
        Inl e \<Rightarrow> fails E (''steering image projection failed: '' @ e) st s
      | Inr parts \<Rightarrow>
          (emit E (EvSteeringApplied (pm_content m) (pm_client_id m)
              (map_option (\<lambda>_. request_digest (re_sha E) m) (pm_client_id m))) s,
           Going (push_item (IUser parts) st)))"

fun claim_queue :: "nat \<Rightarrow> 'w run_env \<Rightarrow> step_state \<Rightarrow> ('w, step_state) step" where
  "claim_queue 0 E st s = (s, Unfinished)"
| "claim_queue (Suc n) E st s =
     (case steering_pop (yield_to E s) of
        (s1, None) \<Rightarrow> (s1, Going st)
      | (s1, Some m) \<Rightarrow> and_then (apply_pending E m st s1) (claim_queue n E))"

definition claim_steering :: "nat \<Rightarrow> 'w run_env \<Rightarrow> step_state \<Rightarrow> ('w, step_state) step" where
  "claim_steering n E st s =
     and_then (claim_queue n E st s) (\<lambda>st s.
       if 1 < st_turn st then
         let s1 = yield_to E s in
         (case input_claim False (rn_inputs s1) of
            (inputs, None) \<Rightarrow> (s1\<lparr>rn_inputs := inputs\<rparr>, Going st)
          | (inputs, Some m) \<Rightarrow> apply_pending E m st (s1\<lparr>rn_inputs := inputs\<rparr>))
       else (s, Going st))"

definition compose_instructions :: "string \<Rightarrow> string option \<Rightarrow> string" where
  "compose_instructions base_text snapshot =
     (let b = trim base_text; dynamic = (case snapshot of None \<Rightarrow> [] | Some t \<Rightarrow> trim t) in
      if b = [] \<and> dynamic = [] then []
      else if dynamic = [] then b
      else if b = [] then dynamic
      else b @ [CHR 0x0A, CHR 0x0A] @ dynamic)"

definition reserve_request :: "'w run_env \<Rightarrow> request_inputs \<Rightarrow> 'w run_sys \<Rightarrow> 'w run_sys \<times> (string + unit)" where
  "reserve_request E r s =
     (case rn_ledger s of
        None \<Rightarrow> (s, Inr ())
      | Some l \<Rightarrow>
          if ledger_exceeds_cap l then
            (s, Inl (''run token budget exceeded: used '' @ show_nat (unat (ledger_used l)) @ '' / cap ''
               @ show_nat (unat (the (sl_cap l)))
               @ '' tokens (input+output; raise or disable via /model '' @ em_dash
               @ '' a new run restarts the count)''))
          else
            (s\<lparr>rn_ledger := Some (ledger_reserve
                (saturating_add (saturating_add
                    (estimate_request_tokens E (ri_instructions r) (ri_items r) (ri_definitions r))
                    (request_tail_tokens (re_options E)))
                  (output_or_default (mo_output_limit (re_options E)))) l)\<rparr>, Inr ()))"

definition read_dynamic :: "'w run_env \<Rightarrow> 'w run_sys \<Rightarrow> 'w run_sys \<times> (string + string option)" where
  "read_dynamic E s =
     (case re_dynamic E of
        None \<Rightarrow> (s, Inr None)
      | Some src \<Rightarrow> (case src (rn_world s) of
            (Inl e, w) \<Rightarrow> (s\<lparr>rn_world := w\<rparr>, Inl (''project instructions failed: '' @ e))
          | (Inr t, w) \<Rightarrow> (s\<lparr>rn_world := w\<rparr>, Inr t)))"

definition frozen_definitions :: "'w run_env \<Rightarrow> 'w run_sys \<Rightarrow> tool_definition list" where
  "frozen_definitions E s =
     (case re_definitions E of
        Some ds \<Rightarrow> ds
      | None \<Rightarrow> definitions_for (re_access E) (re_registry E (rn_world s)))"

definition maintain_context ::
  "'w run_env \<Rightarrow> string option \<Rightarrow> tool_definition list \<Rightarrow> step_state \<Rightarrow> 'w run_sys
   \<Rightarrow> 'w run_sys \<times> step_state \<times> (string + unit)" where
  "maintain_context E instructions ds st s =
     (case re_manager E of
        None \<Rightarrow> (s, st, Inr ())
      | Some m \<Rightarrow> (case cm_maintain m (st_items st) (st_usage st) instructions ds (rn_world s) of
            (r, items, usage, w) \<Rightarrow>
              (s\<lparr>rn_world := w\<rparr>, st\<lparr>st_items := items, st_usage := usage\<rparr>, r)))"

text \<open>
  \<open>prepare_request\<close>: a request that was cancelled during maintenance comes back without items,
  neither checked nor reserved.
\<close>

definition finish_request ::
  "'w run_env \<Rightarrow> request_inputs \<Rightarrow> 'w run_sys \<Rightarrow> 'w run_sys \<times> (string + request_inputs)" where
  "finish_request E r s =
     (case rbind (project_items E (ri_items r) (ri_instructions r) (ri_definitions r) (re_options E)) (\<lambda>items.
           rbind (modality_preflight items (re_accepts_images E) (re_model_id E)) (\<lambda>_.
           Inr (r\<lparr>ri_items := items\<rparr>))) of
        Inl e \<Rightarrow> (s, Inl e)
      | Inr req \<Rightarrow> (case reserve_request E req s of (s1, r1) \<Rightarrow> (s1, rbind r1 (\<lambda>_. Inr req))))"

definition prepare_request ::
  "'w run_env \<Rightarrow> step_state \<Rightarrow> 'w run_sys \<Rightarrow> 'w run_sys \<times> step_state \<times> (string + request_inputs)" where
  "prepare_request E st s =
     (case read_dynamic E s of
        (s1, Inl e) \<Rightarrow> (s1, st, Inl e)
      | (s1, Inr dynamic) \<Rightarrow>
          let text = compose_instructions (case re_instructions E of None \<Rightarrow> [] | Some t \<Rightarrow> t) dynamic;
              instructions = (if text = [] then None else Some text);
              ds = frozen_definitions E s1 in
          (case maintain_context E instructions ds st s1 of
             (s2, st2, Inl e) \<Rightarrow> (s2, st2, Inl e)
           | (s2, st2, Inr _) \<Rightarrow>
               (case poll_cancel E s2 of
                  (s3, True) \<Rightarrow> (s3, st2, Inr \<lparr>ri_instructions = instructions, ri_definitions = ds, ri_items = []\<rparr>)
                | (s3, False) \<Rightarrow>
                    (case finish_request E \<lparr>ri_instructions = instructions, ri_definitions = ds,
                         ri_items = st_items st2\<rparr> s3 of
                       (s4, r) \<Rightarrow> (s4, st2, r)))))"

section \<open>The model request and its recovery\<close>

record forwarder =
  fw_partial :: string
  fw_usage_seen :: bool
  fw_delivered :: bool
  fw_last_usage :: "token_usage option"

definition forwarder_new :: forwarder where
  "forwarder_new = \<lparr>fw_partial = [], fw_usage_seen = False, fw_delivered = False, fw_last_usage = None\<rparr>"

fun forward_note :: "model_event \<Rightarrow> forwarder \<Rightarrow> forwarder" where
  "forward_note (MeTextDelta d) f =
     f\<lparr>fw_partial := fw_partial f @ d, fw_delivered := fw_delivered f \<or> d \<noteq> []\<rparr>"
| "forward_note (MeRefusalDelta d) f =
     f\<lparr>fw_partial := fw_partial f @ d, fw_delivered := fw_delivered f \<or> d \<noteq> []\<rparr>"
| "forward_note (MeToolCallStarted i n) f = f\<lparr>fw_delivered := True\<rparr>"
| "forward_note (MeToolArgumentsDelta i d) f = f\<lparr>fw_delivered := True\<rparr>"
| "forward_note (MeToolCallCompleted c) f = f\<lparr>fw_delivered := True\<rparr>"
| "forward_note (MeUsage u) f = f\<lparr>fw_usage_seen := True, fw_last_usage := Some u\<rparr>"
| "forward_note _ f = f"

fun forward_events ::
  "'w run_env \<Rightarrow> nat \<Rightarrow> model_event list \<Rightarrow> forwarder \<Rightarrow> 'w run_sys \<Rightarrow> 'w run_sys \<times> forwarder" where
  "forward_events E turn [] f s = (s, f)"
| "forward_events E turn (ev # evs) f s =
     forward_events E turn evs (forward_note ev f) (emit E (EvModelStream turn ev) s)"

definition capacity_attempt ::
  "'w run_env \<Rightarrow> request_inputs \<Rightarrow> nat \<Rightarrow> 'w run_sys
   \<Rightarrow> 'w run_sys \<times> (model_error + model_response) \<times> forwarder" where
  "capacity_attempt E r turn s =
     (let s1 = emit E (EvModelRequested turn (re_provider E) (re_model_id E)) s in
      case re_stream E r (rn_world s1) of
        (evs, result, w) \<Rightarrow>
          (case forward_events E turn evs forwarder_new (s1\<lparr>rn_world := w\<rparr>) of
             (s2, f) \<Rightarrow>
               (case (case result of Inr response \<Rightarrow> rp_usage response | Inl _ \<Rightarrow> None) of
                  Some u \<Rightarrow>
                    if fw_usage_seen f then (s2, result, f)
                    else (case forward_events E turn [MeUsage u] f s2 of (s3, f3) \<Rightarrow> (s3, result, f3))
                | None \<Rightarrow> (s2, result, f))))"

definition recovered_smaller ::
  "'w run_env \<Rightarrow> model_error_kind \<Rightarrow> request_inputs \<Rightarrow> model_item list \<Rightarrow> bool" where
  "recovered_smaller E kind r items =
     (if kind = ImageCapacity then count_images items < count_images (ri_items r)
      else estimate_request_tokens E (ri_instructions r) items (ri_definitions r)
        < estimate_request_tokens E (ri_instructions r) (ri_items r) (ri_definitions r))"

definition recover_request ::
  "'w run_env \<Rightarrow> model_error \<Rightarrow> request_inputs \<Rightarrow> step_state \<Rightarrow> 'w run_sys
   \<Rightarrow> 'w run_sys \<times> step_state \<times> (string + request_inputs option)" where
  "recover_request E err r st s =
     (case re_manager E of
        None \<Rightarrow> (s, st, Inr None)
      | Some m \<Rightarrow>
          (case cm_failed_attempt m (me_kind err) (rn_world s) of
             (Inl e, w) \<Rightarrow> (s\<lparr>rn_world := w\<rparr>, st, Inl e)
           | (Inr _, w) \<Rightarrow>
               let s1 = s\<lparr>rn_world := w, rn_ledger := map_option ledger_commit_pending (rn_ledger s)\<rparr> in
               (case cm_recover m (me_kind err) (st_items st) (st_usage st) r (rn_world s1) of
                  (res, items, usage, w2) \<Rightarrow>
                    let s2 = s1\<lparr>rn_world := w2\<rparr>; st2 = st\<lparr>st_items := items, st_usage := usage\<rparr> in
                    (case res of
                       Inl e \<Rightarrow> (s2, st2, Inl e)
                     | Inr progressed \<Rightarrow>
                         (case poll_cancel E s2 of
                            (s3, cancelled) \<Rightarrow>
                              if \<not> progressed \<or> cancelled \<or> \<not> recovered_smaller E (me_kind err) r items
                              then (s3, st2, Inr None)
                              else (case prepare_request E st2 s3 of
                                  (s4, st4, Inl e) \<Rightarrow> (s4, st4, Inl e)
                                | (s4, st4, Inr next_inputs) \<Rightarrow> (s4, st4, Inr (Some next_inputs))))))))"

definition observe_usage :: "'w run_env \<Rightarrow> request_inputs \<Rightarrow> model_response \<Rightarrow> 'w run_sys \<Rightarrow> 'w run_sys" where
  "observe_usage E r response s =
     (case (rp_usage response, re_manager E) of
        (Some u, Some m) \<Rightarrow>
          s\<lparr>rn_world := cm_observe m r u (request_tail_tokens (re_options E)) (rn_world s)\<rparr>
      | _ \<Rightarrow> s)"

definition add_usage :: "token_usage option \<Rightarrow> step_state \<Rightarrow> step_state" where
  "add_usage u st = (case u of None \<Rightarrow> st | Some u \<Rightarrow> st\<lparr>st_usage := usage_add (st_usage st) u\<rparr>)"

fun stream_with_recovery ::
  "nat \<Rightarrow> 'w run_env \<Rightarrow> bool \<Rightarrow> request_inputs \<Rightarrow> step_state \<Rightarrow> ('w, model_response \<times> step_state) step" where
  "stream_with_recovery 0 E retried r st s = (s, Unfinished)"
| "stream_with_recovery (Suc n) E retried r st s =
     (case capacity_attempt E r (st_turn st) s of
        (s1, result, f) \<Rightarrow>
          let st1 = add_usage (fw_last_usage f) st in
          (case result of
             Inr response \<Rightarrow> (observe_usage E r response s1, Going (response, st1))
           | Inl err \<Rightarrow>
               let s2 = yield_to E s1;
                   eligible = (me_kind err \<in> {ContextCapacity, ImageCapacity}
                     \<and> \<not> (me_kind err = ContextCapacity \<and> retried)
                     \<and> \<not> fw_delivered f \<and> \<not> rn_cancelled s2);
                   st2 = (if fw_partial f = [] then st1 else push_item (assistant_text (fw_partial f)) st1) in
               if eligible then
                 (case recover_request E err r st2 s2 of
                    (s3, st3, Inr (Some next_inputs)) \<Rightarrow>
                      stream_with_recovery n E (retried \<or> me_kind err = ContextCapacity) next_inputs st3 s3
                  | (s3, st3, Inr None) \<Rightarrow> fails E (''model error: '' @ me_message err) st3 s3
                  | (s3, st3, Inl e) \<Rightarrow>
                      fails E (''model error: '' @ me_message err @ ''; context maintenance failed: '' @ e) st3 s3)
               else fails E (''model error: '' @ me_message err) st2 s2))"

definition provider_replay :: "model_response \<Rightarrow> string \<Rightarrow> json option" where
  "provider_replay response provider =
     (let states = map snd (filter (\<lambda>(p, d). p = provider \<and> d \<noteq> JNull) (rp_provider_state response)) in
      if states = [] then None else Some (JArr states))"

definition model_step ::
  "nat \<Rightarrow> 'w run_env \<Rightarrow> request_inputs \<Rightarrow> step_state \<Rightarrow> ('w, model_response \<times> step_state) step" where
  "model_step n E r st s =
     and_then (stream_with_recovery n E False r st s) (\<lambda>(response, st) s.
       let s1 = emit E (EvModelResponded (st_turn st) (rp_text response \<noteq> []) (length (rp_tool_calls response))
             (rp_finish_reason response) (provider_replay response (re_provider E))) s;
           st1 = st\<lparr>st_items := st_items st @ map (\<lambda>(p, d). IProviderState p d) (rp_provider_state response)\<rparr>;
           st2 = (if rp_text response \<noteq> [] \<or> rp_reasoning response \<noteq> None
             then push_item (assistant_with_reasoning (rp_text response) (rp_reasoning response)) st1 else st1) in
       (s1, Going (response\<lparr>rp_provider_state := []\<rparr>, st2)))"

fun finish_debug :: "(string \<Rightarrow> string) \<Rightarrow> finish_reason \<Rightarrow> string" where
  "finish_debug dbg FinCompleted = ''Completed''"
| "finish_debug dbg FinToolCalls = ''ToolCalls''"
| "finish_debug dbg FinMaxTokens = ''MaxTokens''"
| "finish_debug dbg FinRefusal = ''Refusal''"
| "finish_debug dbg FinCancelled = ''Cancelled''"
| "finish_debug dbg FinIncomplete = ''Incomplete''"
| "finish_debug dbg FinError = ''Error''"
| "finish_debug dbg (FinUnknown s) = ''Unknown('' @ dbg s @ '')''"

text \<open>\<open>Going ()\<close>: the run goes on, with the tool calls or with a new turn.\<close>

definition finish_response :: "'w run_env \<Rightarrow> model_response \<Rightarrow> step_state \<Rightarrow> ('w, unit) step" where
  "finish_response E response st s =
     (if rp_tool_calls response \<noteq> [] then (s, Going ())
      else if rp_finish_reason response \<in> {FinCompleted, FinRefusal} then
        (case seal_if_empty (yield_to E s) of
           (s1, False) \<Rightarrow> (s1, Going ())
         | (s1, True) \<Rightarrow>
             if rp_text response = [] then fails E ''model completed without text or tool calls'' st s1
             else completes E (rp_text response) st s1)
      else if rp_finish_reason response = FinCancelled then cancels E (rp_text response) st s
      else fails E (''model stopped before completion: ''
        @ finish_debug (re_debug E) (rp_finish_reason response)) st s)"

section \<open>Tool calls\<close>

definition transform_in :: "'w run_env \<Rightarrow> tool_result \<Rightarrow> 'w run_sys \<Rightarrow> tool_result \<times> 'w run_sys" where
  "transform_in E r s =
     (case re_pipeline E of
        None \<Rightarrow> (r, s)
      | Some p \<Rightarrow> (case pipeline_transform p r (rn_world s) of (r1, w) \<Rightarrow> (r1, s\<lparr>rn_world := w\<rparr>)))"

definition publish_result ::
  "'w run_env \<Rightarrow> tool_result \<Rightarrow> step_state \<Rightarrow> 'w run_sys \<Rightarrow> 'w run_sys \<times> step_state" where
  "publish_result E r st s =
     (case transform_in E r s of
        (r1, s1) \<Rightarrow> (emit E (EvToolFinished r1) s1, push_item (IToolResult r1) st))"

definition publish_denied ::
  "'w run_env \<Rightarrow> model_call \<Rightarrow> string \<Rightarrow> string \<Rightarrow> step_state \<Rightarrow> 'w run_sys \<Rightarrow> 'w run_sys \<times> step_state" where
  "publish_denied E call message reason st s =
     (case transform_in E \<lparr>rt_call_id = mc_id call, rt_tool_name = mc_name call,
          rt_output = JObj [(''error'', JStr message)], rt_is_error = True, rt_blocks = [],
          rt_image_parts = []\<rparr> s of
        (r1, s1) \<Rightarrow> (emit E (EvPermissionDenied (mc_name call) reason) s1, push_item (IToolResult r1) st))"

definition access_denial :: "access_policy \<Rightarrow> tool_definition \<Rightarrow> json \<Rightarrow> (string \<times> string) option" where
  "access_denial a d arguments =
     (if \<not> access_allows a d then Some (denial_reason a d, denial_reason a d)
      else (case validate_call a d arguments of
          Inl reason \<Rightarrow> Some (reason, ''read-only subagent path fence'')
        | Inr _ \<Rightarrow> None))"

definition check_access ::
  "'w run_env \<Rightarrow> model_call \<Rightarrow> tool_definition \<Rightarrow> step_state \<Rightarrow> 'w run_sys \<Rightarrow> 'w run_sys \<times> step_state \<times> bool" where
  "check_access E call d st s =
     (case access_denial (re_access E) d (mc_arguments call) of
        Some (message, reason) \<Rightarrow>
          (case publish_denied E call message reason st
               (emit E (EvPermissionChecked (td_name d) (Deny message)) s) of
             (s1, st1) \<Rightarrow> (s1, st1, False))
      | None \<Rightarrow> (s, st, True))"

definition authorized_tool ::
  "'w run_env \<Rightarrow> model_call \<Rightarrow> step_state \<Rightarrow> ('w, 'w tool_exec option \<times> step_state) step" where
  "authorized_tool E call st s =
     (case registry_get (mc_name call) (re_registry E (rn_world s)) of
        None \<Rightarrow> fails E (''unknown tool `'' @ mc_name call @ ''`'') st s
      | Some tool \<Rightarrow>
          let d = tl_definition tool in
          (case check_access E call d st s of
             (s1, st1, False) \<Rightarrow> (s1, Going (None, st1))
           | (s1, st1, True) \<Rightarrow>
               (case prepare_tool tool (mc_arguments call) of
                  (ex, prepared) \<Rightarrow>
                    (case permission_check (re_permissions E) d call prepared (rn_world s1) of
                       (decision, w) \<Rightarrow>
                         let s2 = emit E (EvPermissionChecked (td_name d) decision) (s1\<lparr>rn_world := w\<rparr>) in
                         (case decision of
                            Allow \<Rightarrow> (s2, Going (Some ex, st1))
                          | Ask reason \<Rightarrow>
                              fails E (''permission required for tool `'' @ td_name d @ ''`: '' @ reason) st1 s2
                          | Deny reason \<Rightarrow>
                              (case publish_denied E call
                                   (''permission denied for tool `'' @ td_name d @ ''`: '' @ reason) reason st1 s2 of
                                 (s3, st3) \<Rightarrow> (s3, Going (None, st3)))
                          | Unavailable reason \<Rightarrow>
                              (case publish_denied E call
                                   (''permission denied for tool `'' @ td_name d @ ''`: '' @ reason) reason st1 s2 of
                                 (s3, st3) \<Rightarrow> (s3, Going (None, st3))))))))"

definition invoke_tool ::
  "'w run_env \<Rightarrow> 'w tool_exec \<Rightarrow> model_call \<Rightarrow> 'w run_sys \<Rightarrow> 'w run_sys \<times> (tool_error + json)" where
  "invoke_tool E ex call s =
     (let direct = (\<lambda>call. ex_invoke ex (mc_arguments call)) in
      case (case re_pipeline E of
          Some p \<Rightarrow> pipeline_execute p direct call (rn_world s)
        | None \<Rightarrow> direct call (rn_world s)) of
        (r, w) \<Rightarrow> (s\<lparr>rn_world := w\<rparr>, r))"

definition boundary_result :: "model_call \<Rightarrow> tool_result" where
  "boundary_result call = \<lparr>rt_call_id = mc_id call, rt_tool_name = mc_name call,
     rt_output = JObj [(''code'', JStr ''WORKFLOW_BOUNDARY''),
       (''error'', JStr ''Not executed: a confirmed workflow transition ended this run before this call.'')],
     rt_is_error = True, rt_blocks = [], rt_image_parts = []\<rparr>"

fun skip_calls :: "'w run_env \<Rightarrow> model_call list \<Rightarrow> step_state \<Rightarrow> 'w run_sys \<Rightarrow> 'w run_sys \<times> step_state" where
  "skip_calls E [] st s = (s, st)"
| "skip_calls E (c # cs) st s =
     (case publish_result E (boundary_result c) (push_item (IToolCall c) st) s of
        (s1, st1) \<Rightarrow> skip_calls E cs st1 s1)"

definition finish_tool_boundary ::
  "'w run_env \<Rightarrow> string \<Rightarrow> model_call list \<Rightarrow> bool \<Rightarrow> step_state \<Rightarrow> ('w, step_state) step" where
  "finish_tool_boundary E text remaining approved st s =
     (case skip_calls E remaining st s of
        (s1, st1) \<Rightarrow>
          completes E (if approved \<and> trim text = []
              then ''Plan approved. Implementation is enabled for the next run.'' else text) st1 (seal s1))"

definition tool_outcome :: "'w tool_exec \<Rightarrow> model_call \<Rightarrow> tool_error + json \<Rightarrow> tool_result" where
  "tool_outcome ex call invocation =
     (let (out, is_error) = (case invocation of Inr v \<Rightarrow> (v, False) | Inl e \<Rightarrow> (ex_error_output ex e, True)) in
      \<lparr>rt_call_id = mc_id call, rt_tool_name = mc_name call, rt_output = out, rt_is_error = is_error,
       rt_blocks = (if is_error then [] else ex_result_blocks ex out), rt_image_parts = []\<rparr>)"

definition plan_approved :: "model_call \<Rightarrow> tool_result \<Rightarrow> bool" where
  "plan_approved call r \<longleftrightarrow> mc_name call = ''exit_plan_mode'' \<and> \<not> rt_is_error r
     \<and> json_get (rt_output r) ''approved'' = Some (JBool True)"

definition is_fatal :: "tool_error + json \<Rightarrow> bool" where
  "is_fatal r = (case r of Inl e \<Rightarrow> te_fatal e | Inr _ \<Rightarrow> False)"

definition tool_step ::
  "'w run_env \<Rightarrow> model_call \<Rightarrow> model_call list \<Rightarrow> string \<Rightarrow> step_state \<Rightarrow> ('w, step_state) step" where
  "tool_step E call remaining text st s =
     and_then (authorized_tool E call (push_item (IToolCall call) st) (emit E (EvToolRequested call) s))
      (\<lambda>(tool, st) s.
       case tool of
         None \<Rightarrow> (s, Going st)
       | Some ex \<Rightarrow>
           (case invoke_tool E ex call (emit E (EvToolStarted (mc_id call) (mc_name call)) s) of
              (s1, invocation) \<Rightarrow>
                if is_fatal invocation then
                  fails E (case invocation of Inl e \<Rightarrow> te_message e | Inr _ \<Rightarrow> []) st s1
                else (case poll_cancel E s1 of
                    (s2, True) \<Rightarrow> cancels E text st s2
                  | (s2, False) \<Rightarrow>
                      let result = tool_outcome ex call invocation;
                          approved = plan_approved call result;
                          boundary = (\<not> rt_is_error result \<and> ex_ends_run ex (rt_output result)) in
                      (case publish_result E result st s2 of
                         (s3, st3) \<Rightarrow>
                           if approved \<or> boundary then finish_tool_boundary E text remaining approved st3 s3
                           else (s3, Going st3)))))"

fun tool_calls :: "'w run_env \<Rightarrow> model_call list \<Rightarrow> string \<Rightarrow> step_state \<Rightarrow> ('w, step_state) step" where
  "tool_calls E [] text st s = (s, Going st)"
| "tool_calls E (call # calls) text st s =
     (case poll_cancel E s of
        (s1, True) \<Rightarrow> cancels E text st s1
      | (s1, False) \<Rightarrow> and_then (tool_step E call calls text st s1) (tool_calls E calls text))"

section \<open>The loop\<close>

definition run_turn :: "nat \<Rightarrow> 'w run_env \<Rightarrow> step_state \<Rightarrow> ('w, step_state) step" where
  "run_turn n E st0 s =
     (let st = st0\<lparr>st_turn := st_turn st0 + 1\<rparr> in
      case poll_cancel E s of
        (s1, True) \<Rightarrow> cancels E [] st s1
      | (s1, False) \<Rightarrow>
          and_then (claim_steering n E st s1) (\<lambda>st s.
            case prepare_request E st s of
              (s2, st2, Inl e) \<Rightarrow> fails E e st2 s2
            | (s2, st2, Inr request) \<Rightarrow>
                (case poll_cancel E s2 of
                   (s3, True) \<Rightarrow> cancels E [] st2 s3
                 | (s3, False) \<Rightarrow>
                     and_then (model_step n E request st2 s3) (\<lambda>(response, st) s.
                     and_then (finish_response E response st s) (\<lambda>_.
                     tool_calls E (rp_tool_calls response) (rp_text response) st)))))"

fun drive_loop :: "nat \<Rightarrow> 'w run_env \<Rightarrow> step_state \<Rightarrow> 'w run_sys \<Rightarrow> 'w run_sys \<times> (run_error + run_output) option" where
  "drive_loop 0 E st s = (s, None)"
| "drive_loop (Suc n) E st s =
     (case run_turn n E st s of
        (s1, Going st1) \<Rightarrow> drive_loop n E st1 s1
      | (s1, Ended r) \<Rightarrow> (s1, Some r)
      | (s1, Unfinished) \<Rightarrow> (s1, None))"

definition drive ::
  "nat \<Rightarrow> 'w run_env \<Rightarrow> model_item list \<Rightarrow> message_content \<Rightarrow> string option \<Rightarrow> 'w run_sys
   \<Rightarrow> 'w run_sys \<times> (run_error + run_output) option" where
  "drive n E items message client_id s =
     drive_loop n E \<lparr>st_items = items, st_usage = usage_default, st_turn = 0\<rparr>
       (emit E (EvRunStarted (re_root E) message client_id) s)"

text \<open>The guard seals the queue when the run has returned.\<close>

definition execute_with_items ::
  "nat \<Rightarrow> 'w run_env \<Rightarrow> model_item list \<Rightarrow> message_content \<Rightarrow> string option \<Rightarrow> 'w run_sys
   \<Rightarrow> 'w run_sys \<times> (run_error + run_output) option" where
  "execute_with_items n E items message client_id s =
     (case drive n E items message client_id (s\<lparr>rn_inputs := input_agent_started (rn_inputs s)\<rparr>) of
        (s1, None) \<Rightarrow> (s1, None)
      | (s1, Some r) \<Rightarrow> (seal s1, Some r))"

end
