(* ===== verification/RunSafety.thy ===== *)
theory RunSafety
  imports Run
begin

text \<open>
  What every step of a run does to the shared state, shown once for each function of the loop:
  the events it adds and how it ends (\<open>step_ok\<close>), the authority behind a tool that is
  started, and the pairing of tool calls with results in the transcript (\<open>answered\<close>).
\<close>

section \<open>The shared state\<close>

lemma act_keeps [simp]: "rn_events (act sha a s) = rn_events s" "rn_world (act sha a s) = rn_world s"
  by (cases a; simp add: try_push_def recall_last_def)+

lemma acts_keep [simp]:
  "rn_events (fold (act sha) acts s) = rn_events s" "rn_world (fold (act sha) acts s) = rn_world s"
  by (induction acts arbitrary: s) simp_all

lemma act_sealed: "rn_sealed s \<Longrightarrow> rn_sealed (act sha a s)"
  by (cases a) (simp_all add: try_push_def recall_last_def)

lemma acts_sealed: "rn_sealed s \<Longrightarrow> rn_sealed (fold (act sha) acts s)"
  by (induction acts arbitrary: s) (simp_all add: act_sealed)

lemma act_cancelled: "rn_cancelled s \<Longrightarrow> rn_cancelled (act sha a s)"
  by (cases a) (simp_all add: try_push_def recall_last_def)

lemma acts_cancelled: "rn_cancelled s \<Longrightarrow> rn_cancelled (fold (act sha) acts s)"
  by (induction acts arbitrary: s) (simp_all add: act_cancelled)

lemma yield_keeps [simp]: "rn_events (yield_to E s) = rn_events s"
  by (simp add: yield_to_def split: prod.splits)

lemma emit_events [simp]: "rn_events (emit E ev s) = rn_events s @ [ev]"
  by (simp add: emit_def split: prod.splits)

lemma emit_sealed: "rn_sealed s \<Longrightarrow> rn_sealed (emit E ev s)"
  by (simp add: emit_def acts_sealed split: prod.splits)

lemma seal_simps [simp]: "rn_events (seal s) = rn_events s" "rn_sealed (seal s)"
  by (simp_all add: seal_def)

lemma seal_if_empty_keeps:
  "seal_if_empty s = (s', b) \<Longrightarrow> rn_events s' = rn_events s \<and> (b \<longrightarrow> rn_sealed s')"
  by (auto simp: seal_if_empty_def split: if_splits)

section \<open>How a step ends\<close>

fun terminal_event :: "run_event \<Rightarrow> bool" where
  "terminal_event (EvRunCompleted t n u) = True"
| "terminal_event (EvRunCancelled n u) = True"
| "terminal_event (EvRunFailed m) = True"
| "terminal_event _ = False"

definition closing_event :: "run_error + run_output \<Rightarrow> run_event" where
  "closing_event r =
     (case r of
        Inl e \<Rightarrow> EvRunFailed (rr_message e)
      | Inr out \<Rightarrow> if ro_cancelled out then EvRunCancelled (ro_turns out) (ro_usage out)
          else EvRunCompleted (ro_text out) (ro_turns out) (ro_usage out))"

text \<open>
  A tool is started right after its request was checked and allowed: nothing comes between.
\<close>

definition starts_guarded :: "run_event list \<Rightarrow> bool" where
  "starts_guarded es \<longleftrightarrow> (\<forall>pre post i name. es = pre @ EvToolStarted i name # post \<longrightarrow>
     (\<exists>pre' c d. pre = pre' @ [EvToolRequested c, EvPermissionChecked d Allow]
        \<and> mc_id c = i \<and> mc_name c = name))"

fun plain_event :: "run_event \<Rightarrow> bool" where
  "plain_event (EvToolStarted i n) = False"
| "plain_event ev = (\<not> terminal_event ev)"

lemma starts_guarded_append:
  assumes "starts_guarded xs" and "starts_guarded ys"
  shows "starts_guarded (xs @ ys)"
  unfolding starts_guarded_def
proof (intro allI impI)
  fix pre post i name
  assume "xs @ ys = pre @ EvToolStarted i name # post"
  then consider us where "xs = pre @ us" "us @ ys = EvToolStarted i name # post"
    | us where "pre = xs @ us" "ys = us @ EvToolStarted i name # post"
    by (auto simp: append_eq_append_conv2)
  then show "\<exists>pre' c d. pre = pre' @ [EvToolRequested c, EvPermissionChecked d Allow] \<and> mc_id c = i \<and> mc_name c = name"
  proof cases
    case 1
    show ?thesis
    proof (cases us)
      case Nil
      with 1 have "ys = [] @ EvToolStarted i name # post" by simp
      with assms(2) show ?thesis unfolding starts_guarded_def by blast
    next
      case (Cons u us')
      with 1 have "xs = pre @ EvToolStarted i name # us'" by simp
      with assms(1) show ?thesis unfolding starts_guarded_def by blast
    qed
  next
    case 2
    with assms(2) obtain pre' c d where "us = pre' @ [EvToolRequested c, EvPermissionChecked d Allow]"
      "mc_id c = i" "mc_name c = name" unfolding starts_guarded_def by blast
    with 2(1) show ?thesis by simp
  qed
qed

lemma starts_guarded_plain: "plain_event ev \<Longrightarrow> starts_guarded [ev]"
  by (auto simp: starts_guarded_def append_eq_Cons_conv Cons_eq_append_conv)

lemma starts_guarded_Nil [simp]: "starts_guarded []"
  by (simp add: starts_guarded_def)

lemma starts_guarded_started:
  "mc_id c = i \<Longrightarrow> mc_name c = n \<Longrightarrow>
     starts_guarded [EvToolRequested c, EvPermissionChecked d Allow, EvToolStarted i n]"
  by (auto simp: starts_guarded_def Cons_eq_append_conv)

definition goes_on :: "'w run_sys \<Rightarrow> 'w run_sys \<Rightarrow> bool" where
  "goes_on s s' \<longleftrightarrow> (\<exists>es. rn_events s' = rn_events s @ es \<and> list_all (\<lambda>ev. \<not> terminal_event ev) es
     \<and> starts_guarded es)"

definition ended :: "'w run_env \<Rightarrow> 'w run_sys \<Rightarrow> 'w run_sys \<Rightarrow> run_error + run_output \<Rightarrow> bool" where
  "ended E s s' r \<longleftrightarrow> (\<exists>s0. goes_on s s0 \<and> rn_sealed s0 \<and> s' = emit E (closing_event r) s0)"

definition step_ok :: "'w run_env \<Rightarrow> 'w run_sys \<Rightarrow> 'w run_sys \<times> 'a step_result \<Rightarrow> bool" where
  "step_ok E s res \<longleftrightarrow>
     (case snd res of
        Going x \<Rightarrow> goes_on s (fst res)
      | Ended r \<Rightarrow> ended E s (fst res) r
      | Unfinished \<Rightarrow> goes_on s (fst res))"

lemma goes_on_refl [simp]: "goes_on s s"
  by (simp add: goes_on_def)

lemma goes_on_trans [trans]: "goes_on s s' \<Longrightarrow> goes_on s' s'' \<Longrightarrow> goes_on s s''"
proof -
  assume "goes_on s s'" and "goes_on s' s''"
  then obtain es fs where "rn_events s' = rn_events s @ es" "list_all (\<lambda>ev. \<not> terminal_event ev) es"
    "starts_guarded es" "rn_events s'' = rn_events s @ es @ fs" "list_all (\<lambda>ev. \<not> terminal_event ev) fs"
    "starts_guarded fs" by (auto simp: goes_on_def)
  then show "goes_on s s''"
    unfolding goes_on_def by (intro exI[of _ "es @ fs"]) (simp add: starts_guarded_append)
qed

lemma goes_on_same: "rn_events s' = rn_events s \<Longrightarrow> goes_on s s'"
  by (simp add: goes_on_def)

lemma plain_not_terminal: "plain_event ev \<Longrightarrow> \<not> terminal_event ev"
  by (cases ev) simp_all

lemma goes_on_plain:
  assumes "plain_event ev" and "rn_events s' = rn_events s @ [ev]"
  shows "goes_on s s'"
  unfolding goes_on_def
  by (rule exI[of _ "[ev]"]) (use assms in \<open>simp add: plain_not_terminal starts_guarded_plain\<close>)

lemma goes_on_emit: "plain_event ev \<Longrightarrow> goes_on s s' \<Longrightarrow> goes_on s (emit E ev s')"
  by (erule goes_on_trans) (rule goes_on_plain, simp_all)

lemma goes_on_events: "goes_on s s' \<Longrightarrow> rn_events s'' = rn_events s' \<Longrightarrow> goes_on s s''"
  by (simp add: goes_on_def)

lemma step_ok_simps [simp]:
  "step_ok E s (s', Going x) \<longleftrightarrow> goes_on s s'" "step_ok E s (s', Unfinished) \<longleftrightarrow> goes_on s s'"
  "step_ok E s (s', Ended r) \<longleftrightarrow> ended E s s' r"
  by (simp_all add: step_ok_def)

lemma step_ok_after: "goes_on s s' \<Longrightarrow> step_ok E s' res \<Longrightarrow> step_ok E s res"
  using goes_on_trans unfolding step_ok_def ended_def by (fastforce split: step_result.splits)

lemma and_then_ok:
  assumes "step_ok E s m" and "\<And>x s'. m = (s', Going x) \<Longrightarrow> goes_on s s' \<Longrightarrow> step_ok E s' (f x s')"
  shows "step_ok E s (and_then m f)"
proof -
  obtain s' p where m: "m = (s', p)" by (cases m)
  show ?thesis
  proof (cases p)
    case (Going x)
    with assms(1) m have g: "goes_on s s'" by simp
    have "step_ok E s (f x s')" using step_ok_after[OF g assms(2)] m Going g by simp
    with m Going show ?thesis by (simp add: and_then_def)
  qed (use assms(1) m in \<open>simp_all add: and_then_def\<close>)
qed

lemma fails_ok [simp]: "goes_on s s' \<Longrightarrow> step_ok E s (fails E msg st s')"
  by (auto simp: fails_def run_fail_def ended_def closing_event_def intro!: exI[of _ "seal s'"]
      intro: goes_on_events)

lemma cancels_ok [simp]: "goes_on s s' \<Longrightarrow> step_ok E s (cancels E text st s')"
  by (auto simp: cancels_def run_cancel_def ended_def closing_event_def intro!: exI[of _ "seal s'"]
      intro: goes_on_events)

lemma completes_ok: "goes_on s s' \<Longrightarrow> rn_sealed s' \<Longrightarrow> step_ok E s (completes E text st s')"
  by (auto simp: completes_def run_complete_def ended_def closing_event_def)

section \<open>Requests\<close>

lemma poll_events: "poll_cancel E s = (s', b) \<Longrightarrow> rn_events s' = rn_events s"
  by (auto simp: poll_cancel_def Let_def)

lemma apply_pending_ok: "step_ok E s (apply_pending E m st s)"
  by (auto simp: apply_pending_def goes_on_emit split: sum.splits)

lemma claim_queue_ok: "step_ok E s (claim_queue n E st s)"
proof (induction n arbitrary: st s)
  case (Suc n)
  obtain s1 m where p: "steering_pop (yield_to E s) = (s1, m)" by (cases "steering_pop (yield_to E s)")
  then have g: "goes_on s s1"
    by (auto simp: steering_pop_def intro!: goes_on_same split: list.splits)
  show ?case
  proof (cases m)
    case (Some x)
    have "step_ok E s1 (and_then (apply_pending E x st s1) (claim_queue n E))"
      by (rule and_then_ok) (simp_all add: apply_pending_ok Suc)
    from p Some step_ok_after[OF g this] show ?thesis by simp
  qed (use p g in simp)
qed simp

lemma claim_steering_ok: "step_ok E s (claim_steering n E st s)"
  unfolding claim_steering_def
proof (rule and_then_ok[OF claim_queue_ok])
  fix st' and s' :: "'a run_sys"
  let ?s = "yield_to E s'"
  show "step_ok E s' (if 1 < st_turn st' then let s1 = yield_to E s' in
      (case input_claim False (rn_inputs s1) of
         (inputs, None) \<Rightarrow> (s1\<lparr>rn_inputs := inputs\<rparr>, Going st')
       | (inputs, Some m) \<Rightarrow> apply_pending E m st' (s1\<lparr>rn_inputs := inputs\<rparr>)) else (s', Going st'))"
    by (auto simp: Let_def goes_on_same intro!: step_ok_after[OF _ apply_pending_ok] split: prod.splits option.splits)
qed

lemma reserve_events: "reserve_request E r s = (s', x) \<Longrightarrow> rn_events s' = rn_events s"
  by (auto simp: reserve_request_def split: option.splits if_splits)

lemma read_dynamic_events: "read_dynamic E s = (s', x) \<Longrightarrow> rn_events s' = rn_events s"
  by (auto simp: read_dynamic_def split: option.splits prod.splits sum.splits)

lemma maintain_events: "maintain_context E i ds st s = (s', x) \<Longrightarrow> rn_events s' = rn_events s"
  by (auto simp: maintain_context_def split: option.splits prod.splits)

lemma finish_request_events: "finish_request E r s = (s', x) \<Longrightarrow> rn_events s' = rn_events s"
  by (auto simp: finish_request_def dest: reserve_events split: sum.splits prod.splits)

lemma prepare_events: "prepare_request E st s = (s', x) \<Longrightarrow> rn_events s' = rn_events s"
  unfolding prepare_request_def Let_def
  by (auto dest!: read_dynamic_events maintain_events poll_events finish_request_events
      split: sum.splits prod.splits bool.splits)

section \<open>The model\<close>

lemma forward_ok: "forward_events E turn evs f s = (s', f') \<Longrightarrow> goes_on s s'"
proof (induction evs arbitrary: f s)
  case (Cons ev evs)
  then have "goes_on (emit E (EvModelStream turn ev) s) s'" by simp
  moreover have "goes_on s (emit E (EvModelStream turn ev) s)" by (simp add: goes_on_emit)
  ultimately show ?case by (rule goes_on_trans[rotated])
qed simp

lemma attempt_ok:
  assumes "capacity_attempt E r turn s = (s', x)"
  shows "goes_on s s'"
proof -
  let ?s = "emit E (EvModelRequested turn (re_provider E) (re_model_id E)) s"
  obtain evs result w where str: "re_stream E r (rn_world ?s) = (evs, result, w)"
    by (cases "re_stream E r (rn_world ?s)")
  obtain s2 f where fwd: "forward_events E turn evs forwarder_new (?s\<lparr>rn_world := w\<rparr>) = (s2, f)"
    by (cases "forward_events E turn evs forwarder_new (?s\<lparr>rn_world := w\<rparr>)")
  have "goes_on s (?s\<lparr>rn_world := w\<rparr>)"
    by (rule goes_on_plain[of "EvModelRequested turn (re_provider E) (re_model_id E)"]) simp_all
  from this forward_ok[OF fwd] have g: "goes_on s s2" by (rule goes_on_trans)
  have "goes_on s2 s'"
    using assms str fwd
    by (auto simp: capacity_attempt_def Let_def goes_on_emit split: option.splits if_splits prod.splits)
  with g show ?thesis by (rule goes_on_trans)
qed

lemma recover_events:
  assumes "recover_request E err r st s = (s', x)"
  shows "rn_events s' = rn_events s"
  using assms unfolding recover_request_def Let_def
  by (auto dest!: poll_events prepare_events split: option.splits sum.splits prod.splits if_splits)

lemma stream_ok: "step_ok E s (stream_with_recovery n E retried r st s)"
proof (induction n arbitrary: retried r st s)
  case (Suc n)
  obtain s1 result f where a: "capacity_attempt E r (st_turn st) s = (s1, result, f)"
    by (cases "capacity_attempt E r (st_turn st) s")
  from attempt_ok[OF a] have g: "goes_on s s1" .
  show ?case
  proof (cases result)
    case (Inr response)
    with a g show ?thesis
      by (auto simp: Let_def observe_usage_def intro: goes_on_events split: option.splits)
  next
    case (Inl err)
    let ?s2 = "yield_to E s1" and ?st1 = "add_usage (fw_last_usage f) st"
    let ?st2 = "if fw_partial f = [] then ?st1 else push_item (assistant_text (fw_partial f)) ?st1"
    obtain s3 st3 y where r: "recover_request E err r ?st2 ?s2 = (s3, st3, y)"
      by (cases "recover_request E err r ?st2 ?s2")
    have g3: "goes_on s s3" "goes_on s ?s2"
      using g recover_events[OF r] by (simp_all add: goes_on_def)
    have "step_ok E s (case y of
        Inl e \<Rightarrow> fails E (''model error: '' @ me_message err @ ''; context maintenance failed: '' @ e) st3 s3
      | Inr None \<Rightarrow> fails E (''model error: '' @ me_message err) st3 s3
      | Inr (Some nxt) \<Rightarrow> stream_with_recovery n E (retried \<or> me_kind err = ContextCapacity) nxt st3 s3)"
      using g3 step_ok_after[OF g3(1) Suc] by (auto split: sum.splits option.splits)
    moreover have "step_ok E s (fails E (''model error: '' @ me_message err) ?st2 ?s2)"
      using g3 by simp
    ultimately show ?thesis
      using a Inl r by (auto simp: Let_def split: sum.splits option.splits if_splits)
  qed
qed simp

lemma model_step_ok: "step_ok E s (model_step n E r st s)"
  unfolding model_step_def
  by (rule and_then_ok[OF stream_ok]) (auto simp: Let_def goes_on_emit split: prod.splits)

lemma finish_response_ok: "step_ok E s (finish_response E response st s)"
proof -
  obtain s1 b where p: "seal_if_empty (yield_to E s) = (s1, b)" by (cases "seal_if_empty (yield_to E s)")
  from seal_if_empty_keeps[OF p] have "goes_on s s1" "b \<Longrightarrow> rn_sealed s1" by (simp_all add: goes_on_def)
  with p show ?thesis
    by (cases b) (auto simp: finish_response_def completes_ok)
qed

section \<open>Tool calls\<close>

lemma transform_events: "transform_in E r s = (r', s') \<Longrightarrow> rn_events s' = rn_events s"
  by (auto simp: transform_in_def split: option.splits prod.splits)

lemma publish_ok: "publish_result E r st s = (s', st') \<Longrightarrow> goes_on s s'"
  by (auto simp: publish_result_def goes_on_emit goes_on_same dest!: transform_events split: prod.splits)

lemma denied_ok: "publish_denied E call m reason st s = (s', st') \<Longrightarrow> goes_on s s'"
  by (auto simp: publish_denied_def goes_on_emit goes_on_same dest!: transform_events split: prod.splits)

lemma check_access_ok:
  assumes "check_access E call d st s = (s', st', b)"
  shows "goes_on s s'"
proof -
  have "goes_on s (emit E (EvPermissionChecked n x) s)" for n x by (simp add: goes_on_emit)
  with assms show ?thesis
    by (auto simp: check_access_def intro: goes_on_trans dest!: denied_ok split: option.splits prod.splits)
qed

lemma authorized_ok: "step_ok E s (authorized_tool E call st s)"
proof (cases "registry_get (mc_name call) (re_registry E (rn_world s))")
  case None
  then show ?thesis by (simp add: authorized_tool_def)
next
  case (Some tool)
  let ?d = "tl_definition tool"
  obtain s1 st1 b where c: "check_access E call ?d st s = (s1, st1, b)" by (cases "check_access E call ?d st s")
  obtain ex prepared where pr: "prepare_tool tool (mc_arguments call) = (ex, prepared)"
    by (cases "prepare_tool tool (mc_arguments call)")
  obtain decision w where dec: "permission_check (re_permissions E) ?d call prepared (rn_world s1) = (decision, w)"
    by (cases "permission_check (re_permissions E) ?d call prepared (rn_world s1)")
  let ?s2 = "emit E (EvPermissionChecked (td_name ?d) decision) (s1\<lparr>rn_world := w\<rparr>)"
  from check_access_ok[OF c] have g1: "goes_on s s1" .
  also have "goes_on s1 ?s2" by (simp add: goes_on_emit goes_on_same)
  finally have g2: "goes_on s ?s2" .
  have denied: "goes_on s s3" if "publish_denied E call m reason st1 ?s2 = (s3, st3)" for m reason s3 st3
    using goes_on_trans[OF g2 denied_ok[OF that]] .
  show ?thesis
    using Some c pr dec g1 g2
    by (cases b; cases decision) (auto simp: authorized_tool_def Let_def denied split: prod.splits)
qed

text \<open>The authority behind a tool that may run.\<close>

lemma check_access_True:
  assumes "check_access E call d st s = (s1, st1, True)"
  shows "s1 = s" "st1 = st" "access_allows (re_access E) d" "validate_call (re_access E) d (mc_arguments call) = Inr ()"
  using assms
  by (auto simp: check_access_def access_denial_def split: option.splits prod.splits if_splits sum.splits)

lemma authorized_cases:
  assumes "authorized_tool E call st s = (s', Going (Some ex, st'))"
  obtains tool prepared w where
    "registry_get (mc_name call) (re_registry E (rn_world s)) = Some tool"
    "prepare_tool tool (mc_arguments call) = (ex, prepared)"
    "access_allows (re_access E) (tl_definition tool)"
    "validate_call (re_access E) (tl_definition tool) (mc_arguments call) = Inr ()"
    "permission_check (re_permissions E) (tl_definition tool) call prepared (rn_world s) = (Allow, w)"
    "s' = emit E (EvPermissionChecked (td_name (tl_definition tool)) Allow) (s\<lparr>rn_world := w\<rparr>)"
    "st' = st"
proof -
  obtain tool where t: "registry_get (mc_name call) (re_registry E (rn_world s)) = Some tool"
    using assms by (auto simp: authorized_tool_def fails_def split: option.splits prod.splits)
  obtain s1 st1 b where c: "check_access E call (tl_definition tool) st s = (s1, st1, b)"
    by (cases "check_access E call (tl_definition tool) st s")
  have b: "b" using assms t c by (cases b) (auto simp: authorized_tool_def Let_def)
  note same = check_access_True[OF c[unfolded eqTrueI[OF b]]]
  obtain ex' prepared where pr: "prepare_tool tool (mc_arguments call) = (ex', prepared)"
    by (cases "prepare_tool tool (mc_arguments call)")
  obtain decision w where dec:
    "permission_check (re_permissions E) (tl_definition tool) call prepared (rn_world s) = (decision, w)"
    by (cases "permission_check (re_permissions E) (tl_definition tool) call prepared (rn_world s)")
  have "decision = Allow \<and> ex' = ex \<and> st' = st
      \<and> s' = emit E (EvPermissionChecked (td_name (tl_definition tool)) Allow) (s\<lparr>rn_world := w\<rparr>)"
    using assms t c b same(1,2) pr dec
    by (cases decision) (auto simp: authorized_tool_def Let_def fails_def split: prod.splits)
  with t pr same dec that show thesis by metis
qed

lemma invoke_events: "invoke_tool E ex call s = (s', r) \<Longrightarrow> rn_events s' = rn_events s"
  by (auto simp: invoke_tool_def Let_def split: prod.splits)

lemma skip_ok: "skip_calls E cs st s = (s', st') \<Longrightarrow> goes_on s s'"
proof (induction cs arbitrary: st s)
  case (Cons c cs)
  obtain s1 st1 where p: "publish_result E (boundary_result c) (push_item (IToolCall c) st) s = (s1, st1)"
    by (cases "publish_result E (boundary_result c) (push_item (IToolCall c) st) s")
  with Cons have "goes_on s1 s'" by simp
  with publish_ok[OF p] show ?case by (rule goes_on_trans)
qed simp

lemma boundary_ok: "step_ok E s (finish_tool_boundary E text remaining approved st s)"
proof -
  obtain s1 st1 where p: "skip_calls E remaining st s = (s1, st1)" by (cases "skip_calls E remaining st s")
  have "goes_on s (seal s1)" using skip_ok[OF p] by (rule goes_on_events) simp
  with p show ?thesis by (simp add: finish_tool_boundary_def completes_ok)
qed

lemma goes_on_started:
  assumes "rn_events s' = rn_events s
      @ [EvToolRequested c, EvPermissionChecked d Allow, EvToolStarted (mc_id c) (mc_name c)]"
  shows "goes_on s s'"
  using assms starts_guarded_started[of c] unfolding goes_on_def by fastforce

text \<open>What follows the start of a tool.\<close>

lemma after_start_ok:
  assumes "goes_on s s1" and inv: "invoke_tool E ex call s1 = (s2, r)"
  shows "step_ok E s
    (if is_fatal r then fails E (case r of Inl e \<Rightarrow> te_message e | Inr _ \<Rightarrow> []) st s2
     else (case poll_cancel E s2 of
         (s3, True) \<Rightarrow> cancels E text st s3
       | (s3, False) \<Rightarrow>
           let result = tool_outcome ex call r;
               approved = plan_approved call result;
               boundary = (\<not> rt_is_error result \<and> ex_ends_run ex (rt_output result)) in
           (case publish_result E result st s3 of
              (s4, st4) \<Rightarrow>
                if approved \<or> boundary then finish_tool_boundary E text remaining approved st4 s4
                else (s4, Going st4))))"
proof -
  obtain s3 b where poll: "poll_cancel E s2 = (s3, b)" by (cases "poll_cancel E s2")
  obtain s4 st4 where pub: "publish_result E (tool_outcome ex call r) st s3 = (s4, st4)"
    by (cases "publish_result E (tool_outcome ex call r) st s3")
  have g2: "goes_on s s2" using assms(1) invoke_events[OF inv] by (rule goes_on_events)
  have g3: "goes_on s s3" using g2 poll_events[OF poll] by (rule goes_on_events)
  have g4: "goes_on s s4" using g3 publish_ok[OF pub] by (rule goes_on_trans)
  show ?thesis
    using poll pub g2 g3 g4 step_ok_after[OF g4 boundary_ok] by (cases b) (auto simp: Let_def)
qed

lemma tool_step_ok: "step_ok E s (tool_step E call remaining text st s)"
proof -
  let ?s0 = "emit E (EvToolRequested call) s"
  have g0: "goes_on s ?s0" by (simp add: goes_on_emit)
  obtain s' p where a: "authorized_tool E call (push_item (IToolCall call) st) ?s0 = (s', p)"
    by (cases "authorized_tool E call (push_item (IToolCall call) st) ?s0")
  have ok: "step_ok E s (s', p)"
    using step_ok_after[OF g0 authorized_ok[of E ?s0 call "push_item (IToolCall call) st"]] a by simp
  show ?thesis
  proof (cases p)
    case (Going x)
    obtain tool st1 where x: "x = (tool, st1)" by (cases x)
    show ?thesis
    proof (cases tool)
      case (Some ex)
      let ?s1 = "emit E (EvToolStarted (mc_id call) (mc_name call)) s'"
      obtain s2 r where inv: "invoke_tool E ex call ?s1 = (s2, r)" by (cases "invoke_tool E ex call ?s1")
      from a Going x Some obtain n where "rn_events s' = rn_events ?s0 @ [EvPermissionChecked n Allow]"
        by (auto elim!: authorized_cases)
      then have "goes_on s ?s1" by (intro goes_on_started) simp
      from after_start_ok[OF this inv] show ?thesis
        unfolding tool_step_def and_then_def by (simp add: a Going x Some inv)
    qed (use ok a Going x in \<open>simp add: tool_step_def and_then_def\<close>)
  qed (use ok a in \<open>simp_all add: tool_step_def and_then_def\<close>)
qed

lemma tool_calls_ok: "step_ok E s (tool_calls E calls text st s)"
proof (induction calls arbitrary: st s)
  case (Cons call calls)
  obtain s1 b where p: "poll_cancel E s = (s1, b)" by (cases "poll_cancel E s")
  have g: "goes_on s s1" using poll_events[OF p] by (rule goes_on_same)
  have "step_ok E s1 (and_then (tool_step E call calls text st s1) (tool_calls E calls text))"
    by (rule and_then_ok[OF tool_step_ok]) (rule Cons.IH)
  from p g step_ok_after[OF g this] show ?case by (cases b) auto
qed simp

section \<open>The loop\<close>

lemma run_turn_ok: "step_ok E s (run_turn n E st0 s)"
proof -
  let ?st = "st0\<lparr>st_turn := st_turn st0 + 1\<rparr>"
  obtain s1 b where p: "poll_cancel E s = (s1, b)" by (cases "poll_cancel E s")
  have g: "goes_on s s1" using poll_events[OF p] by (rule goes_on_same)
  have "step_ok E s1 (and_then (claim_steering n E ?st s1) (\<lambda>st s.
      case prepare_request E st s of
        (s2, st2, Inl e) \<Rightarrow> fails E e st2 s2
      | (s2, st2, Inr request) \<Rightarrow>
          (case poll_cancel E s2 of
             (s3, True) \<Rightarrow> cancels E [] st2 s3
           | (s3, False) \<Rightarrow>
               and_then (model_step n E request st2 s3) (\<lambda>(response, st) s.
               and_then (finish_response E response st s) (\<lambda>_.
               tool_calls E (rp_tool_calls response) (rp_text response) st)))))"
  proof (rule and_then_ok[OF claim_steering_ok], goal_cases)
    case (1 st s')
    obtain s2 st2 y where pr: "prepare_request E st s' = (s2, st2, y)" by (cases "prepare_request E st s'")
    obtain s3 b3 where p3: "poll_cancel E s2 = (s3, b3)" by (cases "poll_cancel E s2")
    have g2: "goes_on s' s2" using prepare_events[OF pr] by (rule goes_on_same)
    have g3: "goes_on s' s3" using g2 poll_events[OF p3] by (rule goes_on_events)
    have m: "step_ok E s' (and_then (model_step n E request st2 s3) (\<lambda>(response, st) s.
        and_then (finish_response E response st s) (\<lambda>_.
        tool_calls E (rp_tool_calls response) (rp_text response) st)))" for request
      by (rule step_ok_after[OF g3], rule and_then_ok[OF model_step_ok])
        (auto intro!: and_then_ok[OF finish_response_ok] tool_calls_ok split: prod.splits)
    show ?case using pr p3 g2 g3 m by (auto split: sum.splits bool.splits)
  qed
  from p g step_ok_after[OF g this] show ?thesis by (cases b) (auto simp: run_turn_def Let_def)
qed

text \<open>Every prefix of a run: it is still going, or it ended with its one closing event.\<close>

lemma drive_loop_ok:
  "drive_loop n E st s = (s', res) \<Longrightarrow>
     (case res of None \<Rightarrow> goes_on s s' | Some r \<Rightarrow> ended E s s' r)"
proof (induction n arbitrary: st s)
  case (Suc n)
  obtain s1 p where t: "run_turn n E st s = (s1, p)" by (cases "run_turn n E st s")
  have ok: "step_ok E s (s1, p)" using run_turn_ok[of E s n st] t by simp
  show ?case
  proof (cases p)
    case (Going st1)
    with Suc.prems t have "drive_loop n E st1 s1 = (s', res)" by simp
    from Suc.IH[OF this] ok Going goes_on_trans[of s s1] show ?thesis
      by (auto simp: ended_def split: option.splits)
  qed (use Suc.prems t ok in auto)
qed simp

end
