(* ===== verification/RunTranscript.thy ===== *)
theory RunTranscript
  imports RunSafety
begin

text \<open>
  The transcript of a run: every tool call in it is answered by the result that follows it, in
  every request the model is asked and in every output of a completed run; and the termination
  of the recovery of a failed request.
\<close>

section \<open>Answered calls\<close>

fun answered :: "model_item list \<Rightarrow> bool" where
  "answered [] = True"
| "answered (IToolCall c # IToolResult r # is) = (rt_call_id r = mc_id c \<and> answered is)"
| "answered (IToolCall c # is) = False"
| "answered (IToolResult r # is) = False"
| "answered (i # is) = answered is"

text \<open>What the plugins keep: the call of a result, and the pairing of the items.\<close>

definition transcript_kept :: "'w run_env \<Rightarrow> bool" where
  "transcript_kept E \<longleftrightarrow>
     (\<forall>p r w. re_pipeline E = Some p \<longrightarrow> rt_call_id (fst (pipeline_transform p r w)) = rt_call_id r)
     \<and> (\<forall>m items usage ins ds w. re_manager E = Some m \<longrightarrow> answered items \<longrightarrow>
          answered (fst (snd (cm_maintain m items usage ins ds w))))
     \<and> (\<forall>m kind items usage r w. re_manager E = Some m \<longrightarrow> answered items \<longrightarrow>
          answered (fst (snd (cm_recover m kind items usage r w))))"

lemma answered_append: "answered xs \<Longrightarrow> answered ys \<Longrightarrow> answered (xs @ ys)"
  by (induction xs rule: answered.induct) simp_all

lemma answered_pair: "rt_call_id r = mc_id c \<Longrightarrow> answered xs \<Longrightarrow> answered (xs @ [IToolCall c, IToolResult r])"
  by (simp add: answered_append)

lemma answered_states: "answered (map (\<lambda>(p, d). IProviderState p d) xs)"
  by (induction xs) auto

lemma answered_assistant [simp]: "answered [assistant_text t]" "answered [assistant_with_reasoning t r]"
  by (simp_all add: assistant_text_def assistant_with_reasoning_def)

definition complete_answered :: "run_error + run_output \<Rightarrow> bool" where
  "complete_answered r \<longleftrightarrow>
     (case r of Inl e \<Rightarrow> True | Inr out \<Rightarrow> ro_cancelled out \<or> answered (ro_items out))"

definition outcome :: "('a \<Rightarrow> bool) \<Rightarrow> 'w run_sys \<times> 'a step_result \<Rightarrow> bool" where
  "outcome P m = (case snd m of Going x \<Rightarrow> P x | Ended r \<Rightarrow> complete_answered r | Unfinished \<Rightarrow> True)"

lemma outcome_simps [simp]:
  "outcome P (s, Going x) = P x" "outcome P (s, Unfinished)"
  "outcome P (s, Ended r) = complete_answered r"
  by (simp_all add: outcome_def)

lemma and_then_simps:
  "and_then (s, Going x) f = f x s" "and_then (s, Ended r) f = (s, Ended r)"
  "and_then (s, Unfinished) f = (s, Unfinished)"
  by (simp_all add: and_then_def)

lemma outcome_and_then:
  assumes "outcome P m" and "\<And>x s. m = (s, Going x) \<Longrightarrow> P x \<Longrightarrow> outcome Q (f x s)"
  shows "outcome Q (and_then m f)"
proof -
  obtain s p where "m = (s, p)" by (cases m)
  with assms show ?thesis by (cases p) (auto simp: and_then_def)
qed

lemma outcome_fails [simp]: "outcome P (fails E msg st s)"
  by (simp add: fails_def run_fail_def complete_answered_def)

lemma outcome_cancels [simp]: "outcome P (cancels E text st s)"
  by (simp add: cancels_def run_cancel_def complete_answered_def)

lemma outcome_completes [simp]: "answered (st_items st) \<Longrightarrow> outcome P (completes E text st s)"
  by (simp add: completes_def run_complete_def complete_answered_def)

lemma push_items [simp]: "st_items (push_item i st) = st_items st @ [i]"
  by (simp add: push_item_def)

lemma add_usage_items [simp]: "st_items (add_usage u st) = st_items st" "st_turn (add_usage u st) = st_turn st"
  by (simp_all add: add_usage_def split: option.splits)

abbreviation kept :: "step_state \<Rightarrow> bool" where
  "kept st \<equiv> answered (st_items st)"

lemma apply_pending_kept: "kept st \<Longrightarrow> outcome kept (apply_pending E m st s)"
  by (auto simp: apply_pending_def answered_append split: sum.splits)

lemma claim_queue_kept: "kept st \<Longrightarrow> outcome kept (claim_queue n E st s)"
proof (induction n arbitrary: st s)
  case (Suc n)
  have "outcome kept (and_then (apply_pending E m st s1) (claim_queue n E))" for m s1
    by (rule outcome_and_then[OF apply_pending_kept[OF Suc.prems]]) (rule Suc.IH)
  with Suc.prems show ?case by (auto split: prod.splits option.splits)
qed simp

lemma claim_steering_kept: "kept st \<Longrightarrow> outcome kept (claim_steering n E st s)"
  unfolding claim_steering_def
  by (rule outcome_and_then[OF claim_queue_kept])
    (auto simp: Let_def apply_pending_kept split: prod.splits option.splits)

lemma maintain_kept:
  assumes "transcript_kept E" and "kept st" and "maintain_context E i ds st s = (s', st', r)"
  shows "kept st'"
proof (cases "re_manager E")
  case (Some m)
  with assms(1,2) have "answered (fst (snd (cm_maintain m (st_items st) (st_usage st) i ds (rn_world s))))"
    by (simp add: transcript_kept_def)
  with assms(3) Some show ?thesis by (auto simp: maintain_context_def split: prod.splits)
qed (use assms in \<open>simp add: maintain_context_def\<close>)

lemma finish_request_items: "finish_request E r s = (s', Inr r') \<Longrightarrow> ri_items r' = ri_items r"
  by (auto simp: finish_request_def rbind_def dest!: project_items_same split: sum.splits prod.splits)

text \<open>A prepared request carries the items of the state, or none when it was cancelled.\<close>

lemma prepare_cases:
  assumes "prepare_request E st s = (s', st', x)"
  obtains e where "st' = st" and "x = Inl e"
  | s1 i ds s2 r where "maintain_context E i ds st s1 = (s2, st', r)"
      and "\<forall>req. x = Inr req \<longrightarrow> ri_items req = st_items st' \<or> ri_items req = []"
proof -
  obtain s1 d where rd: "read_dynamic E s = (s1, d)" by (cases "read_dynamic E s")
  show thesis
  proof (cases d)
    case (Inl e)
    with assms rd that(1)[of e] show ?thesis by (auto simp: prepare_request_def)
  next
    case (Inr dyn)
    let ?body = "compose_instructions (case re_instructions E of None \<Rightarrow> [] | Some t \<Rightarrow> t) dyn"
    let ?i = "if ?body = [] then None else Some ?body"
    obtain s2 st2 r where m: "maintain_context E ?i (frozen_definitions E s1) st s1 = (s2, st2, r)"
      by (cases "maintain_context E ?i (frozen_definitions E s1) st s1")
    have "st' = st2 \<and> (\<forall>req. x = Inr req \<longrightarrow> ri_items req = st_items st2 \<or> ri_items req = [])"
      using assms unfolding prepare_request_def rd Inr Let_def prod.case sum.case m
      by (auto dest: finish_request_items split: sum.splits prod.splits bool.splits)
    with m that(2) show ?thesis by blast
  qed
qed

lemma prepare_kept:
  assumes "transcript_kept E" and "kept st" and p: "prepare_request E st s = (s', st', x)"
  shows "kept st'" and "\<And>req. x = Inr req \<Longrightarrow> answered (ri_items req)"
proof -
  have "kept st' \<and> (\<forall>req. x = Inr req \<longrightarrow> answered (ri_items req))"
    using p
  proof (cases rule: prepare_cases)
    case (2 s1 i ds s2 r)
    from maintain_kept[OF assms(1,2) this(1)] this(2) show ?thesis by fastforce
  qed (use assms(2) in simp)
  then show "kept st'" and "\<And>req. x = Inr req \<Longrightarrow> answered (ri_items req)" by auto
qed

lemma recover_kept:
  assumes "transcript_kept E" and "kept st" and r: "recover_request E err r st s = (s', st', x)"
  shows "kept st'" and "\<And>nxt. x = Inr (Some nxt) \<Longrightarrow> answered (ri_items nxt)"
proof -
  have "kept st' \<and> (\<forall>nxt. x = Inr (Some nxt) \<longrightarrow> answered (ri_items nxt))"
  proof (cases "re_manager E")
    case (Some m)
    obtain fa w where fa: "cm_failed_attempt m (me_kind err) (rn_world s) = (fa, w)"
      by (cases "cm_failed_attempt m (me_kind err) (rn_world s)")
    obtain res items usage w2 where
      rc: "cm_recover m (me_kind err) (st_items st) (st_usage st) r w = (res, items, usage, w2)"
      by (cases "cm_recover m (me_kind err) (st_items st) (st_usage st) r w")
    from assms(1,2) Some have "answered (fst (snd (cm_recover m (me_kind err) (st_items st) (st_usage st) r w)))"
      by (simp add: transcript_kept_def)
    with rc have k: "kept (st\<lparr>st_items := items, st_usage := usage\<rparr>)" by simp
    show ?thesis
      using r assms(2) Some fa rc k prepare_kept[OF assms(1) k]
      unfolding recover_request_def Let_def
      by (auto split: sum.splits prod.splits if_splits)
  qed (use assms in \<open>auto simp: recover_request_def\<close>)
  then show "kept st'" and "\<And>nxt. x = Inr (Some nxt) \<Longrightarrow> answered (ri_items nxt)" by auto
qed

abbreviation kept_with :: "'a \<times> step_state \<Rightarrow> bool" where
  "kept_with x \<equiv> kept (snd x)"

lemma stream_kept:
  assumes "transcript_kept E"
  shows "kept st \<Longrightarrow> outcome kept_with (stream_with_recovery n E retried r st s)"
proof (induction n arbitrary: retried r st s)
  case (Suc n)
  obtain s1 result f where a: "capacity_attempt E r (st_turn st) s = (s1, result, f)"
    by (cases "capacity_attempt E r (st_turn st) s")
  show ?case
  proof (cases result)
    case (Inl err)
    let ?st1 = "add_usage (fw_last_usage f) st"
    let ?st2 = "if fw_partial f = [] then ?st1 else push_item (assistant_text (fw_partial f)) ?st1"
    obtain s3 st3 y where rr: "recover_request E err r ?st2 (yield_to E s1) = (s3, st3, y)"
      by (cases "recover_request E err r ?st2 (yield_to E s1)")
    have "kept ?st2" using Suc.prems by (simp add: answered_append)
    from recover_kept(1)[OF assms this rr] have "kept st3" .
    from Suc.IH[OF this] show ?thesis
      using a Inl rr by (auto simp: Let_def split: sum.splits option.splits if_splits)
  qed (use Suc.prems a in \<open>simp add: Let_def\<close>)
qed simp

lemma model_step_kept:
  assumes "transcript_kept E" and "kept st"
  shows "outcome kept_with (model_step n E r st s)"
  unfolding model_step_def
  by (rule outcome_and_then[OF stream_kept[OF assms]])
    (auto simp: Let_def answered_append answered_states split: prod.splits)

lemma finish_response_kept: "kept st \<Longrightarrow> outcome (\<lambda>_. True) (finish_response E response st s)"
  by (auto simp: finish_response_def split: prod.splits bool.splits)

section \<open>Results\<close>

lemma transform_call_id:
  assumes "transcript_kept E" and "transform_in E r s = (r', s')"
  shows "rt_call_id r' = rt_call_id r"
proof (cases "re_pipeline E")
  case (Some p)
  with assms(1) have "rt_call_id (fst (pipeline_transform p r (rn_world s))) = rt_call_id r"
    by (simp add: transcript_kept_def)
  with assms(2) Some show ?thesis by (auto simp: transform_in_def split: prod.splits)
qed (use assms(2) in \<open>simp add: transform_in_def\<close>)

lemma publish_items:
  assumes "transcript_kept E" and "publish_result E r st s = (s', st')"
  obtains r' where "st_items st' = st_items st @ [IToolResult r']" and "rt_call_id r' = rt_call_id r"
proof -
  obtain r1 s1 where t: "transform_in E r s = (r1, s1)" by (cases "transform_in E r s")
  with assms(2) have "st_items st' = st_items st @ [IToolResult r1]" by (auto simp: publish_result_def)
  with transform_call_id[OF assms(1) t] that show thesis by blast
qed

lemma denied_items:
  assumes "transcript_kept E" and "publish_denied E call m reason st s = (s', st')"
  obtains r' where "st_items st' = st_items st @ [IToolResult r']" and "rt_call_id r' = mc_id call"
proof -
  let ?r = "\<lparr>rt_call_id = mc_id call, rt_tool_name = mc_name call, rt_output = JObj [(''error'', JStr m)],
    rt_is_error = True, rt_blocks = [], rt_image_parts = []\<rparr>"
  obtain r1 s1 where t: "transform_in E ?r s = (r1, s1)" by (cases "transform_in E ?r s")
  with assms(2) have "st_items st' = st_items st @ [IToolResult r1]" by (auto simp: publish_denied_def)
  with transform_call_id[OF assms(1) t] that show thesis by simp
qed

lemma pair_kept: "kept st \<Longrightarrow> st_items st' = st_items st @ [IToolCall c, IToolResult r] \<Longrightarrow>
    rt_call_id r = mc_id c \<Longrightarrow> kept st'"
  by (simp add: answered_append)

lemma boundary_result_id [simp]: "rt_call_id (boundary_result c) = mc_id c"
  by (simp add: boundary_result_def)

lemma skip_kept:
  assumes "transcript_kept E"
  shows "skip_calls E cs st s = (s', st') \<Longrightarrow> kept st \<Longrightarrow> kept st'"
proof (induction cs arbitrary: st s)
  case (Cons c cs)
  obtain s1 st1 where p: "publish_result E (boundary_result c) (push_item (IToolCall c) st) s = (s1, st1)"
    by (cases "publish_result E (boundary_result c) (push_item (IToolCall c) st) s")
  from publish_items[OF assms p] obtain r where
    "st_items st1 = st_items (push_item (IToolCall c) st) @ [IToolResult r]"
    "rt_call_id r = rt_call_id (boundary_result c)" .
  then have "kept st1" by (intro pair_kept[OF Cons.prems(2), of st1 c r]) simp_all
  with Cons p show ?case by simp
qed simp

lemma boundary_kept:
  assumes "transcript_kept E" and "kept st"
  shows "outcome kept (finish_tool_boundary E txt remaining approved st s)"
proof -
  obtain s1 st1 where p: "skip_calls E remaining st s = (s1, st1)" by (cases "skip_calls E remaining st s")
  from skip_kept[OF assms(1) p assms(2)] p show ?thesis by (simp add: finish_tool_boundary_def)
qed

text \<open>The call is the last item until its result is published.\<close>

definition asked :: "model_call \<Rightarrow> 'x option \<times> step_state \<Rightarrow> bool" where
  "asked call r \<longleftrightarrow> (case r of
     (Some ex, st) \<Rightarrow> (\<exists>xs. answered xs \<and> st_items st = xs @ [IToolCall call])
   | (None, st) \<Rightarrow> kept st)"

lemma authorized_kept:
  assumes "transcript_kept E" and "kept st"
  shows "outcome (asked call) (authorized_tool E call (push_item (IToolCall call) st) s)"
proof -
  let ?st = "push_item (IToolCall call) st"
  have denied: "kept st'" if "publish_denied E call m reason ?st s1 = (s2, st')" for m reason s1 s2 st'
    by (rule denied_items[OF assms(1) that], rule pair_kept[OF assms(2)]) simp_all
  show ?thesis
  proof (cases "registry_get (mc_name call) (re_registry E (rn_world s))")
    case (Some tool)
    let ?d = "tl_definition tool"
    obtain s1 st1 b where c: "check_access E call ?d ?st s = (s1, st1, b)" by (cases "check_access E call ?d ?st s")
    show ?thesis
    proof (cases b)
      case True
      note same = check_access_True[OF c[unfolded eqTrueI[OF True]]]
      obtain ex prepared where pr: "prepare_tool tool (mc_arguments call) = (ex, prepared)"
        by (cases "prepare_tool tool (mc_arguments call)")
      obtain decision w where dec: "permission_check (re_permissions E) ?d call prepared (rn_world s) = (decision, w)"
        by (cases "permission_check (re_permissions E) ?d call prepared (rn_world s)")
      let ?s2 = "emit E (EvPermissionChecked (td_name ?d) decision) (s\<lparr>rn_world := w\<rparr>)"
      have go: "authorized_tool E call ?st s = (case decision of
            Allow \<Rightarrow> (?s2, Going (Some ex, ?st))
          | Ask reason \<Rightarrow>
              fails E (''permission required for tool `'' @ td_name ?d @ ''`: '' @ reason) ?st ?s2
          | Deny reason \<Rightarrow> (case publish_denied E call
               (''permission denied for tool `'' @ td_name ?d @ ''`: '' @ reason) reason ?st ?s2 of
             (s3, st3) \<Rightarrow> (s3, Going (None, st3)))
          | Unavailable reason \<Rightarrow> (case publish_denied E call
               (''permission denied for tool `'' @ td_name ?d @ ''`: '' @ reason) reason ?st ?s2 of
             (s3, st3) \<Rightarrow> (s3, Going (None, st3))))"
        using c True unfolding authorized_tool_def Let_def by (simp add: Some same(1,2) pr dec)
      have allow: "asked call (Some ex, ?st)" using assms(2) by (auto simp: asked_def)
      have deny: "outcome (asked call) (case publish_denied E call m reason ?st ?s2 of
             (s3, st3) \<Rightarrow> (s3, Going (None, st3)))" for m reason
      proof -
        obtain s3 st3 where p: "publish_denied E call m reason ?st ?s2 = (s3, st3)"
          by (cases "publish_denied E call m reason ?st ?s2")
        from denied[OF p] p show ?thesis by (simp add: asked_def)
      qed
      show ?thesis unfolding go using allow deny by (cases decision) simp_all
    next
      case False
      have "kept st1"
        using c False denied by (auto simp: check_access_def split: option.splits prod.splits)
      with False Some c show ?thesis by (simp add: authorized_tool_def asked_def)
    qed
  qed (simp add: authorized_tool_def)
qed

lemma tool_step_kept:
  assumes "transcript_kept E" and "kept st"
  shows "outcome kept (tool_step E call remaining txt st s)"
  unfolding tool_step_def
proof (rule outcome_and_then[OF authorized_kept[OF assms]], goal_cases)
  case (1 x s')
  obtain tool st1 where x: "x = (tool, st1)" by (cases x)
  show ?case
  proof (cases tool)
    case (Some ex)
    let ?s1 = "emit E (EvToolStarted (mc_id call) (mc_name call)) s'"
    obtain s2 r where inv: "invoke_tool E ex call ?s1 = (s2, r)" by (cases "invoke_tool E ex call ?s1")
    obtain s3 b where poll: "poll_cancel E s2 = (s3, b)" by (cases "poll_cancel E s2")
    obtain s4 st4 where pub: "publish_result E (tool_outcome ex call r) st1 s3 = (s4, st4)"
      by (cases "publish_result E (tool_outcome ex call r) st1 s3")
    from 1(2) x Some obtain xs where xs: "answered xs" "st_items st1 = xs @ [IToolCall call]"
      by (auto simp: asked_def)
    from publish_items[OF assms(1) pub] obtain r' where
      "st_items st4 = st_items st1 @ [IToolResult r']" "rt_call_id r' = rt_call_id (tool_outcome ex call r)" .
    with xs have k: "kept st4"
      by (simp add: answered_pair tool_outcome_def Let_def split: prod.splits)
    from boundary_kept[OF assms(1) k] k show ?thesis
      using x Some inv poll pub by (cases b) (auto simp: Let_def)
  qed (use 1(2) x in \<open>simp add: asked_def\<close>)
qed

lemma tool_calls_kept:
  assumes "transcript_kept E"
  shows "kept st \<Longrightarrow> outcome kept (tool_calls E calls txt st s)"
proof (induction calls arbitrary: st s)
  case (Cons call calls)
  have "outcome kept (and_then (tool_step E call calls txt st s1) (tool_calls E calls txt))" for s1
    by (rule outcome_and_then[OF tool_step_kept[OF assms Cons.prems]]) (rule Cons.IH)
  then show ?case by (auto split: prod.splits bool.splits)
qed simp

lemma run_turn_kept:
  assumes "transcript_kept E" and "kept st0"
  shows "outcome kept (run_turn n E st0 s)"
proof -
  have request: "outcome kept (case prepare_request E st s of
        (s2, st2, Inl e) \<Rightarrow> fails E e st2 s2
      | (s2, st2, Inr request) \<Rightarrow>
          (case poll_cancel E s2 of
             (s3, True) \<Rightarrow> cancels E [] st2 s3
           | (s3, False) \<Rightarrow>
               and_then (model_step n E request st2 s3) (\<lambda>(response, st) s.
               and_then (finish_response E response st s) (\<lambda>_.
               tool_calls E (rp_tool_calls response) (rp_text response) st))))" if "kept st" for st s
  proof -
    obtain s2 st2 y where pr: "prepare_request E st s = (s2, st2, y)" by (cases "prepare_request E st s")
    have k: "kept st2" by (rule prepare_kept(1)[OF assms(1) that pr])
    have "outcome kept (and_then (model_step n E request st2 s3) (\<lambda>(response, st) s.
               and_then (finish_response E response st s) (\<lambda>_.
               tool_calls E (rp_tool_calls response) (rp_text response) st)))" for request s3
      by (rule outcome_and_then[OF model_step_kept[OF assms(1) k]])
        (auto intro!: outcome_and_then[OF finish_response_kept] tool_calls_kept[OF assms(1)] split: prod.splits)
    with pr show ?thesis by (auto split: sum.splits prod.splits bool.splits)
  qed
  have "outcome kept (and_then (claim_steering n E st s1) (\<lambda>st s. case prepare_request E st s of
        (s2, st2, Inl e) \<Rightarrow> fails E e st2 s2
      | (s2, st2, Inr request) \<Rightarrow>
          (case poll_cancel E s2 of
             (s3, True) \<Rightarrow> cancels E [] st2 s3
           | (s3, False) \<Rightarrow>
               and_then (model_step n E request st2 s3) (\<lambda>(response, st) s.
               and_then (finish_response E response st s) (\<lambda>_.
               tool_calls E (rp_tool_calls response) (rp_text response) st)))))" if "kept st" for st s1
    by (rule outcome_and_then[OF claim_steering_kept[OF that]]) (rule request)
  with assms(2) show ?thesis by (auto simp: run_turn_def Let_def split: prod.splits bool.splits)
qed

lemma drive_loop_kept:
  assumes "transcript_kept E"
  shows "kept st \<Longrightarrow> drive_loop n E st s = (s', Some r) \<Longrightarrow> complete_answered r"
proof (induction n arbitrary: st s)
  case (Suc n)
  obtain s1 p where t: "run_turn n E st s = (s1, p)" by (cases "run_turn n E st s")
  have "outcome kept (s1, p)" using run_turn_kept[OF assms Suc.prems(1), of n s] t by simp
  with Suc t show ?case by (cases p) auto
qed simp

section \<open>What the model is asked\<close>

text \<open>
  A run in which the model answers arbitrarily to a request with an unanswered call: when the
  run is the same whatever it answers, it was never asked one.
\<close>

definition ask_only :: "(model_item list \<Rightarrow> bool) \<Rightarrow>
    (request_inputs \<Rightarrow> 'w \<Rightarrow> model_event list \<times> (model_error + model_response) \<times> 'w) \<Rightarrow> 'w run_env \<Rightarrow> 'w run_env" where
  "ask_only P other E = E\<lparr>re_stream := (\<lambda>r w. if P (ri_items r) then re_stream E r w else other r w)\<rparr>"

lemma fields_stream:
  "enc_item (E\<lparr>re_stream := g\<rparr>) = enc_item E"
  "enc_schema (E\<lparr>re_stream := g\<rparr>) = enc_schema E"
  "image_tokens (E\<lparr>re_stream := g\<rparr>) = image_tokens E"
  "file_size (E\<lparr>re_stream := g\<rparr>) = file_size E"
  "re_sha (E\<lparr>re_stream := g\<rparr>) = re_sha E"
  "re_debug (E\<lparr>re_stream := g\<rparr>) = re_debug E"
  "re_root (E\<lparr>re_stream := g\<rparr>) = re_root E"
  "re_provider (E\<lparr>re_stream := g\<rparr>) = re_provider E"
  "re_model_id (E\<lparr>re_stream := g\<rparr>) = re_model_id E"
  "re_accepts_images (E\<lparr>re_stream := g\<rparr>) = re_accepts_images E"
  "re_instructions (E\<lparr>re_stream := g\<rparr>) = re_instructions E"
  "re_dynamic (E\<lparr>re_stream := g\<rparr>) = re_dynamic E"
  "re_options (E\<lparr>re_stream := g\<rparr>) = re_options E"
  "re_definitions (E\<lparr>re_stream := g\<rparr>) = re_definitions E"
  "re_registry (E\<lparr>re_stream := g\<rparr>) = re_registry E"
  "re_pipeline (E\<lparr>re_stream := g\<rparr>) = re_pipeline E"
  "re_access (E\<lparr>re_stream := g\<rparr>) = re_access E"
  "re_permissions (E\<lparr>re_stream := g\<rparr>) = re_permissions E"
  "re_manager (E\<lparr>re_stream := g\<rparr>) = re_manager E"
  "re_sink (E\<lparr>re_stream := g\<rparr>) = re_sink E"
  "re_outside (E\<lparr>re_stream := g\<rparr>) = re_outside E"
  by simp_all

lemma estimates_stream:
  "part_tokens (E\<lparr>re_stream := g\<rparr>) = part_tokens E"
  "parts_tokens (E\<lparr>re_stream := g\<rparr>) = parts_tokens E"
  "estimate_item_tokens (E\<lparr>re_stream := g\<rparr>) = estimate_item_tokens E"
  "definition_tokens (E\<lparr>re_stream := g\<rparr>) = definition_tokens E"
proof -
  show 1: "part_tokens (E\<lparr>re_stream := g\<rparr>) = part_tokens E"
  proof
    show "part_tokens (E\<lparr>re_stream := g\<rparr>) p = part_tokens E p" for p by (cases p) simp_all
  qed
  show 2: "parts_tokens (E\<lparr>re_stream := g\<rparr>) = parts_tokens E"
    by (intro ext) (unfold parts_tokens_def fields_stream 1, rule refl)
  show "estimate_item_tokens (E\<lparr>re_stream := g\<rparr>) = estimate_item_tokens E"
  proof
    show "estimate_item_tokens (E\<lparr>re_stream := g\<rparr>) i = estimate_item_tokens E i" for i
      by (cases i) (simp_all add: 2)
  qed
  show "definition_tokens (E\<lparr>re_stream := g\<rparr>) = definition_tokens E"
    by (intro ext) (unfold definition_tokens_def fields_stream, rule refl)
qed

lemma request_stream:
  "estimate_request_tokens (E\<lparr>re_stream := g\<rparr>) = estimate_request_tokens E"
  "project_items (E\<lparr>re_stream := g\<rparr>) = project_items E"
proof -
  show 1: "estimate_request_tokens (E\<lparr>re_stream := g\<rparr>) = estimate_request_tokens E"
    by (intro ext) (unfold estimate_request_tokens_def fields_stream estimates_stream, rule refl)
  have 2: "image_totals (E\<lparr>re_stream := g\<rparr>) = image_totals E"
    by (intro ext) (unfold image_totals_def fields_stream, rule refl)
  have 3: "projection_over_budget (E\<lparr>re_stream := g\<rparr>) = projection_over_budget E"
    by (intro ext) (unfold projection_over_budget_def fields_stream 1 2, rule refl)
  show "project_items (E\<lparr>re_stream := g\<rparr>) = project_items E"
    by (intro ext) (unfold project_items_def fields_stream 2 3, rule refl)
qed

lemma effects_stream:
  "yield_to (E\<lparr>re_stream := g\<rparr>) = yield_to E" "emit (E\<lparr>re_stream := g\<rparr>) = emit E"
  "poll_cancel (E\<lparr>re_stream := g\<rparr>) = poll_cancel E"
proof -
  show 1: "yield_to (E\<lparr>re_stream := g\<rparr>) = yield_to E" by (intro ext) (unfold yield_to_def fields_stream, rule refl)
  show "emit (E\<lparr>re_stream := g\<rparr>) = emit E" by (intro ext) (unfold emit_def fields_stream, rule refl)
  show "poll_cancel (E\<lparr>re_stream := g\<rparr>) = poll_cancel E" by (intro ext) (unfold poll_cancel_def fields_stream 1, rule refl)
qed

lemma ends_stream:
  "fails (E\<lparr>re_stream := g\<rparr>) = fails E" "cancels (E\<lparr>re_stream := g\<rparr>) = cancels E"
  "completes (E\<lparr>re_stream := g\<rparr>) = completes E"
  by (intro ext; unfold fails_def run_fail_def cancels_def run_cancel_def completes_def
      run_complete_def effects_stream, rule refl)+

lemma steering_stream:
  "apply_pending (E\<lparr>re_stream := g\<rparr>) = apply_pending E"
  "claim_queue n (E\<lparr>re_stream := g\<rparr>) = claim_queue n E"
  "claim_steering n (E\<lparr>re_stream := g\<rparr>) = claim_steering n E"
proof -
  show 1: "apply_pending (E\<lparr>re_stream := g\<rparr>) = apply_pending E"
    by (intro ext) (unfold apply_pending_def fields_stream effects_stream ends_stream, rule refl)
  show 2: "claim_queue n (E\<lparr>re_stream := g\<rparr>) = claim_queue n E"
  proof (induction n)
    case (Suc n)
    show ?case by (intro ext) (unfold claim_queue.simps Suc 1 effects_stream, rule refl)
  qed (intro ext, simp)
  show "claim_steering n (E\<lparr>re_stream := g\<rparr>) = claim_steering n E"
    by (intro ext) (unfold claim_steering_def 1 2 effects_stream, rule refl)
qed

lemma prepare_stream: "prepare_request (E\<lparr>re_stream := g\<rparr>) = prepare_request E"
proof -
  have 1: "read_dynamic (E\<lparr>re_stream := g\<rparr>) = read_dynamic E" by (intro ext) (unfold read_dynamic_def fields_stream, rule refl)
  have 2: "frozen_definitions (E\<lparr>re_stream := g\<rparr>) = frozen_definitions E"
    by (intro ext) (unfold frozen_definitions_def fields_stream, rule refl)
  have 3: "maintain_context (E\<lparr>re_stream := g\<rparr>) = maintain_context E"
    by (intro ext) (unfold maintain_context_def fields_stream, rule refl)
  have 4: "reserve_request (E\<lparr>re_stream := g\<rparr>) = reserve_request E"
    by (intro ext) (unfold reserve_request_def fields_stream request_stream, rule refl)
  have 5: "finish_request (E\<lparr>re_stream := g\<rparr>) = finish_request E"
    by (intro ext) (unfold finish_request_def fields_stream request_stream 4, rule refl)
  show ?thesis
    by (intro ext) (unfold prepare_request_def fields_stream effects_stream 1 2 3 5, rule refl)
qed

lemma recover_stream: "recover_request (E\<lparr>re_stream := g\<rparr>) = recover_request E"
proof -
  have 1: "recovered_smaller (E\<lparr>re_stream := g\<rparr>) = recovered_smaller E"
    by (intro ext) (unfold recovered_smaller_def fields_stream request_stream, rule refl)
  show ?thesis
    by (intro ext) (unfold recover_request_def fields_stream 1 prepare_stream effects_stream, rule refl)
qed

lemma transform_stream: "transform_in (E\<lparr>re_stream := g\<rparr>) = transform_in E"
  by (intro ext) (unfold transform_in_def fields_stream, rule refl)

lemma publish_stream:
  "publish_result (E\<lparr>re_stream := g\<rparr>) = publish_result E"
  "publish_denied (E\<lparr>re_stream := g\<rparr>) = publish_denied E"
  by (intro ext; unfold publish_result_def publish_denied_def transform_stream effects_stream, rule refl)+

lemma authorized_stream: "authorized_tool (E\<lparr>re_stream := g\<rparr>) = authorized_tool E"
proof -
  have 1: "check_access (E\<lparr>re_stream := g\<rparr>) = check_access E"
    by (intro ext) (unfold check_access_def fields_stream publish_stream effects_stream, rule refl)
  show ?thesis
    by (intro ext) (unfold authorized_tool_def fields_stream 1 publish_stream effects_stream ends_stream, rule refl)
qed

lemma boundary_stream: "finish_tool_boundary (E\<lparr>re_stream := g\<rparr>) = finish_tool_boundary E"
proof -
  have 1: "skip_calls (E\<lparr>re_stream := g\<rparr>) cs = skip_calls E cs" for cs
  proof (induction cs)
    case (Cons c cs)
    show ?case by (intro ext) (unfold skip_calls.simps publish_stream Cons, rule refl)
  qed (intro ext, simp)
  show ?thesis by (intro ext) (unfold finish_tool_boundary_def fields_stream 1 ends_stream, rule refl)
qed

lemma tool_calls_stream: "tool_calls (E\<lparr>re_stream := g\<rparr>) calls = tool_calls E calls"
proof (induction calls)
  case (Cons c cs)
  have inv: "invoke_tool (E\<lparr>re_stream := g\<rparr>) = invoke_tool E"
    by (intro ext) (unfold invoke_tool_def fields_stream, rule refl)
  have "tool_step (E\<lparr>re_stream := g\<rparr>) = tool_step E"
    unfolding tool_step_def inv authorized_stream publish_stream effects_stream ends_stream boundary_stream ..
  then show ?case by (intro ext) (unfold tool_calls.simps effects_stream ends_stream Cons, simp)
qed (intro ext, simp)

lemma attempt_stream:
  assumes "\<And>w. g r w = re_stream E r w"
  shows "capacity_attempt (E\<lparr>re_stream := g\<rparr>) r = capacity_attempt E r"
proof -
  have 1: "forward_events (E\<lparr>re_stream := g\<rparr>) turn evs = forward_events E turn evs" for turn evs
  proof (induction evs)
    case (Cons ev evs)
    show ?case by (intro ext) (unfold forward_events.simps effects_stream Cons, rule refl)
  qed (intro ext, simp)
  have 2: "re_stream (E\<lparr>re_stream := g\<rparr>) r = re_stream E r" using assms by (intro ext) simp
  show ?thesis
    by (intro ext) (unfold capacity_attempt_def fields_stream effects_stream 1 2, rule refl)
qed

lemma observe_stream: "observe_usage (E\<lparr>re_stream := g\<rparr>) = observe_usage E"
  by (intro ext) (unfold observe_usage_def fields_stream, rule refl)

lemma stream_asks:
  assumes "transcript_kept E"
  shows "kept st \<Longrightarrow> answered (ri_items r) \<Longrightarrow>
    stream_with_recovery n (ask_only answered other E) retried r st s = stream_with_recovery n E retried r st s"
  unfolding ask_only_def
proof (induction n arbitrary: retried r st s)
  case (Suc n)
  let ?E = "E\<lparr>re_stream := (\<lambda>r w. if answered (ri_items r) then re_stream E r w else other r w)\<rparr>"
  have at: "capacity_attempt ?E r = capacity_attempt E r"
    by (rule attempt_stream) (simp add: Suc.prems(2))
  obtain s1 result f where a: "capacity_attempt E r (st_turn st) s = (s1, result, f)"
    by (cases "capacity_attempt E r (st_turn st) s")
  show ?case
  proof (cases result)
    case (Inl err)
    let ?st1 = "add_usage (fw_last_usage f) st"
    let ?st2 = "if fw_partial f = [] then ?st1 else push_item (assistant_text (fw_partial f)) ?st1"
    obtain s3 st3 y where rr: "recover_request E err r ?st2 (yield_to E s1) = (s3, st3, y)"
      by (cases "recover_request E err r ?st2 (yield_to E s1)")
    have "kept ?st2" using Suc.prems(1) by (simp add: answered_append)
    note k = recover_kept[OF assms this rr]
    have IH: "stream_with_recovery n ?E b nxt st3 s3 = stream_with_recovery n E b nxt st3 s3"
      if "y = Inr (Some nxt)" for b nxt
      using Suc.IH[OF k(1) k(2)[OF that]] .
    show ?thesis
      unfolding stream_with_recovery.simps at a Inl prod.case sum.case Let_def effects_stream recover_stream rr ends_stream
      by (cases y) (auto simp: IH split: option.splits)
  qed (simp add: a at observe_stream)
qed simp

lemma ask_only_same:
  "prepare_request (ask_only P other E) = prepare_request E" "poll_cancel (ask_only P other E) = poll_cancel E"
  "fails (ask_only P other E) = fails E" "cancels (ask_only P other E) = cancels E"
  "claim_steering n (ask_only P other E) = claim_steering n E"
  "tool_calls (ask_only P other E) calls = tool_calls E calls" "emit (ask_only P other E) = emit E"
  "re_root (ask_only P other E) = re_root E"
  by (simp_all only: ask_only_def fields_stream prepare_stream effects_stream ends_stream steering_stream
      tool_calls_stream)

lemma run_turn_asks:
  assumes "transcript_kept E" and "kept st0"
  shows "run_turn n (ask_only answered other E) st0 s = run_turn n E st0 s"
proof -
  let ?g = "\<lambda>r w. if answered (ri_items r) then re_stream E r w else other r w"
  let ?E = "ask_only answered other E"
  have E: "?E = E\<lparr>re_stream := ?g\<rparr>" by (simp add: ask_only_def)
  have step: "model_step n ?E r st s = model_step n E r st s"
    if "kept st" "answered (ri_items r)" for r st s
    unfolding model_step_def stream_asks[OF assms(1) that] unfolding E effects_stream fields_stream ..
  have finish: "finish_response ?E = finish_response E"
    unfolding E by (intro ext) (unfold finish_response_def fields_stream ends_stream effects_stream, rule refl)
  have request: "(case prepare_request E st s of
        (s2, st2, Inl e) \<Rightarrow> fails E e st2 s2
      | (s2, st2, Inr request) \<Rightarrow>
          (case poll_cancel E s2 of
             (s3, True) \<Rightarrow> cancels E [] st2 s3
           | (s3, False) \<Rightarrow>
               and_then (model_step n ?E request st2 s3) (\<lambda>(response, st) s.
               and_then (finish_response E response st s) (\<lambda>_.
               tool_calls E (rp_tool_calls response) (rp_text response) st))))
    = (case prepare_request E st s of
        (s2, st2, Inl e) \<Rightarrow> fails E e st2 s2
      | (s2, st2, Inr request) \<Rightarrow>
          (case poll_cancel E s2 of
             (s3, True) \<Rightarrow> cancels E [] st2 s3
           | (s3, False) \<Rightarrow>
               and_then (model_step n E request st2 s3) (\<lambda>(response, st) s.
               and_then (finish_response E response st s) (\<lambda>_.
               tool_calls E (rp_tool_calls response) (rp_text response) st))))" if "kept st" for st s
  proof -
    obtain s2 st2 y where pr: "prepare_request E st s = (s2, st2, y)" by (cases "prepare_request E st s")
    note k = prepare_kept[OF assms(1) that pr]
    have "model_step n ?E r st2 = model_step n E r st2" if "y = Inr r" for r
      using step[OF k(1) k(2)[OF that]] by (intro ext)
    then show ?thesis unfolding pr prod.case by (cases y) simp_all
  qed
  obtain s1 b where p: "poll_cancel E s = (s1, b)" by (cases "poll_cancel E s")
  let ?st = "st0\<lparr>st_turn := st_turn st0 + 1\<rparr>"
  obtain s2 q where c: "claim_steering n E ?st s1 = (s2, q)" by (cases "claim_steering n E ?st s1")
  have "outcome kept (s2, q)" using claim_steering_kept[of ?st n E s1] assms(2) c by simp
  then show ?thesis
    unfolding run_turn_def Let_def ask_only_same finish p prod.case c
    by (cases b; cases q) (simp_all add: and_then_simps request)
qed

lemma drive_loop_asks:
  assumes "transcript_kept E"
  shows "kept st \<Longrightarrow> drive_loop n (ask_only answered other E) st s = drive_loop n E st s"
proof (induction n arbitrary: st s)
  case (Suc n)
  obtain s1 p where t: "run_turn n E st s = (s1, p)" by (cases "run_turn n E st s")
  have "outcome kept (s1, p)" using run_turn_kept[OF assms Suc.prems, of n s] t by simp
  with Suc.IH run_turn_asks[OF assms Suc.prems] t show ?case by (cases p) simp_all
qed simp

section \<open>Recovery ends\<close>

text \<open>Context maintenance never brings images back.\<close>

definition images_kept :: "'w run_env \<Rightarrow> bool" where
  "images_kept E \<longleftrightarrow>
     (\<forall>m items usage ins ds w. re_manager E = Some m \<longrightarrow>
        count_images (fst (snd (cm_maintain m items usage ins ds w))) \<le> count_images items)
     \<and> (\<forall>m kind items usage r w. re_manager E = Some m \<longrightarrow>
        count_images (fst (snd (cm_recover m kind items usage r w))) \<le> count_images items)"

lemma prepare_images:
  assumes "images_kept E" and p: "prepare_request E st s = (s', st', x)"
  shows "count_images (st_items st') \<le> count_images (st_items st)"
    and "\<And>req. x = Inr req \<Longrightarrow> count_images (ri_items req) \<le> count_images (st_items st')"
proof -
  have "count_images (st_items st') \<le> count_images (st_items st)
      \<and> (\<forall>req. x = Inr req \<longrightarrow> count_images (ri_items req) \<le> count_images (st_items st'))"
    using p
  proof (cases rule: prepare_cases)
    case (2 s1 i ds s2 r)
    have "count_images (st_items st') \<le> count_images (st_items st)"
    proof (cases "re_manager E")
      case (Some m)
      with assms(1) have "count_images (fst (snd (cm_maintain m (st_items st) (st_usage st) i ds (rn_world s1))))
          \<le> count_images (st_items st)" by (simp add: images_kept_def)
      with 2(1) Some show ?thesis by (auto simp: maintain_context_def split: prod.splits)
    qed (use 2(1) in \<open>simp add: maintain_context_def\<close>)
    moreover have "\<forall>req. x = Inr req \<longrightarrow> count_images (ri_items req) \<le> count_images (st_items st')"
      using 2(2) by force
    ultimately show ?thesis by simp
  qed simp
  then show "count_images (st_items st') \<le> count_images (st_items st)"
    and "\<And>req. x = Inr req \<Longrightarrow> count_images (ri_items req) \<le> count_images (st_items st')" by auto
qed

lemma recover_images:
  assumes "images_kept E" and r: "recover_request E err r st s = (s', st', Inr (Some nxt))"
    and "count_images (ri_items r) \<le> count_images (st_items st)"
  shows "count_images (ri_items nxt) \<le> count_images (st_items st')"
    and "count_images (st_items st') + (if me_kind err = ImageCapacity then 1 else 0) \<le> count_images (st_items st)"
proof -
  from r obtain m where m: "re_manager E = Some m" by (auto simp: recover_request_def split: option.splits)
  obtain fa w where fa: "cm_failed_attempt m (me_kind err) (rn_world s) = (fa, w)"
    by (cases "cm_failed_attempt m (me_kind err) (rn_world s)")
  obtain res items usage w2 where
    rc: "cm_recover m (me_kind err) (st_items st) (st_usage st) r w = (res, items, usage, w2)"
    by (cases "cm_recover m (me_kind err) (st_items st) (st_usage st) r w")
  from assms(1) m have "count_images (fst (snd (cm_recover m (me_kind err) (st_items st) (st_usage st) r w)))
      \<le> count_images (st_items st)" by (simp add: images_kept_def)
  with rc have fewer: "count_images items \<le> count_images (st_items st)" by simp
  from r m fa rc obtain s3 where
    p: "prepare_request E (st\<lparr>st_items := items, st_usage := usage\<rparr>) s3 = (s', st', Inr nxt)"
    and small: "recovered_smaller E (me_kind err) r items"
    unfolding recover_request_def Let_def by (auto split: sum.splits prod.splits if_splits)
  note imgs = prepare_images[OF assms(1) p]
  from imgs(2) show "count_images (ri_items nxt) \<le> count_images (st_items st')" by simp
  have "me_kind err = ImageCapacity \<Longrightarrow> count_images items < count_images (ri_items r)"
    using small by (simp add: recovered_smaller_def)
  with imgs(1) fewer assms(3)
  show "count_images (st_items st') + (if me_kind err = ImageCapacity then 1 else 0) \<le> count_images (st_items st)"
    by fastforce
qed

lemma stream_ends:
  assumes "images_kept E"
  shows "count_images (ri_items r) \<le> count_images (st_items st) \<Longrightarrow>
    count_images (st_items st) + (if retried then 0 else 1) < n \<Longrightarrow>
    snd (stream_with_recovery n E retried r st s) \<noteq> Unfinished"
proof (induction n arbitrary: retried r st s)
  case (Suc n)
  obtain s1 result f where a: "capacity_attempt E r (st_turn st) s = (s1, result, f)"
    by (cases "capacity_attempt E r (st_turn st) s")
  show ?case
  proof (cases result)
    case (Inl err)
    let ?st1 = "add_usage (fw_last_usage f) st"
    let ?st2 = "if fw_partial f = [] then ?st1 else push_item (assistant_text (fw_partial f)) ?st1"
    obtain s3 st3 y where rr: "recover_request E err r ?st2 (yield_to E s1) = (s3, st3, y)"
      by (cases "recover_request E err r ?st2 (yield_to E s1)")
    have same: "count_images (st_items ?st2) = count_images (st_items st)" by simp
    have again: "snd (stream_with_recovery n E (retried \<or> me_kind err = ContextCapacity) nxt st3 s3) \<noteq> Unfinished"
      if "y = Inr (Some nxt)" "me_kind err \<in> {ContextCapacity, ImageCapacity}"
        "\<not> (me_kind err = ContextCapacity \<and> retried)" for nxt
    proof (rule Suc.IH)
      from rr that have rr': "recover_request E err r ?st2 (yield_to E s1) = (s3, st3, Inr (Some nxt))" by simp
      note less = recover_images[OF assms rr', unfolded same, OF Suc.prems(1)]
      show "count_images (ri_items nxt) \<le> count_images (st_items st3)" by (rule less(1))
      show "count_images (st_items st3) + (if retried \<or> me_kind err = ContextCapacity then 0 else 1) < n"
        using less(2) Suc.prems(2) that(2,3) by (auto split: if_splits)
    qed
    have f: "snd (fails E msg st' s') \<noteq> (Unfinished :: (model_response \<times> step_state) step_result)" for msg st' s'
      by (simp add: fails_def split: prod.splits)
    show ?thesis
      unfolding stream_with_recovery.simps a Inl prod.case sum.case Let_def rr
      using again f by (auto split: sum.splits option.splits)
  qed (simp add: a Let_def)
qed simp

end
