(* ===== verification/RunProps.thy ===== *)
theory RunProps
  imports RunTranscript
begin

text \<open>
  The properties of a run, with a concrete environment for their witnesses: a model that asks
  for one tool call and then completes, and one whose first request is too large.
\<close>

section \<open>A concrete run\<close>

text \<open>The world counts the requests.\<close>

definition reader :: "nat tool_object" where
  "reader = \<lparr>tl_definition = \<lparr>td_name = ''read'', td_description = '''', td_input_schema = JObj [],
       td_effect = EffRead, td_strict = False\<rparr>,
     tl_public = Inr \<lparr>td_name = ''read'', td_description = '''', td_input_schema = JObj [],
       td_effect = EffRead, td_strict = False\<rparr>,
     tl_prepare = (\<lambda>_. None),
     tl_exec = \<lparr>ex_invoke = (\<lambda>a w. (Inr (JStr ''text''), w)), ex_error_output = (\<lambda>e. JStr (te_message e)),
       ex_ends_run = (\<lambda>_. False), ex_result_blocks = (\<lambda>_. [])\<rparr>\<rparr>"

definition reader_registry :: "nat tool_object tool_registry" where
  "reader_registry = fst (registry_register tl_public ''r1'' ''builtin'' reader registry_new)"

definition a_call :: model_call where
  "a_call = \<lparr>mc_id = ''c1'', mc_name = ''read'', mc_arguments = JObj []\<rparr>"

definition a_response :: "string \<Rightarrow> model_call list \<Rightarrow> finish_reason \<Rightarrow> model_response" where
  "a_response answer calls reason = \<lparr>rp_text = answer, rp_tool_calls = calls, rp_finish_reason = reason,
     rp_usage = None, rp_response_id = None, rp_provider_state = [], rp_reasoning = None\<rparr>"

definition reader_stream ::
  "request_inputs \<Rightarrow> nat \<Rightarrow> model_event list \<times> (model_error + model_response) \<times> nat" where
  "reader_stream r w =
     (if w = 0 then ([], Inr (a_response [] [a_call] FinToolCalls), 1)
      else ([MeTextDelta ''done''], Inr (a_response ''done'' [] FinCompleted), w + 1))"

definition run_base :: "nat run_env" where
  "run_base = \<lparr>enc_item = (\<lambda>_. Some []), enc_schema = (\<lambda>_. Some []), image_tokens = (\<lambda>_. 0),
     file_size = (\<lambda>_. None), re_sha = (\<lambda>x. x), re_debug = (\<lambda>x. x), re_root = ''/p'', re_provider = ''m'',
     re_model_id = ''m1'', re_accepts_images = False, re_instructions = None, re_dynamic = None,
     re_options = \<lparr>mo_output_limit = None, mo_temperature = None, mo_parallel_tool_calls = None,
       mo_provider_options = JNull, mo_image_projection = None, mo_request_tail = None\<rparr>,
     re_definitions = Some [], re_registry = (\<lambda>_. reader_registry), re_pipeline = None,
     re_access = access_all,
     re_permissions = \<lparr>pe_source = ModeClassic, pe_mode = (\<lambda>_. ReadOnly), pe_access = (\<lambda>_. access_all),
       pe_approve = (\<lambda>_ w. (Deny [], w))\<rparr>,
     re_manager = None, re_stream = reader_stream, re_sink = (\<lambda>_ w. ([], w)), re_outside = (\<lambda>w. ([], w))\<rparr>"

definition run_start :: "'w \<Rightarrow> 'w run_sys" where
  "run_start w = \<lparr>rn_events = [], rn_queue = [], rn_sealed = False, rn_inputs = input_new, rn_ledger = None,
     rn_cancelled = False, rn_world = w\<rparr>"

definition read_text :: tool_result where
  "read_text = \<lparr>rt_call_id = ''c1'', rt_tool_name = ''read'', rt_output = JStr ''text'', rt_is_error = False,
     rt_blocks = [], rt_image_parts = []\<rparr>"

definition read_output :: run_output where
  "read_output = \<lparr>ro_text = ''done'', ro_turns = 2,
     ro_items = [user_text ''hi'', IToolCall a_call, IToolResult read_text, assistant_text ''done''],
     ro_usage = usage_default, ro_cancelled = False\<rparr>"

lemma read_run:
  "snd (execute_with_items 3 run_base [user_text ''hi''] [BlockText ''hi''] None (run_start 0))
     = Some (Inr read_output)"
  by code_simp

lemma base_kept: "transcript_kept run_base" "images_kept run_base"
  by (simp_all add: transcript_kept_def images_kept_def run_base_def)

text \<open>
  A model that takes no images until the manager has dropped them, and a manager whose second
  maintenance is cancelled. The world lists the sizes of the requests.
\<close>

definition drop_manager :: "'w context_manager" where
  "drop_manager = \<lparr>cm_maintain = (\<lambda>items usage i ds w. (Inr (), items, usage, w)),
     cm_observe = (\<lambda>r u n w. w), cm_failed_attempt = (\<lambda>k w. (Inr (), w)),
     cm_recover = (\<lambda>k items usage r w. (Inr True, [], usage, w))\<rparr>"

definition capacity_stream ::
  "model_error_kind \<Rightarrow> request_inputs \<Rightarrow> nat \<Rightarrow> model_event list \<times> (model_error + model_response) \<times> nat" where
  "capacity_stream k r w =
     (if w = 0 then ([], Inl (model_error_with_kind k ''too large''), 1)
      else ([], Inr (a_response ''done'' [] FinCompleted), w + 1))"

definition run_capacity :: "model_error_kind \<Rightarrow> nat run_env" where
  "run_capacity k = run_base\<lparr>re_accepts_images := True, re_manager := Some drop_manager,
     re_stream := capacity_stream k\<rparr>"

lemma capacity_kept: "transcript_kept (run_capacity k)" "images_kept (run_capacity k)"
  by (simp_all add: transcript_kept_def images_kept_def run_capacity_def run_base_def drop_manager_def)

section \<open>How a run ends\<close>

text \<open>
  C28: A run announces its start, then adds events none of which ends a run, and closes with
  exactly one event: completed, cancelled or failed, as its result says. Before that event is
  emitted the steering queue is sealed, so no message is accepted by a run that reports its end.
\<close>

theorem run_ends_once:
  assumes "execute_with_items n E items message client_id s = (s', Some r)"
  shows "\<exists>s0 mid. rn_events s0 = rn_events s @ EvRunStarted (re_root E) message client_id # mid
    \<and> list_all (\<lambda>ev. \<not> terminal_event ev) mid \<and> rn_sealed s0
    \<and> rn_events s' = rn_events s0 @ [closing_event r] \<and> s' = seal (emit E (closing_event r) s0)"
proof -
  let ?s = "emit E (EvRunStarted (re_root E) message client_id) (s\<lparr>rn_inputs := input_agent_started (rn_inputs s)\<rparr>)"
  from assms obtain s1 where d: "drive_loop n E \<lparr>st_items = items, st_usage = usage_default, st_turn = 0\<rparr> ?s
      = (s1, Some r)" and s': "s' = seal s1"
    by (auto simp: execute_with_items_def drive_def split: prod.splits option.splits)
  from drive_loop_ok[OF d] obtain s0 where "goes_on ?s s0" "rn_sealed s0" "s1 = emit E (closing_event r) s0"
    by (auto simp: ended_def)
  with s' show ?thesis by (auto simp: goes_on_def intro!: exI[of _ s0])
qed

theorem run_ends_once_witness:
  "\<exists>(s' :: nat run_sys) (s0 :: nat run_sys) mid. rn_events s0 = EvRunStarted ''/p'' [BlockText ''hi''] None # mid
     \<and> list_all (\<lambda>ev. \<not> terminal_event ev) mid \<and> rn_sealed s0
     \<and> rn_events s' = rn_events s0 @ [EvRunCompleted ''done'' 2 usage_default]"
proof -
  obtain s' where run: "execute_with_items 3 run_base [user_text ''hi''] [BlockText ''hi''] None (run_start 0)
      = (s', Some (Inr read_output))"
    using read_run by (cases "execute_with_items 3 run_base [user_text ''hi''] [BlockText ''hi''] None (run_start 0)") simp
  have same: "closing_event (Inr read_output) = EvRunCompleted ''done'' 2 usage_default"
    "re_root run_base = ''/p''" "rn_events (run_start (0::nat)) = []"
    by (simp_all add: closing_event_def read_output_def run_base_def run_start_def)
  obtain s0 :: "nat run_sys" and mid where "rn_events s0 = EvRunStarted ''/p'' [BlockText ''hi''] None # mid"
    "list_all (\<lambda>ev. \<not> terminal_event ev) mid" "rn_sealed s0"
    "rn_events s' = rn_events s0 @ [EvRunCompleted ''done'' 2 usage_default]"
    using run_ends_once[OF run] unfolding same append_Nil by blast
  then show ?thesis by blast
qed

section \<open>What runs a tool\<close>

text \<open>
  However long a run is followed, every start of a tool in its events comes right after
  the request of that very call and the permission check that allowed it.
\<close>

theorem tool_starts_checked:
  assumes "execute_with_items n E items message client_id s = (s', res)"
  shows "\<exists>es. rn_events s' = rn_events s @ es \<and> starts_guarded es"
proof -
  let ?s1 = "s\<lparr>rn_inputs := input_agent_started (rn_inputs s)\<rparr>"
  let ?s = "emit E (EvRunStarted (re_root E) message client_id) ?s1"
  obtain s1 r where d: "drive_loop n E \<lparr>st_items = items, st_usage = usage_default, st_turn = 0\<rparr> ?s = (s1, r)"
    by (cases "drive_loop n E \<lparr>st_items = items, st_usage = usage_default, st_turn = 0\<rparr> ?s")
  with assms have s': "rn_events s' = rn_events s1"
    by (auto simp: execute_with_items_def drive_def split: option.splits)
  have s0: "goes_on ?s1 ?s" by (simp add: goes_on_emit)
  have closing: "starts_guarded [closing_event r]" for r
    by (auto simp: starts_guarded_def closing_event_def Cons_eq_append_conv split: sum.splits)
  show ?thesis
  proof (cases r)
    case None
    from drive_loop_ok[OF d] None have "goes_on ?s s1" by simp
    with s0 have "goes_on ?s1 s1" by (rule goes_on_trans)
    with s' show ?thesis by (auto simp: goes_on_def)
  next
    case (Some x)
    from drive_loop_ok[OF d] Some obtain s2 where "goes_on ?s s2" "s1 = emit E (closing_event x) s2"
      by (auto simp: ended_def)
    with s0 have "goes_on ?s1 s2" "rn_events s1 = rn_events s2 @ [closing_event x]"
      by (auto intro: goes_on_trans)
    with s' closing[of x] show ?thesis by (auto simp: goes_on_def intro!: starts_guarded_append)
  qed
qed

theorem tool_starts_checked_witness:
  "\<exists>(s' :: nat run_sys) es. rn_events s' = es \<and> starts_guarded es \<and> EvToolStarted ''c1'' ''read'' \<in> set es"
proof -
  obtain s' res where run: "execute_with_items 3 run_base [user_text ''hi''] [BlockText ''hi''] None (run_start 0)
      = (s', res)" by (cases "execute_with_items 3 run_base [user_text ''hi''] [BlockText ''hi''] None (run_start 0)")
  have "EvToolStarted ''c1'' ''read'' \<in> set (rn_events (fst
      (execute_with_items 3 run_base [user_text ''hi''] [BlockText ''hi''] None (run_start 0))))"
    by code_simp
  with run have "EvToolStarted ''c1'' ''read'' \<in> set (rn_events s')" by simp
  moreover have "rn_events (run_start (0::nat)) = []" by (simp add: run_start_def)
  ultimately have "starts_guarded (rn_events s')" "EvToolStarted ''c1'' ''read'' \<in> set (rn_events s')"
    using tool_starts_checked[OF run] by auto
  then show ?thesis by blast
qed

text \<open>
  C3: A tool is handed out for execution only when the registry has it, the frozen access
  policy of the run and the policy of the permission source both admit it, the call passes the
  path fence, and the mode allows its effect by itself (in project-write mode also a prepared,
  workspace-enforced command) or the approver said yes to a request that carries this call.
\<close>

theorem tool_runs_authorised:
  assumes "authorized_tool E call st s = (s', Going (Some ex, st'))"
  shows "\<exists>tool prepared. registry_get (mc_name call) (re_registry E (rn_world s)) = Some tool
    \<and> prepare_tool tool (mc_arguments call) = (ex, prepared)
    \<and> access_allows (re_access E) (tl_definition tool)
    \<and> access_allows (pe_access (re_permissions E) (rn_world s)) (tl_definition tool)
    \<and> validate_call (re_access E) (tl_definition tool) (mc_arguments call) = Inr ()
    \<and> (auto_allowed (re_permissions E) (tl_definition tool) prepared (rn_world s)
       \<or> (\<exists>reason. fst (pe_approve (re_permissions E)
            (approval_request (tl_definition tool) call reason) (rn_world s)) = Allow))"
  using assms
proof (rule authorized_cases)
  fix tool prepared w
  assume p: "permission_check (re_permissions E) (tl_definition tool) call prepared (rn_world s) = (Allow, w)"
    and rest: "registry_get (mc_name call) (re_registry E (rn_world s)) = Some tool"
      "prepare_tool tool (mc_arguments call) = (ex, prepared)"
      "access_allows (re_access E) (tl_definition tool)"
      "validate_call (re_access E) (tl_definition tool) (mc_arguments call) = Inr ()"
  from permission_check_Allow[OF p] have "auto_allowed (re_permissions E) (tl_definition tool) prepared (rn_world s)
      \<or> (\<exists>reason. fst (pe_approve (re_permissions E)
           (approval_request (tl_definition tool) call reason) (rn_world s)) = Allow)"
    by (metis fst_conv)
  with permission_check_Allow[OF p] rest show ?thesis by blast
qed

theorem tool_runs_authorised_witness:
  "\<exists>tool. registry_get ''read'' reader_registry = Some tool \<and> access_allows access_all (tl_definition tool)"
proof -
  let ?r = "authorized_tool run_base a_call \<lparr>st_items = [], st_usage = usage_default, st_turn = 1\<rparr> (run_start 0)"
  have "(case snd ?r of Going (Some ex, st') \<Rightarrow> True | _ \<Rightarrow> False) = True" by code_simp
  then obtain ex st' where "snd ?r = Going (Some ex, st')" by (auto split: step_result.splits option.splits)
  then have "?r = (fst ?r, Going (Some ex, st'))" by (simp add: prod_eq_iff)
  from tool_runs_authorised[OF this] show ?thesis by (auto simp: a_call_def run_base_def)
qed

section \<open>The transcript\<close>





text \<open>
  C30: The recovery of a request always comes to an end, with the answer of the model or with a
  failure: one retry for a full context, and one fewer image with every retry for images, so
  the number of images in the transcript bounds the attempts.
\<close>

theorem recovery_ends:
  assumes "images_kept E" and "prepare_request E st0 s0 = (s1, st, Inr r)"
    and "count_images (st_items st) + 1 < n"
  shows "snd (stream_with_recovery n E False r st s) \<noteq> Unfinished"
  using stream_ends[OF assms(1), of r st False n s] prepare_images(2)[OF assms(1,2)] assms(3) by simp

theorem recovery_ends_witness:
  "snd (stream_with_recovery 3 (run_capacity ImageCapacity) False
      \<lparr>ri_instructions = None, ri_definitions = [], ri_items = [IUser [PartImage ''a'' ''png'']]\<rparr>
      \<lparr>st_items = [IUser [PartImage ''a'' ''png'']], st_usage = usage_default, st_turn = 1\<rparr> (run_start 0))
    \<noteq> Unfinished"
proof -
  let ?st = "\<lparr>st_items = [IUser [PartImage ''a'' ''png'']], st_usage = usage_default, st_turn = 1\<rparr>"
  let ?r = "\<lparr>ri_instructions = None, ri_definitions = [], ri_items = [IUser [PartImage ''a'' ''png'']]\<rparr>"
  have p: "snd (prepare_request (run_capacity ImageCapacity) ?st (run_start 0)) = (?st, Inr ?r)" by code_simp
  obtain s1 where "prepare_request (run_capacity ImageCapacity) ?st (run_start 0) = (s1, ?st, Inr ?r)"
    using p by (cases "prepare_request (run_capacity ImageCapacity) ?st (run_start 0)") simp
  from recovery_ends[OF capacity_kept(2) this, of 3] show ?thesis by simp
qed

section \<open>A cancelled recovery\<close>

text \<open>
  What \<open>prepare_request\<close> returns when maintenance is cancelled is meant to be settled before
  dispatch; after a recovery it is dispatched. The world lists the items of the requests the
  model is asked, and whether the run was cancelled.
\<close>

record late_world =
  lw_asked :: "nat list"
  lw_maintained :: nat

definition late_env :: "late_world run_env" where
  "late_env = \<lparr>enc_item = (\<lambda>_. Some []), enc_schema = (\<lambda>_. Some []), image_tokens = (\<lambda>_. 0),
     file_size = (\<lambda>_. None), re_sha = (\<lambda>x. x), re_debug = (\<lambda>x. x), re_root = ''/p'', re_provider = ''m'',
     re_model_id = ''m1'', re_accepts_images = True, re_instructions = None, re_dynamic = None,
     re_options = re_options run_base,
     re_definitions = Some [], re_registry = (\<lambda>_. registry_new), re_pipeline = None,
     re_access = access_all,
     re_permissions = \<lparr>pe_source = ModeClassic, pe_mode = (\<lambda>_. ReadOnly), pe_access = (\<lambda>_. access_all),
       pe_approve = (\<lambda>_ w. (Deny [], w))\<rparr>,
     re_manager = Some \<lparr>
       cm_maintain = (\<lambda>items usage i ds w. (Inr (), items, usage, w\<lparr>lw_maintained := lw_maintained w + 1\<rparr>)),
       cm_observe = (\<lambda>r u n w. w), cm_failed_attempt = (\<lambda>k w. (Inr (), w)),
       cm_recover = (\<lambda>k items usage r w. (Inr True, tl items, usage, w))\<rparr>,
     re_stream = (\<lambda>r w. ([], Inl (model_error_with_kind ImageCapacity ''too many''),
       w\<lparr>lw_asked := lw_asked w @ [length (ri_items r)]\<rparr>)),
     re_sink = (\<lambda>_ w. ([], w)),
     re_outside = (\<lambda>w. (if 2 \<le> lw_maintained w then [OutCancel] else [], w))\<rparr>"

theorem cancelled_recovery_asks:
  "lw_asked (rn_world (fst (execute_with_items 3 late_env
      [IUser [PartImage ''a'' ''png''], IUser [PartImage ''b'' ''png''], user_text ''c''] [BlockText ''c''] None
      (run_start \<lparr>lw_asked = [], lw_maintained = 0\<rparr>)))) = [3, 0]"
  by code_simp

end
