(* ===== verification/InputProps.thy ===== *)
theory InputProps
  imports InputQueue
begin

text \<open>
  What the queue of pending inputs promises, for every sequence of calls: its well-formedness,
  and that an input leaves it only by a durable admission of exactly what was claimed or by a
  recall of exactly what was shown, while everything else keeps its place.
\<close>

section \<open>Positions\<close>

lemma position_Some:
  "position p xs = Some n \<Longrightarrow> n < length xs \<and> p (xs ! n)"
  by (induction xs arbitrary: n) (auto split: if_splits)

lemma position_None: "position p xs = None \<longleftrightarrow> (\<forall>x\<in>set xs. \<not> p x)"
  by (induction xs) auto

lemma filter_other: "a \<notin> set ys \<Longrightarrow> filter (\<lambda>y. y \<noteq> a) ys = ys"
  by (induction ys) auto

lemma remove_at_filter:
  assumes "n < length xs" and "distinct (map f xs)"
  shows "map f (remove_at n xs) = filter (\<lambda>y. y \<noteq> f (xs ! n)) (map f xs)"
proof -
  have xs: "xs = take n xs @ xs ! n # drop (Suc n) xs" using assms(1) by (rule id_take_nth_drop)
  then have "distinct (map f (take n xs) @ f (xs ! n) # map f (drop (Suc n) xs))"
    using assms(2) by (metis list.simps(9) map_append)
  then have "filter (\<lambda>y. y \<noteq> f (xs ! n)) (map f (take n xs) @ f (xs ! n) # map f (drop (Suc n) xs))
      = map f (take n xs) @ map f (drop (Suc n) xs)"
    by (simp add: filter_other)
  then show ?thesis using xs unfolding remove_at_def by (metis list.simps(9) map_append)
qed

lemma remove_at_subset: "set (remove_at n xs) \<subseteq> set xs"
  by (auto simp: remove_at_def dest: in_set_takeD in_set_dropD)

lemma find_None: "find p xs = None \<longleftrightarrow> (\<forall>x\<in>set xs. \<not> p x)"
  by (auto simp: find_None_iff)

section \<open>Well-formed queues\<close>

definition input_ids :: "input_state \<Rightarrow> string list" where
  "input_ids s = map ie_id (in_entries s)"

definition entry_ok :: "input_entry \<Rightarrow> bool" where
  "entry_ok e \<longleftrightarrow> ie_id e \<noteq> [] \<and> length (ie_id e) \<le> 200
     \<and> ie_text e = plain_text (pm_content (ie_message e))
     \<and> ie_images e = image_descriptors (pm_content (ie_message e))"

definition input_ok :: "input_state \<Rightarrow> bool" where
  "input_ok s \<longleftrightarrow> distinct (input_ids s) \<and> length (in_entries s) \<le> 64
     \<and> list_all entry_ok (in_entries s)
     \<and> (\<forall>i. in_handoff s = Some i \<longrightarrow> i \<in> set (input_ids s))
     \<and> list_all (\<lambda>e. ie_phase e = Interrupting \<longrightarrow> in_handoff s = Some (ie_id e)) (in_entries s)
     \<and> length (in_receipts s) \<le> 128"

text \<open>What a call takes out of the queue, and what it adds.\<close>

definition leaves :: "(string \<Rightarrow> string) \<Rightarrow> input_call \<Rightarrow> input_state \<Rightarrow> string \<Rightarrow> bool" where
  "leaves sha c s i \<longleftrightarrow> list_ex (\<lambda>e. ie_id e = i
     \<and> (c = IcCommitted i (request_digest sha (ie_message e)) \<and> ie_phase e = Claiming
        \<or> c = IcRecall i (ie_version e) (Inr ()) \<and> ie_phase e = Queued)) (in_entries s)"

fun joins :: "(string \<Rightarrow> string) \<Rightarrow> input_call \<Rightarrow> input_state \<Rightarrow> string list" where
  "joins sha (IcEnqueue i m d) s =
     (if i \<in> set (input_ids s) \<or> snd (input_enqueue sha i m d s) \<noteq> Inr () then [] else [i])"
| "joins sha c s = []"

lemma find_checked_Inr:
  assumes "find_checked i v s = Inr n"
  shows "n < length (in_entries s)" and "ie_id (in_entries s ! n) = i"
    and "ie_version (in_entries s ! n) = v" and "ie_phase (in_entries s ! n) = Queued"
  using assms position_Some[of "entry_named i" "in_entries s" n]
  by (auto simp: find_checked_def entry_check_def)

lemma checked_found:
  assumes "distinct (input_ids s)" and "e \<in> set (in_entries s)" and "ie_phase e = Queued"
  shows "\<exists>n. find_checked (ie_id e) (ie_version e) s = Inr n"
proof -
  obtain n where n: "position (entry_named (ie_id e)) (in_entries s) = Some n"
    using assms(2) position_None[of "entry_named (ie_id e)" "in_entries s"] by (cases "position (entry_named (ie_id e)) (in_entries s)") auto
  note at = position_Some[OF n]
  from at assms(1,2) have "in_entries s ! n = e"
    unfolding input_ids_def by (metis distinct_map inj_on_def nth_mem)
  with n assms(3) show ?thesis by (simp add: find_checked_def entry_check_def ensure_def)
qed

section \<open>Every call\<close>

lemma nth_update_ids:
  "n < length es \<Longrightarrow> ie_id x = ie_id (es ! n) \<Longrightarrow> map ie_id (es[n := x]) = map ie_id es"
  by (simp add: map_update list_update_same_conv)

lemma ids_unchanged:
  "input_ids (fst (input_claim b s)) = input_ids s"
  "input_ids (input_settled out s) = input_ids s"
  "input_ids (input_pause s) = input_ids s"
  "input_ids (fst (input_replace i v m d t s)) = input_ids s"
  "input_ids (fst (input_interrupt i v s)) = input_ids s"
proof -
  show "input_ids (fst (input_claim b s)) = input_ids s"
    by (auto simp: input_claim_def input_ids_def Let_def nth_update_ids split: option.splits)
  show "input_ids (input_settled out s) = input_ids s"
    by (simp add: input_settled_def Let_def input_ids_def comp_def if_distrib)
  show "input_ids (input_pause s) = input_ids s"
    by (simp add: input_pause_def input_ids_def comp_def if_distrib)
  show "input_ids (fst (input_replace i v m d t s)) = input_ids s"
    by (auto simp: input_replace_def input_ids_def nth_update_ids dest: find_checked_Inr(1) split: sum.splits)
  show "input_ids (fst (input_interrupt i v s)) = input_ids s"
    by (auto simp: input_interrupt_def input_ids_def nth_update_ids dest: find_checked_Inr(1) split: sum.splits)
qed

lemma flags_ids:
  "input_ids (input_begin_run s) = input_ids s" "input_ids (input_agent_started s) = input_ids s"
  "input_ids (input_terminal s) = input_ids s" "input_ids (prefer_initial i s) = input_ids s"
  "input_ids (references_done i s) = input_ids s" "input_ids (input_remember j d r s) = input_ids s"
  by (simp_all add: input_ids_def input_begin_run_def input_agent_started_def input_terminal_def
      prefer_initial_def references_done_def input_remember_def Let_def)

lemma committed_ids:
  assumes "distinct (input_ids s)"
  shows "input_ids (fst (input_committed sha i d s)) = filter (\<lambda>j. \<not> leaves sha (IcCommitted i d) s j) (input_ids s)"
proof (cases "position (\<lambda>e. ie_id e = i \<and> ie_phase e = Claiming \<and> request_digest sha (ie_message e) = d) (in_entries s)")
  case None
  then have "\<not> leaves sha (IcCommitted i d) s j" for j
    by (auto simp: leaves_def position_None list_ex_iff)
  with None show ?thesis by (simp add: input_committed_def)
next
  case (Some n)
  note at = position_Some[OF Some]
  have "leaves sha (IcCommitted i d) s j \<longleftrightarrow> j = i" for j
    using at by (auto simp: leaves_def list_ex_iff intro!: bexI[of _ "in_entries s ! n"])
  moreover have "map ie_id (remove_at n (in_entries s)) = filter (\<lambda>y. y \<noteq> i) (map ie_id (in_entries s))"
    using remove_at_filter[of n "in_entries s" ie_id] at assms by (simp add: input_ids_def)
  ultimately show ?thesis using Some by (simp add: input_committed_def Let_def input_ids_def)
qed

lemma recall_ids:
  assumes "distinct (input_ids s)"
  shows "input_ids (fst (input_recall i v (\<lambda>_. t) s)) = filter (\<lambda>j. \<not> leaves sha (IcRecall i v t) s j) (input_ids s)"
proof (cases "rbind (find_checked i v s) (\<lambda>n. rbind t (\<lambda>_. Inr n))")
  case (Inl e)
  have "\<not> leaves sha (IcRecall i v t) s j" for j
    using Inl checked_found[OF assms] by (fastforce simp: leaves_def list_ex_iff)
  with Inl show ?thesis by (simp add: input_recall_def)
next
  case (Inr n)
  then have c: "find_checked i v s = Inr n" and t: "t = Inr ()" by auto
  note at = find_checked_Inr[OF c]
  have "leaves sha (IcRecall i v t) s j \<longleftrightarrow> j = i" for j
    using at t by (auto simp: leaves_def list_ex_iff intro!: bexI[of _ "in_entries s ! n"])
  moreover have "map ie_id (remove_at n (in_entries s)) = filter (\<lambda>y. y \<noteq> i) (map ie_id (in_entries s))"
    using remove_at_filter[of n "in_entries s" ie_id] at assms by (simp add: input_ids_def)
  ultimately show ?thesis using Inr by (simp add: input_recall_def remove_checked_def input_ids_def)
qed

lemma enqueue_ids: "input_ids (fst (input_enqueue sha i m d s)) = input_ids s @ joins sha (IcEnqueue i m d) s"
proof (cases "find (entry_named i) (in_entries s)")
  case None
  then have "i \<notin> set (input_ids s)" by (auto simp: find_None input_ids_def)
  with None show ?thesis by (simp add: input_enqueue_def input_ids_def)
next
  case (Some e)
  then have "i \<in> set (input_ids s)" by (auto simp: find_Some_iff input_ids_def)
  with Some show ?thesis by (simp add: input_enqueue_def)
qed

lemma run_input_ids:
  assumes "distinct (input_ids s)"
  shows "input_ids (run_input sha c s) = filter (\<lambda>i. \<not> leaves sha c s i) (input_ids s) @ joins sha c s"
proof -
  have stay: "filter (\<lambda>i. \<not> leaves sha c s i) (input_ids s) = input_ids s"
    if "\<And>i d. c \<noteq> IcCommitted i d" "\<And>i v t. c \<noteq> IcRecall i v t"
    using that by (simp add: leaves_def list_ex_iff)
  show ?thesis
  proof (cases c)
    case (IcEnqueue i m d)
    with stay enqueue_ids[of sha i m d s] show ?thesis by simp
  next
    case (IcCommitted i d)
    with committed_ids[OF assms] show ?thesis by simp
  next
    case (IcRecall i v t)
    with recall_ids[OF assms] show ?thesis by simp
  qed (use stay in \<open>simp_all add: ids_unchanged flags_ids\<close>)
qed

text \<open>The rest of well-formedness.\<close>

definition rest_ok :: "input_state \<Rightarrow> bool" where
  "rest_ok s \<longleftrightarrow> length (in_entries s) \<le> 64 \<and> list_all entry_ok (in_entries s)
     \<and> (\<forall>i. in_handoff s = Some i \<longrightarrow> i \<in> set (input_ids s))
     \<and> list_all (\<lambda>e. ie_phase e = Interrupting \<longrightarrow> in_handoff s = Some (ie_id e)) (in_entries s)
     \<and> length (in_receipts s) \<le> 128"

lemma input_ok_rest: "input_ok s \<longleftrightarrow> distinct (input_ids s) \<and> rest_ok s"
  by (simp add: input_ok_def rest_ok_def)

lemma list_all_update: "list_all P xs \<Longrightarrow> P x \<Longrightarrow> list_all P (xs[n := x])"
  by (auto simp: list_all_iff dest: set_update_subset_insert[THEN subsetD])

lemma list_all_at: "list_all P xs \<Longrightarrow> n < length xs \<Longrightarrow> P (xs ! n)"
  by (simp add: list_all_length)

lemma enqueue_rest: "rest_ok s \<Longrightarrow> rest_ok (fst (input_enqueue sha i m d s))"
  by (auto simp: input_enqueue_def rest_ok_def input_ids_def entry_ok_def list_all_iff split: option.splits)

lemma claim_rest: "rest_ok s \<Longrightarrow> rest_ok (fst (input_claim b s))"
proof -
  assume ok: "rest_ok s"
  have "rest_ok (s\<lparr>in_entries := (in_entries s)[n := (in_entries s ! n)\<lparr>ie_phase := Claiming\<rparr>]\<rparr>)"
    if "n < length (in_entries s)" for n
    using ok that list_all_at[of entry_ok "in_entries s" n]
    by (auto simp: rest_ok_def input_ids_def nth_update_ids entry_ok_def intro!: list_all_update)
  with ok show ?thesis by (auto simp: input_claim_def Let_def split: option.splits)
qed

lemma removed_rest:
  assumes "rest_ok s" and "distinct (input_ids s)" and n: "n < length (in_entries s)" "ie_id (in_entries s ! n) = i"
    and s': "in_entries s' = remove_at n (in_entries s)" "in_handoff s' = clear_if i (in_handoff s)"
      "in_receipts s' = in_receipts s"
  shows "rest_ok s'"
proof -
  have ids: "map ie_id (remove_at n (in_entries s)) = filter (\<lambda>y. y \<noteq> i) (map ie_id (in_entries s))"
    using remove_at_filter[of n "in_entries s" ie_id] n assms(2) by (simp add: input_ids_def)
  have other: "e \<in> set (in_entries s)" "ie_id e \<noteq> i" if "e \<in> set (remove_at n (in_entries s))" for e
  proof -
    show "e \<in> set (in_entries s)" using that remove_at_subset by fast
    have "ie_id e \<in> set (map ie_id (remove_at n (in_entries s)))" using that by simp
    then show "ie_id e \<noteq> i" unfolding ids by simp
  qed
  have "length (remove_at n (in_entries s)) \<le> length (in_entries s)" by (simp add: remove_at_def)
  with assms(1) other show ?thesis unfolding rest_ok_def s' input_ids_def ids
    by (auto simp: list_all_iff clear_if_def)
qed

lemma committed_rest:
  assumes "rest_ok s" and "distinct (input_ids s)"
  shows "rest_ok (fst (input_committed sha i d s))"
proof (cases "position (\<lambda>e. ie_id e = i \<and> ie_phase e = Claiming \<and> request_digest sha (ie_message e) = d) (in_entries s)")
  case (Some n)
  note at = position_Some[OF Some]
  show ?thesis
    by (rule removed_rest[OF assms, of n i]) (use at Some in \<open>simp_all add: input_committed_def Let_def\<close>)
qed (use assms(1) in \<open>simp add: input_committed_def\<close>)

lemma recall_rest:
  assumes "rest_ok s" and "distinct (input_ids s)"
  shows "rest_ok (fst (input_recall i v t s))"
proof (cases "rbind (find_checked i v s) (\<lambda>n. rbind (t (in_entries s ! n)) (\<lambda>_. Inr n))")
  case (Inr n)
  then have c: "find_checked i v s = Inr n" by auto
  show ?thesis
    by (rule removed_rest[OF assms find_checked_Inr(1,2)[OF c]])
      (use Inr in \<open>simp_all add: input_recall_def remove_checked_def\<close>)
qed (use assms(1) in \<open>simp add: input_recall_def\<close>)

lemma settled_rest: "rest_ok s \<Longrightarrow> rest_ok (input_settled out s)"
  unfolding rest_ok_def ids_unchanged(2)
  by (auto simp: input_settled_def Let_def list_all_iff entry_ok_def)

lemma pause_rest: "rest_ok s \<Longrightarrow> rest_ok (input_pause s)"
  by (auto simp: rest_ok_def input_pause_def list_all_iff entry_ok_def)

lemma replace_rest: "rest_ok s \<Longrightarrow> rest_ok (fst (input_replace i v m d t s))"
proof -
  assume ok: "rest_ok s"
  have "rest_ok (s\<lparr>in_entries := (in_entries s)[n := (in_entries s ! n)\<lparr>ie_version := ver,
      ie_text := plain_text (pm_content m), ie_images := image_descriptors (pm_content m),
      ie_draft := d, ie_message := m\<rparr>]\<rparr>)" if "find_checked i v s = Inr n" for n ver
    using ok find_checked_Inr[OF that] list_all_at[of entry_ok "in_entries s" n]
      list_all_at[of _ "in_entries s" n]
    by (auto simp: rest_ok_def input_ids_def nth_update_ids entry_ok_def intro!: list_all_update)
  with ok show ?thesis by (auto simp: input_replace_def split: sum.splits)
qed

lemma interrupt_rest: "rest_ok s \<Longrightarrow> rest_ok (fst (input_interrupt i v s))"
proof -
  assume ok: "rest_ok s"
  have "rest_ok (s\<lparr>in_entries := (in_entries s)[n := (in_entries s ! n)\<lparr>ie_phase := Interrupting\<rparr>],
      in_handoff := Some i, in_paused := False\<rparr>)" if "find_checked i v s = Inr n" "in_handoff s = None" for n
  proof -
    note at = find_checked_Inr[OF that(1)]
    have "entry_ok (in_entries s ! n)" using ok at(1) by (simp add: rest_ok_def list_all_at)
    moreover have "i \<in> set (map ie_id (in_entries s))" using at(1,2) nth_mem by fastforce
    moreover have "list_all (\<lambda>e. ie_phase e = Interrupting \<longrightarrow> i = ie_id e) (in_entries s)"
      using ok that(2) by (auto simp: rest_ok_def list_all_iff)
    ultimately show ?thesis using ok at
      by (auto simp: rest_ok_def input_ids_def nth_update_ids entry_ok_def intro!: list_all_update)
  qed
  with ok show ?thesis by (auto simp: input_interrupt_def split: sum.splits)
qed

lemma flags_rest:
  assumes "rest_ok s"
  shows "rest_ok (input_begin_run s)" "rest_ok (input_agent_started s)" "rest_ok (input_terminal s)"
    "rest_ok (prefer_initial i s)" "rest_ok (references_done i s)" "rest_ok (input_remember j d r s)"
  using assms
  by (auto simp: rest_ok_def input_ids_def input_begin_run_def input_agent_started_def input_terminal_def
      prefer_initial_def references_done_def input_remember_def Let_def)

lemma joins_fresh: "set (joins sha c s) \<inter> set (input_ids s) = {}" "distinct (joins sha c s)"
  by (cases c; simp)+

lemma run_input_ok: "input_ok s \<Longrightarrow> input_ok (run_input sha c s)"
proof -
  assume ok: "input_ok s"
  then have d: "distinct (input_ids s)" and r: "rest_ok s" by (simp_all add: input_ok_rest)
  have "distinct (input_ids (run_input sha c s))"
    using d joins_fresh[of sha c s] by (auto simp: run_input_ids)
  moreover have "rest_ok (run_input sha c s)"
    by (cases c) (simp_all add: r d enqueue_rest claim_rest committed_rest recall_rest settled_rest pause_rest
        replace_rest interrupt_rest flags_rest)
  ultimately show ?thesis by (simp add: input_ok_rest)
qed

lemma run_inputs_ok: "input_ok (fold (run_input sha) calls input_new)"
proof -
  have "input_ok s \<Longrightarrow> input_ok (fold (run_input sha) calls s)" for s
    by (induction calls arbitrary: s) (simp_all add: run_input_ok)
  moreover have "input_ok input_new" by (simp add: input_ok_def input_new_def input_ids_def)
  ultimately show ?thesis by simp
qed

section \<open>Properties\<close>

text \<open>
  C32: After any sequence of calls the queue is well-formed: at most 64 inputs with distinct,
  non-empty ids, every view shows the text and the images of the message it stands for, an
  interrupting input is the one of the handoff, the handoff names an input that is there, and
  at most 128 operation receipts are remembered.
\<close>

theorem input_queue_ok: "input_ok (fold (run_input sha) calls input_new)"
  by (rule run_inputs_ok)

text \<open>
  C33: Seen as the list of its ids, the queue is a list to which only a successful enqueue of a
  new id appends, and from which an input disappears only by the commit of an admission that
  carries the digest of the message that was claimed, or by a recall of the version that was
  shown; no call reorders, duplicates or loses any other input.
\<close>

theorem input_never_lost:
  assumes "input_ok s"
  shows "input_ids (run_input sha c s) = filter (\<lambda>i. \<not> leaves sha c s i) (input_ids s) @ joins sha c s"
  using assms by (intro run_input_ids) (simp add: input_ok_def)

definition queued_input :: "string \<Rightarrow> input_state" where
  "queued_input i = fold (run_input (\<lambda>x. x))
     [IcEnqueue i \<lparr>pm_client_id = Some i, pm_content = [BlockText ''hi''], pm_staged = [], pm_images = [],
        pm_submission_digest = None\<rparr> \<lparr>dr_scope = None, dr_uploads = [], dr_references = []\<rparr>,
      IcClaim True] input_new"

theorem input_never_lost_witness:
  "input_ids (run_input (\<lambda>x. x) (IcCommitted ''a'' (request_digest (\<lambda>x. x) \<lparr>pm_client_id = Some ''a'',
      pm_content = [BlockText ''hi''], pm_staged = [], pm_images = [], pm_submission_digest = None\<rparr>))
      (queued_input ''a'')) = []"
proof -
  have ok: "input_ok (queued_input ''a'')" unfolding queued_input_def by (rule run_inputs_ok)
  have e: "queued_input ''a'' = input_new\<lparr>in_entries := [\<lparr>ie_id = ''a'', ie_version = 1, ie_phase = Claiming,
      ie_text = ''hi'', ie_images = [], ie_draft = \<lparr>dr_scope = None, dr_uploads = [], dr_references = []\<rparr>,
      ie_message = \<lparr>pm_client_id = Some ''a'', pm_content = [BlockText ''hi''], pm_staged = [],
        pm_images = [], pm_submission_digest = None\<rparr>\<rparr>]\<rparr>"
    by (simp add: queued_input_def input_enqueue_def input_claim_def claim_index_def input_new_def Let_def
        plain_text_def image_descriptors_def)
  show ?thesis unfolding input_never_lost[OF ok] by (simp add: e leaves_def input_ids_def input_new_def)
qed

end
