(* ===== verification/Patch.thy ===== *)
theory Patch
  imports Prelude
begin

text \<open>
  The single-file patch language of \<open>apply_patch.rs\<close>: the parser of the patch text and its
  application to the text of a file. Both are pure; a file is its bytes.
\<close>

section \<open>Patches\<close>

datatype patch_line = PlContext string | PlDelete string | PlAdd string

record patch_hunk =
  ph_label :: "string option"
  ph_lines :: "patch_line list"

record parsed_patch =
  pp_path :: string
  pp_hunks :: "patch_hunk list"

abbreviation lf :: char where "lf \<equiv> CHR 0x0A"
abbreviation cr :: char where "cr \<equiv> CHR 0x0D"

definition strip_cr :: "string \<Rightarrow> string" where
  "strip_cr s = (if s \<noteq> [] \<and> last s = cr then butlast s else s)"

definition unsupported_header :: "string \<Rightarrow> string" where
  "unsupported_header header =
     (if starts_with ''*** Add File:'' header \<or> starts_with ''*** Delete File:'' header
        \<or> starts_with ''*** Move to:'' header \<or> starts_with ''*** Update File:'' header
      then ''apply_patch: v1 supports exactly one existing `*** Update File:` target; unsupported `''
        @ header @ ''`''
      else ''apply_patch: invalid patch header `'' @ header @ ''`'')"

definition expect_line :: "string list \<Rightarrow> nat \<Rightarrow> string \<Rightarrow> string + nat" where
  "expect_line ls i expected =
     (let actual = (if i < length ls then ls ! i else []) in
      if actual \<noteq> expected then
        Inl (''apply_patch: expected `'' @ expected @ ''` as line '' @ show_nat (i + 1) @ '', got `''
          @ actual @ ''`'')
      else Inr (i + 1))"

fun is_add :: "patch_line \<Rightarrow> bool" where
  "is_add (PlAdd t) = True"
| "is_add _ = False"

fun is_context :: "patch_line \<Rightarrow> bool" where
  "is_context (PlContext t) = True"
| "is_context _ = False"

definition validate_hunk :: "patch_hunk \<Rightarrow> nat \<Rightarrow> string + unit" where
  "validate_hunk h n =
     (if ph_lines h = [] then Inl (''apply_patch: hunk '' @ show_nat n @ '' has no body'')
      else if length (filter (\<lambda>l. \<not> is_add l) (ph_lines h)) = 0 then
        Inl (''apply_patch: hunk '' @ show_nat n @ '' has no context/deletion anchor'')
      else if \<not> list_ex (\<lambda>l. \<not> is_context l) (ph_lines h) then
        Inl (''apply_patch: hunk '' @ show_nat n @ '' contains no change'')
      else Inr ())"

definition close_hunk :: "patch_hunk list \<Rightarrow> patch_hunk option \<Rightarrow> string + patch_hunk list" where
  "close_hunk hunks current =
     (case current of
        None \<Rightarrow> Inr hunks
      | Some h \<Rightarrow> rbind (validate_hunk h (length hunks + 1)) (\<lambda>_. Inr (hunks @ [h])))"

definition hunk_header :: "string \<Rightarrow> patch_hunk" where
  "hunk_header line =
     (let label = trim (if starts_with ''@@ '' line then drop 3 line else []) in
      \<lparr>ph_label = (if label = [] then None else Some label), ph_lines = []\<rparr>)"

definition body_line :: "string \<Rightarrow> string + patch_line" where
  "body_line line =
     (if line = [] \<or> \<not> is_char_boundary line 1 then
        Inl ''apply_patch: empty hunk line must carry a context/add/delete prefix''
      else if hd line = CHR '' '' then Inr (PlContext (tl line))
      else if hd line = CHR ''-'' then Inr (PlDelete (tl line))
      else if hd line = CHR ''+'' then Inr (PlAdd (tl line))
      else Inl (''apply_patch: hunk lines must start with space, `-`, or `+`; got `'' @ line @ ''`''))"

text \<open>The loop over the lines after the header; it answers with the lines after the end mark.\<close>

fun parse_body ::
  "string list \<Rightarrow> patch_hunk list \<Rightarrow> patch_hunk option \<Rightarrow> string + patch_hunk list \<times> string list" where
  "parse_body [] hunks current = Inl ''apply_patch: missing `*** End Patch`''"
| "parse_body (line # rest) hunks current =
     (if line = ''*** End Patch'' then rbind (close_hunk hunks current) (\<lambda>hs. Inr (hs, rest))
      else if starts_with ''*** '' line then Inl (unsupported_header line)
      else if line = ''@@'' \<or> starts_with ''@@ '' line then
        rbind (close_hunk hunks current) (\<lambda>hs. parse_body rest hs (Some (hunk_header line)))
      else if starts_with ''@@'' line then
        Inl (''apply_patch: hunk header must be `@@` or `@@ <label>`, got `'' @ line @ ''`'')
      else (case current of
          None \<Rightarrow> Inl (''apply_patch: expected `@@` before patch body, got `'' @ line @ ''`'')
        | Some h \<Rightarrow>
            rbind (body_line line) (\<lambda>l. parse_body rest hunks (Some (h\<lparr>ph_lines := ph_lines h @ [l]\<rparr>)))))"

definition parse_patch :: "string \<Rightarrow> string + parsed_patch" where
  "parse_patch input =
     (let ls = map strip_cr (split_on lf input) in
      rbind (expect_line ls 0 ''*** Begin Patch'') (\<lambda>i.
      if length ls \<le> i then Inl ''apply_patch: missing `*** Update File:` header''
      else let header = ls ! i in
        if \<not> starts_with ''*** Update File: '' header then Inl (unsupported_header header)
        else let path = trim (drop 17 header) in
          if path = [] then Inl ''apply_patch: update path must not be empty''
          else rbind (parse_body (drop (i + 1) ls) [] None) (\<lambda>(hunks, trailing).
            if 1 < length trailing \<or> (trailing \<noteq> [] \<and> hd trailing \<noteq> []) then
              Inl ''apply_patch: unexpected content after `*** End Patch`''
            else if hunks = [] then Inl ''apply_patch: at least one hunk is required''
            else Inr \<lparr>pp_path = path, pp_hunks = hunks\<rparr>)))"

section \<open>The lines of a file\<close>

datatype line_ending = EndNone | EndLf | EndCrLf

fun ending_text :: "line_ending \<Rightarrow> string" where
  "ending_text EndNone = []"
| "ending_text EndLf = [lf]"
| "ending_text EndCrLf = [cr, lf]"

record file_line =
  fl_text :: string
  fl_ending :: line_ending

definition ended_line :: "string \<Rightarrow> file_line" where
  "ended_line raw =
     (if raw \<noteq> [] \<and> last raw = cr then \<lparr>fl_text = butlast raw, fl_ending = EndCrLf\<rparr>
      else \<lparr>fl_text = raw, fl_ending = EndLf\<rparr>)"

text \<open>The scan for line feeds, with the text since the last one.\<close>

fun split_lines :: "string \<Rightarrow> string \<Rightarrow> file_line list" where
  "split_lines raw [] = (if raw = [] then [] else [\<lparr>fl_text = raw, fl_ending = EndNone\<rparr>])"
| "split_lines raw (c # s) =
     (if c = lf then ended_line raw # split_lines [] s else split_lines (raw @ [c]) s)"

definition split_file_lines :: "string \<Rightarrow> file_line list" where
  "split_file_lines content = split_lines [] content"

definition dominant_ending :: "file_line list \<Rightarrow> line_ending" where
  "dominant_ending ls =
     (if length (filter (\<lambda>l. fl_ending l = EndLf) ls) < length (filter (\<lambda>l. fl_ending l = EndCrLf) ls)
      then EndCrLf else EndLf)"

section \<open>Hunks\<close>

fun old_text :: "patch_line \<Rightarrow> string option" where
  "old_text (PlContext t) = Some t"
| "old_text (PlDelete t) = Some t"
| "old_text (PlAdd t) = None"

definition hunk_old :: "patch_hunk \<Rightarrow> string list" where
  "hunk_old h = List.map_filter old_text (ph_lines h)"

definition hunk_label :: "patch_hunk \<Rightarrow> string" where
  "hunk_label h = (case ph_label h of None \<Rightarrow> [] | Some l \<Rightarrow> '' (`'' @ l @ ''`)'')"

definition sequence_matches :: "file_line list \<Rightarrow> string list \<Rightarrow> nat list" where
  "sequence_matches ls old =
     (if old = [] \<or> length ls < length old then []
      else filter (\<lambda>i. map fl_text (take (length old) (drop i ls)) = old) [0..<length ls - length old + 1])"

definition fill_ending :: "line_ending \<Rightarrow> file_line \<Rightarrow> file_line" where
  "fill_ending e l = (if fl_ending l = EndNone then l\<lparr>fl_ending := e\<rparr> else l)"

text \<open>The walk over the hunk, with the matched lines that are not yet consumed.\<close>

fun hunk_lines :: "line_ending \<Rightarrow> patch_line list \<Rightarrow> file_line list \<Rightarrow> file_line list" where
  "hunk_lines e [] ls = []"
| "hunk_lines e (PlContext t # ps) (l # ls) = l # hunk_lines e ps ls"
| "hunk_lines e (PlDelete t # ps) (l # ls) = hunk_lines e ps ls"
| "hunk_lines e (PlAdd t # ps) ls = \<lparr>fl_text = t, fl_ending = e\<rparr> # hunk_lines e ps ls"
| "hunk_lines e (PlContext t # ps) [] = []"
| "hunk_lines e (PlDelete t # ps) [] = []"

definition end_lines :: "line_ending \<Rightarrow> bool \<Rightarrow> file_line list \<Rightarrow> file_line list" where
  "end_lines e followed ls =
     (if ls = [] then []
      else map (fill_ending e) (butlast ls) @ [if followed then fill_ending e (last ls) else last ls])"

fun join_with :: "string \<Rightarrow> string list \<Rightarrow> string" where
  "join_with sep [] = []"
| "join_with sep [x] = x"
| "join_with sep (x # y # xs) = x @ sep @ join_with sep (y # xs)"

definition apply_hunk :: "patch_hunk \<Rightarrow> nat \<Rightarrow> line_ending \<Rightarrow> file_line list \<Rightarrow> string + file_line list" where
  "apply_hunk h number dflt ls =
     (let old = hunk_old h in
      case sequence_matches ls old of
        [] \<Rightarrow> Inl (''apply_patch: hunk '' @ show_nat number @ hunk_label h
          @ '' did not match; read the file and retry with exact context'')
      | [i] \<Rightarrow>
          let matched = take (length old) (drop i ls);
              local_ending = (case find (\<lambda>l. fl_ending l \<noteq> EndNone) matched of
                Some l \<Rightarrow> fl_ending l | None \<Rightarrow> dflt);
              replacement = end_lines local_ending (i + length old < length ls)
                (hunk_lines local_ending (ph_lines h) matched) in
          Inr (take i ls @ replacement @ drop (i + length old) ls)
      | positions \<Rightarrow> Inl (''apply_patch: hunk '' @ show_nat number @ hunk_label h @ '' is ambiguous (''
          @ show_nat (length positions) @ '' matches at lines ''
          @ join_with '', '' (map (\<lambda>p. show_nat (p + 1)) positions) @ ''); add surrounding context''))"

fun apply_hunks :: "patch_hunk list \<Rightarrow> nat \<Rightarrow> line_ending \<Rightarrow> file_line list \<Rightarrow> string + file_line list" where
  "apply_hunks [] number dflt ls = Inr ls"
| "apply_hunks (h # hs) number dflt ls =
     rbind (apply_hunk h number dflt ls) (apply_hunks hs (number + 1) dflt)"

definition normalize_line_endings :: "line_ending \<Rightarrow> bool \<Rightarrow> file_line list \<Rightarrow> file_line list" where
  "normalize_line_endings dflt had_final_newline ls =
     (if ls = [] then []
      else map (fill_ending dflt) (butlast ls)
        @ [if had_final_newline then fill_ending dflt (last ls) else (last ls)\<lparr>fl_ending := EndNone\<rparr>])"

definition render_lines :: "file_line list \<Rightarrow> string" where
  "render_lines ls = concat (map (\<lambda>l. fl_text l @ ending_text (fl_ending l)) ls)"

definition bom :: string where
  "bom = [CHR 0xEF, CHR 0xBB, CHR 0xBF]"

definition apply_patch :: "string \<Rightarrow> parsed_patch \<Rightarrow> string + string" where
  "apply_patch original p =
     (let has_bom = starts_with bom original;
          content = (if has_bom then drop 3 original else original);
          had_final_newline = (content \<noteq> [] \<and> last content = lf);
          ls = split_file_lines content;
          dflt = dominant_ending ls in
      rbind (apply_hunks (pp_hunks p) 1 dflt ls) (\<lambda>ls.
      let out = (if has_bom then bom else [])
            @ render_lines (normalize_line_endings dflt had_final_newline ls) in
      if out = original then Inl ''apply_patch: patch would not change the file'' else Inr out))"

end
