(* ===== verification/FileEdit.thy ===== *)
theory FileEdit
  imports Patch Permission ModelContract
begin

text \<open>
  The exact-text editor of the tool \<open>edit_file\<close>: the search for occurrences and the plan of a
  batch of replacements (\<open>native_tools/edit.rs\<close>), the hints after a failed match
  (\<open>native_tools/edit_recovery.rs\<close>) and the diagnostics for rejected arguments
  (\<open>native_tools/argument_recovery.rs\<close>). All of it is pure; texts are their UTF-8 bytes.
\<close>

section \<open>Searching\<close>

text \<open>\<open>str::find\<close>, and the length of the code point that starts with a byte (\<open>len_utf8\<close>).\<close>

fun find_at :: "string \<Rightarrow> string \<Rightarrow> nat option" where
  "find_at p [] = (if p = [] then Some 0 else None)"
| "find_at p (c # s) = (if starts_with p (c # s) then Some 0 else map_option Suc (find_at p s))"

definition char_len :: "char \<Rightarrow> nat" where
  "char_len c = (if byte c < 128 then 1 else if byte c < 224 then 2 else if byte c < 240 then 3 else 4)"

lemma char_len_pos [simp]: "0 < char_len c"
  by (simp add: char_len_def)

text \<open>The iterator, from a cursor on.\<close>

function offsets_from :: "string \<Rightarrow> string \<Rightarrow> nat \<Rightarrow> nat list" where
  "offsets_from content needle cursor =
     (if length content < cursor \<or> \<not> is_char_boundary content cursor then []
      else case find_at needle (drop cursor content) of
          None \<Rightarrow> []
        | Some k \<Rightarrow> (case drop (cursor + k) content of
              [] \<Rightarrow> []
            | c # s \<Rightarrow> (cursor + k) # offsets_from content needle (cursor + k + char_len c)))"
  by pat_completeness auto
termination
proof (relation "measure (\<lambda>(content, needle, cursor). Suc (length content) - cursor)", goal_cases)
  case (2 content needle cursor k c s)
  then have "cursor \<le> length content" by simp
  with char_len_pos[of c] show ?case unfolding in_measure split by linarith
qed simp

declare offsets_from.simps [simp del]

definition offsets :: "string \<Rightarrow> string \<Rightarrow> nat list" where
  "offsets content needle = offsets_from content needle 0"

text \<open>\<open>str::lines\<close>\<close>

definition str_lines :: "string \<Rightarrow> string list" where
  "str_lines s = (let parts = split_on lf s in
     map strip_cr (butlast parts) @ (if last parts = [] then [] else [last parts]))"

section \<open>Hints after a failed match\<close>

definition jlen :: "nat \<Rightarrow> json" where
  "jlen n = JInt (int n)"

definition mismatch_anchor :: "string \<Rightarrow> string" where
  "mismatch_anchor old =
     take_chars 16 (trim_start (case find (\<lambda>line. trim line \<noteq> []) (str_lines old) of None \<Rightarrow> [] | Some l \<Rightarrow> l))"

definition mismatch_hint :: "string \<Rightarrow> nat \<Rightarrow> json" where
  "mismatch_hint content offset =
     (let line = length (filter (\<lambda>b. b = lf) (take offset content)) + 1;
          total = max (length (str_lines content)) 1 in
      JObj [(''start_line'', jlen (max (line - 2) 1)), (''end_line'', jlen (min (line + 2) total))])"

text \<open>The loop over the occurrences: at most 32 of them are looked at, at most three kept.\<close>

fun collect_hints :: "string \<Rightarrow> nat \<Rightarrow> nat list \<Rightarrow> json list \<Rightarrow> json list \<times> bool" where
  "collect_hints content seen [] candidates = (candidates, False)"
| "collect_hints content seen (x # xs) candidates =
     (if seen = 32 then (candidates, True)
      else let hint = mismatch_hint content x in
        if hint \<in> set candidates then collect_hints content (seen + 1) xs candidates
        else if length candidates = 3 then (candidates, True)
        else collect_hints content (seen + 1) xs (candidates @ [hint]))"

definition mismatch :: "string \<Rightarrow> string \<Rightarrow> nat \<Rightarrow> tool_error" where
  "mismatch content old index =
     (let count = length (offsets content old);
          (code, message) = (if count = 0 then
            (''not_found'', ''edit_file: `old_str` not found '' @ em_dash @ '' read the file and copy the exact text'')
          else (''ambiguous'', ''edit_file: `old_str` matches '' @ show_nat count @ '' times '' @ em_dash
            @ '' include surrounding lines to make it unique''));
          anchor = mismatch_anchor old;
          locator = (if 0 < count then old else anchor);
          (candidates, omitted) = (if 0 < count \<or> 8 \<le> char_count anchor
            then collect_hints content 0 (offsets content locator) [] else ([], False));
          line_endings = (if contains_sub [cr, lf] content then ''contains_crlf'' else ''lf_or_single_line'') in
      with_recovery (tool_error_new message) (JObj [
        (''code'', JStr code), (''edit_index'', jlen index), (''applied'', JBool False),
        (''candidates'', JArr candidates), (''candidates_omitted'', JBool omitted),
        (''line_endings'', JStr line_endings),
        (''next_action'', JStr (''Read the candidate windows with read_file (same path, start_line/end_line); ''
          @ ''hints are not exact matches. If empty, search this file for surrounding context. Copy byte-exact ''
          @ ''old_str and include unique context; CRLF bytes must be preserved. Retry only after inspecting the file.''))]))"

section \<open>The plan of a batch\<close>

record file_edit =
  ed_old :: string
  ed_new :: string

record replacement =
  rp_start :: nat
  rp_end :: nat
  rp_new :: string

definition max_write_bytes :: nat where
  "max_write_bytes = 1048576"

fun find_ranges :: "string \<Rightarrow> nat \<Rightarrow> file_edit list \<Rightarrow> tool_error + replacement list" where
  "find_ranges content index [] = Inr []"
| "find_ranges content index (e # es) =
     (case offsets content (ed_old e) of
        [start] \<Rightarrow> rbind (find_ranges content (index + 1) es) (\<lambda>rs.
          Inr (\<lparr>rp_start = start, rp_end = start + length (ed_old e), rp_new = ed_new e\<rparr> # rs))
      | _ \<Rightarrow> Inl (mismatch content (ed_old e) index))"

definition ranges_overlap :: "replacement list \<Rightarrow> bool" where
  "ranges_overlap rs = list_ex (\<lambda>(a, b). rp_start b < rp_end a) (zip rs (tl rs))"

definition replace_range :: "replacement \<Rightarrow> string \<Rightarrow> string" where
  "replace_range r s = take (rp_start r) s @ rp_new r @ drop (rp_end r) s"

definition edit_plan :: "string \<Rightarrow> file_edit list \<Rightarrow> tool_error + string" where
  "edit_plan content edits =
     rbind (find_ranges content 0 edits) (\<lambda>ranges.
     let rs = sort_key rp_start ranges in
     if ranges_overlap rs then Inl (tool_error_new ''edit_file: edit ranges overlap; file preserved'')
     else let removed = sum_list (map (\<lambda>r. rp_end r - rp_start r) rs);
              added = sum_list (map (\<lambda>r. length (rp_new r)) rs);
              size' = length content - removed + added in
       if max_write_bytes < size' then
         Inl (tool_error_new (''edit_file: result would exceed '' @ show_nat max_write_bytes @ '' bytes''))
       else Inr (fold replace_range (rev rs) content))"

section \<open>Rejected arguments\<close>

definition request_keys :: "string list" where
  "request_keys = [''path'', ''old_str'', ''new_str'', ''edits'']"

definition edit_keys :: "string list" where
  "edit_keys = [''old_str'', ''new_str'']"

record edit_issues =
  is_values :: "json list"
  is_count :: nat
  is_first :: "string option"

definition no_issues :: edit_issues where
  "no_issues = \<lparr>is_values = [], is_count = 0, is_first = None\<rparr>"

definition index_json :: "nat option \<Rightarrow> json" where
  "index_json index = (case index of None \<Rightarrow> JNull | Some n \<Rightarrow> jlen n)"

definition add_issue :: "nat option \<Rightarrow> string \<Rightarrow> string \<Rightarrow> edit_issues \<Rightarrow> edit_issues" where
  "add_issue index code message s = s\<lparr>
     is_count := is_count s + 1,
     is_first := (case is_first s of None \<Rightarrow> Some message | Some m \<Rightarrow> Some m),
     is_values := (if length (is_values s) < 8
       then is_values s @ [JObj [(''edit_index'', index_json index), (''code'', JStr code)]] else is_values s)\<rparr>"

definition check_issue_keys :: "json \<Rightarrow> string list \<Rightarrow> nat option \<Rightarrow> edit_issues \<Rightarrow> edit_issues" where
  "check_issue_keys v allowed index s =
     (case as_object v of
        None \<Rightarrow> add_issue index ''expected_object'' ''edit_file: expected object'' s
      | Some es \<Rightarrow>
          if list_ex (\<lambda>(k, _). k \<notin> set allowed) es
          then add_issue index ''unknown_argument'' ''edit_file: unknown argument'' s else s)"

definition finish_issues :: "edit_issues \<Rightarrow> tool_error + unit" where
  "finish_issues s =
     (case is_first s of
        None \<Rightarrow> Inr ()
      | Some message \<Rightarrow> Inl (with_recovery (tool_error_new message) (JObj [
          (''kind'', JStr ''arguments''), (''code'', JStr ''invalid_edit_arguments''), (''applied'', JBool False),
          (''issues'', JArr (is_values s)), (''issues_omitted'', jlen (is_count s - length (is_values s))),
          (''allowed_request_fields'', JArr (map JStr request_keys)),
          (''allowed_edit_fields'', JArr (map JStr edit_keys)),
          (''next_action'', JStr (''The entire batch was rejected before reading or writing the target. Correct all ''
            @ ''listed entries against the same original snapshot, then resubmit only if still authorized. Identical ''
            @ ''strings are not a replacement: remove that entry if unintended. Use only allowed fields; do not rename ''
            @ ''unexpected source text into a key. No entries were applied and no retry was scheduled.''))])))"

definition check_entry :: "json \<Rightarrow> nat \<Rightarrow> edit_issues \<Rightarrow> edit_issues" where
  "check_entry v index s =
     (let s = check_issue_keys v edit_keys (Some index) s in
      if as_object v = None then s
      else let old = Option.bind (json_get v ''old_str'') as_str;
               new = Option.bind (json_get v ''new_str'') as_str in
        if old = None \<or> new = None then
          add_issue (Some index) ''missing_string'' ''edit_file: old_str and new_str must be strings'' s
        else if old = Some [] then
          add_issue (Some index) ''empty_match'' ''edit_file: `old_str` must not be empty'' s
        else if old = new then
          add_issue (Some index) ''identical_strings'' ''edit_file: `old_str` and `new_str` are identical'' s
        else s)"

fun check_entries :: "json list \<Rightarrow> nat \<Rightarrow> edit_issues \<Rightarrow> edit_issues" where
  "check_entries [] index s = s"
| "check_entries (v # vs) index s = check_entries vs (index + 1) (check_entry v index s)"

definition or_null :: "json option \<Rightarrow> json" where
  "or_null v = (case v of None \<Rightarrow> JNull | Some j \<Rightarrow> j)"

definition batch_list :: "json \<Rightarrow> json list option" where
  "batch_list batch = (case as_array batch of
     None \<Rightarrow> None | Some l \<Rightarrow> if 1 \<le> length l \<and> length l \<le> 64 then Some l else None)"

definition validate_edit :: "json \<Rightarrow> tool_error + unit" where
  "validate_edit args =
     (let s = check_issue_keys args request_keys None no_issues in
      finish_issues (case json_get args ''edits'' of
          Some batch \<Rightarrow>
            let s = (if json_get args ''old_str'' \<noteq> None \<or> json_get args ''new_str'' \<noteq> None
              then add_issue None ''mixed_forms'' ''edit_file: use edits OR old_str/new_str, not both'' s else s) in
            (case batch_list batch of
               Some l \<Rightarrow> check_entries l 0 s
             | None \<Rightarrow> add_issue None ''invalid_batch'' ''edit_file: edits requires 1..=64 entries'' s)
        | None \<Rightarrow>
            if as_object args \<noteq> None then
              check_entry (JObj [(''old_str'', or_null (json_get args ''old_str'')),
                (''new_str'', or_null (json_get args ''new_str''))]) 0 s
            else s))"

definition recovery_output :: "tool_error \<Rightarrow> json" where
  "recovery_output e =
     (let value = JObj [(''error'', JStr (te_message e))] in
      case te_recovery e of
        None \<Rightarrow> value
      | Some r \<Rightarrow> json_set value
          (if json_index r ''kind'' = JStr ''arguments'' then ''argument_recovery'' else ''edit_recovery'') r)"

definition invalid_range :: "u64 \<Rightarrow> u64 \<Rightarrow> tool_error" where
  "invalid_range start end' =
     with_recovery (tool_error_new ''read_file: `end_line` must be greater than or equal to `start_line`'')
       (JObj [(''kind'', JStr ''arguments''), (''code'', JStr ''invalid_line_range''),
         (''operation_started'', JBool False), (''start_line'', jnat start), (''end_line'', jnat end'),
         (''next_action'', JStr (''Check the intended inclusive line range and resubmit the same path with end_line >= ''
           @ ''start_line. Do not automatically swap bounds or widen the read. For continuation use the exact prior ''
           @ ''next_cursor and expected_file_version. No file was opened by this rejected call.''))])"

section \<open>Reading the arguments\<close>

definition string_arg :: "json \<Rightarrow> string \<Rightarrow> string option" where
  "string_arg args name = Option.bind (json_get args name) as_str"

definition required_string_arg :: "json \<Rightarrow> string \<Rightarrow> string \<Rightarrow> tool_error + string" where
  "required_string_arg args name tool =
     ok_or (string_arg args name) (tool_error_new (tool @ '': `'' @ name @ ''` must be a string''))"

definition check_keys :: "json \<Rightarrow> string list \<Rightarrow> tool_error + unit" where
  "check_keys v allowed =
     (case as_object v of
        None \<Rightarrow> Inl (tool_error_new ''edit_file: expected object'')
      | Some es \<Rightarrow> ensure (\<not> list_ex (\<lambda>(k, _). k \<notin> set allowed) es)
          (tool_error_new ''edit_file: unknown argument''))"

text \<open>The closure over the entries, with the bytes of text so far; the sum cannot saturate.\<close>

fun read_edits :: "bool \<Rightarrow> nat \<Rightarrow> json list \<Rightarrow> tool_error + file_edit list" where
  "read_edits batch bytes [] = Inr []"
| "read_edits batch bytes (v # vs) =
     rbind (if batch then check_keys v [''old_str'', ''new_str''] else Inr ()) (\<lambda>_.
     rbind (required_string_arg v ''old_str'' ''edit_file'') (\<lambda>old.
     rbind (required_string_arg v ''new_str'' ''edit_file'') (\<lambda>new.
     rbind (ensure (old \<noteq> []) (tool_error_new ''edit_file: `old_str` must not be empty'')) (\<lambda>_.
     rbind (ensure (old \<noteq> new) (tool_error_new ''edit_file: `old_str` and `new_str` are identical'')) (\<lambda>_.
     let bytes = bytes + length old + length new in
     rbind (ensure (bytes \<le> 2 * max_write_bytes)
       (tool_error_new ''edit_file: combined edit text exceeds 2 MiB'')) (\<lambda>_.
     rbind (read_edits batch bytes vs) (\<lambda>es. Inr (\<lparr>ed_old = old, ed_new = new\<rparr> # es))))))))"

definition parse_edits :: "json \<Rightarrow> tool_error + file_edit list" where
  "parse_edits args =
     rbind (validate_edit args) (\<lambda>_.
     rbind (check_keys args [''path'', ''old_str'', ''new_str'', ''edits'']) (\<lambda>_.
     rbind (case json_get args ''edits'' of
         Some batch \<Rightarrow>
           if json_get args ''old_str'' \<noteq> None \<or> json_get args ''new_str'' \<noteq> None then
             Inl (tool_error_new ''edit_file: use edits OR old_str/new_str, not both'')
           else ok_or (batch_list batch) (tool_error_new ''edit_file: edits requires 1..=64 entries'')
       | None \<Rightarrow> Inr [args]) (\<lambda>values.
     read_edits (json_get args ''edits'' \<noteq> None) 0 values)))"

end
