(* ===== verification/FileTarget.thy ===== *)
theory FileTarget
  imports FileEdit
begin

text \<open>
  The write path of the file tools: the bound target of a write (\<open>project.rs\<close>), the
  publication of a complete temporary file (\<open>project/write.rs\<close>), the ledger of native
  writes (\<open>project/review.rs\<close>) and the writes a human makes while recovering a file
  (\<open>project/human_write.rs\<close>), on Unix.

  A directory maps names to nodes. The program touches it in single accesses; before each of
  them other processes may change every directory, and any access may fail. What the others do
  and which accesses fail is the environment, a parameter. A file that is open is a node of its
  own: what others write into it shows when it is read.
\<close>

section \<open>Files, directories and the environment\<close>

datatype io_kind =
  NotFound | AlreadyExists | PermissionDenied | InvalidInput | InvalidData | ResourceBusy | OtherKind

record io_error =
  io_kind :: io_kind
  io_message :: string

definition io_error_new :: "io_kind \<Rightarrow> string \<Rightarrow> io_error" where
  "io_error_new k m = \<lparr>io_kind = k, io_message = m\<rparr>"

definition io_other :: "string \<Rightarrow> io_error" where
  "io_other m = io_error_new OtherKind m"

record fs_file =
  ff_bytes :: string
  ff_mode :: u32
  ff_identity :: string
  ff_modified :: string

datatype fs_node = NodeFile fs_file | NodeLink | NodeDir | NodeSpecial

type_synonym dir = "string \<Rightarrow> fs_node option"

record stamp =
  st_hash :: string
  st_modified :: string
  st_identity :: string
  st_readonly :: bool
  st_mode :: u32

record confirmed_capture =
  cc_after :: string
  cc_stamp :: stamp

record capture_entry =
  ce_path :: string
  ce_before :: "string option"
  ce_after :: string
  ce_stamp :: "stamp option"
  ce_previous :: "confirmed_capture option"
  ce_status :: string
  ce_mixed :: bool
  ce_recovery_path :: "string option"
  ce_note :: string
  ce_before_readonly :: bool
  ce_before_mode :: "u32 option"

record ledger =
  lg_session :: string
  lg_turn :: u64
  lg_root :: string
  lg_files :: "capture_entry list"

text \<open>
  The state: all directories by their identity, the count of accesses so far, the directory
  that is locked, the active ledger of the review and the ledgers on disk. The last field
  records what the program itself did to the directories.
\<close>

record fs =
  fs_dirs :: "string \<Rightarrow> dir"
  fs_clock :: nat
  fs_locked :: "string option"
  fs_active :: "ledger option"
  fs_saved :: "string \<Rightarrow> ledger option"
  fs_done :: "((string \<Rightarrow> dir) \<times> (string \<Rightarrow> dir)) list"

record fs_env =
  fe_fault :: "nat \<Rightarrow> io_error option"
  fe_between :: "nat \<Rightarrow> string option \<Rightarrow> (string \<Rightarrow> dir) \<Rightarrow> (string \<Rightarrow> dir)"
  fe_inplace :: "nat \<Rightarrow> string option \<Rightarrow> fs_file \<Rightarrow> fs_file"
  fe_fresh :: "nat \<Rightarrow> fs_file"
  fe_temp_name :: "nat \<Rightarrow> string"
  fe_sha :: "string \<Rightarrow> string"
  fe_record_size :: "ledger \<Rightarrow> nat"
  fe_utf8_error :: "string \<Rightarrow> string"
  fe_cancelled :: "nat \<Rightarrow> bool"
  fe_canonicalize :: "nat \<Rightarrow> string \<Rightarrow> io_error + string"
  fe_open_ambient :: "nat \<Rightarrow> string \<Rightarrow> io_error + string"
  fe_open_dir :: "nat \<Rightarrow> string \<Rightarrow> string \<Rightarrow> io_error + string"
  fe_create_dirs :: "nat \<Rightarrow> string \<Rightarrow> string \<Rightarrow> io_error + unit"

type_synonym ('e, 'a) io_op = "fs \<Rightarrow> ('e + 'a) \<times> fs"

definition io_return :: "'a \<Rightarrow> ('e, 'a) io_op" where
  "io_return x s = (Inr x, s)"

definition io_fail :: "'e \<Rightarrow> ('e, 'a) io_op" where
  "io_fail e s = (Inl e, s)"

definition io_bind :: "('e, 'a) io_op \<Rightarrow> ('a \<Rightarrow> ('e, 'b) io_op) \<Rightarrow> ('e, 'b) io_op" where
  "io_bind m f s = (case m s of (Inl e, s') \<Rightarrow> (Inl e, s') | (Inr x, s') \<Rightarrow> f x s')"

text \<open>The result as a value, for a \<open>match\<close> on it, and back.\<close>

definition io_try :: "('e, 'a) io_op \<Rightarrow> ('d, 'e + 'a) io_op" where
  "io_try m s = (case m s of (r, s') \<Rightarrow> (Inr r, s'))"

definition io_lift :: "'e + 'a \<Rightarrow> ('e, 'a) io_op" where
  "io_lift r s = (r, s)"

definition io_map_err :: "('d \<Rightarrow> 'e) \<Rightarrow> ('d, 'a) io_op \<Rightarrow> ('e, 'a) io_op" where
  "io_map_err h m s = (case m s of (Inl e, s') \<Rightarrow> (Inl (h e), s') | (Inr x, s') \<Rightarrow> (Inr x, s'))"

text \<open>One access: the others move, then it fails or takes effect.\<close>

definition access :: "fs_env \<Rightarrow> ((string \<Rightarrow> dir) \<Rightarrow> (io_error + 'a) \<times> (string \<Rightarrow> dir)) \<Rightarrow> (io_error, 'a) io_op" where
  "access E f s =
     (let D = fe_between E (fs_clock s) (fs_locked s) (fs_dirs s);
          s' = s\<lparr>fs_dirs := D, fs_clock := fs_clock s + 1\<rparr> in
      case fe_fault E (fs_clock s) of
        Some e \<Rightarrow> (Inl e, s')
      | None \<Rightarrow> (case f D of (r, D') \<Rightarrow> (r, s'\<lparr>fs_dirs := D', fs_done := fs_done s @ [(D, D')]\<rparr>)))"

text \<open>An access that only looks, and one that looks at an open file.\<close>

definition look :: "fs_env \<Rightarrow> ((string \<Rightarrow> dir) \<Rightarrow> io_error + 'a) \<Rightarrow> (io_error, 'a) io_op" where
  "look E f = access E (\<lambda>D. (f D, D))"

definition look_open :: "fs_env \<Rightarrow> fs_file \<Rightarrow> (io_error, fs_file) io_op" where
  "look_open E f s = look E (\<lambda>_. Inr (fe_inplace E (fs_clock s) (fs_locked s) f)) s"

text \<open>The guard: the lock of a directory is held until the operation returns.\<close>

definition with_guard :: "fs_env \<Rightarrow> string \<Rightarrow> (io_error, 'a) io_op \<Rightarrow> (io_error, 'a) io_op" where
  "with_guard E h m = io_bind (look E (\<lambda>_. Inr ())) (\<lambda>_ s.
     case m (s\<lparr>fs_locked := Some h\<rparr>) of (r, s') \<Rightarrow> (r, s'\<lparr>fs_locked := None\<rparr>))"

section \<open>Reading\<close>

record write_target =
  wt_parent :: string
  wt_name :: string
  wt_capture :: "string option"

definition not_found :: io_error where
  "not_found = io_error_new NotFound ''No such file or directory (os error 2)''"

definition link_refused :: io_error where
  "link_refused = io_error_new PermissionDenied ''write target must not be a symbolic link''"

definition symlink_metadata :: "fs_env \<Rightarrow> write_target \<Rightarrow> (io_error, fs_node) io_op" where
  "symlink_metadata E t = look E (\<lambda>D. case D (wt_parent t) (wt_name t) of None \<Rightarrow> Inl not_found | Some n \<Rightarrow> Inr n)"

definition is_file :: "fs_env \<Rightarrow> write_target \<Rightarrow> (io_error, bool) io_op" where
  "is_file E t = io_bind (symlink_metadata E t) (\<lambda>n.
     case n of NodeLink \<Rightarrow> io_fail link_refused | NodeFile f \<Rightarrow> io_return True | _ \<Rightarrow> io_return False)"

definition reject_final_symlink :: "fs_env \<Rightarrow> write_target \<Rightarrow> (io_error, unit) io_op" where
  "reject_final_symlink E t = io_bind (io_try (symlink_metadata E t)) (\<lambda>r.
     case r of
       Inr NodeLink \<Rightarrow> io_fail link_refused
     | Inr _ \<Rightarrow> io_return ()
     | Inl e \<Rightarrow> if io_kind e = NotFound then io_return () else io_fail e)"

text \<open>Opened without following a link, then checked on the handle.\<close>

definition open_regular_nofollow :: "fs_env \<Rightarrow> write_target \<Rightarrow> (io_error, fs_file) io_op" where
  "open_regular_nofollow E t =
     io_bind (look E (\<lambda>D. case D (wt_parent t) (wt_name t) of
         None \<Rightarrow> Inl not_found
       | Some NodeLink \<Rightarrow> Inl (io_other ''Too many levels of symbolic links (os error 40)'')
       | Some n \<Rightarrow> Inr n)) (\<lambda>n.
     io_bind (look E (\<lambda>_. Inr ())) (\<lambda>_.
     case n of
       NodeFile f \<Rightarrow> io_return f
     | _ \<Rightarrow> io_fail (io_error_new InvalidInput ''write target is not a regular file'')))"

text \<open>\<open>String::from_utf8\<close>: no overlong forms, no surrogates, nothing above U+10FFFF.\<close>

definition in_range :: "nat \<Rightarrow> nat \<Rightarrow> char \<Rightarrow> bool" where
  "in_range a b c \<longleftrightarrow> a \<le> byte c \<and> byte c \<le> b"

fun valid_utf8 :: "string \<Rightarrow> bool" where
  "valid_utf8 [] = True"
| "valid_utf8 (a # s) =
    (if byte a < 128 then valid_utf8 s
     else case s of
       [] \<Rightarrow> False
     | b # s \<Rightarrow>
         if in_range 0xC2 0xDF a then is_continuation b \<and> valid_utf8 s
         else case s of
           [] \<Rightarrow> False
         | c # s \<Rightarrow>
             if in_range 0xE0 0xEF a then
               in_range (if byte a = 0xE0 then 0xA0 else 0x80) (if byte a = 0xED then 0x9F else 0xBF) b
               \<and> is_continuation c \<and> valid_utf8 s
             else case s of
               [] \<Rightarrow> False
             | d # s \<Rightarrow>
                 in_range 0xF0 0xF4 a
                 \<and> in_range (if byte a = 0xF0 then 0x90 else 0x80) (if byte a = 0xF4 then 0x8F else 0xBF) b
                 \<and> is_continuation c \<and> is_continuation d \<and> valid_utf8 s)"

definition read_utf8_limited :: "fs_env \<Rightarrow> fs_file \<Rightarrow> nat \<Rightarrow> (io_error, string) io_op" where
  "read_utf8_limited E f max_bytes = io_bind (look_open E f) (\<lambda>g.
     let bytes = take (max_bytes + 1) (ff_bytes g) in
     if max_bytes < length bytes then
       io_fail (io_error_new InvalidData (''file exceeds the '' @ show_nat max_bytes @ ''-byte file cap''))
     else if \<not> valid_utf8 bytes then io_fail (io_error_new InvalidData (fe_utf8_error E bytes))
     else io_return bytes)"

definition read_to_string_limited :: "fs_env \<Rightarrow> write_target \<Rightarrow> nat \<Rightarrow> (io_error, string) io_op" where
  "read_to_string_limited E t max_bytes =
     io_bind (open_regular_nofollow E t) (\<lambda>f. read_utf8_limited E f max_bytes)"

definition reader_matches_expected :: "fs_env \<Rightarrow> fs_file \<Rightarrow> string \<Rightarrow> (io_error, bool) io_op" where
  "reader_matches_expected E f expected = io_bind (look_open E f) (\<lambda>g.
     io_return (take (length expected + 1) (ff_bytes g) = expected))"

section \<open>The ledger of native writes\<close>

definition capture_bytes :: nat where
  "capture_bytes = 1048576"

definition record_bytes :: nat where
  "record_bytes = 16777216"

definition capture_files :: nat where
  "capture_files = 100"

definition file_stamp :: "fs_env \<Rightarrow> string \<Rightarrow> fs_file \<Rightarrow> stamp" where
  "file_stamp E content f = \<lparr>st_hash = fe_sha E content, st_modified = ff_modified f,
     st_identity = ff_identity f, st_readonly = (and (ff_mode f) 0x92 = 0), st_mode = ff_mode f\<rparr>"

definition validate_project_path :: "string \<Rightarrow> io_error + unit" where
  "validate_project_path p =
     (if path_is_absolute p then Inl (io_error_new PermissionDenied ''absolute paths are not allowed'')
      else if ''..'' \<in> set (split_on (CHR ''/'') p) then
        Inl (io_error_new PermissionDenied ''parent traversal is not allowed'')
      else Inr ())"

definition confirmed_after :: "capture_entry \<Rightarrow> string option" where
  "confirmed_after e =
     (if ce_status e \<noteq> ''prepared'' \<and> ce_stamp e \<noteq> None then Some (ce_after e)
      else map_option cc_after (ce_previous e))"

definition ledger_name :: "fs_env \<Rightarrow> string \<Rightarrow> u64 \<Rightarrow> string" where
  "ledger_name E session turn = fe_sha E session @ ''-'' @ show_nat (unat turn) @ ''.json''"

definition review_save :: "fs_env \<Rightarrow> ledger \<Rightarrow> (io_error, unit) io_op" where
  "review_save E lg =
     (if record_bytes < fe_record_size E lg then io_fail (io_other ''native recovery record limit reached'')
      else io_bind (look E (\<lambda>_. Inr ())) (\<lambda>_ s.
        (Inr (), s\<lparr>fs_saved := (fs_saved s)(ledger_name E (lg_session lg) (lg_turn lg) \<mapsto> lg)\<rparr>)))"

definition capture_valid :: "fs_env \<Rightarrow> capture_entry \<Rightarrow> io_error + unit" where
  "capture_valid E e =
     rbind (validate_project_path (ce_path e)) (\<lambda>_.
     ensure (\<not> ((case ce_before e of None \<Rightarrow> False | Some b \<Rightarrow> capture_bytes < length b)
         \<or> capture_bytes < length (ce_after e)
         \<or> (case ce_previous e of None \<Rightarrow> False | Some c \<Rightarrow>
              capture_bytes < length (cc_after c) \<or> st_hash (cc_stamp c) \<noteq> fe_sha E (cc_after c))))
       (io_other ''recovery file exceeds limit''))"

definition review_load :: "fs_env \<Rightarrow> string \<Rightarrow> string \<Rightarrow> u64 \<Rightarrow> (io_error, ledger option) io_op" where
  "review_load E root session turn = io_bind (look E (\<lambda>_. Inr ())) (\<lambda>_ s.
     case fs_saved s (ledger_name E session turn) of
       None \<Rightarrow> (Inr None, s)
     | Some lg \<Rightarrow>
         (if record_bytes < fe_record_size E lg then Inl (io_other ''recovery record exceeds limit'')
          else if lg_session lg \<noteq> session \<or> lg_turn lg \<noteq> turn \<or> lg_root lg \<noteq> root
            \<or> capture_files < length (lg_files lg) then Inl (io_other ''recovery identity/version mismatch'')
          else rbind (for_each (capture_valid E) (lg_files lg)) (\<lambda>_. Inr (Some lg)), s))"

definition review_begin :: "fs_env \<Rightarrow> string \<Rightarrow> string \<Rightarrow> u64 \<Rightarrow> (io_error, unit) io_op" where
  "review_begin E root session turn =
     io_bind (review_load E root session turn) (\<lambda>found.
     if found \<noteq> None then io_fail (io_other ''file review turn already exists'')
     else let lg = \<lparr>lg_session = session, lg_turn = turn, lg_root = root, lg_files = []\<rparr> in
       io_bind (review_save E lg) (\<lambda>_ s. (Inr (), s\<lparr>fs_active := Some lg\<rparr>)))"

definition review_end :: "fs \<Rightarrow> fs" where
  "review_end s = s\<lparr>fs_active := None\<rparr>"

definition prepared_again :: "string \<Rightarrow> stamp option \<Rightarrow> capture_entry \<Rightarrow> capture_entry" where
  "prepared_again after previous e = e\<lparr>
     ce_previous := (case ce_stamp e of None \<Rightarrow> ce_previous e
       | Some st \<Rightarrow> Some \<lparr>cc_after = ce_after e, cc_stamp = st\<rparr>),
     ce_mixed := (ce_mixed e \<or> ce_stamp e \<noteq> previous \<or> ce_status e \<noteq> ''captured''),
     ce_after := after, ce_stamp := None, ce_status := ''prepared''\<rparr>"

definition review_prepare ::
  "fs_env \<Rightarrow> string \<Rightarrow> string option \<Rightarrow> string \<Rightarrow> stamp option \<Rightarrow> (io_error, (string \<times> u64) option) io_op" where
  "review_prepare E path before after previous s =
     (case fs_active s of
        None \<Rightarrow> (Inr None, s)
      | Some lg \<Rightarrow>
          let named = (\<lambda>e. ce_path e = path) in
          if find named (lg_files lg) = None \<and> capture_files \<le> length (lg_files lg) then
            (Inl (io_other ''native recovery file limit reached''), s)
          else let lg' = lg\<lparr>lg_files :=
              (if find named (lg_files lg) \<noteq> None then update_first named (prepared_again after previous) (lg_files lg)
               else lg_files lg @ [\<lparr>ce_path = path, ce_before = before, ce_after = after, ce_stamp = None,
                 ce_previous = None, ce_status = ''prepared'', ce_mixed = False, ce_recovery_path = None, ce_note = [],
                 ce_before_readonly = (case previous of None \<Rightarrow> False | Some st \<Rightarrow> st_readonly st),
                 ce_before_mode = map_option st_mode previous\<rparr>])\<rparr> in
            io_bind (review_save E lg') (\<lambda>_ s. (Inr (Some (lg_session lg', lg_turn lg')), s\<lparr>fs_active := Some lg'\<rparr>)) s)"

definition captured :: "fs_env \<Rightarrow> stamp \<Rightarrow> capture_entry \<Rightarrow> capture_entry" where
  "captured E st e = e\<lparr>ce_mixed := (ce_mixed e \<or> st_hash st \<noteq> fe_sha E (ce_after e)),
     ce_stamp := Some st, ce_previous := None, ce_status := ''captured''\<rparr>"

definition review_finish :: "fs_env \<Rightarrow> string \<times> u64 \<Rightarrow> string \<Rightarrow> stamp \<Rightarrow> (io_error, unit) io_op" where
  "review_finish E owner path st s =
     (case fs_active s of
        None \<Rightarrow> (Inl (io_other ''file review binding lost''), s)
      | Some lg \<Rightarrow>
          if (lg_session lg, lg_turn lg) \<noteq> owner then (Inl (io_other ''file review owner changed''), s)
          else if find (\<lambda>e. ce_path e = path) (lg_files lg) = None then (Inl (io_other ''capture missing''), s)
          else let lg' = lg\<lparr>lg_files := update_first (\<lambda>e. ce_path e = path) (captured E st) (lg_files lg)\<rparr> in
            io_bind (review_save E lg') (\<lambda>_ s. (Inr (), s\<lparr>fs_active := Some lg'\<rparr>)) s)"

section \<open>Capturing\<close>

definition prepare_capture :: "fs_env \<Rightarrow> write_target \<Rightarrow> string \<Rightarrow> (io_error, (string \<times> u64) option) io_op" where
  "prepare_capture E t content =
     (case wt_capture t of
        None \<Rightarrow> io_return None
      | Some path \<Rightarrow>
          if capture_bytes < length content then io_fail (io_other ''native recovery file limit reached'')
          else io_bind (io_try (open_regular_nofollow E t)) (\<lambda>r.
            case r of
              Inr f \<Rightarrow>
                io_bind (look_open E f) (\<lambda>metadata.
                io_bind (read_utf8_limited E f capture_bytes) (\<lambda>before.
                io_bind (look_open E f) (\<lambda>after_read.
                if ff_modified metadata \<noteq> ff_modified after_read
                  \<or> length (ff_bytes metadata) \<noteq> length (ff_bytes after_read)
                then io_fail (io_other ''file changed while capturing baseline; retry'')
                else review_prepare E path (Some before) content (Some (file_stamp E before metadata)))))
            | Inl e \<Rightarrow>
                if io_kind e = NotFound then review_prepare E path None content None else io_fail e))"

definition prepare_create_capture :: "fs_env \<Rightarrow> write_target \<Rightarrow> string \<Rightarrow> (io_error, (string \<times> u64) option) io_op" where
  "prepare_create_capture E t content =
     (case wt_capture t of
        None \<Rightarrow> io_return None
      | Some path \<Rightarrow>
          if capture_bytes < length content then io_fail (io_other ''native recovery file limit reached'')
          else review_prepare E path None content None)"

definition finish_capture :: "fs_env \<Rightarrow> write_target \<Rightarrow> (string \<times> u64) option \<Rightarrow> stamp \<Rightarrow> (io_error, unit) io_op" where
  "finish_capture E t owner st =
     (case (wt_capture t, owner) of
        (Some path, Some ow) \<Rightarrow> review_finish E ow path st
      | _ \<Rightarrow> io_return ())"

section \<open>Publishing\<close>

definition set_node :: "write_target \<Rightarrow> string \<Rightarrow> fs_node option \<Rightarrow> (string \<Rightarrow> dir) \<Rightarrow> (string \<Rightarrow> dir)" where
  "set_node t name n D = D(wt_parent t := (D (wt_parent t))(name := n))"

definition already_exists :: io_error where
  "already_exists = io_error_new AlreadyExists ''File exists (os error 17)''"

text \<open>\<open>create_new\<close>, and a change of the open file, which shows under its name while that is still its own.\<close>

definition create_new :: "fs_env \<Rightarrow> write_target \<Rightarrow> string \<Rightarrow> fs_file \<Rightarrow> (io_error, fs_file) io_op" where
  "create_new E t name f = access E (\<lambda>D.
     if D (wt_parent t) name \<noteq> None then (Inl already_exists, D)
     else (Inr f, set_node t name (Some (NodeFile f)) D))"

definition change_open :: "fs_env \<Rightarrow> write_target \<Rightarrow> string \<Rightarrow> fs_file \<Rightarrow> (io_error, fs_file) io_op" where
  "change_open E t name f = access E (\<lambda>D.
     (Inr f, case D (wt_parent t) name of
        Some (NodeFile g) \<Rightarrow> if ff_identity g = ff_identity f then set_node t name (Some (NodeFile f)) D else D
      | _ \<Rightarrow> D))"

definition remove_file :: "fs_env \<Rightarrow> write_target \<Rightarrow> string \<Rightarrow> (io_error, unit) io_op" where
  "remove_file E t name = access E (\<lambda>D.
     case D (wt_parent t) name of
       None \<Rightarrow> (Inl not_found, D)
     | Some NodeDir \<Rightarrow> (Inl (io_other ''Is a directory (os error 21)''), D)
     | Some n \<Rightarrow> (Inr (), set_node t name None D))"

definition rename_over :: "fs_env \<Rightarrow> write_target \<Rightarrow> string \<Rightarrow> (io_error, unit) io_op" where
  "rename_over E t temp = access E (\<lambda>D.
     case D (wt_parent t) temp of
       None \<Rightarrow> (Inl not_found, D)
     | Some n \<Rightarrow>
         if D (wt_parent t) (wt_name t) = Some NodeDir then (Inl (io_other ''Is a directory (os error 21)''), D)
         else (Inr (), set_node t (wt_name t) (Some n) (set_node t temp None D)))"

definition hard_link :: "fs_env \<Rightarrow> write_target \<Rightarrow> string \<Rightarrow> (io_error, unit) io_op" where
  "hard_link E t temp = access E (\<lambda>D.
     case D (wt_parent t) temp of
       None \<Rightarrow> (Inl not_found, D)
     | Some n \<Rightarrow>
         if D (wt_parent t) (wt_name t) \<noteq> None then (Inl already_exists, D)
         else (Inr (), set_node t (wt_name t) (Some n) D))"

definition temp_mode :: "fs_env \<Rightarrow> bool \<Rightarrow> nat \<Rightarrow> u32" where
  "temp_mode E private n = (if private then 0x180 else ff_mode (fe_fresh E n))"

definition write_temp :: "fs_env \<Rightarrow> write_target \<Rightarrow> string \<Rightarrow> string \<Rightarrow> u32 option \<Rightarrow> bool \<Rightarrow> (io_error, fs_file) io_op" where
  "write_temp E t temp content mode private s =
     io_bind (create_new E t temp ((fe_fresh E (fs_clock s))\<lparr>ff_bytes := [], ff_mode := temp_mode E private (fs_clock s)\<rparr>)) (\<lambda>f.
     io_bind (change_open E t temp (f\<lparr>ff_bytes := content\<rparr>)) (\<lambda>f.
     io_bind (case mode of None \<Rightarrow> io_return f | Some m \<Rightarrow> change_open E t temp (f\<lparr>ff_mode := m\<rparr>)) (\<lambda>f.
     io_bind (look E (\<lambda>_. Inr ())) (\<lambda>_. io_return f)))) s"

definition publish_mode ::
  "fs_env \<Rightarrow> write_target \<Rightarrow> string \<Rightarrow> fs_node option \<Rightarrow> bool \<Rightarrow> bool \<Rightarrow> (io_error, stamp) io_op" where
  "publish_mode E t content metadata replace private s =
     (let temp = fe_temp_name E (fs_clock s);
          mode = (case metadata of Some (NodeFile m) \<Rightarrow> Some (ff_mode m) | _ \<Rightarrow> None) in
      io_bind (io_try (
        io_bind (write_temp E t temp content mode private) (\<lambda>f.
        io_bind (look_open E f) (\<lambda>g.
        io_bind (reject_final_symlink E t) (\<lambda>_.
        io_bind (if replace then rename_over E t temp else hard_link E t temp) (\<lambda>_.
        io_return (file_stamp E content g))))))) (\<lambda>result.
      io_bind (if \<not> is_ok result \<or> \<not> replace then io_bind (io_try (remove_file E t temp)) (\<lambda>_. io_return ())
               else io_return ()) (\<lambda>_.
      io_lift result)) s)"

definition current_metadata :: "fs_env \<Rightarrow> write_target \<Rightarrow> (io_error, fs_node option) io_op" where
  "current_metadata E t = io_bind (io_try (symlink_metadata E t)) (\<lambda>r.
     case r of
       Inr n \<Rightarrow> io_return (Some n)
     | Inl e \<Rightarrow> if io_kind e = NotFound then io_return None else io_fail e)"

definition check_expected :: "fs_env \<Rightarrow> write_target \<Rightarrow> string option \<Rightarrow> (io_error, unit) io_op" where
  "check_expected E t expected =
     (case expected of
        None \<Rightarrow> io_return ()
      | Some e \<Rightarrow>
          io_bind (open_regular_nofollow E t) (\<lambda>f.
          io_bind (reader_matches_expected E f e) (\<lambda>same.
          if same then io_return ()
          else io_fail (io_error_new ResourceBusy
            (''file changed while editing '' @ em_dash @ '' re-read and retry'')))))"

definition atomic_write :: "fs_env \<Rightarrow> write_target \<Rightarrow> string \<Rightarrow> string option \<Rightarrow> (io_error, bool) io_op" where
  "atomic_write E t content expected = with_guard E (wt_parent t) (
     io_bind (reject_final_symlink E t) (\<lambda>_.
     io_bind (current_metadata E t) (\<lambda>metadata.
     io_bind (check_expected E t expected) (\<lambda>_.
     io_bind (prepare_capture E t content) (\<lambda>capture.
     io_bind (publish_mode E t content metadata True False) (\<lambda>st.
     io_bind (finish_capture E t capture st) (\<lambda>_.
     io_return (metadata \<noteq> None))))))))"

definition atomic_create_mode :: "fs_env \<Rightarrow> write_target \<Rightarrow> string \<Rightarrow> bool \<Rightarrow> (io_error, unit) io_op" where
  "atomic_create_mode E t content private = with_guard E (wt_parent t) (
     io_bind (reject_final_symlink E t) (\<lambda>_.
     io_bind (current_metadata E t) (\<lambda>metadata.
     if metadata \<noteq> None then io_fail (io_error_new AlreadyExists ''target exists'')
     else
       io_bind (prepare_create_capture E t content) (\<lambda>capture.
       io_bind (publish_mode E t content None False private) (\<lambda>st.
       finish_capture E t capture st)))))"

definition human_current :: "fs_env \<Rightarrow> write_target \<Rightarrow> string option \<Rightarrow> (io_error, u32 option) io_op" where
  "human_current E t expected = io_bind (io_try (open_regular_nofollow E t)) (\<lambda>r.
     case r of
       Inr f \<Rightarrow>
         io_bind (look_open E f) (\<lambda>meta.
         case expected of
           None \<Rightarrow> io_fail (io_error_new ResourceBusy ''destination exists'')
         | Some e \<Rightarrow>
             io_bind (reader_matches_expected E f e) (\<lambda>same.
             if same then io_return (Some (ff_mode meta))
             else io_fail (io_error_new ResourceBusy ''file changed'')))
     | Inl e \<Rightarrow> if io_kind e = NotFound \<and> expected = None then io_return None else io_fail e)"

definition human_replace :: "fs_env \<Rightarrow> write_target \<Rightarrow> string option \<Rightarrow> string option \<Rightarrow> (io_error, unit) io_op" where
  "human_replace E t expected next' = with_guard E (wt_parent t) (
     io_bind (reject_final_symlink E t) (\<lambda>_.
     io_bind (human_current E t expected) (\<lambda>mode.
     case next' of
       None \<Rightarrow> remove_file E t (wt_name t)
     | Some bytes \<Rightarrow> (\<lambda>s.
         let temp = fe_temp_name E (fs_clock s) in
         io_bind (io_try (
           io_bind (write_temp E t temp bytes mode False) (\<lambda>_.
           io_bind (reject_final_symlink E t) (\<lambda>_.
           if expected = None then io_bind (hard_link E t temp) (\<lambda>_. remove_file E t temp)
           else rename_over E t temp)))) (\<lambda>result.
         io_bind (if \<not> is_ok result then io_bind (io_try (remove_file E t temp)) (\<lambda>_. io_return ()) else io_return ()) (\<lambda>_.
         io_lift result)) s))))"

end
