(* ===== verification/FileTools.thy ===== *)
theory FileTools
  imports FileTarget
begin

text \<open>
  How a write tool finds its target and what the three file tools do with it:
  \<open>writable_target\<close> (\<open>project.rs\<close>, \<open>project/roots.rs\<close>), \<open>edit_file\<close> and \<open>write_file\<close>
  (\<open>native_tools/\<close>) and \<open>apply_patch\<close> (\<open>plugins/apply_patch.rs\<close>). The resolution of links
  and the opening of directories by the operating system and cap-std are part of the
  environment; a directory handle is the identity of the directory it was opened on.
\<close>

section \<open>Paths\<close>

text \<open>\<open>Path::components\<close> without the root: a leading dot and parent steps are kept.\<close>

definition path_components :: "string \<Rightarrow> string list" where
  "path_components p =
     (let parts = split_on (CHR ''/'') p in
      (if hd parts = ''.'' then [''.''] else []) @ filter (\<lambda>c. c \<noteq> [] \<and> c \<noteq> ''.'') parts)"

definition path_of :: "bool \<Rightarrow> string list \<Rightarrow> string" where
  "path_of absolute parts = (if absolute then ''/'' else []) @ join_with ''/'' parts"

definition path_file_name :: "string \<Rightarrow> string option" where
  "path_file_name p =
     (let parts = path_components p in
      if parts = [] \<or> last parts \<in> {''..'', ''.''} then None else Some (last parts))"

definition path_parent :: "string \<Rightarrow> string option" where
  "path_parent p =
     (let parts = path_components p in
      if parts = [] then None else Some (path_of (path_is_absolute p) (butlast parts)))"

definition path_starts_with :: "string \<Rightarrow> string \<Rightarrow> bool" where
  "path_starts_with p root \<longleftrightarrow> path_is_absolute p = path_is_absolute root
     \<and> starts_with (path_components root) (path_components p)"

section \<open>Finding the target\<close>

record project_env =
  pj_root :: string
  pj_review :: bool
  pj_roots :: "(string \<times> (io_error + string)) list option"

definition os_call :: "fs_env \<Rightarrow> (nat \<Rightarrow> io_error + 'a) \<Rightarrow> (io_error, 'a) io_op" where
  "os_call E f s = look E (\<lambda>_. f (fs_clock s)) s"

definition canonicalize :: "fs_env \<Rightarrow> string \<Rightarrow> (io_error, string) io_op" where
  "canonicalize E p = os_call E (\<lambda>n. fe_canonicalize E n p)"

text \<open>The nearest existing ancestor, from the parent up to the root.\<close>

fun nearest_ancestor :: "fs_env \<Rightarrow> string list \<Rightarrow> string list \<Rightarrow> nat \<Rightarrow> (io_error, string) io_op" where
  "nearest_ancestor E parts parent n =
     io_bind (io_try (canonicalize E (path_of True (take n parent)))) (\<lambda>r.
     case r of
       Inr canonical \<Rightarrow>
         let suffix = path_of False (drop n parts) in
         io_bind (io_lift (validate_project_path suffix)) (\<lambda>_.
         io_return (path_of True (path_components canonical @ drop n parts)))
     | Inl e \<Rightarrow>
         if io_kind e \<noteq> NotFound then io_fail e
         else (case n of
             0 \<Rightarrow> io_fail (io_other ''no existing ancestor for absolute target'')
           | Suc m \<Rightarrow> nearest_ancestor E parts parent m))"

declare nearest_ancestor.simps [simp del]

definition resolve_absolute_candidate :: "fs_env \<Rightarrow> string \<Rightarrow> (io_error, string) io_op" where
  "resolve_absolute_candidate E requested =
     (let parts = path_components requested in
      if parts = [] then io_fail (io_other ''path has no parent'')
      else nearest_ancestor E parts (butlast parts) (length parts - 1))"

text \<open>\<open>max_by_key\<close> keeps the last of the longest roots.\<close>

fun deepest_root :: "(string \<times> 'h) list \<Rightarrow> (string \<times> 'h) option" where
  "deepest_root [] = None"
| "deepest_root (r # rs) =
     (case deepest_root rs of
        None \<Rightarrow> Some r
      | Some b \<Rightarrow> if length (path_components (fst r)) \<le> length (path_components (fst b)) then Some b else Some r)"

definition open_parent :: "fs_env \<Rightarrow> string \<Rightarrow> string \<Rightarrow> bool \<Rightarrow> (io_error, string) io_op" where
  "open_parent E root_dir parent create_parents =
     io_bind (if create_parents \<and> parent \<noteq> [] then os_call E (\<lambda>n. fe_create_dirs E n root_dir parent)
              else io_return ()) (\<lambda>_.
     if parent = [] then io_return root_dir else os_call E (\<lambda>n. fe_open_dir E n root_dir parent))"

definition rooted_absolute_target :: "fs_env \<Rightarrow> project_env \<Rightarrow> string \<Rightarrow> bool \<Rightarrow> (io_error, write_target) io_op" where
  "rooted_absolute_target E P requested create_parents =
     (case pj_roots P of
        None \<Rightarrow> io_fail (io_other ''scratch: no active run'')
      | Some roots \<Rightarrow>
          io_bind (resolve_absolute_candidate E requested) (\<lambda>resolved.
          case deepest_root (filter (\<lambda>r. path_starts_with resolved (fst r)) roots) of
            None \<Rightarrow> io_fail (io_error_new PermissionDenied ''path outside writable roots'')
          | Some (root, handle) \<Rightarrow>
              let relative = path_of False (drop (length (path_components root)) (path_components resolved)) in
              io_bind (io_lift (validate_project_path relative)) (\<lambda>_.
              io_bind (io_lift (ok_or (path_file_name relative) (io_other ''path has no file name''))) (\<lambda>file_name.
              io_bind (io_lift handle) (\<lambda>root_dir.
              let parent = (case path_parent relative of None \<Rightarrow> [] | Some p \<Rightarrow> p) in
              io_bind (open_parent E root_dir parent create_parents) (\<lambda>parent_dir.
              io_bind (canonicalize E (pj_root P)) (\<lambda>own.
              io_return \<lparr>wt_parent = parent_dir, wt_name = file_name,
                wt_capture = (if pj_review P \<and> path_is_absolute root = path_is_absolute own
                  \<and> path_components root = path_components own then Some relative else None)\<rparr>)))))))"

definition writable_target :: "fs_env \<Rightarrow> project_env \<Rightarrow> string \<Rightarrow> bool \<Rightarrow> write_scope \<Rightarrow> (io_error, write_target) io_op" where
  "writable_target E P requested create_parents scope =
     (if path_is_absolute requested then
        case scope of
          ScopeWorkspaceRoots \<Rightarrow> rooted_absolute_target E P requested create_parents
        | ScopeProjectRoot \<Rightarrow> io_fail (io_error_new PermissionDenied
            ''absolute paths are only writable under Full Access mode or an active workspace-write root'')
        | ScopeUnrestricted \<Rightarrow>
            io_bind (io_lift (ok_or (path_file_name requested) (io_error_new PermissionDenied ''path has no file name''))) (\<lambda>file_name.
            let parent = (case path_parent requested of None \<Rightarrow> ''/'' | Some p \<Rightarrow> p) in
            io_bind (if create_parents then io_bind (io_try (os_call E (\<lambda>n. fe_create_dirs E n ''/'' parent))) (\<lambda>_. io_return ())
                     else io_return ()) (\<lambda>_.
            io_bind (canonicalize E parent) (\<lambda>parent.
            io_bind (os_call E (\<lambda>n. fe_open_ambient E n parent)) (\<lambda>parent_dir.
            io_return \<lparr>wt_parent = parent_dir, wt_name = file_name, wt_capture = None\<rparr>))))
      else
        io_bind (io_lift (validate_project_path requested)) (\<lambda>_.
        io_bind (canonicalize E (pj_root P)) (\<lambda>root.
        io_bind (io_lift (ok_or (path_file_name requested) (io_error_new PermissionDenied ''path has no file name''))) (\<lambda>file_name.
        io_bind (os_call E (\<lambda>n. fe_open_ambient E n root)) (\<lambda>root_dir.
        let parent = (case path_parent requested of None \<Rightarrow> [] | Some p \<Rightarrow> p) in
        io_bind (open_parent E root_dir parent create_parents) (\<lambda>parent_dir.
        io_return \<lparr>wt_parent = parent_dir, wt_name = file_name,
          wt_capture = (if pj_review P then Some requested else None)\<rparr>))))))"

section \<open>The tools\<close>

definition check_cancelled :: "fs_env \<Rightarrow> string \<Rightarrow> (tool_error, unit) io_op" where
  "check_cancelled E message s =
     (if fe_cancelled E (fs_clock s) then Inl (tool_error_new message) else Inr (), s\<lparr>fs_clock := fs_clock s + 1\<rparr>)"

definition tool_io_error :: "string \<Rightarrow> string \<Rightarrow> io_error \<Rightarrow> tool_error" where
  "tool_io_error tool path e = tool_error_new (tool @ '': cannot access `'' @ path @ ''`: '' @ io_message e)"

text \<open>
  \<open>edit_file\<close> up to the write: the target, the path as it was asked for, the edits, the text
  that was read and the planned text.
\<close>

definition edit_prepare :: "fs_env \<Rightarrow> project_env \<Rightarrow> write_scope \<Rightarrow> json \<Rightarrow>
    (tool_error, write_target \<times> string \<times> file_edit list \<times> string \<times> string) io_op" where
  "edit_prepare E P scope args =
     io_bind (check_cancelled E ''tool invocation cancelled'') (\<lambda>_.
     io_bind (io_lift (parse_edits args)) (\<lambda>edits.
     io_bind (io_lift (required_string_arg args ''path'' ''edit_file'')) (\<lambda>requested.
     let io = tool_io_error ''edit_file'' requested in
     io_bind (io_map_err io (writable_target E P requested False scope)) (\<lambda>target.
     io_bind (io_map_err io (is_file E target)) (\<lambda>regular.
     if \<not> regular then io_fail (tool_error_new ''edit_file: target is not a file'')
     else
       io_bind (io_map_err io (read_to_string_limited E target max_write_bytes)) (\<lambda>content.
       io_bind (io_lift (edit_plan content edits)) (\<lambda>updated.
       io_bind (check_cancelled E ''tool invocation cancelled'') (\<lambda>_.
       io_return (target, requested, edits, content, updated)))))))))"

definition edit_file :: "fs_env \<Rightarrow> project_env \<Rightarrow> write_scope \<Rightarrow> json \<Rightarrow> (tool_error, json) io_op" where
  "edit_file E P scope args =
     io_bind (edit_prepare E P scope args) (\<lambda>(target, requested, edits, content, updated).
     io_bind (io_map_err (tool_io_error ''edit_file'' requested) (atomic_write E target updated (Some content))) (\<lambda>_.
     io_return (JObj [(''path'', JStr requested), (''replacements'', jlen (length edits)),
       (''bytes'', jlen (length updated))])))"

definition overwrite_arg :: "json \<Rightarrow> tool_error + bool" where
  "overwrite_arg args =
     (case json_get args ''overwrite'' of
        None \<Rightarrow> Inr False
      | Some (JBool b) \<Rightarrow> Inr b
      | Some _ \<Rightarrow> Inl (tool_error_new ''write_file: `overwrite` must be a boolean''))"

definition write_file :: "fs_env \<Rightarrow> project_env \<Rightarrow> write_scope \<Rightarrow> json \<Rightarrow> (tool_error, json) io_op" where
  "write_file E P scope args =
     io_bind (check_cancelled E ''tool invocation cancelled'') (\<lambda>_.
     io_bind (io_lift (required_string_arg args ''path'' ''write_file'')) (\<lambda>requested.
     io_bind (io_lift (required_string_arg args ''content'' ''write_file'')) (\<lambda>content.
     if max_write_bytes < length content then
       io_fail (tool_error_new (''write_file: content exceeds '' @ show_nat max_write_bytes @ '' bytes ''
         @ em_dash @ '' split the write into smaller pieces''))
     else
       io_bind (io_lift (overwrite_arg args)) (\<lambda>overwrite.
       io_bind (io_map_err (tool_io_error ''write_file'' requested) (writable_target E P requested True scope)) (\<lambda>target.
       io_bind (io_map_err (\<lambda>e.
           if \<not> overwrite \<and> io_kind e = AlreadyExists then
             tool_error_new (''write_file: target already exists; existing contents were preserved. Use edit_file to ''
               @ ''append or change part of the file, or set overwrite: true with the complete replacement content.'')
           else tool_io_error ''write_file'' requested e)
         (if overwrite then atomic_write E target content None
          else io_bind (atomic_create_mode E target content False) (\<lambda>_. io_return False))) (\<lambda>existed.
       io_return (JObj [(''path'', JStr requested), (''bytes'', jlen (length content)),
         (''created'', JBool (\<not> existed))])))))))"

definition patch_io_error :: "string \<Rightarrow> io_error \<Rightarrow> tool_error" where
  "patch_io_error path e = tool_error_new (''apply_patch: `'' @ path @ ''`: '' @ io_message e)"

definition map_message :: "string + 'a \<Rightarrow> tool_error + 'a" where
  "map_message r = (case r of Inl m \<Rightarrow> Inl (tool_error_new m) | Inr x \<Rightarrow> Inr x)"

definition patch_prepare :: "fs_env \<Rightarrow> project_env \<Rightarrow> write_scope \<Rightarrow> json \<Rightarrow>
    (tool_error, write_target \<times> string \<times> parsed_patch \<times> string \<times> string) io_op" where
  "patch_prepare E P scope args =
     io_bind (check_cancelled E ''apply_patch: cancelled'') (\<lambda>_.
     io_bind (io_lift (ok_or (string_arg args ''patch'') (tool_error_new ''apply_patch: `patch` must be a string''))) (\<lambda>text.
     if 1048576 < length text then
       io_fail (tool_error_new (''apply_patch: patch exceeds '' @ show_nat 1048576 @ '' bytes''))
     else
       io_bind (io_lift (map_message (parse_patch text))) (\<lambda>p.
       let io = patch_io_error (pp_path p) in
       io_bind (io_map_err io (writable_target E P (pp_path p) False scope)) (\<lambda>target.
       io_bind (io_map_err io (is_file E target)) (\<lambda>regular.
       if \<not> regular then
         io_fail (tool_error_new (''apply_patch: `'' @ pp_path p @ ''` is not an existing regular file''))
       else
         io_bind (io_map_err io (read_to_string_limited E target 1048576)) (\<lambda>original.
         io_bind (check_cancelled E ''apply_patch: cancelled'') (\<lambda>_.
         io_bind (io_lift (map_message (apply_patch original p))) (\<lambda>updated.
         if 1048576 < length updated then
           io_fail (tool_error_new (''apply_patch: result would exceed '' @ show_nat 1048576 @ '' bytes''))
         else
           io_bind (check_cancelled E ''apply_patch: cancelled'') (\<lambda>_.
           io_return (target, text, p, original, updated))))))))))"

definition apply_patch_file :: "fs_env \<Rightarrow> project_env \<Rightarrow> write_scope \<Rightarrow> json \<Rightarrow> (tool_error, json) io_op" where
  "apply_patch_file E P scope args =
     io_bind (patch_prepare E P scope args) (\<lambda>(target, text, p, original, updated).
     io_bind (io_map_err (patch_io_error (pp_path p)) (atomic_write E target updated (Some original))) (\<lambda>_.
     io_return (JObj [(''path'', JStr (pp_path p)), (''bytes'', jlen (length updated)),
       (''hunks'', jlen (length (filter (starts_with ''@@'') (str_lines text))))])))"

end
