(* ===== verification/FileLogic.thy ===== *)
theory FileLogic
  imports FileTools
begin

text \<open>
  A logic for the file operations: triples over the directory of a target while its lock is
  held and the processes that honour the lock stay away. With it, what the publication of a
  temporary file does to the directory, whichever of its accesses fails.
\<close>

section \<open>The triples\<close>

text \<open>
  While a directory is locked nobody else changes it or the files that are open, and a name is
  reported missing only when it is.
\<close>

definition honoured :: "fs_env \<Rightarrow> string \<Rightarrow> bool" where
  "honoured E h \<longleftrightarrow> (\<forall>n D. fe_between E n (Some h) D h = D h) \<and> (\<forall>n f. fe_inplace E n (Some h) f = f)
     \<and> (\<forall>n e. fe_fault E n = Some e \<longrightarrow> io_kind e \<noteq> NotFound)"

definition triple :: "string \<Rightarrow> (dir \<Rightarrow> bool) \<Rightarrow> ('e, 'a) io_op \<Rightarrow> ('e + 'a \<Rightarrow> dir \<Rightarrow> bool) \<Rightarrow> bool" where
  "triple h P m Q \<longleftrightarrow> (\<forall>s r s'. fs_locked s = Some h \<longrightarrow> P (fs_dirs s h) \<longrightarrow> m s = (r, s') \<longrightarrow>
     fs_locked s' = Some h \<and> Q r (fs_dirs s' h))"

named_theorems quiet_rules

lemma tripleI:
  assumes "\<And>s r s'. fs_locked s = Some h \<Longrightarrow> P (fs_dirs s h) \<Longrightarrow> m s = (r, s') \<Longrightarrow>
     fs_locked s' = Some h \<and> Q r (fs_dirs s' h)"
  shows "triple h P m Q"
  unfolding triple_def using assms by blast

lemma tripleD: "triple h P m Q \<Longrightarrow> fs_locked s = Some h \<Longrightarrow> P (fs_dirs s h) \<Longrightarrow> m s = (r, s') \<Longrightarrow>
    fs_locked s' = Some h \<and> Q r (fs_dirs s' h)"
  unfolding triple_def by blast

lemma triple_conseq: "triple h P' m Q' \<Longrightarrow> (\<And>d. P d \<Longrightarrow> P' d) \<Longrightarrow> (\<And>r d. Q' r d \<Longrightarrow> Q r d) \<Longrightarrow> triple h P m Q"
  unfolding triple_def by blast

lemma triple_result:
  assumes "\<And>s. m s = (r, s)" and "\<And>d. P d \<Longrightarrow> Q r d"
  shows "triple h P m Q"
  unfolding triple_def using assms by auto

lemma triple_return: "(\<And>d. P d \<Longrightarrow> Q (Inr x) d) \<Longrightarrow> triple h P (io_return x) Q"
  by (rule triple_result) (simp_all add: io_return_def)

lemma triple_fail: "(\<And>d. P d \<Longrightarrow> Q (Inl e) d) \<Longrightarrow> triple h P (io_fail e) Q"
  by (rule triple_result) (simp_all add: io_fail_def)

lemma triple_lift: "(\<And>d. P d \<Longrightarrow> Q r d) \<Longrightarrow> triple h P (io_lift r) Q"
  by (rule triple_result) (simp_all add: io_lift_def)

lemma triple_bind:
  assumes m: "triple h P m R" and f: "\<And>x. triple h (R (Inr x)) (f x) Q" and e: "\<And>e d. R (Inl e) d \<Longrightarrow> Q (Inl e) d"
  shows "triple h P (io_bind m f) Q"
proof (rule tripleI)
  fix s r s' assume s: "fs_locked s = Some h" "P (fs_dirs s h)" "io_bind m f s = (r, s')"
  obtain q t where q: "m s = (q, t)" by fastforce
  from tripleD[OF m s(1,2) q] have t: "fs_locked t = Some h" "R q (fs_dirs t h)" by simp_all
  show "fs_locked s' = Some h \<and> Q r (fs_dirs s' h)"
  proof (cases q)
    case (Inl x)
    with s(3) q have "r = Inl x" "s' = t" by (simp_all add: io_bind_def)
    with t e Inl show ?thesis by simp
  next
    case (Inr x)
    with s(3) q have "f x t = (r, s')" by (simp add: io_bind_def)
    with tripleD[OF f[of x] t(1)] t(2) Inr show ?thesis by simp
  qed
qed

text \<open>An operation that reads a part of the state first.\<close>

lemma triple_closure:
  assumes "\<And>c. triple h P (m c) Q"
  shows "triple h P (\<lambda>s. m (k s) s) Q"
proof (rule tripleI)
  fix s r s' assume s: "fs_locked s = Some h" "P (fs_dirs s h)" "m (k s) s = (r, s')"
  from tripleD[OF assms s] show "fs_locked s' = Some h \<and> Q r (fs_dirs s' h)" .
qed

lemma triple_try:
  fixes Q :: "'d + 'e + 'a \<Rightarrow> dir \<Rightarrow> bool"
  assumes "triple h P m (\<lambda>r. Q (Inr r))"
  shows "triple h P (io_try m) Q"
proof (rule tripleI)
  fix s s' and r :: "'d + 'e + 'a" assume s: "fs_locked s = Some h" "P (fs_dirs s h)" "io_try m s = (r, s')"
  obtain q t where q: "m s = (q, t)" by fastforce
  with s(3) have "r = Inr q" "s' = t" by (simp_all add: io_try_def)
  with tripleD[OF assms s(1,2) q] show "fs_locked s' = Some h \<and> Q r (fs_dirs s' h)" by simp
qed

lemma triple_access:
  assumes "honoured E h"
    and "\<And>e d. P d \<Longrightarrow> io_kind e \<noteq> NotFound \<Longrightarrow> Q (Inl e) d"
    and "\<And>D. P (D h) \<Longrightarrow> Q (fst (f D)) (snd (f D) h)"
  shows "triple h P (access E f) Q"
proof (rule tripleI)
  fix s r s' assume s: "fs_locked s = Some h" "P (fs_dirs s h)" "access E f s = (r, s')"
  let ?D = "fe_between E (fs_clock s) (fs_locked s) (fs_dirs s)"
  have D: "?D h = fs_dirs s h" using assms(1) s(1) by (simp add: honoured_def)
  show "fs_locked s' = Some h \<and> Q r (fs_dirs s' h)"
  proof (cases "fe_fault E (fs_clock s)")
    case None
    obtain q D' where q: "f ?D = (q, D')" by fastforce
    from None s q have "r = q" "fs_dirs s' = D'" "fs_locked s' = Some h" by (auto simp: access_def Let_def)
    with assms(3)[of ?D] D s(2) q show ?thesis by simp
  next
    case (Some e)
    with s have "r = Inl e" "fs_dirs s' = ?D" "fs_locked s' = Some h" by (auto simp: access_def Let_def)
    moreover from Some have "io_kind e \<noteq> NotFound" using assms(1) unfolding honoured_def by blast
    ultimately show ?thesis using assms(2)[of "fs_dirs s h" e] D s(2) by simp
  qed
qed

text \<open>The operations that do not change the directory.\<close>

definition quiet :: "string \<Rightarrow> ('e, 'a) io_op \<Rightarrow> bool" where
  "quiet h m \<longleftrightarrow> (\<forall>s. fs_locked s = Some h \<longrightarrow> fs_locked (snd (m s)) = Some h \<and> fs_dirs (snd (m s)) h = fs_dirs s h)"

lemma quiet_triple: "quiet h m \<Longrightarrow> triple h P m (\<lambda>r. P)"
  by (auto simp: quiet_def intro!: tripleI)

lemma quietI: "(\<And>d. triple h (\<lambda>x. x = d) m (\<lambda>r x. x = d)) \<Longrightarrow> quiet h m"
  unfolding quiet_def triple_def by (metis prod.collapse)

lemma quiet_return [quiet_rules]: "quiet h (io_return x)"
  by (simp add: quiet_def io_return_def)

lemma quiet_fail [quiet_rules]: "quiet h (io_fail e)"
  by (simp add: quiet_def io_fail_def)

lemma quiet_lift [quiet_rules]: "quiet h (io_lift r)"
  by (simp add: quiet_def io_lift_def)

lemma quiet_bind [quiet_rules]: "quiet h m \<Longrightarrow> (\<And>x. quiet h (f x)) \<Longrightarrow> quiet h (io_bind m f)"
  by (rule quietI, rule triple_bind, rule quiet_triple, assumption, rule quiet_triple) auto

lemma quiet_try [quiet_rules]: "quiet h m \<Longrightarrow> quiet h (io_try m)"
  by (rule quietI, rule triple_try, rule quiet_triple)

lemma quiet_look [quiet_rules]: "honoured E h \<Longrightarrow> quiet h (look E f)"
  unfolding look_def by (rule quietI, rule triple_access) auto

lemma quiet_look_open [quiet_rules]: "honoured E h \<Longrightarrow> quiet h (look_open E f)"
  using quiet_look unfolding quiet_def look_open_def by blast

lemma quiet_result [quiet_rules]: "(\<And>s. fs_locked (g s) = fs_locked s \<and> fs_dirs (g s) = fs_dirs s) \<Longrightarrow> quiet h (\<lambda>s. (k s, g s))"
  by (simp add: quiet_def)

lemma quiet_open [quiet_rules]: "honoured E h \<Longrightarrow> quiet h (open_regular_nofollow E t)"
  unfolding open_regular_nofollow_def by (intro quiet_rules; simp split: fs_node.splits add: quiet_rules)

lemma quiet_metadata [quiet_rules]: "honoured E h \<Longrightarrow> quiet h (symlink_metadata E t)"
  unfolding symlink_metadata_def by (intro quiet_rules)

lemma quiet_read [quiet_rules]: "honoured E h \<Longrightarrow> quiet h (read_utf8_limited E f n)"
  unfolding read_utf8_limited_def Let_def by (intro quiet_rules; simp add: quiet_rules)

lemma quiet_reject [quiet_rules]: "honoured E h \<Longrightarrow> quiet h (reject_final_symlink E t)"
  unfolding reject_final_symlink_def by (intro quiet_rules; simp split: sum.splits fs_node.splits add: quiet_rules)

lemma quiet_save [quiet_rules]: "honoured E h \<Longrightarrow> quiet h (review_save E lg)"
  unfolding review_save_def by (auto intro!: quiet_rules)

lemma quiet_save_then: "honoured E h \<Longrightarrow> quiet h (io_bind (review_save E lg) (\<lambda>_ s. (Inr x, s\<lparr>fs_active := a\<rparr>)))"
  by (rule quiet_bind, rule quiet_save, assumption, rule quiet_result) simp

lemma quiet_run: "quiet h m \<Longrightarrow> fs_locked s = Some h \<Longrightarrow>
    fs_locked (snd (m s)) = Some h \<and> fs_dirs (snd (m s)) h = fs_dirs s h"
  by (simp add: quiet_def)

lemma quiet_prepare [quiet_rules]: "honoured E h \<Longrightarrow> quiet h (review_prepare E path before after previous)"
  unfolding quiet_def review_prepare_def Let_def
  by (intro allI impI) (auto simp only: quiet_run[OF quiet_save_then] snd_conv split: option.splits if_splits)

lemma quiet_finish_review [quiet_rules]: "honoured E h \<Longrightarrow> quiet h (review_finish E ow path st)"
  unfolding quiet_def review_finish_def Let_def
  by (intro allI impI) (auto simp only: quiet_run[OF quiet_save_then] snd_conv split: option.splits if_splits)

lemma quiet_finish [quiet_rules]: "honoured E h \<Longrightarrow> quiet h (finish_capture E t owner st)"
  unfolding finish_capture_def by (auto intro!: quiet_rules split: option.splits)

lemma quiet_capture [quiet_rules]: "honoured E h \<Longrightarrow> quiet h (prepare_capture E t content)"
  unfolding prepare_capture_def by (auto intro!: quiet_rules split: option.splits sum.splits)

lemma quiet_create_capture [quiet_rules]: "honoured E h \<Longrightarrow> quiet h (prepare_create_capture E t content)"
  unfolding prepare_create_capture_def by (auto intro!: quiet_rules split: option.splits)

section \<open>Publishing\<close>

text \<open>Nothing but names of temporary files differs.\<close>

definition apart_from_temps :: "fs_env \<Rightarrow> dir \<Rightarrow> dir \<Rightarrow> bool" where
  "apart_from_temps E d d' \<longleftrightarrow> (\<forall>n. n \<notin> range (fe_temp_name E) \<longrightarrow> d' n = d n)"

definition swapped_to :: "fs_env \<Rightarrow> string \<Rightarrow> string \<Rightarrow> u32 option \<Rightarrow> dir \<Rightarrow> dir \<Rightarrow> bool" where
  "swapped_to E name content mode d d' \<longleftrightarrow>
     (\<exists>g. ff_bytes g = content \<and> (\<forall>m. mode = Some m \<longrightarrow> ff_mode g = m)
        \<and> apart_from_temps E (d(name \<mapsto> NodeFile g)) d')"

lemma triple_change_open:
  assumes "honoured E (wt_parent t)"
    and "\<And>e d. P d \<Longrightarrow> Q (Inl e) d"
    and "\<And>d. P d \<Longrightarrow> (case d name of Some (NodeFile g) \<Rightarrow> ff_identity g = ff_identity f \<longrightarrow>
       Q (Inr f) (d(name \<mapsto> NodeFile f)) | _ \<Rightarrow> True)"
    and "\<And>d. P d \<Longrightarrow> \<exists>g. d name = Some (NodeFile g) \<and> ff_identity g = ff_identity f"
  shows "triple (wt_parent t) P (change_open E t name f) Q"
  unfolding change_open_def
  by (rule triple_access[OF assms(1)]) (use assms(2-4) in \<open>fastforce simp: set_node_def\<close>)+

definition temp_holds :: "fs_env \<Rightarrow> string \<Rightarrow> dir \<Rightarrow> fs_file \<Rightarrow> dir \<Rightarrow> bool" where
  "temp_holds E temp d f d' \<longleftrightarrow> d' temp = Some (NodeFile f) \<and> apart_from_temps E d d'"

lemma temp_holds_upd:
  "temp_holds E temp d f d' \<Longrightarrow> temp \<in> range (fe_temp_name E) \<Longrightarrow> temp_holds E temp d g (d'(temp \<mapsto> NodeFile g))"
  by (auto simp: temp_holds_def apart_from_temps_def)

lemma triple_write_temp:
  assumes h: "honoured E (wt_parent t)" and temp: "temp \<in> range (fe_temp_name E)"
  shows "triple (wt_parent t) (\<lambda>d'. d' = d) (write_temp E t temp content mode private)
    (\<lambda>r d'. case r of Inl e \<Rightarrow> apart_from_temps E d d'
       | Inr f \<Rightarrow> temp_holds E temp d f d' \<and> ff_bytes f = content \<and> (\<forall>m. mode = Some m \<longrightarrow> ff_mode f = m))"
proof -
  let ?h = "wt_parent t"
  let ?Q = "\<lambda>r d'. case r of Inl e \<Rightarrow> apart_from_temps E d d'
       | Inr f \<Rightarrow> temp_holds E temp d f d' \<and> ff_bytes f = content \<and> (\<forall>m. mode = Some m \<longrightarrow> ff_mode f = m)"
  have same: "apart_from_temps E d d" by (simp add: apart_from_temps_def)
  have create: "triple ?h (\<lambda>d'. d' = d) (create_new E t temp f0)
      (\<lambda>r d'. case r of Inl e \<Rightarrow> apart_from_temps E d d' | Inr f \<Rightarrow> temp_holds E temp d f d')" for f0
    unfolding create_new_def
    by (rule triple_access[OF h]) (use temp in \<open>auto simp: set_node_def temp_holds_def apart_from_temps_def\<close>)
  have change: "triple ?h (temp_holds E temp d f) (change_open E t temp g)
      (\<lambda>r d'. case r of Inl e \<Rightarrow> apart_from_temps E d d' | Inr x \<Rightarrow> x = g \<and> temp_holds E temp d g d')"
    if "ff_identity g = ff_identity f" for f g
    by (rule triple_change_open[OF h]) (use that temp_holds_upd[OF _ temp] in \<open>auto simp: temp_holds_def\<close>)
  have bytes: "triple ?h (temp_holds E temp d f) (change_open E t temp (f\<lparr>ff_bytes := content\<rparr>))
      (\<lambda>r d'. case r of Inl e \<Rightarrow> apart_from_temps E d d' | Inr x \<Rightarrow> temp_holds E temp d x d' \<and> ff_bytes x = content)" for f
    by (rule triple_conseq[OF change[of "f\<lparr>ff_bytes := content\<rparr>" f]]) (auto split: sum.splits)
  have mode: "triple ?h (\<lambda>d'. temp_holds E temp d f d' \<and> ff_bytes f = content)
      (case mode of None \<Rightarrow> io_return f | Some m \<Rightarrow> change_open E t temp (f\<lparr>ff_mode := m\<rparr>)) ?Q" for f
  proof (cases mode)
    case None
    then show ?thesis by (auto intro!: triple_return)
  next
    case (Some m)
    show ?thesis
    proof (cases "ff_bytes f = content")
      case True
      show ?thesis unfolding Some option.case
        by (rule triple_conseq[OF change[of "f\<lparr>ff_mode := m\<rparr>" f]]) (use True Some in \<open>auto split: sum.splits\<close>)
    qed (auto intro!: tripleI)
  qed
  have look: "triple ?h (?Q (Inr f)) (io_bind (look E (\<lambda>_. Inr ())) (\<lambda>_. io_return f)) ?Q" for f
    by (rule triple_bind[OF quiet_triple[OF quiet_look[OF h]]]) (auto intro!: triple_return simp: temp_holds_def)
  have "triple ?h (\<lambda>d'. d' = d) (io_bind (create_new E t temp f0) (\<lambda>f.
     io_bind (change_open E t temp (f\<lparr>ff_bytes := content\<rparr>)) (\<lambda>f.
     io_bind (case mode of None \<Rightarrow> io_return f | Some m \<Rightarrow> change_open E t temp (f\<lparr>ff_mode := m\<rparr>)) (\<lambda>f.
     io_bind (look E (\<lambda>_. Inr ())) (\<lambda>_. io_return f))))) ?Q" for f0
  proof (rule triple_bind[OF create])
    fix f1
    show "triple ?h (\<lambda>d'. case Inr f1 of Inl e \<Rightarrow> apart_from_temps E d d' | Inr f \<Rightarrow> temp_holds E temp d f d')
      (io_bind (change_open E t temp (f1\<lparr>ff_bytes := content\<rparr>)) (\<lambda>f.
       io_bind (case mode of None \<Rightarrow> io_return f | Some m \<Rightarrow> change_open E t temp (f\<lparr>ff_mode := m\<rparr>)) (\<lambda>f.
       io_bind (look E (\<lambda>_. Inr ())) (\<lambda>_. io_return f)))) ?Q"
      unfolding sum.case
    proof (rule triple_bind[OF bytes])
      fix f2
      show "triple ?h (\<lambda>d'. case Inr f2 of Inl e \<Rightarrow> apart_from_temps E d d' | Inr x \<Rightarrow> temp_holds E temp d x d' \<and> ff_bytes x = content)
        (io_bind (case mode of None \<Rightarrow> io_return f2 | Some m \<Rightarrow> change_open E t temp (f2\<lparr>ff_mode := m\<rparr>)) (\<lambda>f.
         io_bind (look E (\<lambda>_. Inr ())) (\<lambda>_. io_return f))) ?Q"
        unfolding sum.case by (rule triple_bind[OF mode look]) simp
    qed simp
  qed simp
  then show ?thesis unfolding write_temp_def by (rule triple_closure)
qed

definition node_mode :: "fs_node option \<Rightarrow> u32 option" where
  "node_mode n = (case n of Some (NodeFile m) \<Rightarrow> Some (ff_mode m) | _ \<Rightarrow> None)"

definition published :: "fs_env \<Rightarrow> write_target \<Rightarrow> string \<Rightarrow> u32 option \<Rightarrow> bool \<Rightarrow> dir \<Rightarrow> 'e + 'a \<Rightarrow> dir \<Rightarrow> bool" where
  "published E t content mode replace d r d' \<longleftrightarrow> (case r of Inl e \<Rightarrow> apart_from_temps E d d'
     | Inr x \<Rightarrow> swapped_to E (wt_name t) content mode d d' \<and> (\<not> replace \<longrightarrow> d (wt_name t) = None))"

lemma apart_remove: "temp \<in> range (fe_temp_name E) \<Longrightarrow> apart_from_temps E d d' \<Longrightarrow> apart_from_temps E d (d'(temp := x))"
  by (auto simp: apart_from_temps_def)

lemma published_remove:
  "temp \<in> range (fe_temp_name E) \<Longrightarrow> published E t content mode replace d r d' \<Longrightarrow>
     published E t content mode replace d r (d'(temp := x))"
  by (auto simp: published_def swapped_to_def intro: apart_remove split: sum.splits)

lemma triple_place:
  assumes h: "honoured E (wt_parent t)" and temp: "temp \<in> range (fe_temp_name E)" and name: "wt_name t \<notin> range (fe_temp_name E)"
  shows "triple (wt_parent t) (\<lambda>d'. temp_holds E temp d f d' \<and> ff_bytes f = content \<and> (\<forall>m. mode = Some m \<longrightarrow> ff_mode f = m))
    (if replace then rename_over E t temp else hard_link E t temp) (published E t content mode replace d)"
proof -
  have other: "wt_name t \<noteq> temp" using temp name by auto
  have swap: "swapped_to E (wt_name t) (ff_bytes f) mode d (d'(wt_name t \<mapsto> NodeFile f))"
    if "apart_from_temps E d d'" "\<forall>m. mode = Some m \<longrightarrow> ff_mode f = m" for d'
    using that by (auto simp: swapped_to_def apart_from_temps_def intro!: exI[of _ f])
  have gone: "apart_from_temps E d (d'(temp := None))" if "apart_from_temps E d d'" for d'
    using that by (rule apart_remove[OF temp])
  have free: "d (wt_name t) = d' (wt_name t)" if "apart_from_temps E d d'" for d'
    using that name by (simp add: apart_from_temps_def)
  show ?thesis
  proof (cases replace)
    case True
    then have r: "replace = True" by simp
    show ?thesis unfolding r if_True rename_over_def
      by (rule triple_access[OF h]) (use other swap gone in \<open>auto simp: published_def temp_holds_def set_node_def\<close>)
  next
    case False
    then have r: "replace = False" by simp
    show ?thesis unfolding r if_False hard_link_def
      by (rule triple_access[OF h]) (use swap free in \<open>auto simp: published_def temp_holds_def set_node_def\<close>)
  qed
qed

lemma triple_remove:
  assumes h: "honoured E (wt_parent t)" and keep: "\<And>d. P d \<Longrightarrow> P (d(temp := None))"
  shows "triple (wt_parent t) P (io_bind (io_try (remove_file E t temp)) (\<lambda>_. io_return ())) (\<lambda>r d. P d \<and> is_ok r)"
proof -
  have "triple (wt_parent t) P (remove_file E t temp) (\<lambda>r. P)"
    unfolding remove_file_def
    by (rule triple_access[OF h]) (use keep in \<open>auto simp: set_node_def split: option.splits fs_node.splits\<close>)
  then have "triple (wt_parent t) P (io_try (remove_file E t temp)) (\<lambda>r d. P d \<and> is_ok r)"
    by (intro triple_try) simp
  then show ?thesis by (rule triple_bind) (auto intro!: triple_return)
qed

lemma triple_publish:
  assumes h: "honoured E (wt_parent t)" and name: "wt_name t \<notin> range (fe_temp_name E)"
  shows "triple (wt_parent t) (\<lambda>d'. d' = d) (publish_mode E t content metadata replace private)
    (published E t content (node_mode metadata) replace d)"
proof -
  let ?h = "wt_parent t" and ?m = "node_mode metadata"
  let ?P = "published E t content ?m replace d"
  define M where "M = (\<lambda>temp. (io_bind (io_try (
        io_bind (write_temp E t temp content ?m private) (\<lambda>f.
        io_bind (look_open E f) (\<lambda>g.
        io_bind (reject_final_symlink E t) (\<lambda>_.
        io_bind (if replace then rename_over E t temp else hard_link E t temp) (\<lambda>_.
        io_return (file_stamp E content g))))))) (\<lambda>result.
      io_bind (if \<not> is_ok result \<or> \<not> replace then io_bind (io_try (remove_file E t temp)) (\<lambda>_. io_return ())
               else io_return ()) (\<lambda>_.
      io_lift result))))"
  have main: "triple ?h (\<lambda>d'. d' = d) (M temp) ?P" if temp: "temp \<in> range (fe_temp_name E)" for temp
  unfolding M_def proof (rule triple_bind[OF triple_try[where Q = "\<lambda>r d'. case r of Inl e \<Rightarrow> False | Inr q \<Rightarrow> ?P q d'"]])
    let ?W = "\<lambda>f d'. temp_holds E temp d f d' \<and> ff_bytes f = content \<and> (\<forall>m. ?m = Some m \<longrightarrow> ff_mode f = m)"
    have end_: "triple ?h (?W f) (io_bind (if replace then rename_over E t temp else hard_link E t temp) (\<lambda>_.
        io_return (file_stamp E content g))) ?P" for f g
      by (rule triple_bind[OF triple_place[OF h temp name]]) (auto intro!: triple_return simp: published_def)
    have apart: "?P (Inl e) d'" if "?W f d'" for e f d'
      using that by (simp add: published_def temp_holds_def)
    have tail: "triple ?h (?W f) (io_bind (look_open E f) (\<lambda>g. io_bind (reject_final_symlink E t) (\<lambda>_.
        io_bind (if replace then rename_over E t temp else hard_link E t temp) (\<lambda>_.
        io_return (file_stamp E content g))))) ?P" for f
      by (intro triple_bind[OF quiet_triple[OF quiet_look_open[OF h]]] triple_bind[OF quiet_triple[OF quiet_reject[OF h]]]
          end_ apart)
    have "triple ?h (\<lambda>d'. d' = d) (io_bind (write_temp E t temp content ?m private) (\<lambda>f.
        io_bind (look_open E f) (\<lambda>g.
        io_bind (reject_final_symlink E t) (\<lambda>_.
        io_bind (if replace then rename_over E t temp else hard_link E t temp) (\<lambda>_.
        io_return (file_stamp E content g)))))) ?P"
      by (rule triple_bind[OF triple_write_temp[OF h temp]]) (use tail in \<open>simp_all add: published_def\<close>)
    then show "triple ?h (\<lambda>d'. d' = d) (io_bind (write_temp E t temp content ?m private) (\<lambda>f.
        io_bind (look_open E f) (\<lambda>g.
        io_bind (reject_final_symlink E t) (\<lambda>_.
        io_bind (if replace then rename_over E t temp else hard_link E t temp) (\<lambda>_.
        io_return (file_stamp E content g))))))
      (\<lambda>r d'. case Inr r of Inl e \<Rightarrow> False | Inr q \<Rightarrow> ?P q d')" by simp
  next
    fix q
    have keep: "?P q (d'(temp := None))" if "?P q d'" for d' using that by (rule published_remove[OF temp])
    have clean: "triple ?h (?P q) (if \<not> is_ok q \<or> \<not> replace then io_bind (io_try (remove_file E t temp)) (\<lambda>_. io_return ())
        else io_return ()) (\<lambda>r d'. ?P q d' \<and> is_ok r)"
      using triple_remove[OF h, of "?P q" temp, OF keep] by (auto intro!: triple_return)
    show "triple ?h (\<lambda>d'. case Inr q of Inl e \<Rightarrow> False | Inr q \<Rightarrow> ?P q d')
      (io_bind (if \<not> is_ok q \<or> \<not> replace then io_bind (io_try (remove_file E t temp)) (\<lambda>_. io_return ())
        else io_return ()) (\<lambda>_. io_lift q)) ?P"
      unfolding sum.case by (rule triple_bind[OF clean]) (auto intro!: triple_lift)
  qed simp
  have eq: "publish_mode E t content metadata replace private = (\<lambda>s. M (fe_temp_name E (fs_clock s)) s)"
    by (simp add: publish_mode_def Let_def node_mode_def M_def fun_eq_iff)
  show ?thesis
  proof (rule tripleI)
    fix s r s'
    assume s: "fs_locked s = Some ?h" "fs_dirs s ?h = d" "publish_mode E t content metadata replace private s = (r, s')"
    from s(3) have "M (fe_temp_name E (fs_clock s)) s = (r, s')" by (simp only: eq)
    from tripleD[OF main[OF rangeI] s(1,2) this] show "fs_locked s' = Some ?h \<and> ?P r (fs_dirs s' ?h)" .
  qed
qed

end
