(* ===== verification/FileEditProps.thy ===== *)
theory FileEditProps
  imports FileEdit "HOL-Library.Multiset"
begin

text \<open>
  What the exact-text editor promises: the search finds every occurrence, and a batch of edits
  is applied exactly when every old text occurs once and the occurrences are apart; then each
  old text is replaced by its own new text, whatever the order of the batch, and everything
  between them is kept.
\<close>

section \<open>UTF-8\<close>

text \<open>Every code point is complete, and no continuation byte stands outside of one.\<close>

function utf8 :: "string \<Rightarrow> bool" where
  "utf8 [] = True"
| "utf8 (c # s) = (\<not> is_continuation c \<and> char_len c \<le> Suc (length s)
     \<and> list_all is_continuation (take (char_len c - 1) s) \<and> utf8 (drop (char_len c - 1) s))"
  by pat_completeness auto
termination by (relation "measure length") auto

lemma utf8_drop: "utf8 s \<Longrightarrow> i < length s \<Longrightarrow> \<not> is_continuation (s ! i) \<Longrightarrow> utf8 (drop i s)"
proof (induction s arbitrary: i rule: utf8.induct)
  case (2 c s)
  show ?case
  proof (cases i)
    case (Suc j)
    have "\<not> j < char_len c - 1"
    proof
      assume j: "j < char_len c - 1"
      then have "take (char_len c - 1) s ! j = s ! j" by simp
      moreover have "list_all is_continuation (take (char_len c - 1) s)" using 2(2) by simp
      ultimately show False using j 2(3,4) Suc by (auto simp: list_all_length)
    qed
    then have j: "j = (j - (char_len c - 1)) + (char_len c - 1)" by simp
    have "utf8 (drop (j - (char_len c - 1)) (drop (char_len c - 1) s))"
    proof (rule 2(1))
      show "utf8 (drop (char_len c - 1) s)" using 2(2) by simp
      show "j - (char_len c - 1) < length (drop (char_len c - 1) s)" using 2(3) Suc j by simp
      have "drop (char_len c - 1) s ! (j - (char_len c - 1)) = s ! j" using 2(3) Suc j by (simp add: add.commute)
      then show "\<not> is_continuation (drop (char_len c - 1) s ! (j - (char_len c - 1)))" using 2(4) Suc by simp
    qed
    then show ?thesis using Suc j by (metis drop_Suc_Cons drop_drop)
  qed (use 2 in simp)
qed simp

lemma utf8_boundary: "utf8 (drop i s) \<Longrightarrow> i \<le> length s \<Longrightarrow> is_char_boundary s i"
proof (cases "i = length s")
  case False
  assume u: "utf8 (drop i s)" and "i \<le> length s"
  with False have "i < length s" by simp
  with u show ?thesis by (simp add: is_char_boundary_def Cons_nth_drop_Suc[symmetric])
qed (simp add: is_char_boundary_def)

section \<open>The search\<close>

definition occurs_at :: "string \<Rightarrow> string \<Rightarrow> nat \<Rightarrow> bool" where
  "occurs_at p s i \<longleftrightarrow> i < length s \<and> starts_with p (drop i s)"

lemma find_at_Some:
  "find_at p s = Some k \<Longrightarrow> k \<le> length s \<and> starts_with p (drop k s) \<and> (\<forall>j<k. \<not> starts_with p (drop j s))"
proof (induction s arbitrary: k)
  case (Cons c s)
  show ?case
  proof (cases "starts_with p (c # s)")
    case False
    with Cons.prems obtain k' where k: "k = Suc k'" "find_at p s = Some k'" by auto
    have "\<not> starts_with p (drop j (c # s))" if "j < k" for j
      using that False Cons.IH[OF k(2)] k(1) by (cases j) auto
    with Cons.IH[OF k(2)] k(1) show ?thesis by simp
  qed (use Cons.prems in simp)
qed (auto split: if_splits)

lemma find_at_None: "find_at p s = None \<Longrightarrow> \<not> starts_with p (drop j s)"
proof (induction s arbitrary: j)
  case Nil
  then show ?case by (cases p) (auto split: if_splits)
next
  case (Cons c s)
  then show ?case by (cases j) (auto split: if_splits)
qed

lemma filter_upt_skip:
  assumes "i \<le> j" "\<And>x. i \<le> x \<Longrightarrow> x < j \<Longrightarrow> \<not> P x"
  shows "filter P [i..<n] = filter P [j..<n]"
proof (cases "j \<le> n")
  case True
  then have "[i..<n] = [i..<j] @ [j..<n]" using assms(1) upt_add_eq_append[of i j "n - j"] by simp
  moreover have "filter P [i..<j] = []" using assms(2) by (simp add: filter_empty_conv)
  ultimately show ?thesis by simp
next
  case False
  then have "filter P [i..<n] = []" using assms(2) by (simp add: filter_empty_conv)
  with False show ?thesis by simp
qed

lemma char_tail:
  assumes "utf8 (drop i s)" "i < length s"
  shows "utf8 (drop (i + char_len (s ! i)) s)" "i + char_len (s ! i) \<le> length s"
    "\<And>x. i < x \<Longrightarrow> x < i + char_len (s ! i) \<Longrightarrow> is_continuation (s ! x)"
proof -
  let ?n = "char_len (s ! i)" and ?t = "drop (Suc i) s"
  have d: "drop i s = s ! i # ?t" using assms(2) by (simp add: Cons_nth_drop_Suc)
  have pos: "Suc i + (?n - 1) = i + ?n" using char_len_pos[of "s ! i"] by linarith
  have u: "?n \<le> Suc (length ?t)" "list_all is_continuation (take (?n - 1) ?t)" "utf8 (drop (?n - 1) ?t)"
    using assms(1) unfolding d by simp_all
  from u(3) show "utf8 (drop (i + ?n) s)" unfolding drop_drop using pos by (simp add: add.commute)
  from u(1) assms(2) show "i + ?n \<le> length s" by simp
  fix x assume x: "i < x" "x < i + ?n"
  then have "x - Suc i < length (take (?n - 1) ?t)" using u(1) assms(2) by simp
  then have "is_continuation (take (?n - 1) ?t ! (x - Suc i))" using u(2) by (simp add: list_all_length)
  moreover have "take (?n - 1) ?t ! (x - Suc i) = s ! x" using x u(1) assms(2) by simp
  ultimately show "is_continuation (s ! x)" by simp
qed

lemma occurs_head: "occurs_at p s i \<Longrightarrow> p \<noteq> [] \<Longrightarrow> s ! i = hd p"
  by (cases p) (auto simp: occurs_at_def starts_with_iff Cons_nth_drop_Suc[symmetric])

lemma offsets_from_all:
  "needle \<noteq> [] \<Longrightarrow> \<not> is_continuation (hd needle) \<Longrightarrow> utf8 (drop cursor content) \<Longrightarrow>
     offsets_from content needle cursor = filter (occurs_at needle content) [cursor..<length content]"
proof (induction content needle cursor rule: offsets_from.induct)
  case (1 content needle cursor)
  show ?case
  proof (cases "cursor \<le> length content")
    case True
    note b = utf8_boundary[OF 1(4) True]
    show ?thesis
    proof (cases "find_at needle (drop cursor content)")
      case None
      have "\<not> occurs_at needle content i" if "cursor \<le> i" for i
        using find_at_None[OF None, of "i - cursor"] that by (simp add: occurs_at_def)
      with None b True show ?thesis by (simp add: offsets_from.simps[of content needle cursor] filter_empty_conv)
    next
      case (Some k)
      define i where "i = cursor + k"
      have f: "k \<le> length content - cursor" "starts_with needle (drop i content)"
        "\<And>j. j < k \<Longrightarrow> \<not> starts_with needle (drop (cursor + j) content)"
        using find_at_Some[OF Some] by (simp_all add: i_def add.commute)
      with 1(2) have "drop i content \<noteq> []" by (auto simp: starts_with_iff)
      then have i: "i < length content" by simp
      with f(2) have at: "occurs_at needle content i" by (simp add: occurs_at_def)
      have c: "content ! i = hd needle" using at 1(2) by (rule occurs_head)
      have "utf8 (drop k (drop cursor content))"
        by (rule utf8_drop[OF 1(4)]) (use i c 1(3) in \<open>simp_all add: i_def\<close>)
      then have u: "utf8 (drop i content)" by (simp add: i_def add.commute)
      note tail = char_tail[OF u i]
      let ?j = "i + char_len (content ! i)"
      have "filter (occurs_at needle content) [cursor..<length content] = filter (occurs_at needle content) [i..<length content]"
      proof (rule filter_upt_skip)
        fix x assume "cursor \<le> x" "x < i"
        then show "\<not> occurs_at needle content x" using f(3)[of "x - cursor"] by (simp add: occurs_at_def i_def)
      qed (simp add: i_def)
      also have "\<dots> = i # filter (occurs_at needle content) [Suc i..<length content]"
        using i at by (simp add: upt_conv_Cons)
      also have "filter (occurs_at needle content) [Suc i..<length content] = filter (occurs_at needle content) [?j..<length content]"
      proof (rule filter_upt_skip)
        show "Suc i \<le> ?j" using char_len_pos[of "content ! i"] by linarith
        fix x assume "Suc i \<le> x" "x < ?j"
        then have "is_continuation (content ! x)" using tail(3)[of x] by simp
        then show "\<not> occurs_at needle content x" using occurs_head[of needle content x] 1(2,3) by auto
      qed
      also have "\<dots> = offsets_from content needle ?j"
      proof -
        have d: "drop (cursor + k) content = content ! i # drop (Suc i) content"
          using i by (simp add: i_def Cons_nth_drop_Suc)
        have g: "\<not> (length content < cursor \<or> \<not> is_char_boundary content cursor)" using True b by simp
        have "utf8 (drop (cursor + k + char_len (content ! i)) content)" using tail(1) by (simp only: i_def)
        from 1(1)[OF g Some d 1(2,3) this] show ?thesis by (simp only: i_def)
      qed
      finally show ?thesis using Some b True i
        by (simp add: offsets_from.simps[of content needle cursor] i_def Cons_nth_drop_Suc[symmetric])
    qed
  qed (simp add: offsets_from.simps[of content needle cursor])
qed

lemma offsets_all:
  "utf8 content \<Longrightarrow> utf8 needle \<Longrightarrow> needle \<noteq> [] \<Longrightarrow>
     offsets content needle = filter (occurs_at needle content) [0..<length content]"
  unfolding offsets_def by (rule offsets_from_all) (cases needle; simp)+

section \<open>A batch as gaps and texts\<close>

text \<open>A text put together from what lies between the occurrences and what fills them.\<close>

fun weave :: "string list \<Rightarrow> string list \<Rightarrow> string" where
  "weave (g # gs) (t # ts) = g @ t @ weave gs ts"
| "weave gs ts = concat gs"

definition place :: "string \<Rightarrow> file_edit \<Rightarrow> nat" where
  "place content e = hd (offsets content (ed_old e))"

definition edit_range :: "string \<Rightarrow> file_edit \<Rightarrow> replacement" where
  "edit_range content e = \<lparr>rp_start = place content e,
     rp_end = place content e + length (ed_old e), rp_new = ed_new e\<rparr>"

lemma edit_range_sel [simp]:
  "rp_start (edit_range s e) = place s e" "rp_end (edit_range s e) = place s e + length (ed_old e)"
  "rp_new (edit_range s e) = ed_new e"
  by (simp_all add: edit_range_def)

lemma find_ranges_iff:
  "find_ranges content n es = Inr rs \<longleftrightarrow>
     (\<forall>e\<in>set es. offsets content (ed_old e) = [place content e]) \<and> rs = map (edit_range content) es"
  by (induction es arbitrary: n rs) (auto simp: place_def edit_range_def split: list.splits)

lemma sort_key_map: "sort_key g (map f xs) = map f (sort_key (\<lambda>x. g (f x)) xs)"
proof -
  have "insort_key g (f x) (map f ys) = map f (insort_key (\<lambda>x. g (f x)) x ys)" for x ys
    by (induction ys) auto
  then show ?thesis by (induction xs) simp_all
qed

text \<open>The occurrences, in this order and apart, from a position on.\<close>

fun placed :: "string \<Rightarrow> nat \<Rightarrow> file_edit list \<Rightarrow> bool" where
  "placed s k [] = (k \<le> length s)"
| "placed s k (e # es) = (k \<le> place s e \<and> placed s (place s e + length (ed_old e)) es
     \<and> take (length (ed_old e)) (drop (place s e) s) = ed_old e)"

fun gaps :: "string \<Rightarrow> nat \<Rightarrow> file_edit list \<Rightarrow> string list" where
  "gaps s k [] = [drop k s]"
| "gaps s k (e # es) = take (place s e - k) (drop k s) # gaps s (place s e + length (ed_old e)) es"

lemma length_gaps [simp]: "length (gaps s k es) = Suc (length es)"
  by (induction s k es rule: gaps.induct) simp_all

lemma placed_le: "placed s k es \<Longrightarrow> k \<le> length s"
  by (induction s k es rule: placed.induct) simp_all

lemma gap_before: "k \<le> i \<Longrightarrow> take k s @ take (i - k) (drop k s) = take i s"
  by (metis le_add_diff_inverse take_add)

lemma weave_old: "placed s k es \<Longrightarrow> weave (gaps s k es) (map ed_old es) = drop k s"
proof (induction s k es rule: placed.induct)
  case (2 s k e es)
  let ?i = "place s e"
  have "drop k s = take (?i - k) (drop k s) @ drop ?i s"
    using 2(2) append_take_drop_id[of "?i - k" "drop k s"] by simp
  also have "drop ?i s = ed_old e @ drop (?i + length (ed_old e)) s"
    using 2(2) append_take_drop_id[of "length (ed_old e)" "drop ?i s"] by (simp add: add.commute)
  finally show ?case using 2 by simp
qed simp

lemma replace_placed:
  "placed s k es \<Longrightarrow> fold replace_range (rev (map (edit_range s) es)) s = take k s @ weave (gaps s k es) (map ed_new es)"
proof (induction s k es rule: placed.induct)
  case (2 s k e es)
  let ?i = "place s e" and ?k = "place s e + length (ed_old e)"
  let ?w = "weave (gaps s ?k es) (map ed_new es)"
  have "?k \<le> length s" using 2(2) placed_le[of s ?k es] by simp
  moreover have "fold replace_range (rev (map (edit_range s) es)) s = take ?k s @ ?w" using 2 by simp
  ultimately have "fold replace_range (rev (map (edit_range s) (e # es))) s = take ?i s @ ed_new e @ ?w"
    by (simp add: replace_range_def)
  also have "take ?i s = take k s @ take (?i - k) (drop k s)" using 2(2) by (simp add: gap_before)
  finally show ?case by simp
qed simp

lemma length_weave: "length gs = Suc (length ts) \<Longrightarrow>
    length (weave gs ts) = sum_list (map length gs) + sum_list (map length ts)"
  by (induction gs ts rule: weave.induct) (simp_all add: length_concat)

text \<open>Neighbours that are apart are placed.\<close>

lemma apart_placed:
  "k \<le> length s \<Longrightarrow> (\<And>e. e \<in> set es \<Longrightarrow> occurs_at (ed_old e) s (place s e)) \<Longrightarrow>
     (case es of [] \<Rightarrow> True | e # _ \<Rightarrow> k \<le> place s e) \<Longrightarrow> \<not> ranges_overlap (map (edit_range s) es) \<Longrightarrow> placed s k es"
proof (induction es arbitrary: k)
  case (Cons e es)
  have "occurs_at (ed_old e) s (place s e)" using Cons.prems(2) by simp
  then have at: "place s e + length (ed_old e) \<le> length s" "take (length (ed_old e)) (drop (place s e) s) = ed_old e"
    by (auto simp: occurs_at_def starts_with_iff) (metis length_append length_drop le_add1 le_diff_conv2 nat_less_le add.commute)
  have "placed s (place s e + length (ed_old e)) es"
  proof (rule Cons.IH[OF at(1)])
    show "case es of [] \<Rightarrow> True | b # _ \<Rightarrow> place s e + length (ed_old e) \<le> place s b"
      using Cons.prems(4) by (cases es) (auto simp: ranges_overlap_def)
    show "\<not> ranges_overlap (map (edit_range s) es)"
      using Cons.prems(4) by (cases es) (auto simp: ranges_overlap_def)
  qed (use Cons.prems(2) in simp)
  with Cons.prems(3) at(2) show ?case by simp
qed simp

lemma placed_apart: "placed s k es \<Longrightarrow> \<not> ranges_overlap (map (edit_range s) es)"
proof (induction s k es rule: placed.induct)
  case (2 s k e es)
  then show ?case by (cases es) (auto simp: ranges_overlap_def)
qed (simp add: ranges_overlap_def)

lemma placed_sorted:
  "placed s k es \<Longrightarrow> (\<And>e. e \<in> set es \<Longrightarrow> ed_old e \<noteq> []) \<Longrightarrow>
     sorted_wrt (<) (map (place s) es) \<and> (\<forall>e\<in>set es. k \<le> place s e)"
proof (induction s k es rule: placed.induct)
  case (2 s k e es)
  have o: "0 < length (ed_old e)" using 2(3) by simp
  have "sorted_wrt (<) (map (place s) es) \<and> (\<forall>b\<in>set es. place s e + length (ed_old e) \<le> place s b)"
    using 2 by simp
  moreover from this o have "place s e < place s b" if "b \<in> set es" for b
    using that by (meson add_lessD1 less_add_same_cancel1 less_le_trans)
  moreover have "k \<le> place s e" using 2(2) by simp
  ultimately show ?case by (auto dest: order_trans less_imp_le)
qed simp

lemma placed_size:
  assumes "placed s 0 es"
  shows "length (weave (gaps s 0 es) (map ed_new es)) = length s
     - sum_list (map (\<lambda>e. length (ed_old e)) es) + sum_list (map (\<lambda>e. length (ed_new e)) es)"
proof -
  have "length s = sum_list (map length (gaps s 0 es)) + sum_list (map (\<lambda>e. length (ed_old e)) es)"
    using weave_old[OF assms] length_weave[of "gaps s 0 es" "map ed_old es"] by (simp add: comp_def)
  then show ?thesis by (simp add: length_weave comp_def)
qed

section \<open>The plan\<close>

lemma edit_plan_iff:
  "edit_plan s edits = Inr out \<longleftrightarrow>
     (\<forall>e\<in>set edits. offsets s (ed_old e) = [place s e])
     \<and> \<not> ranges_overlap (map (edit_range s) (sort_key (place s) edits))
     \<and> length s - sum_list (map (\<lambda>e. length (ed_old e)) (sort_key (place s) edits))
         + sum_list (map (\<lambda>e. length (ed_new e)) (sort_key (place s) edits)) \<le> max_write_bytes
     \<and> fold replace_range (rev (map (edit_range s) (sort_key (place s) edits))) s = out"
proof -
  have sorted: "sort_key rp_start (map (edit_range s) edits) = map (edit_range s) (sort_key (place s) edits)"
    by (simp add: sort_key_map)
  show ?thesis
  proof (cases "\<forall>e\<in>set edits. offsets s (ed_old e) = [place s e]")
    case True
    then have "find_ranges s 0 edits = Inr (map (edit_range s) edits)" by (simp add: find_ranges_iff)
    with True show ?thesis by (simp add: edit_plan_def sorted Let_def comp_def not_less)
  next
    case False
    then have "find_ranges s 0 edits \<noteq> Inr rs" for rs unfolding find_ranges_iff by blast
    then obtain e where "find_ranges s 0 edits = Inl e" by (cases "find_ranges s 0 edits") auto
    with False show ?thesis by (simp add: edit_plan_def)
  qed
qed

lemma occurs_offsets:
  assumes "utf8 s" "utf8 p" "p \<noteq> []"
  shows "offsets s p = [i] \<longleftrightarrow> occurs_at p s i \<and> (\<forall>j. occurs_at p s j \<longrightarrow> j = i)"
proof
  have o: "set (offsets s p) = {j. occurs_at p s j}" "distinct (offsets s p)"
    unfolding offsets_all[OF assms] by (auto simp: occurs_at_def)
  {
    assume "offsets s p = [i]"
    with o(1) show "occurs_at p s i \<and> (\<forall>j. occurs_at p s j \<longrightarrow> j = i)" by auto
  next
    assume "occurs_at p s i \<and> (\<forall>j. occurs_at p s j \<longrightarrow> j = i)"
    then have "{j. occurs_at p s j} = {i}" by blast
    with o show "offsets s p = [i]" by (intro singleton_list) simp_all
  }
qed

lemma weave_placed:
  "(\<And>e. e \<in> set es \<Longrightarrow> ed_old e \<noteq> [] \<and> (\<forall>j. occurs_at (ed_old e) s j \<longrightarrow> j = place s e)) \<Longrightarrow>
     length gs = Suc (length es) \<Longrightarrow> k \<le> length s \<Longrightarrow> drop k s = weave gs (map ed_old es) \<Longrightarrow>
     placed s k es \<and> gs = gaps s k es"
proof (induction es arbitrary: gs k)
  case Nil
  then show ?case by (cases gs) simp_all
next
  case (Cons e es)
  from Cons.prems(2) obtain g gs' where gs: "gs = g # gs'" "length gs' = Suc (length es)" by (cases gs) auto
  with Cons.prems(4) have d: "drop k s = g @ ed_old e @ weave gs' (map ed_old es)" by simp
  then have "drop (k + length g) s = ed_old e @ weave gs' (map ed_old es)"
    by (metis append_eq_conv_conj drop_drop add.commute)
  moreover from this have "k + length g < length s" using Cons.prems(1)[of e]
    by (metis append_is_Nil_conv drop_all list.set_intros(1) not_le)
  ultimately have "occurs_at (ed_old e) s (k + length g)" by (auto simp: occurs_at_def starts_with_iff)
  then have p: "place s e = k + length g" using Cons.prems(1)[of e] by simp
  let ?k = "place s e + length (ed_old e)"
  have t: "take (length (ed_old e)) (drop (place s e) s) = ed_old e" "drop ?k s = weave gs' (map ed_old es)"
    using \<open>drop (k + length g) s = _\<close> unfolding p by (simp_all, metis append_eq_conv_conj drop_drop add.commute)
  have "?k \<le> length s"
    using t(1) \<open>k + length g < length s\<close> unfolding p[symmetric]
    by (metis Nat.le_diff_conv2 add.commute length_drop length_take less_imp_le min.cobounded1)
  with Cons.IH[OF _ gs(2) _ t(2)] Cons.prems(1) have "placed s ?k es \<and> gs' = gaps s ?k es" by simp
  moreover have "take (place s e - k) (drop k s) = g" using d p by simp
  ultimately show ?case using p t(1) gs(1) by simp
qed

text \<open>The specification: every old text occurs once, and the new text fills its gap.\<close>

definition batch_result :: "string \<Rightarrow> file_edit list \<Rightarrow> string \<Rightarrow> bool" where
  "batch_result s edits out \<longleftrightarrow> (\<forall>e\<in>set edits. \<exists>i. \<forall>j. occurs_at (ed_old e) s j \<longleftrightarrow> j = i)
     \<and> (\<exists>es gs. mset es = mset edits \<and> length gs = Suc (length es)
         \<and> s = weave gs (map ed_old es) \<and> out = weave gs (map ed_new es))"

lemma place_unique:
  assumes "utf8 s" "utf8 (ed_old e)" "ed_old e \<noteq> []"
  shows "offsets s (ed_old e) = [place s e] \<longleftrightarrow> (\<exists>i. \<forall>j. occurs_at (ed_old e) s j \<longleftrightarrow> j = i)"
proof
  assume "\<exists>i. \<forall>j. occurs_at (ed_old e) s j \<longleftrightarrow> j = i"
  then obtain i where "offsets s (ed_old e) = [i]" using occurs_offsets[OF assms] by blast
  then show "offsets s (ed_old e) = [place s e]" by (simp add: place_def)
qed (use occurs_offsets[OF assms] in blast)

lemma edit_plan_sound:
  assumes u: "utf8 s" and ok: "\<And>e. e \<in> set edits \<Longrightarrow> utf8 (ed_old e) \<and> ed_old e \<noteq> []"
    and r: "edit_plan s edits = Inr out"
  shows "batch_result s edits out \<and> length out \<le> max_write_bytes"
proof -
  define es where "es = sort_key (place s) edits"
  have sing: "\<forall>e\<in>set edits. offsets s (ed_old e) = [place s e]" using r edit_plan_iff by blast
  have apart: "\<not> ranges_overlap (map (edit_range s) es)" using r edit_plan_iff es_def by blast
  have size: "length s - sum_list (map (\<lambda>e. length (ed_old e)) es)
      + sum_list (map (\<lambda>e. length (ed_new e)) es) \<le> max_write_bytes" using r edit_plan_iff es_def by blast
  have out: "fold replace_range (rev (map (edit_range s) es)) s = out" using r edit_plan_iff es_def by blast
  have m: "mset es = mset edits" "set es = set edits" by (simp_all add: es_def)
  have p: "placed s 0 es"
  proof (rule apart_placed[OF _ _ _ apart])
    show "occurs_at (ed_old e) s (place s e)" if "e \<in> set es" for e
      using that sing ok[of e] occurs_offsets[OF u, of "ed_old e"] m(2) by blast
  qed (simp_all split: list.splits)
  have "s = weave (gaps s 0 es) (map ed_old es)" using weave_old[OF p] by simp
  moreover have w: "out = weave (gaps s 0 es) (map ed_new es)" using replace_placed[OF p] out by simp
  moreover have "length out \<le> max_write_bytes" unfolding w placed_size[OF p] by (rule size)
  moreover have "\<forall>e\<in>set edits. \<exists>i. \<forall>j. occurs_at (ed_old e) s j \<longleftrightarrow> j = i"
    using sing ok place_unique[OF u] by blast
  ultimately show ?thesis unfolding batch_result_def using m(1) length_gaps by blast
qed

lemma edit_plan_complete:
  assumes u: "utf8 s" and ok: "\<And>e. e \<in> set edits \<Longrightarrow> utf8 (ed_old e) \<and> ed_old e \<noteq> []"
    and r: "batch_result s edits out" and size: "length out \<le> max_write_bytes"
  shows "edit_plan s edits = Inr out"
proof -
  from r obtain es gs where m: "mset es = mset edits" and gs: "length gs = Suc (length es)"
    and s: "s = weave gs (map ed_old es)" and out: "out = weave gs (map ed_new es)"
    and un: "\<forall>e\<in>set edits. \<exists>i. \<forall>j. occurs_at (ed_old e) s j \<longleftrightarrow> j = i"
    unfolding batch_result_def by blast
  have set: "set es = set edits" using m by (rule mset_eq_setD)
  have sing: "\<forall>e\<in>set edits. offsets s (ed_old e) = [place s e]" using un ok place_unique[OF u] by blast
  have un': "ed_old e \<noteq> [] \<and> (\<forall>j. occurs_at (ed_old e) s j \<longrightarrow> j = place s e)" if "e \<in> set es" for e
    using that set sing ok[of e] occurs_offsets[OF u, of "ed_old e"] by blast
  have pg: "placed s 0 es \<and> gs = gaps s 0 es" by (rule weave_placed[OF un' gs]) (use s in simp_all)
  then have p: "placed s 0 es" by simp
  have lt: "sorted_wrt (<) (map (place s) es)" using placed_sorted[OF p] un' by blast
  then have "distinct (map (place s) es)" "sorted (map (place s) es)" by (simp_all add: strict_sorted_iff)
  then have sort: "sort_key (place s) edits = es"
    using sort_key_inj_key_eq[of edits es "place s"] m set by (simp add: distinct_map)
  have "fold replace_range (rev (map (edit_range s) es)) s = out" using replace_placed[OF p] pg out by simp
  moreover have "length s - sum_list (map (\<lambda>e. length (ed_old e)) es)
      + sum_list (map (\<lambda>e. length (ed_new e)) es) \<le> max_write_bytes"
    using size placed_size[OF p] pg out by simp
  ultimately show ?thesis unfolding edit_plan_iff sort using sing placed_apart[OF p] by blast
qed

section \<open>Arguments\<close>

definition size_error :: tool_error where
  "size_error = tool_error_new ''edit_file: combined edit text exceeds 2 MiB''"

definition entry_texts :: "json \<Rightarrow> string \<Rightarrow> string \<Rightarrow> bool" where
  "entry_texts v old new \<longleftrightarrow> json_get v ''old_str'' = Some (JStr old) \<and> json_get v ''new_str'' = Some (JStr new)
     \<and> old \<noteq> [] \<and> old \<noteq> new"

definition entry_good :: "json \<Rightarrow> bool" where
  "entry_good v \<longleftrightarrow> check_keys v edit_keys = Inr () \<and> (\<exists>old new. entry_texts v old new)"

lemma first_add [simp]: "is_first (add_issue i c m s) \<noteq> None"
  by (simp add: add_issue_def split: option.splits)

lemma first_check_keys: "is_first (check_issue_keys v ks i s) = None \<longleftrightarrow> is_first s = None \<and> check_keys v ks = Inr ()"
  by (simp add: check_issue_keys_def check_keys_def split: option.splits)

lemma bind_as_str: "Option.bind x as_str = Some s \<longleftrightarrow> x = Some (JStr s)"
  by (cases x) simp_all

lemma first_check_entry: "is_first (check_entry v i s) = None \<longleftrightarrow> is_first s = None \<and> entry_good v"
proof -
  let ?s = "check_issue_keys v edit_keys (Some i) s"
  let ?old = "Option.bind (json_get v ''old_str'') as_str" and ?new = "Option.bind (json_get v ''new_str'') as_str"
  have good: "entry_good v \<longleftrightarrow> check_keys v edit_keys = Inr () \<and> (\<exists>old new. ?old = Some old \<and> ?new = Some new
      \<and> old \<noteq> [] \<and> old \<noteq> new)"
    unfolding entry_good_def entry_texts_def bind_as_str by blast
  show ?thesis
  proof (cases "as_object v")
    case None
    then have "check_keys v edit_keys \<noteq> Inr ()" by (simp add: check_keys_def)
    with None show ?thesis by (simp add: check_entry_def Let_def first_check_keys good)
  next
    case (Some es)
    show ?thesis
    proof (cases "\<exists>old new. ?old = Some old \<and> ?new = Some new")
      case True
      then obtain old new where t: "?old = Some old" "?new = Some new" by blast
      show ?thesis unfolding good check_entry_def Let_def t using Some by (simp add: first_check_keys)
    next
      case False
      then have f: "?old = None \<or> ?new = None" by (cases ?old; cases ?new) simp_all
      then have "is_first (check_entry v i s) \<noteq> None" unfolding check_entry_def Let_def using Some by simp
      with f show ?thesis unfolding good by auto
    qed
  qed
qed

lemma first_check_entries: "is_first (check_entries vs i s) = None \<longleftrightarrow> is_first s = None \<and> (\<forall>v\<in>set vs. entry_good v)"
  by (induction vs arbitrary: i s) (auto simp: first_check_entry)

lemma finish_ok: "finish_issues s = Inr u \<longleftrightarrow> is_first s = None"
  by (simp add: finish_issues_def split: option.splits)

lemma finish_recovery: "finish_issues s = Inl e \<Longrightarrow> te_recovery e \<noteq> None"
  by (auto simp: finish_issues_def with_recovery_def split: option.splits)

lemma validate_batch:
  assumes "json_get args ''edits'' = Some batch"
  shows "validate_edit args = Inr () \<longleftrightarrow> check_keys args request_keys = Inr ()
     \<and> json_get args ''old_str'' = None \<and> json_get args ''new_str'' = None
     \<and> (\<exists>l. batch_list batch = Some l \<and> (\<forall>v\<in>set l. entry_good v))"
  using assms
  by (cases "batch_list batch") (auto simp: validate_edit_def Let_def finish_ok first_check_entries first_check_keys no_issues_def)

lemma validate_single:
  assumes "json_get args ''edits'' = None"
  shows "validate_edit args = Inr () \<longleftrightarrow> check_keys args request_keys = Inr () \<and> (\<exists>old new. entry_texts args old new)"
proof (cases "as_object args")
  case None
  then have "check_keys args request_keys \<noteq> Inr ()" by (simp add: check_keys_def)
  with assms None show ?thesis by (simp add: validate_edit_def Let_def finish_ok first_check_keys)
next
  case (Some es)
  let ?v = "JObj [(''old_str'', or_null (json_get args ''old_str'')), (''new_str'', or_null (json_get args ''new_str''))]"
  have "or_null x = JStr t \<longleftrightarrow> x = Some (JStr t)" for x t by (simp add: or_null_def split: option.splits)
  then have "entry_texts ?v old new \<longleftrightarrow> entry_texts args old new" for old new by (simp add: entry_texts_def)
  moreover have "check_keys ?v edit_keys = Inr ()" by (simp add: check_keys_def edit_keys_def)
  ultimately have "entry_good ?v \<longleftrightarrow> (\<exists>old new. entry_texts args old new)" by (simp add: entry_good_def)
  with assms Some show ?thesis
    by (simp add: validate_edit_def Let_def finish_ok first_check_keys first_check_entry no_issues_def)
qed

lemma read_edits_good:
  assumes "\<forall>v\<in>set vs. (\<exists>old new. entry_texts v old new) \<and> (batch \<longrightarrow> check_keys v edit_keys = Inr ())"
  shows "read_edits batch n vs = Inl e \<Longrightarrow> e = size_error"
  using assms
proof (induction vs arbitrary: n)
  case (Cons v vs)
  from Cons.prems(2) obtain old new where t: "entry_texts v old new" by auto
  then have a: "required_string_arg v ''old_str'' ''edit_file'' = Inr old" "required_string_arg v ''new_str'' ''edit_file'' = Inr new"
    by (simp_all add: required_string_arg_def string_arg_def entry_texts_def)
  have k: "(if batch then check_keys v [''old_str'', ''new_str''] else Inr ()) = Inr ()"
    using Cons.prems(2) by (auto simp: edit_keys_def)
  from Cons t show ?case
    by (auto simp: a k rbind_eq_Inl entry_texts_def size_error_def Let_def)
qed simp

section \<open>Properties\<close>

text \<open>
  Arguments that are rejected before the file is opened are always explained to the model:
  the error lists the rejected entries, unless the only thing wrong is that all texts together
  exceed 2 MiB. The checks of the parser itself never fire first.
\<close>

theorem edit_args_diagnosed:
  assumes "parse_edits args = Inl e"
  shows "te_recovery e \<noteq> None \<or> e = tool_error_new ''edit_file: combined edit text exceeds 2 MiB''"
proof (cases "validate_edit args")
  case (Inl e')
  with assms have "e = e'" by (simp add: parse_edits_def)
  with Inl show ?thesis unfolding validate_edit_def Let_def using finish_recovery by blast
next
  case (Inr u)
  then have v: "validate_edit args = Inr ()" by simp
  have "e = size_error"
  proof (cases "json_get args ''edits''")
    case None
    with v obtain old new where t: "check_keys args request_keys = Inr ()" "entry_texts args old new"
      by (auto simp: validate_single)
    with assms v None have "read_edits False 0 [args] = Inl e"
      by (simp add: parse_edits_def request_keys_def)
    then show ?thesis by (rule read_edits_good[rotated]) (use t(2) in auto)
  next
    case (Some batch)
    with v obtain l where t: "check_keys args request_keys = Inr ()" "json_get args ''old_str'' = None"
      "json_get args ''new_str'' = None" "batch_list batch = Some l" "\<forall>v\<in>set l. entry_good v"
      by (auto simp: validate_batch)
    with assms v Some have "read_edits True 0 l = Inl e"
      by (simp add: parse_edits_def request_keys_def)
    then show ?thesis by (rule read_edits_good[rotated]) (use t(5) in \<open>auto simp: entry_good_def\<close>)
  qed
  then show ?thesis by (simp add: size_error_def)
qed

theorem edit_args_diagnosed_witness:
  "\<exists>e. parse_edits (JObj [(''path'', JStr ''a''), (''old_str'', JStr ''x'')]) = Inl e \<and> te_recovery e \<noteq> None"
proof -
  obtain e where e: "parse_edits (JObj [(''path'', JStr ''a''), (''old_str'', JStr ''x'')]) = Inl e"
    and m: "te_message e = ''edit_file: old_str and new_str must be strings''"
    by (auto simp: parse_edits_def validate_edit_def check_issue_keys_def request_keys_def edit_keys_def check_entry_def
        add_issue_def finish_issues_def no_issues_def or_null_def with_recovery_def tool_error_new_def)
  with edit_args_diagnosed[OF e] show ?thesis by (auto simp: tool_error_new_def)
qed

text \<open>
  C35: A batch of edits gives a result exactly when every old text occurs exactly once in the
  file, overlapping occurrences counted, the occurrences are apart, and the result is at most
  1 MiB. The result is the file with every old text replaced by its own new text and everything
  between them unchanged, so it does not depend on the order of the batch, and no edit sees the
  text another one inserts.
\<close>

theorem edit_plan_exact:
  assumes "utf8 s" and "\<forall>e\<in>set edits. utf8 (ed_old e) \<and> ed_old e \<noteq> []"
  shows "edit_plan s edits = Inr out \<longleftrightarrow> batch_result s edits out \<and> length out \<le> max_write_bytes"
  using edit_plan_sound[OF assms(1), of edits out] edit_plan_complete[OF assms(1), of edits out] assms(2) by blast

theorem edit_plan_exact_witness:
  "batch_result ''a b c'' [\<lparr>ed_old = ''c'', ed_new = ''a''\<rparr>, \<lparr>ed_old = ''a'', ed_new = ''xy''\<rparr>] ''xy b a''"
proof -
  let ?edits = "[\<lparr>ed_old = ''c'', ed_new = ''a''\<rparr>, \<lparr>ed_old = ''a'', ed_new = ''xy''\<rparr>]"
  have "offsets ''a b c'' ''c'' = [4]" "offsets ''a b c'' ''a'' = [0]" by code_simp+
  then have r: "edit_plan ''a b c'' ?edits = Inr ''xy b a''"
    by (simp add: edit_plan_def ranges_overlap_def replace_range_def max_write_bytes_def)
  have u: "utf8 ''a b c''" "\<forall>e\<in>set ?edits. utf8 (ed_old e) \<and> ed_old e \<noteq> []" by code_simp+
  from edit_plan_exact[OF u, of "''xy b a''"] r show ?thesis by simp
qed

end
