(* ===== verification/PatchProps.thy ===== *)
theory PatchProps
  imports Patch
begin

text \<open>
  What the patch language promises: what a parsed patch looks like, that the parser inverts
  the documented layout, and that applying a patch replaces, hunk after hunk, the one
  occurrence of its old lines by its new ones and nothing else.
\<close>

section \<open>Files as lines\<close>

lemma render_append [simp]: "render_lines (xs @ ys) = render_lines xs @ render_lines ys"
  by (simp add: render_lines_def)

lemma render_ended [simp]: "render_lines (ended_line raw # ls) = raw @ lf # render_lines ls"
  by (auto simp: render_lines_def ended_line_def dest: append_butlast_last_id)

lemma render_split_lines: "render_lines (split_lines raw s) = raw @ s"
  by (induction raw s rule: split_lines.induct) (auto simp: render_lines_def[of "[]"] render_lines_def[of "[_]"])

lemma render_split: "render_lines (split_file_lines s) = s"
  by (simp add: split_file_lines_def render_split_lines)

abbreviation texts :: "file_line list \<Rightarrow> string list" where
  "texts \<equiv> map fl_text"

lemma fill_text [simp]: "fl_text (fill_ending e l) = fl_text l"
  by (simp add: fill_ending_def)

lemma fill_ended: "e \<noteq> EndNone \<Longrightarrow> fl_ending (fill_ending e l) \<noteq> EndNone"
  by (simp add: fill_ending_def)

lemma fill_texts: "texts (map (fill_ending e) ls) = texts ls"
  by simp

lemma end_lines_texts [simp]: "texts (end_lines e b ls) = texts ls"
  by (cases ls rule: rev_cases) (simp_all add: end_lines_def)

lemma normalize_texts [simp]: "texts (normalize_line_endings e b ls) = texts ls"
  by (cases ls rule: rev_cases) (simp_all add: normalize_line_endings_def)

lemma dominant_ended: "dominant_ending ls \<noteq> EndNone"
  by (simp add: dominant_ending_def)

section \<open>One hunk\<close>

fun new_text :: "patch_line \<Rightarrow> string option" where
  "new_text (PlContext t) = Some t"
| "new_text (PlDelete t) = None"
| "new_text (PlAdd t) = Some t"

definition hunk_new :: "patch_hunk \<Rightarrow> string list" where
  "hunk_new h = List.map_filter new_text (ph_lines h)"

text \<open>The old lines occur exactly once, and the new ones take their place.\<close>

definition text_step :: "patch_hunk \<Rightarrow> string list \<Rightarrow> string list \<Rightarrow> bool" where
  "text_step h ts ts' \<longleftrightarrow> hunk_old h \<noteq> [] \<and> (\<exists>pre post. ts = pre @ hunk_old h @ post
     \<and> (\<forall>pre' post'. ts = pre' @ hunk_old h @ post' \<longrightarrow> pre' = pre)
     \<and> ts' = pre @ hunk_new h @ post)"

inductive text_steps :: "patch_hunk list \<Rightarrow> string list \<Rightarrow> string list \<Rightarrow> bool" where
  none: "text_steps [] ts ts"
| hunk: "text_step h ts us \<Longrightarrow> text_steps hs us vs \<Longrightarrow> text_steps (h # hs) ts vs"

inductive_simps text_steps_Nil [simp]: "text_steps [] ts us"
inductive_simps text_steps_Cons: "text_steps (h # hs) ts us"

lemma matches_iff:
  "i \<in> set (sequence_matches ls old) \<longleftrightarrow> old \<noteq> [] \<and> i + length old \<le> length ls
     \<and> take (length old) (drop i (texts ls)) = old"
proof -
  have "i < length ls - length old + 1 \<longleftrightarrow> i + length old \<le> length ls" if "length old \<le> length ls"
    using that by linarith
  then have "old \<noteq> [] \<Longrightarrow> length old \<le> length ls \<Longrightarrow> i \<in> {0..<length ls - length old + 1} \<longleftrightarrow> i + length old \<le> length ls"
    by simp
  then show ?thesis
    unfolding sequence_matches_def
    by (auto simp del: upt_Suc simp add: set_upt take_map drop_map simp del: atLeastLessThan_iff)
qed

lemma matches_split:
  "i \<in> set (sequence_matches ls old) \<longleftrightarrow> old \<noteq> [] \<and> (\<exists>post. texts ls = take i (texts ls) @ old @ post \<and> i \<le> length ls)"
proof
  assume "i \<in> set (sequence_matches ls old)"
  then have m: "old \<noteq> []" "i + length old \<le> length ls" "take (length old) (drop i (texts ls)) = old"
    by (simp_all add: matches_iff)
  then have "texts ls = take i (texts ls) @ old @ drop (length old) (drop i (texts ls))"
    by (metis append_take_drop_id)
  with m show "old \<noteq> [] \<and> (\<exists>post. texts ls = take i (texts ls) @ old @ post \<and> i \<le> length ls)" by auto
next
  assume "old \<noteq> [] \<and> (\<exists>post. texts ls = take i (texts ls) @ old @ post \<and> i \<le> length ls)"
  then obtain post where o: "old \<noteq> []" "i \<le> length ls" and t: "texts ls = take i (texts ls) @ old @ post" by blast
  from t o(2) have d: "drop i (texts ls) = old @ post"
    by (metis append_eq_conv_conj length_map length_take min.absorb2)
  then have "length ls - i = length old + length post" by (metis length_append length_drop length_map)
  with o d show "i \<in> set (sequence_matches ls old)" by (simp add: matches_iff)
qed

lemma matches_distinct: "distinct (sequence_matches ls old)"
  by (simp add: sequence_matches_def)

lemma hunk_lines_texts:
  "texts ls = List.map_filter old_text ps \<Longrightarrow> texts (hunk_lines e ps ls) = List.map_filter new_text ps"
  by (induction e ps ls rule: hunk_lines.induct) (simp_all add: map_filter_simps)

lemma unique_match:
  assumes "sequence_matches ls old = [i]"
  shows "old \<noteq> []" "texts ls = take i (texts ls) @ old @ drop (i + length old) (texts ls)"
    "i + length old \<le> length ls"
    "\<And>pre post. texts ls = pre @ old @ post \<Longrightarrow> pre = take i (texts ls)"
proof -
  have i: "i \<in> set (sequence_matches ls old)" using assms by simp
  then show "old \<noteq> []" "i + length old \<le> length ls" by (simp_all add: matches_iff)
  from i have "take (length old) (drop i (texts ls)) = old" by (simp add: matches_iff)
  then show "texts ls = take i (texts ls) @ old @ drop (i + length old) (texts ls)"
    by (metis append_take_drop_id drop_drop add.commute)
  fix pre post assume t: "texts ls = pre @ old @ post"
  then have "length pre \<le> length ls" by (metis length_append length_map le_add1)
  with t \<open>old \<noteq> []\<close> have "length pre \<in> set (sequence_matches ls old)" by (auto simp: matches_split)
  with assms have "length pre = i" by simp
  with t show "pre = take i (texts ls)" by simp
qed

text \<open>A hunk is applied exactly when its old lines occur once.\<close>

lemma apply_hunk_sound:
  assumes "apply_hunk h n e ls = Inr ls'"
  shows "text_step h (texts ls) (texts ls')"
proof -
  let ?old = "hunk_old h"
  from assms obtain i where m: "sequence_matches ls ?old = [i]"
    by (auto simp: apply_hunk_def Let_def split: list.splits)
  note u = unique_match[OF m]
  from u(2,3) have matched: "texts (take (length ?old) (drop i ls)) = List.map_filter old_text (ph_lines h)"
    by (metis append_eq_conv_conj drop_map hunk_old_def length_map length_take min.absorb2 take_map add_leE)
  from assms m obtain e' b where "ls' = take i ls
      @ end_lines e' b (hunk_lines e' (ph_lines h) (take (length ?old) (drop i ls))) @ drop (i + length ?old) ls"
    by (auto simp: apply_hunk_def Let_def)
  then have "texts ls' = take i (texts ls) @ hunk_new h @ drop (i + length ?old) (texts ls)"
    by (simp add: hunk_lines_texts[OF matched] hunk_new_def take_map drop_map)
  with u show ?thesis unfolding text_step_def by blast
qed

lemma apply_hunk_complete:
  assumes "text_step h (texts ls) ts'"
  shows "\<exists>ls'. apply_hunk h n e ls = Inr ls' \<and> texts ls' = ts'"
proof -
  let ?old = "hunk_old h"
  from assms obtain pre post where o: "?old \<noteq> []" and t: "texts ls = pre @ ?old @ post"
    and un: "\<And>pre' post'. texts ls = pre' @ ?old @ post' \<Longrightarrow> pre' = pre" and ts': "ts' = pre @ hunk_new h @ post"
    unfolding text_step_def by blast
  have "i \<in> set (sequence_matches ls ?old) \<longleftrightarrow> i = length pre" for i
  proof
    assume "i \<in> set (sequence_matches ls ?old)"
    then obtain post' where "texts ls = take i (texts ls) @ ?old @ post'" "i \<le> length ls"
      by (auto simp: matches_split)
    then have "take i (texts ls) = pre" by (intro un)
    with \<open>i \<le> length ls\<close> show "i = length pre" by (metis length_map length_take min.absorb2)
  next
    assume i: "i = length pre"
    have "length pre \<le> length ls" using t by (metis length_append length_map le_add1)
    with i o t show "i \<in> set (sequence_matches ls ?old)" by (auto simp: matches_split)
  qed
  then have "set (sequence_matches ls ?old) = {length pre}" by blast
  then have m: "sequence_matches ls ?old = [length pre]"
    by (rule singleton_list[OF matches_distinct])
  then obtain ls' where ls': "apply_hunk h n e ls = Inr ls'" by (simp add: apply_hunk_def Let_def)
  from apply_hunk_sound[OF this] obtain pre' post' where "texts ls = pre' @ ?old @ post'" "texts ls' = pre' @ hunk_new h @ post'"
    unfolding text_step_def by blast
  with un t ts' have "texts ls' = ts'" by (metis append_eq_append_conv same_append_eq)
  with ls' show ?thesis by blast
qed

lemma text_step_fun: "text_step h ts us \<Longrightarrow> text_step h ts vs \<Longrightarrow> us = vs"
  unfolding text_step_def by (metis same_append_eq)

lemma apply_hunks_iff:
  "(\<exists>ls'. apply_hunks hs n e ls = Inr ls' \<and> texts ls' = ts') \<longleftrightarrow> text_steps hs (texts ls) ts'"
proof (induction hs arbitrary: n ls)
  case Nil
  show ?case by auto
next
  case (Cons h hs)
  show ?case
  proof
    assume "\<exists>ls'. apply_hunks (h # hs) n e ls = Inr ls' \<and> texts ls' = ts'"
    then obtain ms ls' where ms: "apply_hunk h n e ls = Inr ms" "apply_hunks hs (n + 1) e ms = Inr ls'" "texts ls' = ts'"
      by auto
    then have "text_steps hs (texts ms) ts'" using Cons.IH[of "n + 1" ms] by blast
    with apply_hunk_sound[OF ms(1)] show "text_steps (h # hs) (texts ls) ts'" by (rule text_steps.hunk)
  next
    assume "text_steps (h # hs) (texts ls) ts'"
    then obtain us where us: "text_step h (texts ls) us" "text_steps hs us ts'" by (auto simp: text_steps_Cons)
    from apply_hunk_complete[OF us(1)] obtain ms where ms: "apply_hunk h n e ls = Inr ms" "texts ms = us" by blast
    with Cons.IH[of "n + 1" ms] us(2) show "\<exists>ls'. apply_hunks (h # hs) n e ls = Inr ls' \<and> texts ls' = ts'" by auto
  qed
qed

section \<open>The whole file\<close>

text \<open>The same step on the lines of the file: what is outside the hunk is left as it is.\<close>

definition line_step :: "patch_hunk \<Rightarrow> file_line list \<Rightarrow> file_line list \<Rightarrow> bool" where
  "line_step h ls ls' \<longleftrightarrow> hunk_old h \<noteq> [] \<and> (\<exists>pre old post new. ls = pre @ old @ post \<and> texts old = hunk_old h
     \<and> (\<forall>pre' post'. texts ls = pre' @ hunk_old h @ post' \<longrightarrow> pre' = texts pre)
     \<and> ls' = pre @ new @ post \<and> texts new = hunk_new h)"

inductive line_steps :: "patch_hunk list \<Rightarrow> file_line list \<Rightarrow> file_line list \<Rightarrow> bool" where
  none: "line_steps [] ls ls"
| hunk: "line_step h ls ms \<Longrightarrow> line_steps hs ms ns \<Longrightarrow> line_steps (h # hs) ls ns"

lemma apply_hunk_lines:
  assumes "apply_hunk h n e ls = Inr ls'"
  shows "line_step h ls ls'"
proof -
  let ?old = "hunk_old h"
  from assms obtain i where m: "sequence_matches ls ?old = [i]"
    by (auto simp: apply_hunk_def Let_def split: list.splits)
  note u = unique_match[OF m]
  from u(2,3) have matched: "texts (take (length ?old) (drop i ls)) = List.map_filter old_text (ph_lines h)"
    by (metis append_eq_conv_conj drop_map hunk_old_def length_map length_take min.absorb2 take_map add_leE)
  from assms m obtain e' b where ls': "ls' = take i ls
      @ end_lines e' b (hunk_lines e' (ph_lines h) (take (length ?old) (drop i ls))) @ drop (i + length ?old) ls"
    by (auto simp: apply_hunk_def Let_def)
  let ?new = "end_lines e' b (hunk_lines e' (ph_lines h) (take (length ?old) (drop i ls)))"
  have ls: "ls = take i ls @ take (length ?old) (drop i ls) @ drop (i + length ?old) ls"
    by (metis append_take_drop_id drop_drop add.commute)
  have old: "texts (take (length ?old) (drop i ls)) = ?old" using matched by (simp add: hunk_old_def)
  have new: "texts ?new = hunk_new h" using hunk_lines_texts[OF matched, of e'] by (simp add: hunk_new_def)
  have "\<forall>pre' post'. texts ls = pre' @ ?old @ post' \<longrightarrow> pre' = texts (take i ls)"
  proof (intro allI impI)
    fix pre' post' assume "texts ls = pre' @ ?old @ post'"
    from u(4)[OF this] show "pre' = texts (take i ls)" by (simp only: take_map)
  qed
  with u(1) ls old ls' new show ?thesis unfolding line_step_def by blast
qed

lemma apply_hunks_lines: "apply_hunks hs n e ls = Inr ls' \<Longrightarrow> line_steps hs ls ls'"
proof (induction hs arbitrary: n ls)
  case (Cons h hs)
  then obtain ms where "apply_hunk h n e ls = Inr ms" "apply_hunks hs (n + 1) e ms = Inr ls'" by auto
  with Cons.IH apply_hunk_lines show ?case by (blast intro: line_steps.hunk)
qed (simp add: line_steps.none)

definition without_bom :: "string \<Rightarrow> string" where
  "without_bom s = (if starts_with bom s then drop 3 s else s)"

definition bom_of :: "string \<Rightarrow> string" where
  "bom_of s = (if starts_with bom s then bom else [])"

lemma normalize_snoc:
  "normalize_line_endings e b (xs @ [x]) = map (fill_ending e) xs
     @ [if b then fill_ending e x else x\<lparr>fl_ending := EndNone\<rparr>]"
  by (simp_all add: normalize_line_endings_def)


definition a_patch :: parsed_patch where
  "a_patch = \<lparr>pp_path = ''a.txt'', pp_hunks = [\<lparr>ph_label = None,
     ph_lines = [PlContext ''x'', PlDelete ''y'', PlAdd ''z'']\<rparr>]\<rparr>"

lemma a_patch_applies: "apply_patch ''x
y
w'' a_patch = Inr ''x
z
w''"
  by code_simp


section \<open>Parsing\<close>

fun line_text :: "patch_line \<Rightarrow> string" where
  "line_text (PlContext t) = t"
| "line_text (PlDelete t) = t"
| "line_text (PlAdd t) = t"

definition open_hunk_ok :: "patch_hunk \<Rightarrow> bool" where
  "open_hunk_ok h \<longleftrightarrow> list_all (\<lambda>l. lf \<notin> set (line_text l)) (ph_lines h)
     \<and> (case ph_label h of None \<Rightarrow> True | Some l \<Rightarrow> l \<noteq> [] \<and> trim l = l \<and> lf \<notin> set l)"

definition hunk_ok :: "patch_hunk \<Rightarrow> bool" where
  "hunk_ok h \<longleftrightarrow> open_hunk_ok h \<and> list_ex (\<lambda>l. \<not> is_add l) (ph_lines h)
     \<and> list_ex (\<lambda>l. \<not> is_context l) (ph_lines h)"

definition patch_ok :: "parsed_patch \<Rightarrow> bool" where
  "patch_ok p \<longleftrightarrow> pp_path p \<noteq> [] \<and> trim (pp_path p) = pp_path p \<and> lf \<notin> set (pp_path p)
     \<and> pp_hunks p \<noteq> [] \<and> list_all hunk_ok (pp_hunks p)"

lemma split_on_free: "l \<in> set (split_on d s) \<Longrightarrow> d \<notin> set l"
  by (induction d s arbitrary: l rule: split_on.induct) (auto split: if_splits list.splits)

lemma set_strip_cr: "set (strip_cr s) \<subseteq> set s"
  by (auto simp: strip_cr_def dest: in_set_butlastD)

lemma set_trim: "set (trim s) \<subseteq> set s"
proof -
  obtain p where "trim_start s = trim s @ p" using trim_end_prefix[of "trim_start s"] by (auto simp: trim_def)
  moreover obtain q where "s = q @ trim_start s" using trim_by_suffix[of s whitespace] by (auto simp: trim_start_def)
  ultimately show ?thesis by (metis Un_upper1 Un_upper2 order_trans set_append)
qed

lemma hunk_header_ok: "lf \<notin> set line \<Longrightarrow> open_hunk_ok (hunk_header line)"
proof -
  let ?d = "if starts_with ''@@ '' line then drop 3 line else []"
  assume "lf \<notin> set line"
  then have "lf \<notin> set (trim ?d)" using set_trim[of ?d] set_drop_subset[of 3 line] by (auto split: if_splits)
  then show ?thesis by (simp add: hunk_header_def open_hunk_ok_def Let_def)
qed

lemma validate_hunk_ok: "open_hunk_ok h \<Longrightarrow> validate_hunk h n = Inr u \<Longrightarrow> hunk_ok h"
  by (auto simp: validate_hunk_def hunk_ok_def list_ex_iff filter_empty_conv split: if_splits)

lemma close_hunk_ok:
  "close_hunk hunks current = Inr hs \<Longrightarrow> list_all hunk_ok hunks \<Longrightarrow>
     (\<And>h. current = Some h \<Longrightarrow> open_hunk_ok h) \<Longrightarrow> list_all hunk_ok hs"
  by (auto simp: close_hunk_def dest: validate_hunk_ok split: option.splits)

lemma body_line_text: "body_line line = Inr l \<Longrightarrow> set (line_text l) \<subseteq> set line"
  by (cases line) (auto simp: body_line_def split: if_splits)

lemma parse_body_ok:
  "parse_body ls hunks current = Inr (hs, rest) \<Longrightarrow> list_all (\<lambda>l. lf \<notin> set l) ls \<Longrightarrow>
     list_all hunk_ok hunks \<Longrightarrow> (\<And>h. current = Some h \<Longrightarrow> open_hunk_ok h) \<Longrightarrow> list_all hunk_ok hs"
proof (induction ls hunks current rule: parse_body.induct)
  case (2 line lines hunks current)
  show ?case
  proof (cases "line = ''*** End Patch''")
    case True
    with 2 show ?thesis using close_hunk_ok[of hunks current hs] by auto
  next
    case no_end: False
    with 2(3) have no_star: "\<not> starts_with ''*** '' line" by auto
    show ?thesis
    proof (cases "line = ''@@'' \<or> starts_with ''@@ '' line")
      case True
      with 2(3) no_end no_star obtain hs' where c: "close_hunk hunks current = Inr hs'"
        and p: "parse_body lines hs' (Some (hunk_header line)) = Inr (hs, rest)" by auto
      from close_hunk_ok[OF c 2(5,6)] have "list_all hunk_ok hs'" by simp
      with 2(1)[OF no_end no_star True p] 2(4) hunk_header_ok[of line] show ?thesis by simp
    next
      case no_header: False
      with 2(3) no_end no_star obtain h l where h: "current = Some h" "body_line line = Inr l"
        and at: "\<not> starts_with ''@@'' line"
        and p: "parse_body lines hunks (Some (h\<lparr>ph_lines := ph_lines h @ [l]\<rparr>)) = Inr (hs, rest)"
        by (auto split: option.splits if_splits)
      have "open_hunk_ok (h\<lparr>ph_lines := ph_lines h @ [l]\<rparr>)"
        using 2(6)[OF h(1)] body_line_text[OF h(2)] 2(4) by (auto simp: open_hunk_ok_def)
      with 2(2)[OF no_end no_star no_header at h(1) p] 2(4,5) show ?thesis by simp
    qed
  qed
qed simp

text \<open>
  Whatever text is parsed, an accepted patch names a path without surrounding white space
  and has at least one hunk, and every hunk has a line to anchor it, a line that changes
  something, no line feed inside a line, and a label only when it is not blank.
\<close>

theorem parsed_patch_ok:
  assumes "parse_patch input = Inr p"
  shows "patch_ok p"
proof -
  let ?ls = "map strip_cr (split_on lf input)"
  have free: "list_all (\<lambda>l. lf \<notin> set l) ?ls"
    using split_on_free[of _ lf input] set_strip_cr by (fastforce simp: list_all_iff)
  from assms obtain hunks rest where i: "1 < length ?ls" and path: "trim (drop 17 (?ls ! 1)) \<noteq> []"
    and b: "parse_body (drop 2 ?ls) [] None = Inr (hunks, rest)" and ne: "hunks \<noteq> []"
    and p: "p = \<lparr>pp_path = trim (drop 17 (?ls ! 1)), pp_hunks = hunks\<rparr>"
    unfolding parse_patch_def Let_def expect_line_def by (auto split: if_splits simp: numeral_2_eq_2)
  have "list_all (\<lambda>l. lf \<notin> set l) (drop 2 ?ls)" 
    using free unfolding list_all_iff by (blast dest: in_set_dropD)
  from parse_body_ok[OF b this] have "list_all hunk_ok hunks" by simp
  moreover have "lf \<notin> set (?ls ! 1)" using free i by (simp add: list_all_length)
  then have "lf \<notin> set (trim (drop 17 (?ls ! 1)))" using set_trim set_drop_subset by fast
  ultimately show ?thesis using path ne by (simp add: patch_ok_def p)
qed

definition one_patch_text :: string where
  "one_patch_text = ''*** Begin Patch
*** Update File: a.txt
@@
 x
-y
+z
*** End Patch''"

lemma one_patch_parses: "parse_patch one_patch_text = Inr a_patch"
  by code_simp

theorem parsed_patch_ok_witness: "patch_ok a_patch"
  by (rule parsed_patch_ok[OF one_patch_parses])

section \<open>Printing\<close>

text \<open>The layout the tool documents, line by line.\<close>

fun print_line :: "patch_line \<Rightarrow> string" where
  "print_line (PlContext t) = CHR '' '' # t"
| "print_line (PlDelete t) = CHR ''-'' # t"
| "print_line (PlAdd t) = CHR ''+'' # t"

definition print_hunk :: "patch_hunk \<Rightarrow> string list" where
  "print_hunk h = (case ph_label h of None \<Rightarrow> ''@@'' | Some l \<Rightarrow> ''@@ '' @ l) # map print_line (ph_lines h)"

definition print_patch :: "parsed_patch \<Rightarrow> string" where
  "print_patch p = join_with [lf] (''*** Begin Patch'' # (''*** Update File: '' @ pp_path p)
     # concat (map print_hunk (pp_hunks p)) @ [''*** End Patch''])"

text \<open>A carriage return at the end of a line does not survive the splitting; a text starts with a character.\<close>

definition line_kept :: "string \<Rightarrow> bool" where
  "line_kept s \<longleftrightarrow> (s = [] \<or> last s \<noteq> cr) \<and> (s = [] \<or> \<not> is_continuation (hd s))"

definition printable :: "parsed_patch \<Rightarrow> bool" where
  "printable p \<longleftrightarrow> patch_ok p \<and> line_kept (pp_path p)
     \<and> list_all (\<lambda>h. list_all (\<lambda>l. line_kept (line_text l)) (ph_lines h)
          \<and> (case ph_label h of None \<Rightarrow> True | Some l \<Rightarrow> line_kept l)) (pp_hunks p)"

lemma split_on_free_eq: "d \<notin> set s \<Longrightarrow> split_on d s = [s]"
  by (induction d s rule: split_on.induct) auto

lemma split_on_append: "d \<notin> set s \<Longrightarrow> split_on d (s @ d # t) = s # split_on d t"
  by (induction s) auto

lemma split_join:
  "ls \<noteq> [] \<Longrightarrow> (\<And>l. l \<in> set ls \<Longrightarrow> d \<notin> set l) \<Longrightarrow> split_on d (join_with [d] ls) = ls"
  by (induction "[d]" ls rule: join_with.induct) (auto simp: split_on_free_eq split_on_append)

lemma strip_cr_kept: "s = [] \<or> last s \<noteq> cr \<Longrightarrow> strip_cr s = s"
  by (auto simp: strip_cr_def)

lemma body_line_print: "line_kept (line_text l) \<Longrightarrow> body_line (print_line l) = Inr l"
proof -
  have "is_char_boundary (c # t) 1" if "line_kept t" for c t
    using that by (cases t) (auto simp: is_char_boundary_def line_kept_def)
  then show "line_kept (line_text l) \<Longrightarrow> body_line (print_line l) = Inr l"
    by (cases l) (simp_all add: body_line_def)
qed

lemma print_line_plain:
  "print_line l \<noteq> ''*** End Patch''" "\<not> starts_with ''*** '' (print_line l)" "print_line l \<noteq> ''@@''"
  "\<not> starts_with ''@@ '' (print_line l)" "\<not> starts_with ''@@'' (print_line l)"
  by (cases l; simp)+

lemma parse_printed_lines:
  "list_all (\<lambda>l. line_kept (line_text l)) ps \<Longrightarrow>
     parse_body (map print_line ps @ rest) hunks (Some h)
       = parse_body rest hunks (Some (h\<lparr>ph_lines := ph_lines h @ ps\<rparr>))"
  by (induction ps arbitrary: h) (simp_all add: print_line_plain body_line_print)

lemma close_hunk_valid: "hunk_ok h \<Longrightarrow> close_hunk hunks (Some h) = Inr (hunks @ [h])"
  by (auto simp: close_hunk_def validate_hunk_def hunk_ok_def list_ex_iff filter_empty_conv)

lemma parse_printed_hunk:
  assumes "hunk_ok h" and "list_all (\<lambda>l. line_kept (line_text l)) (ph_lines h)"
    and close: "close_hunk hunks current = Inr hs"
  shows "parse_body (print_hunk h @ rest) hunks current = parse_body rest hs (Some h)"
proof -
  let ?line = "case ph_label h of None \<Rightarrow> ''@@'' | Some l \<Rightarrow> ''@@ '' @ l"
  have kind: "?line \<noteq> ''*** End Patch''" "\<not> starts_with ''*** '' ?line" "?line = ''@@'' \<or> starts_with ''@@ '' ?line"
    by (auto split: option.splits)
  have header: "hunk_header ?line = \<lparr>ph_label = ph_label h, ph_lines = []\<rparr>"
  proof (cases "ph_label h")
    case None
    then show ?thesis by (simp add: hunk_header_def trim_def trim_start_def trim_end_def trim_by_fixed)
  next
    case (Some l)
    with assms(1) have "trim l = l" "l \<noteq> []" by (simp_all add: hunk_ok_def open_hunk_ok_def)
    with Some show ?thesis by (simp add: hunk_header_def)
  qed
  have "parse_body (?line # map print_line (ph_lines h) @ rest) hunks current
      = parse_body (map print_line (ph_lines h) @ rest) hs (Some (hunk_header ?line))"
    using kind close by (simp del: starts_with.simps)
  also have "\<dots> = parse_body rest hs (Some h)"
    unfolding parse_printed_lines[OF assms(2)] header by (cases h) simp
  finally show ?thesis by (simp add: print_hunk_def)
qed

lemma parse_printed_hunks:
  "list_all hunk_ok hs \<Longrightarrow> list_all (\<lambda>h. list_all (\<lambda>l. line_kept (line_text l)) (ph_lines h)) hs \<Longrightarrow>
     close_hunk hunks current = Inr before \<Longrightarrow>
     parse_body (concat (map print_hunk hs) @ [''*** End Patch'']) hunks current = Inr (before @ hs, [])"
proof (induction hs arbitrary: hunks current before)
  case (Cons h hs)
  then have "parse_body (print_hunk h @ concat (map print_hunk hs) @ [''*** End Patch'']) hunks current
      = parse_body (concat (map print_hunk hs) @ [''*** End Patch'']) before (Some h)"
    by (intro parse_printed_hunk) simp_all
  also have "\<dots> = Inr ((before @ [h]) @ hs, [])"
    by (rule Cons.IH) (use Cons.prems in \<open>simp_all add: close_hunk_valid\<close>)
  finally show ?case by simp
qed simp

lemma printed_lines:
  assumes "printable p" and "l \<in> set (concat (map print_hunk (pp_hunks p)))"
  shows "lf \<notin> set l \<and> l \<noteq> [] \<and> last l \<noteq> cr"
proof -
  from assms(2) obtain h where h: "h \<in> set (pp_hunks p)" and l: "l \<in> set (print_hunk h)" by auto
  from assms(1) h have ok: "open_hunk_ok h" and kept: "list_all (\<lambda>l. line_kept (line_text l)) (ph_lines h)"
    "case ph_label h of None \<Rightarrow> True | Some l \<Rightarrow> line_kept l"
    by (auto simp: printable_def patch_ok_def list_all_iff hunk_ok_def)
  from l consider "l = (case ph_label h of None \<Rightarrow> ''@@'' | Some l \<Rightarrow> ''@@ '' @ l)"
    | q where "q \<in> set (ph_lines h)" "l = print_line q" by (auto simp: print_hunk_def)
  then show ?thesis
  proof cases
    case 1
    with ok kept(2) show ?thesis by (auto simp: open_hunk_ok_def line_kept_def split: option.splits)
  next
    case 2
    with ok kept(1) have "lf \<notin> set (line_text q)" "line_kept (line_text q)"
      by (auto simp: open_hunk_ok_def list_all_iff)
    with 2(2) show ?thesis by (cases q) (auto simp: line_kept_def)
  qed
qed

text \<open>
  C31: The parser inverts the documented layout: a patch that is printed line by line parses
  to itself, with its labels, the kinds of its lines and their texts.
\<close>

theorem patch_roundtrip:
  assumes "printable p"
  shows "parse_patch (print_patch p) = Inr p"
proof -
  let ?body = "concat (map print_hunk (pp_hunks p))"
  let ?ls = "''*** Begin Patch'' # (''*** Update File: '' @ pp_path p) # ?body @ [''*** End Patch'']"
  from assms have ok: "patch_ok p" and path: "line_kept (pp_path p)" by (simp_all add: printable_def)
  have each: "lf \<notin> set l \<and> (l = [] \<or> last l \<noteq> cr)" if "l \<in> set ?ls" for l
    using that printed_lines[OF assms] ok path by (auto simp: patch_ok_def line_kept_def)
  have "split_on lf (join_with [lf] ?ls) = ?ls" by (rule split_join) (use each in blast)+
  moreover have "map strip_cr ?ls = ?ls" by (rule map_idI) (use each strip_cr_kept in blast)
  ultimately have ls: "map strip_cr (split_on lf (print_patch p)) = ?ls" unfolding print_patch_def by metis
  have "list_all (\<lambda>h. list_all (\<lambda>l. line_kept (line_text l)) (ph_lines h)) (pp_hunks p)"
    using assms by (auto simp: printable_def list_all_iff)
  with ok have body: "parse_body (?body @ [''*** End Patch'']) [] None = Inr (pp_hunks p, [])"
    using parse_printed_hunks[of "pp_hunks p" "[]" None "[]"] by (simp add: patch_ok_def close_hunk_def)
  have "starts_with ''*** Update File: '' (''*** Update File: '' @ pp_path p)" by simp
  moreover have "drop 17 (''*** Update File: '' @ pp_path p) = pp_path p" by simp
  ultimately show ?thesis
    unfolding parse_patch_def Let_def ls using ok body
    by (simp add: expect_line_def patch_ok_def del: starts_with.simps)
qed

theorem patch_roundtrip_witness: "parse_patch (print_patch a_patch) = Inr a_patch"
proof (rule patch_roundtrip)
  show "printable a_patch" by code_simp
qed

end
