(* ===== verification/FileProps.thy ===== *)
theory FileProps
  imports FileLogic FileEditProps PatchProps
begin

text \<open>
  What the file tools promise: an edit or a patch is a compare-and-swap on the whole file, and
  a file that is created never takes the place of another.
\<close>

section \<open>Compare and swap\<close>

definition expects :: "write_target \<Rightarrow> string option \<Rightarrow> dir \<Rightarrow> bool" where
  "expects t expected d \<longleftrightarrow> (\<forall>e. expected = Some e \<longrightarrow> (\<exists>f. d (wt_name t) = Some (NodeFile f) \<and> ff_bytes f = e))"

text \<open>What a write did to the directory it locked.\<close>

definition write_outcome :: "fs_env \<Rightarrow> write_target \<Rightarrow> string \<Rightarrow> string option \<Rightarrow> dir \<Rightarrow> 'e + 'a \<Rightarrow> dir \<Rightarrow> bool" where
  "write_outcome E t content expected d r d' \<longleftrightarrow>
     \<not> is_ok r \<and> apart_from_temps E d d'
     \<or> expects t expected d \<and> swapped_to E (wt_name t) content (node_mode (d (wt_name t))) d d'
         \<and> (is_ok r \<or> wt_capture t \<noteq> None)"

lemma triple_metadata:
  assumes h: "honoured E (wt_parent t)"
  shows "triple (wt_parent t) (\<lambda>d'. d' = d) (current_metadata E t) (\<lambda>r d'. d' = d \<and> (\<forall>x. r = Inr x \<longrightarrow> x = d (wt_name t)))"
proof -
  have m: "triple (wt_parent t) (\<lambda>d'. d' = d) (symlink_metadata E t)
     (\<lambda>r d'. d' = d \<and> (case r of Inr n \<Rightarrow> d (wt_name t) = Some n | Inl e \<Rightarrow> io_kind e = NotFound \<longrightarrow> d (wt_name t) = None))"
    unfolding symlink_metadata_def look_def
    by (rule triple_access[OF h]) (auto simp: not_found_def io_error_new_def split: option.splits)
  show ?thesis unfolding current_metadata_def
    by (rule triple_bind[OF triple_try[where Q = "\<lambda>r d'. d' = d \<and> (case r of Inl e \<Rightarrow> False | Inr (Inr n) \<Rightarrow> d (wt_name t) = Some n
        | Inr (Inl e) \<Rightarrow> io_kind e = NotFound \<longrightarrow> d (wt_name t) = None)"]])
      (use m in \<open>auto intro!: triple_return triple_fail split: sum.splits\<close>)
qed

lemma triple_never: "(\<And>d. \<not> P d) \<Longrightarrow> triple h P m Q"
  unfolding triple_def by blast

lemma triple_look_open:
  assumes h: "honoured E h"
  shows "triple h P (look_open E f) (\<lambda>r d. P d \<and> (\<forall>g. r = Inr g \<longrightarrow> g = f))"
proof (rule tripleI)
  fix s r s' assume s: "fs_locked s = Some h" "P (fs_dirs s h)" "look_open E f s = (r, s')"
  have i: "fe_inplace E (fs_clock s) (fs_locked s) f = f" using h s(1) by (simp add: honoured_def)
  have "triple h P (look E (\<lambda>_. Inr f)) (\<lambda>r d. P d \<and> (\<forall>g. r = Inr g \<longrightarrow> g = f))"
    unfolding look_def by (rule triple_access[OF h]) auto
  from tripleD[OF this s(1,2), of r s'] s(3) i
  show "fs_locked s' = Some h \<and> P (fs_dirs s' h) \<and> (\<forall>g. r = Inr g \<longrightarrow> g = f)" by (simp add: look_open_def)
qed

lemma triple_open:
  assumes h: "honoured E (wt_parent t)"
  shows "triple (wt_parent t) (\<lambda>d'. d' = d) (open_regular_nofollow E t)
     (\<lambda>r d'. d' = d \<and> (\<forall>f. r = Inr f \<longrightarrow> d (wt_name t) = Some (NodeFile f)))"
proof -
  have opened: "triple (wt_parent t) (\<lambda>d'. d' = d) (look E (\<lambda>D. case D (wt_parent t) (wt_name t) of
         None \<Rightarrow> Inl not_found
       | Some NodeLink \<Rightarrow> Inl (io_other ''Too many levels of symbolic links (os error 40)'')
       | Some n \<Rightarrow> Inr n)) (\<lambda>r d'. d' = d \<and> (\<forall>n. r = Inr n \<longrightarrow> d (wt_name t) = Some n))"
    unfolding look_def by (rule triple_access[OF h]) (auto split: option.splits fs_node.splits)
  show ?thesis unfolding open_regular_nofollow_def
    by (rule triple_bind[OF opened]; (intro triple_bind[OF quiet_triple[OF quiet_look[OF h]]])?)
      (auto intro!: triple_return triple_fail split: fs_node.splits)
qed

lemma take_longer: "take (Suc (length e)) x = e \<longleftrightarrow> x = e"
  by (metis length_take less_Suc_eq_le min.absorb_iff2 min_def not_less_eq_eq take_all_iff)

lemma triple_expected:
  assumes h: "honoured E (wt_parent t)"
  shows "triple (wt_parent t) (\<lambda>d'. d' = d) (check_expected E t expected)
     (\<lambda>r d'. d' = d \<and> (is_ok r \<longrightarrow> expects t expected d))"
proof (cases expected)
  case None
  then show ?thesis by (auto simp: check_expected_def expects_def intro!: triple_return)
next
  case (Some e)
  have m: "triple (wt_parent t) (\<lambda>d'. d' = d \<and> d (wt_name t) = Some (NodeFile f)) (reader_matches_expected E f e)
     (\<lambda>r d'. d' = d \<and> d (wt_name t) = Some (NodeFile f) \<and> (\<forall>b. r = Inr b \<longrightarrow> b = (ff_bytes f = e)))" for f
    unfolding reader_matches_expected_def
    by (rule triple_bind[OF triple_look_open[OF h]]) (auto intro!: triple_return simp: take_longer)
  show ?thesis unfolding check_expected_def Some option.case
  proof (rule triple_bind[OF triple_open[OF h]])
    fix f
    show "triple (wt_parent t) (\<lambda>d'. d' = d \<and> (\<forall>g. Inr f = Inr g \<longrightarrow> d (wt_name t) = Some (NodeFile g)))
      (io_bind (reader_matches_expected E f e) (\<lambda>same. if same then io_return ()
         else io_fail (io_error_new ResourceBusy (''file changed while editing '' @ em_dash @ '' re-read and retry''))))
      (\<lambda>r d'. d' = d \<and> (is_ok r \<longrightarrow> expects t (Some e) d))"
      by (rule triple_conseq[OF triple_bind[OF m]])
        (auto intro!: triple_return triple_fail simp: expects_def)
  qed auto
qed

lemma triple_finish:
  assumes h: "honoured E h"
  shows "triple h P (finish_capture E t owner st) (\<lambda>r d. P d \<and> (is_ok r \<or> wt_capture t \<noteq> None))"
proof (cases "wt_capture t")
  case None
  then show ?thesis by (auto simp: finish_capture_def intro!: triple_return)
next
  case (Some p)
  then show ?thesis using triple_conseq[OF quiet_triple[OF quiet_finish[OF h]]] by auto
qed

definition write_body :: "fs_env \<Rightarrow> write_target \<Rightarrow> string \<Rightarrow> string option \<Rightarrow> (io_error, bool) io_op" where
  "write_body E t content expected =
     io_bind (reject_final_symlink E t) (\<lambda>_.
     io_bind (current_metadata E t) (\<lambda>metadata.
     io_bind (check_expected E t expected) (\<lambda>_.
     io_bind (prepare_capture E t content) (\<lambda>capture.
     io_bind (publish_mode E t content metadata True False) (\<lambda>st.
     io_bind (finish_capture E t capture st) (\<lambda>_.
     io_return (metadata \<noteq> None)))))))"

lemma triple_write:
  assumes h: "honoured E (wt_parent t)" and name: "wt_name t \<notin> range (fe_temp_name E)"
  shows "triple (wt_parent t) (\<lambda>d'. d' = d) (write_body E t content expected) (write_outcome E t content expected d)"
proof -
  let ?h = "wt_parent t" and ?Q = "write_outcome E t content expected d"
  have same: "?Q (Inl e) d" for e :: io_error
    by (simp add: write_outcome_def apart_from_temps_def)
  have finish: "triple ?h (\<lambda>d'. expects t expected d \<and> swapped_to E (wt_name t) content (node_mode (d (wt_name t))) d d')
     (io_bind (finish_capture E t capture st) (\<lambda>_. io_return b)) ?Q" for capture st b
    by (rule triple_bind[OF triple_finish[OF h]]) (auto intro!: triple_return simp: write_outcome_def)
  have publish: "triple ?h (\<lambda>d'. d' = d) (io_bind (publish_mode E t content (d (wt_name t)) True False) (\<lambda>st.
     io_bind (finish_capture E t capture st) (\<lambda>_. io_return b))) ?Q" if "expects t expected d" for capture b
  proof (rule triple_bind[OF triple_publish[OF h name]])
    fix st
    show "triple ?h (published E t content (node_mode (d (wt_name t))) True d (Inr st))
      (io_bind (finish_capture E t capture st) (\<lambda>_. io_return b)) ?Q"
      by (rule triple_conseq[OF finish]) (use that in \<open>auto simp: published_def\<close>)
  next
    fix e d' assume "published E t content (node_mode (d (wt_name t))) True d (Inl e :: io_error + stamp) d'"
    then show "?Q (Inl e) d'" by (simp add: published_def write_outcome_def)
  qed
  have capture: "triple ?h (\<lambda>d'. d' = d) (io_bind (prepare_capture E t content) (\<lambda>capture.
     io_bind (publish_mode E t content (d (wt_name t)) True False) (\<lambda>st.
     io_bind (finish_capture E t capture st) (\<lambda>_. io_return b)))) ?Q" if "expects t expected d" for b
    by (rule triple_bind[OF quiet_triple[OF quiet_capture[OF h]]]) (use publish that same in auto)
  have check: "triple ?h (\<lambda>d'. d' = d) (io_bind (check_expected E t expected) (\<lambda>_.
     io_bind (prepare_capture E t content) (\<lambda>capture.
     io_bind (publish_mode E t content (d (wt_name t)) True False) (\<lambda>st.
     io_bind (finish_capture E t capture st) (\<lambda>_. io_return b))))) ?Q" for b
  proof (cases "expects t expected d")
    case True
    show ?thesis
      by (rule triple_bind[OF triple_expected[OF h]]) (use capture[OF True] same True in simp_all)
  next
    case False
    then show ?thesis
      by (intro triple_bind[OF triple_expected[OF h]]) (use same in \<open>auto intro!: triple_never\<close>)
  qed
  have metadata: "triple ?h (\<lambda>d'. d' = d \<and> (\<forall>x. Inr metadata = Inr x \<longrightarrow> x = d (wt_name t)))
     (io_bind (check_expected E t expected) (\<lambda>_.
     io_bind (prepare_capture E t content) (\<lambda>capture.
     io_bind (publish_mode E t content metadata True False) (\<lambda>st.
     io_bind (finish_capture E t capture st) (\<lambda>_. io_return (metadata \<noteq> None)))))) ?Q" for metadata
  proof (cases "metadata = d (wt_name t)")
    case True
    show ?thesis unfolding True by (rule triple_conseq[OF check]) auto
  next
    case False
    then show ?thesis by (intro triple_never) simp
  qed
  show ?thesis unfolding write_body_def
    by (intro triple_bind[OF quiet_triple[OF quiet_reject[OF h]]] triple_bind[OF triple_metadata[OF h]] metadata)
      (use same in auto)
qed

lemma atomic_write_body: "atomic_write E t content expected = with_guard E (wt_parent t) (write_body E t content expected)"
  by (simp add: atomic_write_def write_body_def)

text \<open>The directory as it is when the guard is acquired.\<close>

definition dir_at_guard :: "fs_env \<Rightarrow> fs \<Rightarrow> string \<Rightarrow> dir" where
  "dir_at_guard E s h = fe_between E (fs_clock s) (fs_locked s) (fs_dirs s) h"

lemma atomic_write_outcome:
  assumes h: "honoured E (wt_parent t)" and name: "wt_name t \<notin> range (fe_temp_name E)"
    and run: "atomic_write E t content expected s = (r, s')"
  shows "write_outcome E t content expected (dir_at_guard E s (wt_parent t)) r (fs_dirs s' (wt_parent t))"
proof -
  let ?h = "wt_parent t"
  obtain q s1 where q: "look E (\<lambda>_. Inr ()) s = (q, s1)" by fastforce
  have d: "fs_dirs s1 ?h = dir_at_guard E s ?h"
    using q by (auto simp: look_def access_def Let_def dir_at_guard_def split: option.splits)
  show ?thesis
  proof (cases q)
    case (Inl e)
    with q run have "r = Inl e" "s' = s1" by (simp_all add: atomic_write_body with_guard_def io_bind_def)
    with d show ?thesis by (simp add: write_outcome_def apart_from_temps_def)
  next
    case (Inr u)
    obtain p s2 where p: "write_body E t content expected (s1\<lparr>fs_locked := Some ?h\<rparr>) = (p, s2)" by fastforce
    with q run Inr have r: "r = p" "s' = s2\<lparr>fs_locked := None\<rparr>"
      by (simp_all add: atomic_write_body with_guard_def io_bind_def)
    have "write_outcome E t content expected (fs_dirs s1 ?h) p (fs_dirs s2 ?h)"
      using tripleD[OF triple_write[OF h name] _ _ p] by simp
    with r d show ?thesis by simp
  qed
qed

lemma bind_run: "m s = (Inr x, s1) \<Longrightarrow> io_bind m f s = f x s1"
  by (simp add: io_bind_def)

lemma map_err_run: "io_map_err g m s = (r, s') \<Longrightarrow> \<exists>q. m s = (q, s') \<and> is_ok q = is_ok r"
  by (auto simp: io_map_err_def split: prod.splits sum.splits)

lemma bind_return_run: "io_bind m (\<lambda>_. io_return x) s = (r, s') \<Longrightarrow> \<exists>q. m s = (q, s') \<and> is_ok q = is_ok r"
  by (auto simp: io_bind_def io_return_def split: prod.splits sum.splits)

lemma write_outcome_ok: "is_ok q = is_ok r \<Longrightarrow> write_outcome E t content expected d q d' = write_outcome E t content expected d r d'"
  by (simp add: write_outcome_def)

text \<open>What is known after the preparation of an edit.\<close>

lemma edit_prepare_plan:
  assumes "edit_prepare E P scope args s = (Inr (t, requested, edits, content, updated), s1)"
  shows "parse_edits args = Inr edits \<and> edit_plan content edits = Inr updated \<and> valid_utf8 content"
proof -
  have read: "valid_utf8 c" if "read_to_string_limited E t n u = (Inr c, u')" for t n u c u'
    using that by (auto simp: read_to_string_limited_def read_utf8_limited_def io_bind_def io_fail_def io_return_def Let_def
        split: prod.splits sum.splits if_splits)
  show ?thesis using assms unfolding edit_prepare_def
    by (auto simp: io_bind_def io_fail_def io_return_def io_lift_def io_map_err_def Let_def
        split: prod.splits sum.splits if_splits dest: read)
qed

lemma prepared_write:
  assumes "honoured E (wt_parent t)" and "wt_name t \<notin> range (fe_temp_name E)"
    and run: "io_bind (io_map_err g (atomic_write E t updated expected)) (\<lambda>_. io_return x) s = (r, s')"
  shows "write_outcome E t updated expected (dir_at_guard E s (wt_parent t)) r (fs_dirs s' (wt_parent t))"
proof -
  from bind_return_run[OF run] obtain q where q: "io_map_err g (atomic_write E t updated expected) s = (q, s')" "is_ok q = is_ok r"
    by blast
  from map_err_run[OF q(1)] obtain p where "atomic_write E t updated expected s = (p, s')" "is_ok p = is_ok q" by blast
  with atomic_write_outcome[OF assms(1,2)] q(2) write_outcome_ok show ?thesis by blast
qed

lemma patch_prepare_applies:
  assumes "patch_prepare E P scope args s = (Inr (t, text, p, original, updated), s1)"
  shows "apply_patch original p = Inr updated"
  using assms unfolding patch_prepare_def map_message_def
  by (auto simp: io_bind_def io_fail_def io_return_def io_lift_def io_map_err_def Let_def
        split: prod.splits sum.splits if_splits)

text \<open>The same for a patch.\<close>

lemma apply_patch_swaps:
  assumes "honoured E (wt_parent t)" and "wt_name t \<notin> range (fe_temp_name E)"
    and "patch_prepare E P scope args s = (Inr (t, text, p, original, updated), s1)"
    and "apply_patch_file E P scope args s = (r, s')"
  shows "apply_patch original p = Inr updated
    \<and> write_outcome E t updated (Some original) (dir_at_guard E s1 (wt_parent t)) r (fs_dirs s' (wt_parent t))"
proof -
  have "io_bind (io_map_err (patch_io_error (pp_path p)) (atomic_write E t updated (Some original)))
      (\<lambda>_. io_return (JObj [(''path'', JStr (pp_path p)), (''bytes'', jlen (length updated)),
       (''hunks'', jlen (length (filter (starts_with ''@@'') (str_lines text))))])) s1 = (r, s')"
    using assms(3,4) by (simp add: apply_patch_file_def bind_run)
  from prepared_write[OF assms(1,2) this] patch_prepare_applies[OF assms(3)] show ?thesis by simp
qed

section \<open>Files are never taken over\<close>

text \<open>A guarantee over the steps of an operation, whatever the others do between them.\<close>

definition acts :: "((string \<Rightarrow> dir) \<Rightarrow> (string \<Rightarrow> dir) \<Rightarrow> bool) \<Rightarrow> ('e, 'a) io_op \<Rightarrow> bool" where
  "acts G m \<longleftrightarrow> (\<forall>s. \<exists>tr. fs_done (snd (m s)) = fs_done s @ tr \<and> list_all (\<lambda>(D, D'). G D D') tr)"

named_theorems acts_rules

lemma acts_result [acts_rules]: "(\<And>s. fs_done (g s) = fs_done s) \<Longrightarrow> acts G (\<lambda>s. (k s, g s))"
  by (simp add: acts_def)

lemma acts_return [acts_rules]: "acts G (io_return x)"
  by (simp add: acts_def io_return_def)

lemma acts_fail [acts_rules]: "acts G (io_fail x)"
  by (simp add: acts_def io_fail_def)

lemma acts_lift [acts_rules]: "acts G (io_lift x)"
  by (simp add: acts_def io_lift_def)

lemma acts_bind [acts_rules]:
  assumes "acts G m" and "\<And>x. acts G (f x)"
  shows "acts G (io_bind m f)"
  unfolding acts_def
proof
  fix s
  obtain q s1 where q: "m s = (q, s1)" by fastforce
  obtain tr where tr: "fs_done s1 = fs_done s @ tr" "list_all (\<lambda>(D, D'). G D D') tr"
    using assms(1) q unfolding acts_def by (metis snd_conv)
  show "\<exists>tr. fs_done (snd (io_bind m f s)) = fs_done s @ tr \<and> list_all (\<lambda>(D, D'). G D D') tr"
  proof (cases q)
    case (Inl e)
    with q tr show ?thesis by (simp add: io_bind_def)
  next
    case (Inr x)
    obtain tr' where "fs_done (snd (f x s1)) = fs_done s1 @ tr'" "list_all (\<lambda>(D, D'). G D D') tr'"
      using assms(2) unfolding acts_def by metis
    with q tr Inr show ?thesis by (intro exI[of _ "tr @ tr'"]) (simp add: io_bind_def)
  qed
qed

lemma acts_same: "(\<And>s. fs_done (snd (m' s)) = fs_done (snd (m s))) \<Longrightarrow> acts G m \<Longrightarrow> acts G m'"
  by (simp add: acts_def)

lemma acts_try [acts_rules]: "acts G m \<Longrightarrow> acts G (io_try m)"
  by (erule acts_same[rotated]) (simp add: io_try_def split: prod.splits)

lemma acts_map_err [acts_rules]: "acts G m \<Longrightarrow> acts G (io_map_err h m)"
  by (erule acts_same[rotated]) (simp add: io_map_err_def split: prod.splits sum.splits)

lemma acts_access: "(\<And>D. G D (snd (f D))) \<Longrightarrow> acts G (access E f)"
  unfolding acts_def access_def by (auto simp: Let_def split: option.splits prod.splits) (metis snd_conv)+

lemma acts_closure: "(\<And>c. acts G (m c)) \<Longrightarrow> acts G (\<lambda>s. m (k s) s)"
  by (simp add: acts_def)

text \<open>No entry is replaced or removed, but for temporary files.\<close>

definition keeps_entries :: "fs_env \<Rightarrow> (string \<Rightarrow> dir) \<Rightarrow> (string \<Rightarrow> dir) \<Rightarrow> bool" where
  "keeps_entries E D D' \<longleftrightarrow> (\<forall>h n x. n \<notin> range (fe_temp_name E) \<longrightarrow> D h n = Some x \<longrightarrow> D' h n = Some x)"

lemma keeps_refl [simp]: "keeps_entries E D D"
  by (simp add: keeps_entries_def)

lemma keeps_temp [simp]: "temp \<in> range (fe_temp_name E) \<Longrightarrow> keeps_entries E D (set_node t temp n D)"
  by (auto simp: keeps_entries_def set_node_def)

lemma keeps_new [simp]: "D (wt_parent t) name = None \<Longrightarrow> keeps_entries E D (set_node t name n D)"
  by (auto simp: keeps_entries_def set_node_def)

abbreviation entries_kept :: "fs_env \<Rightarrow> ('e, 'a) io_op \<Rightarrow> bool" where
  "entries_kept E \<equiv> acts (keeps_entries E)"

lemma kept_look [acts_rules]: "entries_kept E (look E' f)"
  unfolding look_def by (rule acts_access) simp

lemma kept_look_open [acts_rules]: "entries_kept E (look_open E' f)"
proof -
  have "entries_kept E (\<lambda>s. (\<lambda>c. look E' (\<lambda>_. Inr c)) (fe_inplace E' (fs_clock s) (fs_locked s) f) s)"
    by (rule acts_closure) (rule kept_look)
  then show ?thesis by (simp add: look_open_def[abs_def])
qed

lemma kept_os_call [acts_rules]: "entries_kept E (os_call E' f)"
proof -
  have "entries_kept E (\<lambda>s. (\<lambda>c. look E' (\<lambda>_. c)) (f (fs_clock s)) s)" by (rule acts_closure) (rule kept_look)
  then show ?thesis by (simp add: os_call_def[abs_def])
qed

lemma kept_guard [acts_rules]:
  assumes "entries_kept E m"
  shows "entries_kept E (with_guard E' h m)"
proof -
  have "fs_done (snd ((\<lambda>s. case m (s\<lparr>fs_locked := Some h\<rparr>) of (r, s') \<Rightarrow> (r, s'\<lparr>fs_locked := None\<rparr>)) s))
      = fs_done (snd (m (s\<lparr>fs_locked := Some h\<rparr>)))" for s by (simp split: prod.splits)
  moreover have "fs_done s = fs_done (s\<lparr>fs_locked := Some h\<rparr>)" for s by simp
  ultimately have "entries_kept E (\<lambda>s. case m (s\<lparr>fs_locked := Some h\<rparr>) of (r, s') \<Rightarrow> (r, s'\<lparr>fs_locked := None\<rparr>))"
    using assms unfolding acts_def by metis
  then show ?thesis unfolding with_guard_def by (intro acts_rules)
qed

lemma kept_metadata [acts_rules]: "entries_kept E (symlink_metadata E' t)"
  unfolding symlink_metadata_def by (rule kept_look)

lemma kept_reject [acts_rules]: "entries_kept E (reject_final_symlink E' t)"
  unfolding reject_final_symlink_def by (intro acts_rules; simp split: sum.splits fs_node.splits add: acts_rules)

lemma kept_current [acts_rules]: "entries_kept E (current_metadata E' t)"
  unfolding current_metadata_def by (intro acts_rules; simp split: sum.splits add: acts_rules)

lemma kept_save_then [acts_rules]: "entries_kept E (io_bind (review_save E' lg) (\<lambda>_ s. (Inr x, s\<lparr>fs_active := a\<rparr>)))"
  unfolding review_save_def by (auto intro!: acts_rules)

lemma acts_run: "acts G m \<Longrightarrow> \<exists>tr. fs_done (snd (m s)) = fs_done s @ tr \<and> list_all (\<lambda>(D, D'). G D D') tr"
  by (simp add: acts_def)

lemma kept_prepare [acts_rules]: "entries_kept E (review_prepare E' path before after previous)"
  unfolding acts_def review_prepare_def Let_def
  by (intro allI) (auto simp: acts_run[OF kept_save_then] split: option.splits if_splits)

lemma kept_finish [acts_rules]: "entries_kept E (finish_capture E' t owner st)"
proof -
  have "entries_kept E (review_finish E' ow path st)" for ow path
    unfolding acts_def review_finish_def Let_def
    by (intro allI) (auto simp: acts_run[OF kept_save_then] split: option.splits if_splits)
  then show ?thesis unfolding finish_capture_def by (auto intro!: acts_rules split: option.splits)
qed

lemma kept_create_capture [acts_rules]: "entries_kept E (prepare_create_capture E' t content)"
  unfolding prepare_create_capture_def by (auto intro!: acts_rules split: option.splits)

lemma kept_change: "temp \<in> range (fe_temp_name E) \<Longrightarrow> entries_kept E (change_open E' t temp f)"
  unfolding change_open_def by (rule acts_access) (auto split: option.splits fs_node.splits)

lemma kept_write_temp:
  assumes "temp \<in> range (fe_temp_name E)"
  shows "entries_kept E (write_temp E' t temp content mode private)"
proof -
  have "entries_kept E (create_new E' t temp f)" for f
    unfolding create_new_def by (rule acts_access) simp
  with kept_change[OF assms] have "entries_kept E (io_bind (create_new E' t temp f) (\<lambda>f.
     io_bind (change_open E' t temp (f\<lparr>ff_bytes := content\<rparr>)) (\<lambda>f.
     io_bind (case mode of None \<Rightarrow> io_return f | Some m \<Rightarrow> change_open E' t temp (f\<lparr>ff_mode := m\<rparr>)) (\<lambda>f.
     io_bind (look E' (\<lambda>_. Inr ())) (\<lambda>_. io_return f)))))" for f
    by (intro acts_rules) (auto intro: acts_rules split: option.splits)
  then show ?thesis unfolding write_temp_def by (rule acts_closure)
qed

lemma kept_publish_new: "entries_kept E (publish_mode E t content metadata False private)"
proof -
  have rest: "entries_kept E (hard_link E t temp)" "temp \<in> range (fe_temp_name E) \<Longrightarrow> entries_kept E (remove_file E t temp)" for temp
    unfolding hard_link_def remove_file_def by (rule acts_access; auto split: option.splits fs_node.splits)+
  define M where "M = (\<lambda>temp. io_bind (io_try (
        io_bind (write_temp E t temp content (node_mode metadata) private) (\<lambda>f.
        io_bind (look_open E f) (\<lambda>g.
        io_bind (reject_final_symlink E t) (\<lambda>_.
        io_bind (if False then rename_over E t temp else hard_link E t temp) (\<lambda>_.
        io_return (file_stamp E content g))))))) (\<lambda>result.
      io_bind (if \<not> is_ok result \<or> \<not> False then io_bind (io_try (remove_file E t temp)) (\<lambda>_. io_return ())
               else io_return ()) (\<lambda>_.
      io_lift result)))"
  have "entries_kept E (M temp)" if "temp \<in> range (fe_temp_name E)" for temp
    unfolding M_def if_False simp_thms if_True using rest that kept_write_temp[OF that] by (intro acts_rules) auto
  then have "entries_kept E (\<lambda>s. M (fe_temp_name E (fs_clock s)) s)" by (simp add: acts_def)
  moreover have "publish_mode E t content metadata False private = (\<lambda>s. M (fe_temp_name E (fs_clock s)) s)"
    by (simp add: publish_mode_def Let_def node_mode_def M_def fun_eq_iff)
  ultimately show ?thesis by simp
qed

lemma kept_create: "entries_kept E (atomic_create_mode E t content private)"
  unfolding atomic_create_mode_def
  by (intro acts_rules; simp add: acts_rules kept_publish_new)

lemma kept_cancelled [acts_rules]: "entries_kept E (check_cancelled E' m)"
  unfolding check_cancelled_def by (rule acts_result) simp

lemma kept_ancestor [acts_rules]: "entries_kept E (nearest_ancestor E' parts parent n)"
  by (induction n) (subst nearest_ancestor.simps, auto simp: canonicalize_def Let_def intro!: acts_rules split: sum.splits)+

lemma kept_open_parent [acts_rules]: "entries_kept E (open_parent E' h parent c)"
  unfolding open_parent_def by (auto intro!: acts_rules)

lemma kept_target [acts_rules]: "entries_kept E (writable_target E' P requested c scope)"
proof -
  have "entries_kept E (rooted_absolute_target E' P requested c)"
    unfolding rooted_absolute_target_def resolve_absolute_candidate_def canonicalize_def Let_def
    by (auto intro!: acts_rules split: option.splits)
  then show ?thesis unfolding writable_target_def canonicalize_def Let_def
    by (auto intro!: acts_rules split: write_scope.splits)
qed

section \<open>A calm environment\<close>

definition calm_env :: "nat option \<Rightarrow> fs_env" where
  "calm_env broken = \<lparr>fe_fault = (\<lambda>n. if broken = Some n then Some (io_other ''disk full'') else None),
     fe_between = (\<lambda>n l D. D), fe_inplace = (\<lambda>n l f. f),
     fe_fresh = (\<lambda>n. \<lparr>ff_bytes = [], ff_mode = 0x1A4, ff_identity = show_nat n, ff_modified = ''now''\<rparr>),
     fe_temp_name = (\<lambda>n. ''.tmp''), fe_sha = (\<lambda>x. x), fe_record_size = (\<lambda>lg. 0), fe_utf8_error = (\<lambda>x. x),
     fe_cancelled = (\<lambda>n. False), fe_canonicalize = (\<lambda>n p. Inr p), fe_open_ambient = (\<lambda>n p. Inr p),
     fe_open_dir = (\<lambda>n h p. Inr (h @ ''/'' @ p)), fe_create_dirs = (\<lambda>n h p. Inr ())\<rparr>"

definition calm_file :: "string \<Rightarrow> fs_file" where
  "calm_file bytes = \<lparr>ff_bytes = bytes, ff_mode = 0x1ED, ff_identity = ''old'', ff_modified = ''then''\<rparr>"

definition calm_fs :: "ledger option \<Rightarrow> fs" where
  "calm_fs lg = \<lparr>fs_dirs = (\<lambda>h n. if h = ''/p'' \<and> n = ''a'' then Some (NodeFile (calm_file ''x'')) else None),
     fs_clock = 0, fs_locked = None, fs_active = lg, fs_saved = (\<lambda>k. None), fs_done = []\<rparr>"

lemma calm_sel [simp]:
  "fe_fault (calm_env b) n = (if b = Some n then Some (io_other ''disk full'') else None)"
  "fe_between (calm_env b) n l D = D" "fe_inplace (calm_env b) n l f = f"
  "fe_fresh (calm_env b) n = \<lparr>ff_bytes = [], ff_mode = 0x1A4, ff_identity = show_nat n, ff_modified = ''now''\<rparr>"
  "fe_temp_name (calm_env b) n = ''.tmp''" "fe_sha (calm_env b) x = x" "fe_record_size (calm_env b) lg = 0"
  "fe_cancelled (calm_env b) n = False" "fe_canonicalize (calm_env b) n p = Inr p" "fe_open_ambient (calm_env b) n p = Inr p"
  by (simp_all add: calm_env_def)

lemma calm_honoured: "honoured (calm_env b) h"
  by (auto simp: honoured_def io_other_def io_error_new_def)

lemma calm_temps: "range (fe_temp_name (calm_env b)) = {''.tmp''}"
  by auto

lemmas step_defs = io_bind_def io_return_def io_fail_def io_lift_def io_try_def io_map_err_def look_def access_def
  look_open_def with_guard_def Let_def

definition an_edit :: json where
  "an_edit = JObj [(''path'', JStr ''a''), (''old_str'', JStr ''x''), (''new_str'', JStr ''yy'')]"

definition a_project :: project_env where
  "a_project = \<lparr>pj_root = ''/p'', pj_review = False, pj_roots = None\<rparr>"

lemma an_edit_parses: "parse_edits an_edit = Inr [\<lparr>ed_old = ''x'', ed_new = ''yy''\<rparr>]"
  by (simp add: an_edit_def parse_edits_def validate_edit_def check_issue_keys_def request_keys_def edit_keys_def
      check_entry_def finish_issues_def no_issues_def or_null_def check_keys_def required_string_arg_def string_arg_def
      max_write_bytes_def Let_def)

lemma an_edit_plan: "edit_plan ''x'' [\<lparr>ed_old = ''x'', ed_new = ''yy''\<rparr>] = Inr ''yy''"
proof -
  have "offsets ''x'' ''x'' = [0]" by code_simp
  then show ?thesis by (simp add: edit_plan_def ranges_overlap_def replace_range_def max_write_bytes_def)
qed

lemma an_edit_prepared:
  "fst (edit_prepare (calm_env None) a_project ScopeProjectRoot an_edit (calm_fs None)) =
     Inr (\<lparr>wt_parent = ''/p'', wt_name = ''a'', wt_capture = None\<rparr>, ''a'', [\<lparr>ed_old = ''x'', ed_new = ''yy''\<rparr>], ''x'', ''yy'')"
proof -
  have "path_is_absolute ''a'' = False" "validate_project_path ''a'' = Inr ()" "path_file_name ''a'' = Some ''a''"
    "path_parent ''a'' = Some []" "valid_utf8 ''x''" by code_simp+
  moreover have "required_string_arg an_edit ''path'' ''edit_file'' = Inr ''a''"
    by (simp add: an_edit_def required_string_arg_def string_arg_def)
  ultimately show ?thesis
    by (simp add: edit_prepare_def an_edit_parses an_edit_plan step_defs check_cancelled_def writable_target_def a_project_def
        canonicalize_def os_call_def open_parent_def is_file_def symlink_metadata_def calm_fs_def calm_file_def
        read_to_string_limited_def open_regular_nofollow_def read_utf8_limited_def max_write_bytes_def)
qed

section \<open>Properties\<close>



text \<open>
  C34: Without an explicit \<open>overwrite\<close>, no step that \<open>write_file\<close> itself makes replaces or
  removes an entry of any directory, temporary files apart, whatever other processes do between
  its steps and whichever of them fails.
\<close>

theorem create_never_replaces:
  assumes "overwrite_arg args = Inr False"
  shows "\<exists>tr. fs_done (snd (write_file E P scope args s)) = fs_done s @ tr
    \<and> list_all (\<lambda>(D, D'). keeps_entries E D D') tr"
proof -
  have lift: "io_bind (io_lift (Inr x)) f = f x" for x :: bool and f :: "bool \<Rightarrow> (tool_error, json) io_op"
    by (simp add: io_bind_def io_lift_def fun_eq_iff)
  have "entries_kept E (write_file E P scope args)"
    unfolding write_file_def assms lift simp_thms if_False by (auto intro!: acts_rules kept_create)
  then show ?thesis by (rule acts_run)
qed

theorem create_never_replaces_witness:
  "\<exists>tr. fs_done (snd (write_file (calm_env None) a_project ScopeProjectRoot
      (JObj [(''path'', JStr ''a''), (''content'', JStr ''new'')]) (calm_fs None))) = tr
    \<and> list_all (\<lambda>(D, D'). keeps_entries (calm_env None) D D') tr"
proof -
  have "overwrite_arg (JObj [(''path'', JStr ''a''), (''content'', JStr ''new'')]) = Inr False"
    by (simp add: overwrite_arg_def)
  from create_never_replaces[OF this, of "calm_env None" a_project ScopeProjectRoot "calm_fs None"]
  show ?thesis by (simp add: calm_fs_def)
qed

text \<open>
  A failure does not always preserve the file: when the ledger cannot be written after the
  publication, the write reports an error and the file holds the new text.
\<close>

lemma failed_write_replaces:
  "case atomic_write (calm_env (Some 19)) \<lparr>wt_parent = ''/p'', wt_name = ''a'', wt_capture = Some ''a''\<rparr> ''yy'' (Some ''x'')
      (calm_fs (Some \<lparr>lg_session = ''s'', lg_turn = 1, lg_root = ''/p'', lg_files = []\<rparr>)) of
     (r, s') \<Rightarrow> \<not> is_ok r \<and> (case fs_dirs s' ''/p'' ''a'' of Some (NodeFile g) \<Rightarrow> ff_bytes g = ''yy'' | _ \<Rightarrow> False)"
proof -
  have "valid_utf8 ''x''" by code_simp
  then show ?thesis
    by (simp add: atomic_write_def step_defs calm_fs_def calm_file_def reject_final_symlink_def symlink_metadata_def
        current_metadata_def check_expected_def open_regular_nofollow_def reader_matches_expected_def prepare_capture_def
        read_utf8_limited_def capture_bytes_def review_prepare_def review_save_def capture_files_def publish_mode_def
        write_temp_def create_new_def change_open_def rename_over_def set_node_def temp_mode_def finish_capture_def
        review_finish_def file_stamp_def record_bytes_def)
qed

end
