(* ===== verification/SessionEvent.thy ===== *)
theory SessionEvent
  imports Json Patch
begin

text \<open>
  The entries of the session log (\<open>session/event.rs\<close>) and its first line
  (\<open>session/header.rs\<close>): their shape, their JSON form as \<open>serde\<close> derives it, and the codec
  of the provenance list. Sequence numbers are natural numbers with the bounds of \<open>u64\<close>
  written out, times are integers with those of \<open>i64\<close>. The text of a \<open>serde\<close> error is a
  parameter (\<open>err\<close>) where it enters a message.
\<close>

section \<open>Numbers\<close>

definition max_safe :: nat where
  "max_safe = 9007199254740991"

definition as_nat64 :: "json \<Rightarrow> nat option" where
  "as_nat64 j = map_option unat (as_u64 j)"

definition jcount :: "nat \<Rightarrow> json" where
  "jcount n = JInt (int n)"

definition safe_count :: "json \<Rightarrow> nat option" where
  "safe_count j = (case as_nat64 j of Some n \<Rightarrow> if n \<le> max_safe then Some n else None | None \<Rightarrow> None)"

lemma as_nat64_jcount [simp]: "as_nat64 (jcount n) = (if n < 18446744073709551616 then Some n else None)"
proof -
  have "unat (word_of_int (int n) :: u64) = n" if "n < 18446744073709551616"
  proof -
    have "unat (word_of_nat n :: u64) = n mod 2 ^ 64" by (simp only: unat_of_nat len_num1 len_bit0) simp
    also have "\<dots> = n" using that by simp
    finally show ?thesis by simp
  qed
  then show ?thesis by (simp add: as_nat64_def jcount_def)
qed

section \<open>Entries\<close>

datatype surface_op = OpAppend | OpReplace nat nat

record session_event =
  se_type :: string
  se_seq :: nat
  se_time :: int
  se_data :: json
  se_ignorable :: "bool option"
  se_surface_op :: "surface_op option"
  se_sources :: "nat list option"
  se_extra :: "(string \<times> json) list"

definition event_new :: "string \<Rightarrow> nat \<Rightarrow> int \<Rightarrow> json \<Rightarrow> session_event" where
  "event_new ty seq time data = \<lparr>se_type = ty, se_seq = seq, se_time = time, se_data = data,
     se_ignorable = None, se_surface_op = None, se_sources = None, se_extra = []\<rparr>"

definition event_log_only :: "session_event \<Rightarrow> session_event" where
  "event_log_only e = e\<lparr>se_ignorable := Some True\<rparr>"

definition event_append :: "session_event \<Rightarrow> nat list \<Rightarrow> session_event" where
  "event_append e sources = e\<lparr>se_surface_op := Some OpAppend,
     se_sources := (if sources = [] then None else Some sources)\<rparr>"

fun surface_value :: "surface_op \<Rightarrow> json" where
  "surface_value OpAppend = JStr ''append''"
| "surface_value (OpReplace a b) = JObj [(''op'', JStr ''replace''), (''start'', jcount a), (''end'', jcount b)]"

fun surface_of_value :: "json \<Rightarrow> surface_op option" where
  "surface_of_value (JStr s) = (if s = ''append'' then Some OpAppend else None)"
| "surface_of_value (JObj es) =
     (if length es \<noteq> 3 \<or> map_of es ''op'' \<noteq> Some (JStr ''replace'') then None
      else case (Option.bind (map_of es ''start'') as_nat64, Option.bind (map_of es ''end'') as_nat64) of
          (Some a, Some b) \<Rightarrow> Some (OpReplace a b)
        | _ \<Rightarrow> None)"
| "surface_of_value _ = None"

definition event_keys :: "string list" where
  "event_keys = [''type'', ''seq'', ''time'', ''data'', ''ignorable'', ''surfaceOp'', ''sourceEventSeqs'']"

definition opt_entry :: "string \<Rightarrow> json option \<Rightarrow> (string \<times> json) list" where
  "opt_entry k v = (case v of None \<Rightarrow> [] | Some j \<Rightarrow> [(k, j)])"

definition event_value :: "session_event \<Rightarrow> json" where
  "event_value e = JObj ([(''type'', JStr (se_type e)), (''seq'', jcount (se_seq e)),
       (''time'', JInt (se_time e)), (''data'', se_data e)]
     @ opt_entry ''ignorable'' (map_option JBool (se_ignorable e))
     @ opt_entry ''surfaceOp'' (map_option surface_value (se_surface_op e))
     @ opt_entry ''sourceEventSeqs'' (map_option (\<lambda>xs. JArr (map jcount xs)) (se_sources e))
     @ se_extra e)"

text \<open>An optional field: missing or null is none, and a value of another shape is an error.\<close>

definition opt_field :: "(json \<Rightarrow> 'a option) \<Rightarrow> json option \<Rightarrow> 'a option option" where
  "opt_field f v = (case v of None \<Rightarrow> Some None | Some JNull \<Rightarrow> Some None | Some j \<Rightarrow> map_option Some (f j))"

fun as_bool :: "json \<Rightarrow> bool option" where
  "as_bool (JBool b) = Some b"
| "as_bool _ = None"

fun all_some :: "'a option list \<Rightarrow> 'a list option" where
  "all_some [] = Some []"
| "all_some (None # xs) = None"
| "all_some (Some x # xs) = map_option (Cons x) (all_some xs)"

definition counts_of_value :: "json \<Rightarrow> nat list option" where
  "counts_of_value j = (case as_array j of None \<Rightarrow> None | Some xs \<Rightarrow> all_some (map as_nat64 xs))"

definition event_of_value :: "json \<Rightarrow> session_event option" where
  "event_of_value j = (case as_object j of
     None \<Rightarrow> None
   | Some es \<Rightarrow>
       (case (Option.bind (map_of es ''type'') as_str, Option.bind (map_of es ''seq'') as_nat64,
          Option.bind (map_of es ''time'') as_i64, map_of es ''data'',
          opt_field as_bool (map_of es ''ignorable''), opt_field surface_of_value (map_of es ''surfaceOp''),
          opt_field counts_of_value (map_of es ''sourceEventSeqs'')) of
        (Some ty, Some seq, Some time, Some data, Some ign, Some surf, Some srcs) \<Rightarrow>
          Some \<lparr>se_type = ty, se_seq = seq, se_time = time, se_data = data, se_ignorable = ign,
            se_surface_op = surf, se_sources = srcs,
            se_extra = filter (\<lambda>(k, _). k \<notin> set event_keys) es\<rparr>
      | _ \<Rightarrow> None))"

section \<open>Provenance\<close>

fun decode_sources :: "json list \<Rightarrow> nat \<Rightarrow> nat list \<Rightarrow> bool \<Rightarrow> string + nat list \<times> bool" where
  "decode_sources [] seq out has_range = Inr (out, has_range)"
| "decode_sources (entry # entries) seq out has_range =
     (case safe_count entry of
        Some source \<Rightarrow> decode_sources entries seq (out @ [source]) has_range
      | None \<Rightarrow>
          (case as_array entry of
             Some [a, b] \<Rightarrow>
               rbind (ok_or (safe_count a) ''sourceEventSeqs range start must be a count'') (\<lambda>start.
               rbind (ok_or (safe_count b) ''sourceEventSeqs range end must be a count'') (\<lambda>end'.
               if end' < start \<or> seq \<le> end' \<or> seq - length out < end' - start + 1 then
                 Inl ''sourceEventSeqs range exceeds its event seq''
               else decode_sources entries seq (out @ [start..<Suc end']) True))
           | _ \<Rightarrow> Inl ''sourceEventSeqs range must be a [start, end] pair''))"

definition strictly_increasing :: "nat list \<Rightarrow> bool" where
  "strictly_increasing xs \<longleftrightarrow> list_all (\<lambda>(a, b). a < b) (zip xs (tl xs))"

definition decode_source_event_seqs :: "json \<Rightarrow> nat \<Rightarrow> string + nat list" where
  "decode_source_event_seqs v seq =
     rbind (ok_or (as_array v) ''sourceEventSeqs must be an array'') (\<lambda>entries.
     rbind (decode_sources entries seq [] False) (\<lambda>(out, has_range).
     if \<not> (list_all (\<lambda>s. s < seq) out \<and> distinct out) then
       Inl ''sourceEventSeqs ranges must contain unique earlier seqs''
     else if has_range \<and> \<not> strictly_increasing out then
       Inl ''sourceEventSeqs ranges must be strictly increasing''
     else Inr out))"

text \<open>The end of the run that starts at a value, and what follows it.\<close>

fun run_end :: "nat \<Rightarrow> nat list \<Rightarrow> nat \<times> nat list" where
  "run_end e [] = (e, [])"
| "run_end e (x # xs) = (if x = e + 1 then run_end x xs else (e, x # xs))"

lemma run_end_length: "run_end e xs = (e', rest) \<Longrightarrow> length rest \<le> length xs"
  by (induction e xs arbitrary: e' rest rule: run_end.induct) (force split: if_splits)+

function encode_runs :: "nat list \<Rightarrow> json list" where
  "encode_runs [] = []"
| "encode_runs (x # xs) =
     (case run_end x xs of (e, rest) \<Rightarrow>
        (if 2 \<le> e - x then [JArr [jcount x, jcount e]]
         else jcount x # (if x < e then [jcount e] else [])) @ encode_runs rest)"
  by pat_completeness auto
termination by (relation "measure length") (auto dest: run_end_length[OF sym] simp: less_Suc_eq_le)

definition encode_source_event_seqs :: "nat list \<Rightarrow> json" where
  "encode_source_event_seqs values =
     (if \<not> strictly_increasing values then JArr (map jcount values) else JArr (encode_runs values))"

section \<open>The header line\<close>

record session_header =
  sh_version :: nat
  sh_id :: string
  sh_created_at :: int
  sh_cwd :: "string option"
  sh_parent :: "string option"
  sh_is_seeded :: bool
  sh_seed_length :: "nat option"
  sh_subagent :: bool
  sh_depth :: nat
  sh_preset :: "string option"

definition header_new :: "string \<Rightarrow> string option \<Rightarrow> int \<Rightarrow> session_header" where
  "header_new i cwd created_at = \<lparr>sh_version = 4, sh_id = i, sh_created_at = created_at, sh_cwd = cwd,
     sh_parent = None, sh_is_seeded = False, sh_seed_length = None, sh_subagent = False, sh_depth = 0,
     sh_preset = None\<rparr>"

datatype header_error = HeUnsupported nat | HeRetired string | HeMalformed string

text \<open>The value that \<open>to_line\<close> prints; any other version is a panic.\<close>

definition header_value :: "session_header \<Rightarrow> json option" where
  "header_value h =
     (if sh_version h \<notin> {0, 2, 3, 4} then None
      else Some (JObj ([(''type'', JStr ''session''), (''version'', jcount (sh_version h)), (''id'', JStr (sh_id h)),
          (''createdAt'', JInt (sh_created_at h))]
        @ opt_entry ''cwd'' (map_option JStr (sh_cwd h))
        @ opt_entry ''parentSession'' (map_option JStr (sh_parent h))
        @ (if sh_version h = 0 then opt_entry ''seedLength'' (map_option jcount (sh_seed_length h))
           else [(''isSeeded'', JBool (sh_is_seeded h))])
        @ (if sh_subagent h then [(''origin'', JStr ''subagent'')] else [])
        @ [(''delegationDepth'', jcount (sh_depth h))]
        @ opt_entry ''agentPreset'' (map_option JStr (sh_preset h)))))"

definition is_safe_non_negative :: "json \<Rightarrow> bool" where
  "is_safe_non_negative j \<longleftrightarrow> (case as_i64 j of None \<Rightarrow> False | Some n \<Rightarrow> 0 \<le> n \<and> n \<le> int max_safe)"

definition is_common_header :: "json \<Rightarrow> bool" where
  "is_common_header v \<longleftrightarrow>
     Option.bind (json_get v ''type'') as_str = Some ''session''
     \<and> (case json_get v ''version'' of None \<Rightarrow> False | Some j \<Rightarrow> as_u64 j \<noteq> None)
     \<and> (case json_get v ''id'' of None \<Rightarrow> False | Some j \<Rightarrow> as_str j \<noteq> None)
     \<and> (case json_get v ''createdAt'' of None \<Rightarrow> False | Some j \<Rightarrow> is_safe_non_negative j)
     \<and> (case json_get v ''delegationDepth'' of None \<Rightarrow> False | Some j \<Rightarrow> is_safe_non_negative j)
     \<and> (case json_get v ''origin'' of None \<Rightarrow> True | Some j \<Rightarrow> as_str j = Some ''subagent'')
     \<and> (case json_get v ''agentPreset'' of None \<Rightarrow> True | Some j \<Rightarrow> as_str j \<noteq> None)"

text \<open>The derived decoders of the two header shapes, with unknown fields denied.\<close>

definition header_fields :: "json \<Rightarrow> string list \<Rightarrow> nat \<Rightarrow> session_header option" where
  "header_fields v extra version =
     (case as_object v of
        None \<Rightarrow> None
      | Some es \<Rightarrow>
          if list_ex (\<lambda>(k, _). k \<notin> set ([''type'', ''version'', ''id'', ''createdAt'', ''cwd'', ''parentSession'',
               ''origin'', ''delegationDepth'', ''agentPreset''] @ extra)) es then None
          else (case (Option.bind (map_of es ''id'') as_str, Option.bind (map_of es ''createdAt'') as_i64,
              opt_field as_str (map_of es ''cwd''), opt_field as_str (map_of es ''parentSession''),
              opt_field as_nat64 (map_of es ''seedLength''), Option.bind (map_of es ''delegationDepth'') as_nat64,
              opt_field as_str (map_of es ''agentPreset'')) of
            (Some i, Some created, Some cwd, Some parent, Some seed, Some depth, Some preset) \<Rightarrow>
              if 4294967296 \<le> depth then None
              else Some \<lparr>sh_version = version, sh_id = i, sh_created_at = created, sh_cwd = cwd, sh_parent = parent,
                sh_is_seeded = (if version = 0 then seed \<noteq> None else map_of es ''isSeeded'' = Some (JBool True)),
                sh_seed_length = seed, sh_subagent = (map_of es ''origin'' \<noteq> None), sh_depth = depth,
                sh_preset = preset\<rparr>
          | _ \<Rightarrow> None))"

text \<open>\<open>from_line\<close> after the JSON parser; \<open>None\<close> is a line that is no header.\<close>

definition header_of_value :: "(json \<Rightarrow> string) \<Rightarrow> json \<Rightarrow> header_error + session_header option" where
  "header_of_value err v =
     (let version = Option.bind (json_get v ''version'') as_nat64 in
      case version of
        Some n \<Rightarrow>
          if n \<notin> {0, 2, 3, 4} then Inl (HeUnsupported (n mod 4294967296))
          else if json_get v ''sandboxMode'' \<noteq> None then Inl (HeRetired ''sandboxMode'')
          else if json_get v ''approvalPolicy'' \<noteq> None then Inl (HeRetired ''approvalPolicy'')
          else if n = 0 then
            if \<not> is_common_header v \<or> json_get v ''isSeeded'' \<noteq> None then Inr None
            else (case header_fields v [''seedLength''] 0 of
                None \<Rightarrow> Inl (HeMalformed (err v)) | Some h \<Rightarrow> Inr (Some h))
          else
            if \<not> is_common_header v \<or> \<not> (case json_get v ''isSeeded'' of Some (JBool b) \<Rightarrow> True | _ \<Rightarrow> False)
              \<or> json_get v ''seedLength'' \<noteq> None then Inr None
            else (case header_fields v [''isSeeded''] n of
                None \<Rightarrow> Inl (HeMalformed (err v)) | Some h \<Rightarrow> Inr (Some h))
      | None \<Rightarrow>
          if json_get v ''sandboxMode'' \<noteq> None then Inl (HeRetired ''sandboxMode'')
          else if json_get v ''approvalPolicy'' \<noteq> None then Inl (HeRetired ''approvalPolicy'')
          else Inr None)"

end
