(* ===== verification/SessionLog.thy ===== *)
theory SessionLog
  imports SessionEvent
begin

text \<open>
  The session log as bytes: the packing of streamed deltas into storage rows
  (\<open>session/chunk_packing.rs\<close>), and the encoding and scanning of JSONL logs
  (\<open>session/jsonl.rs\<close>). Printing and parsing JSON text are parameters; the compression of a
  log is not modelled, a log is its plain text.
\<close>

section \<open>Payloads of streamed deltas\<close>

definition assistant_chunk :: "nat \<Rightarrow> nat \<Rightarrow> json \<Rightarrow> json" where
  "assistant_chunk turn step chunk = JObj [(''turn'', jcount turn), (''step'', jcount step), (''chunk'', chunk)]"

definition text_delta :: "nat \<Rightarrow> string \<Rightarrow> json" where
  "text_delta index text = JObj [(''type'', JStr ''text-delta''), (''index'', jcount index), (''text'', JStr text)]"

definition reasoning_delta :: "nat \<Rightarrow> string \<Rightarrow> json" where
  "reasoning_delta index text =
     JObj [(''type'', JStr ''reasoning-delta''), (''index'', jcount index), (''text'', JStr text)]"

definition tool_call_delta :: "nat \<Rightarrow> string \<Rightarrow> string option \<Rightarrow> string \<Rightarrow> json" where
  "tool_call_delta index i name args = JObj ([(''type'', JStr ''tool-call-delta''), (''index'', jcount index),
     (''id'', JStr i)] @ opt_entry ''name'' (map_option JStr name) @ [(''argumentsDelta'', JStr args)])"

section \<open>Classification and runs\<close>

datatype chunk =
    ChText nat nat nat string
  | ChTool nat nat nat string "string option" string

definition classify :: "session_event \<Rightarrow> chunk option" where
  "classify e =
     (if se_type e \<noteq> ''assistant/chunk'' \<or> se_ignorable e \<noteq> None \<or> se_surface_op e \<noteq> None \<or> se_sources e \<noteq> None
        \<or> se_extra e \<noteq> [] then None
      else case as_object (se_data e) of
        None \<Rightarrow> None
      | Some data \<Rightarrow>
        if length data \<noteq> 3 then None
        else case (Option.bind (map_of data ''turn'') as_nat64, Option.bind (map_of data ''step'') as_nat64,
            Option.bind (map_of data ''chunk'') as_object) of
          (Some turn, Some step, Some chunk) \<Rightarrow>
            (case (Option.bind (map_of chunk ''index'') as_nat64, Option.bind (map_of chunk ''type'') as_str) of
              (Some index, Some ty) \<Rightarrow>
                if ty = ''text-delta'' \<or> ty = ''reasoning-delta'' then
                  if length chunk \<noteq> 3 then None
                  else map_option (ChText turn step index) (Option.bind (map_of chunk ''text'') as_str)
                else if ty = ''tool-call-delta'' then
                  let has_name = map_of chunk ''name'' \<noteq> None in
                  if length chunk \<noteq> (if has_name then 5 else 4) then None
                  else (case (Option.bind (map_of chunk ''id'') as_str,
                      Option.bind (map_of chunk ''argumentsDelta'') as_str) of
                    (Some i, Some args) \<Rightarrow>
                      if has_name then map_option (\<lambda>n. ChTool turn step index i (Some n) args)
                        (Option.bind (map_of chunk ''name'') as_str)
                      else Some (ChTool turn step index i None args)
                  | _ \<Rightarrow> None)
                else None
            | _ \<Rightarrow> None)
        | _ \<Rightarrow> None)"

fun same_stream :: "chunk \<Rightarrow> chunk \<Rightarrow> bool" where
  "same_stream (ChText t1 s1 i1 x) (ChText t2 s2 i2 y) = (t1 = t2 \<and> s1 = s2 \<and> i1 = i2)"
| "same_stream (ChTool t1 s1 i1 id1 n1 x) (ChTool t2 s2 i2 id2 n2 y) =
     (t1 = t2 \<and> s1 = s2 \<and> i1 = i2 \<and> id1 = id2 \<and> (n1 = None) = (n2 = None)
        \<and> (case n1 of None \<Rightarrow> [] | Some n \<Rightarrow> n) = (case n2 of None \<Rightarrow> [] | Some n \<Rightarrow> n))"
| "same_stream _ _ = False"

definition continues :: "session_event \<Rightarrow> session_event \<Rightarrow> chunk \<Rightarrow> chunk \<Rightarrow> bool" where
  "continues previous next' prev cur \<longleftrightarrow> se_seq next' = se_seq previous + 1 \<and> same_stream prev cur"

section \<open>Rows\<close>

record text_run =
  xr_turn :: nat
  xr_step :: nat
  xr_index :: nat
  xr_dt :: "int list"
  xr_texts :: "string list"

record tool_run =
  cr_turn :: nat
  cr_step :: nat
  cr_index :: nat
  cr_id :: string
  cr_name :: "string option"
  cr_dt :: "int list"
  cr_args :: "string list"

datatype chunk_row =
    RowText nat int text_run
  | RowReasoning nat int text_run
  | RowTool nat int tool_run

datatype storage_record = StoreEvent session_event | StoreRow chunk_row

type_synonym run_member = "session_event \<times> chunk"

fun time_deltas :: "int \<Rightarrow> int list \<Rightarrow> int list" where
  "time_deltas previous [] = []"
| "time_deltas previous (t # ts) = (t - previous) # time_deltas t ts"

fun chunk_text :: "chunk \<Rightarrow> string" where
  "chunk_text (ChText t s i x) = x"
| "chunk_text (ChTool t s i c n x) = x"

definition text_delta_kind :: "session_event \<Rightarrow> string option" where
  "text_delta_kind e =
     Option.bind (Option.bind (json_get (se_data e) ''chunk'') (\<lambda>c. json_get c ''type'')) as_str"

text \<open>The row of a run that is not empty.\<close>

definition build_row :: "run_member list \<Rightarrow> storage_record" where
  "build_row run =
     (let first = hd run;
          seq0 = se_seq (fst first);
          time0 = se_time (fst first);
          dt = time_deltas time0 (map (se_time \<circ> fst) (tl run));
          texts = map (chunk_text \<circ> snd) run in
      StoreRow (case snd first of
          ChText turn step index x \<Rightarrow>
            let data = \<lparr>xr_turn = turn, xr_step = step, xr_index = index, xr_dt = dt, xr_texts = texts\<rparr> in
            if text_delta_kind (fst first) = Some ''reasoning-delta'' then RowReasoning seq0 time0 data
            else RowText seq0 time0 data
        | ChTool turn step index i name x \<Rightarrow>
            RowTool seq0 time0 \<lparr>cr_turn = turn, cr_step = step, cr_index = index, cr_id = i, cr_name = name,
              cr_dt = dt, cr_args = texts\<rparr>))"

definition flush_run :: "run_member list \<Rightarrow> storage_record list" where
  "flush_run run = (if 3 \<le> length run then [build_row run] else map (StoreEvent \<circ> fst) run)"

text \<open>The loop over a batch, with the run that is being collected.\<close>

fun pack_runs :: "run_member list \<Rightarrow> session_event list \<Rightarrow> storage_record list" where
  "pack_runs run [] = flush_run run"
| "pack_runs run (e # es) =
     (case classify e of
        Some c \<Rightarrow>
          if run \<noteq> [] \<and> continues (fst (last run)) e (snd (last run)) c then pack_runs (run @ [(e, c)]) es
          else flush_run run @ pack_runs [(e, c)] es
      | None \<Rightarrow> flush_run run @ StoreEvent e # pack_runs [] es)"

definition pack_chunk_runs :: "session_event list \<Rightarrow> storage_record list" where
  "pack_chunk_runs events = pack_runs [] events"

definition text_run_value :: "text_run \<Rightarrow> json" where
  "text_run_value d = JObj [(''turn'', jcount (xr_turn d)), (''step'', jcount (xr_step d)), (''index'', jcount (xr_index d)),
     (''dt'', JArr (map JInt (xr_dt d))), (''texts'', JArr (map JStr (xr_texts d)))]"

definition tool_run_value :: "tool_run \<Rightarrow> json" where
  "tool_run_value d = JObj ([(''turn'', jcount (cr_turn d)), (''step'', jcount (cr_step d)), (''index'', jcount (cr_index d)),
     (''id'', JStr (cr_id d))] @ opt_entry ''name'' (map_option JStr (cr_name d))
     @ [(''dt'', JArr (map JInt (cr_dt d))), (''args'', JArr (map JStr (cr_args d)))])"

definition row_json :: "string \<Rightarrow> nat \<Rightarrow> int \<Rightarrow> json \<Rightarrow> json" where
  "row_json ty seq0 time0 data =
     JObj [(''type'', JStr ty), (''seq0'', jcount seq0), (''time0'', JInt time0), (''data'', data)]"

fun storage_record_value :: "storage_record \<Rightarrow> json" where
  "storage_record_value (StoreEvent e) = event_value e"
| "storage_record_value (StoreRow (RowText s t d)) = row_json ''text-chunks'' s t (text_run_value d)"
| "storage_record_value (StoreRow (RowReasoning s t d)) = row_json ''reasoning-chunks'' s t (text_run_value d)"
| "storage_record_value (StoreRow (RowTool s t d)) = row_json ''tool-call-chunks'' s t (tool_run_value d)"

section \<open>Unpacking\<close>

definition list_field :: "(json \<Rightarrow> 'a option) \<Rightarrow> json option \<Rightarrow> 'a list option" where
  "list_field f v = Option.bind (Option.bind v as_array) (\<lambda>xs. all_some (map f xs))"

definition text_run_of :: "json \<Rightarrow> text_run option" where
  "text_run_of v = Option.bind (as_object v) (\<lambda>es.
     case (Option.bind (map_of es ''turn'') as_nat64, Option.bind (map_of es ''step'') as_nat64,
       Option.bind (map_of es ''index'') as_nat64, list_field as_i64 (map_of es ''dt''), list_field as_str (map_of es ''texts'')) of
       (Some t, Some s, Some i, Some dt, Some xs) \<Rightarrow> Some \<lparr>xr_turn = t, xr_step = s, xr_index = i, xr_dt = dt, xr_texts = xs\<rparr>
     | _ \<Rightarrow> None)"

definition tool_run_of :: "json \<Rightarrow> tool_run option" where
  "tool_run_of v = Option.bind (as_object v) (\<lambda>es.
     case (Option.bind (map_of es ''turn'') as_nat64, Option.bind (map_of es ''step'') as_nat64,
       Option.bind (map_of es ''index'') as_nat64, Option.bind (map_of es ''id'') as_str,
       opt_field as_str (map_of es ''name''), list_field as_i64 (map_of es ''dt''), list_field as_str (map_of es ''args'')) of
       (Some t, Some s, Some i, Some c, Some n, Some dt, Some xs) \<Rightarrow>
         Some \<lparr>cr_turn = t, cr_step = s, cr_index = i, cr_id = c, cr_name = n, cr_dt = dt, cr_args = xs\<rparr>
     | _ \<Rightarrow> None)"

text \<open>The derived decoder of a row, which is tagged by its type.\<close>

definition row_of_value :: "json \<Rightarrow> chunk_row option" where
  "row_of_value v = Option.bind (as_object v) (\<lambda>es.
     case (Option.bind (map_of es ''type'') as_str, Option.bind (map_of es ''seq0'') as_nat64,
       Option.bind (map_of es ''time0'') as_i64, map_of es ''data'') of
       (Some ty, Some s, Some t, Some d) \<Rightarrow>
         if ty = ''text-chunks'' then map_option (RowText s t) (text_run_of d)
         else if ty = ''reasoning-chunks'' then map_option (RowReasoning s t) (text_run_of d)
         else if ty = ''tool-call-chunks'' then map_option (RowTool s t) (tool_run_of d)
         else None
     | _ \<Rightarrow> None)"

fun times_fit :: "int \<Rightarrow> int list \<Rightarrow> bool" where
  "times_fit t [] = True"
| "times_fit t (d # ds) = (in_i64 (t + d) \<and> times_fit (t + d) ds)"

definition validate_bounds :: "nat \<Rightarrow> int \<Rightarrow> int list \<Rightarrow> nat \<Rightarrow> string + unit" where
  "validate_bounds seq0 time0 dt members =
     (if 18446744073709551616 \<le> seq0 + (members - 1) then Inl ''run seq overflows''
      else if \<not> times_fit time0 dt then Inl ''run time overflows''
      else Inr ())"

definition validate_text_run :: "nat \<Rightarrow> int \<Rightarrow> text_run \<Rightarrow> string + unit" where
  "validate_text_run seq0 time0 d =
     (if xr_texts d = [] \<or> length (xr_dt d) + 1 \<noteq> length (xr_texts d) then Inl ''text run payload/dt length mismatch''
      else validate_bounds seq0 time0 (xr_dt d) (length (xr_texts d)))"

definition validate_tool_run :: "nat \<Rightarrow> int \<Rightarrow> tool_run \<Rightarrow> string + unit" where
  "validate_tool_run seq0 time0 d =
     (if cr_args d = [] \<or> length (cr_dt d) + 1 \<noteq> length (cr_args d) then Inl ''tool run payload/dt length mismatch''
      else validate_bounds seq0 time0 (cr_dt d) (length (cr_args d)))"

definition time_at :: "int \<Rightarrow> int list \<Rightarrow> nat \<Rightarrow> int" where
  "time_at time0 dt member = time0 + sum_list (take member dt)"

definition expand_text :: "nat \<Rightarrow> int \<Rightarrow> text_run \<Rightarrow> string \<Rightarrow> session_event list" where
  "expand_text seq0 time0 d kind =
     map (\<lambda>m. event_new ''assistant/chunk'' (seq0 + m) (time_at time0 (xr_dt d) m)
       (assistant_chunk (xr_turn d) (xr_step d)
         (JObj [(''type'', JStr (if kind = ''text-chunks'' then ''text-delta'' else ''reasoning-delta'')),
           (''index'', jcount (xr_index d)), (''text'', JStr (xr_texts d ! m))])))
       [0..<length (xr_texts d)]"

definition expand_tool :: "nat \<Rightarrow> int \<Rightarrow> tool_run \<Rightarrow> session_event list" where
  "expand_tool seq0 time0 d =
     map (\<lambda>m. event_new ''assistant/chunk'' (seq0 + m) (time_at time0 (cr_dt d) m)
       (assistant_chunk (cr_turn d) (cr_step d) (tool_call_delta (cr_index d) (cr_id d) (cr_name d) (cr_args d ! m))))
       [0..<length (cr_args d)]"

definition decode_storage_record :: "(json \<Rightarrow> string) \<Rightarrow> json \<Rightarrow> string + session_event list" where
  "decode_storage_record err v =
     (case Option.bind (json_get v ''type'') as_str of
        None \<Rightarrow> Inl ''storage record has no type''
      | Some kind \<Rightarrow>
          if kind = ''text-chunks'' \<or> kind = ''reasoning-chunks'' then
            (case row_of_value v of
               None \<Rightarrow> Inl (''malformed '' @ kind @ '' storage row: '' @ err v)
             | Some (RowText s t d) \<Rightarrow> rbind (validate_text_run s t d) (\<lambda>_. Inr (expand_text s t d kind))
             | Some _ \<Rightarrow> Inl (''malformed '' @ kind @ '' storage row: wrong data shape''))
          else if kind = ''tool-call-chunks'' then
            (case row_of_value v of
               None \<Rightarrow> Inl (''malformed tool-call-chunks storage row: '' @ err v)
             | Some (RowTool s t d) \<Rightarrow> rbind (validate_tool_run s t d) (\<lambda>_. Inr (expand_tool s t d))
             | Some _ \<Rightarrow> Inl ''malformed tool-call-chunks storage row: wrong data shape'')
          else (case event_of_value v of
               None \<Rightarrow> Inl (''malformed session event: '' @ err v)
             | Some e \<Rightarrow> Inr [e]))"

section \<open>Records of a generation\<close>

text \<open>\<open>Map::remove\<close>: the last entry takes the place of the removed one.\<close>

fun entry_position :: "string \<Rightarrow> (string \<times> json) list \<Rightarrow> nat option" where
  "entry_position k [] = None"
| "entry_position k ((k', v) # es) = (if k' = k then Some 0 else map_option Suc (entry_position k es))"

definition swap_remove :: "string \<Rightarrow> (string \<times> json) list \<Rightarrow> (string \<times> json) list" where
  "swap_remove k es = (case entry_position k es of
     None \<Rightarrow> es
   | Some n \<Rightarrow> if n + 1 = length es then butlast es else (butlast es)[n := last es])"

definition rename_entry :: "string \<Rightarrow> string \<Rightarrow> (string \<times> json) list \<Rightarrow> (string \<times> json) list" where
  "rename_entry k k' es = (case map_of es k of None \<Rightarrow> es | Some v \<Rightarrow> entry_set k' v (swap_remove k es))"

definition canonical_endpoint :: "string \<Rightarrow> string \<Rightarrow> string \<Rightarrow> (string \<times> json) list \<Rightarrow> string + (string \<times> json) list" where
  "canonical_endpoint wire logical message es =
     (if map_of es wire \<noteq> None \<and> map_of (swap_remove wire es) logical \<noteq> None then Inl message
      else Inr (rename_entry wire logical es))"

definition canonicalize_replacement_keys :: "json \<Rightarrow> nat \<Rightarrow> string \<Rightarrow> string + json" where
  "canonicalize_replacement_keys v seq subject =
     (case Option.bind (json_get v ''surfaceOp'') as_object of
        None \<Rightarrow> Inr v
      | Some es \<Rightarrow>
          let message = subject @ '' at seq '' @ show_nat seq @ '': duplicate replacement endpoint'' in
          rbind (canonical_endpoint ''startSeq'' ''start'' message es) (\<lambda>es.
          rbind (canonical_endpoint ''endSeq'' ''end'' message es) (\<lambda>es.
          Inr (json_set v ''surfaceOp'' (JObj es)))))"

definition safe_time :: "json \<Rightarrow> bool" where
  "safe_time j \<longleftrightarrow> (case as_i64 j of None \<Rightarrow> False | Some t \<Rightarrow> - int max_safe \<le> t \<and> t \<le> int max_safe)"

text \<open>
  Released generations; the images of the unreleased generation 0 get their identity from their
  path (\<open>legacy\<close>, the hash of a path).
\<close>

definition legacy_image :: "(string \<Rightarrow> string) \<Rightarrow> json \<Rightarrow> json" where
  "legacy_image legacy block =
     (case json_get block ''path'' of
        Some (JStr p) \<Rightarrow>
          if json_index block ''type'' = JStr ''image'' \<and> json_get block ''attachmentId'' = None \<and> p \<noteq> []
          then json_set block ''attachmentId'' (JStr (legacy p)) else block
      | _ \<Rightarrow> block)"

definition legacy_content :: "(string \<Rightarrow> string) \<Rightarrow> json \<Rightarrow> json" where
  "legacy_content legacy holder =
     (case json_get holder ''content'' of
        Some (JArr blocks) \<Rightarrow> json_set holder ''content'' (JArr (map (legacy_image legacy) blocks))
      | _ \<Rightarrow> holder)"

definition legacy_event :: "(string \<Rightarrow> string) \<Rightarrow> session_event \<Rightarrow> session_event" where
  "legacy_event legacy e =
     (if se_type e = ''user/message'' then e\<lparr>se_data := legacy_content legacy (se_data e)\<rparr>
      else if se_type e = ''assistant/message'' then
        (case json_get (se_data e) ''message'' of
           Some m \<Rightarrow> e\<lparr>se_data := json_set (se_data e) ''message'' (legacy_content legacy m)\<rparr>
         | None \<Rightarrow> e)
      else e)"

definition decode_record_value ::
  "(json \<Rightarrow> string) \<Rightarrow> (string \<Rightarrow> string) \<Rightarrow> json \<Rightarrow> nat \<Rightarrow> string + session_event list" where
  "decode_record_value err legacy v version =
     (if version = 0 then rbind (decode_storage_record err v) (\<lambda>es. Inr (map (legacy_event legacy) es))
      else if version \<notin> {2, 3, 4} then Inl (''format-unsupported: v'' @ show_nat version)
      else let subject = ''malformed v'' @ show_nat version @ '' session event'' in
        rbind (ok_or (Option.bind (json_get v ''seq'') safe_count) (subject @ '': seq must be a count'')) (\<lambda>seq.
        rbind (ensure (case json_get v ''time'' of None \<Rightarrow> False | Some t \<Rightarrow> safe_time t)
          (subject @ '': time must be a safe integer'')) (\<lambda>_.
        rbind (if 3 \<le> version then canonicalize_replacement_keys v seq subject else Inr v) (\<lambda>v.
        rbind (case json_get v ''sourceEventSeqs'' of
            None \<Rightarrow> Inr v
          | Some encoded \<Rightarrow> rbind (decode_source_event_seqs encoded seq) (\<lambda>decoded.
              Inr (json_set v ''sourceEventSeqs'' (JArr (map jcount decoded))))) (\<lambda>v.
        case event_of_value v of
          None \<Rightarrow> Inl (subject @ '': '' @ err v)
        | Some e \<Rightarrow> Inr [e])))))"

text \<open>The value written for an entry of a released generation.\<close>

definition renamed_surface :: "json \<Rightarrow> json" where
  "renamed_surface v = (case Option.bind (json_get v ''surfaceOp'') as_object of
     None \<Rightarrow> v
   | Some es \<Rightarrow> json_set v ''surfaceOp''
       (JObj (rename_entry ''end'' ''endSeq'' (rename_entry ''start'' ''startSeq'' es))))"

definition record_value :: "nat \<Rightarrow> storage_record \<Rightarrow> json" where
  "record_value version r =
     (let v = storage_record_value r;
          v = (case r of
              StoreEvent e \<Rightarrow> (case se_sources e of
                  Some xs \<Rightarrow> if 2 \<le> version then json_set v ''sourceEventSeqs'' (encode_source_event_seqs xs) else v
                | None \<Rightarrow> v)
            | StoreRow row \<Rightarrow> v) in
      if 3 \<le> version then renamed_surface v else v)"

definition event_lines :: "(json \<Rightarrow> string) \<Rightarrow> session_event list \<Rightarrow> bool \<Rightarrow> nat \<Rightarrow> string" where
  "event_lines print events pack version =
     join_with [lf] (map (print \<circ> record_value version)
       (if version = 0 \<and> pack then pack_chunk_runs events else map StoreEvent events))"

definition materialized_bytes :: "(json \<Rightarrow> string) \<Rightarrow> session_header \<Rightarrow> session_event list \<Rightarrow> bool \<Rightarrow> string option" where
  "materialized_bytes print h events pack =
     map_option (\<lambda>v. print v @ [lf] @ event_lines print events pack (sh_version h) @ [lf]) (header_value h)"

definition append_batch_bytes :: "(json \<Rightarrow> string) \<Rightarrow> session_event list \<Rightarrow> bool \<Rightarrow> string" where
  "append_batch_bytes print events pack = event_lines print events pack 4 @ [lf]"

section \<open>Scanning a log\<close>

record log_scan =
  ls_header :: session_header
  ls_events :: "session_event list"
  ls_committed :: nat

record scan_env =
  sn_parse :: "string \<Rightarrow> json option"
  sn_err :: "json \<Rightarrow> string"
  sn_legacy :: "string \<Rightarrow> string"

text \<open>The entries of one line, up to the first that is out of sequence.\<close>

fun take_in_sequence :: "nat \<Rightarrow> nat \<Rightarrow> session_event list \<Rightarrow> string + unit" where
  "take_in_sequence line n [] = Inr ()"
| "take_in_sequence line n (e # es) =
     (if se_seq e \<noteq> n then Inl (''corrupt session log: seq gap in committed region at line '' @ show_nat line
        @ '' (expected '' @ show_nat n @ '', got '' @ show_nat (se_seq e) @ '')'')
      else take_in_sequence line (n + 1) es)"

fun scan_lines ::
  "scan_env \<Rightarrow> nat \<Rightarrow> nat \<Rightarrow> string list \<Rightarrow> session_event list \<Rightarrow> nat \<Rightarrow> string option
    \<Rightarrow> string + session_event list \<times> nat" where
  "scan_lines S version n [] events committed issue = Inr (events, committed)"
| "scan_lines S version n (line # ls) events committed issue =
     (case sn_parse S line of
        None \<Rightarrow> scan_lines S version (n + 1) ls events committed
          (Some (''corrupt session log: unparsable committed event at line '' @ show_nat (n + 1)))
      | Some v \<Rightarrow>
          (case decode_record_value (sn_err S) (sn_legacy S) v version of
             Inl message \<Rightarrow> scan_lines S version (n + 1) ls events committed (Some message)
           | Inr decoded \<Rightarrow>
               (case issue of
                  Some message \<Rightarrow>
                    if list_ex (\<lambda>e. se_type e = ''turn/end'') decoded then Inl message
                    else scan_lines S version (n + 1) ls events committed issue
                | None \<Rightarrow>
                    (case take_in_sequence (n + 1) (length events) decoded of
                       Inr _ \<Rightarrow> scan_lines S version (n + 1) ls (events @ decoded) (committed + length line + 1) None
                     | Inl gap \<Rightarrow> scan_lines S version (n + 1) ls events (committed + length line + 1) (Some gap)))))"

definition header_of_line :: "scan_env \<Rightarrow> string \<Rightarrow> header_error + session_header option" where
  "header_of_line S line = (case sn_parse S line of None \<Rightarrow> Inr None | Some v \<Rightarrow> header_of_value (sn_err S) v)"

definition scan_raw :: "scan_env \<Rightarrow> (string \<Rightarrow> bool) \<Rightarrow> string \<Rightarrow> string + log_scan" where
  "scan_raw S utf8_ok buffer =
     (case split_on lf buffer of
        header_line # rest \<Rightarrow>
          if rest = [] then Inl ''empty or header-less session log''
          else if \<not> utf8_ok header_line then Inl ''header line is not valid UTF-8''
          else (case header_of_line S header_line of
              Inl (HeUnsupported n) \<Rightarrow> Inl (''format-unsupported: v'' @ show_nat n)
            | Inl (HeRetired f) \<Rightarrow> Inl (''corrupt: retired header field '' @ f)
            | Inl (HeMalformed m) \<Rightarrow> Inl (''corrupt: '' @ m)
            | Inr None \<Rightarrow> Inl ''corrupt: first line is not a session header''
            | Inr (Some h) \<Rightarrow>
                rbind (scan_lines S (sh_version h) 0 (butlast rest) [] (length header_line + 1) None) (\<lambda>(events, committed).
                Inr \<lparr>ls_header = h, ls_events = events, ls_committed = committed\<rparr>))
      | [] \<Rightarrow> Inl ''empty or header-less session log'')"

end
