(* ===== verification/SessionLogProps.thy ===== *)
theory SessionLogProps
  imports SessionLog PatchProps Interfaces
begin

text \<open>
  What the session log promises: the provenance codec and the records of every written
  generation are read back as they were, and a log that was cut anywhere after its header is
  scanned to the entries whose lines are complete.
\<close>

section \<open>Provenance\<close>

lemma strictly_increasing_iff: "strictly_increasing xs \<longleftrightarrow> sorted_wrt (<) xs"
proof (induction xs)
  case (Cons x xs)
  then show ?case
  proof (cases xs)
    case (Cons y ys)
    have "strictly_increasing (x # y # ys) \<longleftrightarrow> x < y \<and> strictly_increasing (y # ys)"
      by (simp add: strictly_increasing_def)
    with Cons.IH Cons show ?thesis using less_trans by auto
  qed (simp add: strictly_increasing_def)
qed (simp add: strictly_increasing_def)

lemma run_end_split: "run_end x xs = (e, rest) \<Longrightarrow> x \<le> e \<and> x # xs = [x..<Suc e] @ rest"
proof (induction x xs arbitrary: e rest rule: run_end.induct)
  case (2 x y ys)
  show ?case
  proof (cases "y = x + 1")
    case True
    with 2 have "y \<le> e" "y # ys = [y..<Suc e] @ rest" by auto
    with True show ?thesis by (simp add: upt_conv_Cons del: upt_Suc)
  qed (use 2 in auto)
qed simp

lemma safe_count_jcount [simp]: "safe_count (jcount n) = (if n \<le> max_safe then Some n else None)"
  by (simp add: safe_count_def max_safe_def)

lemma safe_count_JArr [simp]: "safe_count (JArr xs) = None"
  by (simp add: safe_count_def as_nat64_def)

lemma decode_sources_plain:
  "\<forall>x\<in>set vs. x \<le> max_safe \<Longrightarrow> decode_sources (map jcount vs @ js) seq out r = decode_sources js seq (out @ vs) r"
  by (induction vs arbitrary: out) simp_all

lemma decode_sources_range:
  assumes "a \<le> b" "b < seq" "seq \<le> max_safe + 1" "length out \<le> a"
  shows "decode_sources (JArr [jcount a, jcount b] # js) seq out r = decode_sources js seq (out @ [a..<Suc b]) True"
proof -
  have "\<not> seq - length out < b - a + 1" using assms by linarith
  moreover have "a \<le> max_safe" "b \<le> max_safe" "\<not> b < a" "\<not> seq \<le> b" using assms by linarith+
  ultimately show ?thesis by (simp add: ok_or_def del: upt_Suc)
qed

lemma sorted_length_le: "sorted_wrt (<) (out @ x # ys) \<Longrightarrow> length out \<le> (x :: nat)"
proof (induction out arbitrary: x ys rule: rev_induct)
  case (snoc y out)
  then have "sorted_wrt (<) (out @ y # (x # ys))" "y < x" by (simp_all add: sorted_wrt_append)
  then show ?case using snoc.IH[of y "x # ys"] by simp
qed simp

lemma decode_encode_runs:
  "sorted_wrt (<) (out @ vs) \<Longrightarrow> \<forall>x\<in>set vs. x < seq \<Longrightarrow> seq \<le> max_safe + 1 \<Longrightarrow>
    \<exists>r'. decode_sources (encode_runs vs) seq out r = Inr (out @ vs, r')"
proof (induction vs arbitrary: out r rule: encode_runs.induct)
  case (2 x xs)
  obtain e rest where re: "run_end x xs = (e, rest)" by (cases "run_end x xs")
  then have run: "x \<le> e" "x # xs = [x..<Suc e] @ rest" using run_end_split by blast+
  let ?run = "[x..<Suc e]"
  have "e \<in> set ?run" using run by simp
  then have e: "e < seq" using 2 run by (metis Un_iff set_append)
  have IH: "\<exists>r'. decode_sources (encode_runs rest) seq (out @ ?run) b = Inr (out @ x # xs, r')" for b
    using 2(1)[OF re[symmetric], of "out @ ?run" b] 2(2-4) run(2) by auto
  have safe: "x \<le> max_safe" "e \<le> max_safe" using e run 2(4) by linarith+
  show ?case
  proof (cases "2 \<le> e - x")
    case True
    have "length out \<le> x" using sorted_length_le 2(2) by blast
    with True show ?thesis using IH decode_sources_range[OF run(1) e 2(4)] re by (simp del: upt_Suc)
  next
    case False
    then have "?run = x # (if x < e then [e] else [])" using run(1)
      by (cases "x = e") (auto simp: le_less_Suc_eq upt_conv_Cons)
    moreover have "encode_runs (x # xs) = map jcount (x # (if x < e then [e] else [])) @ encode_runs rest"
      using False re by simp
    moreover have "\<forall>y\<in>set (x # (if x < e then [e] else [])). y \<le> max_safe" using safe by simp
    ultimately show ?thesis using IH by (simp only: decode_sources_plain)
  qed
qed simp

lemma decode_encode_seqs:
  assumes "distinct vs" "\<forall>x\<in>set vs. x < seq" "seq \<le> max_safe + 1"
  shows "decode_source_event_seqs (encode_source_event_seqs vs) seq = Inr vs"
proof (cases "strictly_increasing vs")
  case True
  then have "\<exists>r'. decode_sources (encode_runs vs) seq [] False = Inr (vs, r')"
    using decode_encode_runs[of "[]"] assms by (simp add: strictly_increasing_iff)
  then show ?thesis using assms True
    by (auto simp: decode_source_event_seqs_def encode_source_event_seqs_def ok_or_def list_all_iff)
next
  case False
  have "\<forall>x\<in>set vs. x \<le> max_safe" using assms by auto
  then show ?thesis using assms False decode_sources_plain[of vs "[]"]
    by (simp add: decode_source_event_seqs_def encode_source_event_seqs_def ok_or_def list_all_iff)
qed

text \<open>a provenance list of earlier sequence numbers without repetition, whatever its
  order, is read back from its compact form as it was.\<close>

theorem source_seqs_roundtrip:
  "distinct vs \<Longrightarrow> \<forall>x\<in>set vs. x < seq \<Longrightarrow> seq \<le> max_safe + 1 \<Longrightarrow>
    decode_source_event_seqs (encode_source_event_seqs vs) seq = Inr vs"
  by (rule decode_encode_seqs)

lemma source_seqs_roundtrip_witness:
  "decode_source_event_seqs (encode_source_event_seqs [1, 3, 4, 5, 9]) 10 = Inr [1, 3, 4, 5, 9]"
  by (rule source_seqs_roundtrip) (simp_all add: max_safe_def)

interpretation sources_codec: codec "\<lambda>vs. distinct vs \<and> (\<forall>x\<in>set vs. x < seq) \<and> seq \<le> max_safe + 1" encode_source_event_seqs
    "\<lambda>v. case decode_source_event_seqs v seq of Inr vs \<Rightarrow> Some vs | _ \<Rightarrow> None" for seq
  by unfold_locales (simp add: decode_encode_seqs)

section \<open>The header line\<close>

definition header_ok :: "session_header \<Rightarrow> bool" where
  "header_ok h \<longleftrightarrow> sh_version h \<in> {0, 2, 3, 4} \<and> 0 \<le> sh_created_at h \<and> sh_created_at h \<le> int max_safe
     \<and> sh_depth h < 4294967296
     \<and> (if sh_version h = 0 then sh_is_seeded h = (sh_seed_length h \<noteq> None)
          \<and> (\<forall>n. sh_seed_length h = Some n \<longrightarrow> n < 18446744073709551616)
        else sh_seed_length h = None)"

lemma as_i64_JInt_safe: "- int max_safe \<le> n \<Longrightarrow> n \<le> int max_safe \<Longrightarrow> as_i64 (JInt n) = Some n"
  by (simp add: in_i64_def i64_min_def i64_max_def max_safe_def)

lemma opt_field_simps [simp]:
  "opt_field f None = Some None" "opt_field as_str (Some (JStr s)) = Some (Some s)"
  "opt_field as_bool (Some (JBool b)) = Some (Some b)"
  "opt_field as_nat64 (Some (jcount n)) = (if n < 18446744073709551616 then Some (Some n) else None)"
  by (simp_all add: opt_field_def jcount_def del: as_nat64_jcount)
     (simp_all add: as_nat64_jcount[unfolded jcount_def])

lemma map_of_opt_entry [simp]: "map_of (opt_entry k v) k' = (if k' = k then v else None)"
  by (simp add: opt_entry_def split: option.splits)

lemma list_ex_opt_entry [simp]: "list_ex P (opt_entry k v) \<longleftrightarrow> (\<exists>x. v = Some x \<and> P (k, x))"
  by (simp add: opt_entry_def split: option.splits)

lemma header_roundtrip:
  assumes "header_ok h"
  shows "\<exists>v. header_value h = Some v \<and> header_of_value err v = Inr (Some h)"
proof -
  obtain ver i cr cwd par isd sl sub dep pre where h: "h = \<lparr>sh_version = ver, sh_id = i, sh_created_at = cr, sh_cwd = cwd,
     sh_parent = par, sh_is_seeded = isd, sh_seed_length = sl, sh_subagent = sub, sh_depth = dep, sh_preset = pre\<rparr>"
    by (cases h)
  have ver: "ver \<in> {0, 2, 3, 4}" and cr: "0 \<le> cr" "cr \<le> int max_safe" and dep: "dep < 4294967296"
    using assms by (simp_all add: header_ok_def h)
  have ints: "as_i64 (JInt cr) = Some cr" "as_i64 (jcount dep) = Some (int dep)" "dep < 18446744073709551616"
    "int dep \<le> int max_safe"
    using cr dep by (simp_all add: in_i64_def i64_min_def i64_max_def jcount_def max_safe_def)
  have version: "as_u64 (jcount ver) \<noteq> None" "ver < 18446744073709551616" using ver by (auto simp: jcount_def)
  have depth: "\<exists>w. as_u64 (jcount dep) = Some w" using dep by (simp add: jcount_def)
  note unfolded = header_value_def header_of_value_def is_common_header_def is_safe_non_negative_def header_fields_def
    opt_entry_def
  show ?thesis
  proof (cases "ver = 0")
    case True
    then have sl: "isd = (sl \<noteq> None)" "\<forall>n. sl = Some n \<longrightarrow> n < 18446744073709551616"
      using assms by (simp_all add: header_ok_def h)
    show ?thesis using True sl cr ints dep version unfolding h
      by (cases cwd; cases par; cases sl; cases sub; cases pre) (simp_all add: unfolded)
  next
    case False
    then have "sl = None" using assms by (simp add: header_ok_def h)
    with False show ?thesis using cr ints dep ver version unfolding h
      by (cases cwd; cases par; cases sub; cases pre) (simp_all add: unfolded)
  qed
qed

section \<open>Records\<close>

definition event_ok :: "session_event \<Rightarrow> bool" where
  "event_ok e \<longleftrightarrow> se_seq e \<le> max_safe \<and> - int max_safe \<le> se_time e \<and> se_time e \<le> int max_safe
     \<and> list_all (\<lambda>(k, _). k \<notin> set event_keys) (se_extra e)
     \<and> (case se_surface_op e of Some (OpReplace a b) \<Rightarrow> a \<le> max_safe \<and> b \<le> max_safe | _ \<Rightarrow> True)
     \<and> (case se_sources e of Some vs \<Rightarrow> distinct vs \<and> list_all (\<lambda>x. x < se_seq e) vs | None \<Rightarrow> True)"

lemma extra_fresh:
  "list_all (\<lambda>(k, _). k \<notin> set event_keys) xs \<Longrightarrow> k \<in> set event_keys \<Longrightarrow> map_of xs k = None"
  by (induction xs) auto

lemma all_some_counts [simp]:
  "\<forall>x\<in>set vs. x < 18446744073709551616 \<Longrightarrow> all_some (map (as_nat64 \<circ> jcount) vs) = Some vs"
  by (induction vs) simp_all

lemma filter_extra: "list_all (\<lambda>(k, _). k \<notin> set event_keys) xs \<Longrightarrow> filter (\<lambda>(k, _). k \<notin> set event_keys) xs = xs"
  by (simp add: list_all_iff filter_id_conv)

text \<open>The decoder on the plain form of an entry, however its optional fields are set.\<close>

lemma event_of_value_plain:
  assumes "event_ok e"
  shows "event_of_value (event_value e) = Some e"
proof -
  obtain ty n t d ign sop src ex where e: "e = \<lparr>se_type = ty, se_seq = n, se_time = t, se_data = d, se_ignorable = ign,
     se_surface_op = sop, se_sources = src, se_extra = ex\<rparr>" by (cases e)
  have ex: "map_of ex ''type'' = None" "map_of ex ''seq'' = None" "map_of ex ''time'' = None" "map_of ex ''data'' = None"
    "map_of ex ''ignorable'' = None" "map_of ex ''surfaceOp'' = None" "map_of ex ''sourceEventSeqs'' = None"
    using assms extra_fresh[of ex] by (simp_all add: event_ok_def e event_keys_def)
  have f: "filter (\<lambda>(k, _). k \<notin> set event_keys) ex = ex" by (rule filter_extra) (use assms in \<open>simp add: event_ok_def e\<close>)
  have n: "n < 18446744073709551616" and t: "as_i64 (JInt t) = Some t"
    using assms as_i64_JInt_safe by (simp_all add: event_ok_def e max_safe_def)
  have sop: "opt_field surface_of_value (map_option surface_value sop) = Some sop"
    using assms by (auto simp: event_ok_def e opt_field_def max_safe_def split: option.splits surface_op.splits)
  have src: "opt_field counts_of_value (map_option (\<lambda>xs. JArr (map jcount xs)) src) = Some src"
  proof (cases src)
    case (Some vs)
    then have "\<forall>x\<in>set vs. x < 18446744073709551616"
      using assms n by (auto simp: event_ok_def e list_all_iff)
    with Some show ?thesis by (simp add: opt_field_def counts_of_value_def)
  qed simp
  have ign: "opt_field as_bool (map_option JBool ign) = Some ign" by (cases ign) simp_all
  show ?thesis using ex f n t sop src ign unfolding e
    by (cases ign; cases sop; cases src) (simp_all add: event_of_value_def event_value_def opt_entry_def event_keys_def)
qed

lemma entry_set_twice [simp]: "entry_set k v (entry_set k w es) = entry_set k v es"
  by (induction es) auto

lemma json_set_twice: "json_set (json_set j k w) k v = json_set j k v"
  by (cases j) simp_all

lemma entry_set_present [simp]: "map_of es k = Some v \<Longrightarrow> entry_set k v es = es"
  by (induction es) auto

lemma json_set_present: "json_get j k = Some v \<Longrightarrow> json_set j k v = j"
  by (cases j) simp_all

lemma entry_set_swap:
  "k \<noteq> l \<Longrightarrow> map_of es k \<noteq> None \<Longrightarrow> entry_set l w (entry_set k v es) = entry_set k v (entry_set l w es)"
  by (induction es) auto

lemma json_get_set [simp]: "json_get (json_set (JObj es) k v) q = (if q = k then Some v else map_of es q)"
  by (simp add: map_of_entry_set)

lemma event_value_fields:
  "event_ok e \<Longrightarrow> json_get (event_value e) ''seq'' = Some (jcount (se_seq e))"
  "event_ok e \<Longrightarrow> json_get (event_value e) ''time'' = Some (JInt (se_time e))"
  "event_ok e \<Longrightarrow> json_get (event_value e) ''surfaceOp'' = map_option surface_value (se_surface_op e)"
  "event_ok e \<Longrightarrow> json_get (event_value e) ''sourceEventSeqs'' = map_option (\<lambda>xs. JArr (map jcount xs)) (se_sources e)"
  using extra_fresh[of "se_extra e"]
  by (auto simp: event_ok_def event_value_def event_keys_def map_add_def split: option.splits)

text \<open>The rename of the replacement endpoints is undone by the decoder.\<close>

lemma canonical_renamed:
  assumes "json_get (JObj es) ''surfaceOp'' = map_option surface_value sop"
  shows "canonicalize_replacement_keys (renamed_surface (JObj es)) n subject = Inr (JObj es)"
proof (cases sop)
  case (Some op)
  then show ?thesis using assms
    by (cases op) (auto simp: canonicalize_replacement_keys_def renamed_surface_def canonical_endpoint_def rename_entry_def
      swap_remove_def map_of_entry_set Let_def)
qed (use assms in \<open>simp add: canonicalize_replacement_keys_def renamed_surface_def\<close>)

lemma renamed_get [simp]: "k \<noteq> ''surfaceOp'' \<Longrightarrow> json_get (renamed_surface (JObj es)) k = map_of es k"
  by (simp add: renamed_surface_def map_of_entry_set split: option.splits)

definition with_sources :: "session_event \<Rightarrow> json" where
  "with_sources e = (case se_sources e of None \<Rightarrow> event_value e
     | Some xs \<Rightarrow> json_set (event_value e) ''sourceEventSeqs'' (encode_source_event_seqs xs))"

lemma record_value_event:
  "2 \<le> version \<Longrightarrow> record_value version (StoreEvent e)
     = (if 3 \<le> version then renamed_surface (with_sources e) else with_sources e)"
  by (simp add: record_value_def with_sources_def split: option.splits)

lemma with_sources_fields:
  assumes "event_ok e"
  obtains es where "with_sources e = JObj es"
    "map_of es ''seq'' = Some (jcount (se_seq e))" "map_of es ''time'' = Some (JInt (se_time e))"
    "map_of es ''surfaceOp'' = map_option surface_value (se_surface_op e)"
    "map_of es ''sourceEventSeqs'' = map_option encode_source_event_seqs (se_sources e)"
proof -
  obtain es where es: "event_value e = JObj es" by (simp add: event_value_def)
  note fields = event_value_fields[OF assms, unfolded es, simplified]
  show ?thesis
    by (rule that[of "(case se_sources e of None \<Rightarrow> es | Some xs \<Rightarrow> entry_set ''sourceEventSeqs'' (encode_source_event_seqs xs) es)"])
      (simp_all add: with_sources_def es fields map_of_entry_set split: option.splits)
qed

lemma sources_restored:
  assumes "event_ok e"
  shows "(case json_get (with_sources e) ''sourceEventSeqs'' of None \<Rightarrow> Inr (with_sources e)
    | Some encoded \<Rightarrow> rbind (decode_source_event_seqs encoded (se_seq e)) (\<lambda>decoded.
        Inr (json_set (with_sources e) ''sourceEventSeqs'' (JArr (map jcount decoded))))) = Inr (event_value e)"
proof (cases "se_sources e")
  case None
  then have "json_get (event_value e) ''sourceEventSeqs'' = None" using event_value_fields(4)[OF assms] by simp
  with None show ?thesis by (simp add: with_sources_def)
next
  case (Some xs)
  obtain es where es: "event_value e = JObj es" by (simp add: event_value_def)
  have "map_of es ''sourceEventSeqs'' = Some (JArr (map jcount xs))"
    using event_value_fields(4)[OF assms] Some by (simp add: es)
  moreover have "decode_source_event_seqs (encode_source_event_seqs xs) (se_seq e) = Inr xs"
    using assms Some by (intro decode_encode_seqs) (auto simp: event_ok_def list_all_iff)
  ultimately show ?thesis by (simp add: with_sources_def Some es map_of_entry_set)
qed

lemma event_record_plain:
  assumes "event_ok e" "version \<in> {2, 3, 4}"
  shows "decode_record_value err legacy (record_value version (StoreEvent e)) version = Inr [e]"
proof -
  obtain es where es: "with_sources e = JObj es" and f: "map_of es ''seq'' = Some (jcount (se_seq e))"
      "map_of es ''time'' = Some (JInt (se_time e))" "map_of es ''surfaceOp'' = map_option surface_value (se_surface_op e)"
    using with_sources_fields[OF assms(1)] by metis
  define w where "w = record_value version (StoreEvent e)"
  have w: "w = (if 3 \<le> version then renamed_surface (JObj es) else JObj es)"
    using assms(2) by (auto simp: w_def record_value_event es)
  have g: "Option.bind (json_get w ''seq'') safe_count = Some (se_seq e)" "json_get w ''time'' = Some (JInt (se_time e))"
    using f assms(1) by (simp_all add: w event_ok_def)
  have t: "safe_time (JInt (se_time e))"
    using assms(1) as_i64_JInt_safe[of "se_time e"] by (simp add: event_ok_def safe_time_def)
  have c: "(if 3 \<le> version then canonicalize_replacement_keys w (se_seq e) s else Inr w) = Inr (with_sources e)" for s
    using canonical_renamed[of es "se_surface_op e"] f(3) by (simp add: w es)
  have n: "version \<noteq> 0" using assms(2) by auto
  show ?thesis
    using assms(2) n unfolding w_def[symmetric] decode_record_value_def Let_def
    by (simp only: g c t n ok_or_def ensure_simps option.case rbind_simps sources_restored[OF assms(1)]
      event_of_value_plain[OF assms(1)] if_False not_True_eq_False simp_thms if_True)
qed

text \<open>C36: an entry written in a released generation is read back from its record as it was.\<close>

theorem event_record_roundtrip:
  "event_ok e \<Longrightarrow> version \<in> {2, 3, 4} \<Longrightarrow>
    decode_record_value err legacy (record_value version (StoreEvent e)) version = Inr [e]"
  by (rule event_record_plain)

definition demo_entry :: session_event where
  "demo_entry = (event_new ''user/message'' 7 12 (JObj []))\<lparr>se_surface_op := Some (OpReplace 1 3),
     se_sources := Some [1, 2, 3], se_extra := [(''note'', JNull)]\<rparr>"

lemma demo_entry_ok: "event_ok demo_entry"
  by (simp add: event_ok_def demo_entry_def event_new_def event_keys_def max_safe_def)

lemma event_record_roundtrip_witness:
  "decode_record_value (\<lambda>_. []) id (record_value 4 (StoreEvent demo_entry)) 4 = Inr [demo_entry]"
  by (rule event_record_roundtrip[OF demo_entry_ok]) simp

interpretation record_codec: codec "\<lambda>e. event_ok e \<and> version \<in> {2, 3, 4}" "\<lambda>e. record_value version (StoreEvent e)"
    "\<lambda>v. case decode_record_value err legacy v version of Inr [e] \<Rightarrow> Some e | _ \<Rightarrow> None" for version err legacy
  by unfold_locales (simp add: event_record_plain)

section \<open>Logs that were cut\<close>

definition ended_lines :: "string list \<Rightarrow> string" where
  "ended_lines ls = concat (map (\<lambda>l. l @ [lf]) ls)"

lemma ended_simps [simp]: "ended_lines [] = []" "ended_lines (l # ls) = l @ lf # ended_lines ls" "ended_lines (ls @ ms) = ended_lines ls @ ended_lines ms"
  by (simp_all add: ended_lines_def)

lemma join_ended: "ls \<noteq> [] \<Longrightarrow> join_with [lf] ls @ [lf] = ended_lines ls"
  by (induction "[lf]" ls rule: join_with.induct) simp_all

lemma split_ended: "\<forall>l\<in>set ls. lf \<notin> set l \<Longrightarrow> lf \<notin> set s \<Longrightarrow> split_on lf (ended_lines ls @ s) = ls @ [s]"
  by (induction ls) (simp_all add: split_on_free_eq split_on_append)

definition event_line :: "(json \<Rightarrow> string) \<Rightarrow> nat \<Rightarrow> session_event \<Rightarrow> string" where
  "event_line print version e = print (record_value version (StoreEvent e))"

text \<open>The entries whose lines lie within the first bytes, and what a cut there leaves.\<close>

fun entries_within :: "(json \<Rightarrow> string) \<Rightarrow> nat \<Rightarrow> nat \<Rightarrow> session_event list \<Rightarrow> session_event list" where
  "entries_within print version k [] = []"
| "entries_within print version k (e # es) =
     (if length (event_line print version e) < k
      then e # entries_within print version (k - length (event_line print version e) - 1) es else [])"

lemma cut_entries:
  "\<forall>e\<in>set es. lf \<notin> set (event_line print version e) \<Longrightarrow>
    \<exists>s. take k (ended_lines (map (event_line print version) es))
        = ended_lines (map (event_line print version) (entries_within print version k es)) @ s \<and> lf \<notin> set s"
proof (induction print version k es rule: entries_within.induct)
  case (2 print version k e es)
  let ?l = "event_line print version e"
  show ?case
  proof (cases "length ?l < k")
    case True
    then obtain s where "take (k - length ?l - 1) (ended_lines (map (event_line print version) es))
        = ended_lines (map (event_line print version) (entries_within print version (k - length ?l - 1) es)) @ s" "lf \<notin> set s"
      using 2 by (metis list.set_intros(2))
    with True show ?thesis by (intro exI[of _ s]) (simp add: take_Cons')
  next
    case False
    then show ?thesis using 2(2) by (intro exI[of _ "take k ?l"]) (auto dest: in_set_takeD)
  qed
qed simp

lemma entries_within_prefix: "\<exists>n. entries_within print version k es = take n es"
proof (induction print version k es rule: entries_within.induct)
  case (2 print version k e es)
  have "\<exists>n'. e # take n es = take n' (e # es)" for n by (rule exI[of _ "Suc n"]) simp
  with 2 show ?case by (auto intro: exI[of _ 0])
qed simp

lemma entries_within_all: "length (ended_lines (map (event_line print version) es)) \<le> k \<Longrightarrow> entries_within print version k es = es"
  by (induction print version k es rule: entries_within.induct) auto

definition log_text :: "(json \<Rightarrow> string) \<Rightarrow> session_header \<Rightarrow> session_event list \<Rightarrow> string" where
  "log_text print h es = ended_lines (print (the (header_value h)) # map (event_line print (sh_version h)) es)"

lemma event_lines_ended:
  "version \<noteq> 0 \<Longrightarrow> es \<noteq> [] \<Longrightarrow> event_lines print es pack version @ [lf] = ended_lines (map (event_line print version) es)"
  by (simp add: event_lines_def join_ended event_line_def[abs_def] comp_def)

lemma append_batch_ended: "es \<noteq> [] \<Longrightarrow> append_batch_bytes print es pack = ended_lines (map (event_line print 4) es)"
  by (simp add: append_batch_bytes_def event_lines_ended)

text \<open>What the program relies on of the JSON library: a value that was printed is one line
  and is parsed as it was.\<close>

definition reads_back :: "scan_env \<Rightarrow> (json \<Rightarrow> string) \<Rightarrow> json list \<Rightarrow> bool" where
  "reads_back S print js \<longleftrightarrow> (\<forall>j\<in>set js. sn_parse S (print j) = Some j \<and> lf \<notin> set (print j))"

definition log_ok :: "session_event list \<Rightarrow> bool" where
  "log_ok es \<longleftrightarrow> list_all event_ok es \<and> map se_seq es = [0..<length es]"

lemma log_ok_take: "log_ok es \<Longrightarrow> log_ok (take n es)"
  by (auto simp: log_ok_def list_all_iff take_map[symmetric] take_upt min_def dest: in_set_takeD)

lemma log_ok_nth: "log_ok es \<Longrightarrow> i < length es \<Longrightarrow> se_seq (es ! i) = i"
  by (metis log_ok_def nth_map nth_upt length_map add_0 length_upt diff_zero)

lemma scan_lines_events:
  assumes "version \<in> {2, 3, 4}" "reads_back S print (map (\<lambda>e. record_value version (StoreEvent e)) es)" "log_ok (evs @ es)"
  shows "scan_lines S version n (map (event_line print version) es) evs c None
    = Inr (evs @ es, c + length (ended_lines (map (event_line print version) es)))"
  using assms(2-)
proof (induction es arbitrary: evs n c)
  case (Cons e es)
  have ok: "event_ok e" and seq: "se_seq e = length evs"
    using Cons.prems(2) log_ok_nth[OF Cons.prems(2), of "length evs"] by (simp_all add: log_ok_def nth_append)
  have "sn_parse S (event_line print version e) = Some (record_value version (StoreEvent e))"
    using Cons.prems(1) by (simp add: reads_back_def event_line_def)
  moreover have "decode_record_value err legacy (record_value version (StoreEvent e)) version = Inr [e]" for err legacy
    using event_record_plain[OF ok assms(1)] .
  moreover have "reads_back S print (map (\<lambda>e. record_value version (StoreEvent e)) es)" "log_ok ((evs @ [e]) @ es)"
    using Cons.prems by (simp_all add: reads_back_def)
  ultimately show ?case using Cons.IH[of "evs @ [e]"] seq by (simp add: ac_simps)
qed simp

text \<open>The scan of a log text that was cut at or after the end of its header.\<close>

lemma scan_cut_log:
  assumes h: "header_ok h" "sh_version h = 4" and ok: "log_ok es" and u: "utf8_ok (print (the (header_value h)))"
    and rb: "reads_back S print (the (header_value h) # map (\<lambda>e. record_value 4 (StoreEvent e)) es)"
    and k: "length (log_text print h []) \<le> k"
  defines "kept \<equiv> entries_within print 4 (k - length (log_text print h [])) es"
  shows "scan_raw S utf8_ok (take k (log_text print h es))
    = Inr \<lparr>ls_header = h, ls_events = kept, ls_committed = length (log_text print h kept)\<rparr>"
proof -
  obtain hv where hv: "header_value h = Some hv" "\<And>err. header_of_value err hv = Inr (Some h)"
    using header_roundtrip[OF h(1)] by (metis option.inject)
  let ?H = "print hv" and ?line = "event_line print 4"
  have lines: "\<forall>e\<in>set es. lf \<notin> set (?line e)" and H: "lf \<notin> set ?H" "sn_parse S ?H = Some hv"
    using rb hv(1) by (auto simp: reads_back_def event_line_def)
  obtain s where s: "take (k - length (log_text print h [])) (ended_lines (map ?line es)) = ended_lines (map ?line kept) @ s" "lf \<notin> set s"
    using cut_entries[OF lines] unfolding kept_def by blast
  have cut: "take k (log_text print h es) = ?H @ lf # ended_lines (map ?line kept) @ s"
    using k s(1) by (simp add: log_text_def hv(1) h(2) take_Cons')
  obtain n where n: "kept = take n es" using entries_within_prefix unfolding kept_def by blast
  have "\<forall>l\<in>set (map ?line kept). lf \<notin> set l" using lines by (auto simp: n dest: in_set_takeD)
  then have split: "split_on lf (take k (log_text print h es)) = ?H # map ?line kept @ [s]"
    using H(1) s(2) by (simp add: cut split_on_append split_ended)
  have "scan_lines S 4 0 (map ?line kept) [] (length ?H + 1) None = Inr (kept, length (log_text print h kept))"
    using scan_lines_events[of 4 S print kept "[]" 0 "length ?H + 1"] rb ok log_ok_take[OF ok, of n]
    by (auto simp: n reads_back_def log_text_def hv(1) h(2) dest: in_set_takeD)
  then show ?thesis using split H(2) hv u h(2)
    by (simp add: scan_raw_def header_of_line_def)
qed

lemma entries_within_cut: "entries_within print version k es = within_cut (\<lambda>e. event_line print version e @ [lf]) k es"
  by (induction print version k es rule: entries_within.induct) auto

text \<open>The plain log behind its header as a framed log.\<close>

definition plain_log_good :: "scan_env \<Rightarrow> (string \<Rightarrow> bool) \<Rightarrow> (json \<Rightarrow> string) \<Rightarrow> session_header \<Rightarrow> session_event list \<Rightarrow> bool" where
  "plain_log_good S utf8_ok print h es \<longleftrightarrow> header_ok h \<and> sh_version h = 4 \<and> log_ok es \<and> utf8_ok (print (the (header_value h)))
     \<and> reads_back S print (the (header_value h) # map (\<lambda>e. record_value 4 (StoreEvent e)) es)"

definition plain_log_found :: "scan_env \<Rightarrow> (string \<Rightarrow> bool) \<Rightarrow> (json \<Rightarrow> string) \<Rightarrow> session_header \<Rightarrow> string \<Rightarrow> session_event list option" where
  "plain_log_found S utf8_ok print h body =
     (case scan_raw S utf8_ok (log_text print h [] @ body) of Inl e \<Rightarrow> None | Inr scan \<Rightarrow> Some (ls_events scan))"

interpretation plain_log: framed_log "\<lambda>e. event_line print 4 e @ [lf]" "plain_log_good S utf8_ok print h" "plain_log_found S utf8_ok print h"
  for S utf8_ok print h
proof
  fix es k fs
  let ?head = "log_text print h []" and ?body = "concat (map (\<lambda>e. event_line print 4 e @ [lf]) es)"
  assume good: "plain_log_good S utf8_ok print h es" and found: "plain_log_found S utf8_ok print h (take k ?body) = Some fs"
  have cut: "?head @ take k ?body = take (length ?head + k) (log_text print h es)"
    using good by (simp add: plain_log_good_def log_text_def ended_lines_def comp_def)
  from found show "fs = within_cut (\<lambda>e. event_line print 4 e @ [lf]) k es"
    using good unfolding plain_log_found_def cut
    by (simp add: scan_cut_log plain_log_good_def entries_within_cut split: sum.splits)
qed

lemma batches_text:
  assumes "sh_version h = 4" "first \<noteq> []" "[] \<notin> set batches" "materialized_bytes print h first pack = Some m"
  shows "m @ concat (map (\<lambda>b. append_batch_bytes print b pack) batches) = log_text print h (first @ concat batches)"
proof -
  have "concat (map (\<lambda>b. append_batch_bytes print b pack) batches) = ended_lines (map (event_line print 4) (concat batches))"
    using assms(3) by (induction batches) (auto simp: append_batch_ended)
  then show ?thesis using assms
    by (auto simp: materialized_bytes_def log_text_def event_lines_ended[of 4 first, simplified])
qed

text \<open>a log that was written in batches and then cut anywhere after its header line is scanned
  to exactly the entries whose lines are complete, and the committed length is that of their lines:
  a crash during an append loses no earlier entry and invents none.\<close>

theorem log_crash_prefix:
  assumes "header_ok h" "sh_version h = 4" "first \<noteq> []" "[] \<notin> set batches"
    and "log_ok (first @ concat batches)" "materialized_bytes print h first pack = Some m"
    and "reads_back S print (the (header_value h) # map (\<lambda>e. record_value 4 (StoreEvent e)) (first @ concat batches))"
    and "utf8_ok (print (the (header_value h)))" "length (log_text print h []) \<le> k"
  shows "scan_raw S utf8_ok (take k (m @ concat (map (\<lambda>b. append_batch_bytes print b pack) batches)))
    = (let kept = entries_within print 4 (k - length (log_text print h [])) (first @ concat batches) in
       Inr \<lparr>ls_header = h, ls_events = kept, ls_committed = length (log_text print h kept)\<rparr>)"
  using scan_cut_log[where print = print and utf8_ok = utf8_ok, OF assms(1,2,5,8,7,9)]
  by (simp add: batches_text[OF assms(2,3,4,6)] Let_def)

definition demo_header :: session_header where
  "demo_header = header_new ''s'' None 0"

definition demo_log :: "session_event list" where
  "demo_log = [event_new ''turn/start'' 0 5 (JObj []), event_new ''turn/end'' 1 6 (JObj [])]"

text \<open>A printer and a parser of the three values of this log.\<close>

definition demo_print :: "json \<Rightarrow> string" where
  "demo_print j = (case json_get j ''seq'' of None \<Rightarrow> ''H'' | Some n \<Rightarrow> if n = jcount 0 then ''ab'' else ''cd'')"

definition demo_scan :: scan_env where
  "demo_scan = \<lparr>sn_parse = (\<lambda>s. if s = ''H'' then header_value demo_header
      else if s = ''ab'' then Some (record_value 4 (StoreEvent (demo_log ! 0)))
      else if s = ''cd'' then Some (record_value 4 (StoreEvent (demo_log ! 1))) else None),
     sn_err = (\<lambda>_. ''bad''), sn_legacy = id\<rparr>"

lemmas demo_defs = demo_header_def header_new_def header_value_def demo_log_def event_new_def demo_print_def
  demo_scan_def event_line_def record_value_def event_value_def

lemma demo_values:
  "header_ok demo_header" "sh_version demo_header = 4" "log_ok demo_log"
  "reads_back demo_scan demo_print (the (header_value demo_header) # map (\<lambda>e. record_value 4 (StoreEvent e)) demo_log)"
  "demo_print (the (header_value demo_header)) = ''H''"
  "event_line demo_print 4 (demo_log ! 0) = ''ab''" "event_line demo_print 4 (demo_log ! 1) = ''cd''"
  by (simp_all add: header_ok_def log_ok_def event_ok_def demo_defs max_safe_def reads_back_def jcount_def opt_entry_def
    renamed_surface_def)

lemma log_crash_prefix_witness:
  "scan_raw demo_scan (\<lambda>_. True) (take 7 (the (materialized_bytes demo_print demo_header [demo_log ! 0] True)
      @ append_batch_bytes demo_print [demo_log ! 1] True))
    = Inr \<lparr>ls_header = demo_header, ls_events = [demo_log ! 0], ls_committed = 5\<rparr>"
proof -
  have log: "[demo_log ! 0] @ concat [[demo_log ! 1]] = demo_log" by (simp add: demo_log_def)
  have m: "materialized_bytes demo_print demo_header [demo_log ! 0] True
      = Some (the (materialized_bytes demo_print demo_header [demo_log ! 0] True))"
    by (simp add: materialized_bytes_def demo_header_def header_new_def header_value_def)
  have lt: "log_text demo_print demo_header es = ended_lines (''H'' # map (event_line demo_print 4) es)" for es
    by (simp add: log_text_def demo_values(2,5))
  have kept: "entries_within demo_print 4 5 demo_log = [demo_log ! 0]"
    using demo_values(6,7) by (simp add: demo_log_def)
  show ?thesis
    using log_crash_prefix[of demo_header "[demo_log ! 0]" "[[demo_log ! 1]]" demo_print True _ demo_scan "\<lambda>_. True" 7, OF demo_values(1,2) _ _ _ m]
    unfolding log using demo_values(3,4,6) by (simp add: lt kept)
qed

section \<open>What the code does not keep\<close>

text \<open>Streams of reasoning and of text are packed into one row, of the kind of the first.\<close>

lemma mixed_deltas_merge:
  "pack_chunk_runs (map (\<lambda>(i, d). event_new ''assistant/chunk'' i 0 (assistant_chunk 1 1 d))
      [(0, reasoning_delta 0 ''a''), (1, reasoning_delta 0 ''b''), (2, text_delta 0 ''c'')])
    = [StoreRow (RowReasoning 0 0 \<lparr>xr_turn = 1, xr_step = 1, xr_index = 0, xr_dt = [0, 0],
        xr_texts = [''a'', ''b'', ''c'']\<rparr>)]"
  by (simp add: pack_chunk_runs_def event_new_def assistant_chunk_def reasoning_delta_def text_delta_def classify_def
    continues_def flush_run_def build_row_def text_delta_kind_def Let_def)

text \<open>A stored row of reasoning is refused by its own decoder.\<close>

lemma reasoning_rows_rejected:
  "row_of_value (storage_record_value (StoreRow (RowReasoning s t d))) = Some (RowReasoning s t d) \<Longrightarrow>
    decode_storage_record err (storage_record_value (StoreRow (RowReasoning s t d)))
      = Inl ''malformed reasoning-chunks storage row: wrong data shape''"
  by (simp add: decode_storage_record_def row_json_def)

text \<open>A line out of sequence is dropped, but its bytes count as committed.\<close>

lemma gap_line_committed:
  assumes "sn_parse S line = Some v" "decode_record_value (sn_err S) (sn_legacy S) v version = Inr [e]"
    "se_seq e \<noteq> length events"
  shows "scan_lines S version n [line] events committed None = Inr (events, committed + length line + 1)"
  using assms by simp

end
