(* ===== verification/AssistantStream.thy ===== *)
theory AssistantStream
  imports SessionEvent
begin

text \<open>
  The compact stream that an assistant message carries (\<open>session/assistant_stream.rs\<close>): the
  accumulator that packs timed chunks into records, the reader that expands the records, and
  the validator that only gives the verdict of the reader. Times are \<open>i64\<close> and indexes
  \<open>u64\<close>, with their bounds written out.
\<close>

section \<open>Records\<close>

datatype stream_record =
    TextChunks int nat "int list" "string list"
  | ReasoningChunks int nat "int list" "string list"
  | ToolCallChunks int nat string "string option" "int list" "string list"
  | RawChunk int json

type_synonym timed_chunk = "int \<times> json"

fun member_time :: "int \<Rightarrow> int list \<Rightarrow> int option" where
  "member_time t [] = Some t"
| "member_time t (d # ds) = (if in_i64 (t + d) then member_time (t + d) ds else None)"

text \<open>The gap to the next member of a run, when both times are representable.\<close>

definition next_gap :: "int \<Rightarrow> int list \<Rightarrow> int \<Rightarrow> int option" where
  "next_gap time0 dt time = (case member_time time0 dt of
     None \<Rightarrow> None | Some previous \<Rightarrow> if in_i64 (time - previous) then Some (time - previous) else None)"

section \<open>The accumulator\<close>

definition push_text :: "stream_record list \<Rightarrow> int \<Rightarrow> nat \<Rightarrow> string \<Rightarrow> stream_record list" where
  "push_text rs time index text =
     (let fresh = rs @ [TextChunks time index [] [text]] in
      if rs = [] then fresh
      else case last rs of
          TextChunks t0 i dt texts \<Rightarrow>
            if i = index then (case next_gap t0 dt time of
                Some gap \<Rightarrow> butlast rs @ [TextChunks t0 i (dt @ [gap]) (texts @ [text])]
              | None \<Rightarrow> fresh)
            else fresh
        | _ \<Rightarrow> fresh)"

definition push_reasoning :: "stream_record list \<Rightarrow> int \<Rightarrow> nat \<Rightarrow> string \<Rightarrow> stream_record list" where
  "push_reasoning rs time index text =
     (let fresh = rs @ [ReasoningChunks time index [] [text]] in
      if rs = [] then fresh
      else case last rs of
          ReasoningChunks t0 i dt texts \<Rightarrow>
            if i = index then (case next_gap t0 dt time of
                Some gap \<Rightarrow> butlast rs @ [ReasoningChunks t0 i (dt @ [gap]) (texts @ [text])]
              | None \<Rightarrow> fresh)
            else fresh
        | _ \<Rightarrow> fresh)"

definition push_tool ::
  "stream_record list \<Rightarrow> int \<Rightarrow> nat \<Rightarrow> string \<Rightarrow> string option \<Rightarrow> string \<Rightarrow> stream_record list" where
  "push_tool rs time index i name args =
     (let fresh = rs @ [ToolCallChunks time index i name [] [args]] in
      if rs = [] then fresh
      else case last rs of
          ToolCallChunks t0 index' i' name' dt argss \<Rightarrow>
            if index' = index \<and> i' = i \<and> name' = name then (case next_gap t0 dt time of
                Some gap \<Rightarrow> butlast rs @ [ToolCallChunks t0 index' i' name' (dt @ [gap]) (argss @ [args])]
              | None \<Rightarrow> fresh)
            else fresh
        | _ \<Rightarrow> fresh)"

definition stream_push :: "stream_record list \<Rightarrow> int \<Rightarrow> json \<Rightarrow> stream_record list" where
  "stream_push rs time chunk =
     (let raw = rs @ [RawChunk time chunk];
          text = Option.bind (json_get chunk ''text'') as_str in
      case (Option.bind (json_get chunk ''type'') as_str, Option.bind (json_get chunk ''index'') as_nat64) of
        (Some kind, Some index) \<Rightarrow>
          if kind = ''text-delta'' then
            (case text of None \<Rightarrow> raw | Some t \<Rightarrow> push_text rs time index t)
          else if kind = ''reasoning-delta'' then
            (case text of None \<Rightarrow> raw | Some t \<Rightarrow> push_reasoning rs time index t)
          else if kind = ''tool-call-delta'' then
            (let i = Option.bind (json_get chunk ''id'') as_str;
                 args = Option.bind (json_get chunk ''argumentsDelta'') as_str;
                 name = Option.bind (json_get chunk ''name'') as_str in
             case (i, args) of
               (Some i, Some args) \<Rightarrow>
                 if i = [] \<or> (json_get chunk ''name'' \<noteq> None \<and> (name = None \<or> name = Some [])) then raw
                 else push_tool rs time index i name args
             | _ \<Rightarrow> raw)
          else raw
      | _ \<Rightarrow> raw)"

definition stream_pushes :: "timed_chunk list \<Rightarrow> stream_record list" where
  "stream_pushes cs = foldl (\<lambda>rs (time, chunk). stream_push rs time chunk) [] cs"

definition run_entry :: "string \<Rightarrow> int \<Rightarrow> nat \<Rightarrow> (string \<times> json) list \<Rightarrow> json" where
  "run_entry kind time0 index rest =
     JObj ([(''type'', JStr kind), (''time0'', JInt time0), (''index'', jcount index)] @ rest)"

fun stream_record_value :: "stream_record \<Rightarrow> json" where
  "stream_record_value (TextChunks t i dt texts) =
     run_entry ''text-chunks'' t i [(''dt'', JArr (map JInt dt)), (''texts'', JArr (map JStr texts))]"
| "stream_record_value (ReasoningChunks t i dt texts) =
     run_entry ''reasoning-chunks'' t i [(''dt'', JArr (map JInt dt)), (''texts'', JArr (map JStr texts))]"
| "stream_record_value (ToolCallChunks t i c name dt args) =
     run_entry ''tool-call-chunks'' t i ([(''id'', JStr c)] @ opt_entry ''name'' (map_option JStr name)
       @ [(''dt'', JArr (map JInt dt)), (''args'', JArr (map JStr args))])"
| "stream_record_value (RawChunk t c) = JObj [(''type'', JStr ''chunk''), (''time'', JInt t), (''chunk'', c)]"

definition take_value :: "stream_record list \<Rightarrow> json" where
  "take_value rs = JArr (map stream_record_value rs)"

section \<open>The reader\<close>

fun collect :: "('e + 'a) list \<Rightarrow> 'e + 'a list" where
  "collect [] = Inr []"
| "collect (x # xs) = rbind x (\<lambda>y. rbind (collect xs) (\<lambda>ys. Inr (y # ys)))"

definition safe_i64 :: "int \<Rightarrow> string \<Rightarrow> string + int" where
  "safe_i64 n label =
     (if \<not> (- int max_safe \<le> n \<and> n \<le> int max_safe) then Inl (label @ '' must be a safe integer'') else Inr n)"

definition signed_integer :: "json option \<Rightarrow> string \<Rightarrow> string + int" where
  "signed_integer v label =
     rbind (ok_or (Option.bind v as_i64) (label @ '' must be a safe integer'')) (\<lambda>n. safe_i64 n label)"

definition stream_count :: "json option \<Rightarrow> string \<Rightarrow> string + nat" where
  "stream_count v label = ok_or (Option.bind v safe_count) (label @ '' must be a non-negative safe integer'')"

definition integer_array :: "json option \<Rightarrow> string \<Rightarrow> string + int list" where
  "integer_array v label =
     rbind (ok_or (Option.bind v as_array) (label @ '' must be an integer array'')) (\<lambda>xs.
     collect (map (\<lambda>x. signed_integer (Some x) label) xs))"

definition string_array :: "json option \<Rightarrow> string \<Rightarrow> string + string list" where
  "string_array v label =
     rbind (ok_or (Option.bind v as_array) (label @ '' must be a string array'')) (\<lambda>xs.
     collect (map (\<lambda>x. ok_or (as_str x) (label @ '' must be a string array'')) xs))"

definition non_empty_string :: "json option \<Rightarrow> string \<Rightarrow> string + string" where
  "non_empty_string v label =
     ok_or (case Option.bind v as_str of Some s \<Rightarrow> if s = [] then None else Some s | None \<Rightarrow> None)
       (label @ '' must be a non-empty string'')"

definition stream_keys :: "(string \<times> json) list \<Rightarrow> string list \<Rightarrow> string \<Rightarrow> string + unit" where
  "stream_keys es ks label = ensure (exact_keys es ks)
     (label @ '' Assistant stream record must contain exactly '' @ join_with '', '' ks)"

definition validate_run :: "int list \<Rightarrow> nat \<Rightarrow> int \<Rightarrow> string \<Rightarrow> string + unit" where
  "validate_run dt members time0 label =
     (if members = 0 then Inl (label @ '' members must be non-empty'')
      else if length dt + 1 \<noteq> members then Inl (label @ '' dt length must be one less than members'')
      else rbind (ok_or (member_time time0 dt) (label @ '' member times overflow'')) (\<lambda>final.
           rbind (safe_i64 final (label @ '' member time'')) (\<lambda>_. Inr ())))"

text \<open>The members of a run with their times; every sum is checked.\<close>

fun timed_members :: "(string \<Rightarrow> json) \<Rightarrow> string \<Rightarrow> int \<Rightarrow> int list \<Rightarrow> string list \<Rightarrow> string + timed_chunk list" where
  "timed_members f label time dt [] = Inr []"
| "timed_members f label time dt [x] = Inr [(time, f x)]"
| "timed_members f label time dt (x # y # xs) =
     rbind (case dt of [] \<Rightarrow> Inl (label @ '' member times overflow'')
         | d # ds \<Rightarrow> if in_i64 (time + d) then Inr (time + d, ds) else Inl (label @ '' member times overflow''))
       (\<lambda>(time', dt'). rbind (timed_members f label time' dt' (y # xs)) (\<lambda>cs. Inr ((time, f x) # cs)))"

definition delta_chunk :: "string \<Rightarrow> nat \<Rightarrow> string \<Rightarrow> json" where
  "delta_chunk kind index text = JObj [(''type'', JStr kind), (''index'', jcount index), (''text'', JStr text)]"

definition call_chunk :: "nat \<Rightarrow> string \<Rightarrow> string option \<Rightarrow> string \<Rightarrow> json" where
  "call_chunk index i name args = JObj ([(''type'', JStr ''tool-call-delta''), (''index'', jcount index),
     (''id'', JStr i), (''argumentsDelta'', JStr args)] @ opt_entry ''name'' (map_option JStr name))"

definition call_keys :: "(string \<times> json) list \<Rightarrow> string list" where
  "call_keys es = (if map_of es ''name'' \<noteq> None then [''type'', ''time0'', ''index'', ''dt'', ''id'', ''name'', ''args'']
     else [''type'', ''time0'', ''index'', ''dt'', ''id'', ''args''])"

definition expand_record :: "json \<Rightarrow> string + timed_chunk list" where
  "expand_record candidate =
     rbind (ok_or (as_object candidate) ''Assistant stream record must be an object'') (\<lambda>es.
     rbind (ok_or (Option.bind (map_of es ''type'') as_str) ''Assistant stream record lacks type'') (\<lambda>kind.
     if kind = ''text-chunks'' \<or> kind = ''reasoning-chunks'' then
       rbind (stream_keys es [''type'', ''time0'', ''index'', ''dt'', ''texts''] kind) (\<lambda>_.
       rbind (signed_integer (map_of es ''time0'') ''time0'') (\<lambda>time0.
       rbind (stream_count (map_of es ''index'') ''index'') (\<lambda>index.
       rbind (integer_array (map_of es ''dt'') ''dt'') (\<lambda>dt.
       rbind (string_array (map_of es ''texts'') ''texts'') (\<lambda>texts.
       rbind (validate_run dt (length texts) time0 kind) (\<lambda>_.
       timed_members (delta_chunk (if kind = ''text-chunks'' then ''text-delta'' else ''reasoning-delta'') index)
         kind time0 dt texts))))))
     else if kind = ''tool-call-chunks'' then
       rbind (stream_keys es (call_keys es) kind) (\<lambda>_.
       rbind (signed_integer (map_of es ''time0'') ''time0'') (\<lambda>time0.
       rbind (stream_count (map_of es ''index'') ''index'') (\<lambda>index.
       rbind (integer_array (map_of es ''dt'') ''dt'') (\<lambda>dt.
       rbind (string_array (map_of es ''args'') ''args'') (\<lambda>args.
       rbind (non_empty_string (map_of es ''id'') ''id'') (\<lambda>i.
       rbind (case map_of es ''name'' of None \<Rightarrow> Inr None
           | Some v \<Rightarrow> rbind (non_empty_string (Some v) ''name'') (\<lambda>n. Inr (Some n))) (\<lambda>name.
       rbind (validate_run dt (length args) time0 kind) (\<lambda>_.
       timed_members (call_chunk index i name) kind time0 dt args))))))))
     else if kind = ''chunk'' then
       rbind (stream_keys es [''type'', ''time'', ''chunk''] kind) (\<lambda>_.
       rbind (signed_integer (map_of es ''time'') ''time'') (\<lambda>time.
       rbind (ok_or (case map_of es ''chunk'' of Some (JObj c) \<Rightarrow> Some (JObj c) | _ \<Rightarrow> None)
         ''raw chunk must be an object'') (\<lambda>chunk.
       Inr [(time, chunk)])))
     else Inl (''unsupported Assistant stream record `'' @ kind @ ''`'')))"

definition expand_assistant_stream :: "json \<Rightarrow> string + timed_chunk list" where
  "expand_assistant_stream v =
     rbind (ok_or (as_array v) ''stream must be an array'') (\<lambda>records.
     rbind (collect (map expand_record records)) (\<lambda>css. Inr (concat css)))"

section \<open>The validator\<close>

definition integer_values :: "json option \<Rightarrow> string \<Rightarrow> string + json list" where
  "integer_values v label =
     rbind (ok_or (Option.bind v as_array) (label @ '' must be an integer array'')) (\<lambda>xs.
     rbind (for_each (\<lambda>x. rbind (signed_integer (Some x) label) (\<lambda>_. Inr ())) xs) (\<lambda>_. Inr xs))"

definition string_values :: "json option \<Rightarrow> string \<Rightarrow> string + json list" where
  "string_values v label =
     rbind (ok_or (Option.bind v as_array) (label @ '' must be a string array'')) (\<lambda>xs.
     if list_ex (\<lambda>x. as_str x = None) xs then Inl (label @ '' must be a string array'') else Inr xs)"

text \<open>\<open>try_fold\<close> over the borrowed values; a value that is no integer is a panic (\<open>None\<close>).\<close>

fun borrowed_time :: "int \<Rightarrow> json list \<Rightarrow> int option option" where
  "borrowed_time t [] = Some (Some t)"
| "borrowed_time t (x # xs) = (case as_i64 x of None \<Rightarrow> None
     | Some d \<Rightarrow> if in_i64 (t + d) then borrowed_time (t + d) xs else Some None)"

definition validate_borrowed_run :: "json list \<Rightarrow> nat \<Rightarrow> int \<Rightarrow> string \<Rightarrow> (string + unit) option" where
  "validate_borrowed_run dt members time0 label =
     (if members = 0 then Some (Inl (label @ '' members must be non-empty''))
      else if length dt + 1 \<noteq> members then Some (Inl (label @ '' dt length must be one less than members''))
      else map_option (\<lambda>final. rbind (ok_or final (label @ '' member times overflow'')) (\<lambda>t.
           rbind (safe_i64 t (label @ '' member time'')) (\<lambda>_. Inr ()))) (borrowed_time time0 dt))"

text \<open>The outcome of a record; \<open>None\<close> is the panic of the borrowed run.\<close>

definition checked :: "string + 'a \<Rightarrow> ('a \<Rightarrow> (string + unit) option) \<Rightarrow> (string + unit) option" where
  "checked r f = (case r of Inl e \<Rightarrow> Some (Inl e) | Inr x \<Rightarrow> f x)"

definition validate_stream_record :: "json \<Rightarrow> (string + unit) option" where
  "validate_stream_record candidate =
     checked (ok_or (as_object candidate) ''Assistant stream record must be an object'') (\<lambda>es.
     checked (ok_or (Option.bind (map_of es ''type'') as_str) ''Assistant stream record lacks type'') (\<lambda>kind.
     if kind = ''text-chunks'' \<or> kind = ''reasoning-chunks'' then
       checked (stream_keys es [''type'', ''time0'', ''index'', ''dt'', ''texts''] kind) (\<lambda>_.
       checked (signed_integer (map_of es ''time0'') ''time0'') (\<lambda>time0.
       checked (stream_count (map_of es ''index'') ''index'') (\<lambda>_.
       checked (integer_values (map_of es ''dt'') ''dt'') (\<lambda>dt.
       checked (string_values (map_of es ''texts'') ''texts'') (\<lambda>texts.
       validate_borrowed_run dt (length texts) time0 kind)))))
     else if kind = ''tool-call-chunks'' then
       checked (stream_keys es (call_keys es) kind) (\<lambda>_.
       checked (signed_integer (map_of es ''time0'') ''time0'') (\<lambda>time0.
       checked (stream_count (map_of es ''index'') ''index'') (\<lambda>_.
       checked (non_empty_string (map_of es ''id'') ''id'') (\<lambda>_.
       checked (if map_of es ''name'' \<noteq> None then non_empty_string (map_of es ''name'') ''name'' else Inr []) (\<lambda>_.
       checked (integer_values (map_of es ''dt'') ''dt'') (\<lambda>dt.
       checked (string_values (map_of es ''args'') ''args'') (\<lambda>args.
       validate_borrowed_run dt (length args) time0 kind)))))))
     else if kind = ''chunk'' then
       checked (stream_keys es [''type'', ''time'', ''chunk''] kind) (\<lambda>_.
       checked (signed_integer (map_of es ''time'') ''time'') (\<lambda>_.
       if \<not> (case map_of es ''chunk'' of Some (JObj _) \<Rightarrow> True | _ \<Rightarrow> False)
       then Some (Inl ''raw chunk must be an object'') else Some (Inr ())))
     else Some (Inl (''unsupported Assistant stream record `'' @ kind @ ''`''))))"

fun validate_records :: "json list \<Rightarrow> (string + unit) option" where
  "validate_records [] = Some (Inr ())"
| "validate_records (r # rs) = (case validate_stream_record r of
     Some (Inr _) \<Rightarrow> validate_records rs | other \<Rightarrow> other)"

definition validate_assistant_stream :: "json \<Rightarrow> (string + unit) option" where
  "validate_assistant_stream v = checked (ok_or (as_array v) ''stream must be an array'') validate_records"

end
