(* ===== verification/AssistantStreamProps.thy ===== *)
theory AssistantStreamProps
  imports AssistantStream SessionLog "HOL-Library.Multiset"
begin

text \<open>
  The validator of an embedded stream gives the verdict of the reader, and the reader returns
  the timed chunks that were accumulated.
\<close>

section \<open>The verdict of the validator\<close>

lemma checked_ok [simp]: "checked r f = Some (Inr u) \<longleftrightarrow> (\<exists>x. r = Inr x \<and> f x = Some (Inr ()))"
  by (cases r) (auto simp: checked_def)

lemma checked_total: "(\<And>x. r = Inr x \<Longrightarrow> f x \<noteq> None) \<Longrightarrow> checked r f \<noteq> None"
  by (cases r) (auto simp: checked_def)

lemma if_total: "(b \<Longrightarrow> x \<noteq> None) \<Longrightarrow> (\<not> b \<Longrightarrow> y \<noteq> None) \<Longrightarrow> (if b then x else y) \<noteq> None"
  by simp

lemma collect_Inr: "collect rs = Inr xs \<longleftrightarrow> rs = map Inr xs"
  by (induction rs arbitrary: xs) (auto simp: Cons_eq_map_conv)

lemma signed_integer_Some: "signed_integer (Some x) label = Inr n \<Longrightarrow> as_i64 x = Some n"
  by (auto simp: signed_integer_def safe_i64_def split: if_splits)

lemma integer_array_values:
  "integer_array v label = Inr ns \<Longrightarrow> \<exists>xs. integer_values v label = Inr xs \<and> map as_i64 xs = map Some ns"
proof -
  assume "integer_array v label = Inr ns"
  then obtain xs where xs: "Option.bind v as_array = Some xs" "map (\<lambda>x. signed_integer (Some x) label) xs = map Inr ns"
    by (auto simp: integer_array_def collect_Inr)
  then have "\<forall>x\<in>set xs. \<exists>n. signed_integer (Some x) label = Inr n" by (metis in_set_conv_nth length_map nth_map)
  then have "integer_values v label = Inr xs" using xs(1) by (auto simp: integer_values_def)
  moreover have "map as_i64 xs = map Some ns" using xs(2)
    by (auto simp: list_eq_iff_nth_eq signed_integer_Some)
  ultimately show ?thesis by blast
qed

lemma integer_values_array:
  "integer_values v label = Inr xs \<Longrightarrow> \<exists>ns. integer_array v label = Inr ns \<and> map as_i64 xs = map Some ns"
proof -
  assume "integer_values v label = Inr xs"
  then have xs: "Option.bind v as_array = Some xs" "\<forall>x\<in>set xs. \<exists>n. signed_integer (Some x) label = Inr n"
    by (auto simp: integer_values_def)
  then obtain g where g: "\<forall>x\<in>set xs. signed_integer (Some x) label = Inr (g x)" by metis
  then have "collect (map (\<lambda>x. signed_integer (Some x) label) xs) = Inr (map g xs)" by (simp add: collect_Inr)
  moreover have "map as_i64 xs = map Some (map g xs)" using g by (auto simp: signed_integer_Some)
  ultimately show ?thesis using xs(1) unfolding integer_array_def by (metis ok_or_simps(2) rbind_simps(2))
qed

lemma strings_read: "map (\<lambda>x. ok_or (as_str x) e) xs = map Inr ss \<longleftrightarrow> map as_str xs = map Some ss"
  by (induction xs arbitrary: ss) (auto simp: Cons_eq_map_conv)

lemma strings_all: "map as_str xs = map Some ss \<Longrightarrow> \<not> list_ex (\<lambda>x. as_str x = None) xs"
  by (induction xs arbitrary: ss) (auto simp: Cons_eq_map_conv)

lemma string_array_values:
  "string_array v label = Inr ss \<longleftrightarrow> (\<exists>xs. string_values v label = Inr xs \<and> map as_str xs = map Some ss)"
  using strings_all by (auto simp: string_array_def string_values_def collect_Inr strings_read simp del: as_str_JStr)

lemma string_values_array:
  "string_values v label = Inr xs \<Longrightarrow> \<exists>ss. string_array v label = Inr ss \<and> length ss = length xs"
proof -
  assume a: "string_values v label = Inr xs"
  then have "\<forall>x\<in>set xs. as_str x \<noteq> None" by (auto simp: string_values_def list_ex_iff split: if_splits)
  then have "map as_str xs = map Some (map (the \<circ> as_str) xs)" by (simp add: comp_def)
  with a show ?thesis unfolding string_array_values by (metis length_map)
qed

lemma borrowed_member_time: "map as_i64 xs = map Some ns \<Longrightarrow> borrowed_time t xs = Some (member_time t ns)"
  by (induction xs arbitrary: ns t) (auto simp: Cons_eq_map_conv)

lemma borrowed_run:
  "map as_i64 xs = map Some ns \<Longrightarrow> validate_borrowed_run xs m t label = Some (validate_run ns m t label)"
  using map_eq_imp_length_eq[of as_i64 xs Some ns]
  by (simp add: validate_borrowed_run_def validate_run_def borrowed_member_time)

lemma timed_members_ok:
  "member_time t dt \<noteq> None \<Longrightarrow> length dt + 1 = length xs \<Longrightarrow> \<exists>cs. timed_members f label t dt xs = Inr cs"
proof (induction f label t dt xs rule: timed_members.induct)
  case (3 f label time dt x y xs)
  then obtain d ds where "dt = d # ds" by (cases dt) auto
  with 3 show ?case by (auto split: if_splits)
qed simp_all

lemma validate_run_ok:
  "validate_run dt m t label = Inr u \<longleftrightarrow> m \<noteq> 0 \<and> length dt + 1 = m \<and>
    (\<exists>final. member_time t dt = Some final \<and> - int max_safe \<le> final \<and> final \<le> int max_safe)"
  by (auto simp: validate_run_def safe_i64_def split: if_splits)

lemma run_members_ok: "validate_run dt (length xs) t label = Inr u \<Longrightarrow> \<exists>cs. timed_members f label t dt xs = Inr cs"
  by (rule timed_members_ok) (auto simp: validate_run_ok)

lemma borrowed_run_total: "integer_values v l = Inr dt \<Longrightarrow> validate_borrowed_run dt m t label \<noteq> None"
  using integer_values_array[of v l dt] borrowed_run by (metis option.distinct(1))

lemma record_panic_free: "validate_stream_record r \<noteq> None"
  unfolding validate_stream_record_def
  by (intro checked_total if_total) (assumption | erule borrowed_run_total | rule option.distinct)+

text \<open>A run passes both checks or neither.\<close>

lemma run_verdict:
  "(\<exists>dt texts. integer_values v l = Inr dt \<and> string_values w l' = Inr texts
      \<and> validate_borrowed_run dt (length texts) t label = Some (Inr ()))
    \<longleftrightarrow> (\<exists>dt texts. integer_array v l = Inr dt \<and> string_array w l' = Inr texts
      \<and> (\<exists>u. validate_run dt (length texts) t label = Inr u))" (is "?A \<longleftrightarrow> ?B")
proof
  assume ?A
  then obtain dt texts where a: "integer_values v l = Inr dt" "string_values w l' = Inr texts"
      "validate_borrowed_run dt (length texts) t label = Some (Inr ())" by blast
  obtain ns where ns: "integer_array v l = Inr ns" "map as_i64 dt = map Some ns" using integer_values_array[OF a(1)] by blast
  obtain ss where ss: "string_array w l' = Inr ss" "length ss = length texts" using string_values_array[OF a(2)] by blast
  have "validate_run ns (length ss) t label = Inr ()" using a(3) borrowed_run[OF ns(2)] ss(2) by simp
  with ns ss show ?B by blast
next
  assume ?B
  then obtain ns ss where b: "integer_array v l = Inr ns" "string_array w l' = Inr ss" "validate_run ns (length ss) t label = Inr ()"
    by auto
  obtain dt where dt: "integer_values v l = Inr dt" "map as_i64 dt = map Some ns" using integer_array_values[OF b(1)] by blast
  obtain texts where t: "string_values w l' = Inr texts" "map as_str texts = map Some ss" using b(2) string_array_values by blast
  have "length texts = length ss" using t(2) map_eq_imp_length_eq by blast
  with b(3) borrowed_run[OF dt(2)] dt t show ?A by auto
qed

lemma text_verdict:
  assumes "as_object r = Some es" "Option.bind (map_of es ''type'') as_str = Some kind" "kind = ''text-chunks'' \<or> kind = ''reasoning-chunks''"
  shows "validate_stream_record r = Some (Inr ()) \<longleftrightarrow> (\<exists>cs. expand_record r = Inr cs)"
proof -
  have "validate_stream_record r = Some (Inr ()) \<longleftrightarrow>
     (\<exists>u. stream_keys es [''type'', ''time0'', ''index'', ''dt'', ''texts''] kind = Inr u)
     \<and> (\<exists>time0. signed_integer (map_of es ''time0'') ''time0'' = Inr time0
        \<and> (\<exists>n. stream_count (map_of es ''index'') ''index'' = Inr n)
        \<and> (\<exists>dt texts. integer_values (map_of es ''dt'') ''dt'' = Inr dt \<and> string_values (map_of es ''texts'') ''texts'' = Inr texts
            \<and> validate_borrowed_run dt (length texts) time0 kind = Some (Inr ())))"
    unfolding validate_stream_record_def using assms(3)
    by (simp only: assms(1,2) checked_ok ok_or_simps sum.inject if_True simp_thms) blast
  also have "\<dots> \<longleftrightarrow> (\<exists>cs. expand_record r = Inr cs)"
    unfolding run_verdict expand_record_def using assms(3)
    by (simp only: assms(1,2) rbind_eq_Inr ok_or_simps sum.inject if_True simp_thms) (use run_members_ok in blast)
  finally show ?thesis .
qed

lemma call_shuffle:
  assumes "\<And>n i x d a t u. V d a t u \<Longrightarrow> \<exists>cs. Z n i x d a t cs"
  shows "((\<exists>u. K u) \<and> (\<exists>t. T t \<and> (\<exists>n. N n) \<and> (\<exists>i. I i) \<and> (\<exists>x. M x) \<and> (\<exists>d a. D d \<and> A a \<and> (\<exists>u. V d a t u))))
    = (\<exists>cs u. K u \<and> (\<exists>t. T t \<and> (\<exists>n. N n \<and> (\<exists>d. D d \<and> (\<exists>a. A a \<and> (\<exists>i. I i \<and> (\<exists>x. M x
        \<and> (\<exists>u. V d a t u \<and> Z n i x d a t cs))))))))"
proof
  assume "(\<exists>u. K u) \<and> (\<exists>t. T t \<and> (\<exists>n. N n) \<and> (\<exists>i. I i) \<and> (\<exists>x. M x) \<and> (\<exists>d a. D d \<and> A a \<and> (\<exists>u. V d a t u)))"
  then obtain k t n i x d a u where *: "K k" "T t" "N n" "I i" "M x" "D d" "A a" "V d a t u" by (elim exE conjE)
  then obtain cs where "Z n i x d a t cs" using assms by metis
  with * show "\<exists>cs u. K u \<and> (\<exists>t. T t \<and> (\<exists>n. N n \<and> (\<exists>d. D d \<and> (\<exists>a. A a \<and> (\<exists>i. I i \<and> (\<exists>x. M x
        \<and> (\<exists>u. V d a t u \<and> Z n i x d a t cs)))))))" by metis
qed (elim exE conjE, intro conjI exI)

lemma call_verdict:
  assumes "as_object r = Some es" "Option.bind (map_of es ''type'') as_str = Some kind" "kind = ''tool-call-chunks''"
  shows "validate_stream_record r = Some (Inr ()) \<longleftrightarrow> (\<exists>cs. expand_record r = Inr cs)"
proof -
  have k: "(kind = ''text-chunks'' \<or> kind = ''reasoning-chunks'') = False" "(kind = ''tool-call-chunks'') = True"
    using assms(3) by simp_all
  define nm where "nm = (case map_of es ''name'' of None \<Rightarrow> Inr None
           | Some v \<Rightarrow> rbind (non_empty_string (Some v) ''name'') (\<lambda>n. Inr (Some n)))"
  have name: "(\<exists>x. (if map_of es ''name'' \<noteq> None then non_empty_string (map_of es ''name'') ''name'' else Inr []) = Inr x)
      \<longleftrightarrow> (\<exists>x. nm = Inr x)"
    by (cases "map_of es ''name''") (auto simp: nm_def)
  have "validate_stream_record r = Some (Inr ()) \<longleftrightarrow>
     (\<exists>u. stream_keys es (call_keys es) kind = Inr u)
     \<and> (\<exists>time0. signed_integer (map_of es ''time0'') ''time0'' = Inr time0
        \<and> (\<exists>n. stream_count (map_of es ''index'') ''index'' = Inr n)
        \<and> (\<exists>i. non_empty_string (map_of es ''id'') ''id'' = Inr i)
        \<and> (\<exists>x. nm = Inr x)
        \<and> (\<exists>dt args. integer_values (map_of es ''dt'') ''dt'' = Inr dt \<and> string_values (map_of es ''args'') ''args'' = Inr args
            \<and> validate_borrowed_run dt (length args) time0 kind = Some (Inr ())))"
    unfolding validate_stream_record_def name[symmetric]
    by (simp only: assms(1,2) k checked_ok ok_or_simps sum.inject if_True if_False simp_thms) blast
  also have "\<dots> \<longleftrightarrow> (\<exists>cs. expand_record r = Inr cs)"
    unfolding run_verdict expand_record_def
    by (simp only: assms(1,2) k nm_def[symmetric] rbind_eq_Inr ok_or_simps sum.inject if_True if_False simp_thms) (rule call_shuffle, rule run_members_ok)
  finally show ?thesis .
qed

lemma record_verdict: "validate_stream_record r = Some (Inr ()) \<longleftrightarrow> (\<exists>cs. expand_record r = Inr cs)"
proof (cases "as_object r")
  case es: (Some es)
  show ?thesis
  proof (cases "Option.bind (map_of es ''type'') as_str")
    case kind: (Some kind)
    consider "kind = ''text-chunks'' \<or> kind = ''reasoning-chunks''" | "kind = ''tool-call-chunks''" | "kind = ''chunk''"
      | "kind \<notin> {''text-chunks'', ''reasoning-chunks'', ''tool-call-chunks'', ''chunk''}" by blast
    then show ?thesis
    proof cases
      case 3
      then have k: "(kind = ''text-chunks'' \<or> kind = ''reasoning-chunks'') = False"
        "(kind = ''tool-call-chunks'') = False" "(kind = ''chunk'') = True" by simp_all
      have c: "(case map_of es ''chunk'' of Some (JObj _) \<Rightarrow> True | _ \<Rightarrow> False)
          \<longleftrightarrow> (\<exists>c. ok_or (case map_of es ''chunk'' of Some (JObj c) \<Rightarrow> Some (JObj c) | _ \<Rightarrow> None) e = Inr c)" for e :: string
        by (simp split: option.split json.split)
      show ?thesis unfolding validate_stream_record_def expand_record_def
        by (simp only: es kind k checked_ok rbind_eq_Inr ok_or_simps sum.inject if_True if_False simp_thms
            if_split_eq1 option.inject option.distinct sum.distinct c[of "''raw chunk must be an object''"]) blast
    next
      case 4
      then have k: "(kind = ''text-chunks'' \<or> kind = ''reasoning-chunks'') = False"
        "(kind = ''tool-call-chunks'') = False" "(kind = ''chunk'') = False" by simp_all
      show ?thesis unfolding validate_stream_record_def expand_record_def
        by (simp only: es kind k checked_ok rbind_eq_Inr ok_or_simps sum.inject if_False simp_thms
            option.inject sum.distinct)
    qed (use text_verdict[OF es kind] call_verdict[OF es kind] in blast)+
  qed (simp add: validate_stream_record_def expand_record_def es del: as_object_Some)
qed (simp add: validate_stream_record_def expand_record_def)

lemma records_verdict: "validate_records rs = Some (Inr ()) \<longleftrightarrow> (\<exists>css. collect (map expand_record rs) = Inr css)"
proof (induction rs)
  case (Cons r rs)
  then show ?case using record_verdict[of r] record_panic_free[of r]
    by (cases "validate_stream_record r"; cases "expand_record r") (auto split: sum.splits)
qed simp

lemma records_panic_free: "validate_records rs \<noteq> None"
  using record_panic_free by (induction rs) (auto split: option.splits sum.splits)

text \<open>C37: the validator of an embedded stream never panics and accepts exactly the streams that
  the reader expands.\<close>

theorem stream_validator_exact:
  "validate_assistant_stream v \<noteq> None
   \<and> (validate_assistant_stream v = Some (Inr ()) \<longleftrightarrow> is_ok (expand_assistant_stream v))"
proof (cases "as_array v")
  case (Some rs)
  then show ?thesis using records_panic_free[of rs] records_verdict[of rs]
    by (cases "collect (map expand_record rs)")
      (auto simp: validate_assistant_stream_def expand_assistant_stream_def checked_def)
qed (simp add: validate_assistant_stream_def expand_assistant_stream_def checked_def)

section \<open>What was accumulated is read back\<close>

fun times_of :: "int \<Rightarrow> int list \<Rightarrow> int list" where
  "times_of t [] = [t]"
| "times_of t (d # ds) = t # times_of (t + d) ds"

fun record_chunks :: "stream_record \<Rightarrow> timed_chunk list" where
  "record_chunks (TextChunks t i dt xs) = zip (times_of t dt) (map (delta_chunk ''text-delta'' i) xs)"
| "record_chunks (ReasoningChunks t i dt xs) = zip (times_of t dt) (map (delta_chunk ''reasoning-delta'' i) xs)"
| "record_chunks (ToolCallChunks t i c n dt xs) = zip (times_of t dt) (map (call_chunk i c n) xs)"
| "record_chunks (RawChunk t c) = [(t, c)]"

definition safe_time_value :: "int \<Rightarrow> bool" where
  "safe_time_value t \<longleftrightarrow> 0 \<le> t \<and> t \<le> int max_safe"

definition run_ok :: "int \<Rightarrow> nat \<Rightarrow> int list \<Rightarrow> string list \<Rightarrow> bool" where
  "run_ok t i dt xs \<longleftrightarrow> i \<le> max_safe \<and> length xs = length dt + 1 \<and> list_all safe_time_value (times_of t dt)"

fun record_ok :: "stream_record \<Rightarrow> bool" where
  "record_ok (TextChunks t i dt xs) = run_ok t i dt xs"
| "record_ok (ReasoningChunks t i dt xs) = run_ok t i dt xs"
| "record_ok (ToolCallChunks t i c n dt xs) = (run_ok t i dt xs \<and> c \<noteq> [] \<and> n \<noteq> Some [])"
| "record_ok (RawChunk t c) = (safe_time_value t \<and> (\<exists>es. c = JObj es))"

lemma safe_in_i64: "safe_time_value t \<Longrightarrow> in_i64 t"
  by (simp add: safe_time_value_def max_safe_def in_i64_def i64_min_def i64_max_def)

lemma gap_in_i64: "safe_time_value t \<Longrightarrow> safe_time_value t' \<Longrightarrow> in_i64 (t' - t)"
  by (simp add: safe_time_value_def max_safe_def in_i64_def i64_min_def i64_max_def)

lemma times_of_nonempty [simp]: "times_of t dt \<noteq> []"
  by (cases dt) simp_all

lemma first_time_safe: "list_all safe_time_value (times_of t dt) \<Longrightarrow> safe_time_value t"
  by (cases dt) simp_all

lemma member_time_last: "list_all safe_time_value (times_of t dt) \<Longrightarrow> member_time t dt = Some (last (times_of t dt))"
proof (induction t dt rule: times_of.induct)
  case (2 t d ds)
  then have "safe_time_value (t + d)" using first_time_safe[of "t + d" ds] by simp
  with 2 show ?case by (simp add: safe_in_i64)
qed simp

lemma times_snoc: "times_of t (dt @ [d]) = times_of t dt @ [last (times_of t dt) + d]"
proof (induction t dt rule: times_of.induct)
  case (2 t d ds)
  then show ?case by simp
qed simp

lemma length_times [simp]: "length (times_of t dt) = length dt + 1"
  by (induction t dt rule: times_of.induct) simp_all

lemma last_time_safe: "list_all safe_time_value (times_of t dt) \<Longrightarrow> safe_time_value (last (times_of t dt))"
  by (auto simp: list_all_iff)

lemma next_gap_safe:
  "list_all safe_time_value (times_of t dt) \<Longrightarrow> safe_time_value t' \<Longrightarrow> next_gap t dt t' = Some (t' - last (times_of t dt))"
  by (simp add: next_gap_def member_time_last gap_in_i64 last_time_safe)

lemma run_ok_snoc:
  "run_ok t i dt xs \<Longrightarrow> safe_time_value t' \<Longrightarrow> run_ok t i (dt @ [t' - last (times_of t dt)]) (xs @ [x])"
  by (simp add: run_ok_def times_snoc)

lemma gaps_safe: "list_all safe_time_value (times_of t dt) \<Longrightarrow> d \<in> set dt \<Longrightarrow> - int max_safe \<le> d \<and> d \<le> int max_safe"
proof (induction t dt rule: times_of.induct)
  case (2 t d' ds)
  have "safe_time_value t" "safe_time_value (t + d')"
    using 2(2) first_time_safe[of "t + d'" ds] by simp_all
  with 2 show ?case by (auto simp: safe_time_value_def)
qed simp

subsection \<open>Reading a record\<close>

lemma as_i64_safe: "- int max_safe \<le> n \<Longrightarrow> n \<le> int max_safe \<Longrightarrow> as_i64 (JInt n) = Some n"
  by (simp add: max_safe_def in_i64_def i64_min_def i64_max_def)

lemma signed_integer_safe: "- int max_safe \<le> n \<Longrightarrow> n \<le> int max_safe \<Longrightarrow> signed_integer (Some (JInt n)) l = Inr n"
  by (simp add: signed_integer_def as_i64_safe safe_i64_def del: as_i64.simps)

lemma integer_array_safe:
  "list_all safe_time_value (times_of t dt) \<Longrightarrow> integer_array (Some (JArr (map JInt dt))) l = Inr dt"
  using gaps_safe by (auto simp: integer_array_def collect_Inr signed_integer_safe)

lemma string_array_strings [simp]: "string_array (Some (JArr (map JStr xs))) l = Inr xs"
  by (simp add: string_array_def collect_Inr comp_def)

lemma stream_count_safe: "n \<le> max_safe \<Longrightarrow> stream_count (Some (jcount n)) l = Inr n"
  by (simp add: stream_count_def safe_count_def max_safe_def)

lemma run_ok_validate: "run_ok t i dt xs \<Longrightarrow> validate_run dt (length xs) t l = Inr ()"
  using last_time_safe[of t dt] by (auto simp: run_ok_def validate_run_ok member_time_last safe_time_value_def)

lemma timed_members_zip:
  "list_all safe_time_value (times_of t dt) \<Longrightarrow> length xs = length dt + 1 \<Longrightarrow>
    timed_members f l t dt xs = Inr (zip (times_of t dt) (map f xs))"
proof (induction f l t dt xs rule: timed_members.induct)
  case (3 f l t dt x y xs)
  then obtain d ds where dt: "dt = d # ds" by (cases dt) auto
  have "safe_time_value (t + d)" using 3(2) first_time_safe[of "t + d" ds] dt by simp
  with 3 dt show ?case by (simp add: safe_in_i64)
qed (auto simp: length_Suc_conv)

lemma run_first_time: "run_ok t i dt xs \<Longrightarrow> signed_integer (Some (JInt t)) l = Inr t"
  using first_time_safe[of t dt] by (intro signed_integer_safe) (auto simp: run_ok_def safe_time_value_def)

lemma run_reads:
  assumes "run_ok t i dt xs"
  shows "signed_integer (Some (JInt t)) l = Inr t" "stream_count (Some (jcount i)) l = Inr i"
    "integer_array (Some (JArr (map JInt dt))) l = Inr dt" "validate_run dt (length xs) t l = Inr ()"
    "timed_members f l t dt xs = Inr (zip (times_of t dt) (map f xs))"
  using assms run_first_time run_ok_validate
  by (auto simp: run_ok_def stream_count_safe integer_array_safe timed_members_zip)

lemma expand_record_ok: "record_ok r \<Longrightarrow> expand_record (stream_record_value r) = Inr (record_chunks r)"
proof (cases r)
  case (ToolCallChunks t i c n dt xs)
  assume "record_ok r"
  with ToolCallChunks show ?thesis
    by (cases n) (auto simp: expand_record_def run_entry_def run_reads stream_keys_def exact_keys_def call_keys_def
      non_empty_string_def opt_entry_def)
next
  case (RawChunk t c)
  assume "record_ok r"
  with RawChunk show ?thesis
    by (auto simp: expand_record_def stream_keys_def exact_keys_def safe_time_value_def signed_integer_safe)
qed (auto simp: expand_record_def run_entry_def run_reads stream_keys_def exact_keys_def)

lemma expand_records_ok:
  "list_all record_ok rs \<Longrightarrow> expand_assistant_stream (take_value rs) = Inr (concat (map record_chunks rs))"
  by (auto simp: expand_assistant_stream_def take_value_def collect_Inr list_all_iff expand_record_ok
    intro!: exI[of _ "map record_chunks rs"])

subsection \<open>Accumulating\<close>

text \<open>The chunks a provider stream is recorded as: the three deltas, and any other object.\<close>

definition stream_chunk :: "json \<Rightarrow> bool" where
  "stream_chunk c \<longleftrightarrow>
     (\<exists>i x. i \<le> max_safe \<and> (c = text_delta i x \<or> c = reasoning_delta i x))
     \<or> (\<exists>i call name args. i \<le> max_safe \<and> call \<noteq> [] \<and> name \<noteq> Some [] \<and> c = tool_call_delta i call name args)
     \<or> (\<exists>es. c = JObj es \<and> Option.bind (map_of es ''type'') as_str
          \<notin> {Some ''text-delta'', Some ''reasoning-delta'', Some ''tool-call-delta''})"

lemma stream_chunk_deltas:
  "i \<le> max_safe \<Longrightarrow> stream_chunk (text_delta i x)" "i \<le> max_safe \<Longrightarrow> stream_chunk (reasoning_delta i x)"
  "i \<le> max_safe \<Longrightarrow> call \<noteq> [] \<Longrightarrow> name \<noteq> Some [] \<Longrightarrow> stream_chunk (tool_call_delta i call name args)"
  unfolding stream_chunk_def by blast+

text \<open>Objects are equal when they have the same entries, in any order.\<close>

fun same_object :: "json \<Rightarrow> json \<Rightarrow> bool" where
  "same_object (JObj es) (JObj es') = (mset es = mset es')"
| "same_object c c' = (c = c')"

definition same_timed :: "timed_chunk \<Rightarrow> timed_chunk \<Rightarrow> bool" where
  "same_timed a b \<longleftrightarrow> fst a = fst b \<and> same_object (snd a) (snd b)"

lemma call_chunk_same: "same_object (tool_call_delta i call name args) (call_chunk i call name args)"
  by (simp add: tool_call_delta_def call_chunk_def)

lemma same_object_refl [simp]: "same_object c c"
  by (cases c) simp_all

text \<open>A push adds one chunk at the end of what the records stand for.\<close>

definition adds :: "stream_record list \<Rightarrow> stream_record list \<Rightarrow> timed_chunk \<Rightarrow> bool" where
  "adds rs rs' c \<longleftrightarrow> list_all record_ok rs' \<and> concat (map record_chunks rs') = concat (map record_chunks rs) @ [c]"

lemma adds_new: "list_all record_ok rs \<Longrightarrow> record_ok r \<Longrightarrow> record_chunks r = [c] \<Longrightarrow> adds rs (rs @ [r]) c"
  by (simp add: adds_def)

lemma adds_last:
  "list_all record_ok rs \<Longrightarrow> rs \<noteq> [] \<Longrightarrow> record_ok r \<Longrightarrow> record_chunks r = record_chunks (last rs) @ [c] \<Longrightarrow>
    adds rs (butlast rs @ [r]) c"
  by (cases rs rule: rev_cases) (simp_all add: adds_def)

lemma run_ok_new: "safe_time_value t \<Longrightarrow> i \<le> max_safe \<Longrightarrow> run_ok t i [] [x]"
  by (simp add: run_ok_def)

lemma zip_snoc:
  "run_ok t i dt xs \<Longrightarrow> zip (times_of t (dt @ [t' - last (times_of t dt)])) (map f (xs @ [x]))
    = zip (times_of t dt) (map f xs) @ [(t', f x)]"
  by (simp add: run_ok_def times_snoc)

lemma last_record_ok: "list_all record_ok rs \<Longrightarrow> rs \<noteq> [] \<Longrightarrow> record_ok (last rs)"
  by (simp add: list_all_iff)

lemma push_text_adds:
  assumes "list_all record_ok rs" "safe_time_value t" "i \<le> max_safe"
  shows "adds rs (push_text rs t i x) (t, delta_chunk ''text-delta'' i x)"
proof -
  have new: "adds rs (rs @ [TextChunks t i [] [x]]) (t, delta_chunk ''text-delta'' i x)"
    using assms by (intro adds_new) (simp_all add: run_ok_new)
  show ?thesis
  proof (cases "rs = []")
    case False
    show ?thesis
    proof (cases "last rs")
      case (TextChunks t0 i' dt xs)
      then have r: "run_ok t0 i' dt xs" using last_record_ok[OF assms(1) False] by simp
      then have "next_gap t0 dt t = Some (t - last (times_of t0 dt))"
        using next_gap_safe assms(2) by (simp add: run_ok_def)
      moreover have "adds rs (butlast rs @ [TextChunks t0 i (dt @ [t - last (times_of t0 dt)]) (xs @ [x])])
          (t, delta_chunk ''text-delta'' i x)" if "i' = i"
        using assms False r TextChunks that by (intro adds_last) (simp_all add: run_ok_snoc zip_snoc del: map_append)
      ultimately show ?thesis using new TextChunks False by (simp add: push_text_def Let_def)
    qed (use new False in \<open>simp_all add: push_text_def\<close>)
  qed (use new in \<open>simp add: push_text_def\<close>)
qed

lemma push_reasoning_adds:
  assumes "list_all record_ok rs" "safe_time_value t" "i \<le> max_safe"
  shows "adds rs (push_reasoning rs t i x) (t, delta_chunk ''reasoning-delta'' i x)"
proof -
  have new: "adds rs (rs @ [ReasoningChunks t i [] [x]]) (t, delta_chunk ''reasoning-delta'' i x)"
    using assms by (intro adds_new) (simp_all add: run_ok_new)
  show ?thesis
  proof (cases "rs = []")
    case False
    show ?thesis
    proof (cases "last rs")
      case (ReasoningChunks t0 i' dt xs)
      then have r: "run_ok t0 i' dt xs" using last_record_ok[OF assms(1) False] by simp
      then have "next_gap t0 dt t = Some (t - last (times_of t0 dt))"
        using next_gap_safe assms(2) by (simp add: run_ok_def)
      moreover have "adds rs (butlast rs @ [ReasoningChunks t0 i (dt @ [t - last (times_of t0 dt)]) (xs @ [x])])
          (t, delta_chunk ''reasoning-delta'' i x)" if "i' = i"
        using assms False r ReasoningChunks that by (intro adds_last) (simp_all add: run_ok_snoc zip_snoc del: map_append)
      ultimately show ?thesis using new ReasoningChunks False by (simp add: push_reasoning_def Let_def)
    qed (use new False in \<open>simp_all add: push_reasoning_def\<close>)
  qed (use new in \<open>simp add: push_reasoning_def\<close>)
qed

lemma push_tool_adds:
  assumes "list_all record_ok rs" "safe_time_value t" "i \<le> max_safe" "call \<noteq> []" "name \<noteq> Some []"
  shows "adds rs (push_tool rs t i call name x) (t, call_chunk i call name x)"
proof -
  have new: "adds rs (rs @ [ToolCallChunks t i call name [] [x]]) (t, call_chunk i call name x)"
    using assms by (intro adds_new) (simp_all add: run_ok_new)
  show ?thesis
  proof (cases "rs = []")
    case False
    show ?thesis
    proof (cases "last rs")
      case (ToolCallChunks t0 i' call' name' dt xs)
      then have r: "run_ok t0 i' dt xs" using last_record_ok[OF assms(1) False] by simp
      then have "next_gap t0 dt t = Some (t - last (times_of t0 dt))"
        using next_gap_safe assms(2) by (simp add: run_ok_def)
      moreover have "adds rs (butlast rs @ [ToolCallChunks t0 i call name (dt @ [t - last (times_of t0 dt)]) (xs @ [x])])
          (t, call_chunk i call name x)" if "i' = i" "call' = call" "name' = name"
        using assms False r ToolCallChunks that by (intro adds_last) (simp_all add: run_ok_snoc zip_snoc del: map_append)
      ultimately show ?thesis using new ToolCallChunks False by (simp add: push_tool_def Let_def)
    qed (use new False in \<open>simp_all add: push_tool_def\<close>)
  qed (use new in \<open>simp add: push_tool_def\<close>)
qed

lemma stream_push_adds:
  assumes ok: "list_all record_ok rs" and t: "safe_time_value t" and c: "stream_chunk c"
  shows "\<exists>c'. adds rs (stream_push rs t c) (t, c') \<and> same_object c c'"
proof -
  have small: "n \<le> max_safe \<Longrightarrow> n < 18446744073709551616" for n by (simp add: max_safe_def)
  from c consider i x where "i \<le> max_safe" "c = text_delta i x" | i x where "i \<le> max_safe" "c = reasoning_delta i x"
    | i call name args where "i \<le> max_safe" "call \<noteq> []" "name \<noteq> Some []" "c = tool_call_delta i call name args"
    | es where "c = JObj es" "Option.bind (map_of es ''type'') as_str
          \<notin> {Some ''text-delta'', Some ''reasoning-delta'', Some ''tool-call-delta''}"
    unfolding stream_chunk_def by blast
  then show ?thesis
  proof cases
    case 1
    then have "stream_push rs t c = push_text rs t i x" by (simp add: stream_push_def text_delta_def small)
    moreover have "c = delta_chunk ''text-delta'' i x" using 1 by (simp add: text_delta_def delta_chunk_def)
    ultimately show ?thesis using push_text_adds[OF ok t 1(1)] same_object_refl by metis
  next
    case 2
    then have "stream_push rs t c = push_reasoning rs t i x" by (simp add: stream_push_def reasoning_delta_def small)
    moreover have "c = delta_chunk ''reasoning-delta'' i x" using 2 by (simp add: reasoning_delta_def delta_chunk_def)
    ultimately show ?thesis using push_reasoning_adds[OF ok t 2(1)] same_object_refl by metis
  next
    case 3
    then have "stream_push rs t c = push_tool rs t i call name args"
      by (cases name) (simp_all add: stream_push_def tool_call_delta_def small opt_entry_def)
    then show ?thesis using push_tool_adds[OF ok t 3(1-3)] call_chunk_same 3(4) by metis
  next
    case 4
    then have "stream_push rs t c = rs @ [RawChunk t c]"
      by (auto simp: stream_push_def Let_def split: option.splits)
    moreover have "adds rs (rs @ [RawChunk t c]) (t, c)" using 4 ok t by (intro adds_new) simp_all
    ultimately show ?thesis using same_object_refl by metis
  qed
qed

lemma stream_pushes_ok:
  assumes "\<forall>(t, c)\<in>set cs. safe_time_value t \<and> stream_chunk c"
  shows "list_all record_ok (stream_pushes cs)
    \<and> list_all2 same_timed cs (concat (map record_chunks (stream_pushes cs)))"
  using assms
proof (induction cs rule: rev_induct)
  case (snoc tc cs)
  obtain t c where tc: "tc = (t, c)" by (cases tc)
  have rs: "list_all record_ok (stream_pushes cs)" "list_all2 same_timed cs (concat (map record_chunks (stream_pushes cs)))"
    and c: "safe_time_value t" "stream_chunk c"
    using snoc by (auto simp: tc)
  have push: "stream_pushes (cs @ [tc]) = stream_push (stream_pushes cs) t c" by (simp add: stream_pushes_def tc)
  obtain c' where "adds (stream_pushes cs) (stream_pushes (cs @ [tc])) (t, c')" and "same_object c c'"
    using stream_push_adds[OF rs(1) c] by (auto simp: push)
  moreover have "same_timed (t, c) (t, c')" using \<open>same_object c c'\<close> by (simp add: same_timed_def)
  ultimately show ?case using rs(2) by (simp add: adds_def tc list_all2_appendI)
qed (simp add: stream_pushes_def)

text \<open>C38: the reader returns, boundary by boundary and with its time, every chunk that was pushed
  to the accumulator.\<close>

theorem stream_roundtrip:
  assumes "\<forall>(t, c)\<in>set cs. safe_time_value t \<and> stream_chunk c"
  shows "\<exists>cs'. expand_assistant_stream (take_value (stream_pushes cs)) = Inr cs' \<and> list_all2 same_timed cs cs'"
  using stream_pushes_ok[OF assms] expand_records_ok by blast

lemma stream_roundtrip_witness:
  "\<exists>cs'. expand_assistant_stream (take_value (stream_pushes [(5, text_delta 0 ''a''), (7, text_delta 0 ''b''),
        (7, reasoning_delta 1 ''c''), (9, tool_call_delta 2 ''id'' (Some ''ls'') ''{}''), (9, JObj [(''type'', JStr ''finish'')])])) = Inr cs'
    \<and> list_all2 same_timed [(5, text_delta 0 ''a''), (7, text_delta 0 ''b''),
        (7, reasoning_delta 1 ''c''), (9, tool_call_delta 2 ''id'' (Some ''ls'') ''{}''), (9, JObj [(''type'', JStr ''finish'')])] cs'"
  by (rule stream_roundtrip) (simp add: safe_time_value_def stream_chunk_deltas max_safe_def, simp add: stream_chunk_def)

end
