(* ===== verification/SessionCatalog.thy ===== *)
theory SessionCatalog
  imports AssistantStream GoalState TaskFold
begin

text \<open>
  The vocabulary of the session log (\<open>session/catalog.rs\<close>) with the payload contract of each
  seat (\<open>session/catalog/validation.rs\<close>, \<open>session/catalog/maintenance.rs\<close>, and the records of
  subagents, background jobs and plans they call), and the gate a decoded log has to pass
  (\<open>session/admission.rs\<close>). The table of the source holds function pointers; here a seat holds
  the name of its validator, and \<open>run_validator\<close> is the call. Parameters are the UUID
  parser, SHA-256, the length of a printed value and the text of a \<open>serde\<close> error.
\<close>

section \<open>Environment and readers\<close>

record 'p catalog_env =
  ce_goal :: "'p goal_env"
  ce_task :: task_env
  ce_uuid :: "string \<Rightarrow> bool"
  ce_sha256 :: "string \<Rightarrow> string"
  ce_size :: "json \<Rightarrow> nat"
  ce_err :: "json \<Rightarrow> string"

text \<open>\<open>Value::pointer\<close> with keys of objects only.\<close>

fun pointer :: "json \<Rightarrow> string list \<Rightarrow> json option" where
  "pointer j [] = Some j"
| "pointer j (k # ks) = (case json_get j k of None \<Rightarrow> None | Some v \<Rightarrow> pointer v ks)"

definition str_at :: "json \<Rightarrow> string \<Rightarrow> string option" where
  "str_at j k = Option.bind (json_get j k) as_str"

definition count_at :: "json \<Rightarrow> string \<Rightarrow> nat option" where
  "count_at j k = Option.bind (json_get j k) as_nat64"

definition str_in :: "(string \<times> json) list \<Rightarrow> string \<Rightarrow> string option" where
  "str_in es k = Option.bind (map_of es k) as_str"

definition count_in :: "(string \<times> json) list \<Rightarrow> string \<Rightarrow> nat option" where
  "count_in es k = Option.bind (map_of es k) as_nat64"

definition array_in :: "(string \<times> json) list \<Rightarrow> string \<Rightarrow> json list option" where
  "array_in es k = Option.bind (map_of es k) as_array"

text \<open>\<open>is_none_or(str::is_empty)\<close>\<close>

definition missing_or_empty :: "string option \<Rightarrow> bool" where
  "missing_or_empty s \<longleftrightarrow> s = None \<or> s = Some []"

fun is_number :: "json \<Rightarrow> bool" where
  "is_number (JInt n) = True"
| "is_number (JFloat s) = True"
| "is_number _ = False"

section \<open>The vocabulary\<close>

datatype replay_kind = ReplaySkip | ReplayTurnStart | ReplayUserMessage | ReplayAssistantMessage | ReplayApprovalAsked
  | ReplayApprovalDecided | ReplayToolCall | ReplayToolResult | ReplayRetry | ReplayTurnEnd | ReplayCompaction

datatype job_phase = JobRegistered | JobSettled

datatype validator = VPlanDocument | VTask | VSubagent | VApproval | VAssistantAttempt | VAssistantChunk
  | VAssistantMessage | VCompaction | VPrune | VSummary | VDeveloperMessage | VGoal | VOffload | VJobRegistered
  | VJobSettled | VPlan | VHeader | VSandbox | VTitle | VStep | VDescriptor | VSystemMessage | VTodo | VToolCall
  | VToolResult | VTurn | VUserMessage | VWorkingDirectory

datatype projector = ProjectPrune | ProjectOffload

record event_spec =
  sp_validate :: "validator option"
  sp_surface :: bool
  sp_replay :: replay_kind
  sp_retired :: bool
  sp_step :: bool
  sp_job :: "job_phase option"
  sp_projector :: "projector option"

definition seat :: "validator option \<Rightarrow> bool \<Rightarrow> replay_kind \<Rightarrow> bool \<Rightarrow> event_spec" where
  "seat v s r old = \<lparr>sp_validate = v, sp_surface = s, sp_replay = r, sp_retired = old, sp_step = False, sp_job = None,
     sp_projector = None\<rparr>"

abbreviation envelope_only :: event_spec where
  "envelope_only \<equiv> seat None False ReplaySkip False"

abbreviation checked_by :: "validator \<Rightarrow> event_spec" where
  "checked_by v \<equiv> seat (Some v) False ReplaySkip False"

definition event_seats :: "(string \<times> event_spec) list" where
  "event_seats =
    [(''agent-preset/selected'', envelope_only),
     (''clat/plan/change'', checked_by VPlanDocument),
     (''clat/budget'', envelope_only),
     (''clat/task'', checked_by VTask),
     (''clat/subagent'', checked_by VSubagent),
     (''agent/inbox/spliced'', envelope_only),
     (''approval/asked'', seat (Some VApproval) False ReplayApprovalAsked False),
     (''approval/decided'', seat (Some VApproval) False ReplayApprovalDecided False),
     (''approval/policy'', envelope_only),
     (''assistant/attempt'', checked_by VAssistantAttempt),
     (''assistant/chunk'', seat (Some VAssistantChunk) False ReplaySkip True),
     (''assistant/message'', seat (Some VAssistantMessage) True ReplayAssistantMessage False),
     (''command/done'', envelope_only),
     (''command/run'', envelope_only),
     (''compaction/end'', checked_by VCompaction),
     (''compaction/prune'', (checked_by VPrune)\<lparr>sp_projector := Some ProjectPrune\<rparr>),
     (''compaction/start'', checked_by VCompaction),
     (''compaction/summary'', seat (Some VSummary) False ReplayCompaction False),
     (''deliverables/presented'', envelope_only),
     (''developer/message'', seat (Some VDeveloperMessage) True ReplaySkip False),
     (''feedback/message-delete'', envelope_only),
     (''feedback/message-put'', envelope_only),
     (''feedback/record'', envelope_only),
     (''goal/change'', checked_by VGoal),
     (''hook/invoked'', envelope_only),
     (''hook/result'', envelope_only),
     (''image/offload'', (checked_by VOffload)\<lparr>sp_projector := Some ProjectOffload\<rparr>),
     (''job/registered'', (checked_by VJobRegistered)\<lparr>sp_job := Some JobRegistered\<rparr>),
     (''job/settled'', (checked_by VJobSettled)\<lparr>sp_job := Some JobSettled\<rparr>),
     (''llm/retry'', seat None False ReplayRetry False),
     (''llm/retry-started'', envelope_only),
     (''model/selection'', envelope_only),
     (''permission/preset'', envelope_only),
     (''plan/mode'', checked_by VPlan),
     (''request/context'', envelope_only),
     (''request/header'', checked_by VHeader),
     (''sandbox/mode'', checked_by VSandbox),
     (''schedule/change'', envelope_only),
     (''session-log-deepseek/delivery-accepted'', envelope_only),
     (''session/end-seed'', envelope_only),
     (''session/title'', checked_by VTitle),
     (''session/title-llm-request'', envelope_only),
     (''step/end'', checked_by VStep),
     (''step/start'', (checked_by VStep)\<lparr>sp_step := True\<rparr>),
     (''subagent/catalog'', envelope_only),
     (''subagent/model-selection-policy'', envelope_only),
     (''subagent/descriptor'', checked_by VDescriptor),
     (''system/message'', seat (Some VSystemMessage) True ReplaySkip False),
     (''team/member'', envelope_only),
     (''team/message/delivered'', envelope_only),
     (''team/message/queued'', envelope_only),
     (''team/task'', envelope_only),
     (''todo/write'', checked_by VTodo),
     (''tool-workflow/agent-end'', envelope_only),
     (''tool-workflow/agent-start'', envelope_only),
     (''tool-workflow/run-end'', envelope_only),
     (''tool-workflow/run-start'', envelope_only),
     (''tool/call'', seat (Some VToolCall) False ReplayToolCall False),
     (''tool/code-dispatch'', envelope_only),
     (''tool/code-dispatch-start'', envelope_only),
     (''tool/ptc-dispatch'', envelope_only),
     (''tool/ptc-dispatch-start'', envelope_only),
     (''tool/result'', seat (Some VToolResult) True ReplayToolResult False),
     (''turn/end'', seat (Some VTurn) False ReplayTurnEnd False),
     (''turn/start'', seat (Some VTurn) False ReplayTurnStart False),
     (''user/message'', seat (Some VUserMessage) True ReplayUserMessage False),
     (''web/deepseek-search-llm-request'', envelope_only),
     (''working-directory/change'', checked_by VWorkingDirectory),
     (''workspace/changes'', envelope_only)]"

definition event_spec_of :: "string \<Rightarrow> event_spec option" where
  "event_spec_of ty = map_of event_seats ty"

definition is_surface_type :: "string \<Rightarrow> bool" where
  "is_surface_type ty \<longleftrightarrow> (case event_spec_of ty of None \<Rightarrow> False | Some s \<Rightarrow> sp_surface s)"

definition replay_kind_of :: "string \<Rightarrow> replay_kind" where
  "replay_kind_of ty = (case event_spec_of ty of None \<Rightarrow> ReplaySkip | Some s \<Rightarrow> sp_replay s)"

definition retired_event_types :: "string list" where
  "retired_event_types = [''request/header-delta'', ''mode/set'']"

definition known_from_v3 :: "string list" where
  "known_from_v3 = [''deliverables/presented'', ''subagent/catalog'', ''system/message'', ''tool/ptc-dispatch'',
     ''tool/ptc-dispatch-start'']"

definition known_from_v4 :: "string list" where
  "known_from_v4 = [''developer/message'', ''job/registered'', ''job/settled'', ''working-directory/change'']"

definition retired_by_v3 :: "string list" where
  "retired_by_v3 = [''tool/code-dispatch'', ''tool/code-dispatch-start'']"

datatype admission_refusal = ForeignToGeneration | RetiredByGeneration

definition outside_generation_window :: "string \<Rightarrow> nat \<Rightarrow> admission_refusal option" where
  "outside_generation_window ty version =
     (if version < 3 \<and> ty \<in> set known_from_v3 then Some ForeignToGeneration
      else if version < 4 \<and> ty \<in> set known_from_v4 then Some ForeignToGeneration
      else if 3 \<le> version \<and> ty \<in> set retired_by_v3 then Some RetiredByGeneration
      else None)"

definition is_tool_result_replacement :: "session_event \<Rightarrow> bool" where
  "is_tool_result_replacement e \<longleftrightarrow> (case event_spec_of (se_type e) of None \<Rightarrow> False | Some s \<Rightarrow> sp_replay s = ReplayToolResult)
     \<and> (case se_surface_op e of Some (OpReplace _ _) \<Rightarrow> True | _ \<Rightarrow> False)"

definition is_context_checkpoint :: "session_event \<Rightarrow> bool" where
  "is_context_checkpoint e \<longleftrightarrow> replay_kind_of (se_type e) = ReplayUserMessage
     \<and> Option.bind (pointer (se_data e) [''source'', ''kind'']) as_str = Some ''compact-checkpoint''"

section \<open>Requirements\<close>

definition require_object :: "json \<Rightarrow> string \<Rightarrow> string + (string \<times> json) list" where
  "require_object v k = ok_or (Option.bind (json_get v k) as_object) (''`'' @ k @ ''` must be an object'')"

definition require_u64 :: "json \<Rightarrow> string \<Rightarrow> string + nat" where
  "require_u64 v k = ok_or (count_at v k) (''`'' @ k @ ''` must be a non-negative integer'')"

definition require_str :: "json \<Rightarrow> string \<Rightarrow> string + string" where
  "require_str v k = ok_or (str_at v k) (''`'' @ k @ ''` must be a string'')"

definition require_number :: "json \<Rightarrow> string \<Rightarrow> string + unit" where
  "require_number v k = ensure (case json_get v k of None \<Rightarrow> False | Some n \<Rightarrow> is_number n) (''`'' @ k @ ''` must be a number'')"

definition check_block :: "json \<Rightarrow> string + unit" where
  "check_block block =
     (let kind = str_at block ''type''; image = (kind = Some ''image'') in
      rbind (ensure (kind \<noteq> None) ''content block lacks a type'') (\<lambda>_.
      rbind (ensure (\<not> (image \<and> (missing_or_empty (str_at block ''attachmentId'') \<or> missing_or_empty (str_at block ''mediaType''))))
        ''image content block needs non-empty attachmentId and mediaType'') (\<lambda>_.
      rbind (ensure (\<not> (image \<and> (case json_get block ''attachmentId'' of None \<Rightarrow> False | Some i \<Rightarrow> missing_or_empty (as_str i))))
        ''image attachmentId must be a non-empty string'') (\<lambda>_.
      if image then for_each (\<lambda>field. ensure (case json_get block field of None \<Rightarrow> True | Some n \<Rightarrow> as_nat64 n \<noteq> None)
          (''image '' @ field @ '' must be a non-negative integer''))
        [''width'', ''height'', ''bytes'', ''originalWidth'', ''originalHeight'']
      else Inr ()))))"

definition require_content_array :: "(string \<times> json) list \<Rightarrow> string + json list" where
  "require_content_array es =
     rbind (ok_or (array_in es ''content'') ''content must be an array of blocks'') (\<lambda>content.
     rbind (for_each check_block content) (\<lambda>_. Inr content))"

definition require_content_blocks :: "(string \<times> json) list \<Rightarrow> string + unit" where
  "require_content_blocks es =
     rbind (require_content_array es) (\<lambda>content. ensure (content \<noteq> []) ''content must not be empty'')"

definition require_message :: "json \<Rightarrow> string + (string \<times> json) list" where
  "require_message data =
     rbind (ok_or (as_object data) ''payload must be an object (the message is the payload)'') (\<lambda>es.
     rbind (ensure (str_in es ''role'' \<noteq> None) ''message lacks role'') (\<lambda>_.
     rbind (require_content_blocks es) (\<lambda>_. Inr es)))"

definition has_whitespace :: "string \<Rightarrow> bool" where
  "has_whitespace s \<longleftrightarrow> list_ex (\<lambda>w. contains_sub w s) whitespace"

definition require_admission_metadata :: "json \<Rightarrow> string + unit" where
  "require_admission_metadata data =
     (case as_object data of
        None \<Rightarrow> Inr ()
      | Some es \<Rightarrow> for_each (\<lambda>(field, bound). case map_of es field of
            None \<Rightarrow> Inr ()
          | Some v \<Rightarrow>
              rbind (ok_or (case as_str v of None \<Rightarrow> None
                  | Some t \<Rightarrow> if t \<noteq> [] \<and> length t \<le> bound then Some t else None)
                (field @ '' must be a non-empty string of at most '' @ show_nat bound @ '' bytes'')) (\<lambda>t.
              ensure (\<not> has_whitespace t) (field @ '' must not contain whitespace'')))
          [(''clientMessageId'', 256), (''requestDigest'', 128)])"

definition require_v4_source :: "(string \<times> json) list \<Rightarrow> string + unit" where
  "require_v4_source source = ensure (case str_in source ''kind'' of Some kind \<Rightarrow> kind \<noteq> [] \<and> kind \<noteq> ''plugin'' | None \<Rightarrow> False)
     ''v4 message requires a producer-owned source kind''"

definition check_v4_block :: "bool \<Rightarrow> json \<Rightarrow> string + unit" where
  "check_v4_block developer block =
     (let kind = str_at block ''type'' in
      if kind \<notin> {Some ''tool-addition'', Some ''tool-removal''} then Inr ()
      else if \<not> developer then Inl ''tool-change blocks require developer role''
      else if missing_or_empty (str_at block ''toolName'') then Inl ''tool-change block requires nonempty toolName''
      else if kind = Some ''tool-addition'' \<and> json_get block ''tool'' \<noteq> None
      then Inl ''tool-addition must omit inline tool definition'' else Inr ())"

definition validate_v4_blocks :: "(string \<times> json) list \<Rightarrow> bool \<Rightarrow> string + unit" where
  "validate_v4_blocks message developer =
     rbind (require_content_array message) (\<lambda>blocks. for_each (check_v4_block developer) blocks)"

definition require_surface_op :: "session_event \<Rightarrow> string + unit" where
  "require_surface_op e = ensure (is_surface_type (se_type e) \<and> se_surface_op e \<noteq> None) ''surface event lacks surfaceOp''"

definition has_block :: "string \<Rightarrow> (string \<times> json) list \<Rightarrow> bool" where
  "has_block kind message \<longleftrightarrow> (case array_in message ''content'' of None \<Rightarrow> False
     | Some blocks \<Rightarrow> list_ex (\<lambda>b. str_at b ''type'' = Some kind) blocks)"

section \<open>Payloads of messages\<close>

definition validate_turn :: "session_event \<Rightarrow> string + unit" where
  "validate_turn e = rbind (require_u64 (se_data e) ''turn'') (\<lambda>_. Inr ())"

definition validate_step :: "session_event \<Rightarrow> string + unit" where
  "validate_step e = rbind (require_u64 (se_data e) ''turn'') (\<lambda>_. rbind (require_u64 (se_data e) ''step'') (\<lambda>_. Inr ()))"

definition user_message_payload :: "session_event \<Rightarrow> nat \<Rightarrow> string + unit" where
  "user_message_payload e version =
     rbind (require_message (se_data e)) (\<lambda>message.
     rbind (if 4 \<le> version then
         rbind (ensure (str_in message ''role'' = Some ''user'') ''v4 user/message requires user role'') (\<lambda>_.
         rbind (require_object (se_data e) ''source'') (\<lambda>source.
         rbind (require_v4_source source) (\<lambda>_. validate_v4_blocks message False)))
       else Inr ()) (\<lambda>_.
     rbind (require_admission_metadata (se_data e)) (\<lambda>_. require_surface_op e)))"

definition system_message :: "session_event \<Rightarrow> nat \<Rightarrow> string + unit" where
  "system_message e version =
     rbind (validate_step e) (\<lambda>_.
     rbind (require_object (se_data e) ''message'') (\<lambda>message.
     rbind (ensure (\<not> missing_or_empty (str_in message ''id'')) ''system message requires a non-empty id'') (\<lambda>_.
     rbind (ensure (str_in message ''role'' = Some ''system'') ''system message role must be system'') (\<lambda>_.
     rbind (ok_or (Option.bind (map_of message ''source'') as_object) ''system message source must be an object'') (\<lambda>source.
     rbind (if 4 \<le> version then require_v4_source source
       else ensure (\<not> (str_in source ''kind'' \<noteq> Some ''plugin'' \<or> missing_or_empty (str_in source ''plugin'')))
         ''system message requires a non-empty plugin source'') (\<lambda>_.
     rbind (require_content_array message) (\<lambda>_.
     rbind (if 4 \<le> version then validate_v4_blocks message False else Inr ()) (\<lambda>_.
     require_surface_op e))))))))"

definition positive_field :: "session_event \<Rightarrow> string \<Rightarrow> string + unit" where
  "positive_field e field = rbind (require_u64 (se_data e) field) (\<lambda>n.
     ensure (n \<noteq> 0) (''developer/message '' @ field @ '' must be positive''))"

definition developer_message :: "session_event \<Rightarrow> nat \<Rightarrow> string + unit" where
  "developer_message e version =
     rbind (ensure (4 \<le> version) ''developer/message requires v4'') (\<lambda>_.
     rbind (for_each (positive_field e) [''turn'', ''step'']) (\<lambda>_.
     rbind (require_object (se_data e) ''message'') (\<lambda>message.
     rbind (ensure (str_in message ''role'' = Some ''developer'') ''developer/message requires developer role'') (\<lambda>_.
     rbind (ensure (\<not> missing_or_empty (str_in message ''id'')) ''developer/message requires a non-empty id'') (\<lambda>_.
     rbind (require_object (json_index (se_data e) ''message'') ''source'') (\<lambda>source.
     rbind (require_v4_source source) (\<lambda>_.
     rbind (require_content_array message) (\<lambda>_.
     rbind (validate_v4_blocks message True) (\<lambda>_.
     rbind (ensure (has_block ''tool-addition'' message = (json_get (se_data e) ''headerSeq'' \<noteq> None))
       ''developer/message headerSeq must occur exactly with tool additions'') (\<lambda>_.
     rbind (if has_block ''tool-addition'' message then rbind (require_u64 (se_data e) ''headerSeq'') (\<lambda>_. Inr ()) else Inr ()) (\<lambda>_.
     ensure (se_surface_op e \<noteq> None) ''developer/message lacks surfaceOp'')))))))))))"

text \<open>The verdict on an embedded stream; the panic of its borrowed run does not occur
  (\<open>stream_validator_exact\<close>).\<close>

definition stream_verdict :: "json \<Rightarrow> string + unit" where
  "stream_verdict stream = (case validate_assistant_stream stream of Some r \<Rightarrow> r | None \<Rightarrow> Inl [])"

definition assistant_message :: "session_event \<Rightarrow> nat \<Rightarrow> string + unit" where
  "assistant_message e version =
     rbind (require_object (se_data e) ''message'') (\<lambda>message.
     rbind (require_content_array message) (\<lambda>_.
     rbind (if 4 \<le> version then validate_v4_blocks message False else Inr ()) (\<lambda>_.
     rbind (ok_or (Option.bind (map_of message ''source'') as_object) ''message.source must be an object'') (\<lambda>source.
     rbind (ensure (str_in source ''kind'' = Some ''model'') ''assistant/message source.kind must be model'') (\<lambda>_.
     rbind (validate_step e) (\<lambda>_.
     rbind (if version = 2 then rbind (ok_or (json_get (se_data e) ''stream'') ''assistant/message lacks required v2 stream'') stream_verdict
       else Inr ()) (\<lambda>_.
     ensure (\<not> (3 \<le> version \<and> se_sources e \<noteq> None))
       ''assistant/message embeds its stream and cannot carry sourceEventSeqs'')))))))"

definition assistant_attempt :: "session_event \<Rightarrow> string + unit" where
  "assistant_attempt e =
     rbind (validate_step e) (\<lambda>_.
     rbind (ok_or (json_get (se_data e) ''stream'') ''assistant/attempt lacks stream'') stream_verdict)"

definition v4_tool_result :: "session_event \<Rightarrow> (string \<times> json) list \<Rightarrow> string + unit" where
  "v4_tool_result e message =
     rbind (require_object (json_index (se_data e) ''message'') ''source'') (\<lambda>source.
     rbind (ensure (\<not> (missing_or_empty (str_in message ''id'') \<or> str_in message ''role'' \<noteq> Some ''tool''
         \<or> str_in source ''kind'' \<noteq> Some ''tool'' \<or> missing_or_empty (str_in message ''toolCallId'')
         \<or> map_of message ''toolCallId'' \<noteq> map_of source ''callId''))
       ''v4 tool/result requires a matching first-class tool message'') (\<lambda>_.
     rbind (require_content_array message) (\<lambda>_.
     rbind (validate_v4_blocks message False) (\<lambda>_.
     rbind (ensure (\<not> has_block ''tool-result'' message) ''v4 tool/result rejects a retired wrapper'') (\<lambda>_.
     rbind (ensure (\<not> ((case map_of message ''isError'' of None \<Rightarrow> False | Some v \<Rightarrow> as_bool v = None)
         \<or> (json_get (se_data e) ''error'' \<noteq> None \<and> Option.bind (map_of message ''isError'') as_bool \<noteq> Some True)))
       ''v4 tool/result has contradictory error metadata'') (\<lambda>_.
     validate_step e))))))"

definition tool_result_payload :: "session_event \<Rightarrow> nat \<Rightarrow> string + unit" where
  "tool_result_payload e version =
     rbind (require_object (se_data e) ''message'') (\<lambda>message.
     if 4 \<le> version then v4_tool_result e message
     else
       rbind (ok_or (array_in message ''content'') ''tool/result content must be an array'') (\<lambda>content.
       rbind (ok_or (case content of [] \<Rightarrow> None | b # _ \<Rightarrow> Some b) ''tool/result content must not be empty'') (\<lambda>first.
       rbind (ensure (str_at first ''toolCallId'' \<noteq> None) ''tool/result block lacks toolCallId'') (\<lambda>_.
       rbind (ok_or (as_object first) ''tool/result block must be an object'') (\<lambda>first.
       rbind (require_content_array first) (\<lambda>_.
       rbind (ensure (Option.bind (map_of first ''isError'') as_bool \<noteq> None) ''tool/result block lacks boolean isError'') (\<lambda>_.
       rbind (validate_step e) (\<lambda>_.
       ensure (\<not> (3 \<le> version \<and> json_get (se_data e) ''error'' \<noteq> None
           \<and> (length content \<noteq> 1 \<or> str_in first ''type'' \<noteq> Some ''tool-result''
             \<or> Option.bind (map_of first ''isError'') as_bool \<noteq> Some True)))
         ''tool/result carries error metadata for a non-error result''))))))))"

definition tool_call_payload :: "session_event \<Rightarrow> string + unit" where
  "tool_call_payload e =
     rbind (for_each (\<lambda>field. ensure (as_object (se_data e) \<noteq> None \<and> json_get (se_data e) field \<noteq> None)
         (''tool/call lacks `'' @ field @ ''`'')) [''callId'', ''name'', ''arguments'']) (\<lambda>_.
     validate_step e)"

definition assistant_chunk_payload :: "session_event \<Rightarrow> string + unit" where
  "assistant_chunk_payload e =
     rbind (require_object (se_data e) ''chunk'') (\<lambda>chunk.
     rbind (ensure (str_in chunk ''type'' \<noteq> None) ''chunk lacks a type discriminator'') (\<lambda>_.
     validate_step e))"

section \<open>Other payloads\<close>

definition todo_payload :: "session_event \<Rightarrow> string + unit" where
  "todo_payload e =
     rbind (ok_or (Option.bind (json_get (se_data e) ''todos'') as_array) ''todo/write todos must be an array'') (\<lambda>todos.
     for_each (\<lambda>t. ensure (str_at t ''content'' \<noteq> None \<and> str_at t ''status'' \<noteq> None) ''todo entry lacks content/status'') todos)"

definition compaction_payload :: "session_event \<Rightarrow> string + unit" where
  "compaction_payload e = rbind (require_str (se_data e) ''compactionId'') (\<lambda>_. Inr ())"

definition summary_payload :: "session_event \<Rightarrow> string + unit" where
  "summary_payload e =
     rbind (require_str (se_data e) ''compactionId'') (\<lambda>_.
     rbind (ok_or (Option.bind (json_get (se_data e) ''shadowedRange'') as_object) ''`shadowedRange` must be an object'') (\<lambda>shadowed.
     for_each (\<lambda>field. ensure (count_in shadowed field \<noteq> None)
       (''shadowedRange.'' @ field @ '' must be a non-negative integer'')) [''start'', ''end'']))"

definition title_payload :: "session_event \<Rightarrow> string + unit" where
  "title_payload e = rbind (require_str (se_data e) ''title'') (\<lambda>_. Inr ())"

definition sandbox_payload :: "session_event \<Rightarrow> string + unit" where
  "sandbox_payload e = rbind (require_str (se_data e) ''mode'') (\<lambda>_. Inr ())"

definition working_directory :: "session_event \<Rightarrow> string + unit" where
  "working_directory e = rbind (require_str (se_data e) ''cwd'') (\<lambda>_. Inr ())"

definition max_plan_bytes :: nat where
  "max_plan_bytes = 32768"

definition validate_plan_text :: "string \<Rightarrow> string + unit" where
  "validate_plan_text s = ensure (\<not> (s = [] \<or> max_plan_bytes < length s))
     (''plan text must contain 1..='' @ show_nat max_plan_bytes @ '' UTF-8 bytes'')"

definition plan_payload :: "'p catalog_env \<Rightarrow> session_event \<Rightarrow> string + unit" where
  "plan_payload E e =
     rbind (ok_or (Option.bind (json_get (se_data e) ''active'') as_bool) ''plan/mode active must be a boolean'') (\<lambda>active.
     case json_get (se_data e) ''approved'' of
       None \<Rightarrow> Inr ()
     | Some v \<Rightarrow>
         if active then Inl ''plan/mode approved is valid only when active=false''
         else
           rbind (ok_or (as_object v) ''plan/mode approved must be an object'') (\<lambda>approved.
           rbind (ok_or (str_in approved ''text'') ''plan/mode approved.text must be a string'') (\<lambda>t.
           rbind (validate_plan_text t) (\<lambda>_.
           rbind (ok_or (str_in approved ''digest'') ''plan/mode approved.digest must be a string'') (\<lambda>digest.
           ensure (digest = ce_sha256 E t) ''plan/mode approved.digest does not match approved.text'')))))"

definition approval_payload :: "session_event \<Rightarrow> string + unit" where
  "approval_payload e =
     rbind (require_str (se_data e) ''id'') (\<lambda>_.
     ensure (\<not> (se_type e = ''approval/decided'' \<and> str_at (se_data e) ''outcome''
         \<notin> {Some ''allowed-once'', Some ''rejected'', Some ''cancelled'', Some ''unavailable''}))
       ''approval/decided outcome is not in the vocabulary'')"

definition request_header :: "session_event \<Rightarrow> nat \<Rightarrow> string + unit" where
  "request_header e version =
     rbind (require_object (se_data e) ''header'') (\<lambda>data.
     rbind (ensure (str_at (se_data e) ''reason'' \<in> {Some ''initial'', Some ''resume'', Some ''change'', Some ''series''})
       ''request/header reason is not in the vocabulary'') (\<lambda>_.
     rbind (ensure (\<not> (case json_get (se_data e) ''startsSeries'' of None \<Rightarrow> False | Some v \<Rightarrow> as_bool v \<noteq> Some True))
       ''request/header startsSeries must be true when present'') (\<lambda>_.
     if 3 \<le> version then
       rbind (ensure (map_of data ''system'' = None) ''format v3 request/header rejects retired header.system'') (\<lambda>_.
       rbind (ensure (array_in data ''tools'' \<noteq> Some []) ''format v3 request/header must omit empty header.tools'') (\<lambda>_.
       ensure (Option.bind (map_of data ''adapterDefaults'') as_object \<noteq> Some [])
         ''format v3 request/header must omit empty header.adapterDefaults''))
     else Inr ())))"

subsection \<open>Maintenance\<close>

definition offload_row :: "nat list \<Rightarrow> json \<Rightarrow> string + nat \<times> nat list" where
  "offload_row seen row =
     rbind (ensure (case as_object row of None \<Rightarrow> False | Some es \<Rightarrow> length es = 2) ''image/offload: invalid target'') (\<lambda>_.
     rbind (ok_or (safe_count (json_index row ''seq'')) ''image/offload: invalid seq'') (\<lambda>seq.
     rbind (ensure (seq \<notin> set seen) ''image/offload: duplicate target'') (\<lambda>_.
     rbind (ok_or (case as_array (json_index row ''imageIndexes'') of Some (x # xs) \<Rightarrow> Some (x # xs) | _ \<Rightarrow> None)
       ''image/offload: empty indexes'') (\<lambda>indexes.
     rbind (collect (map (\<lambda>n. ok_or (safe_count n) ''image/offload: invalid index'') indexes)) (\<lambda>indexes.
     rbind (ensure (strictly_increasing indexes) ''image/offload: indexes must increase'') (\<lambda>_.
     Inr (seq, indexes)))))))"

fun offload_rows :: "nat list \<Rightarrow> json list \<Rightarrow> string + (nat \<times> nat list) list" where
  "offload_rows seen [] = Inr []"
| "offload_rows seen (row # rows) =
     rbind (offload_row seen row) (\<lambda>r. rbind (offload_rows (fst r # seen) rows) (\<lambda>rs. Inr (r # rs)))"

definition offload_targets :: "json \<Rightarrow> string + (nat \<times> nat list) list" where
  "offload_targets data =
     rbind (ensure (case as_object data of None \<Rightarrow> False | Some es \<Rightarrow> length es = 1) ''image/offload: expected only targets'') (\<lambda>_.
     rbind (ok_or (case as_array (json_index data ''targets'') of Some (x # xs) \<Rightarrow> Some (x # xs) | _ \<Rightarrow> None)
       ''image/offload: empty targets'') (\<lambda>rows. offload_rows [] rows))"

definition prune_payload :: "session_event \<Rightarrow> string + unit" where
  "prune_payload e =
     (let range = json_index (se_data e) ''shadowedRange'' in
      rbind (ok_or (as_nat64 (json_index range ''start'')) ''prune: missing start'') (\<lambda>start.
      rbind (ok_or (as_nat64 (json_index range ''end'')) ''prune: missing end'') (\<lambda>end'.
      ensure (\<not> (start \<noteq> end' \<or> json_index (se_data e) ''shadowedSeqs'' \<noteq> JArr [jcount start]
          \<or> as_nat64 (json_index (se_data e) ''shadowedTokenCount'') = None)) ''prune: invalid shadow price'')))"

subsection \<open>Background jobs\<close>

record native_record =
  nv_scope :: string
  nv_version :: nat
  nv_project :: string
  nv_session :: string
  nv_state :: "string option"
  nv_observation :: "json option"

definition known_fields :: "(string \<times> json) list \<Rightarrow> string list \<Rightarrow> bool" where
  "known_fields es ks \<longleftrightarrow> list_all (\<lambda>(k, _). k \<in> set ks) es"

text \<open>The derived decoder, with unknown fields denied.\<close>

definition native_of :: "json \<Rightarrow> native_record option" where
  "native_of v = Option.bind (as_object v) (\<lambda>es.
     if \<not> known_fields es [''scope'', ''version'', ''project'', ''session'', ''state'', ''observation''] then None
     else case (str_in es ''scope'', count_in es ''version'', str_in es ''project'', str_in es ''session'',
         opt_field as_str (map_of es ''state''), opt_field Some (map_of es ''observation'')) of
       (Some scope, Some version, Some project, Some session, Some state, Some observation) \<Rightarrow>
         if 4294967296 \<le> version then None
         else Some \<lparr>nv_scope = scope, nv_version = version, nv_project = project, nv_session = session,
           nv_state = state, nv_observation = observation\<rparr>
     | _ \<Rightarrow> None)"

definition native_state_ok :: "json \<Rightarrow> string \<Rightarrow> string + unit" where
  "native_state_ok data state =
     rbind (ensure (state \<in> {''completed'', ''failed'', ''killed'', ''interrupted''}) ''invalid native job state'') (\<lambda>_.
     ensure (\<not> (json_index data ''status'' \<noteq> JStr (if state = ''completed'' then ''completed'' else if state = ''killed'' then ''killed'' else ''failed'')
         \<or> json_index data ''cause'' \<noteq> JStr (if state = ''interrupted'' then ''teardown'' else if state = ''killed'' then ''kill'' else ''producer'')
         \<or> json_index data ''producerReported'' \<noteq> JBool (state \<noteq> ''interrupted'')))
       ''native and interoperable job outcomes disagree'')"

definition successful_exit :: "json \<Rightarrow> bool" where
  "successful_exit o' \<longleftrightarrow> json_index o' ''exit_code'' = JInt 0 \<and> json_index o' ''timed_out'' \<noteq> JBool True
     \<and> json_index o' ''cancelled'' \<noteq> JBool True \<and> json_index o' ''terminated'' \<noteq> JBool True"

definition validate_native_job :: "'p catalog_env \<Rightarrow> session_event \<Rightarrow> string + unit" where
  "validate_native_job E e =
     (let data = se_data e in
      if json_index data ''owner'' \<noteq> JStr ''clat/native'' then Inr ()
      else
        rbind (ok_or (native_of (json_index data ''native'')) (ce_err E (json_index data ''native''))) (\<lambda>native.
        rbind (ensure (\<not> (se_ignorable e = Some True \<or> length (nv_scope native) \<noteq> 64 \<or> \<not> list_all is_hexdigit (nv_scope native)))
          ''invalid native job record authority'') (\<lambda>_.
        rbind (ensure (\<not> (nv_version native \<noteq> 1 \<or> json_index data ''kind'' \<noteq> JStr ''command'' \<or> nv_project native = []
            \<or> nv_session native = [] \<or> 1024 < length (nv_session native))) ''invalid native job identity'') (\<lambda>_.
        rbind (ensure (\<not> (\<not> ce_uuid E (case as_str (json_index data ''jobId'') of None \<Rightarrow> [] | Some s \<Rightarrow> s)
            \<or> 32768 < ce_size E data)) ''native job record exceeds its identity or size bound'') (\<lambda>_.
        rbind (ensure (as_i64 (json_index data ''startedAt'') \<noteq> None) ''native startedAt must be an integer'') (\<lambda>_.
        rbind (ensure (case Option.bind (event_spec_of (se_type e)) sp_job of
              Some JobRegistered \<Rightarrow> nv_state native = None \<and> nv_observation native = None \<and> json_get data ''finishedAt'' = None
            | Some JobSettled \<Rightarrow> nv_state native \<noteq> None \<and> as_i64 (json_index data ''finishedAt'') \<noteq> None
            | None \<Rightarrow> False) ''native job phase and observation disagree'') (\<lambda>_.
        rbind (ensure (\<not> (nv_state native = Some ''completed''
            \<and> (case nv_observation native of None \<Rightarrow> True | Some o' \<Rightarrow> \<not> successful_exit o')))
          ''completed native job lacks a successful process exit'') (\<lambda>_.
        case nv_state native of None \<Rightarrow> Inr () | Some state \<Rightarrow> native_state_ok data state))))))))"

definition job_registered :: "'p catalog_env \<Rightarrow> session_event \<Rightarrow> string + unit" where
  "job_registered E e =
     rbind (validate_native_job E e) (\<lambda>_.
     rbind (for_each (\<lambda>field. rbind (require_str (se_data e) field) (\<lambda>_. Inr ())) [''jobId'', ''owner'', ''kind'', ''label'']) (\<lambda>_.
     rbind (require_number (se_data e) ''startedAt'') (\<lambda>_.
     if json_get (se_data e) ''toolCall'' \<noteq> None then
       rbind (require_object (se_data e) ''toolCall'') (\<lambda>_.
       for_each (\<lambda>field. rbind (require_str (json_index (se_data e) ''toolCall'') field) (\<lambda>_. Inr ())) [''callId'', ''rootCallId''])
     else Inr ())))"

definition job_settled :: "'p catalog_env \<Rightarrow> session_event \<Rightarrow> string + unit" where
  "job_settled E e =
     rbind (job_registered E e) (\<lambda>_.
     rbind (require_number (se_data e) ''finishedAt'') (\<lambda>_.
     rbind (ensure (str_at (se_data e) ''status'' \<in> {Some ''completed'', Some ''killed'', Some ''failed''})
       ''job status must be completed, killed or failed'') (\<lambda>_.
     rbind (ensure (str_at (se_data e) ''cause'' \<in> {Some ''producer'', Some ''kill'', Some ''teardown''})
       ''job cause must be producer, kill or teardown'') (\<lambda>_.
     rbind (ensure (Option.bind (json_get (se_data e) ''producerReported'') as_bool \<noteq> None)
       ''job producerReported must be a boolean'') (\<lambda>_.
     if json_get (se_data e) ''detail'' \<noteq> None then rbind (require_str (se_data e) ''detail'') (\<lambda>_. Inr ()) else Inr ())))))"

subsection \<open>Plan documents\<close>

record plan_document =
  pd_id :: string
  pd_session :: string
  pd_revision :: nat
  pd_title :: string
  pd_text :: string
  pd_digest :: string
  pd_approved :: bool
  pd_goal_id :: "string option"

record plan_operation =
  pn_digest :: string
  pn_result :: json

record plan_change =
  pc_version :: nat
  pc_document :: "plan_document option"
  pc_operation :: "(string \<times> plan_operation) option"

definition plan_document_of :: "json \<Rightarrow> plan_document option" where
  "plan_document_of v = Option.bind (as_object v) (\<lambda>es.
     if \<not> known_fields es [''id'', ''session'', ''revision'', ''title'', ''text'', ''digest'', ''approved'', ''goal_id''] then None
     else case (str_in es ''id'', str_in es ''session'', count_in es ''revision'', str_in es ''title'', str_in es ''text'',
         str_in es ''digest'', Option.bind (map_of es ''approved'') as_bool, opt_field as_str (map_of es ''goal_id'')) of
       (Some i, Some session, Some revision, Some title, Some t, Some digest, Some approved, Some goal) \<Rightarrow>
         Some \<lparr>pd_id = i, pd_session = session, pd_revision = revision, pd_title = title, pd_text = t,
           pd_digest = digest, pd_approved = approved, pd_goal_id = goal\<rparr>
     | _ \<Rightarrow> None)"

definition plan_operation_of :: "json \<Rightarrow> (string \<times> plan_operation) option" where
  "plan_operation_of v = (case as_array v of
     Some [k, j] \<Rightarrow> Option.bind (as_str k) (\<lambda>k. Option.bind (as_object j) (\<lambda>es.
       if \<not> known_fields es [''digest'', ''result''] then None
       else case (str_in es ''digest'', map_of es ''result'') of
         (Some digest, Some result) \<Rightarrow> Some (k, \<lparr>pn_digest = digest, pn_result = result\<rparr>)
       | _ \<Rightarrow> None))
   | _ \<Rightarrow> None)"

definition plan_change_of :: "json \<Rightarrow> plan_change option" where
  "plan_change_of v = Option.bind (as_object v) (\<lambda>es.
     if \<not> known_fields es [''version'', ''document'', ''operation''] then None
     else case (count_in es ''version'', opt_field plan_document_of (map_of es ''document''),
         opt_field plan_operation_of (map_of es ''operation'')) of
       (Some version, Some document, Some operation) \<Rightarrow>
         Some \<lparr>pc_version = version, pc_document = document, pc_operation = operation\<rparr>
     | _ \<Rightarrow> None)"

definition goal_link_ok :: "'p catalog_env \<Rightarrow> string \<Rightarrow> bool" where
  "goal_link_ok E goal \<longleftrightarrow> starts_with ''goal-'' goal \<and> ce_uuid E (drop 5 goal)"

definition check_plan_document :: "'p catalog_env \<Rightarrow> plan_document \<Rightarrow> string + unit" where
  "check_plan_document E doc =
     rbind (validate_plan_text (pd_text doc)) (\<lambda>_.
     ensure (\<not> (\<not> starts_with ''plan-'' (pd_id doc) \<or> \<not> ce_uuid E (drop 5 (pd_id doc)) \<or> pd_session doc = []
         \<or> pd_revision doc = 0 \<or> trim (pd_title doc) = [] \<or> 512 < length (pd_title doc)
         \<or> pd_digest doc \<noteq> ce_sha256 E (pd_text doc)
         \<or> (case pd_goal_id doc of None \<Rightarrow> False | Some goal \<Rightarrow> \<not> goal_link_ok E goal)))
       ''invalid plan document identity or digest'')"

definition decode_plan_change :: "'p catalog_env \<Rightarrow> json \<Rightarrow> string + plan_change" where
  "decode_plan_change E v =
     rbind (ok_or (plan_change_of v) (ce_err E v)) (\<lambda>change.
     rbind (ensure (\<not> (pc_version change = 0 \<or> (pc_document change = None \<and> pc_operation change = None))) ''invalid plan change'') (\<lambda>_.
     rbind (case pc_document change of None \<Rightarrow> Inr () | Some doc \<Rightarrow> check_plan_document E doc) (\<lambda>_.
     rbind (case pc_operation change of None \<Rightarrow> Inr ()
         | Some (i, op) \<Rightarrow> ensure (\<not> (i = [] \<or> 200 < length i \<or> pn_digest op = [])) ''invalid workflow operation'') (\<lambda>_.
     Inr change))))"

definition plan_document_payload :: "'p catalog_env \<Rightarrow> session_event \<Rightarrow> string + unit" where
  "plan_document_payload E e =
     rbind (ensure (se_ignorable e = Some True) ''CLAT plan extensions must be ignorable'') (\<lambda>_.
     rbind (decode_plan_change E (se_data e)) (\<lambda>_. Inr ()))"

subsection \<open>Subagents\<close>

text \<open>A verdict is a result, or \<open>None\<close> for a panic: the descriptor indexes its map with a key
  that may be missing.\<close>

definition printable_text :: "nat \<Rightarrow> string \<Rightarrow> bool" where
  "printable_text bound s \<longleftrightarrow> \<not> (s = [] \<or> bound < length s \<or> has_control [] s)"

definition check_label :: "(string \<times> json) list \<Rightarrow> string + unit" where
  "check_label es = (case map_of es ''label'' of
     None \<Rightarrow> Inr ()
   | Some v \<Rightarrow> rbind (ok_or (as_str v) ''subagent/descriptor label must be a string'') (\<lambda>label.
       ensure (printable_text 128 label) ''subagent/descriptor label must be bounded printable text''))"

definition validate_descriptor :: "json \<Rightarrow> (string + unit) option" where
  "validate_descriptor v =
     checked (ok_or (as_object v) ''subagent/descriptor payload must be an object'') (\<lambda>es.
     if length es < 3 \<or> 4 < length es \<or> \<not> known_fields es [''label'', ''mode'', ''provider'', ''version'']
       \<or> count_in es ''version'' \<noteq> Some 2 \<or> str_in es ''mode'' \<noteq> Some ''one-shot''
     then Some (Inl ''subagent/descriptor is not a canonical DSH v2 one-shot record'')
     else case map_of es ''provider'' of
         None \<Rightarrow> None
       | Some p \<Rightarrow>
           checked (ok_or (as_str p) ''subagent/descriptor provider must be a string'') (\<lambda>provider.
           checked (ensure (printable_text 256 provider) ''subagent/descriptor provider must be bounded printable text'') (\<lambda>_.
           Some (check_label es))))"

definition bounded_str :: "(string \<times> json) list \<Rightarrow> string \<Rightarrow> nat \<Rightarrow> string + string" where
  "bounded_str es field bound =
     ok_or (case str_in es field of None \<Rightarrow> None | Some s \<Rightarrow> if printable_text bound s then Some s else None)
       (''clat/subagent '' @ field @ '' must be bounded printable text'')"

definition is_sha256 :: "string \<Rightarrow> bool" where
  "is_sha256 s \<longleftrightarrow> length s = 71 \<and> starts_with ''sha256:'' s \<and> list_all is_hexdigit (drop 7 s)"

definition field_within :: "(string \<times> json) list \<Rightarrow> string \<Rightarrow> nat \<Rightarrow> nat \<Rightarrow> bool" where
  "field_within es field low high \<longleftrightarrow> (case count_in es field of None \<Rightarrow> False | Some n \<Rightarrow> low \<le> n \<and> n \<le> high)"

definition null_or_count :: "json \<Rightarrow> bool" where
  "null_or_count j \<longleftrightarrow> j = JNull \<or> as_nat64 j \<noteq> None"

definition validate_usage :: "json \<Rightarrow> string + unit" where
  "validate_usage v =
     rbind (ok_or (as_object v) ''clat/subagent usage must be an object'') (\<lambda>usage.
     rbind (ensure (exact_keys usage [''cacheReadTokens'', ''inputTokens'', ''outputTokens'', ''reasoningTokens''])
       ''clat/subagent usage must contain exactly its canonical fields'') (\<lambda>_.
     rbind (ok_or (count_in usage ''inputTokens'') ''clat/subagent inputTokens must be an integer'') (\<lambda>input.
     rbind (ok_or (count_in usage ''outputTokens'') ''clat/subagent outputTokens must be an integer'') (\<lambda>output.
     rbind (ensure (min (input + output) 18446744073709551615 \<le> 100000)
       ''clat/subagent reported usage exceeds the structural bound'') (\<lambda>_.
     for_each (\<lambda>field. ensure (null_or_count (json_index (JObj usage) field))
         (''clat/subagent '' @ field @ '' must be null or an integer'')) [''cacheReadTokens'', ''reasoningTokens''])))))"

fun check_tools :: "string list \<Rightarrow> json list \<Rightarrow> string + unit" where
  "check_tools seen [] = Inr ()"
| "check_tools seen (v # vs) =
     rbind (ok_or (as_str v) ''clat/subagent provenance tool must be a string'') (\<lambda>tool.
     rbind (ensure (tool \<in> {''list_files'', ''read_file'', ''search''} \<and> tool \<notin> set seen)
       ''clat/subagent provenance contains an unavailable tool'') (\<lambda>_. check_tools (tool # seen) vs))"

definition validate_reference :: "string \<Rightarrow> string + unit" where
  "validate_reference r = ensure (\<not> (r = [] \<or> 4096 < length r \<or> trim r \<noteq> r \<or> has_control [] r
       \<or> path_is_absolute r \<or> \<not> path_all_normal r))
     ''subagent references must be contained project-relative paths''"

definition validate_provenance :: "json \<Rightarrow> string + unit" where
  "validate_provenance v =
     rbind (ok_or (as_object v) ''clat/subagent provenance must be an object'') (\<lambda>es.
     rbind (ensure (exact_keys es [''depth'', ''model'', ''provider'', ''references'', ''tools''])
       ''clat/subagent provenance must contain exactly its canonical fields'') (\<lambda>_.
     rbind (bounded_str es ''provider'' 256) (\<lambda>_.
     rbind (bounded_str es ''model'' 1024) (\<lambda>_.
     rbind (ensure (count_in es ''depth'' = Some 1) ''clat/subagent provenance depth must be 1'') (\<lambda>_.
     rbind (ok_or (array_in es ''tools'') ''clat/subagent provenance tools must be an array'') (\<lambda>tools.
     rbind (ensure (length tools \<le> 3) ''clat/subagent provenance has too many tools'') (\<lambda>_.
     rbind (check_tools [] tools) (\<lambda>_.
     rbind (ok_or (array_in es ''references'') ''clat/subagent provenance references must be an array'') (\<lambda>references.
     rbind (ensure (length references \<le> 16) ''clat/subagent provenance has too many references'') (\<lambda>_.
     for_each (\<lambda>r. rbind (ok_or (as_str r) ''clat/subagent provenance reference must be a string'') validate_reference)
       references))))))))))"

definition lifecycle_start_keys :: "string list" where
  "lifecycle_start_keys = [''id'', ''inputDigest'', ''limits'', ''parentSessionId'', ''parentTurn'', ''phase'', ''role'',
     ''taskBytes'', ''version'']"

definition lifecycle_end_keys :: "string list" where
  "lifecycle_end_keys = [''elapsedMs'', ''id'', ''inputDigest'', ''outputBytes'', ''outputDigest'', ''parentSessionId'',
     ''parentTurn'', ''phase'', ''provenance'', ''role'', ''stopReason'', ''usage'', ''version'']"

text \<open>\<open>trim_start_matches\<close>\<close>

function strip_all :: "string \<Rightarrow> string \<Rightarrow> string" where
  "strip_all p s = (if p \<noteq> [] \<and> starts_with p s then strip_all p (drop (length p) s) else s)"
  by pat_completeness auto
termination
proof (relation "measure (\<lambda>(p, s). length s)")
  fix p s :: string
  assume "p \<noteq> [] \<and> starts_with p s"
  then show "((p, drop (length p) s), (p, s)) \<in> measure (\<lambda>(p, s). length s)" by (cases s; cases p) auto
qed simp

declare strip_all.simps [simp del]

definition check_limits :: "json \<Rightarrow> string + unit" where
  "check_limits v =
     rbind (ok_or (as_object v) ''clat/subagent limits must be an object'') (\<lambda>limits.
     ensure (exact_keys limits [''depth'', ''maxOutputBytes'', ''maxTokens'', ''timeoutMs'']
         \<and> count_in limits ''depth'' = Some 1 \<and> field_within limits ''maxTokens'' 1 50000
         \<and> field_within limits ''timeoutMs'' 1 120000 \<and> count_in limits ''maxOutputBytes'' = Some 32768)
       ''clat/subagent start limits are invalid'')"

definition check_start :: "(string \<times> json) list \<Rightarrow> string + unit" where
  "check_start es =
     rbind (ok_or (map_of es ''limits'') ''clat/subagent limits must be an object'') (\<lambda>limits.
     rbind (check_limits limits) (\<lambda>_.
     ensure (field_within es ''taskBytes'' 1 4096) ''clat/subagent taskBytes is invalid''))"

definition check_end :: "(string \<times> json) list \<Rightarrow> string + unit" where
  "check_end es =
     rbind (ensure (field_within es ''elapsedMs'' 0 125000 \<and> field_within es ''outputBytes'' 0 32768
         \<and> str_in es ''stopReason'' \<in> {Some ''completed'', Some ''aborted'', Some ''error''}
         \<and> (case str_in es ''outputDigest'' of None \<Rightarrow> False | Some d \<Rightarrow> is_sha256 d))
       ''clat/subagent end accounting is invalid'') (\<lambda>_.
     rbind (rbind (ok_or (map_of es ''usage'') ''subagent usage missing'') validate_usage) (\<lambda>_.
     rbind (ok_or (map_of es ''provenance'') ''subagent provenance missing'') validate_provenance))"

definition validate_lifecycle :: "'p catalog_env \<Rightarrow> json \<Rightarrow> string + unit" where
  "validate_lifecycle E v =
     rbind (ok_or (as_object v) ''clat/subagent payload must be an object'') (\<lambda>es.
     rbind (ensure (count_in es ''version'' = Some 1) ''clat/subagent version must be 1'') (\<lambda>_.
     rbind (ok_or (str_in es ''phase'') ''clat/subagent phase missing'') (\<lambda>phase.
     rbind (ensure (phase \<in> {''start'', ''end''}) ''clat/subagent phase must be start or end'') (\<lambda>_.
     rbind (ensure (exact_keys es (if phase = ''start'' then lifecycle_start_keys else lifecycle_end_keys))
       (''clat/subagent '' @ phase @ '' payload must contain exactly its canonical fields'')) (\<lambda>_.
     rbind (bounded_str es ''id'' 128) (\<lambda>i.
     rbind (ensure (starts_with ''subagent-'' i \<and> ce_uuid E (strip_all ''subagent-'' i)) ''clat/subagent id must contain a UUID'') (\<lambda>_.
     rbind (bounded_str es ''inputDigest'' 71) (\<lambda>digest.
     rbind (ensure (is_sha256 digest) ''clat/subagent inputDigest is invalid'') (\<lambda>_.
     rbind (bounded_str es ''parentSessionId'' 256) (\<lambda>_.
     rbind (bounded_str es ''role'' 16) (\<lambda>role.
     rbind (ensure (role \<in> {''explorer'', ''reviewer''}
         \<and> (case count_in es ''parentTurn'' of None \<Rightarrow> False | Some t \<Rightarrow> t \<noteq> 0))
       ''clat/subagent role or parentTurn is invalid'') (\<lambda>_.
     if phase = ''start'' then check_start es else check_end es))))))))))))"

section \<open>Admission\<close>

fun run_validator :: "'p catalog_env \<Rightarrow> validator \<Rightarrow> session_event \<Rightarrow> nat \<Rightarrow> (string + unit) option" where
  "run_validator E VPlanDocument e v = Some (plan_document_payload E e)"
| "run_validator E VTask e v = Some (rbind (decode_change (ce_task E) (se_data e)) (\<lambda>_. Inr ()))"
| "run_validator E VSubagent e v = Some (validate_lifecycle E (se_data e))"
| "run_validator E VApproval e v = Some (approval_payload e)"
| "run_validator E VAssistantAttempt e v = Some (assistant_attempt e)"
| "run_validator E VAssistantChunk e v = Some (assistant_chunk_payload e)"
| "run_validator E VAssistantMessage e v = Some (assistant_message e v)"
| "run_validator E VCompaction e v = Some (compaction_payload e)"
| "run_validator E VPrune e v = Some (prune_payload e)"
| "run_validator E VSummary e v = Some (summary_payload e)"
| "run_validator E VDeveloperMessage e v = Some (developer_message e v)"
| "run_validator E VGoal e v = Some (validate_change_payload (ce_goal E) (se_data e))"
| "run_validator E VOffload e v = Some (rbind (offload_targets (se_data e)) (\<lambda>_. Inr ()))"
| "run_validator E VJobRegistered e v = Some (job_registered E e)"
| "run_validator E VJobSettled e v = Some (job_settled E e)"
| "run_validator E VPlan e v = Some (plan_payload E e)"
| "run_validator E VHeader e v = Some (request_header e v)"
| "run_validator E VSandbox e v = Some (sandbox_payload e)"
| "run_validator E VTitle e v = Some (title_payload e)"
| "run_validator E VStep e v = Some (validate_step e)"
| "run_validator E VDescriptor e v = validate_descriptor (se_data e)"
| "run_validator E VSystemMessage e v = Some (system_message e v)"
| "run_validator E VTodo e v = Some (todo_payload e)"
| "run_validator E VToolCall e v = Some (tool_call_payload e)"
| "run_validator E VToolResult e v = Some (tool_result_payload e v)"
| "run_validator E VTurn e v = Some (validate_turn e)"
| "run_validator E VUserMessage e v = Some (user_message_payload e v)"
| "run_validator E VWorkingDirectory e v = Some (working_directory e)"

definition spec_validate :: "'p catalog_env \<Rightarrow> event_spec \<Rightarrow> session_event \<Rightarrow> nat \<Rightarrow> (string + unit) option" where
  "spec_validate E spec e version = (case sp_validate spec of None \<Rightarrow> Some (Inr ()) | Some v \<Rightarrow> run_validator E v e version)"

datatype admission_error = AdRetired string | AdRequiredUnknown string | AdMalformedPayload string nat string
  | AdUnsupportedCapability string

definition admit_event :: "'p catalog_env \<Rightarrow> nat \<Rightarrow> session_event \<Rightarrow> (admission_error + unit) option" where
  "admit_event E version e =
     (let ty = se_type e; ignorable = (se_ignorable e = Some True); spec = event_spec_of ty in
      if ty \<in> set retired_event_types then Some (Inl (AdRetired ty))
      else if 2 \<le> version \<and> (case spec of None \<Rightarrow> False | Some s \<Rightarrow> sp_retired s) then Some (Inl (AdRetired ty))
      else case outside_generation_window ty version of
          Some refusal \<Rightarrow>
            if \<not> ignorable then Some (Inl (case refusal of ForeignToGeneration \<Rightarrow> AdRequiredUnknown ty
                | RetiredByGeneration \<Rightarrow> AdRetired ty))
            else Some (Inr ())
        | None \<Rightarrow>
            (case spec of
               None \<Rightarrow> if \<not> ignorable then Some (Inl (AdRequiredUnknown ty)) else Some (Inr ())
             | Some s \<Rightarrow> map_option (\<lambda>r. case r of Inl issue \<Rightarrow> Inl (AdMalformedPayload ty (se_seq e) issue) | Inr _ \<Rightarrow> Inr ())
                 (spec_validate E s e version)))"

fun admit_events_for_version :: "'p catalog_env \<Rightarrow> session_event list \<Rightarrow> nat \<Rightarrow> (admission_error + unit) option" where
  "admit_events_for_version E [] version = Some (Inr ())"
| "admit_events_for_version E (e # es) version =
     (case admit_event E version e of
        Some (Inr _) \<Rightarrow> admit_events_for_version E es version
      | other \<Rightarrow> other)"

definition admit_header :: "session_header \<Rightarrow> admission_error + unit" where
  "admit_header h =
     rbind (ensure (\<not> sh_subagent h) (AdUnsupportedCapability ''subagent-origin sessions cannot be resumed by CLAT'')) (\<lambda>_.
     rbind (ensure (\<not> (sh_parent h \<noteq> None \<or> 0 < sh_depth h)) (AdUnsupportedCapability ''delegated sessions cannot be resumed by CLAT'')) (\<lambda>_.
     case sh_preset h of
       None \<Rightarrow> Inr ()
     | Some preset \<Rightarrow> ensure (\<not> (preset \<noteq> [] \<and> sh_version h < 4))
         (AdUnsupportedCapability (''unknown agentPreset `'' @ preset @ ''`''))))"

end
