(* ===== verification/SessionSurface.thy ===== *)
theory SessionSurface
  imports SessionCatalog
begin

text \<open>
  The model-visible view of a log (\<open>session/surface.rs\<close>), the maintenance events that rewrite it
  (\<open>session/catalog/maintenance.rs\<close>), the closers of an interrupted turn
  (\<open>session/recovery.rs\<close>) and the tail that may be rewound (\<open>session/catalog/rewind.rs\<close>).
\<close>

section \<open>The surface\<close>

record replacement_node =
  rp_seq :: nat
  rp_start :: nat
  rp_end :: nat
  rp_shadowed :: "nat list"

record surface =
  sf_nodes :: "nat list"
  sf_replacements :: "replacement_node list"
  sf_messages :: "nat \<Rightarrow> json option"

definition surface_default :: surface where
  "surface_default = \<lparr>sf_nodes = [], sf_replacements = [], sf_messages = (\<lambda>_. None)\<rparr>"

definition replacement_of_json :: "json \<Rightarrow> string + replacement_node" where
  "replacement_of_json v =
     rbind (ok_or (count_at v ''seq'') ''seq'') (\<lambda>seq.
     rbind (ok_or (count_at v ''start'') ''start'') (\<lambda>start.
     rbind (ok_or (count_at v ''end'') ''end'') (\<lambda>end'.
     Inr \<lparr>rp_seq = seq, rp_start = start, rp_end = end',
       rp_shadowed = (case Option.bind (json_get v ''shadowed'') as_array of
           None \<Rightarrow> [] | Some xs \<Rightarrow> List.map_filter as_nat64 xs)\<rparr>)))"

definition event_at :: "session_event list \<Rightarrow> nat \<Rightarrow> session_event option" where
  "event_at es n = (if n < length es then Some (es ! n) else None)"

fun check_sources :: "session_event \<Rightarrow> session_event list \<Rightarrow> nat list \<Rightarrow> nat list \<Rightarrow> string + unit" where
  "check_sources e earlier seen [] = Inr ()"
| "check_sources e earlier seen (source # sources) =
     (if source \<in> set seen then Inl (''duplicate source seq '' @ show_nat source @ '' in event '' @ show_nat (se_seq e))
      else if se_seq e \<le> source then Inl (''source seq '' @ show_nat source @ '' is not earlier than event '' @ show_nat (se_seq e))
      else if event_at earlier source = None then
        Inl (''source seq '' @ show_nat source @ '' outside the log in event '' @ show_nat (se_seq e))
      else check_sources e earlier (source # seen) sources)"

text \<open>\<open>pointer_mut\<close> with an update, for keys of objects and the first element of an array.\<close>

datatype path_step = Key string | First

fun update_at :: "path_step list \<Rightarrow> (json \<Rightarrow> json) \<Rightarrow> json \<Rightarrow> json" where
  "update_at [] f j = f j"
| "update_at (Key k # ps) f j = (case json_get j k of None \<Rightarrow> j | Some v \<Rightarrow> json_set j k (update_at ps f v))"
| "update_at (First # ps) f j = (case j of
       JArr (x # xs) \<Rightarrow> JArr (update_at ps f x # xs)
     | JObj es \<Rightarrow> (case map_of es ''0'' of None \<Rightarrow> j | Some v \<Rightarrow> json_set j ''0'' (update_at ps f v))
     | _ \<Rightarrow> j)"

fun value_at :: "path_step list \<Rightarrow> json \<Rightarrow> json option" where
  "value_at [] j = Some j"
| "value_at (Key k # ps) j = (case json_get j k of None \<Rightarrow> None | Some v \<Rightarrow> value_at ps v)"
| "value_at (First # ps) j = (case j of
       JArr (x # xs) \<Rightarrow> value_at ps x
     | JObj es \<Rightarrow> (case map_of es ''0'' of None \<Rightarrow> None | Some v \<Rightarrow> value_at ps v)
     | _ \<Rightarrow> None)"

lemma size_entry: "(k, v) \<in> set es \<Longrightarrow> size v < Suc (size_list (size_prod (\<lambda>x. 0) size) es)"
  by (induction es) auto

lemma size_element: "(x, y) \<in> set (zip xs ys) \<Longrightarrow> size x < Suc (size_list size xs)"
  by (metis less_SucI set_zip_leftD size_list_estimation' lessI less_Suc_eq_le order_refl)

text \<open>Equality of values: the entries of an object have no order.\<close>

function (sequential) json_eq :: "json \<Rightarrow> json \<Rightarrow> bool" where
  "json_eq (JObj es) (JObj fs) = (length es = length fs
     \<and> list_all (\<lambda>(k, v). case map_of fs k of None \<Rightarrow> False | Some w \<Rightarrow> json_eq v w) es)"
| "json_eq (JArr xs) (JArr ys) = (length xs = length ys \<and> list_all (\<lambda>(x, y). json_eq x y) (zip xs ys))"
| "json_eq a b = (a = b)"
  by pat_completeness auto
termination
  by (relation "measure (\<lambda>(a, b). size a)") (auto simp: size_entry size_element)

definition first_class :: "json \<Rightarrow> bool" where
  "first_class data \<longleftrightarrow> json_index (json_index data ''message'') ''role'' = JStr ''tool''"

definition result_content_path :: "json \<Rightarrow> path_step list" where
  "result_content_path data =
     (if first_class data then [Key ''message'', Key ''content''] else [Key ''message'', Key ''content'', First, Key ''content''])"

definition tool_result_rest :: "json \<Rightarrow> json" where
  "tool_result_rest data = update_at (result_content_path data) (\<lambda>_. JNull) data"

definition validate_tool_replacement :: "session_event \<Rightarrow> session_event list \<Rightarrow> nat list \<Rightarrow> string + unit" where
  "validate_tool_replacement e earlier shadowed =
     rbind (ensure (length shadowed = 1) ''tool/result replace must shadow exactly one node'') (\<lambda>_.
     case event_at earlier (hd shadowed) of
       None \<Rightarrow> Inr ()
     | Some previous \<Rightarrow>
         rbind (ensure (se_type previous = ''tool/result'') ''tool/result replace target must be a tool/result'') (\<lambda>_.
         ensure (json_eq (tool_result_rest (se_data e)) (tool_result_rest (se_data previous)))
           ''tool/result replace may only change result content''))"

section \<open>Maintenance\<close>

definition is_image_block :: "json \<Rightarrow> bool" where
  "is_image_block b \<longleftrightarrow> json_index b ''type'' = JStr ''image''"

text \<open>The marking loop: the index among the images, the indexes still to be marked, and what is
  left of them; marking an image twice is an error.\<close>

fun mark_images :: "nat \<Rightarrow> nat list \<Rightarrow> json list \<Rightarrow> string + json list \<times> nat list" where
  "mark_images n idx [] = Inr ([], idx)"
| "mark_images n idx (b # bs) =
     (if \<not> is_image_block b then rbind (mark_images n idx bs) (\<lambda>(bs', rest). Inr (b # bs', rest))
      else (case idx of
          i # is \<Rightarrow>
            if i = n then
              if json_index b ''offloaded'' = JBool True then Inl ''image/offload: already offloaded''
              else rbind (mark_images (n + 1) is bs) (\<lambda>(bs', rest). Inr (json_set b ''offloaded'' (JBool True) # bs', rest))
            else rbind (mark_images (n + 1) idx bs) (\<lambda>(bs', rest). Inr (b # bs', rest))
        | [] \<Rightarrow> rbind (mark_images (n + 1) idx bs) (\<lambda>(bs', rest). Inr (b # bs', rest))))"

definition offload_path :: "session_event \<Rightarrow> string + path_step list" where
  "offload_path original =
     (if se_type original = ''user/message'' then Inr [Key ''content'']
      else if se_type original = ''tool/result'' then Inr (result_content_path (se_data original))
      else Inl ''image/offload: target must be an input message'')"

definition offload_one :: "surface \<Rightarrow> session_event list \<Rightarrow> nat \<times> nat list \<Rightarrow> string + nat \<times> json" where
  "offload_one s earlier t =
     (case t of (seq, indexes) \<Rightarrow>
       rbind (ensure (seq \<in> set (sf_nodes s)) ''image/offload: target is not current'') (\<lambda>_.
       rbind (ok_or (event_at earlier seq) ''image/offload: missing target'') (\<lambda>original.
       rbind (offload_path original) (\<lambda>path.
       let data = (case sf_messages s seq of None \<Rightarrow> se_data original | Some d \<Rightarrow> d) in
       rbind (ok_or (Option.bind (value_at path data) as_array) ''image/offload: missing content'') (\<lambda>blocks.
       rbind (mark_images 0 indexes blocks) (\<lambda>(blocks', rest).
       rbind (ensure (rest = []) ''image/offload: image does not exist'') (\<lambda>_.
       Inr (seq, update_at path (\<lambda>_. JArr blocks') data))))))))"

fun map_results :: "('a \<Rightarrow> 'e + 'b) \<Rightarrow> 'a list \<Rightarrow> 'e + 'b list" where
  "map_results f [] = Inr []"
| "map_results f (x # xs) = rbind (f x) (\<lambda>y. rbind (map_results f xs) (\<lambda>ys. Inr (y # ys)))"

definition offload :: "surface \<Rightarrow> session_event \<Rightarrow> session_event list \<Rightarrow> string + surface" where
  "offload s e earlier =
     rbind (offload_targets (se_data e)) (\<lambda>targets.
     rbind (map_results (offload_one s earlier) targets) (\<lambda>updates.
     Inr (s\<lparr>sf_messages := foldl (\<lambda>m (seq, data). m(seq := Some data)) (sf_messages s) updates\<rparr>)))"

definition prune :: "surface \<Rightarrow> session_event \<Rightarrow> session_event list \<Rightarrow> string + surface" where
  "prune s e earlier =
     rbind (prune_payload e) (\<lambda>_.
     rbind (ok_or (as_nat64 (json_index (json_index (se_data e) ''shadowedRange'') ''start'')) ''invalid prune target'') (\<lambda>seq.
     if seq \<notin> set (sf_nodes s) \<or> (case event_at earlier seq of None \<Rightarrow> True | Some o' \<Rightarrow> se_type o' \<noteq> ''tool/result'')
     then Inl ''prune target is not a current tool result'' else Inr s))"

definition project_message_event :: "surface \<Rightarrow> session_event \<Rightarrow> session_event list \<Rightarrow> string + surface" where
  "project_message_event s e earlier =
     (case Option.bind (event_spec_of (se_type e)) sp_projector of
        Some ProjectPrune \<Rightarrow> prune s e earlier
      | Some ProjectOffload \<Rightarrow> offload s e earlier
      | None \<Rightarrow> Inr s)"

section \<open>The fold\<close>

fun index_of :: "nat \<Rightarrow> nat list \<Rightarrow> nat option" where
  "index_of x [] = None"
| "index_of x (y # ys) = (if y = x then Some 0 else map_option Suc (index_of x ys))"

definition surface_envelope :: "session_event \<Rightarrow> string + unit" where
  "surface_envelope e =
     (let is_surface = is_surface_type (se_type e) in
      if se_surface_op e = None \<and> is_surface then Inl (''surface event '' @ show_nat (se_seq e) @ '' lacks surfaceOp'')
      else if se_surface_op e \<noteq> None \<and> \<not> is_surface then
        Inl (''non-surface event '' @ show_nat (se_seq e) @ '' carries surfaceOp'')
      else if se_sources e \<noteq> None \<and> \<not> is_surface then
        Inl (''non-surface event '' @ show_nat (se_seq e) @ '' carries sourceEventSeqs'')
      else Inr ())"

definition surface_replace :: "surface \<Rightarrow> session_event \<Rightarrow> session_event list \<Rightarrow> nat list \<Rightarrow> nat \<Rightarrow> nat \<Rightarrow> string + surface" where
  "surface_replace s e earlier sources start end' =
     rbind (ok_or (index_of start (sf_nodes s)) (''replace start '' @ show_nat start @ '' is not a surface node'')) (\<lambda>i.
     rbind (ok_or (index_of end' (sf_nodes s)) (''replace end '' @ show_nat end' @ '' is not a surface node'')) (\<lambda>j.
     rbind (ensure (i \<le> j) ''replace range is inverted'') (\<lambda>_.
     let shadowed = take (Suc j - i) (drop i (sf_nodes s)) in
     rbind (if se_type e = ''tool/result'' then validate_tool_replacement e earlier shadowed
       else for_each (\<lambda>node. ensure (node \<in> set sources)
         (''replace of event '' @ show_nat (se_seq e) @ '' does not cite shadowed node '' @ show_nat node)) shadowed) (\<lambda>_.
     Inr \<lparr>sf_nodes = take i (sf_nodes s) @ [se_seq e] @ drop (Suc j) (sf_nodes s),
       sf_replacements = sf_replacements s @ [\<lparr>rp_seq = se_seq e, rp_start = start, rp_end = end', rp_shadowed = shadowed\<rparr>],
       sf_messages = (\<lambda>n. if n \<in> set shadowed then None else sf_messages s n)\<rparr>))))"

definition surface_apply :: "surface \<Rightarrow> session_event \<Rightarrow> session_event list \<Rightarrow> string + surface" where
  "surface_apply s e earlier =
     (let sources = (case se_sources e of None \<Rightarrow> [] | Some xs \<Rightarrow> xs) in
      rbind (surface_envelope e) (\<lambda>_.
      rbind (check_sources e earlier [] sources) (\<lambda>_.
      case se_surface_op e of
        None \<Rightarrow> project_message_event s e earlier
      | Some OpAppend \<Rightarrow> Inr (s\<lparr>sf_nodes := sf_nodes s @ [se_seq e]\<rparr>)
      | Some (OpReplace start end') \<Rightarrow> surface_replace s e earlier sources start end')))"

fun surface_fold_from :: "surface \<Rightarrow> session_event list \<Rightarrow> session_event list \<Rightarrow> string + surface" where
  "surface_fold_from s earlier [] = Inr s"
| "surface_fold_from s earlier (e # es) =
     rbind (surface_apply s e earlier) (\<lambda>s'. surface_fold_from s' (earlier @ [e]) es)"

definition surface_fold :: "session_event list \<Rightarrow> string + surface" where
  "surface_fold es = surface_fold_from surface_default [] es"

definition message_of :: "surface \<Rightarrow> session_event list \<Rightarrow> nat \<Rightarrow> json option" where
  "message_of s es seq = Option.bind (event_at es seq) (\<lambda>e.
     let data = (case sf_messages s seq of None \<Rightarrow> se_data e | Some d \<Rightarrow> d) in
     if se_type e = ''user/message'' then Some data
     else if se_type e = ''assistant/message'' \<or> se_type e = ''tool/result'' then json_get data ''message''
     else None)"

definition derive_messages :: "surface \<Rightarrow> session_event list \<Rightarrow> json list" where
  "derive_messages s es = List.map_filter (message_of s es) (sf_nodes s)"

section \<open>Closers of an interrupted turn\<close>

record pending_call =
  pk_id :: string
  pk_step :: nat
  pk_seq :: "nat option"

record recovery_tracker =
  rt_turn :: "nat option"
  rt_step :: "nat option"
  rt_pending :: "pending_call list"
  rt_next :: nat
  rt_time :: int

definition tracker_default :: recovery_tracker where
  "tracker_default = \<lparr>rt_turn = None, rt_step = None, rt_pending = [], rt_next = 0, rt_time = 0\<rparr>"

definition call_of_block :: "json \<Rightarrow> string option" where
  "call_of_block b = (if str_at b ''type'' = Some ''tool-call'' then str_at b ''id'' else None)"

definition drop_call :: "string \<Rightarrow> pending_call list \<Rightarrow> pending_call list" where
  "drop_call i ps = filter (\<lambda>p. pk_id p \<noteq> i) ps"

fun add_calls :: "nat \<Rightarrow> json list \<Rightarrow> pending_call list \<Rightarrow> pending_call list" where
  "add_calls step [] ps = ps"
| "add_calls step (b # bs) ps = add_calls step bs (case call_of_block b of
       None \<Rightarrow> ps
     | Some i \<Rightarrow> drop_call i ps @ [\<lparr>pk_id = i, pk_step = step, pk_seq = None\<rparr>])"

fun mark_started :: "string \<Rightarrow> nat \<Rightarrow> pending_call list \<Rightarrow> pending_call list" where
  "mark_started i n [] = []"
| "mark_started i n (p # ps) = (if pk_id p = i then p\<lparr>pk_seq := Some n\<rparr> # ps else p # mark_started i n ps)"

definition tracker_observe :: "recovery_tracker \<Rightarrow> session_event \<Rightarrow> recovery_tracker" where
  "tracker_observe r e =
     (let r = r\<lparr>rt_next := se_seq e + 1, rt_time := se_time e\<rparr>; ty = se_type e in
      if ty = ''turn/start'' then r\<lparr>rt_turn := count_at (se_data e) ''turn'', rt_step := None, rt_pending := []\<rparr>
      else if ty = ''turn/end'' then r\<lparr>rt_turn := None, rt_step := None, rt_pending := []\<rparr>
      else if ty = ''step/start'' then r\<lparr>rt_step := count_at (se_data e) ''step''\<rparr>
      else if ty = ''step/end'' then r\<lparr>rt_step := None, rt_pending := []\<rparr>
      else if ty = ''assistant/message'' then
        (case (count_at (se_data e) ''step'', Option.bind (pointer (se_data e) [''message'', ''content'']) as_array) of
           (Some step, Some blocks) \<Rightarrow> r\<lparr>rt_pending := add_calls step blocks (rt_pending r)\<rparr>
         | _ \<Rightarrow> r)
      else if ty = ''tool/call'' then
        (case str_at (se_data e) ''callId'' of
           Some i \<Rightarrow> r\<lparr>rt_pending := mark_started i (se_seq e) (rt_pending r)\<rparr> | None \<Rightarrow> r)
      else if ty = ''tool/result'' then
        (case Option.bind (pointer (se_data e) [''message'', ''source'', ''callId'']) as_str of
           Some i \<Rightarrow> r\<lparr>rt_pending := drop_call i (rt_pending r)\<rparr> | None \<Rightarrow> r)
      else r)"

definition track :: "session_event list \<Rightarrow> recovery_tracker" where
  "track es = foldl tracker_observe tracker_default es"

definition outcome_unknown_text :: string where
  "outcome_unknown_text = ''The tool call was interrupted after it was recorded, but no result was durably recorded. Its outcome is unknown. Decide whether to retry from the tool semantics: retry only if the operation is read-only or idempotent; if it may have side effects, first verify external state or ask the user. Do not retry blindly.''"

definition not_started_text :: string where
  "not_started_text = ''The tool call was interrupted before the Harness recorded it as started. Retry it if it is still needed.''"

definition call_closer :: "nat \<Rightarrow> int \<Rightarrow> nat \<Rightarrow> pending_call \<Rightarrow> session_event" where
  "call_closer turn time seq p =
     event_append (event_new ''tool/result'' seq time (JObj
       [(''turn'', jcount turn), (''step'', jcount (pk_step p)),
        (''message'', JObj
          [(''id'', JStr (''interrupted-tool-result-'' @ pk_id p @ ''-'' @ show_nat seq)), (''role'', JStr ''tool''),
           (''toolCallId'', JStr (pk_id p)), (''isError'', JBool True),
           (''content'', JArr [JObj [(''type'', JStr ''text''),
             (''text'', JStr (if pk_seq p = None then not_started_text else outcome_unknown_text))]]),
           (''source'', JObj [(''kind'', JStr ''tool''), (''callId'', JStr (pk_id p))])]),
        (''error'', if pk_seq p = None then JObj [(''name'', JStr ''ToolNotStartedError''), (''code'', JStr ''TOOL_NOT_STARTED'')]
          else JObj [(''name'', JStr ''ToolOutcomeUnknownError''), (''code'', JStr ''TOOL_OUTCOME_UNKNOWN'')])]))
     (case pk_seq p of None \<Rightarrow> [] | Some n \<Rightarrow> [n])"

fun call_closers :: "nat \<Rightarrow> int \<Rightarrow> nat \<Rightarrow> pending_call list \<Rightarrow> session_event list" where
  "call_closers turn time seq [] = []"
| "call_closers turn time seq (p # ps) = call_closer turn time seq p # call_closers turn time (seq + 1) ps"

definition step_closer :: "nat \<Rightarrow> int \<Rightarrow> nat \<Rightarrow> nat \<Rightarrow> session_event" where
  "step_closer turn time seq step = event_new ''step/end'' seq time (JObj [(''turn'', jcount turn), (''step'', jcount step)])"

definition turn_closer :: "nat \<Rightarrow> int \<Rightarrow> nat \<Rightarrow> session_event" where
  "turn_closer turn time seq = event_new ''turn/end'' seq time
     (JObj [(''turn'', jcount turn), (''reason'', JObj [(''kind'', JStr ''interrupted'')])])"

definition closers :: "recovery_tracker \<Rightarrow> session_event list" where
  "closers r = (case rt_turn r of
     None \<Rightarrow> []
   | Some turn \<Rightarrow>
       let n = rt_next r + length (rt_pending r) in
       call_closers turn (rt_time r) (rt_next r) (rt_pending r)
       @ (case rt_step r of
            None \<Rightarrow> [turn_closer turn (rt_time r) n]
          | Some step \<Rightarrow> [step_closer turn (rt_time r) n step, turn_closer turn (rt_time r) (n + 1)]))"

definition interrupted_turn_closers :: "session_event list \<Rightarrow> session_event list" where
  "interrupted_turn_closers es = closers (track es)"

section \<open>The tail that may be rewound\<close>

definition is_rewindable_observation :: "session_event \<Rightarrow> bool" where
  "is_rewindable_observation e \<longleftrightarrow> se_type e \<in> {''assistant/attempt'', ''assistant/chunk'', ''assistant/message'',
     ''request/context'', ''request/header'', ''system/message'', ''step/start'', ''step/end'', ''llm/retry'', ''llm/retry-started''}"

fun last_index :: "('a \<Rightarrow> bool) \<Rightarrow> 'a list \<Rightarrow> nat option" where
  "last_index P [] = None"
| "last_index P (x # xs) = (case last_index P xs of Some n \<Rightarrow> Some (Suc n) | None \<Rightarrow> if P x then Some 0 else None)"

definition one_text :: "json \<Rightarrow> bool" where
  "one_text data \<longleftrightarrow> (case Option.bind (json_get data ''content'') as_array of
     Some [b] \<Rightarrow> str_at b ''type'' = Some ''text'' \<and> \<not> missing_or_empty (str_at b ''text'')
   | _ \<Rightarrow> False)"

definition aborted_by_user :: "session_event \<Rightarrow> nat \<Rightarrow> bool" where
  "aborted_by_user e turn \<longleftrightarrow> (case event_spec_of (se_type e) of None \<Rightarrow> False | Some s \<Rightarrow> sp_replay s = ReplayTurnEnd)
     \<and> count_at (se_data e) ''turn'' = Some turn
     \<and> Option.bind (pointer (se_data e) [''reason'', ''kind'']) as_str = Some ''aborted''
     \<and> Option.bind (pointer (se_data e) [''reason'', ''reason'']) as_str = Some ''user''"

definition typed_by_user :: "session_event \<Rightarrow> nat \<Rightarrow> bool" where
  "typed_by_user e message_seq \<longleftrightarrow> (case event_spec_of (se_type e) of None \<Rightarrow> False | Some s \<Rightarrow> sp_replay s = ReplayUserMessage)
     \<and> se_seq e = message_seq
     \<and> Option.bind (pointer (se_data e) [''source'', ''kind'']) as_str = Some ''user''"

definition last_aborted_text_turn :: "session_event list \<Rightarrow> nat \<Rightarrow> nat option" where
  "last_aborted_text_turn es message_seq =
     Option.bind (last_index (\<lambda>e. case event_spec_of (se_type e) of None \<Rightarrow> False | Some s \<Rightarrow> sp_replay s = ReplayTurnStart) es) (\<lambda>start.
     let tail = drop (start + 1) es in
     Option.bind (last_index (\<lambda>e. se_type e \<noteq> ''session/end-seed'') tail) (\<lambda>n.
     case take n tail of
       [] \<Rightarrow> None
     | user # rest \<Rightarrow>
         Option.bind (count_at (se_data (es ! start)) ''turn'') (\<lambda>turn.
         if \<not> aborted_by_user (tail ! n) turn \<or> \<not> typed_by_user user message_seq \<or> \<not> one_text (se_data user) then None
         else if list_all is_rewindable_observation rest then Some start else None)))"

end
