(* ===== verification/SessionSurfaceProps.thy ===== *)
theory SessionSurfaceProps
  imports SessionSurface SessionLogProps "HOL-Library.Multiset"
begin

text \<open>
  What the surface of a log and the closers of an interrupted turn promise.
\<close>

section \<open>The surface accounts for every message\<close>

definition surface_seqs :: "session_event list \<Rightarrow> nat list" where
  "surface_seqs es = map se_seq (filter (\<lambda>e. is_surface_type (se_type e)) es)"

text \<open>Every message of the log is visible or shadowed by one replacement.\<close>

definition accounted :: "surface \<Rightarrow> session_event list \<Rightarrow> bool" where
  "accounted s es \<longleftrightarrow> mset (sf_nodes s) + mset (concat (map rp_shadowed (sf_replacements s))) = mset (surface_seqs es)"

lemma surface_seqs_snoc [simp]:
  "surface_seqs (es @ [e]) = surface_seqs es @ (if is_surface_type (se_type e) then [se_seq e] else [])"
  by (simp add: surface_seqs_def)

lemma projection_keeps:
  "project_message_event s e earlier = Inr s' \<Longrightarrow> sf_nodes s' = sf_nodes s \<and> sf_replacements s' = sf_replacements s"
  by (auto simp: project_message_event_def prune_def offload_def split: option.splits projector.splits if_splits)

lemma split_shadowed:
  assumes "i \<le> j"
  shows "mset (take i xs) + mset (take (Suc j - i) (drop i xs)) + mset (drop (Suc j) xs) = mset xs"
proof -
  have "drop (Suc j) xs = drop (Suc j - i) (drop i xs)" using assms by simp
  then have "take i xs @ take (Suc j - i) (drop i xs) @ drop (Suc j) xs = xs"
    by (metis append_take_drop_id)
  then show ?thesis by (metis mset_append add.assoc)
qed

lemma surface_apply_accounted:
  assumes "accounted s earlier" "surface_apply s e earlier = Inr s'"
  shows "accounted s' (earlier @ [e])"
proof -
  have env: "surface_envelope e = Inr ()" using assms(2) by (simp add: surface_apply_def Let_def)
  show ?thesis
  proof (cases "se_surface_op e")
    case None
    then have "\<not> is_surface_type (se_type e)" using env by (auto simp: surface_envelope_def Let_def split: if_splits)
    moreover have "project_message_event s e earlier = Inr s'" using assms(2) None by (auto simp: surface_apply_def Let_def)
    ultimately show ?thesis using assms(1) projection_keeps[of s e earlier s'] by (simp add: accounted_def)
  next
    case (Some op)
    then have t: "is_surface_type (se_type e)" using env by (auto simp: surface_envelope_def Let_def split: if_splits)
    show ?thesis
    proof (cases op)
      case OpAppend
      with Some assms(2) have "s' = s\<lparr>sf_nodes := sf_nodes s @ [se_seq e]\<rparr>" by (auto simp: surface_apply_def Let_def)
      with assms(1) t show ?thesis by (simp add: accounted_def)
    next
      case (OpReplace a b)
      then obtain sources where "surface_replace s e earlier sources a b = Inr s'"
        using Some assms(2) by (auto simp: surface_apply_def Let_def)
      then obtain i j where ij: "i \<le> j" and s': "sf_nodes s' = take i (sf_nodes s) @ [se_seq e] @ drop (Suc j) (sf_nodes s)"
          "concat (map rp_shadowed (sf_replacements s'))
            = concat (map rp_shadowed (sf_replacements s)) @ take (Suc j - i) (drop i (sf_nodes s))"
        by (auto simp: surface_replace_def Let_def)
      have "mset (sf_nodes s') + mset (concat (map rp_shadowed (sf_replacements s')))
          = (mset (take i (sf_nodes s)) + mset (take (Suc j - i) (drop i (sf_nodes s))) + mset (drop (Suc j) (sf_nodes s)))
            + mset (concat (map rp_shadowed (sf_replacements s))) + {#se_seq e#}"
        unfolding s' by (simp add: ac_simps)
      then show ?thesis using assms(1) t by (simp add: split_shadowed[OF ij] accounted_def)
    qed
  qed
qed

lemma surface_fold_from_accounted:
  "accounted s earlier \<Longrightarrow> surface_fold_from s earlier es = Inr s' \<Longrightarrow> accounted s' (earlier @ es)"
proof (induction s earlier es rule: surface_fold_from.induct)
  case (2 s earlier e es)
  then obtain s1 where "surface_apply s e earlier = Inr s1" "surface_fold_from s1 (earlier @ [e]) es = Inr s'" by auto
  with 2 surface_apply_accounted show ?case by fastforce
qed simp

lemma surface_fold_accounted: "surface_fold es = Inr s \<Longrightarrow> accounted s es"
  using surface_fold_from_accounted[of surface_default "[]" es s]
  by (simp add: surface_fold_def accounted_def surface_default_def surface_seqs_def)

text \<open>C11: in a log numbered from zero every message of the conversation is either visible, once, or
  listed as shadowed by one replacement: nothing drops out of the model's view unrecorded.\<close>

theorem surface_accounts_for_messages:
  assumes "surface_fold es = Inr s" "map se_seq es = [0..<length es]"
  shows "distinct (sf_nodes s @ concat (map rp_shadowed (sf_replacements s)))
    \<and> set (sf_nodes s @ concat (map rp_shadowed (sf_replacements s))) = {n. n < length es \<and> is_surface_type (se_type (es ! n))}"
proof -
  have seq: "se_seq (es ! n) = n" if "n < length es" for n
    using assms(2) that by (metis add_0 nth_map nth_upt)
  have "distinct (map se_seq es)" using assms(2) by simp
  then have d: "distinct (surface_seqs es)" unfolding surface_seqs_def by (rule distinct_map_filter)
  have "set (surface_seqs es) = {n. n < length es \<and> is_surface_type (se_type (es ! n))}"
    using seq by (auto simp: surface_seqs_def in_set_conv_nth image_iff) (metis nth_mem)
  moreover have m: "mset (sf_nodes s @ concat (map rp_shadowed (sf_replacements s))) = mset (surface_seqs es)"
    using surface_fold_accounted[OF assms(1)] by (simp add: accounted_def)
  ultimately show ?thesis using d by (metis mset_eq_imp_distinct_iff mset_eq_setD)
qed

section \<open>Closing an interrupted turn\<close>

lemma track_snoc [simp]: "track (es @ [e]) = tracker_observe (track es) e"
  by (simp add: track_def)

lemma observe_next [simp]: "rt_next (tracker_observe r e) = se_seq e + 1" "rt_time (tracker_observe r e) = se_time e"
  by (simp_all add: tracker_observe_def Let_def split: option.splits)

text \<open>What the tracker knows: distinct calls, started before the next entry.\<close>

definition started_before :: "nat \<Rightarrow> pending_call \<Rightarrow> bool" where
  "started_before k p \<longleftrightarrow> (case pk_seq p of None \<Rightarrow> True | Some n \<Rightarrow> n < k)"

definition tracker_ok :: "recovery_tracker \<Rightarrow> bool" where
  "tracker_ok r \<longleftrightarrow> distinct (map pk_id (rt_pending r))
     \<and> list_all (started_before (rt_next r)) (rt_pending r)"

lemma drop_call_pending:
  "distinct (map pk_id ps) \<Longrightarrow> distinct (map pk_id (drop_call i ps))" "i \<notin> pk_id ` set (drop_call i ps)"
  "set (drop_call i ps) \<subseteq> set ps"
  by (auto simp: drop_call_def distinct_map_filter)

lemma add_calls_distinct: "distinct (map pk_id ps) \<Longrightarrow> distinct (map pk_id (add_calls step bs ps))"
  by (induction step bs ps rule: add_calls.induct) (use drop_call_pending(1,2) in \<open>auto split: option.splits\<close>)

lemma add_calls_seq: "p \<in> set (add_calls step bs ps) \<Longrightarrow> p \<in> set ps \<or> pk_seq p = None"
  by (induction step bs ps rule: add_calls.induct) (use drop_call_pending(3) in \<open>fastforce split: option.splits\<close>)+

lemmas add_calls_pending = add_calls_distinct add_calls_seq

lemma mark_started_pending:
  "map pk_id (mark_started i n ps) = map pk_id ps"
  "p \<in> set (mark_started i n ps) \<Longrightarrow> p \<in> set ps \<or> pk_seq p = Some n"
  by (induction i n ps rule: mark_started.induct) (auto split: if_splits)

lemma tracker_observe_ok:
  assumes "tracker_ok r" "rt_next r = se_seq e"
  shows "tracker_ok (tracker_observe r e)"
proof -
  have old: "\<forall>p\<in>set (rt_pending r). started_before (se_seq e + 1) p"
    using assms by (auto simp: tracker_ok_def list_all_iff started_before_def split: option.splits)
  have d: "distinct (map pk_id (rt_pending r))" using assms(1) by (simp add: tracker_ok_def)
  have pending: "rt_pending (tracker_observe r e) \<in> {[], rt_pending r}
      \<or> (\<exists>step blocks. rt_pending (tracker_observe r e) = add_calls step blocks (rt_pending r))
      \<or> (\<exists>i. rt_pending (tracker_observe r e) \<in> {mark_started i (se_seq e) (rt_pending r), drop_call i (rt_pending r)})"
    by (auto simp: tracker_observe_def Let_def split: option.splits)
  then consider "rt_pending (tracker_observe r e) \<in> {[], rt_pending r}"
    | step blocks where "rt_pending (tracker_observe r e) = add_calls step blocks (rt_pending r)"
    | i where "rt_pending (tracker_observe r e) = mark_started i (se_seq e) (rt_pending r)"
    | i where "rt_pending (tracker_observe r e) = drop_call i (rt_pending r)" by blast
  then show ?thesis
  proof cases
    case 1 then show ?thesis using old d by (auto simp: tracker_ok_def list_all_iff )
  next
    case 2
    have "started_before (se_seq e + 1) p" if "p \<in> set (add_calls step blocks (rt_pending r))" for p
      using add_calls_pending(2)[OF that] old by (auto simp: started_before_def)
    then show ?thesis using 2 add_calls_pending(1)[OF d] by (simp add: tracker_ok_def list_all_iff)
  next
    case 3
    have "started_before (se_seq e + 1) p" if "p \<in> set (mark_started i (se_seq e) (rt_pending r))" for p
      using mark_started_pending(2)[OF that] old by (auto simp: started_before_def)
    then show ?thesis using 3 d by (simp add: tracker_ok_def list_all_iff mark_started_pending(1))
  next
    case 4
    have "started_before (se_seq e + 1) p" if "p \<in> set (drop_call i (rt_pending r))" for p
      using that drop_call_pending(3) old by blast
    then show ?thesis using 4 d drop_call_pending(1) by (simp add: tracker_ok_def list_all_iff)
  qed
qed

lemma track_ok: "map se_seq es = [0..<length es] \<Longrightarrow> tracker_ok (track es) \<and> rt_next (track es) = length es"
proof (induction es rule: rev_induct)
  case (snoc e es)
  then have "tracker_ok (track es)" "rt_next (track es) = length es" "se_seq e = length es" by simp_all
  then show ?case using tracker_observe_ok[of "track es" e] by simp
qed (simp add: track_def tracker_default_def tracker_ok_def)

lemma closers_balanced: "interrupted_turn_closers (es @ interrupted_turn_closers es) = []"
proof (cases "rt_turn (track es)")
  case (Some turn)
  then obtain cs t where cs: "interrupted_turn_closers es = cs @ [t]" "se_type t = ''turn/end''"
    by (cases "rt_step (track es)") (auto simp: interrupted_turn_closers_def closers_def turn_closer_def event_new_def Let_def)
  have "rt_turn (track ((es @ cs) @ [t])) = None" using cs(2) by (simp only: track_snoc) (simp add: tracker_observe_def)
  then show ?thesis by (simp add: cs(1)) (simp add: interrupted_turn_closers_def closers_def)
qed (simp add: interrupted_turn_closers_def closers_def)

subsection \<open>Numbers that fit\<close>

definition count64 :: "nat \<Rightarrow> bool" where
  "count64 n \<longleftrightarrow> n < 18446744073709551616"

lemma as_nat64_bound: "as_nat64 j = Some n \<Longrightarrow> count64 n"
  using unat_u64 by (auto simp: as_nat64_def count64_def)

lemma count_at_bound: "count_at j k = Some n \<Longrightarrow> count64 n"
  by (auto simp: count_at_def bind_eq_Some_conv as_nat64_bound)

definition tracker_counts :: "recovery_tracker \<Rightarrow> bool" where
  "tracker_counts r \<longleftrightarrow> pred_option count64 (rt_turn r) \<and> pred_option count64 (rt_step r)
     \<and> list_all (\<lambda>p. count64 (pk_step p)) (rt_pending r)"

lemma add_calls_counts:
  "count64 step \<Longrightarrow> list_all (\<lambda>p. count64 (pk_step p)) ps \<Longrightarrow> list_all (\<lambda>p. count64 (pk_step p)) (add_calls step bs ps)"
proof (induction step bs ps rule: add_calls.induct)
  case (2 step b bs ps)
  then show ?case by (cases "call_of_block b") (simp_all add: list_all_iff drop_call_def)
qed simp

lemma mark_started_counts:
  "list_all (\<lambda>p. count64 (pk_step p)) ps \<Longrightarrow> list_all (\<lambda>p. count64 (pk_step p)) (mark_started i n ps)"
  by (induction i n ps rule: mark_started.induct) auto

lemma drop_call_counts:
  "list_all (\<lambda>p. count64 (pk_step p)) ps \<Longrightarrow> list_all (\<lambda>p. count64 (pk_step p)) (drop_call i ps)"
  by (simp add: list_all_iff drop_call_def)

lemma pred_count_at: "pred_option count64 (count_at j k)"
  using count_at_bound by (cases "count_at j k") auto

lemma observe_scope:
  "pred_option count64 (rt_turn r) \<Longrightarrow> pred_option count64 (rt_turn (tracker_observe r e))"
  "pred_option count64 (rt_step r) \<Longrightarrow> pred_option count64 (rt_step (tracker_observe r e))"
  using pred_count_at by (simp_all add: tracker_observe_def Let_def split: option.splits)

lemma observe_pending:
  "rt_pending (tracker_observe r e) \<in> {[], rt_pending r}
    \<or> (\<exists>step blocks. count64 step \<and> rt_pending (tracker_observe r e) = add_calls step blocks (rt_pending r))
    \<or> (\<exists>i. rt_pending (tracker_observe r e) \<in> {mark_started i (se_seq e) (rt_pending r), drop_call i (rt_pending r)})"
  using count_at_bound[of "se_data e" "''step''"] by (auto simp: tracker_observe_def Let_def split: option.splits)

lemma tracker_observe_counts: "tracker_counts r \<Longrightarrow> tracker_counts (tracker_observe r e)"
  using observe_scope[of r e] observe_pending[of r e] add_calls_counts mark_started_counts drop_call_counts
  unfolding tracker_counts_def by force

lemma track_counts: "tracker_counts (track es)"
  by (induction es rule: rev_induct) (simp_all add: tracker_observe_counts, simp add: track_def tracker_default_def tracker_counts_def)

subsection \<open>The closers are entries of the log\<close>

lemma call_closer_fields [simp]:
  "se_seq (call_closer turn t n p) = n" "se_type (call_closer turn t n p) = ''tool/result''" "se_time (call_closer turn t n p) = t"
  "se_surface_op (call_closer turn t n p) = Some OpAppend" "se_extra (call_closer turn t n p) = []"
  "se_ignorable (call_closer turn t n p) = None" "se_sources (call_closer turn t n p) = map_option (\<lambda>k. [k]) (pk_seq p)"
  by (simp_all add: call_closer_def event_append_def event_new_def split: option.splits)

lemma call_closers_seqs [simp]:
  "map se_seq (call_closers turn t n ps) = [n..<n + length ps]" "length (call_closers turn t n ps) = length ps"
  by (induction turn t n ps rule: call_closers.induct) (simp_all del: upt_Suc add: upt_conv_Cons)

lemma closers_seqs: "map se_seq (closers r) = [rt_next r..<rt_next r + length (closers r)]"
  by (simp add: closers_def Let_def step_closer_def turn_closer_def event_new_def split: option.splits)

lemma call_closer_ok:
  "n \<le> max_safe \<Longrightarrow> - int max_safe \<le> t \<Longrightarrow> t \<le> int max_safe \<Longrightarrow> started_before n p \<Longrightarrow> event_ok (call_closer turn t n p)"
  by (cases "pk_seq p") (simp_all add: event_ok_def started_before_def)

lemma started_before_mono: "started_before k p \<Longrightarrow> k \<le> m \<Longrightarrow> started_before m p"
  by (auto simp: started_before_def split: option.splits)

lemma call_closers_ok:
  "n + length ps \<le> max_safe + 1 \<Longrightarrow> - int max_safe \<le> t \<Longrightarrow> t \<le> int max_safe \<Longrightarrow> list_all (started_before n) ps \<Longrightarrow>
    list_all event_ok (call_closers turn t n ps)"
proof (induction turn t n ps rule: call_closers.induct)
  case (2 turn t n p ps)
  then have "list_all (started_before (n + 1)) ps" using started_before_mono[of n _ "n + 1"] by (auto simp: list_all_iff)
  with 2 show ?case by (simp add: call_closer_ok)
qed simp

lemma closers_ok:
  assumes "tracker_ok r" "- int max_safe \<le> rt_time r" "rt_time r \<le> int max_safe" "rt_next r + length (closers r) \<le> max_safe + 1"
  shows "list_all event_ok (closers r)"
proof (cases "rt_turn r")
  case (Some turn)
  then have "rt_next r + length (rt_pending r) \<le> max_safe" using assms(4) by (simp add: closers_def Let_def split: option.splits)
  then show ?thesis using assms Some call_closers_ok[of "rt_next r" "rt_pending r" "rt_time r" turn]
    by (auto simp: closers_def Let_def tracker_ok_def step_closer_def turn_closer_def event_new_def event_ok_def split: option.splits)
qed (simp add: closers_def)

subsection \<open>They keep the surface\<close>

lemma surface_fold_from_append:
  "surface_fold_from s earlier (xs @ ys)
    = rbind (surface_fold_from s earlier xs) (\<lambda>s'. surface_fold_from s' (earlier @ xs) ys)"
proof (induction xs arbitrary: s earlier)
  case (Cons e es)
  then show ?case by (cases "surface_apply s e earlier") simp_all
qed simp

lemma closer_seats:
  "event_spec_of ''tool/result'' = Some (seat (Some VToolResult) True ReplayToolResult False)"
  "event_spec_of ''step/end'' = Some (seat (Some VStep) False ReplaySkip False)"
  "event_spec_of ''turn/end'' = Some (seat (Some VTurn) False ReplayTurnEnd False)"
  by code_simp+

lemma surface_types [simp]:
  "is_surface_type ''tool/result''" "\<not> is_surface_type ''step/end''" "\<not> is_surface_type ''turn/end''"
  by (simp_all add: is_surface_type_def closer_seats seat_def)

lemma closers_surface_calls:
  "length earlier = n \<Longrightarrow> list_all (started_before n) ps \<Longrightarrow>
    surface_fold_from s earlier (call_closers turn t n ps) = Inr (s\<lparr>sf_nodes := sf_nodes s @ [n..<n + length ps]\<rparr>)"
proof (induction turn t n ps arbitrary: s earlier rule: call_closers.induct)
  case (2 turn t n p ps)
  have "surface_apply s (call_closer turn t n p) earlier = Inr (s\<lparr>sf_nodes := sf_nodes s @ [n]\<rparr>)"
    using 2(2,3) by (cases "pk_seq p")
      (simp_all add: surface_apply_def surface_envelope_def started_before_def event_at_def)
  moreover have "list_all (started_before (n + 1)) ps"
    using 2(3) started_before_mono[of n _ "n + 1"] by (auto simp: list_all_iff)
  ultimately show ?case using 2(1)[of "earlier @ [call_closer turn t n p]" "s\<lparr>sf_nodes := sf_nodes s @ [n]\<rparr>"] 2(2)
    by (simp del: upt_Suc add: upt_conv_Cons)
qed simp

lemma plain_closer_applies:
  "se_surface_op e = None \<Longrightarrow> se_sources e = None \<Longrightarrow> se_type e \<in> {''step/end'', ''turn/end''} \<Longrightarrow> surface_apply s e earlier = Inr s"
  by (auto simp: surface_apply_def surface_envelope_def project_message_event_def closer_seats seat_def)

lemma closers_surface:
  assumes "tracker_ok r" "length earlier = rt_next r" "rt_turn r \<noteq> None"
  shows "surface_fold_from s earlier (closers r) = Inr (s\<lparr>sf_nodes := sf_nodes s @ [rt_next r..<rt_next r + length (rt_pending r)]\<rparr>)"
  using assms closers_surface_calls[of earlier "rt_next r" "rt_pending r"]
  by (auto simp: closers_def Let_def tracker_ok_def surface_fold_from_append plain_closer_applies step_closer_def turn_closer_def
    event_new_def split: option.splits)

subsection \<open>They are admitted\<close>

lemma admit_append:
  "admit_events_for_version E xs v = Some (Inr ()) \<Longrightarrow> admit_events_for_version E (xs @ ys) v = admit_events_for_version E ys v"
  by (induction xs) (auto split: option.splits sum.splits)

lemma require_u64_count: "count64 n \<Longrightarrow> json_get j k = Some (jcount n) \<Longrightarrow> require_u64 j k = Inr n"
  by (simp add: require_u64_def count_at_def count64_def)

lemma closer_windows:
  "''tool/result'' \<notin> set retired_event_types" "''step/end'' \<notin> set retired_event_types" "''turn/end'' \<notin> set retired_event_types"
  "outside_generation_window ''tool/result'' 4 = None" "outside_generation_window ''step/end'' 4 = None"
  "outside_generation_window ''turn/end'' 4 = None"
  by code_simp+

lemma closer_admission:
  "se_type e = ''tool/result'' \<Longrightarrow> tool_result_payload e 4 = Inr () \<Longrightarrow> admit_event E 4 e = Some (Inr ())"
  "se_type e = ''step/end'' \<Longrightarrow> validate_step e = Inr () \<Longrightarrow> admit_event E 4 e = Some (Inr ())"
  "se_type e = ''turn/end'' \<Longrightarrow> validate_turn e = Inr () \<Longrightarrow> admit_event E 4 e = Some (Inr ())"
  by (simp_all add: admit_event_def closer_windows closer_seats spec_validate_def seat_def Let_def)

lemma call_closer_data:
  "json_get (se_data (call_closer turn t n p)) ''turn'' = Some (jcount turn)"
  "json_get (se_data (call_closer turn t n p)) ''step'' = Some (jcount (pk_step p))"
  by (simp_all add: call_closer_def event_append_def event_new_def)

lemma call_closer_validate:
  "count64 turn \<Longrightarrow> count64 (pk_step p) \<Longrightarrow> validate_step (call_closer turn t n p) = Inr ()"
  by (simp add: validate_step_def require_u64_count call_closer_data)

definition closer_message :: "nat \<Rightarrow> pending_call \<Rightarrow> (string \<times> json) list" where
  "closer_message n p =
     [(''id'', JStr (''interrupted-tool-result-'' @ pk_id p @ ''-'' @ show_nat n)), (''role'', JStr ''tool''),
      (''toolCallId'', JStr (pk_id p)), (''isError'', JBool True),
      (''content'', JArr [JObj [(''type'', JStr ''text''),
        (''text'', JStr (if pk_seq p = None then not_started_text else outcome_unknown_text))]]),
      (''source'', JObj [(''kind'', JStr ''tool''), (''callId'', JStr (pk_id p))])]"

lemma call_closer_message: "json_get (se_data (call_closer turn t n p)) ''message'' = Some (JObj (closer_message n p))"
  by (simp add: call_closer_def event_append_def event_new_def closer_message_def)

lemma closer_message_blocks:
  "require_content_array (closer_message n p) = Inr [JObj [(''type'', JStr ''text''),
      (''text'', JStr (if pk_seq p = None then not_started_text else outcome_unknown_text))]]"
  "validate_v4_blocks (closer_message n p) False = Inr ()" "\<not> has_block ''tool-result'' (closer_message n p)"
  by (simp_all add: validate_v4_blocks_def require_content_array_def array_in_def closer_message_def check_block_def str_at_def
    check_v4_block_def has_block_def)

lemma call_closer_payload:
  "pk_id p \<noteq> [] \<Longrightarrow> tool_result_payload (call_closer turn t n p) 4 = validate_step (call_closer turn t n p)"
  by (simp add: tool_result_payload_def v4_tool_result_def require_object_def call_closer_message closer_message_blocks json_index_def)
    (simp add: closer_message_def str_in_def missing_or_empty_def)

lemma call_closer_admitted:
  assumes "count64 turn" "count64 (pk_step p)" "pk_id p \<noteq> []"
  shows "admit_event E 4 (call_closer turn t n p) = Some (Inr ())"
  using assms by (simp add: closer_admission(1) call_closer_payload call_closer_validate)

text \<open>Without an id the closer is refused: the repaired log cannot be loaded again.\<close>

lemma empty_call_id_refused:
  "admit_event E 4 (call_closer turn t n \<lparr>pk_id = [], pk_step = step, pk_seq = k\<rparr>)
    = Some (Inl (AdMalformedPayload ''tool/result'' n ''v4 tool/result requires a matching first-class tool message''))"
  by (simp add: admit_event_def closer_windows closer_seats spec_validate_def seat_def tool_result_payload_def v4_tool_result_def
    require_object_def call_closer_message json_index_def) (simp add: closer_message_def str_in_def missing_or_empty_def)

subsection \<open>The repaired log\<close>

lemma call_closers_admitted:
  assumes "count64 turn"
  shows "list_all (\<lambda>p. count64 (pk_step p) \<and> pk_id p \<noteq> []) ps \<Longrightarrow>
    admit_events_for_version E (call_closers turn t n ps @ rest) 4 = admit_events_for_version E rest 4"
proof (induction ps arbitrary: n)
  case (Cons p ps)
  then have "admit_event E 4 (call_closer turn t n p) = Some (Inr ())" by (intro call_closer_admitted) (use assms in simp_all)
  with Cons show ?case by simp
qed simp

lemma scope_closers_admitted:
  "count64 turn \<Longrightarrow> count64 step \<Longrightarrow> admit_event E 4 (step_closer turn t n step) = Some (Inr ())"
  "count64 turn \<Longrightarrow> admit_event E 4 (turn_closer turn t n) = Some (Inr ())"
  by (intro closer_admission(2,3);
      simp add: step_closer_def turn_closer_def event_new_def validate_step_def validate_turn_def require_u64_count)+

definition calls_named :: "recovery_tracker \<Rightarrow> bool" where
  "calls_named r \<longleftrightarrow> list_all (\<lambda>p. pk_id p \<noteq> []) (rt_pending r)"

lemma closers_admitted:
  assumes "tracker_counts r" "calls_named r"
  shows "admit_events_for_version E (closers r) 4 = Some (Inr ())"
proof (cases "rt_turn r")
  case (Some turn)
  have t: "count64 turn" using assms(1) Some by (simp add: tracker_counts_def)
  have ps: "list_all (\<lambda>p. count64 (pk_step p) \<and> pk_id p \<noteq> []) (rt_pending r)"
    using assms by (simp add: tracker_counts_def calls_named_def list_all_iff)
  show ?thesis
  proof (cases "rt_step r")
    case None
    then show ?thesis using Some by (simp add: closers_def Let_def call_closers_admitted[OF t ps] scope_closers_admitted(2)[OF t])
  next
    case (Some step)
    then have "count64 step" using assms(1) by (simp add: tracker_counts_def)
    then show ?thesis using Some \<open>rt_turn r = Some turn\<close>
      by (simp add: closers_def Let_def call_closers_admitted[OF t ps] scope_closers_admitted[OF t])
  qed
qed (simp add: closers_def)

lemma track_time: "list_all event_ok es \<Longrightarrow> - int max_safe \<le> rt_time (track es) \<and> rt_time (track es) \<le> int max_safe"
proof (cases es rule: rev_cases)
  case Nil
  then show ?thesis by (simp add: track_def tracker_default_def)
qed (simp add: event_ok_def)

lemma closers_log_ok:
  assumes "log_ok es" "length es + length (interrupted_turn_closers es) \<le> max_safe + 1"
  shows "log_ok (es @ interrupted_turn_closers es)"
proof -
  have es: "list_all event_ok es" "map se_seq es = [0..<length es]" using assms(1) by (simp_all add: log_ok_def)
  have t: "tracker_ok (track es)" "rt_next (track es) = length es" using track_ok es by blast+
  have "list_all event_ok (interrupted_turn_closers es)"
    unfolding interrupted_turn_closers_def
    by (rule closers_ok) (use t es track_time[OF es(1)] assms(2) in \<open>simp_all add: interrupted_turn_closers_def\<close>)
  moreover have "map se_seq (interrupted_turn_closers es) = [length es..<length es + length (interrupted_turn_closers es)]"
    using closers_seqs[of "track es"] unfolding interrupted_turn_closers_def t .
  moreover have "[0..<length es + k] = [0..<length es] @ [length es..<length es + k]" for k
    by (rule upt_add_eq_append) simp
  ultimately show ?thesis using es by (simp only: log_ok_def list_all_append map_append length_append)
qed

text \<open>The messages a repair adds: one result for every call that was open.\<close>

definition result_seqs :: "session_event list \<Rightarrow> nat list" where
  "result_seqs es = (if rt_turn (track es) = None then [] else [length es..<length es + length (rt_pending (track es))])"

lemma closers_fold:
  assumes "log_ok es" "surface_fold es = Inr s"
  shows "surface_fold (es @ interrupted_turn_closers es) = Inr (s\<lparr>sf_nodes := sf_nodes s @ result_seqs es\<rparr>)"
proof -
  have t: "tracker_ok (track es)" "rt_next (track es) = length es" using track_ok assms(1) by (simp_all add: log_ok_def)
  have "surface_fold_from s es (closers (track es)) = Inr (s\<lparr>sf_nodes := sf_nodes s @ result_seqs es\<rparr>)"
  proof (cases "rt_turn (track es)")
    case None
    then show ?thesis by (simp add: closers_def result_seqs_def)
  next
    case (Some turn)
    then show ?thesis using closers_surface[of "track es" es s] t by (simp add: result_seqs_def)
  qed
  then show ?thesis using assms(2) by (simp add: surface_fold_def surface_fold_from_append interrupted_turn_closers_def)
qed


section \<open>A log cut in a call\<close>

definition demo_turn :: "session_event list" where
  "demo_turn =
    [event_new ''turn/start'' 0 5 (JObj [(''turn'', JInt 1)]),
     event_new ''step/start'' 1 5 (JObj [(''turn'', JInt 1), (''step'', JInt 2)]),
     event_append (event_new ''assistant/message'' 2 6 (JObj [(''turn'', JInt 1), (''step'', JInt 2), (''message'', JObj
       [(''content'', JArr [JObj [(''type'', JStr ''tool-call''), (''id'', JStr ''c1'')]])])])) [],
     event_new ''tool/call'' 3 7 (JObj [(''callId'', JStr ''c1'')])]"

lemma demo_turn_ok: "log_ok demo_turn"
  by (simp add: log_ok_def event_ok_def demo_turn_def event_new_def event_append_def event_keys_def max_safe_def)

lemma demo_seats:
  "event_spec_of ''turn/start'' = Some (seat (Some VTurn) False ReplayTurnStart False)"
  "event_spec_of ''step/start'' = Some ((seat (Some VStep) False ReplaySkip False)\<lparr>sp_step := True\<rparr>)"
  "event_spec_of ''assistant/message'' = Some (seat (Some VAssistantMessage) True ReplayAssistantMessage False)"
  "event_spec_of ''tool/call'' = Some (seat (Some VToolCall) False ReplayToolCall False)"
  by code_simp+

lemma demo_turn_fold: "surface_fold demo_turn = Inr (surface_default\<lparr>sf_nodes := [2]\<rparr>)"
  by (simp add: surface_fold_def demo_turn_def event_new_def event_append_def surface_apply_def surface_envelope_def
    is_surface_type_def demo_seats seat_def project_message_event_def surface_default_def)

lemma demo_turn_track:
  "track demo_turn = \<lparr>rt_turn = Some 1, rt_step = Some 2, rt_pending = [\<lparr>pk_id = ''c1'', pk_step = 2, pk_seq = Some 3\<rparr>],
     rt_next = 4, rt_time = 7\<rparr>"
  by code_simp

lemma demo_turn_closers:
  "map se_type (interrupted_turn_closers demo_turn) = [''tool/result'', ''step/end'', ''turn/end'']"
  by (simp add: interrupted_turn_closers_def demo_turn_track closers_def Let_def step_closer_def turn_closer_def event_new_def)


lemma surface_accounts_for_messages_witness:
  "distinct (sf_nodes (surface_default\<lparr>sf_nodes := [2]\<rparr>) @ concat (map rp_shadowed (sf_replacements (surface_default\<lparr>sf_nodes := [2]\<rparr>))))
    \<and> {2} = {n. n < length demo_turn \<and> is_surface_type (se_type (demo_turn ! n))}"
  using surface_accounts_for_messages[OF demo_turn_fold] demo_turn_ok by (simp add: log_ok_def surface_default_def)

end
