(* ===== verification/SessionPath.thy ===== *)
theory SessionPath
  imports SessionEvent
begin

text \<open>
  Where a session lives: the escaping of project and session names (\<open>session/path_layout.rs\<close>), the
  key of a session (\<open>session/key.rs\<close>), the file names of the generations of a log
  (\<open>session/compat.rs\<close>), the choice of the log to read (\<open>resolve_log_in_dir\<close> of
  \<open>session/persistence.rs\<close>) and the inventory of the session root at startup
  (\<open>session/preflight.rs\<close>). Names are strings of UTF-8 bytes; \<open>chars_of\<close> and \<open>utf16_of\<close> are
  the views the source iterates over. A panic is \<open>None\<close>.
\<close>

section \<open>Views of a string\<close>

definition utf8_char :: "nat \<Rightarrow> string" where
  "utf8_char c =
     (if c < 128 then [char_of c]
      else if c < 2048 then [char_of (192 + c div 64), char_of (128 + c mod 64)]
      else if c < 65536 then [char_of (224 + c div 4096), char_of (128 + c div 64 mod 64), char_of (128 + c mod 64)]
      else [char_of (240 + c div 262144), char_of (128 + c div 4096 mod 64), char_of (128 + c div 64 mod 64),
        char_of (128 + c mod 64)])"

definition utf8_text :: "nat list \<Rightarrow> string" where
  "utf8_text cs = concat (map utf8_char cs)"

fun char_code :: "char \<Rightarrow> nat" where
  "char_code c = of_char c"

text \<open>The code points of a string, which is known to be valid UTF-8.\<close>

fun chars_of :: "string \<Rightarrow> nat list" where
  "chars_of [] = []"
| "chars_of [a] = [char_code a]"
| "chars_of (a # b # s) =
     (if char_code a < 128 then char_code a # chars_of (b # s)
      else if char_code a < 224 then ((char_code a - 192) * 64 + (char_code b - 128)) # chars_of s
      else if char_code a < 240 then (case s of
          c # s' \<Rightarrow> ((char_code a - 224) * 4096 + (char_code b - 128) * 64 + (char_code c - 128)) # chars_of s'
        | [] \<Rightarrow> [])
      else (case s of
          c # d # s' \<Rightarrow> ((char_code a - 240) * 262144 + (char_code b - 128) * 4096 + (char_code c - 128) * 64 + (char_code d - 128)) # chars_of s'
        | _ \<Rightarrow> []))"

definition utf16_char :: "nat \<Rightarrow> nat list" where
  "utf16_char c = (if c < 65536 then [c] else [55296 + (c - 65536) div 1024, 56320 + (c - 65536) mod 1024])"

definition utf16_of :: "string \<Rightarrow> nat list" where
  "utf16_of s = concat (map utf16_char (chars_of s))"

definition is_surrogate :: "nat \<Rightarrow> bool" where
  "is_surrogate u \<longleftrightarrow> 55296 \<le> u \<and> u < 57344"

text \<open>\<open>String::from_utf16\<close>\<close>

fun from_utf16 :: "nat list \<Rightarrow> nat list option" where
  "from_utf16 [] = Some []"
| "from_utf16 (u # us) =
     (if \<not> is_surrogate u then map_option (Cons u) (from_utf16 us)
      else if u < 56320 then (case us of
          v # vs \<Rightarrow> if 56320 \<le> v \<and> v < 57344
            then map_option (Cons (65536 + (u - 55296) * 1024 + (v - 56320))) (from_utf16 vs) else None
        | [] \<Rightarrow> None)
      else None)"

section \<open>Escaping\<close>

definition hex_digit :: "nat \<Rightarrow> char" where
  "hex_digit n = (if n < 10 then char_of (48 + n) else char_of (55 + n))"

definition escape_unit :: "nat \<Rightarrow> string" where
  "escape_unit u = [CHR ''~'', hex_digit (u div 4096), hex_digit (u div 256 mod 16), hex_digit (u div 16 mod 16), hex_digit (u mod 16)]"

definition safe_unit :: "nat \<Rightarrow> bool" where
  "safe_unit u \<longleftrightarrow> 48 \<le> u \<and> u \<le> 57 \<or> 65 \<le> u \<and> u \<le> 90 \<or> 97 \<le> u \<and> u \<le> 122 \<or> u = 46 \<or> u = 95 \<or> u = 45"

definition push_unit :: "nat \<Rightarrow> string" where
  "push_unit u = (if \<not> is_surrogate u \<and> safe_unit u then [char_of u] else escape_unit u)"

definition encode_segment :: "string \<Rightarrow> string option" where
  "encode_segment raw =
     (if raw = [] then None
      else if raw = ''.'' then Some ''~002E''
      else if raw = ''..'' then Some ''~002E~002E''
      else Some (concat (map push_unit (utf16_of raw))))"

fun readable_key :: "bool \<Rightarrow> nat list \<Rightarrow> string" where
  "readable_key run [] = []"
| "readable_key run (u # us) =
     (if is_surrogate u then escape_unit u @ readable_key False us
      else if u \<in> {47, 92, 58} then (if run then [] else ''-'') @ readable_key True us
      else push_unit u @ readable_key False us)"

text \<open>The slug is ASCII, so its UTF-16 units are its bytes.\<close>

definition project_key :: "string \<Rightarrow> string option" where
  "project_key cwd =
     (if cwd = [] then None
      else let stripped = dropWhile (\<lambda>c. c = CHR ''-'') (readable_key False (utf16_of cwd));
        slug = (if stripped = [] then ''root'' else stripped) in
      Some (''--'' @ take 251 slug @ ''--''))"

definition unhex :: "nat \<Rightarrow> nat option" where
  "unhex c = (if 48 \<le> c \<and> c \<le> 57 then Some (c - 48) else if 65 \<le> c \<and> c \<le> 70 then Some (c - 55) else None)"

fun hex_number :: "nat \<Rightarrow> nat list \<Rightarrow> nat option" where
  "hex_number n [] = Some n"
| "hex_number n (c # cs) = (case unhex c of None \<Rightarrow> None | Some d \<Rightarrow> hex_number (16 * n + d) cs)"

text \<open>The buffer of a character holds two bytes: a longer character panics.\<close>

fun decode_units :: "nat list \<Rightarrow> nat list option option" where
  "decode_units [] = Some (Some [])"
| "decode_units (c # cs) =
     (if c \<noteq> 126 then (if 2048 \<le> c then None else map_option (map_option (Cons c)) (decode_units cs))
      else case cs of
          p # q # r # s # rest \<Rightarrow> (case hex_number 0 [p, q, r, s] of
              None \<Rightarrow> Some None
            | Some u \<Rightarrow> map_option (map_option (Cons u)) (decode_units rest))
        | _ \<Rightarrow> Some None)"

definition decode_segment :: "string \<Rightarrow> string option option" where
  "decode_segment encoded =
     (if encoded = [] then Some None
      else case decode_units (chars_of encoded) of
          None \<Rightarrow> None
        | Some None \<Rightarrow> Some None
        | Some (Some us) \<Rightarrow> Some (map_option utf8_text (from_utf16 us)))"

section \<open>Generations of a log\<close>

datatype compression = Zstd | Plain

definition generation_log_file_name :: "nat \<Rightarrow> compression \<Rightarrow> string" where
  "generation_log_file_name version c =
     (let base' = (if version = 0 then ''session.jsonl'' else ''session.v'' @ show_nat version @ ''.jsonl'') in
      case c of Zstd \<Rightarrow> base' @ ''.zstd'' | Plain \<Rightarrow> base')"

definition log_file_name :: "compression \<Rightarrow> string" where
  "log_file_name c = (case c of Zstd \<Rightarrow> ''session.v4.jsonl.zstd'' | Plain \<Rightarrow> ''session.v4.jsonl'')"

definition str_strip_prefix :: "string \<Rightarrow> string \<Rightarrow> string option" where
  "str_strip_prefix p s = (if starts_with p s then Some (drop (length p) s) else None)"

definition str_strip_suffix :: "string \<Rightarrow> string \<Rightarrow> string option" where
  "str_strip_suffix p s = (if ends_with p s then Some (take (length s - length p) s) else None)"

definition digits_value :: "string \<Rightarrow> nat" where
  "digits_value ds = foldl (\<lambda>n c. 10 * n + (char_code c - 48)) 0 ds"

definition parse_generation_log_file_name :: "string \<Rightarrow> compression \<Rightarrow> nat option" where
  "parse_generation_log_file_name name c =
     Option.bind (case c of Zstd \<Rightarrow> str_strip_suffix ''.zstd'' name | Plain \<Rightarrow> Some name) (\<lambda>raw.
     if raw = ''session.jsonl'' then Some 0
     else Option.bind (str_strip_prefix ''session.v'' raw) (\<lambda>r. Option.bind (str_strip_suffix ''.jsonl'' r) (\<lambda>digits.
       if digits = [] \<or> starts_with ''0'' digits \<or> \<not> list_all is_digit digits then None
       else if digits_value digits < 4294967296 then Some (digits_value digits) else None)))"

section \<open>The key of a session\<close>

record project_id =
  pj_cwd :: "string option"
  pj_bucket :: string

record session_key =
  sk_project :: project_id
  sk_id :: string

definition key_from_cwd :: "string \<Rightarrow> project_id option" where
  "key_from_cwd cwd = map_option (\<lambda>b. \<lparr>pj_cwd = Some cwd, pj_bucket = b\<rparr>) (project_key cwd)"

definition key_no_cwd :: project_id where
  "key_no_cwd = \<lparr>pj_cwd = None, pj_bucket = ''_no-cwd''\<rparr>"

datatype session_error = SxUnsupported string | SxReadOnly bool | SxCorruption string | SxNotFound string | SxConflict string
  | SxEncodingMismatch string | SxLegacyLayout string | SxIo string

definition expected_bucket :: "string option \<Rightarrow> session_error + string" where
  "expected_bucket cwd = (case cwd of
       None \<Rightarrow> Inr ''_no-cwd''
     | Some c \<Rightarrow> ok_or (project_key c) (SxCorruption ''session cwd must not be empty when deriving its project bucket''))"

definition validate_key_witness :: "session_key \<Rightarrow> session_error + unit" where
  "validate_key_witness key =
     rbind (ensure (sk_id key \<noteq> []) (SxCorruption ''session id must not be empty when deriving its directory'')) (\<lambda>_.
     rbind (expected_bucket (pj_cwd (sk_project key))) (\<lambda>expected.
     ensure (expected = pj_bucket (sk_project key))
       (SxCorruption (''SessionKey cwd maps to bucket `'' @ expected @ ''`, not `'' @ pj_bucket (sk_project key) @ ''`''))))"

section \<open>The log of a directory\<close>

record resolved_log =
  rl_name :: string
  rl_version :: nat

definition opposite :: "compression \<Rightarrow> compression" where
  "opposite c = (case c of Zstd \<Rightarrow> Plain | Plain \<Rightarrow> Zstd)"

text \<open>An entry of the listing: unreadable, or a name (if it is valid UTF-8) and whether it is a file.\<close>

fun resolve_entries :: "compression \<Rightarrow> (string + (string option \<times> (string + bool))) list \<Rightarrow> resolved_log option \<Rightarrow> bool
    \<Rightarrow> session_error + resolved_log option \<times> bool" where
  "resolve_entries c [] best opp = Inr (best, opp)"
| "resolve_entries c (Inl err # es) best opp = Inl (SxIo err)"
| "resolve_entries c (Inr (None, k) # es) best opp = Inl (SxCorruption ''session directory has a non-UTF-8 entry'')"
| "resolve_entries c (Inr (Some name, k) # es) best opp =
     (case parse_generation_log_file_name name c of
        Some v \<Rightarrow> (case k of
            Inl err \<Rightarrow> Inl (SxIo err)
          | Inr file \<Rightarrow>
              if \<not> file then Inl (SxCorruption (''session generation `'' @ name @ ''` is not a regular file''))
              else resolve_entries c es
                (if (case best of None \<Rightarrow> True | Some b \<Rightarrow> rl_version b < v) then Some \<lparr>rl_name = name, rl_version = v\<rparr> else best) opp)
      | None \<Rightarrow> resolve_entries c es best (opp \<or> parse_generation_log_file_name name (opposite c) \<noteq> None))"

definition resolve_log_in_dir ::
  "compression \<Rightarrow> session_key \<Rightarrow> (string + (string option \<times> (string + bool))) list \<Rightarrow> session_error + resolved_log option" where
  "resolve_log_in_dir c key es =
     rbind (resolve_entries c es None False) (\<lambda>(best, opp).
     if opp then Inl (SxEncodingMismatch (''opposite-encoding artifact for session '' @ sk_id key)) else Inr best)"

definition ensure_generation_matches :: "session_header \<Rightarrow> resolved_log \<Rightarrow> session_error + unit" where
  "ensure_generation_matches h r = ensure (sh_version h = rl_version r)
     (SxCorruption (''session generation filename v'' @ show_nat (rl_version r) @ '' disagrees with header v'' @ show_nat (sh_version h)))"

definition ensure_supported_generation :: "session_key \<Rightarrow> resolved_log \<Rightarrow> session_error + unit" where
  "ensure_supported_generation key r = ensure (rl_version r \<le> 4)
     (SxUnsupported (''session `'' @ sk_id key @ ''` uses newer generation v'' @ show_nat (rl_version r)
       @ ''; this CLAT supports through v4 and will not fall back or append; upgrade CLAT or start a new session''))"

definition ensure_writable_generation :: "session_key \<Rightarrow> resolved_log \<Rightarrow> session_error + unit" where
  "ensure_writable_generation key r =
     rbind (ensure_supported_generation key r) (\<lambda>_.
     ensure (rl_version r = 4) (SxUnsupported (''legacy v'' @ show_nat (rl_version r) @ '' sessions are read-only; start a new v4 session'')))"

section \<open>The inventory at startup\<close>

datatype dir_node = FsFile | FsLink | FsDir dir_listing
  and dir_listing = Listing "(string + string \<times> (string + dir_node)) list" | Missing | Unreadable string

datatype preflight_error = PfSymlink string | PfNotADirectory string | PfUnexpected string | PfEncodingConflict string | PfIo string

definition is_bucket_name :: "string \<Rightarrow> bool" where
  "is_bucket_name name \<longleftrightarrow> name = ''_no-cwd'' \<or> starts_with ''--'' name \<and> ends_with ''--'' name \<and> 4 < length name"

definition is_ignorable_os_junk :: "string \<Rightarrow> dir_node \<Rightarrow> bool" where
  "is_ignorable_os_junk name n \<longleftrightarrow> name = ''.DS_Store'' \<and> n = FsFile"

definition entry_path :: "string \<Rightarrow> string \<Rightarrow> string" where
  "entry_path dir name = dir @ ''/'' @ name"

text \<open>The flags are the encodings seen: compressed, plain.\<close>

definition check_log_entry :: "string \<Rightarrow> string \<Rightarrow> dir_node \<Rightarrow> bool \<times> bool \<Rightarrow> preflight_error + bool \<times> bool" where
  "check_log_entry path name n seen =
     (let zstd = parse_generation_log_file_name name Zstd \<noteq> None; raw = parse_generation_log_file_name name Plain \<noteq> None;
        file = (n = FsFile) in
      if zstd \<and> file then Inr (True, snd seen)
      else if raw \<and> file then Inr (fst seen, True)
      else if name = ''clat-checkpoint.json'' \<and> file then Inr seen
      else if ends_with ''.tmp'' name \<and> file then Inr seen
      else if name = ''clat-checkpoint.json'' then Inl (PfUnexpected (path @ '' is not a regular file''))
      else if (zstd \<or> raw) \<and> \<not> file then Inl (PfUnexpected (path @ '' is not a regular file''))
      else Inr seen)"

fun check_dir_entries ::
  "(string \<Rightarrow> string \<Rightarrow> dir_node \<Rightarrow> bool \<times> bool \<Rightarrow> preflight_error + bool \<times> bool) \<Rightarrow> string
    \<Rightarrow> (string + string \<times> (string + dir_node)) list \<Rightarrow> bool \<times> bool \<Rightarrow> preflight_error + bool \<times> bool" where
  "check_dir_entries f dir [] seen = Inr seen"
| "check_dir_entries f dir (Inl err # es) seen = Inl (PfIo err)"
| "check_dir_entries f dir (Inr (name, Inl err) # es) seen = Inl (PfIo err)"
| "check_dir_entries f dir (Inr (name, Inr n) # es) seen =
     (if n = FsLink then Inl (PfSymlink (entry_path dir name))
      else if is_ignorable_os_junk name n then check_dir_entries f dir es seen
      else rbind (f (entry_path dir name) name n seen) (check_dir_entries f dir es))"

definition listed :: "string \<Rightarrow> dir_listing \<Rightarrow> preflight_error + (string + string \<times> (string + dir_node)) list" where
  "listed dir l = (case l of Listing es \<Rightarrow> Inr es | Missing \<Rightarrow> Inr []
     | Unreadable err \<Rightarrow> Inl (PfIo (''cannot read '' @ dir @ '': '' @ err)))"

definition check_session_dir :: "string \<Rightarrow> dir_listing \<Rightarrow> preflight_error + bool \<times> bool" where
  "check_session_dir dir l =
     rbind (listed dir l) (\<lambda>es.
     rbind (check_dir_entries check_log_entry dir es (False, False)) (\<lambda>(zstd, raw).
     if zstd \<and> raw then Inl (PfEncodingConflict dir) else Inr (zstd, raw)))"

definition check_session_entry :: "string \<Rightarrow> string \<Rightarrow> dir_node \<Rightarrow> bool \<times> bool \<Rightarrow> preflight_error + bool \<times> bool" where
  "check_session_entry path name n seen = (case n of
       FsDir l \<Rightarrow> rbind (check_session_dir path l) (\<lambda>(zstd, raw). Inr (fst seen \<or> zstd, snd seen \<or> raw))
     | _ \<Rightarrow> Inl (PfUnexpected (path @ '' (not a session directory)'')))"

definition check_bucket :: "string \<Rightarrow> dir_listing \<Rightarrow> bool \<times> bool \<Rightarrow> preflight_error + bool \<times> bool" where
  "check_bucket dir l seen = rbind (listed dir l) (\<lambda>es. check_dir_entries check_session_entry dir es seen)"

definition check_bucket_entry :: "string \<Rightarrow> string \<Rightarrow> string \<Rightarrow> dir_node \<Rightarrow> bool \<times> bool \<Rightarrow> preflight_error + bool \<times> bool" where
  "check_bucket_entry root path name n seen =
     (if \<not> is_bucket_name name then Inl (PfUnexpected name)
      else case n of
          FsDir l \<Rightarrow> rbind (check_bucket path l seen) (\<lambda>(zstd, raw).
            if zstd \<and> raw then Inl (PfEncodingConflict root) else Inr (zstd, raw))
        | _ \<Rightarrow> Inl (PfNotADirectory path))"

definition check_session_root :: "string \<Rightarrow> bool \<Rightarrow> dir_listing \<Rightarrow> preflight_error + unit" where
  "check_session_root root root_is_link l =
     (if root_is_link then Inl (PfSymlink root)
      else rbind (listed root l) (\<lambda>es. rbind (check_dir_entries (check_bucket_entry root) root es (False, False)) (\<lambda>_. Inr ())))"

end
