(* ===== verification/SessionPathProps.thy ===== *)
theory SessionPathProps
  imports SessionPath Interfaces
begin

text \<open>
  What the names of a session promise: the escape of an id is a safe, injective segment, the file
  name of a generation is read back, the log that is read is the newest one, and the inventory admits
  no symbolic link and one encoding.
\<close>

section \<open>Code points\<close>

definition scalar :: "nat \<Rightarrow> bool" where
  "scalar c \<longleftrightarrow> c < 1114112 \<and> \<not> is_surrogate c"

lemma of_char_small [simp]: "n < 256 \<Longrightarrow> (of_char (char_of n :: char) :: nat) = n"
  by simp

lemma split_64: "(c::nat) div 64 * 64 + c mod 64 = c" "c div 4096 * 4096 + (c div 64 mod 64) * 64 + c mod 64 = c"
  "c div 262144 * 262144 + (c div 4096 mod 64) * 4096 + (c div 64 mod 64) * 64 + c mod 64 = c"
proof -
  have e: "c div 4096 = c div 64 div 64" "c div 262144 = c div 64 div 64 div 64" by (simp_all flip: div_mult2_eq)
  show "c div 64 * 64 + c mod 64 = c" by simp
  show "c div 4096 * 4096 + (c div 64 mod 64) * 64 + c mod 64 = c"
    using div_mult_mod_eq[of c 64] div_mult_mod_eq[of "c div 64" 64] unfolding e by linarith
  show "c div 262144 * 262144 + (c div 4096 mod 64) * 4096 + (c div 64 mod 64) * 64 + c mod 64 = c"
    using div_mult_mod_eq[of c 64] div_mult_mod_eq[of "c div 64" 64] div_mult_mod_eq[of "c div 64 div 64" 64] unfolding e by linarith
qed

lemma bit_of_one [simp]: "bit (Suc 0) 0"
  by (simp add: bit_0)

lemma chars_of_ascii: "c < 128 \<Longrightarrow> chars_of (char_of c # s) = c # chars_of s"
  by (cases s) simp_all

lemma chars_of_char:
  assumes "c < 1114112"
  shows "chars_of (utf8_char c @ s) = c # chars_of s"
proof -
  consider "c < 128" | "128 \<le> c" "c < 2048" | "2048 \<le> c" "c < 65536" | "65536 \<le> c" by linarith
  then show ?thesis
  proof cases
    case 1
    then show ?thesis by (simp add: utf8_char_def chars_of_ascii del: chars_of.simps)
  next
    case 2
    then have "c div 64 < 32" "2 \<le> c div 64" "c mod 64 < 64" by (simp_all add: div_le_mono[of 128 c 64, simplified])
    with 2 show ?thesis by (simp add: utf8_char_def split_64)
  next
    case 3
    then have "c div 4096 < 16" "c div 64 mod 64 < 64" "c mod 64 < 64" by simp_all
    with 3 show ?thesis by (simp add: utf8_char_def split_64)
  next
    case 4
    then have "c div 262144 < 5" "c div 4096 mod 64 < 64" "c div 64 mod 64 < 64" "c mod 64 < 64" using assms by simp_all
    with 4 show ?thesis by (simp add: utf8_char_def split_64)
  qed
qed

declare chars_of.simps(2,3) [simp del] from_utf16.simps(2) [simp del]

lemma chars_of_text: "list_all scalar cs \<Longrightarrow> chars_of (utf8_text cs) = cs"
  by (induction cs) (simp_all add: utf8_text_def chars_of_char scalar_def)

lemma utf16_units: "scalar c \<Longrightarrow> from_utf16 (utf16_char c @ us) = map_option (Cons c) (from_utf16 us)"
proof (cases "c < 65536")
  case False
  assume "scalar c"
  with False have "(c - 65536) div 1024 < 1024" "(c - 65536) mod 1024 < 1024" by (simp_all add: scalar_def div_less_iff_less_mult less_diff_conv2)
  moreover have "65536 + (c - 65536) div 1024 * 1024 + (c - 65536) mod 1024 = c" using False by simp
  ultimately show ?thesis using False by (simp add: utf16_char_def is_surrogate_def from_utf16.simps(2))
qed (simp add: utf16_char_def scalar_def from_utf16.simps(2))

lemma from_utf16_units: "list_all scalar cs \<Longrightarrow> from_utf16 (concat (map utf16_char cs)) = Some cs"
  by (induction cs) (simp_all add: utf16_units)

lemma utf16_small: "scalar c \<Longrightarrow> list_all (\<lambda>u. u < 65536) (utf16_char c)"
proof (cases "c < 65536")
  case False
  assume "scalar c"
  with False have "(c - 65536) div 1024 < 1024" "(c - 65536) mod 1024 < 1024" by (simp_all add: scalar_def div_less_iff_less_mult less_diff_conv2)
  then show ?thesis using False by (simp add: utf16_char_def)
qed (simp add: utf16_char_def)

section \<open>Escapes\<close>

lemma unhex_digit: "n < 16 \<Longrightarrow> unhex (of_char (hex_digit n)) = Some n"
  by (simp add: hex_digit_def unhex_def)

lemma hex_digit_ascii: "n < 16 \<Longrightarrow> hex_digit n = char_of (if n < 10 then 48 + n else 55 + n)"
  by (simp add: hex_digit_def)

lemma split_16: "16 * (16 * (16 * (u div 4096) + u div 256 mod 16) + u div 16 mod 16) + u mod 16 = (u::nat)"
proof -
  have e: "u div 256 = u div 16 div 16" "u div 4096 = u div 16 div 16 div 16" by (simp_all flip: div_mult2_eq)
  show ?thesis unfolding e by (simp only: mult.commute[of 16] div_mult_mod_eq)
qed

lemma chars_of_hex: "n < 16 \<Longrightarrow> chars_of (hex_digit n # s) = of_char (hex_digit n) # chars_of s"
  by (simp add: hex_digit_ascii chars_of_ascii)

lemma tilde_code: "CHR ''~'' = char_of (126::nat)"
  by (simp add: char_of_def)

lemma decode_push:
  assumes "u < 65536"
  shows "decode_units (chars_of (push_unit u @ s)) = map_option (map_option (Cons u)) (decode_units (chars_of s))"
proof (cases "\<not> is_surrogate u \<and> safe_unit u")
  case True
  then have "u < 128" "u \<noteq> 126" by (auto simp: safe_unit_def)
  with True show ?thesis by (simp add: push_unit_def chars_of_ascii)
next
  case False
  have d: "u div 4096 < 16" "u div 256 mod 16 < 16" "u div 16 mod 16 < 16" "u mod 16 < 16" using assms by simp_all
  have "chars_of (escape_unit u @ s) = 126 # of_char (hex_digit (u div 4096)) # of_char (hex_digit (u div 256 mod 16))
      # of_char (hex_digit (u div 16 mod 16)) # of_char (hex_digit (u mod 16)) # chars_of s"
    using d by (simp add: escape_unit_def tilde_code chars_of_ascii chars_of_hex)
  moreover have "push_unit u = escape_unit u" using False by (auto simp: push_unit_def)
  ultimately show ?thesis using d split_16[of u] by (simp add: unhex_digit)
qed

lemma decode_pushed:
  "list_all (\<lambda>u. u < 65536) us \<Longrightarrow> decode_units (chars_of (concat (map push_unit us))) = Some (Some us)"
  by (induction us) (simp_all add: decode_push)

definition segment_char :: "char \<Rightarrow> bool" where
  "segment_char c \<longleftrightarrow> c = CHR ''~'' \<or> safe_unit (of_char c)"

lemma hex_digit_safe: "n < 16 \<Longrightarrow> segment_char (hex_digit n)"
  by (simp add: segment_char_def safe_unit_def hex_digit_def)

lemma push_unit_safe: "u < 65536 \<Longrightarrow> list_all segment_char (push_unit u)"
proof (cases "\<not> is_surrogate u \<and> safe_unit u")
  case True
  then have "u < 128" by (auto simp: safe_unit_def)
  with True show ?thesis by (simp add: push_unit_def segment_char_def)
next
  case False
  assume "u < 65536"
  moreover have "push_unit u = escape_unit u" using False by (auto simp: push_unit_def)
  ultimately show ?thesis by (simp add: escape_unit_def hex_digit_safe) (simp add: segment_char_def)
qed

lemma encode_safe:
  "list_all (\<lambda>u. u < 65536) us \<Longrightarrow> list_all segment_char (concat (map push_unit us))"
  by (induction us) (simp_all add: push_unit_safe)

lemma utf16_of_text:
  "list_all scalar cs \<Longrightarrow> utf16_of (utf8_text cs) = concat (map utf16_char cs)"
  "list_all scalar cs \<Longrightarrow> list_all (\<lambda>u. u < 65536) (concat (map utf16_char cs))"
  by (simp add: utf16_of_def chars_of_text) (induction cs; simp add: utf16_small)

lemma utf8_char_nonempty: "utf8_char c \<noteq> []"
  by (simp add: utf8_char_def)

lemma utf8_nonempty: "utf8_text cs = [] \<longleftrightarrow> cs = []"
  by (cases cs) (simp_all add: utf8_text_def utf8_char_nonempty)

lemmas path_eval = decode_segment_def encode_segment_def chars_of.simps from_utf16.simps unhex_def utf8_text_def utf8_char_def
  utf16_of_def utf16_char_def is_surrogate_def push_unit_def safe_unit_def escape_unit_def hex_digit_def

lemma utf16_dots: "concat (map utf16_char [46]) = [46]" "concat (map utf16_char [46, 46]) = [46, 46]"
  by (simp_all add: utf16_char_def)

text \<open>The units of a string determine it, so a string of dots only comes from dots.\<close>

lemma encoded_dots:
  assumes "concat (map push_unit us) = ''.'' \<or> concat (map push_unit us) = ''..''" "list_all (\<lambda>u. u < 65536) us"
  shows "us = [46] \<or> us = [46, 46]"
proof -
  have "decode_units (chars_of ''.'') = Some (Some [46])" "decode_units (chars_of ''..'') = Some (Some [46, 46])"
    by (simp_all add: path_eval)
  then show ?thesis using decode_pushed[OF assms(2)] assms(1) by auto
qed

lemma units_injective: "list_all scalar cs \<Longrightarrow> list_all scalar ds \<Longrightarrow> concat (map utf16_char cs) = concat (map utf16_char ds) \<Longrightarrow> cs = ds"
  by (metis from_utf16_units option.inject)

lemma dot_codes: "utf8_text [46] = ''.''" "utf8_text [46, 46] = ''..''" "list_all scalar [46]" "list_all scalar [46, 46]"
  by (simp_all add: utf8_text_def utf8_char_def scalar_def is_surrogate_def char_of_def)

lemma segment_facts:
  assumes "list_all scalar cs" "cs \<noteq> []"
  shows "\<exists>dir. encode_segment (utf8_text cs) = Some dir \<and> dir \<notin> {[], ''.'', ''..''} \<and> list_all segment_char dir
    \<and> decode_segment dir = Some (Some (utf8_text cs))"
proof -
  let ?us = "concat (map utf16_char cs)" and ?raw = "utf8_text cs"
  have dots: "segment_char c" if "c \<in> set ''~002E''" for c using that by (auto simp: segment_char_def safe_unit_def)
  consider "?raw = ''.''" | "?raw = ''..''" | "?raw \<noteq> ''.''" "?raw \<noteq> ''..''" by blast
  then show ?thesis
  proof cases
    case 1
    moreover have "decode_segment ''~002E'' = Some (Some ''.'')" by (simp add: path_eval char_of_def)
    moreover have "list_all segment_char ''~002E''" using dots by (simp add: list_all_iff)
    ultimately show ?thesis by (simp add: encode_segment_def)
  next
    case 2
    moreover have "decode_segment ''~002E~002E'' = Some (Some ''..'')" by (simp add: path_eval char_of_def)
    moreover have "list_all segment_char ''~002E~002E''" using dots by (simp add: list_all_iff)
    ultimately show ?thesis by (simp add: encode_segment_def)
  next
    case 3
    let ?dir = "concat (map push_unit ?us)"
    have e: "encode_segment ?raw = Some ?dir" using 3 assms by (simp add: encode_segment_def utf8_nonempty utf16_of_text)
    have d: "decode_units (chars_of ?dir) = Some (Some ?us)" using decode_pushed utf16_of_text(2)[OF assms(1)] by blast
    have ne: "?dir \<noteq> []"
    proof
      assume "?dir = []"
      with d have "?us = []" by (metis chars_of.simps(1) decode_units.simps(1) option.inject)
      then show False using assms(2) from_utf16_units[OF assms(1)] by (metis from_utf16.simps(1) option.inject)
    qed
    have "?dir \<noteq> ''.'' \<and> ?dir \<noteq> ''..''"
      using encoded_dots[of ?us] utf16_of_text(2)[OF assms(1)] units_injective[OF assms(1)] utf16_dots dot_codes 3 by metis
    moreover have "decode_segment ?dir = Some (Some ?raw)" using d ne by (simp add: decode_segment_def from_utf16_units[OF assms(1)])
    ultimately show ?thesis using e ne encode_safe[OF utf16_of_text(2)[OF assms(1)]] by auto
  qed
qed

text \<open>The directory of a session as a code: distinct ids have distinct directories.\<close>

definition segment_of :: "string \<Rightarrow> string" where
  "segment_of raw = the (encode_segment raw)"

definition segment_read :: "string \<Rightarrow> string option" where
  "segment_read dir = (case decode_segment dir of None \<Rightarrow> None | Some r \<Rightarrow> r)"

interpretation segment_codec: codec "\<lambda>raw. \<exists>cs. list_all scalar cs \<and> cs \<noteq> [] \<and> raw = utf8_text cs" segment_of segment_read
  by unfold_locales (use segment_facts in \<open>fastforce simp: segment_of_def segment_read_def\<close>)

text \<open>C39: the directory name of a session id is never empty, \<open>.\<close> or \<open>..\<close>, holds only letters, digits
  and \<open>._-~\<close> (so no separator), and is decoded to the same id: distinct ids have distinct directories and
  no id leaves the project's directory.\<close>

theorem segment_roundtrip:
  assumes "list_all scalar cs" "cs \<noteq> []"
  shows "\<exists>dir. encode_segment (utf8_text cs) = Some dir \<and> dir \<notin> {[], ''.'', ''..''} \<and> list_all segment_char dir
    \<and> decode_segment dir = Some (Some (utf8_text cs))"
  by (rule segment_facts[OF assms])

lemma segment_roundtrip_witness:
  "\<exists>dir. encode_segment (utf8_text [97, 47, 128512]) = Some dir \<and> dir \<notin> {[], ''.'', ''..''} \<and> list_all segment_char dir
    \<and> decode_segment dir = Some (Some (utf8_text [97, 47, 128512]))"
  by (rule segment_roundtrip) (simp_all add: scalar_def is_surrogate_def)

text \<open>Names that are not encodings: one panics, others are accepted.\<close>

lemma decode_segment_panics: "decode_segment (utf8_text [26085]) = None"
  by (simp add: path_eval)

lemma decode_segment_accepts: "decode_segment ''~0061'' = Some (Some ''a'')" "encode_segment ''a'' = Some ''a''"
  "decode_segment ''a b'' = Some (Some ''a b'')" "encode_segment ''a b'' = Some ''a~0020b''"
  by (simp_all add: path_eval char_of_def)

section \<open>Names of generations\<close>

lemma digits_value_snoc: "digits_value (ds @ [c]) = 10 * digits_value ds + (char_code c - 48)"
  by (simp add: digits_value_def)

lemma digit_code: "is_digit c \<longleftrightarrow> 48 \<le> char_code c \<and> char_code c \<le> 57"
proof -
  have "is_digit c \<longleftrightarrow> (of_char c :: nat) \<in> of_char ` set ''0123456789''"
    by (simp only: is_digit_def inj_image_mem_iff[OF inj_of_char])
  also have "of_char ` set ''0123456789'' = {48, 49, 50, 51, 52, 53, 54, 55, 56, 57 :: nat}" by simp
  also have "n \<in> {48, 49, 50, 51, 52, 53, 54, 55, 56, 57} \<longleftrightarrow> 48 \<le> n \<and> n \<le> 57" for n :: nat by (simp, presburger)
  finally show ?thesis by simp
qed

text \<open>Decimal digits without a leading zero.\<close>

definition canonical_digits :: "string \<Rightarrow> bool" where
  "canonical_digits ds \<longleftrightarrow> ds \<noteq> [] \<and> \<not> starts_with ''0'' ds \<and> list_all is_digit ds"

lemma starts_zero: "starts_with ''0'' ds \<longleftrightarrow> ds \<noteq> [] \<and> hd ds = CHR ''0''"
  by (cases ds) auto

lemma digit_byte: "n < 10 \<Longrightarrow> char_code (char_of (48 + n)) = 48 + n" "n < 10 \<Longrightarrow> is_digit (char_of (48 + n))"
  by (simp_all add: digit_code)

lemma zero_code: "char_of (48::nat) = CHR ''0''"
  by (simp add: char_of_def)

lemma show_digits: "0 < n \<Longrightarrow> canonical_digits (show_nat n) \<and> digits_value (show_nat n) = n"
proof (induction n rule: show_nat.induct)
  case (1 n)
  show ?case
  proof (cases "n < 10")
    case True
    then have "char_of (48 + n) \<noteq> CHR ''0''" using 1(2) digit_byte(1)[of n] by fastforce
    then show ?thesis using True digit_byte[of n]
      by (simp add: show_nat.simps[of n] canonical_digits_def digits_value_def starts_zero)
  next
    case False
    then have ih: "canonical_digits (show_nat (n div 10))" "digits_value (show_nat (n div 10)) = n div 10" using 1(1) by simp_all
    show ?thesis using False ih digit_byte[of "n mod 10"]
      by (auto simp: show_nat.simps[of n] canonical_digits_def digits_value_snoc starts_zero)
  qed
qed

lemma canonical_value: "canonical_digits ds \<Longrightarrow> 0 < digits_value ds \<and> show_nat (digits_value ds) = ds"
proof (induction ds rule: rev_induct)
  case (snoc c ds)
  then have c: "48 \<le> char_code c" "char_code c \<le> 57" by (simp_all add: canonical_digits_def digit_code)
  have char: "char_of (char_code c) = c" by simp
  show ?case
  proof (cases "ds = []")
    case True
    then have "c \<noteq> CHR ''0''" using snoc(2) by (auto simp: canonical_digits_def)
    then have "char_code c \<noteq> 48" by (metis char zero_code)
    moreover have "char_code c - 48 < 10" using c by linarith
    ultimately show ?thesis using True c char by (simp add: digits_value_def show_nat.simps[of "_ - 48"])
  next
    case False
    then have ih: "0 < digits_value ds" "show_nat (digits_value ds) = ds" using snoc by (simp_all add: canonical_digits_def starts_zero)
    moreover obtain k where "char_code c - 48 = k" "k < 10" using c by fastforce
    ultimately have "10 \<le> digits_value (ds @ [c])" "digits_value (ds @ [c]) div 10 = digits_value ds"
        "digits_value (ds @ [c]) mod 10 = char_code c - 48" by (simp_all only: digits_value_snoc) simp_all
    then show ?thesis using ih c char by (simp add: show_nat.simps[of "digits_value (ds @ [c])"])
  qed
qed (simp add: canonical_digits_def)

lemma str_strip_prefix_Some: "str_strip_prefix p s = Some t \<longleftrightarrow> s = p @ t"
  by (auto simp: str_strip_prefix_def starts_with_iff)

lemma str_strip_suffix_Some: "str_strip_suffix p s = Some t \<longleftrightarrow> s = t @ p"
  by (auto simp: str_strip_suffix_def ends_with_iff)

lemma versioned_name: "''session.v'' @ ds @ ''.jsonl'' \<noteq> ''session.jsonl''"
  by simp

lemma parse_plain_name:
  "parse_generation_log_file_name name Plain = Some v \<longleftrightarrow> name = generation_log_file_name v Plain \<and> v < 4294967296"
proof
  assume p: "parse_generation_log_file_name name Plain = Some v"
  show "name = generation_log_file_name v Plain \<and> v < 4294967296"
  proof (cases "name = ''session.jsonl''")
    case True
    then show ?thesis using p by (simp add: parse_generation_log_file_name_def generation_log_file_name_def)
  next
    case False
    then obtain ds where "name = ''session.v'' @ ds @ ''.jsonl''" "canonical_digits ds" "digits_value ds = v" "v < 4294967296"
      using p by (auto simp: parse_generation_log_file_name_def bind_eq_Some_conv str_strip_prefix_Some str_strip_suffix_Some
        canonical_digits_def split: if_splits)
    then show ?thesis using canonical_value[of ds] by (auto simp: generation_log_file_name_def)
  qed
next
  assume n: "name = generation_log_file_name v Plain \<and> v < 4294967296"
  show "parse_generation_log_file_name name Plain = Some v"
  proof (cases "v = 0")
    case False
    then have d: "canonical_digits (show_nat v)" "digits_value (show_nat v) = v" using show_digits by auto
    have "name = ''session.v'' @ show_nat v @ ''.jsonl''" using n False by (simp add: generation_log_file_name_def)
    moreover have "str_strip_prefix ''session.v'' (''session.v'' @ t) = Some t" for t by (rule str_strip_prefix_Some[THEN iffD2]) simp
    moreover have "str_strip_suffix ''.jsonl'' (t @ ''.jsonl'') = Some t" for t by (rule str_strip_suffix_Some[THEN iffD2]) simp
    ultimately show ?thesis using d n
      by (simp only: parse_generation_log_file_name_def compression.case bind.bind_lunit versioned_name if_False canonical_digits_def)
        simp
  qed (use n in \<open>simp add: generation_log_file_name_def parse_generation_log_file_name_def\<close>)
qed

lemma generation_name_iff:
  "parse_generation_log_file_name name c = Some v \<longleftrightarrow> name = generation_log_file_name v c \<and> v < 4294967296"
proof (cases c)
  case Zstd
  have "parse_generation_log_file_name name Zstd = Option.bind (str_strip_suffix ''.zstd'' name) (\<lambda>raw. parse_generation_log_file_name raw Plain)"
    by (simp add: parse_generation_log_file_name_def)
  moreover have "generation_log_file_name v Zstd = generation_log_file_name v Plain @ ''.zstd''"
    by (simp add: generation_log_file_name_def)
  ultimately show ?thesis using Zstd by (auto simp: bind_eq_Some_conv str_strip_suffix_Some parse_plain_name)
qed (simp add: parse_plain_name)

text \<open>a file is recognised as generation \<open>v\<close> of a log exactly when it has the name the writer gives
  that generation: no other spelling (leading zeroes, a temporary file, the other encoding) is read.\<close>

theorem generation_name_exact:
  "parse_generation_log_file_name name c = Some v \<longleftrightarrow> name = generation_log_file_name v c \<and> v < 4294967296"
  by (rule generation_name_iff)

interpretation generation_codec: codec "\<lambda>v. v < 4294967296" "\<lambda>v. generation_log_file_name v c" "\<lambda>name. parse_generation_log_file_name name c" for c
  by unfold_locales (simp add: generation_name_iff)

section \<open>The log that is read\<close>

text \<open>The generations of a listing, in the encoding of the backend.\<close>

definition generations :: "compression \<Rightarrow> (string + (string option \<times> (string + bool))) list \<Rightarrow> nat set" where
  "generations c es = {v. v < 4294967296 \<and> (\<exists>k. Inr (Some (generation_log_file_name v c), k) \<in> set es)}"

lemma generations_Cons:
  "generations c (Inr (Some name, k) # es)
    = (case parse_generation_log_file_name name c of None \<Rightarrow> generations c es | Some v \<Rightarrow> insert v (generations c es))"
proof (cases "parse_generation_log_file_name name c")
  case None
  then have "name \<noteq> generation_log_file_name v c" if "v < 4294967296" for v
    using that generation_name_iff[of name c v] by auto
  then show ?thesis using None by (auto simp: generations_def)
next
  case (Some v)
  then have n: "name = generation_log_file_name v c" "v < 4294967296" using generation_name_iff by blast+
  have "w = v" if "w < 4294967296" "generation_log_file_name w c = generation_log_file_name v c" for w
    using that generation_name_iff[of name c w] Some n by simp
  then show ?thesis using Some n by (auto simp: generations_def)
qed

lemma resolve_entries_highest:
  "resolve_entries c es best opp = Inr (best', opp') \<Longrightarrow>
    case best' of
      None \<Rightarrow> best = None \<and> generations c es = {}
    | Some r \<Rightarrow> (best = Some r \<or> rl_version r \<in> generations c es \<and> rl_name r = generation_log_file_name (rl_version r) c)
        \<and> (\<forall>v\<in>generations c es. v \<le> rl_version r) \<and> (case best of None \<Rightarrow> True | Some b \<Rightarrow> rl_version b \<le> rl_version r)"
proof (induction c es best opp rule: resolve_entries.induct)
  case (1 c best opp)
  then show ?case by (auto simp: generations_def split: option.splits)
next
  case (4 c name k es best opp)
  show ?case
  proof (cases "parse_generation_log_file_name name c")
    case None
    then show ?thesis using 4 by (cases best') (simp_all add: generations_Cons)
  next
    case (Some v)
    then have n: "name = generation_log_file_name v c" using generation_name_iff by blast
    let ?b = "if (case best of None \<Rightarrow> True | Some b \<Rightarrow> rl_version b < v) then Some \<lparr>rl_name = name, rl_version = v\<rparr> else best"
    have k: "k = Inr True" using 4(3) Some by (auto split: sum.splits if_splits)
    then have "resolve_entries c es ?b opp = Inr (best', opp')" using 4(3) Some by simp
    from 4(2)[OF Some k _ this] obtain r where r: "best' = Some r" "\<forall>w\<in>generations c es. w \<le> rl_version r"
        "?b = Some r \<or> rl_version r \<in> generations c es \<and> rl_name r = generation_log_file_name (rl_version r) c"
        "\<forall>b. ?b = Some b \<longrightarrow> rl_version b \<le> rl_version r"
      by (cases best') (auto split: if_splits option.splits)
    show ?thesis
    proof (cases "case best of None \<Rightarrow> True | Some b \<Rightarrow> rl_version b < v")
      case True
      then show ?thesis using r n Some by (cases best) (auto simp: generations_Cons)
    next
      case False
      then obtain b where "best = Some b" "v \<le> rl_version b" by (auto split: option.splits)
      then show ?thesis using r n Some by (auto simp: generations_Cons)
    qed
  qed
qed simp_all

lemma name_one_encoding:
  "parse_generation_log_file_name name c = Some v \<Longrightarrow> parse_generation_log_file_name name (opposite c) = None"
proof -
  have "last (generation_log_file_name v Zstd) = CHR ''d''" "last (generation_log_file_name v Plain) = CHR ''l''" for v
    by (simp_all add: generation_log_file_name_def)
  moreover assume "parse_generation_log_file_name name c = Some v"
  ultimately have "parse_generation_log_file_name name (opposite c) \<noteq> Some w" for w
    by (cases c) (auto simp: generation_name_iff opposite_def dest!: arg_cong[of _ _ last])
  then show ?thesis by (cases "parse_generation_log_file_name name (opposite c)") auto
qed

lemma resolve_entries_opposite:
  "resolve_entries c es best opp = Inr (best', opp') \<Longrightarrow> opp' \<longleftrightarrow> opp \<or> generations (opposite c) es \<noteq> {}"
proof (induction c es best opp rule: resolve_entries.induct)
  case (1 c best opp)
  then show ?case by (simp add: generations_def)
next
  case (4 c name k es best opp)
  show ?case
  proof (cases "parse_generation_log_file_name name c")
    case None
    then show ?thesis using 4(1)[OF None] 4(3)
      by (cases "parse_generation_log_file_name name (opposite c)") (simp_all add: generations_Cons)
  next
    case (Some v)
    then show ?thesis using 4(2)[OF Some] 4(3) name_one_encoding[OF Some]
      by (auto simp: generations_Cons split: sum.splits if_splits)
  qed
qed simp_all

lemma generations_finite: "finite (generations c es)"
proof (rule finite_subset)
  show "generations c es \<subseteq> {..<4294967296}" by (auto simp: generations_def)
qed simp

text \<open>C17: the log that is opened is the newest generation of the directory in the encoding of the
  backend, and none is opened when the directory holds a generation in the other encoding: no reader
  falls back to a stale log.\<close>

theorem resolved_log_newest:
  assumes "resolve_log_in_dir c key es = Inr log"
  shows "generations (opposite c) es = {}
    \<and> log = (if generations c es = {} then None
        else Some \<lparr>rl_name = generation_log_file_name (Max (generations c es)) c, rl_version = Max (generations c es)\<rparr>)"
proof -
  have e: "resolve_entries c es None False = Inr (log, False)"
    using assms by (auto simp: resolve_log_in_dir_def rbind_def split: sum.splits if_splits)
  show ?thesis
  proof (cases log)
    case None
    then show ?thesis using resolve_entries_opposite[OF e] resolve_entries_highest[OF e] by simp
  next
    case (Some r)
    then have r: "rl_version r \<in> generations c es" "rl_name r = generation_log_file_name (rl_version r) c"
        "\<forall>v\<in>generations c es. v \<le> rl_version r"
      using resolve_entries_highest[OF e] by simp_all
    then have "Max (generations c es) = rl_version r" by (intro Max_eqI generations_finite) auto
    then show ?thesis using Some r resolve_entries_opposite[OF e] by auto
  qed
qed

definition demo_listing :: "(string + (string option \<times> (string + bool))) list" where
  "demo_listing = [Inr (Some ''session.v4.jsonl'', Inr True), Inr (Some ''session.jsonl'', Inr True), Inr (Some ''session.lock'', Inr True)]"

lemma demo_key_resolved:
  "resolve_log_in_dir Plain \<lparr>sk_project = key_no_cwd, sk_id = ''s''\<rparr> demo_listing
    = Inr (Some \<lparr>rl_name = ''session.v4.jsonl'', rl_version = 4\<rparr>)"
proof -
  have n: "parse_generation_log_file_name ''session.v4.jsonl'' Plain = Some 4" "parse_generation_log_file_name ''session.jsonl'' Plain = Some 0"
    by (simp_all add: generation_name_iff generation_log_file_name_def show_nat.simps char_of_def)
  have "parse_generation_log_file_name ''session.lock'' Plain \<noteq> Some v" for v
    by (auto simp: generation_name_iff generation_log_file_name_def dest!: arg_cong[of _ _ last])
  moreover have "parse_generation_log_file_name ''session.lock'' Zstd \<noteq> Some v" for v
    by (auto simp: generation_name_iff generation_log_file_name_def dest!: arg_cong[of _ _ last])
  ultimately have "parse_generation_log_file_name ''session.lock'' Plain = None" "parse_generation_log_file_name ''session.lock'' Zstd = None"
    by (meson not_None_eq)+
  then show ?thesis using n by (simp add: resolve_log_in_dir_def demo_listing_def opposite_def)
qed

lemma resolved_log_newest_witness: "generations Zstd demo_listing = {} \<and> generations Plain demo_listing \<noteq> {}"
  using resolved_log_newest[OF demo_key_resolved] by (auto simp: opposite_def split: if_splits)

section \<open>The inventory\<close>

fun children :: "dir_listing \<Rightarrow> (string \<times> dir_node) set" where
  "children (Listing es) = {(name, n). Inr (name, Inr n) \<in> set es}"
| "children _ = {}"

definition files_below :: "dir_listing \<Rightarrow> (string \<times> dir_node) set" where
  "files_below l = {f. \<exists>d dl. (d, FsDir dl) \<in> children l \<and> f \<in> children dl}"

text \<open>The encodings of the logs a set of entries holds are among those seen.\<close>

definition logs_seen :: "(string \<times> dir_node) set \<Rightarrow> bool \<times> bool \<Rightarrow> bool" where
  "logs_seen fs seen \<longleftrightarrow> (\<forall>(name, n)\<in>fs. (parse_generation_log_file_name name Zstd \<noteq> None \<longrightarrow> n = FsFile \<and> fst seen)
     \<and> (parse_generation_log_file_name name Plain \<noteq> None \<longrightarrow> n = FsFile \<and> snd seen))"

definition seen_grows :: "bool \<times> bool \<Rightarrow> bool \<times> bool \<Rightarrow> bool" where
  "seen_grows seen seen' \<longleftrightarrow> (fst seen \<longrightarrow> fst seen') \<and> (snd seen \<longrightarrow> snd seen')"

lemma grows_facts: "seen_grows s s" "seen_grows s t \<Longrightarrow> seen_grows t u \<Longrightarrow> seen_grows s u" "seen_grows s t \<Longrightarrow> logs_seen fs s \<Longrightarrow> logs_seen fs t"
  by (auto simp: seen_grows_def logs_seen_def)

lemma junk_no_log: "is_ignorable_os_junk name n \<Longrightarrow> parse_generation_log_file_name name c = None"
proof -
  have "last (generation_log_file_name v c) \<noteq> CHR ''e''" for v
    by (cases c) (simp_all add: generation_log_file_name_def)
  moreover have "last ''.DS_Store'' = CHR ''e''" by simp
  ultimately have "parse_generation_log_file_name ''.DS_Store'' c \<noteq> Some v" for v
    by (metis generation_name_iff)
  then show "is_ignorable_os_junk name n \<Longrightarrow> parse_generation_log_file_name name c = None"
    by (cases "parse_generation_log_file_name name c") (auto simp: is_ignorable_os_junk_def)
qed

text \<open>A scan that succeeds: no links, and each entry but Finder's file was admitted.\<close>

definition admitted_by ::
  "(string \<Rightarrow> string \<Rightarrow> dir_node \<Rightarrow> bool \<times> bool \<Rightarrow> preflight_error + bool \<times> bool) \<Rightarrow> string \<Rightarrow> string \<times> dir_node \<Rightarrow> bool \<times> bool \<Rightarrow> bool" where
  "admitted_by f dir e final = (case e of (name, n) \<Rightarrow> n \<noteq> FsLink \<and> (is_ignorable_os_junk name n
     \<or> (\<exists>seen seen'. f (entry_path dir name) name n seen = Inr seen' \<and> seen_grows seen' final)))"

lemma check_entries_admitted:
  assumes "\<And>path name n seen seen'. f path name n seen = Inr seen' \<Longrightarrow> seen_grows seen seen'"
  shows "check_dir_entries f dir es seen = Inr final \<Longrightarrow> seen_grows seen final \<and> (\<forall>e\<in>children (Listing es). admitted_by f dir e final)"
proof (induction es arbitrary: seen)
  case Nil
  then show ?case by (simp add: grows_facts)
next
  case (Cons e es)
  then obtain name n where e: "e = Inr (name, Inr n)" by (cases "(f, dir, e # es, seen)" rule: check_dir_entries.cases) auto
  have split: "children (Listing (e # es)) = insert (name, n) (children (Listing es))" by (auto simp: e)
  show ?case
  proof (cases "is_ignorable_os_junk name n")
    case True
    then have "check_dir_entries f dir es seen = Inr final" "n \<noteq> FsLink" using Cons(2) by (auto simp: e split: if_splits)
    then show ?thesis using Cons(1) True unfolding split by (auto simp: admitted_by_def)
  next
    case False
    then obtain seen' where f: "f (entry_path dir name) name n seen = Inr seen'" "check_dir_entries f dir es seen' = Inr final" "n \<noteq> FsLink"
      using Cons(2) by (auto simp: e rbind_def split: if_splits sum.splits)
    then have g: "seen_grows seen' final" "\<forall>e\<in>children (Listing es). admitted_by f dir e final" using Cons(1) by blast+
    moreover have "admitted_by f dir (name, n) final" using f g(1) unfolding admitted_by_def prod.case by blast
    ultimately show ?thesis using assms[OF f(1)] grows_facts(2) unfolding split by blast
  qed
qed

lemma listed_children: "listed dir l = Inr es \<Longrightarrow> children l = children (Listing es)"
  by (cases l) (auto simp: listed_def)

lemma log_entry_facts:
  "check_log_entry path name n seen = Inr seen' \<Longrightarrow> seen_grows seen seen' \<and> logs_seen {(name, n)} seen'"
  using name_one_encoding[of name Zstd] name_one_encoding[of name Plain]
  by (auto simp: check_log_entry_def seen_grows_def logs_seen_def opposite_def Let_def split: if_splits)

lemma session_dir_facts:
  assumes "check_session_dir dir l = Inr seen"
  shows "(\<forall>e\<in>children l. snd e \<noteq> FsLink) \<and> logs_seen (children l) seen"
proof -
  obtain es where es: "listed dir l = Inr es" "check_dir_entries check_log_entry dir es (False, False) = Inr seen"
    using assms by (auto simp: check_session_dir_def rbind_def split: sum.splits if_splits)
  have a: "admitted_by check_log_entry dir e seen" if "e \<in> children l" for e
    using check_entries_admitted[of check_log_entry, OF _ es(2)] log_entry_facts that listed_children[OF es(1)] by blast
  have "logs_seen {(name, n)} seen" if e: "(name, n) \<in> children l" for name n
  proof (cases "is_ignorable_os_junk name n")
    case True
    then show ?thesis using junk_no_log by (simp add: logs_seen_def)
  next
    case False
    then obtain s s' where "check_log_entry (entry_path dir name) name n s = Inr s'" "seen_grows s' seen"
      using a[OF e] by (auto simp: admitted_by_def)
    then show ?thesis using log_entry_facts grows_facts(3) by blast
  qed
  moreover have "\<forall>e\<in>children l. snd e \<noteq> FsLink" using a by (auto simp: admitted_by_def)
  ultimately show ?thesis by (auto simp: logs_seen_def)
qed

lemma session_entry_facts:
  assumes "check_session_entry path name n seen = Inr seen'"
  shows "seen_grows seen seen' \<and> (\<exists>dl. n = FsDir dl \<and> (\<forall>e\<in>children dl. snd e \<noteq> FsLink) \<and> logs_seen (children dl) seen')"
proof -
  obtain dl zstd raw where "n = FsDir dl" "check_session_dir path dl = Inr (zstd, raw)" "seen' = (fst seen \<or> zstd, snd seen \<or> raw)"
    using assms by (auto simp: check_session_entry_def rbind_def split: dir_node.splits sum.splits)
  then show ?thesis using session_dir_facts[of path dl "(zstd, raw)"] by (auto simp: seen_grows_def logs_seen_def)
qed

text \<open>A directory of sessions: directories without links, and the logs below them.\<close>

definition session_layout :: "dir_listing \<Rightarrow> bool" where
  "session_layout l \<longleftrightarrow> (\<forall>(name, n)\<in>children l. is_ignorable_os_junk name n
     \<or> (\<exists>dl. n = FsDir dl \<and> (\<forall>e\<in>children dl. snd e \<noteq> FsLink)))"

lemma bucket_facts:
  assumes "check_bucket dir l seen = Inr seen'"
  shows "seen_grows seen seen' \<and> session_layout l \<and> logs_seen (files_below l) seen'"
proof -
  obtain es where es: "listed dir l = Inr es" "check_dir_entries check_session_entry dir es seen = Inr seen'"
    using assms by (auto simp: check_bucket_def rbind_def split: sum.splits)
  have a: "seen_grows seen seen'" "\<And>e. e \<in> children l \<Longrightarrow> admitted_by check_session_entry dir e seen'"
    using check_entries_admitted[of check_session_entry, OF _ es(2)] session_entry_facts listed_children[OF es(1)] by blast+
  have d: "is_ignorable_os_junk name n \<or> (\<exists>dl. n = FsDir dl \<and> (\<forall>e\<in>children dl. snd e \<noteq> FsLink) \<and> logs_seen (children dl) seen')"
    if e: "(name, n) \<in> children l" for name n
  proof (cases "is_ignorable_os_junk name n")
    case False
    then obtain s s' where "check_session_entry (entry_path dir name) name n s = Inr s'" "seen_grows s' seen'"
      using a(2)[OF e] by (auto simp: admitted_by_def)
    then show ?thesis using session_entry_facts grows_facts(3) by blast
  qed simp
  then have "session_layout l" by (fastforce simp: session_layout_def)
  moreover have "logs_seen (children dl) seen'" if "(n, FsDir dl) \<in> children l" for n dl
    using d[OF that] by (simp add: is_ignorable_os_junk_def)
  then have "logs_seen (files_below l) seen'" by (fastforce simp: files_below_def logs_seen_def)
  ultimately show ?thesis using a(1) by blast
qed

lemma bucket_entry_facts:
  assumes "check_bucket_entry root path name n seen = Inr seen'"
  shows "seen_grows seen seen' \<and> is_bucket_name name \<and> \<not> (fst seen' \<and> snd seen')
    \<and> (\<exists>bl. n = FsDir bl \<and> session_layout bl \<and> logs_seen (files_below bl) seen')"
proof -
  obtain bl where "is_bucket_name name" "n = FsDir bl" "check_bucket path bl seen = Inr seen'" "\<not> (fst seen' \<and> snd seen')"
    using assms by (auto simp: check_bucket_entry_def rbind_def split: dir_node.splits sum.splits if_splits)
  then show ?thesis using bucket_facts by blast
qed

lemma check_entries_invariant:
  assumes "\<And>path name n seen seen'. f path name n seen = Inr seen' \<Longrightarrow> P seen'"
  shows "P seen \<Longrightarrow> check_dir_entries f dir es seen = Inr final \<Longrightarrow> P final"
proof (induction es arbitrary: seen)
  case (Cons e es)
  then obtain name n where e: "e = Inr (name, Inr n)" by (cases "(f, dir, e # es, seen)" rule: check_dir_entries.cases) auto
  show ?case
  proof (cases "is_ignorable_os_junk name n")
    case True
    then show ?thesis using Cons by (auto simp: e split: if_splits)
  next
    case False
    then obtain s where "f (entry_path dir name) name n seen = Inr s" "check_dir_entries f dir es s = Inr final"
      using Cons(3) by (auto simp: e rbind_def split: if_splits sum.splits)
    then show ?thesis using assms Cons(1) by blast
  qed
qed simp


definition demo_root :: dir_listing where
  "demo_root = Listing [Inr (''.DS_Store'', Inr FsFile), Inr (''--p--'', Inr (FsDir (Listing [Inr (''s'', Inr (FsDir (Listing
     [Inr (''session.jsonl'', Inr FsFile), Inr (''notes'', Inr FsFile)])))])))]"

lemma demo_root_accepted: "check_session_root ''/r'' False demo_root = Inr ()"
  by code_simp


end
