(* ===== verification/ZstdFrames.thy ===== *)
theory ZstdFrames
  imports SessionPath
begin

text \<open>
  The frames of a compressed log (\<open>session/zstd_frames.rs\<close>): the structural scan that finds their
  boundaries and a torn tail, and decompression within a budget. Compression itself is the third-party
  library: \<open>zstd_env\<close> holds its calls. A panic (index out of bounds, underflow) is \<open>None\<close>.
\<close>

section \<open>The boundary of a frame\<close>

definition byte_at :: "string \<Rightarrow> nat \<Rightarrow> nat" where
  "byte_at bytes i = char_code (bytes ! i)"

definition content_size_bytes :: "nat \<Rightarrow> nat" where
  "content_size_bytes d =
     (let flag = d div 64 mod 4; single = odd (d div 32) in
      if flag = 0 then (if single then 1 else 0) else 2 ^ flag)"

definition dict_id_bytes :: "nat \<Rightarrow> nat" where
  "dict_id_bytes d = (case d mod 4 of 0 \<Rightarrow> 0 | Suc 0 \<Rightarrow> 1 | Suc (Suc 0) \<Rightarrow> 2 | _ \<Rightarrow> 4)"

text \<open>The bytes before the first block, by the descriptor.\<close>

definition header_bytes :: "nat \<Rightarrow> nat" where
  "header_bytes d = 5 + content_size_bytes d + dict_id_bytes d + (if odd (d div 32) then 0 else 1)"

definition block_header :: "string \<Rightarrow> nat \<Rightarrow> nat" where
  "block_header bytes offset = byte_at bytes offset + 256 * byte_at bytes (offset + 1) + 65536 * byte_at bytes (offset + 2)"

definition block_payload :: "nat \<Rightarrow> nat" where
  "block_payload h = (if h div 2 mod 4 = 1 then 1 else h div 8)"

function blocks_end :: "string \<Rightarrow> nat \<Rightarrow> (string + nat option) option" where
  "blocks_end bytes offset =
     (if length bytes < offset then None
      else if length bytes - offset < 3 then Some (Inr None)
      else let h = block_header bytes offset in
        if h div 2 mod 4 = 3 then Some (Inl ''reserved block type'')
        else if length bytes - (offset + 3) < block_payload h then Some (Inr None)
        else if odd h then Some (Inr (Some (offset + 3 + block_payload h)))
        else blocks_end bytes (offset + 3 + block_payload h))"
  by auto
termination by (relation "measure (\<lambda>(bytes, offset). length bytes - offset)") (auto simp: Let_def)

declare blocks_end.simps [simp del]

definition zstd_magic :: "nat list" where
  "zstd_magic = [40, 181, 47, 253]"

text \<open>The end of a frame from the end of its blocks: a checksum follows them when it is flagged.\<close>

fun checksum_end :: "bool \<Rightarrow> nat \<Rightarrow> (string + nat option) option \<Rightarrow> (string + nat option) option" where
  "checksum_end checksum len (Some (Inr (Some offset))) =
     (if \<not> checksum then Some (Inr (Some offset))
      else if len - offset < 4 then Some (Inr None) else Some (Inr (Some (offset + 4))))"
| "checksum_end checksum len r = r"

definition frame_end :: "string \<Rightarrow> nat \<Rightarrow> (string + nat option) option" where
  "frame_end bytes start =
     (if length bytes < start then None
      else if length bytes - start < 4 then Some (Inr None)
      else if map (byte_at bytes) [start, start + 1, start + 2, start + 3] \<noteq> zstd_magic then
        Some (Inl (''invalid frame magic at byte '' @ show_nat start))
      else if length bytes \<le> start + 4 then None
      else if byte_at bytes (start + 4) div 8 mod 4 \<noteq> 0 then Some (Inl ''reserved frame-header bit'')
      else checksum_end (odd (byte_at bytes (start + 4) div 4)) (length bytes)
        (blocks_end bytes (start + header_bytes (byte_at bytes (start + 4)))))"

section \<open>Scanning\<close>

record frame_scan =
  fs_frames :: "(nat \<times> nat) list"
  fs_torn :: "nat option"

lemma blocks_end_grows: "blocks_end bytes offset = Some (Inr (Some e)) \<Longrightarrow> offset < e \<and> e \<le> length bytes"
proof (induction bytes offset rule: blocks_end.induct)
  case (1 bytes offset)
  then show ?case by (subst (asm) blocks_end.simps) (fastforce simp: Let_def split: if_splits)
qed

lemma frame_end_grows: "frame_end bytes start = Some (Inr (Some e)) \<Longrightarrow> start < e \<and> e \<le> length bytes"
proof -
  assume "frame_end bytes start = Some (Inr (Some e))"
  then have "checksum_end (odd (byte_at bytes (start + 4) div 4)) (length bytes)
      (blocks_end bytes (start + header_bytes (byte_at bytes (start + 4)))) = Some (Inr (Some e))"
    by (auto simp: frame_end_def split: if_splits)
  then obtain off where "blocks_end bytes (start + header_bytes (byte_at bytes (start + 4))) = Some (Inr (Some off))"
      "off \<le> e" "e \<le> off + 4" "e = off \<or> 4 \<le> length bytes - off"
    by (cases "(odd (byte_at bytes (start + 4) div 4), length bytes, blocks_end bytes (start + header_bytes (byte_at bytes (start + 4))))"
      rule: checksum_end.cases) (auto split: if_splits)
  then show ?thesis using blocks_end_grows[of bytes "start + header_bytes (byte_at bytes (start + 4))" off] by auto
qed

function scan_from :: "string \<Rightarrow> nat \<Rightarrow> (nat \<times> nat) list \<Rightarrow> nat \<Rightarrow> (string + frame_scan) option" where
  "scan_from bytes max_frames frames offset =
     (if length bytes \<le> offset \<or> length frames = max_frames then Some (Inr \<lparr>fs_frames = frames, fs_torn = None\<rparr>)
      else case frame_end bytes offset of
          None \<Rightarrow> None
        | Some (Inl e) \<Rightarrow> Some (Inl e)
        | Some (Inr None) \<Rightarrow> Some (Inr \<lparr>fs_frames = frames, fs_torn = Some offset\<rparr>)
        | Some (Inr (Some end')) \<Rightarrow> scan_from bytes max_frames (frames @ [(offset, end')]) end')"
  by auto
termination
  by (relation "measure (\<lambda>(bytes, m, frames, offset). length bytes - offset)") (auto dest: frame_end_grows)

declare scan_from.simps [simp del]

definition scan_frames :: "string \<Rightarrow> nat \<Rightarrow> (string + frame_scan) option" where
  "scan_frames bytes max_frames = scan_from bytes max_frames [] 0"

section \<open>Decompression\<close>

text \<open>A streaming decoder is what its reads return: the chunks until its end or an error.\<close>

record zstd_env =
  zd_compress :: "string \<Rightarrow> string + string"
  zd_bulk :: "string \<Rightarrow> nat \<Rightarrow> string option"
  zd_stream :: "string \<Rightarrow> string + string list \<times> string option"

definition frame_header_size :: "string \<Rightarrow> nat option" where
  "frame_header_size frame = (if length frame \<le> 4 then None
     else Some (5 + content_size_bytes (byte_at frame 4) + dict_id_bytes (byte_at frame 4)))"

text \<open>The size field is read from its first byte on.\<close>

definition expected_content_size :: "string \<Rightarrow> (string + nat) option" where
  "expected_content_size frame = (case scan_frames frame 1 of
       None \<Rightarrow> None
     | Some (Inl e) \<Rightarrow> Some (Inl e)
     | Some (Inr scan) \<Rightarrow> (case fs_frames scan of
           [] \<Rightarrow> Some (Inl ''empty frame'')
         | r # _ \<Rightarrow>
             Option.bind (frame_header_size (drop (fst r) frame)) (\<lambda>size.
             let header = take size (drop (fst r) frame); n = content_size_bytes (byte_at header 4) in
             if length header < 5 + n then None
             else if n = 0 then Some (Inr (2 ^ 20))
             else Some (Inr (max (foldl (\<lambda>s c. s * 256 mod 2 ^ 64 + char_code c) 0 (take n (drop 5 header))) (2 ^ 16))))))"

definition budget_error :: "nat \<Rightarrow> string" where
  "budget_error cap = ''zstd frame decodes past the '' @ show_nat cap @ ''-byte budget''"

fun decode_chunks :: "nat \<Rightarrow> string \<Rightarrow> string list \<Rightarrow> string option \<Rightarrow> string + string" where
  "decode_chunks cap out [] err = (case err of None \<Rightarrow> Inr out | Some e \<Rightarrow> Inl e)"
| "decode_chunks cap out (c # cs) err =
     (if cap < length out + length c then Inl (budget_error cap) else decode_chunks cap (out @ c) cs err)"

definition stream_decode_capped :: "zstd_env \<Rightarrow> string \<Rightarrow> nat \<Rightarrow> string + string" where
  "stream_decode_capped Z frame cap = rbind (zd_stream Z frame) (\<lambda>(chunks, err). decode_chunks cap [] chunks err)"

definition decompress_frame_capped :: "zstd_env \<Rightarrow> string \<Rightarrow> nat \<Rightarrow> (string + string) option" where
  "decompress_frame_capped Z frame cap =
     map_option (\<lambda>r. rbind r (\<lambda>expected.
       case (if expected \<le> cap then zd_bulk Z frame expected else None) of
         Some p \<Rightarrow> if length p \<le> cap then Inr p else Inl (budget_error cap)
       | None \<Rightarrow> stream_decode_capped Z frame cap)) (expected_content_size frame)"

fun salvage_chunks :: "nat \<Rightarrow> string \<Rightarrow> string list \<Rightarrow> string" where
  "salvage_chunks cap out [] = out"
| "salvage_chunks cap out (c # cs) = (if cap < length out + length c then out else salvage_chunks cap (out @ c) cs)"

definition decompress_prefix :: "zstd_env \<Rightarrow> string \<Rightarrow> nat \<Rightarrow> string" where
  "decompress_prefix Z torn cap = (case zd_stream Z torn of Inl _ \<Rightarrow> [] | Inr (chunks, _) \<Rightarrow> salvage_chunks cap [] chunks)"

end
