(* ===== verification/ZstdFramesProps.thy ===== *)
theory ZstdFramesProps
  imports ZstdFrames Interfaces
begin

text \<open>
  The scan of a compressed log that was cut: the whole frames are found, the rest is a torn tail, except
  where the cut leaves the scan without the header of a frame.
\<close>

section \<open>A frame at an offset\<close>

abbreviation shifted :: "nat \<Rightarrow> (string + nat option) option \<Rightarrow> (string + nat option) option" where
  "shifted n \<equiv> map_option (map_sum id (map_option ((+) n)))"

lemma byte_at_shift [simp]: "byte_at (p @ b) (length p + i) = byte_at b i"
  by (simp add: byte_at_def)

lemma block_header_shift [simp]: "block_header (p @ b) (length p + i) = block_header b i"
  using byte_at_shift[of p b i] byte_at_shift[of p b "i + 1"] byte_at_shift[of p b "i + 2"]
  by (simp add: block_header_def del: byte_at_shift)

lemma blocks_end_shift: "blocks_end (p @ b) (length p + offset) = shifted (length p) (blocks_end b offset)"
proof (induction b offset rule: blocks_end.induct)
  case (1 b offset)
  let ?h = "block_header b offset"
  have n: "length (p @ b) < length p + offset \<longleftrightarrow> length b < offset" "length (p @ b) - (length p + offset) = length b - offset"
      "length (p @ b) - (length p + offset + 3) = length b - (offset + 3)" by simp_all
  have next': "length p + offset + 3 + block_payload ?h = length p + (offset + 3 + block_payload ?h)" by simp
  show ?case
  proof (cases "offset + 3 \<le> length b \<and> ?h div 2 mod 4 \<noteq> 3 \<and> block_payload ?h \<le> length b - (offset + 3) \<and> even ?h")
    case True
    then have "blocks_end b offset = blocks_end b (offset + 3 + block_payload ?h)"
        "blocks_end (p @ b) (length p + offset) = blocks_end (p @ b) (length p + (offset + 3 + block_payload ?h))"
      unfolding blocks_end.simps[of b offset] blocks_end.simps[of "p @ b" "length p + offset"] n block_header_shift Let_def next'
      by auto
    moreover have "blocks_end (p @ b) (length p + (offset + 3 + block_payload ?h))
        = shifted (length p) (blocks_end b (offset + 3 + block_payload ?h))"
      by (rule 1) (use True in auto)
    ultimately show ?thesis by (simp only:)
  next
    case False
    then show ?thesis
      unfolding blocks_end.simps[of b offset] blocks_end.simps[of "p @ b" "length p + offset"] n block_header_shift Let_def next'
      by auto
  qed
qed

text \<open>Where a complete frame is found, its own bytes decide.\<close>

lemma byte_at_append [simp]: "i < length b \<Longrightarrow> byte_at (b @ r) i = byte_at b i"
  by (simp add: byte_at_def nth_append)

lemma byte_at_take [simp]: "i < t \<Longrightarrow> byte_at (take t b) i = byte_at b i"
  by (simp add: byte_at_def)

lemma blocks_end_append: "blocks_end b offset = Some (Inr (Some e)) \<Longrightarrow> blocks_end (b @ r) offset = Some (Inr (Some e))"
proof (induction b offset rule: blocks_end.induct)
  case (1 b offset)
  then have l: "offset + 3 \<le> length b" by (subst (asm) (2) blocks_end.simps) (auto split: if_splits)
  then have h: "block_header (b @ r) offset = block_header b offset" by (simp add: block_header_def)
  show ?case using 1 l by (subst blocks_end.simps, subst (asm) (3) blocks_end.simps) (auto simp: h Let_def split: if_splits)
qed

lemma blocks_end_cut:
  "blocks_end b offset = Some (Inr (Some e)) \<Longrightarrow> offset \<le> t \<Longrightarrow> t < e \<Longrightarrow> blocks_end (take t b) offset = Some (Inr None)"
proof (induction b offset rule: blocks_end.induct)
  case (1 b offset)
  have e: "e \<le> length b" using blocks_end_grows[OF 1(2)] by simp
  show ?case
  proof (cases "t - offset < 3")
    case True
    then show ?thesis using 1(3,4) e by (subst blocks_end.simps) simp
  next
    case False
    then have h: "block_header (take t b) offset = block_header b offset" by (simp add: block_header_def)
    let ?n = "offset + 3 + block_payload (block_header b offset)"
    show ?thesis
    proof (cases "t < ?n")
      case True
      then show ?thesis using 1(2-4) e False
        by (subst blocks_end.simps, subst (asm) blocks_end.simps) (auto simp: h Let_def split: if_splits)
    next
      case n: False
      have "blocks_end b ?n = Some (Inr (Some e)) \<and> even (block_header b offset) \<and> block_header b offset div 2 mod 4 \<noteq> 3
          \<and> offset + 3 \<le> length b"
        using 1(2,4) n by (subst (asm) blocks_end.simps) (auto simp: Let_def split: if_splits)
      moreover from this have "blocks_end (take t b) ?n = Some (Inr None)"
        using 1(1)[of "block_header b offset"] 1(4) n e by auto
      ultimately show ?thesis using 1(2-4) e False n
        by (subst blocks_end.simps, subst (asm) (2) blocks_end.simps) (auto simp: h Let_def split: if_splits)
    qed
  qed
qed

lemma blocks_end_within:
  "blocks_end b offset = Some (Inr (Some e)) \<Longrightarrow> e \<le> t \<Longrightarrow> blocks_end (take t b) offset = Some (Inr (Some e))"
proof (induction b offset rule: blocks_end.induct)
  case (1 b offset)
  let ?h = "block_header b offset" and ?n = "offset + 3 + block_payload (block_header b offset)"
  have step: "offset + 3 \<le> length b" "?h div 2 mod 4 \<noteq> 3" "?n \<le> length b"
      "if odd ?h then e = ?n else blocks_end b ?n = Some (Inr (Some e))"
    using 1(2) by (subst (asm) blocks_end.simps, auto simp: Let_def split: if_splits)+
  have n: "?n \<le> e" using step(4) blocks_end_grows[of b ?n e] by (auto split: if_splits)
  then have h: "block_header (take t b) offset = ?h" using 1(3) by (simp add: block_header_def)
  have "blocks_end (take t b) ?n = Some (Inr (Some e))" if "even ?h"
    using 1(1)[of ?h] step that 1(3) by auto
  then show ?case using step n 1(3)
    by (subst blocks_end.simps) (auto simp: h Let_def split: if_splits)
qed

section \<open>Whole frames and torn ones\<close>

definition complete_frame :: "string \<Rightarrow> bool" where
  "complete_frame f \<longleftrightarrow> frame_end f 0 = Some (Inr (Some (length f)))"

definition frame_header_bytes :: "string \<Rightarrow> nat" where
  "frame_header_bytes f = header_bytes (byte_at f 4)"

lemma frame_end_first:
  "frame_end b 0 = (if length b < 4 then Some (Inr None)
      else if map (byte_at b) [0, 1, 2, 3] \<noteq> zstd_magic then Some (Inl (''invalid frame magic at byte '' @ show_nat 0))
      else if length b \<le> 4 then None
      else if byte_at b 4 div 8 mod 4 \<noteq> 0 then Some (Inl ''reserved frame-header bit'')
      else checksum_end (odd (byte_at b 4 div 4)) (length b) (blocks_end b (frame_header_bytes b)))"
  by (simp only: frame_end_def frame_header_bytes_def add_0 diff_zero not_less0 if_False)

lemma checksum_end_shift: "checksum_end c (n + m) (shifted n r) = shifted n (checksum_end c m r)"
  by (cases "(c, m, r)" rule: checksum_end.cases) auto

lemma frame_end_after:
  assumes "length b < 4 \<or> map (byte_at b) [0, 1, 2, 3] = zstd_magic"
  shows "frame_end (p @ b) (length p) = shifted (length p) (frame_end b 0)"
proof -
  have bytes: "map (byte_at (p @ b)) [length p, length p + 1, length p + 2, length p + 3] = map (byte_at b) [0, 1, 2, 3]"
    using byte_at_shift[of p b 0] by (simp only: add.assoc byte_at_shift list.map add_0_right)
  have n: "length (p @ b) - length p = length b" "length (p @ b) \<le> length p + 4 \<longleftrightarrow> length b \<le> 4" "\<not> length (p @ b) < length p"
    "length (p @ b) = length p + length b" by simp_all
  show ?thesis using assms
    unfolding frame_end_first frame_end_def[of "p @ b"] frame_header_bytes_def bytes n byte_at_shift blocks_end_shift checksum_end_shift by auto
qed

lemma checksum_end_Some:
  assumes "checksum_end c n r = Some (Inr (Some e))"
  obtains off where "r = Some (Inr (Some off))" "e = (if c then off + 4 else off)"
  using assms by (cases "(c, n, r)" rule: checksum_end.cases) (auto split: if_splits)

lemma complete_frameE:
  assumes "complete_frame f"
  obtains off where "4 < length f" "map (byte_at f) [0, 1, 2, 3] = zstd_magic" "byte_at f 4 div 8 mod 4 = 0"
    "blocks_end f (frame_header_bytes f) = Some (Inr (Some off))"
    "length f = (if odd (byte_at f 4 div 4) then off + 4 else off)" "frame_header_bytes f < off" "off \<le> length f"
proof -
  have c: "4 < length f" "map (byte_at f) [0, 1, 2, 3] = zstd_magic" "byte_at f 4 div 8 mod 4 = 0"
      "checksum_end (odd (byte_at f 4 div 4)) (length f) (blocks_end f (frame_header_bytes f)) = Some (Inr (Some (length f)))"
    using assms unfolding complete_frame_def frame_end_first by (auto simp del: list.map split: if_splits)
  obtain off where o: "blocks_end f (frame_header_bytes f) = Some (Inr (Some off))"
      "length f = (if odd (byte_at f 4 div 4) then off + 4 else off)"
    by (rule checksum_end_Some[OF c(4)])
  show thesis by (rule that[OF c(1-3) o]) (use blocks_end_grows[OF o(1)] in simp_all)
qed

lemma magic_append:
  assumes "4 < length f"
  shows "map (byte_at (f @ r)) [0, 1, 2, 3] = map (byte_at f) [0, 1, 2, 3]" "byte_at (f @ r) 4 = byte_at f 4"
proof -
  have "f \<noteq> []" using assms by auto
  then show "map (byte_at (f @ r)) [0, 1, 2, 3] = map (byte_at f) [0, 1, 2, 3]" "byte_at (f @ r) 4 = byte_at f 4"
    using assms by simp_all
qed

lemma magic_take: "4 \<le> k \<Longrightarrow> map (byte_at (take k b)) [0, 1, 2, 3] = map (byte_at b) [0, 1, 2, 3]"
  by simp

lemma complete_frame_first: "complete_frame f \<Longrightarrow> frame_end (f @ r) 0 = Some (Inr (Some (length f)))"
proof -
  assume "complete_frame f"
  then obtain off where f: "4 < length f" "map (byte_at f) [0, 1, 2, 3] = zstd_magic" "byte_at f 4 div 8 mod 4 = 0"
    "blocks_end f (frame_header_bytes f) = Some (Inr (Some off))"
    "length f = (if odd (byte_at f 4 div 4) then off + 4 else off)"
    by (rule complete_frameE)
  have h: "byte_at (f @ r) 4 = byte_at f 4" "map (byte_at (f @ r)) [0, 1, 2, 3] = map (byte_at f) [0, 1, 2, 3]"
      "frame_header_bytes (f @ r) = frame_header_bytes f"
    using magic_append[OF f(1), of r] by (simp_all only: frame_header_bytes_def)
  show ?thesis using f(1,5) unfolding frame_end_first h f(2,3) blocks_end_append[OF f(4), of r] by simp
qed

lemma torn_frame:
  assumes "complete_frame f" "t < length f"
  shows "frame_end (take t f) 0 = (if 4 \<le> t \<and> t < frame_header_bytes f then None else Some (Inr None))"
proof -
  obtain off where f: "4 < length f" "map (byte_at f) [0, 1, 2, 3] = zstd_magic" "byte_at f 4 div 8 mod 4 = 0"
    "blocks_end f (frame_header_bytes f) = Some (Inr (Some off))"
    "length f = (if odd (byte_at f 4 div 4) then off + 4 else off)" "off \<le> length f"
    by (rule complete_frameE[OF assms(1)])
  have len: "length (take t f) = t" using assms(2) by simp
  have m: "map (byte_at (take t f)) [0, 1, 2, 3] = zstd_magic" if "4 \<le> t" using f(2) that by simp
  consider "t < 4" | "t = 4" | "4 < t" by linarith
  then show ?thesis
  proof cases
    case 1
    then show ?thesis unfolding frame_end_first len by simp
  next
    case 2
    moreover have "4 < frame_header_bytes f" by (simp add: frame_header_bytes_def header_bytes_def)
    ultimately show ?thesis using m unfolding frame_end_first len by simp
  next
    case 3
    have d: "byte_at (take t f) 4 = byte_at f 4" "frame_header_bytes (take t f) = frame_header_bytes f"
      using 3 by (simp_all add: frame_header_bytes_def)
    have blocks: "blocks_end (take t f) (frame_header_bytes f)
        = (if t < frame_header_bytes f then None else if t < off then Some (Inr None) else Some (Inr (Some off)))"
    proof (cases "t < frame_header_bytes f")
      case True
      then show ?thesis using len by (simp add: blocks_end.simps[of "take t f"])
    qed (use blocks_end_cut[OF f(4)] blocks_end_within[OF f(4)] in auto)
    have "t < off + 4" "odd (byte_at f 4 div 4)" if "off \<le> t" using assms(2) f(5) that by (auto split: if_splits)
    then show ?thesis using 3 m f(3) unfolding frame_end_first len d blocks by auto
  qed
qed

section \<open>A log cut in a frame\<close>

fun bounds :: "nat \<Rightarrow> string list \<Rightarrow> (nat \<times> nat) list" where
  "bounds n [] = []"
| "bounds n (f # fs) = (n, n + length f) # bounds (n + length f) fs"

text \<open>The whole frames within the first bytes, and the frame that was cut with what is left of it.\<close>

fun cut_frames :: "nat \<Rightarrow> string list \<Rightarrow> string list \<times> (string \<times> nat) option" where
  "cut_frames k [] = ([], None)"
| "cut_frames k (f # fs) =
     (if length f \<le> k then (let (done', torn) = cut_frames (k - length f) fs in (f # done', torn))
      else ([], if k = 0 then None else Some (f, k)))"

definition scan_of_cut :: "nat \<Rightarrow> (nat \<times> nat) list \<Rightarrow> string list \<times> (string \<times> nat) option \<Rightarrow> (string + frame_scan) option" where
  "scan_of_cut n before parts = (case snd parts of
       None \<Rightarrow> Some (Inr \<lparr>fs_frames = before @ bounds n (fst parts), fs_torn = None\<rparr>)
     | Some (f, t) \<Rightarrow> if 4 \<le> t \<and> t < frame_header_bytes f then None
         else Some (Inr \<lparr>fs_frames = before @ bounds n (fst parts), fs_torn = Some (n + length (concat (fst parts)))\<rparr>))"

lemma cut_magic:
  assumes "complete_frame f"
  shows "length (take k (f @ r)) < 4 \<or> map (byte_at (take k (f @ r))) [0, 1, 2, 3] = zstd_magic"
proof -
  obtain off where "4 < length f" "map (byte_at f) [0, 1, 2, 3] = zstd_magic" by (rule complete_frameE[OF assms])
  then have "map (byte_at (f @ r)) [0, 1, 2, 3] = zstd_magic" using magic_append(1) by simp
  then show ?thesis using magic_take[of k "f @ r"] by (cases "4 \<le> k") auto
qed

lemma scan_from_cut:
  "list_all complete_frame fs \<Longrightarrow> length before + length fs < max_frames \<Longrightarrow>
    scan_from (p @ take k (concat fs)) max_frames before (length p) = scan_of_cut (length p) before (cut_frames k fs)"
proof (induction k fs arbitrary: p before rule: cut_frames.induct)
  case (1 k)
  then show ?case by (simp add: scan_from.simps scan_of_cut_def)
next
  case (2 k f fs)
  then have f: "complete_frame f" "0 < length f" using complete_frameE[of f] by auto
  let ?b = "take k (concat (f # fs))"
  have m: "frame_end (p @ ?b) (length p) = shifted (length p) (frame_end ?b 0)"
    by (rule frame_end_after) (use cut_magic[OF f(1)] in simp)
  show ?case
  proof (cases "length f \<le> k")
    case True
    then have b: "?b = f @ take (k - length f) (concat fs)" by simp
    then have "scan_from (p @ ?b) max_frames before (length p)
        = scan_from ((p @ f) @ take (k - length f) (concat fs)) max_frames (before @ [(length p, length (p @ f))]) (length (p @ f))"
      using f 2(3) m complete_frame_first[OF f(1)] by (subst scan_from.simps) simp
    also have "\<dots> = scan_of_cut (length (p @ f)) (before @ [(length p, length (p @ f))]) (cut_frames (k - length f) fs)"
      by (rule 2(1)[OF True]) (use 2(2,3) in simp_all)
    finally show ?thesis using True
      by (cases "cut_frames (k - length f) fs") (simp add: scan_of_cut_def add.assoc split: option.splits)
  next
    case False
    then have b: "?b = take k f" by simp
    then show ?thesis using False 2(3) m torn_frame[OF f(1), of k]
      by (subst scan_from.simps) (simp add: scan_of_cut_def)
  qed
qed

lemma frames_crash_cut_facts:
  assumes "list_all complete_frame fs" "length fs < max_frames"
  shows "scan_frames (take k (concat fs)) max_frames = scan_of_cut 0 [] (cut_frames k fs)"
  using scan_from_cut[of fs "[]" max_frames "[]" k] assms by (simp add: scan_frames_def)

lemma cut_frames_within: "fst (cut_frames k fs) = within_cut id k fs"
  by (induction k fs rule: cut_frames.induct) (auto simp: Let_def split: prod.splits)

definition slices :: "string \<Rightarrow> (nat \<times> nat) list \<Rightarrow> string list" where
  "slices bytes bs = map (\<lambda>(a, b). take (b - a) (drop a bytes)) bs"

lemma slices_bounds: "slices (p @ concat fs @ r) (bounds (length p) fs) = fs"
proof (induction fs arbitrary: p)
  case (Cons f fs)
  from Cons[of "p @ f"] show ?case by (simp add: slices_def)
qed (simp add: slices_def)

text \<open>The compressed log as a framed log.\<close>

definition frames_found :: "nat \<Rightarrow> string \<Rightarrow> string list option" where
  "frames_found max_frames bytes = (case scan_frames bytes max_frames of
     Some (Inr scan) \<Rightarrow> Some (slices bytes (fs_frames scan)) | _ \<Rightarrow> None)"

interpretation compressed_log: framed_log id "\<lambda>fs. list_all complete_frame fs \<and> length fs < max_frames" "frames_found max_frames" for max_frames
proof
  fix fs k gs
  assume good: "list_all complete_frame fs \<and> length fs < max_frames" and found: "frames_found max_frames (take k (concat (map id fs))) = Some gs"
  let ?in = "within_cut id k fs"
  have scan: "scan_frames (take k (concat fs)) max_frames = scan_of_cut 0 [] (cut_frames k fs)"
    using good by (intro frames_crash_cut_facts) simp_all
  obtain rest where rest: "fs = ?in @ rest" using within_cut_prefix by metis
  have "length (concat ?in) \<le> k" using within_cut_short[of id k fs] by simp
  then have "take k (concat ?in @ concat rest) = concat ?in @ take (k - length (concat ?in)) (concat rest)" by simp
  with rest obtain r where r: "take k (concat fs) = concat ?in @ r" by (metis concat_append)
  have "gs = slices (take k (concat fs)) (bounds 0 ?in)"
    using found by (auto simp: frames_found_def scan scan_of_cut_def cut_frames_within split: option.splits if_splits)
  then show "gs = ?in" using slices_bounds[of "[]" ?in r] by (simp add: r)
qed

text \<open>C18: the structural scan of a compressed log cut anywhere finds exactly the frames that are whole and
  reports the start of the torn one, unless the cut leaves the magic number of a frame without the rest
  of its header: there the scan panics.\<close>

theorem frames_crash_cut:
  assumes "list_all complete_frame fs" "length fs < max_frames"
  shows "scan_frames (take k (concat fs)) max_frames = scan_of_cut 0 [] (cut_frames k fs)"
  by (rule frames_crash_cut_facts[OF assms])

text \<open>One byte in a raw block: a single segment with a checksum.\<close>

definition demo_frame :: string where
  "demo_frame = map char_of [40, 181, 47, 253, 36, 1, 9, 0, 0, 97, 1, 2, 3, 4 :: nat]"

lemma demo_frame_bytes:
  "map (byte_at demo_frame) [0, 1, 2, 3] = zstd_magic" "byte_at demo_frame 4 = 36" "length demo_frame = 14"
  "frame_header_bytes demo_frame = 6" "block_header demo_frame 6 = 9"
  by (simp_all add: demo_frame_def byte_at_def zstd_magic_def frame_header_bytes_def header_bytes_def content_size_bytes_def
    dict_id_bytes_def block_header_def)

lemma demo_frame_complete: "complete_frame demo_frame"
proof -
  have "blocks_end demo_frame 6 = Some (Inr (Some 10))"
    by (simp add: blocks_end.simps demo_frame_bytes block_payload_def)
  then show ?thesis unfolding complete_frame_def frame_end_first demo_frame_bytes by simp
qed

lemma frames_crash_cut_witness:
  "scan_frames (take 20 (concat [demo_frame, demo_frame])) 9 = Some (Inr \<lparr>fs_frames = [(0, 14)], fs_torn = Some 14\<rparr>)"
  by (subst frames_crash_cut) (simp_all add: demo_frame_complete scan_of_cut_def demo_frame_bytes)

text \<open>A write that was cut after the magic number of a frame: the log can no longer be scanned.\<close>

lemma torn_magic_panics:
  "list_all complete_frame fs \<Longrightarrow> complete_frame f \<Longrightarrow> 4 \<le> t \<Longrightarrow> t < frame_header_bytes f \<Longrightarrow> length fs + 1 < max_frames \<Longrightarrow>
    scan_frames (concat fs @ take t f) max_frames = None"
proof -
  assume a: "list_all complete_frame fs" "complete_frame f" "4 \<le> t" "t < frame_header_bytes f" "length fs + 1 < max_frames"
  obtain off where f: "frame_header_bytes f < off" "off \<le> length f" by (rule complete_frameE[OF a(2)])
  have c: "cut_frames (length (concat gs) + t) (gs @ [f]) = (gs, Some (f, t))" for gs
    by (induction gs) (use f a(3,4) in auto)
  have "scan_frames (take (length (concat fs) + t) (concat (fs @ [f]))) max_frames = scan_of_cut 0 [] (fs, Some (f, t))"
    unfolding c[of fs, symmetric] by (rule frames_crash_cut_facts) (use a in simp_all)
  moreover have "take (length (concat fs) + t) (concat (fs @ [f])) = concat fs @ take t f" by (simp only: concat_append take_add) simp
  ultimately show ?thesis using a(3,4) by (simp add: scan_of_cut_def)
qed

end
