(* ===== verification/SessionStore.thy ===== *)
theory SessionStore
  imports ZstdFrames SessionLog SessionSurface
begin

text \<open>
  The durable store of one session (\<open>session/persistence.rs\<close>, \<open>persistence/append.rs\<close>,
  \<open>persistence/content.rs\<close>): leased appends with their three outcomes, first publication,
  the two readers, repair after a crash and preparation for writing. The file is its bytes; a revision
  is the text of its metadata. Each call of the operating system has its outcome in an \<open>io\<close> record,
  so that every error path is a branch; a write that fails may have left some of its bytes.
  The process holds the lease of the session while it writes, so no other writer appears in between;
  readers compare revisions. A panic is \<open>None\<close>.
\<close>

section \<open>State\<close>

record fault_hooks =
  fh_batch_write :: bool
  fh_batch_fsync :: bool
  fh_rollback_fsync :: bool
  fh_materialize_sync :: bool

definition no_faults :: fault_hooks where
  "no_faults = \<lparr>fh_batch_write = False, fh_batch_fsync = False, fh_rollback_fsync = False, fh_materialize_sync = False\<rparr>"

record session_state =
  ss_header :: session_header
  ss_cursor :: nat
  ss_materialized :: bool

record session_backend =
  bk_states :: "session_key \<Rightarrow> session_state option"
  bk_faults :: fault_hooks
  bk_poisoned :: "session_key set"

text \<open>The digest of a handle is kept as the bytes that were hashed.\<close>

record prepared_session =
  pr_key :: session_key
  pr_header :: session_header
  pr_next :: nat
  pr_materialized :: bool
  pr_dir :: bool
  pr_lease :: bool
  pr_revision :: string
  pr_digest :: string
  pr_seed :: bool

datatype append_failure = NotCommitted prepared_session string | UnknownOutcome string

record 'p store_env =
  st_print :: "json \<Rightarrow> string"
  st_scan :: scan_env
  st_utf8 :: "string \<Rightarrow> bool"
  st_zstd :: zstd_env
  st_catalog :: "'p catalog_env"
  st_admission_text :: "admission_error \<Rightarrow> string"
  st_sha :: "string \<Rightarrow> string"
  st_compression :: compression
  st_pack :: bool

section \<open>Encoding\<close>

definition encode_block :: "'p store_env \<Rightarrow> string \<Rightarrow> string + string" where
  "encode_block E text' = (case st_compression E of Plain \<Rightarrow> Inr text' | Zstd \<Rightarrow> zd_compress (st_zstd E) text')"

definition encode_batch :: "'p store_env \<Rightarrow> session_event list \<Rightarrow> string + string" where
  "encode_batch E es = encode_block E (append_batch_bytes (st_print E) es (st_pack E))"

definition encode_log :: "'p store_env \<Rightarrow> session_header \<Rightarrow> session_event list \<Rightarrow> (string + string) option" where
  "encode_log E h es = map_option (\<lambda>v.
     rbind (encode_block E (st_print E v @ [lf])) (\<lambda>head'.
     rbind (encode_block E (event_lines (st_print E) es (st_pack E) (sh_version h) @ [lf])) (\<lambda>body.
     Inr (head' @ body)))) (header_value h)"

section \<open>Appending\<close>

definition poison_session :: "session_backend \<Rightarrow> session_key \<Rightarrow> string \<Rightarrow> session_backend \<times> (append_failure + prepared_session)" where
  "poison_session B key err = (B\<lparr>bk_poisoned := insert key (bk_poisoned B)\<rparr>, Inl (UnknownOutcome err))"

definition advance_session :: "session_backend \<Rightarrow> prepared_session \<Rightarrow> nat \<Rightarrow> session_backend \<times> (append_failure + prepared_session)" where
  "advance_session B s n =
     (let s' = s\<lparr>pr_next := pr_next s + n, pr_materialized := True\<rparr> in
      (case bk_states B (pr_key s) of
         None \<Rightarrow> B
       | Some st \<Rightarrow> B\<lparr>bk_states := (bk_states B)(pr_key s \<mapsto> st\<lparr>ss_materialized := True, ss_cursor := pr_next s'\<rparr>)\<rparr>, Inr s'))"

text \<open>\<open>rsplit_once(':')\<close>: the part before the last colon.\<close>

definition before_last_colon :: "string \<Rightarrow> string option" where
  "before_last_colon s = (if CHR '':'' \<in> set s then Some (rev (tl (dropWhile (\<lambda>c. c \<noteq> CHR '':'') (rev s)))) else None)"

definition ctime_only_change :: "string \<Rightarrow> string \<Rightarrow> bool" where
  "ctime_only_change before after = (case (before_last_colon before, before_last_colon after) of
     (Some a, Some b) \<Rightarrow> a = b | _ \<Rightarrow> False)"

record append_io =
  ai_open :: "string option"
  ai_current :: "string + string"
  ai_digest :: "string + string"
  ai_again :: "string + string"
  ai_stat :: "string option"
  ai_write :: "(nat \<times> string) option"
  ai_sync :: "string option"
  ai_set_len :: "string option"
  ai_rollback_sync :: "string option"
  ai_restat :: "string + string"

definition verify_append :: "'p store_env \<Rightarrow> append_io \<Rightarrow> prepared_session \<Rightarrow> string + unit" where
  "verify_append E io s =
     rbind (ai_current io) (\<lambda>now.
     if now = pr_revision s then Inr ()
     else rbind (if ctime_only_change (pr_revision s) now
         then rbind (ai_digest io) (\<lambda>d. if st_sha E (pr_digest s) = st_sha E d then rbind (ai_again io) (\<lambda>r. Inr (r = now)) else Inr False)
         else Inr False) (\<lambda>same.
       ensure same (''session log changed since this handle was prepared (external writer?): revision drift ''
         @ pr_revision s @ '' -> '' @ now)))"

definition open_checked :: "'p store_env \<Rightarrow> append_io \<Rightarrow> prepared_session \<Rightarrow> string + unit" where
  "open_checked E io s =
     rbind (ensure (pr_dir s) ''materialized session has no capability-held directory'') (\<lambda>_.
     rbind (ensure (pr_lease s) ''materialized session has no active cross-process write lease'') (\<lambda>_.
     rbind (case ai_open io of None \<Rightarrow> Inr () | Some e \<Rightarrow> Inl (''cannot reopen prepared session log: '' @ e)) (\<lambda>_.
     rbind (verify_append E io s) (\<lambda>_.
     case ai_stat io of None \<Rightarrow> Inr () | Some e \<Rightarrow> Inl e))))"

text \<open>\<open>File::set_len\<close>\<close>

definition set_len :: "nat \<Rightarrow> string \<Rightarrow> string" where
  "set_len n b = take n b @ replicate (n - length b) (char_of (0::nat))"

text \<open>The write: the bytes of the file afterwards and the error.\<close>

definition write_synced :: "bool \<Rightarrow> bool \<Rightarrow> (nat \<times> string) option \<Rightarrow> string option \<Rightarrow> string \<Rightarrow> string \<Rightarrow> string \<times> string option" where
  "write_synced fail_write fail_sync wrote synced file bytes =
     (if fail_write then (file, Some ''injected batch write failure'')
      else case wrote of
          Some (n, e) \<Rightarrow> (file @ take n bytes, Some e)
        | None \<Rightarrow> (file @ bytes, if fail_sync then Some ''injected batch fsync failure'' else synced))"

definition rollback_append ::
  "session_backend \<Rightarrow> append_io \<Rightarrow> fault_hooks \<Rightarrow> prepared_session \<Rightarrow> nat \<Rightarrow> string \<Rightarrow> string
    \<Rightarrow> (session_backend \<times> (append_failure + prepared_session)) \<times> string" where
  "rollback_append B io hooks s before err file =
     (case ai_set_len io of
        Some e \<Rightarrow> (poison_session B (pr_key s) (''failed to roll back append: '' @ err @ ''; rollback failed too: '' @ e), file)
      | None \<Rightarrow>
          let file' = set_len before file in
          (case (if fh_rollback_fsync hooks then Some ''injected rollback fsync failure'' else ai_rollback_sync io) of
             Some e \<Rightarrow> (poison_session B (pr_key s) (''failed to roll back append: '' @ err @ ''; rollback failed too: '' @ e), file')
           | None \<Rightarrow>
               (case ai_restat io of
                  Inr r \<Rightarrow> ((B, Inl (NotCommitted (s\<lparr>pr_revision := r\<rparr>) err)), file')
                | Inl e \<Rightarrow> (poison_session B (pr_key s) (''rolled back but cannot restat: '' @ e), file'))))"

definition append_existing ::
  "'p store_env \<Rightarrow> append_io \<Rightarrow> session_backend \<Rightarrow> prepared_session \<Rightarrow> session_event list \<Rightarrow> string
    \<Rightarrow> (session_backend \<times> (append_failure + prepared_session)) \<times> string" where
  "append_existing E io B s es file =
     (let hooks = bk_faults B; B = B\<lparr>bk_faults := no_faults\<rparr> in
      case open_checked E io s of
        Inl e \<Rightarrow> (poison_session B (pr_key s) e, file)
      | Inr _ \<Rightarrow>
          let before = length file in
          (case encode_batch E es of
             Inl e \<Rightarrow> ((B, Inl (NotCommitted s e)), file)
           | Inr bytes \<Rightarrow>
               let (file', failed) = write_synced (fh_batch_write hooks) (fh_batch_fsync hooks) (ai_write io) (ai_sync io) file bytes in
               (case failed of
                  Some e \<Rightarrow> rollback_append B io hooks s before e file'
                | None \<Rightarrow>
                    (case ai_restat io of
                       Inl e \<Rightarrow> (poison_session B (pr_key s) (''append committed but cannot restat: '' @ e), file')
                     | Inr r \<Rightarrow> (advance_session B (s\<lparr>pr_revision := r, pr_digest := pr_digest s @ bytes\<rparr>) (length es), file')))))"

section \<open>First publication\<close>

text \<open>\<open>mi_opposite\<close> and \<open>mi_target\<close> are the answers of \<open>try_exists\<close>, \<open>mi_digest\<close> that of
  \<open>read_digest\<close>.\<close>

record materialize_io =
  mi_create :: "string option"
  mi_lease :: "string + bool"
  mi_listing :: "string + (string + (string option \<times> (string + bool))) list"
  mi_opposite :: "string + bool"
  mi_target :: "string + bool"
  mi_temp :: "string option"
  mi_link :: "string option"
  mi_sync :: "string option"
  mi_open :: "string option"
  mi_restat :: "string + string"
  mi_digest :: "string + string"

text \<open>\<open>Display\<close> of the errors that occur here.\<close>

fun session_error_text :: "session_error \<Rightarrow> string" where
  "session_error_text (SxUnsupported m) = ''format unsupported: '' @ m"
| "session_error_text (SxCorruption m) = ''corrupt session log: '' @ m"
| "session_error_text (SxNotFound i) = ''session not found: '' @ i"
| "session_error_text (SxConflict m) = ''conflict: '' @ m"
| "session_error_text (SxEncodingMismatch m) = ''encoding mismatch: '' @ m"
| "session_error_text (SxLegacyLayout m) = ''legacy layout: '' @ m"
| "session_error_text (SxIo m) = ''io: '' @ m"
| "session_error_text (SxReadOnly legacy) = ''read-only''"

definition refuse_existing :: "session_key \<Rightarrow> resolved_log option \<Rightarrow> string + unit" where
  "refuse_existing key found = (case found of
       None \<Rightarrow> Inr ()
     | Some r \<Rightarrow> Inl (''refusing to materialize '' @ sk_id key @ '': ''
         @ (case ensure_supported_generation key r of Inl e \<Rightarrow> session_error_text e | Inr _ \<Rightarrow> ''a v'' @ show_nat (rl_version r) @ '' log already exists'')
         @ ''; load/resume it instead''))"

definition absent :: "string \<Rightarrow> string \<Rightarrow> string + bool \<Rightarrow> string + unit" where
  "absent io_text found answer = (case answer of Inl e \<Rightarrow> Inl (io_text @ e) | Inr there \<Rightarrow> ensure (\<not> there) found)"

definition some_error :: "string option \<Rightarrow> string + unit" where
  "some_error e = (case e of None \<Rightarrow> Inr () | Some m \<Rightarrow> Inl m)"

text \<open>Everything before the publishing link: no log exists yet.\<close>

definition materialize_checked ::
  "'p store_env \<Rightarrow> materialize_io \<Rightarrow> prepared_session \<Rightarrow> session_event list \<Rightarrow> (string + string) option" where
  "materialize_checked E io s es =
     (case rbind (some_error (mi_create io)) (\<lambda>_.
        rbind (mi_lease io) (\<lambda>got. rbind (ensure got (''session '' @ sk_id (pr_key s) @ '' already has an active writer'')) (\<lambda>_.
        rbind (case mi_listing io of Inl e \<Rightarrow> Inl (session_error_text (SxIo e))
            | Inr es \<Rightarrow> (case resolve_log_in_dir (st_compression E) (pr_key s) es of Inl e \<Rightarrow> Inl (session_error_text e) | Inr r \<Rightarrow> Inr r)) (\<lambda>found.
        rbind (refuse_existing (pr_key s) found) (\<lambda>_.
        rbind (absent ''cannot inspect opposite encoding: '' (''opposite-encoding log already exists for session '' @ sk_id (pr_key s)) (mi_opposite io)) (\<lambda>_.
        absent ''cannot inspect publish target: '' (''refusing to materialize '' @ sk_id (pr_key s) @ '': a log already exists on disk'') (mi_target io))))))) of
        Inl e \<Rightarrow> Some (Inl e)
      | Inr _ \<Rightarrow> map_option (\<lambda>content. rbind content (\<lambda>bytes. rbind (some_error (mi_temp io)) (\<lambda>_. Inr bytes))) (encode_log E (pr_header s) es))"

text \<open>The link publishes the whole file or nothing.\<close>

definition materialize_batch ::
  "'p store_env \<Rightarrow> materialize_io \<Rightarrow> session_backend \<Rightarrow> prepared_session \<Rightarrow> session_event list
    \<Rightarrow> ((session_backend \<times> (append_failure + prepared_session)) \<times> string option) option" where
  "materialize_batch E io B s es = map_option (\<lambda>r.
     case r of
       Inl e \<Rightarrow> ((B, Inl (NotCommitted s e)), None)
     | Inr content \<Rightarrow>
         let hooks = bk_faults B; B = B\<lparr>bk_faults := no_faults\<rparr> in
         (case mi_link io of
            Some e \<Rightarrow> ((B, Inl (NotCommitted s e)), None)
          | None \<Rightarrow>
              if fh_materialize_sync hooks then (poison_session B (pr_key s) ''directory sync failed after publishing'', Some content)
              else (case rbind (some_error (mi_sync io)) (\<lambda>_. rbind (some_error (mi_open io)) (\<lambda>_.
                    rbind (mi_restat io) (\<lambda>rev'. rbind (mi_digest io) (\<lambda>d. Inr (rev', d))))) of
                  Inl e \<Rightarrow> (poison_session B (pr_key s) e, Some content)
                | Inr (rev', d) \<Rightarrow> (advance_session B
                    (s\<lparr>pr_dir := True, pr_lease := True, pr_revision := rev', pr_digest := d\<rparr>) (length es), Some content))))
     (materialize_checked E io s es)"

fun seqs_contiguous :: "nat \<Rightarrow> nat \<Rightarrow> session_event list \<Rightarrow> string + unit" where
  "seqs_contiguous expected i [] = Inr ()"
| "seqs_contiguous expected i (e # es) =
     (if se_seq e \<noteq> expected + i then Inl (''append seq mismatch: expected '' @ show_nat (expected + i) @ '' at index '' @ show_nat i
        @ '', got '' @ show_nat (se_seq e))
      else seqs_contiguous expected (i + 1) es)"

definition append_batch ::
  "'p store_env \<Rightarrow> append_io \<Rightarrow> materialize_io \<Rightarrow> session_backend \<Rightarrow> prepared_session \<Rightarrow> nat \<Rightarrow> session_event list \<Rightarrow> string option
    \<Rightarrow> ((session_backend \<times> (append_failure + prepared_session)) \<times> string option) option" where
  "append_batch E aio mio B s expected es disk =
     (if pr_key s \<in> bk_poisoned B then
        Some ((B, Inl (UnknownOutcome (''session '' @ sk_id (pr_key s) @ '' is poisoned after an indeterminate commit; cold load(repair) required''))), disk)
      else if es = [] then Some ((B, Inr s), disk)
      else if expected \<noteq> pr_next s then
        Some ((B, Inl (NotCommitted s (''append seq mismatch: expected '' @ show_nat (pr_next s) @ '', got '' @ show_nat expected))), disk)
      else case seqs_contiguous expected 0 es of
          Inl e \<Rightarrow> Some ((B, Inl (NotCommitted s e)), disk)
        | Inr _ \<Rightarrow>
            if \<not> pr_materialized s then
              map_option (\<lambda>(r, published). (r, case published of None \<Rightarrow> disk | Some c \<Rightarrow> Some c)) (materialize_batch E mio B s es)
            else (case disk of
                None \<Rightarrow> Some (fst (append_existing E (aio\<lparr>ai_open := Some (case ai_open aio of None \<Rightarrow> ''not found'' | Some e \<Rightarrow> e)\<rparr>) B s es []), None)
              | Some file \<Rightarrow> Some (map_prod id Some (append_existing E aio B s es file))))"

section \<open>The whole-file reader\<close>

record raw_read =
  rr_header :: session_header
  rr_events :: "session_event list"
  rr_stable :: nat
  rr_truncate :: "nat option"
  rr_revision :: string

definition map_scan_error :: "string \<Rightarrow> session_error" where
  "map_scan_error m = (case str_strip_prefix ''format-unsupported: '' m of Some v \<Rightarrow> SxUnsupported v | None \<Rightarrow> SxCorruption m)"

definition map_error :: "('e \<Rightarrow> 'f) \<Rightarrow> 'e + 'a \<Rightarrow> 'f + 'a" where
  "map_error f r = (case r of Inl e \<Rightarrow> Inl (f e) | Inr x \<Rightarrow> Inr x)"

definition frame_decoded_cap :: nat where
  "frame_decoded_cap = 64 * 1024 * 1024"

definition assert_one_header_line :: "string \<Rightarrow> string + unit" where
  "assert_one_header_line p = ensure (p \<noteq> [] \<and> last p = lf \<and> length (filter (\<lambda>c. c = lf) p) = 1)
     ''corrupt Zstandard session log: first frame is not exactly one header line''"

text \<open>The complete frames one by one; the last flag tells the first frame.\<close>

fun decode_frames :: "zstd_env \<Rightarrow> string \<Rightarrow> nat \<Rightarrow> string \<Rightarrow> bool \<Rightarrow> (nat \<times> nat) list \<Rightarrow> (session_error + string) option" where
  "decode_frames Z bytes cap out first' [] = Some (Inr out)"
| "decode_frames Z bytes cap out first' ((a, b) # rs) =
     (case decompress_frame_capped Z (take (b - a) (drop a bytes)) frame_decoded_cap of
        None \<Rightarrow> None
      | Some (Inl e) \<Rightarrow> Some (Inl (if contains_sub ''budget'' e then SxCorruption e
          else if rs = [] then SxCorruption ''final frame failed to decode'' else SxCorruption ''non-final frame failed to decode''))
      | Some (Inr p) \<Rightarrow>
          (case (if first' then assert_one_header_line p else Inr ()) of
             Inl e \<Rightarrow> Some (Inl (SxCorruption e))
           | Inr _ \<Rightarrow>
               if cap < length out + length p
               then Some (Inl (SxCorruption (''repair decode exceeds the '' @ show_nat cap @ ''-byte total budget'')))
               else decode_frames Z bytes cap (out @ p) False rs))"

definition total_decoded_cap :: "nat \<Rightarrow> nat" where
  "total_decoded_cap n = max (256 * 1024 * 1024) (min (2 * 1024 * 1024 * 1024) (n * 8))"

definition decode_plain_log :: "'p store_env \<Rightarrow> string \<Rightarrow> session_error + session_header \<times> session_event list \<times> nat \<times> nat option" where
  "decode_plain_log E bytes =
     map_error map_scan_error (rbind (scan_raw (st_scan E) (st_utf8 E) bytes) (\<lambda>scan.
       Inr (ls_header scan, ls_events scan, length (ls_events scan),
         if ls_committed scan < length bytes then Some (ls_committed scan) else None)))"

text \<open>The text of the complete frames, then with what the torn frame still yields.\<close>

definition decode_zstd_text :: "'p store_env \<Rightarrow> string \<Rightarrow> string \<Rightarrow> nat option
    \<Rightarrow> session_error + session_header \<times> session_event list \<times> nat \<times> nat option" where
  "decode_zstd_text E bytes complete torn =
     rbind (map_error map_scan_error (scan_raw (st_scan E) (st_utf8 E) complete)) (\<lambda>stable.
     rbind (ensure (length complete \<le> ls_committed stable)
       (SxCorruption ''torn JSONL record inside complete zstd frames (hard corruption)'')) (\<lambda>_.
     let full = complete @ (case torn of None \<Rightarrow> [] | Some start \<Rightarrow> decompress_prefix (st_zstd E) (drop start bytes) frame_decoded_cap) in
     rbind (map_error map_scan_error (scan_raw (st_scan E) (st_utf8 E) full)) (\<lambda>scan.
     Inr (ls_header scan, ls_events scan, length (ls_events stable), torn))))"

definition decode_zstd_log :: "'p store_env \<Rightarrow> string \<Rightarrow> (session_error + session_header \<times> session_event list \<times> nat \<times> nat option) option" where
  "decode_zstd_log E bytes =
     (if 1024 * 1024 * 1024 < length bytes then
        Some (Inl (SxCorruption (''session log exceeds '' @ show_nat (1024 * 1024 * 1024) @ '' compressed bytes'')))
      else case scan_frames bytes 18446744073709551615 of
          None \<Rightarrow> None
        | Some (Inl e) \<Rightarrow> Some (Inl (SxCorruption e))
        | Some (Inr scan) \<Rightarrow> map_option (\<lambda>r. rbind r (\<lambda>complete. decode_zstd_text E bytes complete (fs_torn scan)))
            (decode_frames (st_zstd E) bytes (total_decoded_cap (length bytes)) [] True (fs_frames scan)))"

definition decode_log :: "'p store_env \<Rightarrow> string \<Rightarrow> (session_error + session_header \<times> session_event list \<times> nat \<times> nat option) option" where
  "decode_log E bytes = (case st_compression E of Plain \<Rightarrow> Some (decode_plain_log E bytes) | Zstd \<Rightarrow> decode_zstd_log E bytes)"

record read_io =
  ri_listing :: "string + (string + (string option \<times> (string + bool))) list option"
  ri_dir :: "string option"
  ri_tries :: "(string + string \<times> (string + string)) list"

text \<open>Three tries; a listing is \<open>None\<close> when the directory does not exist.\<close>

fun read_stable :: "nat \<Rightarrow> (string + string \<times> (string + string)) list \<Rightarrow> session_error + string" where
  "read_stable 0 tries = Inl (SxIo ''session log kept changing while reading (external writer?)'')"
| "read_stable (Suc n) [] = Inl (SxIo ''session log kept changing while reading (external writer?)'')"
| "read_stable (Suc n) (Inl e # ts) = Inl (SxIo e)"
| "read_stable (Suc n) (Inr (before, Inl e) # ts) = Inl (SxIo e)"
| "read_stable (Suc n) (Inr (before, Inr after) # ts) = (if before = after then Inr after else read_stable n ts)"

definition find_log :: "'p store_env \<Rightarrow> session_key \<Rightarrow> read_io \<Rightarrow> session_error + resolved_log option" where
  "find_log E key io = (case ri_listing io of
       Inl e \<Rightarrow> Inl (SxIo e)
     | Inr None \<Rightarrow> Inr None
     | Inr (Some es) \<Rightarrow> resolve_log_in_dir (st_compression E) key es)"

definition check_identity :: "session_key \<Rightarrow> session_header \<Rightarrow> session_error + unit" where
  "check_identity key h = ensure (sh_id h = sk_id key \<and> sh_cwd h = pj_cwd (sk_project key))
     (SxCorruption (''stored identity does not match the requested key for '' @ sk_id key))"

definition admit_log :: "'p store_env \<Rightarrow> session_header \<Rightarrow> session_event list \<Rightarrow> (session_error + unit) option" where
  "admit_log E h es =
     (case admit_header h of
        Inl e \<Rightarrow> Some (Inl (SxUnsupported (st_admission_text E e)))
      | Inr _ \<Rightarrow> map_option (map_error (\<lambda>e. SxCorruption (st_admission_text E e))) (admit_events_for_version (st_catalog E) es (sh_version h)))"

definition locate_log :: "'p store_env \<Rightarrow> session_key \<Rightarrow> read_io \<Rightarrow> session_error + resolved_log \<times> string" where
  "locate_log E key io =
     rbind (validate_key_witness key) (\<lambda>_.
     rbind (find_log E key io) (\<lambda>found.
     rbind (ok_or found (SxNotFound (sk_id key))) (\<lambda>resolved.
     rbind (ensure_supported_generation key resolved) (\<lambda>_.
     rbind (map_error SxIo (some_error (ri_dir io))) (\<lambda>_.
     rbind (read_stable 3 (ri_tries io)) (\<lambda>revision. Inr (resolved, revision)))))))"

definition read_events :: "'p store_env \<Rightarrow> session_key \<Rightarrow> bool \<Rightarrow> read_io \<Rightarrow> string \<Rightarrow> (session_error + raw_read) option" where
  "read_events E key enforce io bytes =
     (case locate_log E key io of
        Inl e \<Rightarrow> Some (Inl e)
      | Inr (resolved, revision) \<Rightarrow>
          (case decode_log E bytes of
             None \<Rightarrow> None
           | Some (Inl e) \<Rightarrow> Some (Inl e)
           | Some (Inr (h, es, kept, torn)) \<Rightarrow>
               (case rbind (check_identity key h) (\<lambda>_. ensure_generation_matches h resolved) of
                  Inl e \<Rightarrow> Some (Inl e)
                | Inr _ \<Rightarrow> map_option (\<lambda>r. rbind r (\<lambda>_. Inr \<lparr>rr_header = h, rr_events = es, rr_stable = kept, rr_truncate = torn,
                    rr_revision = revision\<rparr>)) (if enforce then admit_log E h es else Some (Inr ())))))"

section \<open>Repair\<close>

record repair_io =
  rp_open :: "string option"
  rp_current :: "string + string"
  rp_set_len :: "string option"
  rp_set_sync :: "string option"
  rp_write :: "(nat \<times> string) option"
  rp_sync :: "string option"
  rp_restat :: "string + string"

text \<open>The result and the bytes of the file.\<close>

definition commit_repair ::
  "'p store_env \<Rightarrow> repair_io \<Rightarrow> raw_read \<Rightarrow> session_event list \<Rightarrow> string \<Rightarrow> (session_error + unit) \<times> string" where
  "commit_repair E io read cs file =
     (let batch = drop (rr_stable read) (rr_events read) @ cs in
      if sh_version (rr_header read) \<noteq> 4 then
        (Inl (SxUnsupported (''legacy v'' @ show_nat (sh_version (rr_header read)) @ '' sessions are read-only and cannot be repaired in place'')), file)
      else if rr_truncate read = None \<and> batch = [] then (Inr (), file)
      else case rbind (some_error (rp_open io)) (\<lambda>_. rp_current io) of
          Inl e \<Rightarrow> (Inl (SxIo e), file)
        | Inr now \<Rightarrow>
            if now \<noteq> rr_revision read then
              (Inl (SxConflict (''session log changed before repair: revision drift '' @ rr_revision read @ '' -> '' @ now)), file)
            else
              let (failed, file') = (case rr_truncate read of
                  None \<Rightarrow> (None, file)
                | Some n \<Rightarrow> (case rp_set_len io of Some e \<Rightarrow> (Some e, file) | None \<Rightarrow> (rp_set_sync io, set_len n file))) in
              (case failed of
                 Some e \<Rightarrow> (Inl (SxIo e), file')
               | None \<Rightarrow>
                   if batch = [] then (map_error SxIo (rbind (rp_restat io) (\<lambda>_. Inr ())), file')
                   else (case encode_batch E batch of
                       Inl e \<Rightarrow> (Inl (SxIo e), file')
                     | Inr bytes \<Rightarrow>
                         let (file'', failed) = write_synced False False (rp_write io) (rp_sync io) file' bytes in
                         (case failed of
                            Some e \<Rightarrow> (Inl (SxIo e), file'')
                          | None \<Rightarrow> (map_error SxIo (rbind (rp_restat io) (\<lambda>_. Inr ())), file'')))))"

record lease_io =
  le_listing :: "string + (string + (string option \<times> (string + bool))) list option"
  le_acquire :: "string + bool"

definition acquire_lease :: "'p store_env \<Rightarrow> session_key \<Rightarrow> lease_io \<Rightarrow> session_error + unit" where
  "acquire_lease E key io =
     rbind (validate_key_witness key) (\<lambda>_.
     rbind (case le_listing io of
         Inl e \<Rightarrow> Inl (SxIo e)
       | Inr None \<Rightarrow> Inl (SxNotFound (sk_id key))
       | Inr (Some es) \<Rightarrow> resolve_log_in_dir (st_compression E) key es) (\<lambda>found.
     rbind (ok_or found (SxNotFound (sk_id key))) (\<lambda>resolved.
     rbind (ensure_writable_generation key resolved) (\<lambda>_.
     rbind (map_error SxIo (le_acquire io)) (\<lambda>got.
     ensure got (SxConflict (''session '' @ sk_id key @ '' already has an active writer'')))))))"

record loaded_session =
  ld_header :: session_header
  ld_events :: "session_event list"
  ld_closers :: "session_event list"
  ld_revision :: string

definition loaded_of :: "raw_read \<Rightarrow> loaded_session" where
  "loaded_of r = \<lparr>ld_header = rr_header r, ld_events = rr_events r, ld_closers = interrupted_turn_closers (rr_events r),
     ld_revision = rr_revision r\<rparr>"

definition needs_repair :: "raw_read \<Rightarrow> bool" where
  "needs_repair r \<longleftrightarrow> rr_truncate r \<noteq> None \<or> interrupted_turn_closers (rr_events r) \<noteq> []"

definition fresh_state :: "raw_read \<Rightarrow> session_state" where
  "fresh_state r = \<lparr>ss_header = rr_header r, ss_cursor = length (rr_events r), ss_materialized = True\<rparr>"

record load_io =
  lo_first :: read_io
  lo_lease :: lease_io
  lo_again :: read_io
  lo_repair :: repair_io
  lo_last :: read_io

text \<open>\<open>load(key, false)\<close>, which is also the end of a repair.\<close>

definition load_only :: "'p store_env \<Rightarrow> session_key \<Rightarrow> read_io \<Rightarrow> string \<Rightarrow> (session_error + loaded_session) option" where
  "load_only E key io file = map_option (\<lambda>r. rbind r (\<lambda>read. Inr (loaded_of read))) (read_events E key True io file)"

definition load_repair :: "'p store_env \<Rightarrow> session_key \<Rightarrow> load_io \<Rightarrow> session_backend \<Rightarrow> string
    \<Rightarrow> ((session_backend \<times> (session_error + loaded_session)) \<times> string) option" where
  "load_repair E key io B file =
     (case read_events E key True (lo_first io) file of
        None \<Rightarrow> None
      | Some (Inl e) \<Rightarrow> Some ((B, Inl e), file)
      | Some (Inr read) \<Rightarrow>
          if sh_version (rr_header read) = 4 \<and> needs_repair read then
            (case acquire_lease E key (lo_lease io) of
               Inl e \<Rightarrow> Some ((B, Inl e), file)
             | Inr _ \<Rightarrow>
                 (case read_events E key True (lo_again io) file of
                    None \<Rightarrow> None
                  | Some (Inl e) \<Rightarrow> Some ((B, Inl e), file)
                  | Some (Inr again) \<Rightarrow>
                      let (r, file') = (if needs_repair again
                          then commit_repair E (lo_repair io) again (interrupted_turn_closers (rr_events again)) file else (Inr (), file)) in
                      (case r of
                         Inl e \<Rightarrow> Some ((B, Inl e), file')
                       | Inr _ \<Rightarrow> map_option (\<lambda>l. ((B, l), file')) (load_only E key (lo_last io) file'))))
          else Some ((B\<lparr>bk_poisoned := bk_poisoned B - {key}, bk_states := (bk_states B)(key \<mapsto> fresh_state read)\<rparr>,
            Inr (loaded_of read)), file))"

definition inspect_log :: "'p store_env \<Rightarrow> session_key \<Rightarrow> read_io \<Rightarrow> string \<Rightarrow> (session_error + loaded_session) option" where
  "inspect_log E key io file = map_option (\<lambda>r. rbind r (\<lambda>read. Inr (loaded_of read))) (read_events E key False io file)"

definition read_from :: "'p store_env \<Rightarrow> session_key \<Rightarrow> nat \<Rightarrow> read_io \<Rightarrow> string \<Rightarrow> (session_error + session_header \<times> session_event list) option" where
  "read_from E key n io file = map_option (\<lambda>r. rbind r (\<lambda>read. Inr (rr_header read, filter (\<lambda>e. n \<le> se_seq e) (rr_events read))))
     (read_events E key True io file)"

section \<open>The streaming reader\<close>

text \<open>What a decoder yields before its end or its error. A line is taken whole, so its limit does
  not depend on how the bytes arrive.\<close>

definition read_capped_line :: "string \<Rightarrow> string option \<Rightarrow> nat \<Rightarrow> session_error + (string \<times> bool \<times> string) option" where
  "read_capped_line text' err cap =
     (let line = takeWhile (\<lambda>c. c \<noteq> lf) text'; ended = (length line < length text') in
      if cap < length line + (if ended then 1 else 0)
      then Inl (SxCorruption (''one session record exceeds the '' @ show_nat cap @ ''-byte decoded limit''))
      else if ended then Inr (Some (line, True, drop (length line + 1) text'))
      else case err of
          Some e \<Rightarrow> Inl (SxIo e)
        | None \<Rightarrow> if line = [] then Inr None else Inr (Some (line, False, [])))"

record 'v stream_state =
  sm_tracker :: recovery_tracker
  sm_expected :: nat
  sm_last :: "string option"
  sm_visited :: 'v

fun stream_entries :: "('v \<Rightarrow> session_event \<Rightarrow> 'v \<times> (string + unit)) \<Rightarrow> nat \<Rightarrow> session_event list \<Rightarrow> 'v stream_state
    \<Rightarrow> 'v stream_state \<times> (session_error + unit)" where
  "stream_entries visit from [] s = (s, Inr ())"
| "stream_entries visit from (e # es) s =
     (if se_seq e \<noteq> sm_expected s then (s, Inl (SxCorruption (''seq gap in committed stream: expected ''
        @ show_nat (sm_expected s) @ '', got '' @ show_nat (se_seq e))))
      else
        let s = s\<lparr>sm_expected := sm_expected s + 1, sm_tracker := tracker_observe (sm_tracker s) e, sm_last := Some (se_type e)\<rparr> in
        if se_seq e < from then stream_entries visit from es s
        else let (v, r) = visit (sm_visited s) e; s = s\<lparr>sm_visited := v\<rparr> in
          (case r of Inl m \<Rightarrow> (s, Inl (SxCorruption m)) | Inr _ \<Rightarrow> stream_entries visit from es s))"

definition decode_record_line :: "'p store_env \<Rightarrow> string \<Rightarrow> nat \<Rightarrow> string + session_event list" where
  "decode_record_line E line version = (case sn_parse (st_scan E) line of
       None \<Rightarrow> Inl ''corrupt session log: unparsable committed event''
     | Some v \<Rightarrow> decode_record_value (sn_err (st_scan E)) (sn_legacy (st_scan E)) v version)"

definition stream_record_cap :: nat where
  "stream_record_cap = 64 * 1024 * 1024"

lemma capped_line_shorter: "read_capped_line text' err cap = Inr (Some (line, ended, rest)) \<Longrightarrow> length rest < length text'"
  by (auto simp: read_capped_line_def Let_def split: if_splits option.splits)

function stream_records ::
  "'p store_env \<Rightarrow> ('v \<Rightarrow> session_event \<Rightarrow> 'v \<times> (string + unit)) \<Rightarrow> nat \<Rightarrow> nat \<Rightarrow> string \<Rightarrow> string option \<Rightarrow> 'v stream_state
    \<Rightarrow> ('v stream_state \<times> (session_error + unit)) option" where
  "stream_records E visit from version text' err s =
     (case read_capped_line text' err stream_record_cap of
        Inl e \<Rightarrow> Some (s, Inl e)
      | Inr None \<Rightarrow> Some (s, Inr ())
      | Inr (Some (line, ended, rest)) \<Rightarrow>
          if \<not> ended then Some (s, Inl (case st_compression E of
              Zstd \<Rightarrow> SxCorruption ''torn JSONL record inside complete zstd stream (hard corruption)''
            | Plain \<Rightarrow> SxIo ''torn raw final JSONL record''))
          else if line = [] then Some (s, Inl (SxCorruption ''empty committed JSONL record''))
          else case decode_record_line E line version of
              Inl m \<Rightarrow> Some (s, Inl (map_scan_error m))
            | Inr es \<Rightarrow>
                (case admit_events_for_version (st_catalog E) es version of
                   None \<Rightarrow> None
                 | Some (Inl e) \<Rightarrow> Some (s, Inl (SxCorruption (st_admission_text E e)))
                 | Some (Inr _) \<Rightarrow>
                     let (s', r) = stream_entries visit from es s in
                     (case r of Inl e \<Rightarrow> Some (s', Inl e) | Inr _ \<Rightarrow> stream_records E visit from version rest err s')))"
  by pat_completeness auto
termination
  by (relation "measure (\<lambda>(E, visit, from, version, text', err, s). length text')") (auto dest: capped_line_shorter)

declare stream_records.simps [simp del]

definition header_read_cap :: nat where
  "header_read_cap = 1024 * 1024"

definition stream_header :: "'p store_env \<Rightarrow> session_key \<Rightarrow> string \<Rightarrow> string option \<Rightarrow> session_error + session_header \<times> string" where
  "stream_header E key text' err =
     rbind (read_capped_line text' err header_read_cap) (\<lambda>first'.
     rbind (ok_or first' (SxCorruption ''empty session log'')) (\<lambda>(line, ended, rest).
     rbind (ensure ended (case st_compression E of
         Zstd \<Rightarrow> SxCorruption ''zstd header frame has no terminating newline'' | Plain \<Rightarrow> SxIo ''torn raw session header'')) (\<lambda>_.
     rbind (ensure (st_utf8 E line) (SxCorruption ''header is not valid UTF-8'')) (\<lambda>_.
     rbind (case header_of_line (st_scan E) line of
         Inr (Some h) \<Rightarrow> Inr h
       | Inr None \<Rightarrow> Inl (SxCorruption ''first line is not a header'')
       | Inl (HeUnsupported v) \<Rightarrow> Inl (SxUnsupported (''v'' @ show_nat v))
       | Inl (HeRetired f) \<Rightarrow> Inl (SxCorruption (''retired field '' @ f))
       | Inl (HeMalformed m) \<Rightarrow> Inl (SxCorruption (''malformed header: '' @ m))) (\<lambda>h.
     rbind (ensure (sh_id h = sk_id key \<and> sh_cwd h = pj_cwd (sk_project key))
       (SxCorruption ''stored identity does not match the requested SessionKey'')) (\<lambda>_.
     rbind (map_error (\<lambda>e. SxUnsupported (st_admission_text E e)) (admit_header h)) (\<lambda>_. Inr (h, rest))))))))"

definition stream_plain_lines ::
  "'p store_env \<Rightarrow> session_key \<Rightarrow> ('v \<Rightarrow> session_event \<Rightarrow> 'v \<times> (string + unit)) \<Rightarrow> nat \<Rightarrow> 'v \<Rightarrow> string \<Rightarrow> string option
    \<Rightarrow> ('v \<times> (session_error + session_header \<times> 'v stream_state)) option" where
  "stream_plain_lines E key visit from v text' err =
     (case stream_header E key text' err of
        Inl e \<Rightarrow> Some (v, Inl e)
      | Inr (h, rest) \<Rightarrow> map_option (\<lambda>(s, r). (sm_visited s, rbind r (\<lambda>_. Inr (h, s))))
          (stream_records E visit from (sh_version h) rest err
            \<lparr>sm_tracker = tracker_default, sm_expected = 0, sm_last = None, sm_visited = v\<rparr>))"

section \<open>Preparing a session for writing\<close>

record 'v stream_read =
  sr_header :: session_header
  sr_revision :: string
  sr_digest :: string
  sr_state :: "'v stream_state"

text \<open>The file as the streaming reader finds it: its metadata before, what the decoder yields, and the
  revision of the handle and the path afterwards.\<close>

record stream_io =
  si_listing :: "string + (string + (string option \<times> (string + bool))) list option"
  si_open :: "string + string"
  si_decoded :: "string \<times> string option"
  si_after :: "string + string"

definition stream_located :: "'p store_env \<Rightarrow> session_key \<Rightarrow> stream_io \<Rightarrow> session_error + resolved_log \<times> string" where
  "stream_located E key io =
     rbind (validate_key_witness key) (\<lambda>_.
     rbind (case si_listing io of
         Inl e \<Rightarrow> Inl (SxIo e) | Inr None \<Rightarrow> Inl (SxIo ''not found'') | Inr (Some es) \<Rightarrow> resolve_log_in_dir (st_compression E) key es) (\<lambda>found.
     rbind (ok_or found (SxNotFound (sk_id key))) (\<lambda>resolved.
     rbind (ensure_supported_generation key resolved) (\<lambda>_.
     rbind (map_error SxIo (si_open io)) (\<lambda>before. Inr (resolved, before))))))"

definition stream_events ::
  "'p store_env \<Rightarrow> session_key \<Rightarrow> nat \<Rightarrow> ('v \<Rightarrow> session_event \<Rightarrow> 'v \<times> (string + unit)) \<Rightarrow> 'v \<Rightarrow> stream_io \<Rightarrow> string
    \<Rightarrow> ('v \<times> (session_error + 'v stream_read)) option" where
  "stream_events E key from visit v io file =
     (case stream_located E key io of
        Inl e \<Rightarrow> Some (v, Inl e)
      | Inr (resolved, before) \<Rightarrow>
          let (text', err) = (case st_compression E of Plain \<Rightarrow> (file, None) | Zstd \<Rightarrow> si_decoded io) in
          map_option (\<lambda>(v', r). (v', rbind r (\<lambda>(h, s).
            rbind (ensure_generation_matches h resolved) (\<lambda>_.
            rbind (map_error SxIo (si_after io)) (\<lambda>after.
            rbind (ensure (before = after) (SxIo ''session log changed while streaming'')) (\<lambda>_.
            Inr \<lparr>sr_header = h, sr_revision = after, sr_digest = file, sr_state = s\<rparr>))))))
            (stream_plain_lines E key visit from v text' err))"

datatype prepare_outcome = Writable prepared_session bool | ReadOnlySession session_header nat

definition ends_unseeded :: "session_event list \<Rightarrow> bool" where
  "ends_unseeded es \<longleftrightarrow> es \<noteq> [] \<and> se_type (last es) \<noteq> ''session/end-seed''"

record prepare_io =
  pi_stream :: stream_io
  pi_lease :: lease_io
  pi_verify :: "session_error + string"
  pi_append :: append_io
  pi_first :: read_io
  pi_repair :: repair_io
  pi_again :: read_io
  pi_digest :: "string + string"

text \<open>A closer that has to be written goes through the ordinary append.\<close>

definition prepare_from_stream ::
  "'p store_env \<Rightarrow> session_key \<Rightarrow> 'v stream_read \<Rightarrow> append_io \<Rightarrow> session_backend \<Rightarrow> string
    \<Rightarrow> (session_backend \<times> (session_error + prepared_session)) \<times> string" where
  "prepare_from_stream E key scan io B file =
     (if sh_version (sr_header scan) \<noteq> 4 then
        ((B, Inl (SxUnsupported (''legacy v'' @ show_nat (sh_version (sr_header scan)) @ '' sessions are read-only''))), file)
      else
        let tracker = sm_tracker (sr_state scan); n = rt_next tracker; cs = closers tracker;
          B = B\<lparr>bk_states := (bk_states B)(key \<mapsto> \<lparr>ss_header = sr_header scan, ss_cursor = n, ss_materialized = True\<rparr>)\<rparr>;
          s = \<lparr>pr_key = key, pr_header = sr_header scan, pr_next = n, pr_materialized = True, pr_dir = True, pr_lease = True,
            pr_revision = sr_revision scan, pr_digest = sr_digest scan, pr_seed = False\<rparr> in
        if cs = [] then
          ((B, Inr (s\<lparr>pr_seed := (0 < n \<and> sm_last (sr_state scan) \<noteq> Some ''session/end-seed'')\<rparr>)), file)
        else if key \<in> bk_poisoned B then
          ((B, Inl (SxIo (''session '' @ sk_id key @ '' is poisoned after an indeterminate commit; cold load(repair) required''))), file)
        else case seqs_contiguous n 0 cs of
            Inl e \<Rightarrow> ((B, Inl (SxIo e)), file)
          | Inr _ \<Rightarrow>
              (case append_existing E io B s cs file of
                 ((B', Inl (NotCommitted _ e)), file') \<Rightarrow> ((B', Inl (SxIo e)), file')
               | ((B', Inl (UnknownOutcome e)), file') \<Rightarrow> ((B', Inl (SxIo e)), file')
               | ((B', Inr s'), file') \<Rightarrow> ((B', Inr (s'\<lparr>pr_seed := (0 < pr_next s')\<rparr>)), file')))"

definition legacy_v0_error :: session_error where
  "legacy_v0_error = SxUnsupported ''legacy v0 sessions are read-only; start a new v4 session''"

definition prepare_from_repair ::
  "'p store_env \<Rightarrow> session_key \<Rightarrow> prepare_io \<Rightarrow> session_backend \<Rightarrow> string
    \<Rightarrow> ((session_backend \<times> (session_error + prepare_outcome)) \<times> string) option" where
  "prepare_from_repair E key io B file =
     (case read_events E key True (pi_first io) file of
        None \<Rightarrow> None
      | Some (Inl e) \<Rightarrow> Some ((B, Inl e), file)
      | Some (Inr read) \<Rightarrow>
          if sh_version (rr_header read) = 0 then Some ((B, Inl legacy_v0_error), file)
          else
            (case (if needs_repair read
                then let (r, file') = commit_repair E (pi_repair io) read (interrupted_turn_closers (rr_events read)) file in
                  (case r of Inl e \<Rightarrow> Some (Inl e, file')
                   | Inr _ \<Rightarrow> map_option (\<lambda>r. (r, file')) (read_events E key True (pi_again io) file'))
                else Some (Inr read, file)) of
               None \<Rightarrow> None
             | Some (Inl e, file') \<Rightarrow> Some ((B, Inl e), file')
             | Some (Inr read, file') \<Rightarrow>
                 let B = B\<lparr>bk_states := (bk_states B)(key \<mapsto> fresh_state read)\<rparr> in
                 (case pi_digest io of
                    Inl e \<Rightarrow> Some ((B, Inl (SxIo e)), file')
                  | Inr d \<Rightarrow> Some ((B, Inr (Writable \<lparr>pr_key = key, pr_header = rr_header read, pr_next = length (rr_events read),
                      pr_materialized = True, pr_dir = True, pr_lease = True, pr_revision = rr_revision read, pr_digest = d,
                      pr_seed = ends_unseeded (rr_events read)\<rparr> False)), file'))))"

text \<open>The visitor also notes whether a developer message was seen.\<close>

definition note_developer ::
  "('v \<Rightarrow> session_event \<Rightarrow> 'v \<times> (string + unit)) \<Rightarrow> 'v \<times> bool \<Rightarrow> session_event \<Rightarrow> ('v \<times> bool) \<times> (string + unit)" where
  "note_developer visit v e = (case visit (fst v) e of (v', r) \<Rightarrow> ((v', snd v \<or> se_type e = ''developer/message''), r))"

definition verify_stream_revision :: "session_error + string \<Rightarrow> 'v stream_read \<Rightarrow> session_error + unit" where
  "verify_stream_revision now scan = rbind now (\<lambda>r. ensure (r = sr_revision scan)
     (SxConflict ''session log changed between read-only scan and writer lease; retry resume''))"

definition prepare_with_visitor ::
  "'p store_env \<Rightarrow> session_key \<Rightarrow> ('v \<Rightarrow> session_event \<Rightarrow> 'v \<times> (string + unit)) \<Rightarrow> 'v \<Rightarrow> prepare_io \<Rightarrow> session_backend \<Rightarrow> string
    \<Rightarrow> ((session_backend \<times> (session_error + prepare_outcome)) \<times> string) option" where
  "prepare_with_visitor E key visit v io B file =
     (if key \<in> bk_poisoned B then
        Some ((B, Inl (SxConflict (''session '' @ sk_id key @ '' is poisoned after an indeterminate commit; load(repair) first''))), file)
      else case stream_events E key 0 (note_developer visit) (v, False) (pi_stream io) file of
          None \<Rightarrow> None
        | Some ((_, developer), Inr scan) \<Rightarrow>
            if sh_version (sr_header scan) = 4 \<and> developer then
              Some ((B, Inr (ReadOnlySession (sr_header scan) (rt_next (sm_tracker (sr_state scan))))), file)
            else if sh_version (sr_header scan) = 0 then Some ((B, Inl legacy_v0_error), file)
            else (case rbind (acquire_lease E key (pi_lease io)) (\<lambda>_. verify_stream_revision (pi_verify io) scan) of
                Inl e \<Rightarrow> Some ((B, Inl e), file)
              | Inr _ \<Rightarrow> Some (map_prod (map_prod id (map_sum id (\<lambda>s. Writable s True))) id
                  (prepare_from_stream E key scan (pi_append io) B file)))
        | Some ((_, developer), Inl (SxIo e)) \<Rightarrow>
            if developer then Some ((B, Inl (SxIo (''V4 developer session cannot be repaired for writable resume: '' @ e))), file)
            else (case acquire_lease E key (pi_lease io) of
                Inl e \<Rightarrow> Some ((B, Inl e), file)
              | Inr _ \<Rightarrow> prepare_from_repair E key io B file)
        | Some (_, Inl e) \<Rightarrow> Some ((B, Inl e), file))"

section \<open>Creating a session\<close>

definition create_session ::
  "'p store_env \<Rightarrow> session_key \<Rightarrow> session_header \<Rightarrow> read_io \<Rightarrow> session_backend \<Rightarrow> session_backend \<times> (session_error + prepared_session)" where
  "create_session E key h io B =
     (case rbind (validate_key_witness key) (\<lambda>_.
        rbind (ensure (sh_id h = sk_id key \<and> sh_cwd h = pj_cwd (sk_project key))
          (SxCorruption ''new session header does not match its physical SessionKey'')) (\<lambda>_.
        rbind (ensure (sh_version h = 4) (SxUnsupported ''new sessions must use v4'')) (\<lambda>_.
        ensure (bk_states B key = None) (SxConflict (''session '' @ sk_id key @ '' already exists in this backend''))))) of
        Inl e \<Rightarrow> (B, Inl e)
      | Inr _ \<Rightarrow>
          (B\<lparr>bk_states := (bk_states B)(key \<mapsto> \<lparr>ss_header = h, ss_cursor = 0, ss_materialized = False\<rparr>)\<rparr>,
           rbind (find_log E key io) (\<lambda>found. case found of
               Some r \<Rightarrow> rbind (ensure_supported_generation key r) (\<lambda>_.
                 Inl (SxConflict (''session '' @ sk_id key @ '' already has a persisted log on disk; load/resume it instead of creating'')))
             | None \<Rightarrow> Inr \<lparr>pr_key = key, pr_header = h, pr_next = 0, pr_materialized = False, pr_dir = False, pr_lease = False,
                 pr_revision = ''unmaterialized'', pr_digest = [], pr_seed = False\<rparr>)))"

end
