(* ===== verification/SessionStoreProps.thy ===== *)
theory SessionStoreProps
  imports SessionStore SessionSurfaceProps SessionPathProps
begin

text \<open>
  What the store of a session promises: the three outcomes of an append, the agreement of its two
  readers, and a repair that keeps every durable entry.
\<close>

section \<open>The outcomes of an append\<close>

lemma set_len_back [simp]: "set_len (length file) (file @ bs) = file"
  by (simp add: set_len_def)

lemma poison_facts [simp]:
  "fst (poison_session B key e) = B\<lparr>bk_poisoned := insert key (bk_poisoned B)\<rparr>" "snd (poison_session B key e) = Inl (UnknownOutcome e)"
  by (simp_all add: poison_session_def)

lemma advance_facts:
  "snd (advance_session B s n) = Inr (s\<lparr>pr_next := pr_next s + n, pr_materialized := True\<rparr>)"
  "bk_poisoned (fst (advance_session B s n)) = bk_poisoned B"
  by (simp_all add: advance_session_def Let_def split: option.splits)

text \<open>What each answer of an append says of the file before and after.\<close>

definition append_told ::
  "session_backend \<Rightarrow> prepared_session \<Rightarrow> nat \<Rightarrow> string \<Rightarrow> string \<Rightarrow> (session_backend \<times> (append_failure + prepared_session)) \<times> string option
    \<Rightarrow> bool" where
  "append_told B s n old' added out = (case out of ((B', r), disk') \<Rightarrow> (case r of
       Inr s' \<Rightarrow> disk' = Some (old' @ added) \<and> pr_next s' = pr_next s + n \<and> pr_materialized s' \<and> bk_poisoned B' = bk_poisoned B
     | Inl (NotCommitted s' e) \<Rightarrow> disk' = (if pr_materialized s then Some old' else None) \<and> pr_next s' = pr_next s
         \<and> pr_digest s' = pr_digest s \<and> pr_materialized s' = pr_materialized s \<and> bk_poisoned B' = bk_poisoned B
     | Inl (UnknownOutcome e) \<Rightarrow> pr_key s \<in> bk_poisoned B' \<and> (\<exists>n. disk' = Some (old' @ take n added))))"

lemma write_synced_prefix:
  "write_synced a b w y file bytes = (file', failed) \<Longrightarrow> \<exists>n. file' = file @ take n bytes"
  "write_synced a b w y file bytes = (file', None) \<Longrightarrow> file' = file @ bytes"
  by (auto simp: write_synced_def split: if_splits option.splits intro: exI[of _ 0] exI[of _ "length bytes"])

lemma rollback_append_told:
  assumes "pr_materialized s" "bk_poisoned C = bk_poisoned B"
  shows "append_told C s n file added (map_prod id Some (rollback_append B io hooks s (length file) err (file @ take m added)))"
  using assms by (auto simp: rollback_append_def append_told_def poison_session_def Let_def split: option.splits sum.splits intro: exI[of _ 0])

text \<open>The bytes a batch adds: its lines, or the whole first file.\<close>

definition batch_bytes :: "'p store_env \<Rightarrow> prepared_session \<Rightarrow> session_event list \<Rightarrow> string" where
  "batch_bytes E s es = (case (if pr_materialized s then Some (encode_batch E es) else encode_log E (pr_header s) es) of
     Some (Inr b) \<Rightarrow> b | _ \<Rightarrow> [])"

lemma append_existing_told:
  assumes "pr_materialized s"
  shows "append_told B s (length es) file (batch_bytes E s es) (map_prod id Some (append_existing E io B s es file))"
proof -
  let ?B = "B\<lparr>bk_faults := no_faults\<rparr>" and ?h = "bk_faults B"
  show ?thesis
  proof (cases "open_checked E io s")
    case (Inl e)
    then show ?thesis by (auto simp: append_existing_def append_told_def poison_session_def Let_def intro: exI[of _ 0])
  next
    case open': (Inr u)
    show ?thesis
    proof (cases "encode_batch E es")
      case (Inl e)
      then show ?thesis using open' assms(1) by (simp add: append_existing_def append_told_def Let_def)
    next
      case (Inr bytes)
      then have b: "batch_bytes E s es = bytes" using assms by (simp add: batch_bytes_def)
      obtain file' failed where w: "write_synced (fh_batch_write ?h) (fh_batch_fsync ?h) (ai_write io) (ai_sync io) file bytes = (file', failed)"
        by (meson surj_pair)
      then obtain m where f: "file' = file @ take m bytes" "failed = None \<Longrightarrow> file' = file @ bytes"
        using write_synced_prefix by metis
      show ?thesis
      proof (cases failed)
        case None
        have "append_told B s (length es) file bytes (map_prod id Some
            (case ai_restat io of Inl e \<Rightarrow> (poison_session ?B (pr_key s) (''append committed but cannot restat: '' @ e), file')
             | Inr r \<Rightarrow> (advance_session ?B (s\<lparr>pr_revision := r, pr_digest := pr_digest s @ bytes\<rparr>) (length es), file')))"
          using f(2)[OF None] advance_facts[of ?B "s\<lparr>pr_revision := _, pr_digest := pr_digest s @ bytes\<rparr>" "length es"]
          by (auto simp: append_told_def poison_session_def advance_session_def Let_def split: sum.splits option.splits intro: exI[of _ "length bytes"])
        then show ?thesis using open' Inr w None b by (simp add: append_existing_def Let_def)
      next
        case (Some e)
        have "append_told B s (length es) file bytes (map_prod id Some (rollback_append ?B io ?h s (length file) e (file @ take m bytes)))"
          by (rule rollback_append_told) (use assms in simp_all)
        then show ?thesis using open' Inr w Some b f(1) by (simp add: append_existing_def Let_def)
      qed
    qed
  qed
qed

lemma materialize_batch_told:
  assumes "\<not> pr_materialized s" "materialize_batch E io B s es = Some (r, published)"
  shows "append_told B s (length es) [] (batch_bytes E s es) (r, published)"
proof -
  obtain c where c: "materialize_checked E io s es = Some c" using assms(2) by (auto simp: materialize_batch_def)
  show ?thesis
  proof (cases c)
    case (Inl e)
    then show ?thesis using assms c by (auto simp: materialize_batch_def append_told_def)
  next
    case (Inr content)
    then have "encode_log E (pr_header s) es = Some (Inr content)"
      using c by (auto simp: materialize_checked_def rbind_def some_error_def split: sum.splits option.splits)
    then have b: "batch_bytes E s es = content" using assms(1) by (simp add: batch_bytes_def)
    have "\<exists>n. content = take n content" by (rule exI[of _ "length content"]) simp
    then show ?thesis using assms c Inr unfolding b
      by (auto simp: materialize_batch_def append_told_def poison_session_def advance_session_def Let_def
        split: option.splits if_splits sum.splits prod.splits)
  qed
qed

text \<open>C5: an append of a batch through a handle that is current has one of three outcomes. It succeeds: the
  file is the old one followed by the whole batch, or the new file. It is not committed: the file, the
  position and the digest of the handle are as before, so the batch may be sent again. Its outcome is
  unknown: the session is poisoned, and the file still starts with everything it held.\<close>

theorem append_batch_outcomes:
  assumes "append_batch E aio mio B s (pr_next s) es disk = Some out" "es \<noteq> []" "pr_key s \<notin> bk_poisoned B"
    and "disk = (if pr_materialized s then Some file else None)"
  shows "append_told B s (length es) (if pr_materialized s then file else []) (batch_bytes E s es) out"
proof (cases "seqs_contiguous (pr_next s) 0 es")
  case (Inl e)
  then show ?thesis using assms by (auto simp: append_batch_def append_told_def)
next
  case (Inr u)
  show ?thesis
  proof (cases "pr_materialized s")
    case True
    then show ?thesis using assms Inr append_existing_told[OF True, of B es _ E aio] by (auto simp: append_batch_def)
  next
    case False
    then obtain r published where m: "materialize_batch E mio B s es = Some (r, published)" "out = (r, published)"
      using assms Inr by (auto simp: append_batch_def split: option.splits)
    show ?thesis using materialize_batch_told[OF False m(1)] m(2) False by simp
  qed
qed

section \<open>The two readers agree\<close>

lemma stream_entries_facts:
  "stream_entries visit from es s = (s', Inr ()) \<Longrightarrow>
    take_in_sequence n (sm_expected s) es = Inr () \<and> sm_expected s' = sm_expected s + length es
    \<and> sm_tracker s' = foldl tracker_observe (sm_tracker s) es"
proof (induction visit "from" es s rule: stream_entries.induct)
  case (2 visit "from" e es s)
  then have q: "se_seq e = sm_expected s" by (auto split: if_splits)
  show ?case
  proof (cases "se_seq e < from")
    case True
    then show ?thesis using 2 q by (simp add: Let_def)
  next
    case False
    let ?s = "s\<lparr>sm_expected := sm_expected s + 1, sm_tracker := tracker_observe (sm_tracker s) e, sm_last := Some (se_type e)\<rparr>"
    obtain v r where v: "visit (sm_visited s) e = (v, r)" by (meson surj_pair)
    with False q 2(3) obtain u where r: "r = Inr u" "stream_entries visit from es (?s\<lparr>sm_visited := v\<rparr>) = (s', Inr ())"
      by (cases r) (simp_all add: Let_def)
    have "take_in_sequence n (sm_expected (?s\<lparr>sm_visited := v\<rparr>)) es = Inr () \<and> sm_expected s' = sm_expected (?s\<lparr>sm_visited := v\<rparr>) + length es
        \<and> sm_tracker s' = foldl tracker_observe (sm_tracker (?s\<lparr>sm_visited := v\<rparr>)) es"
      by (rule 2(2)[of ?s "(v, r)" v r "?s\<lparr>sm_visited := v\<rparr>" u]) (use q False v r in simp_all)
    then show ?thesis using q by simp
  qed
qed simp

lemma capped_line_Some:
  "read_capped_line text' None cap = Inr (Some (line, True, rest)) \<Longrightarrow> text' = line @ lf # rest \<and> lf \<notin> set line"
proof -
  assume r: "read_capped_line text' None cap = Inr (Some (line, True, rest))"
  then have l: "line = takeWhile (\<lambda>c. c \<noteq> lf) text'" "length line < length text'" "rest = drop (length line + 1) text'"
    by (auto simp: read_capped_line_def Let_def split: if_splits)
  then have "text' ! length line = lf" using nth_length_takeWhile[of "\<lambda>c. c \<noteq> lf" text'] by simp
  moreover have "take (length line) text' = line" unfolding l(1) by (metis takeWhile_eq_take)
  ultimately show ?thesis using l by (metis id_take_nth_drop Suc_eq_plus1 set_takeWhileD)
qed

lemma capped_line_None: "read_capped_line text' None cap = Inr None \<Longrightarrow> text' = []"
  by (cases text') (auto simp: read_capped_line_def Let_def split: if_splits)

text \<open>What a stream that ends well has seen: complete lines, which the scan takes in the same order.\<close>

lemma stream_records_scan:
  "stream_records E visit from version text' None s = Some (s', Inr ()) \<Longrightarrow> sm_expected s = length es0 \<Longrightarrow> sm_tracker s = track es0 \<Longrightarrow>
    \<exists>ls es. text' = ended_lines ls \<and> (\<forall>l\<in>set ls. lf \<notin> set l)
      \<and> (\<forall>n c. scan_lines (st_scan E) version n ls es0 c None = Inr (es0 @ es, c + length text'))
      \<and> sm_tracker s' = track (es0 @ es) \<and> sm_expected s' = length (es0 @ es)
      \<and> admit_events_for_version (st_catalog E) es version = Some (Inr ())"
proof (induction E visit "from" version text' "None :: string option" s arbitrary: es0 rule: stream_records.induct)
  case (1 E visit "from" version text' s)
  show ?case
  proof (cases "read_capped_line text' None stream_record_cap = Inr None")
    case True
    then have "text' = []" "s' = s" using 1(2) capped_line_None by (simp_all add: stream_records.simps)
    then show ?thesis using 1(3,4) by (intro exI[of _ "[]"]) simp
  next
    case False
    then obtain line rest es1 s1 where l: "read_capped_line text' None stream_record_cap = Inr (Some (line, True, rest))" "line \<noteq> []"
        "decode_record_line E line version = Inr es1" "admit_events_for_version (st_catalog E) es1 version = Some (Inr ())"
        "stream_entries visit from es1 s = (s1, Inr ())" "stream_records E visit from version rest None s1 = Some (s', Inr ())"
      using 1(2) by (subst (asm) stream_records.simps) (auto split: sum.splits option.splits prod.splits if_splits)
    have split: "text' = line @ lf # rest" "lf \<notin> set line" using capped_line_Some[OF l(1)] by simp_all
    note seen = stream_entries_facts[OF l(5)]
    have n1: "sm_expected s1 = length (es0 @ es1)" "sm_tracker s1 = track (es0 @ es1)"
      using seen 1(3,4) by (simp_all add: track_def)
    then obtain ls es where ih: "rest = ended_lines ls" "\<forall>l\<in>set ls. lf \<notin> set l"
        "\<forall>n c. scan_lines (st_scan E) version n ls (es0 @ es1) c None = Inr ((es0 @ es1) @ es, c + length rest)"
        "sm_tracker s' = track ((es0 @ es1) @ es)" "sm_expected s' = length ((es0 @ es1) @ es)"
        "admit_events_for_version (st_catalog E) es version = Some (Inr ())"
      using 1(1)[OF l(1) refl refl refl _ l(2,3,4) refl refl l(5)[symmetric] refl l(6) n1] by blast
    obtain v where v: "sn_parse (st_scan E) line = Some v"
        "decode_record_value (sn_err (st_scan E)) (sn_legacy (st_scan E)) v version = Inr es1"
      using l(3) by (auto simp: decode_record_line_def split: option.splits)
    have "scan_lines (st_scan E) version n (line # ls) es0 c None = Inr (es0 @ es1 @ es, c + length text')" for n c
      using v ih(3) seen 1(3) split by (simp add: ac_simps)
    moreover have "admit_events_for_version (st_catalog E) (es1 @ es) version = Some (Inr ())"
      using admit_append[OF l(4)] ih(6) by simp
    ultimately show ?thesis using split ih
      by (intro exI[of _ "line # ls"] exI[of _ "es1 @ es"]) simp
  qed
qed

lemma stream_header_Some:
  assumes "stream_header E key text' None = Inr (h, rest)"
  shows "\<exists>line. text' = line @ lf # rest \<and> lf \<notin> set line \<and> st_utf8 E line \<and> header_of_line (st_scan E) line = Inr (Some h)
    \<and> check_identity key h = Inr () \<and> admit_header h = Inr ()"
proof -
  obtain line where "read_capped_line text' None header_read_cap = Inr (Some (line, True, rest))" "st_utf8 E line"
      "header_of_line (st_scan E) line = Inr (Some h)" "check_identity key h = Inr ()" "admit_header h = Inr ()"
    using assms unfolding stream_header_def
    by (auto simp: check_identity_def rbind_def ok_or_def ensure_def map_error_def
      split: sum.splits option.splits if_splits header_error.splits prod.splits)
  then show ?thesis using capped_line_Some by blast
qed

lemma scan_raw_lines:
  assumes "utf8 line" "lf \<notin> set line" "\<forall>l\<in>set ls. lf \<notin> set l" "header_of_line S line = Inr (Some h)"
    and "scan_lines S (sh_version h) 0 ls [] (length line + 1) None = Inr (es, n)"
  shows "scan_raw S utf8 (line @ lf # ended_lines ls) = Inr \<lparr>ls_header = h, ls_events = es, ls_committed = n\<rparr>"
proof -
  have "split_on lf (line @ lf # ended_lines ls) = line # ls @ [[]]"
    using assms(2,3) split_ended[of ls "[]"] by (simp add: split_on_append)
  then show ?thesis using assms by (simp add: scan_raw_def)
qed


section \<open>Preparing a session after a crash\<close>

definition repaired :: "session_event list \<Rightarrow> session_event list" where
  "repaired es = es @ interrupted_turn_closers es"

abbreviation line_of :: "'p store_env \<Rightarrow> session_event \<Rightarrow> string" where
  "line_of E \<equiv> event_line (st_print E) 4"

definition header_line :: "'p store_env \<Rightarrow> session_header \<Rightarrow> string" where
  "header_line E h = st_print E (the (header_value h))"

text \<open>A log of the current version that this program wrote: its lines are read back, shorter than the limits of the
  reader, and admitted; its calls have names.\<close>

definition entries_ok :: "'p store_env \<Rightarrow> session_event list \<Rightarrow> bool" where
  "entries_ok E es \<longleftrightarrow> log_ok es \<and> reads_back (st_scan E) (st_print E) (map (\<lambda>e. record_value 4 (StoreEvent e)) es)
     \<and> list_all (\<lambda>e. line_of E e \<noteq> [] \<and> length (line_of E e) < stream_record_cap) es
     \<and> admit_events_for_version (st_catalog E) es 4 = Some (Inr ())"

definition header_fine :: "'p store_env \<Rightarrow> session_key \<Rightarrow> session_header \<Rightarrow> bool" where
  "header_fine E key h \<longleftrightarrow> header_ok h \<and> sh_version h = 4 \<and> check_identity key h = Inr () \<and> admit_header h = Inr ()
     \<and> st_utf8 E (header_line E h) \<and> reads_back (st_scan E) (st_print E) [the (header_value h)] \<and> length (header_line E h) < header_read_cap"

lemma capped_line_ended:
  "lf \<notin> set line \<Longrightarrow> length line < cap \<Longrightarrow> read_capped_line (line @ lf # rest) err cap = Inr (Some (line, True, rest))"
  by (simp add: read_capped_line_def Let_def takeWhile_append2 takeWhile_eq_all_conv[THEN iffD2] takeWhile_append)

lemma capped_line_fragment:
  assumes "lf \<notin> set frag" "length frag < cap"
  shows "read_capped_line frag None cap = Inr (if frag = [] then None else Some (frag, False, []))"
proof -
  have t: "takeWhile (\<lambda>c. c \<noteq> lf) frag = frag" using assms(1) by (auto simp: takeWhile_eq_all_conv)
  show ?thesis using assms(2) unfolding read_capped_line_def Let_def t by simp
qed

definition entry_read :: "'p store_env \<Rightarrow> session_event \<Rightarrow> bool" where
  "entry_read E e \<longleftrightarrow> event_ok e \<and> sn_parse (st_scan E) (line_of E e) = Some (record_value 4 (StoreEvent e))
     \<and> lf \<notin> set (line_of E e) \<and> line_of E e \<noteq> [] \<and> length (line_of E e) < stream_record_cap
     \<and> admit_events_for_version (st_catalog E) [e] 4 = Some (Inr ())"

lemma admit_each: "admit_events_for_version C es 4 = Some (Inr ()) \<longleftrightarrow> list_all (\<lambda>e. admit_events_for_version C [e] 4 = Some (Inr ())) es"
  by (induction es) (auto split: option.splits sum.splits)

lemma entries_read: "entries_ok E es \<Longrightarrow> list_all (entry_read E) es"
  by (auto simp: entries_ok_def entry_read_def log_ok_def reads_back_def event_line_def list_all_iff admit_each[of _ es])

definition never_fails :: "('v \<Rightarrow> session_event \<Rightarrow> 'v \<times> (string + unit)) \<Rightarrow> bool" where
  "never_fails visit \<longleftrightarrow> (\<forall>v e. snd (visit v e) = Inr ())"

definition plain_entries :: "session_event list \<Rightarrow> bool" where
  "plain_entries es \<longleftrightarrow> list_all (\<lambda>e. se_type e \<noteq> ''developer/message'') es"

lemma stream_records_lines:
  fixes s :: "('v \<times> bool) stream_state"
  assumes "never_fails visit" "lf \<notin> set frag" "length frag < stream_record_cap" "st_compression E = Plain"
  shows "list_all (entry_read E) es \<Longrightarrow> map se_seq es = [sm_expected s..<sm_expected s + length es] \<Longrightarrow> plain_entries es \<Longrightarrow>
    \<exists>s'. stream_records E (note_developer visit) 0 4 (ended_lines (map (line_of E) es) @ frag) None s
        = Some (s', if frag = [] then Inr () else Inl (SxIo ''torn raw final JSONL record''))
      \<and> sm_tracker s' = foldl tracker_observe (sm_tracker s) es \<and> sm_expected s' = sm_expected s + length es
      \<and> sm_last s' = (if es = [] then sm_last s else Some (se_type (last es))) \<and> snd (sm_visited s') = snd (sm_visited s)"
proof (induction es arbitrary: s)
  case Nil
  show ?case using capped_line_fragment[OF assms(2,3)] assms(4) by (subst stream_records.simps) auto
next
  case (Cons e es)
  have e: "entry_read E e" "se_seq e = sm_expected s" "map se_seq es = [sm_expected s + 1..<sm_expected s + 1 + length es]"
      "se_type e \<noteq> ''developer/message''" "list_all (entry_read E) es" "plain_entries es"
    using Cons.prems by (simp_all add: plain_entries_def upt_conv_Cons del: upt_Suc)
  let ?s = "s\<lparr>sm_expected := sm_expected s + 1, sm_tracker := tracker_observe (sm_tracker s) e, sm_last := Some (se_type e)\<rparr>"
  obtain v where v: "visit (fst (sm_visited s)) e = (v, Inr ())"
    using assms(1) by (metis never_fails_def prod.collapse)
  let ?t = "?s\<lparr>sm_visited := (v, snd (sm_visited s))\<rparr>"
  have entries: "stream_entries (note_developer visit) 0 [e] s = (?t, Inr ())"
    using e v by (simp add: note_developer_def)
  have decode: "decode_record_line E (line_of E e) 4 = Inr [e]"
    using e(1) event_record_plain[of e 4] by (simp add: decode_record_line_def entry_read_def)
  have line: "read_capped_line (ended_lines (map (line_of E) (e # es)) @ frag) None stream_record_cap
      = Inr (Some (line_of E e, True, ended_lines (map (line_of E) es) @ frag))"
    using e(1) capped_line_ended[of "line_of E e"] by (simp add: entry_read_def)
  have step: "stream_records E (note_developer visit) 0 4 (ended_lines (map (line_of E) (e # es)) @ frag) None s
      = stream_records E (note_developer visit) 0 4 (ended_lines (map (line_of E) es) @ frag) None ?t"
    using e(1) entries decode by (subst stream_records.simps) (simp only: line, simp add: entry_read_def del: stream_entries.simps)
  obtain s' where "stream_records E (note_developer visit) 0 4 (ended_lines (map (line_of E) es) @ frag) None ?t
        = Some (s', if frag = [] then Inr () else Inl (SxIo ''torn raw final JSONL record''))"
      "sm_tracker s' = foldl tracker_observe (sm_tracker ?t) es" "sm_expected s' = sm_expected ?t + length es"
      "sm_last s' = (if es = [] then sm_last ?t else Some (se_type (last es)))" "snd (sm_visited s') = snd (sm_visited ?t)"
    using Cons.IH[OF e(5) _ e(6), of ?t] e(3) by auto
  then show ?case unfolding step by (intro exI[of _ s']) simp
qed

lemma cut_fragment:
  "lf \<notin> set s \<Longrightarrow> s @ t = ended_lines ls \<Longrightarrow> s = [] \<or> ls \<noteq> [] \<and> length s \<le> length (hd ls)"
proof (cases ls)
  case (Cons l ls')
  assume a: "lf \<notin> set s" "s @ t = ended_lines ls"
  then have "s @ t = l @ lf # ended_lines ls'" using Cons by simp
  then have "s = take (length s) (l @ lf # ended_lines ls')" by (metis append_eq_conv_conj)
  moreover have "lf \<in> set (take (length s) (l @ lf # ended_lines ls'))" if "length l < length s"
    using that by (simp add: take_Cons')
  ultimately show ?thesis using a(1) Cons by (metis list.sel(1) list.distinct(1) not_le)
qed simp

text \<open>The log of a session, cut at some byte after its header.\<close>

lemma cut_log_text:
  assumes "entries_ok E es" "header_fine E key h" "length (log_text (st_print E) h []) \<le> k"
  defines "kept \<equiv> entries_within (st_print E) 4 (k - length (log_text (st_print E) h [])) es"
  shows "\<exists>frag. take k (log_text (st_print E) h es) = log_text (st_print E) h kept @ frag \<and> lf \<notin> set frag
    \<and> length frag < stream_record_cap"
proof -
  let ?k = "k - length (log_text (st_print E) h [])"
  have lines: "\<forall>e\<in>set es. lf \<notin> set (line_of E e)" using entries_read[OF assms(1)] by (simp add: list_all_iff entry_read_def)
  obtain s where s: "take ?k (ended_lines (map (line_of E) es)) = ended_lines (map (line_of E) kept) @ s" "lf \<notin> set s"
    using cut_entries[OF lines] unfolding kept_def by blast
  have v: "sh_version h = 4" using assms(2) by (simp add: header_fine_def)
  have "take k (log_text (st_print E) h es) = log_text (st_print E) h kept @ s"
    using assms(3) s(1) by (simp add: log_text_def v take_Cons')
  moreover have "length s < stream_record_cap"
  proof -
    obtain n where n: "kept = take n es" using entries_within_prefix unfolding kept_def by blast
    have "ended_lines (map (line_of E) kept) @ s @ drop ?k (ended_lines (map (line_of E) es))
        = ended_lines (map (line_of E) kept) @ ended_lines (map (line_of E) (drop n es))"
      using append_take_drop_id[of ?k "ended_lines (map (line_of E) es)"] unfolding s(1) n
      by (simp add: ended_simps(3)[symmetric] map_append[symmetric] del: ended_simps(3) map_append)
    then have "s @ drop ?k (ended_lines (map (line_of E) es)) = ended_lines (map (line_of E) (drop n es))" by simp
    from cut_fragment[OF s(2) this] consider "s = []" | "drop n es \<noteq> []" "length s \<le> length (line_of E (hd (drop n es)))"
      by (auto simp: hd_map)
    then show ?thesis
    proof cases
      case 2
      have "hd (drop n es) \<in> set es" using 2(1) by (meson hd_in_set in_set_dropD)
      then show ?thesis using 2(2) entries_read[OF assms(1)] by (fastforce simp: list_all_iff entry_read_def)
    qed (simp add: stream_record_cap_def)
  qed
  ultimately show ?thesis using s(2) by blast
qed

lemma decode_cut_log:
  assumes "entries_ok E es" "header_fine E key h" "length (log_text (st_print E) h []) \<le> k"
  defines "kept \<equiv> entries_within (st_print E) 4 (k - length (log_text (st_print E) h [])) es"
  shows "decode_plain_log E (take k (log_text (st_print E) h es)) = Inr (h, kept, length kept,
    if length (log_text (st_print E) h kept) < length (take k (log_text (st_print E) h es)) then Some (length (log_text (st_print E) h kept)) else None)"
proof -
  have "scan_raw (st_scan E) (st_utf8 E) (take k (log_text (st_print E) h es))
      = Inr \<lparr>ls_header = h, ls_events = kept, ls_committed = length (log_text (st_print E) h kept)\<rparr>"
    unfolding kept_def
    by (rule scan_cut_log) (use assms in \<open>auto simp: header_fine_def entries_ok_def header_line_def reads_back_def\<close>)
  then show ?thesis by (simp add: decode_plain_log_def map_error_def)
qed

lemma decode_whole_log:
  assumes "entries_ok E es" "header_fine E key h"
  shows "decode_plain_log E (log_text (st_print E) h es) = Inr (h, es, length es, None)"
proof -
  let ?t = "log_text (st_print E) h es" and ?h = "log_text (st_print E) h []"
  have v: "sh_version h = 4" using assms(2) by (simp add: header_fine_def)
  have n: "length ?t = length ?h + length (ended_lines (map (line_of E) es))" by (simp add: log_text_def v)
  then have "entries_within (st_print E) 4 (length ?t - length ?h) es = es" by (intro entries_within_all) simp
  then show ?thesis using decode_cut_log[OF assms, of "length ?t"] n by simp
qed

text \<open>The stream over a log that was cut: it ends well, or with the error that leads to a repair.\<close>

lemma stream_cut_log:
  assumes "entries_ok E es" "header_fine E key h" "st_compression E = Plain" "plain_entries es" "never_fails visit"
    and "lf \<notin> set frag" "length frag < stream_record_cap"
  shows "\<exists>s v'. stream_plain_lines E key (note_developer visit) 0 (v, False) (log_text (st_print E) h es @ frag) None
      = Some ((v', False), if frag = [] then Inr (h, s) else Inl (SxIo ''torn raw final JSONL record''))
    \<and> sm_tracker s = track es \<and> sm_last s = (if es = [] then None else Some (se_type (last es)))"
proof -
  have v: "sh_version h = 4" using assms(2) by (simp add: header_fine_def)
  obtain hv where hv: "header_value h = Some hv" "\<And>err. header_of_value err hv = Inr (Some h)"
    using assms(2) header_roundtrip[of h] unfolding header_fine_def by (metis option.inject)
  let ?rest = "ended_lines (map (line_of E) es) @ frag"
  have t: "log_text (st_print E) h es @ frag = header_line E h @ lf # ?rest" by (simp add: log_text_def header_line_def v)
  have "read_capped_line (header_line E h @ lf # ?rest) None header_read_cap = Inr (Some (header_line E h, True, ?rest))"
    using assms(2) by (intro capped_line_ended) (auto simp: header_fine_def reads_back_def header_line_def)
  moreover have "header_of_line (st_scan E) (header_line E h) = Inr (Some h)"
    using assms(2) hv by (simp add: header_of_line_def header_fine_def reads_back_def header_line_def)
  ultimately have head': "stream_header E key (log_text (st_print E) h es @ frag) None = Inr (h, ?rest)"
    using assms(2) unfolding t stream_header_def by (simp add: header_fine_def check_identity_def map_error_def ensure_def split: if_splits)
  let ?s = "\<lparr>sm_tracker = tracker_default, sm_expected = 0, sm_last = None, sm_visited = (v, False)\<rparr>"
  have seqs: "map se_seq es = [sm_expected ?s..<sm_expected ?s + length es]" using assms(1) by (simp add: entries_ok_def log_ok_def)
  obtain s where s: "stream_records E (note_developer visit) 0 4 ?rest None ?s
        = Some (s, if frag = [] then Inr () else Inl (SxIo ''torn raw final JSONL record''))"
      "sm_tracker s = foldl tracker_observe (sm_tracker ?s) es"
      "sm_last s = (if es = [] then sm_last ?s else Some (se_type (last es)))" "snd (sm_visited s) = snd (sm_visited ?s)"
    using stream_records_lines[OF assms(5,6,7,3) entries_read[OF assms(1)] seqs assms(4)] by blast
  obtain v' where v': "sm_visited s = (v', False)" using s(4) by (cases "sm_visited s") simp
  show ?thesis unfolding stream_plain_lines_def head' using s v'
    by (intro exI[of _ s] exI[of _ v']) (simp add: v track_def)
qed

lemma entries_ok_cut: "entries_ok E es \<Longrightarrow> entries_ok E (take n es)"
  by (auto simp: entries_ok_def log_ok_take reads_back_def list_all_iff admit_each[of _ es] admit_each[of _ "take n es"] dest: in_set_takeD)

lemma repaired_text: "interrupted_turn_closers es \<noteq> [] \<Longrightarrow> sh_version h = 4 \<Longrightarrow>
    log_text print h es @ append_batch_bytes print (interrupted_turn_closers es) pack = log_text print h (repaired es)"
  by (simp add: append_batch_ended repaired_def log_text_def)

lemma closers_contiguous: "log_ok es \<Longrightarrow> seqs_contiguous (length es) 0 (interrupted_turn_closers es) = Inr ()"
proof -
  assume ok: "log_ok es"
  then have "map se_seq (interrupted_turn_closers es) = [length es..<length es + length (interrupted_turn_closers es)]"
    using closers_seqs[of "track es"] track_ok[of es] by (simp add: interrupted_turn_closers_def log_ok_def)
  moreover have "map se_seq cs = [n + i..<n + i + length cs] \<Longrightarrow> seqs_contiguous n i cs = Inr ()" for n i cs
    by (induction cs arbitrary: i) (auto simp: upt_conv_Cons simp del: upt_Suc)
  ultimately show ?thesis by fastforce
qed

text \<open>Calls of the operating system that all succeed, with the revisions they report.\<close>

definition calm_append :: "append_io \<Rightarrow> string \<Rightarrow> bool" where
  "calm_append io r \<longleftrightarrow> ai_open io = None \<and> ai_current io = Inr r \<and> ai_stat io = None \<and> ai_write io = None \<and> ai_sync io = None
     \<and> (\<exists>r'. ai_restat io = Inr r')"

definition calm_repair :: "repair_io \<Rightarrow> string \<Rightarrow> bool" where
  "calm_repair io r \<longleftrightarrow> rp_open io = None \<and> rp_current io = Inr r \<and> rp_set_len io = None \<and> rp_set_sync io = None
     \<and> rp_write io = None \<and> rp_sync io = None \<and> (\<exists>r'. rp_restat io = Inr r')"

definition calm_prepare :: "'p store_env \<Rightarrow> session_key \<Rightarrow> prepare_io \<Rightarrow> bool" where
  "calm_prepare E key io \<longleftrightarrow>
     (\<exists>log r. stream_located E key (pi_stream io) = Inr (log, r) \<and> rl_version log = 4 \<and> si_after (pi_stream io) = Inr r
       \<and> pi_verify io = Inr r \<and> calm_append (pi_append io) r)
     \<and> acquire_lease E key (pi_lease io) = Inr ()
     \<and> (\<exists>log r. locate_log E key (pi_first io) = Inr (log, r) \<and> rl_version log = 4 \<and> calm_repair (pi_repair io) r)
     \<and> (\<exists>log r. locate_log E key (pi_again io) = Inr (log, r) \<and> rl_version log = 4) \<and> (\<exists>d. pi_digest io = Inr d)"

lemma append_closers:
  assumes "calm_append io (pr_revision s)" "pr_dir s" "pr_lease s" "bk_faults B = no_faults" "encode_batch E es = Inr bytes"
  shows "\<exists>B' s'. append_existing E io B s es bs = ((B', Inr s'), bs @ bytes) \<and> pr_next s' = pr_next s + length es \<and> pr_header s' = pr_header s"
  using assms by (auto simp: append_existing_def calm_append_def open_checked_def verify_append_def write_synced_def no_faults_def
    advance_session_def ensure_def Let_def)

lemma encode_batch_plain: "st_compression E = Plain \<Longrightarrow> encode_batch E es = Inr (append_batch_bytes (st_print E) es (st_pack E))"
  by (simp add: encode_batch_def encode_block_def)

lemma read_events_plain:
  assumes "st_compression E = Plain" "locate_log E key io = Inr (log, r)" "rl_version log = 4" "header_fine E key h"
    "decode_plain_log E bytes = Inr (h, es, n, torn)" "admit_events_for_version (st_catalog E) es 4 = Some (Inr ())"
  shows "read_events E key True io bytes
    = Some (Inr \<lparr>rr_header = h, rr_events = es, rr_stable = n, rr_truncate = torn, rr_revision = r\<rparr>)"
  using assms by (simp add: read_events_def decode_log_def header_fine_def ensure_generation_matches_def ensure_def admit_log_def map_error_def)

lemma set_len_prefix: "set_len (length a) (a @ b) = a"
  by simp

lemma commit_repair_plain:
  assumes "st_compression E = Plain" "sh_version h = 4" "calm_repair io r" "log_text (st_print E) h kept @ frag = bytes"
  shows "fst (commit_repair E io \<lparr>rr_header = h, rr_events = kept, rr_stable = length kept,
      rr_truncate = (if frag = [] then None else Some (length (log_text (st_print E) h kept))), rr_revision = r\<rparr>
      (interrupted_turn_closers kept) bytes) = Inr ()"
    "snd (commit_repair E io \<lparr>rr_header = h, rr_events = kept, rr_stable = length kept,
      rr_truncate = (if frag = [] then None else Some (length (log_text (st_print E) h kept))), rr_revision = r\<rparr>
      (interrupted_turn_closers kept) bytes) = log_text (st_print E) h (repaired kept)"
  using assms repaired_text[of kept h "st_print E" "st_pack E"] unfolding assms(4)[symmetric]
  by (cases "frag = []"; cases "interrupted_turn_closers kept = []";
      auto simp: commit_repair_def calm_repair_def some_error_def write_synced_def encode_batch_plain map_error_def repaired_def Let_def)+

text \<open>The closers of a prefix can be written: their calls have names, they fit, and their lines are read back.\<close>

definition closers_fine :: "'p store_env \<Rightarrow> session_event list \<Rightarrow> bool" where
  "closers_fine E es \<longleftrightarrow> calls_named (track es) \<and> length (repaired es) \<le> max_safe + 1
     \<and> reads_back (st_scan E) (st_print E) (map (\<lambda>e. record_value 4 (StoreEvent e)) (interrupted_turn_closers es))
     \<and> list_all (\<lambda>e. line_of E e \<noteq> [] \<and> length (line_of E e) < stream_record_cap) (interrupted_turn_closers es)"

lemma repaired_ok: "entries_ok E es \<Longrightarrow> closers_fine E es \<Longrightarrow> entries_ok E (repaired es)"
  using closers_log_ok[of es] closers_admitted[OF track_counts[of es], of "st_catalog E"] admit_append[of "st_catalog E" es 4]
  by (auto simp: entries_ok_def closers_fine_def repaired_def reads_back_def interrupted_turn_closers_def)

lemma repaired_balanced: "interrupted_turn_closers (repaired es) = []"
  by (simp add: repaired_def closers_balanced)

definition prepared_log :: "'p store_env \<Rightarrow> session_header \<Rightarrow> session_event list
    \<Rightarrow> ((session_backend \<times> (session_error + prepare_outcome)) \<times> string) option \<Rightarrow> bool" where
  "prepared_log E h es out \<longleftrightarrow> (\<exists>B' s streamed. out = Some ((B', Inr (Writable s streamed)), log_text (st_print E) h es)
     \<and> pr_next s = length es \<and> pr_header s = h)"

lemma prepare_streamed:
  fixes visit :: "'v \<Rightarrow> session_event \<Rightarrow> 'v \<times> (string + unit)"
  assumes "st_compression E = Plain" "header_fine E key h" "entries_ok E kept" "plain_entries kept" "never_fails visit"
    and "calm_prepare E key io" "bk_faults B = no_faults" "key \<notin> bk_poisoned B"
  shows "prepared_log E h (repaired kept) (prepare_with_visitor E key visit v io B (log_text (st_print E) h kept))"
proof -
  let ?log = "log_text (st_print E) h kept"
  have ok: "log_ok kept" and h4: "sh_version h = 4" using assms(2,3) by (simp_all add: entries_ok_def header_fine_def)
  obtain s v' where s: "stream_plain_lines E key (note_developer visit) 0 (v, False) ?log None = Some ((v', False), Inr (h, s))"
      "sm_tracker s = track kept"
    using stream_cut_log[OF assms(3,2,1,4,5), of "[]" v] by (auto simp: stream_record_cap_def)
  obtain log r where io: "stream_located E key (pi_stream io) = Inr (log, r)" "rl_version log = 4" "si_after (pi_stream io) = Inr r"
      "pi_verify io = Inr r" "calm_append (pi_append io) r" "acquire_lease E key (pi_lease io) = Inr ()"
    using assms(6) by (auto simp: calm_prepare_def)
  have stream: "stream_events E key 0 (note_developer visit) (v, False) (pi_stream io) ?log
      = Some ((v', False), Inr \<lparr>sr_header = h, sr_revision = r, sr_digest = ?log, sr_state = s\<rparr>)"
    using s(1) io assms(1) h4 by (simp add: stream_events_def ensure_generation_matches_def ensure_def map_error_def)
  have n: "rt_next (track kept) = length kept" using track_ok ok by (simp add: log_ok_def)
  let ?scan = "\<lparr>sr_header = h, sr_revision = r, sr_digest = ?log, sr_state = s\<rparr>"
  have p: "prepare_with_visitor E key visit v io B ?log = Some (map_prod (map_prod id (map_sum id (\<lambda>s. Writable s True))) id
      (prepare_from_stream E key ?scan (pi_append io) B ?log))"
    using assms(8) stream h4 io by (simp add: prepare_with_visitor_def verify_stream_revision_def ensure_def)
  show ?thesis
  proof (cases "interrupted_turn_closers kept = []")
    case True
    then show ?thesis using h4 s(2) n
      by (auto simp: p prepared_log_def prepare_from_stream_def repaired_def interrupted_turn_closers_def Let_def)
  next
    case False
    let ?cs = "interrupted_turn_closers kept"
    let ?B = "B\<lparr>bk_states := (bk_states B)(key \<mapsto> \<lparr>ss_header = h, ss_cursor = length kept, ss_materialized = True\<rparr>)\<rparr>"
    let ?s = "\<lparr>pr_key = key, pr_header = h, pr_next = length kept, pr_materialized = True, pr_dir = True, pr_lease = True,
        pr_revision = r, pr_digest = ?log, pr_seed = False\<rparr>"
    have "\<exists>B' s'. append_existing E (pi_append io) ?B ?s ?cs ?log = ((B', Inr s'), ?log @ append_batch_bytes (st_print E) ?cs (st_pack E))
        \<and> pr_next s' = pr_next ?s + length ?cs \<and> pr_header s' = pr_header ?s"
      by (rule append_closers) (use io(5) assms(7) encode_batch_plain[OF assms(1)] in simp_all)
    then obtain B' s' where a: "append_existing E (pi_append io) ?B ?s ?cs ?log
          = ((B', Inr s'), ?log @ append_batch_bytes (st_print E) ?cs (st_pack E))" "pr_next s' = pr_next ?s + length ?cs" "pr_header s' = pr_header ?s"
      by blast
    have "prepare_from_stream E key ?scan (pi_append io) B ?log = ((B', Inr (s'\<lparr>pr_seed := (0 < pr_next s')\<rparr>)),
        log_text (st_print E) h (repaired kept))"
      using False h4 s(2) n a(1) assms(8) closers_contiguous[OF ok] repaired_text[OF False h4]
      by (simp add: prepare_from_stream_def interrupted_turn_closers_def Let_def)
    then show ?thesis using a(2,3) by (auto simp: p prepared_log_def repaired_def)
  qed
qed

lemma prepare_torn:
  fixes visit :: "'v \<Rightarrow> session_event \<Rightarrow> 'v \<times> (string + unit)"
  assumes "st_compression E = Plain" "header_fine E key h" "entries_ok E kept" "plain_entries kept" "never_fails visit"
    and "calm_prepare E key io" "key \<notin> bk_poisoned B" "closers_fine E kept"
    and "lf \<notin> set frag" "length frag < stream_record_cap" "frag \<noteq> []"
    and "decode_plain_log E (log_text (st_print E) h kept @ frag) = Inr (h, kept, length kept, Some (length (log_text (st_print E) h kept)))"
  shows "prepared_log E h (repaired kept) (prepare_with_visitor E key visit v io B (log_text (st_print E) h kept @ frag))"
proof -
  let ?log = "log_text (st_print E) h kept @ frag"
  have h4: "sh_version h = 4" using assms(2) by (simp add: header_fine_def)
  obtain v' where s: "stream_plain_lines E key (note_developer visit) 0 (v, False) ?log None
      = Some ((v', False), Inl (SxIo ''torn raw final JSONL record''))"
    using stream_cut_log[OF assms(3,2,1,4,5,9,10), of v] assms(11) by auto
  obtain log r where io: "stream_located E key (pi_stream io) = Inr (log, r)" "acquire_lease E key (pi_lease io) = Inr ()"
    using assms(6) by (auto simp: calm_prepare_def)
  obtain log1 r1 where first': "locate_log E key (pi_first io) = Inr (log1, r1)" "rl_version log1 = 4" "calm_repair (pi_repair io) r1"
    using assms(6) by (auto simp: calm_prepare_def)
  obtain log2 r2 where again: "locate_log E key (pi_again io) = Inr (log2, r2)" "rl_version log2 = 4"
    using assms(6) by (auto simp: calm_prepare_def)
  obtain d where d: "pi_digest io = Inr d" using assms(6) by (auto simp: calm_prepare_def)
  have "stream_events E key 0 (note_developer visit) (v, False) (pi_stream io) ?log
      = Some ((v', False), Inl (SxIo ''torn raw final JSONL record''))"
    using s io assms(1) by (simp add: stream_events_def)
  then have p: "prepare_with_visitor E key visit v io B ?log = prepare_from_repair E key io B ?log"
    using assms(7) io by (simp add: prepare_with_visitor_def)
  let ?read = "\<lparr>rr_header = h, rr_events = kept, rr_stable = length kept,
      rr_truncate = (if frag = [] then None else Some (length (log_text (st_print E) h kept))), rr_revision = r1\<rparr>"
  have read: "read_events E key True (pi_first io) ?log = Some (Inr ?read)"
    using read_events_plain[OF assms(1) first'(1,2) assms(2,12)] assms(3,11) by (simp add: entries_ok_def)
  have commit: "commit_repair E (pi_repair io) ?read (interrupted_turn_closers kept) ?log = (Inr (), log_text (st_print E) h (repaired kept))"
    using commit_repair_plain[OF assms(1) h4 first'(3) refl, where kept = kept and frag = frag] by (metis prod.collapse)
  have ok: "entries_ok E (repaired kept)" using repaired_ok assms(3,8) by blast
  have read2: "read_events E key True (pi_again io) (log_text (st_print E) h (repaired kept))
      = Some (Inr \<lparr>rr_header = h, rr_events = repaired kept, rr_stable = length (repaired kept), rr_truncate = None, rr_revision = r2\<rparr>)"
    using read_events_plain[OF assms(1) again assms(2) decode_whole_log[OF ok assms(2)]] ok by (simp add: entries_ok_def)
  have "needs_repair ?read" using assms(11) by (simp add: needs_repair_def)
  then have "prepare_from_repair E key io B ?log = Some ((B\<lparr>bk_states := (bk_states B)(key \<mapsto>
        fresh_state \<lparr>rr_header = h, rr_events = repaired kept, rr_stable = length (repaired kept), rr_truncate = None, rr_revision = r2\<rparr>)\<rparr>,
      Inr (Writable \<lparr>pr_key = key, pr_header = h, pr_next = length (repaired kept), pr_materialized = True, pr_dir = True,
        pr_lease = True, pr_revision = r2, pr_digest = d, pr_seed = ends_unseeded (repaired kept)\<rparr> False)), log_text (st_print E) h (repaired kept))"
    using read commit read2 d h4 by (simp add: prepare_from_repair_def)
  then show ?thesis by (auto simp: p prepared_log_def)
qed


section \<open>A session of one turn\<close>

definition store_entry :: "nat \<Rightarrow> session_event" where
  "store_entry n = (if n = 0 then event_new ''turn/start'' 0 5 (JObj [(''turn'', jcount 1)])
     else if n = 1 then event_new ''turn/end'' 1 6 (JObj [(''turn'', jcount 1)]) else turn_closer 1 5 1)"

definition store_print :: "json \<Rightarrow> string" where
  "store_print j = (case json_get j ''seq'' of None \<Rightarrow> ''H''
     | Some n \<Rightarrow> if n = jcount 0 then ''ab'' else if json_get j ''time'' = Some (JInt 6) then ''cd'' else ''ef'')"

definition store_demo :: "unit store_env" where
  "store_demo = \<lparr>st_print = store_print,
     st_scan = \<lparr>sn_parse = (\<lambda>s. if s = ''H'' then header_value demo_header
       else if s = ''ab'' then Some (record_value 4 (StoreEvent (store_entry 0)))
       else if s = ''cd'' then Some (record_value 4 (StoreEvent (store_entry 1)))
       else if s = ''ef'' then Some (record_value 4 (StoreEvent (store_entry 2))) else None), sn_err = (\<lambda>_. ''bad''), sn_legacy = id\<rparr>,
     st_utf8 = (\<lambda>_. True), st_zstd = \<lparr>zd_compress = Inr, zd_bulk = (\<lambda>_ _. None), zd_stream = (\<lambda>_. Inl [])\<rparr>,
     st_catalog = undefined, st_admission_text = (\<lambda>_. []), st_sha = id, st_compression = Plain, st_pack = True\<rparr>"

definition store_key :: session_key where
  "store_key = \<lparr>sk_project = key_no_cwd, sk_id = ''s''\<rparr>"

definition store_read :: read_io where
  "store_read = \<lparr>ri_listing = Inr (Some demo_listing), ri_dir = None, ri_tries = [Inr (''1:1'', Inr ''1:1'')]\<rparr>"

definition store_append :: append_io where
  "store_append = \<lparr>ai_open = None, ai_current = Inr ''1:1'', ai_digest = Inl [], ai_again = Inl [], ai_stat = None, ai_write = None,
     ai_sync = None, ai_set_len = None, ai_rollback_sync = None, ai_restat = Inr ''1:2''\<rparr>"

definition store_io :: prepare_io where
  "store_io = \<lparr>pi_stream = \<lparr>si_listing = Inr (Some demo_listing), si_open = Inr ''1:1'', si_decoded = ([], None), si_after = Inr ''1:1''\<rparr>,
     pi_lease = \<lparr>le_listing = Inr (Some demo_listing), le_acquire = Inr True\<rparr>, pi_verify = Inr ''1:1'', pi_append = store_append,
     pi_first = store_read,
     pi_repair = \<lparr>rp_open = None, rp_current = Inr ''1:1'', rp_set_len = None, rp_set_sync = None, rp_write = None, rp_sync = None,
       rp_restat = Inr ''1:2''\<rparr>,
     pi_again = store_read, pi_digest = Inr []\<rparr>"

definition store_backend :: session_backend where
  "store_backend = \<lparr>bk_states = (\<lambda>_. None), bk_faults = no_faults, bk_poisoned = {}\<rparr>"

lemma store_key_facts: "validate_key_witness store_key = Inr ()"
    "resolve_log_in_dir Plain store_key demo_listing = Inr (Some \<lparr>rl_name = ''session.v4.jsonl'', rl_version = 4\<rparr>)"
  using demo_key_resolved by (simp_all add: store_key_def validate_key_witness_def expected_bucket_def key_no_cwd_def ensure_def)

lemma store_calm: "calm_prepare store_demo store_key store_io"
  using store_key_facts
  by (simp add: calm_prepare_def store_io_def stream_located_def acquire_lease_def locate_log_def find_log_def store_read_def calm_append_def
    calm_repair_def store_append_def store_demo_def ensure_supported_generation_def ensure_writable_generation_def ensure_def
    map_error_def some_error_def numeral_eq_Suc)

lemma store_lines:
  "line_of store_demo (store_entry 0) = ''ab''" "line_of store_demo (store_entry 1) = ''cd''" "line_of store_demo (store_entry 2) = ''ef''"
  "header_line store_demo demo_header = ''H''"
  by (simp_all add: event_line_def store_demo_def store_print_def record_value_def event_value_def store_entry_def event_new_def
    turn_closer_def jcount_def header_line_def demo_header_def header_new_def header_value_def renamed_surface_def opt_entry_def)

lemma store_seats:
  "event_spec_of ''turn/start'' = Some (seat (Some VTurn) False ReplayTurnStart False)"
  "''turn/start'' \<notin> set retired_event_types" "outside_generation_window ''turn/start'' 4 = None"
  by code_simp+

lemma store_admitted: "admit_event C 4 (store_entry n) = Some (Inr ())"
proof -
  have "count64 1" by (simp add: count64_def)
  then have "validate_turn (store_entry n) = Inr ()"
    by (simp add: validate_turn_def store_entry_def event_new_def turn_closer_def require_u64_count)
  then show ?thesis
    by (auto simp: admit_event_def closer_windows closer_seats store_seats spec_validate_def seat_def store_entry_def event_new_def turn_closer_def)
qed

definition store_log :: "session_event list" where
  "store_log = [store_entry 0, store_entry 1]"

lemma store_closers:
  "interrupted_turn_closers [] = []" "interrupted_turn_closers [store_entry 0] = [store_entry 2]" "interrupted_turn_closers store_log = []"
  by (simp_all add: interrupted_turn_closers_def track_def closers_def tracker_default_def tracker_observe_def store_log_def store_entry_def
    event_new_def count_at_def Let_def)

lemma store_event_ok: "event_ok (store_entry n)" "se_seq (store_entry n) = (if n = 0 then 0 else 1)" "se_type (store_entry n) \<noteq> ''developer/message''"
  by (simp_all add: event_ok_def store_entry_def event_new_def turn_closer_def event_keys_def max_safe_def)

lemma store_reads: "reads_back (st_scan store_demo) (st_print store_demo) (map (\<lambda>e. record_value 4 (StoreEvent e)) (map store_entry ns))"
  if "set ns \<subseteq> {0, 1, 2}"
  using that store_lines(1,2,3) by (auto simp: reads_back_def store_demo_def event_line_def)

lemma store_entries_ok: "entries_ok store_demo store_log"
  using store_reads[of "[0, 1]"] store_lines store_event_ok store_admitted[of "st_catalog store_demo"]
  by (simp add: entries_ok_def store_log_def log_ok_def stream_record_cap_def)

lemma store_calls: "rt_pending (track []) = []" "rt_pending (track [store_entry 0]) = []" "rt_pending (track store_log) = []"
  by (simp_all add: track_def tracker_default_def tracker_observe_def store_log_def store_entry_def event_new_def Let_def)

lemma store_closers_fine: "closers_fine store_demo (take n store_log)"
proof -
  have c: "closers_fine store_demo []" using store_closers store_calls
    by (simp add: closers_fine_def calls_named_def repaired_def reads_back_def)
  have c1: "closers_fine store_demo [store_entry 0]" using store_closers store_calls store_reads[of "[2]"] store_lines
    by (simp add: closers_fine_def calls_named_def repaired_def stream_record_cap_def max_safe_def)
  have c2: "closers_fine store_demo store_log" using store_closers store_calls
    by (simp add: closers_fine_def calls_named_def repaired_def reads_back_def) (simp add: store_log_def max_safe_def)
  have "take n store_log \<in> {[], [store_entry 0], store_log}" by (simp add: store_log_def take_Cons')
  then show ?thesis using c c1 c2 by fastforce
qed

lemma store_header_fine: "header_fine store_demo store_key demo_header"
proof -
  obtain hv where hv: "header_value demo_header = Some hv"
    using header_roundtrip[OF demo_values(1)] by blast
  have "check_identity store_key demo_header = Inr ()" "admit_header demo_header = Inr ()"
    by (simp_all add: check_identity_def ensure_def store_key_def key_no_cwd_def admit_header_def demo_header_def header_new_def)
  moreover have "reads_back (st_scan store_demo) (st_print store_demo) [the (header_value demo_header)]"
    using store_lines(4) hv by (simp add: reads_back_def header_line_def) (simp add: store_demo_def hv)
  moreover have "st_utf8 store_demo s" for s by (simp add: store_demo_def)
  ultimately show ?thesis using demo_values(1,2) store_lines(4) by (simp add: header_fine_def header_read_cap_def)
qed

lemma store_text: "log_text (st_print store_demo) demo_header [] = ''H'' @ [lf]"
    "entries_within (st_print store_demo) 4 4 store_log = [store_entry 0]"
  using store_lines demo_values(2) by (simp_all add: log_text_def header_line_def store_log_def)



text \<open>Loading with repair leaves a poisoned session poisoned when something was repaired.\<close>

lemma repair_keeps_poison:
  assumes "read_events E key True (lo_first io) file = Some (Inr read)" "sh_version (rr_header read) = 4" "needs_repair read"
    and "load_repair E key io B file = Some ((B', r), file')"
  shows "bk_poisoned B' = bk_poisoned B"
  using assms by (auto simp: load_repair_def Let_def split: sum.splits option.splits prod.splits)

definition store_handle :: prepared_session where
  "store_handle = \<lparr>pr_key = store_key, pr_header = demo_header, pr_next = 1, pr_materialized = True, pr_dir = True, pr_lease = True,
     pr_revision = ''1:1'', pr_digest = [], pr_seed = False\<rparr>"

lemma append_batch_outcomes_witness:
  "\<exists>out. append_batch store_demo store_append undefined store_backend store_handle 1 [store_entry 1] (Some ''x'') = Some out
    \<and> append_told store_backend store_handle 1 ''x'' (batch_bytes store_demo store_handle [store_entry 1]) out"
proof -
  obtain out where out: "append_batch store_demo store_append undefined store_backend store_handle 1 [store_entry 1] (Some ''x'') = Some out"
    by (simp add: append_batch_def store_backend_def store_handle_def store_event_ok)
  moreover have "append_told store_backend store_handle 1 ''x'' (batch_bytes store_demo store_handle [store_entry 1]) out"
    using append_batch_outcomes[of store_demo store_append undefined store_backend store_handle "[store_entry 1]" "Some ''x''" out "''x''"] out
    by (simp add: store_backend_def store_handle_def)
  ultimately show ?thesis by blast
qed

end
